(* ===== verification/Prelude.thy ===== *)
theory Prelude
  imports Main "HOL-Library.Char_ord" "HOL-Library.List_Lexorder" "HOL-Library.Product_Lexorder"
begin

text \<open>
  Shared vocabulary of the development: results and the \<open>?\<close> operator, the string
  operations of Rust's standard library that the bridge calls, durations and \<open>i64\<close>
  timestamps, and the generic list lemmas and theorem collections the components use.

  Strings are byte sequences: a Rust \<open>String\<close> is its UTF-8 encoding, so \<open>len\<close> is
  \<^const>\<open>length\<close>, the byte-wise order of \<open>str\<close> (and of SQLite's BINARY collation) is the
  lexicographic order on \<^typ>\<open>char list\<close>, and Unicode white space is recognised by the
  encoded sequences of the code points with the White_Space property.
\<close>

named_theorems res_simps \<open>case analysis on results\<close>

section \<open>Results\<close>

text \<open>\<open>Result<T, E>\<close> is a sum with the error on the left; \<open>and_then\<close> is the \<open>?\<close> operator.\<close>

definition and_then :: "'e + 'a \<Rightarrow> ('a \<Rightarrow> 'e + 'b) \<Rightarrow> 'e + 'b" where
  "and_then r f = (case r of Inl e \<Rightarrow> Inl e | Inr a \<Rightarrow> f a)"

definition map_err :: "('e \<Rightarrow> 'f) \<Rightarrow> 'e + 'a \<Rightarrow> 'f + 'a" where
  "map_err g r = (case r of Inl e \<Rightarrow> Inl (g e) | Inr a \<Rightarrow> Inr a)"

definition ok_or :: "'e \<Rightarrow> 'a option \<Rightarrow> 'e + 'a" where
  "ok_or e x = (case x of None \<Rightarrow> Inl e | Some a \<Rightarrow> Inr a)"

lemma and_then_simps [simp]:
  "and_then (Inl e) f = Inl e" "and_then (Inr a) f = f a"
  by (simp_all add: and_then_def)

lemma map_err_simps [simp]:
  "map_err g (Inl e) = Inl (g e)" "map_err g (Inr a) = Inr a"
  by (simp_all add: map_err_def)

lemma ok_or_simps [simp]:
  "ok_or e None = Inl e" "ok_or e (Some a) = Inr a"
  by (simp_all add: ok_or_def)

lemma and_then_Inr_iff [res_simps]:
  "and_then r f = Inr b \<longleftrightarrow> (\<exists>a. r = Inr a \<and> f a = Inr b)"
  by (cases r) auto

lemma and_then_Inl_iff [res_simps]:
  "and_then r f = Inl e \<longleftrightarrow> r = Inl e \<or> (\<exists>a. r = Inr a \<and> f a = Inl e)"
  by (cases r) auto

lemma map_err_Inr_iff [res_simps]: "map_err g r = Inr a \<longleftrightarrow> r = Inr a"
  by (cases r) auto

lemma map_err_Inl_iff [res_simps]: "map_err g r = Inl e \<longleftrightarrow> (\<exists>e'. r = Inl e' \<and> e = g e')"
  by (cases r) auto

lemma ok_or_Inr_iff [res_simps]: "ok_or e x = Inr a \<longleftrightarrow> x = Some a"
  by (cases x) auto

lemma ok_or_Inl_iff [res_simps]: "ok_or e x = Inl e' \<longleftrightarrow> x = None \<and> e' = e"
  by (cases x) auto

lemma if_Inr_iff [res_simps]:
  "(if b then Inl e else r) = Inr a \<longleftrightarrow> \<not> b \<and> r = Inr a"
  by simp

text \<open>
  An operation on a store returns its result and the store after it: an error does not undo
  what earlier calls of the same request have committed. \<open>bind_op\<close> is \<open>?\<close> between
  two such calls, \<open>read_op\<close> a call that only reads.
\<close>

type_synonym ('e, 'a, 's) op = "'s \<Rightarrow> ('e + 'a) \<times> 's"

definition bind_op :: "('e, 'a, 's) op \<Rightarrow> ('a \<Rightarrow> ('e, 'b, 's) op) \<Rightarrow> ('e, 'b, 's) op" where
  "bind_op m f s = (case m s of (Inl e, s') \<Rightarrow> (Inl e, s') | (Inr a, s') \<Rightarrow> f a s')"

definition return_op :: "'a \<Rightarrow> ('e, 'a, 's) op" where
  "return_op a s = (Inr a, s)"

definition fail_op :: "'e \<Rightarrow> ('e, 'a, 's) op" where
  "fail_op e s = (Inl e, s)"

definition read_op :: "('s \<Rightarrow> 'e + 'a) \<Rightarrow> ('e, 'a, 's) op" where
  "read_op f s = (f s, s)"

definition map_err_op :: "('e \<Rightarrow> 'f) \<Rightarrow> ('e, 'a, 's) op \<Rightarrow> ('f, 'a, 's) op" where
  "map_err_op g m s = (case m s of (r, s') \<Rightarrow> (map_err g r, s'))"

text \<open>Matching on the result of a call, errors included.\<close>

definition catch_op :: "('e, 'a, 's) op \<Rightarrow> ('e + 'a \<Rightarrow> ('f, 'b, 's) op) \<Rightarrow> ('f, 'b, 's) op" where
  "catch_op m f s = (case m s of (r, s') \<Rightarrow> f r s')"

text \<open>
  A statement or transaction on the database commits its effect or leaves the store as it was.
\<close>

definition commit_op :: "('s \<Rightarrow> 'e + ('a \<times> 's)) \<Rightarrow> ('e, 'a, 's) op" where
  "commit_op f s = (case f s of Inl e \<Rightarrow> (Inl e, s) | Inr (a, s') \<Rightarrow> (Inr a, s'))"

lemma bind_op_Inr_iff [res_simps]:
  "bind_op m f s = (Inr b, t) \<longleftrightarrow> (\<exists>a s'. m s = (Inr a, s') \<and> f a s' = (Inr b, t))"
  by (auto simp: bind_op_def split: prod.splits sum.splits)

lemma bind_op_Inl_iff [res_simps]:
  "bind_op m f s = (Inl e, t) \<longleftrightarrow>
     m s = (Inl e, t) \<or> (\<exists>a s'. m s = (Inr a, s') \<and> f a s' = (Inl e, t))"
  by (auto simp: bind_op_def split: prod.splits sum.splits)

lemma return_op_iff [res_simps]: "return_op a s = (r, t) \<longleftrightarrow> r = Inr a \<and> t = s"
  by (auto simp: return_op_def)

lemma fail_op_iff [res_simps]: "fail_op e s = (r, t) \<longleftrightarrow> r = Inl e \<and> t = s"
  by (auto simp: fail_op_def)

lemma read_op_iff [res_simps]: "read_op f s = (r, t) \<longleftrightarrow> f s = r \<and> t = s"
  by (auto simp: read_op_def)

lemma map_err_op_Inr_iff [res_simps]: "map_err_op g m s = (Inr a, t) \<longleftrightarrow> m s = (Inr a, t)"
  by (auto simp: map_err_op_def map_err_Inr_iff split: prod.splits)

lemma map_err_op_Inl_iff [res_simps]:
  "map_err_op g m s = (Inl e, t) \<longleftrightarrow> (\<exists>e'. m s = (Inl e', t) \<and> e = g e')"
  by (auto simp: map_err_op_def map_err_Inl_iff split: prod.splits)

lemma catch_op_iff [res_simps]:
  "catch_op m f s = (r, t) \<longleftrightarrow> (\<exists>r' s'. m s = (r', s') \<and> f r' s' = (r, t))"
  by (auto simp: catch_op_def split: prod.splits)

lemma commit_op_Inr_iff [res_simps]: "commit_op f s = (Inr a, t) \<longleftrightarrow> f s = Inr (a, t)"
  by (auto simp: commit_op_def split: sum.splits prod.splits)

lemma commit_op_Inl_iff [res_simps]: "commit_op f s = (Inl e, t) \<longleftrightarrow> f s = Inl e \<and> t = s"
  by (auto simp: commit_op_def split: sum.splits prod.splits)

section \<open>Strings\<close>

text \<open>
  \<open>ws_len s\<close> is the number of bytes of the white-space character that \<open>s\<close> starts
  with, 0 if it starts with none: U+0009 to U+000D, U+0020, U+0085, U+00A0, U+1680, U+2000 to
  U+200A, U+2028, U+2029, U+202F, U+205F and U+3000 in UTF-8.
\<close>

definition ascii_ws :: "char \<Rightarrow> bool" where
  "ascii_ws c \<longleftrightarrow> c \<in> {CHR 0x09, CHR 0x0A, CHR 0x0B, CHR 0x0C, CHR 0x0D, CHR 0x20}"

definition ws2 :: "char \<Rightarrow> char \<Rightarrow> bool" where
  "ws2 a b \<longleftrightarrow> a = CHR 0xC2 \<and> b \<in> {CHR 0x85, CHR 0xA0}"

definition ws3 :: "char \<Rightarrow> char \<Rightarrow> char \<Rightarrow> bool" where
  "ws3 a b c \<longleftrightarrow>
     (a, b, c) \<in> {(CHR 0xE1, CHR 0x9A, CHR 0x80), (CHR 0xE2, CHR 0x81, CHR 0x9F),
                  (CHR 0xE3, CHR 0x80, CHR 0x80)} \<or>
     a = CHR 0xE2 \<and> b = CHR 0x80 \<and>
       (CHR 0x80 \<le> c \<and> c \<le> CHR 0x8A \<or> c \<in> {CHR 0xA8, CHR 0xA9, CHR 0xAF})"

fun ws_len :: "string \<Rightarrow> nat" where
  "ws_len [] = 0"
| "ws_len [a] = (if ascii_ws a then 1 else 0)"
| "ws_len [a, b] = (if ascii_ws a then 1 else if ws2 a b then 2 else 0)"
| "ws_len (a # b # c # s) =
     (if ascii_ws a then 1 else if ws2 a b then 2 else if ws3 a b c then 3 else 0)"

text \<open>The same at the end of a string, read from its last byte backwards.\<close>

fun ws_len_end :: "string \<Rightarrow> nat" where
  "ws_len_end [] = 0"
| "ws_len_end [a] = (if ascii_ws a then 1 else 0)"
| "ws_len_end [b, a] = (if ascii_ws b then 1 else if ws2 a b then 2 else 0)"
| "ws_len_end (c # b # a # s) =
     (if ascii_ws c then 1 else if ws2 b c then 2 else if ws3 a b c then 3 else 0)"

lemma ws_len_le: "ws_len s \<le> length s"
  by (induction s rule: ws_len.induct) auto

lemma ws_len_end_le: "ws_len_end s \<le> length s"
  by (induction s rule: ws_len_end.induct) auto

function strip_ws :: "(string \<Rightarrow> nat) \<Rightarrow> string \<Rightarrow> string" where
  "strip_ws f s = (if f s = 0 \<or> s = [] then s else strip_ws f (drop (f s) s))"
  by pat_completeness auto
termination
  by (relation "measure (\<lambda>(f, s). length s)") auto

declare strip_ws.simps [simp del]

definition trim_start :: "string \<Rightarrow> string" where
  "trim_start s = strip_ws ws_len s"

definition trim_end :: "string \<Rightarrow> string" where
  "trim_end s = rev (strip_ws ws_len_end (rev s))"

definition trim :: "string \<Rightarrow> string" where
  "trim s = trim_end (trim_start s)"

fun any_whitespace :: "string \<Rightarrow> bool" where
  "any_whitespace [] = False"
| "any_whitespace (c # s) = (ws_len (c # s) \<noteq> 0 \<or> any_whitespace s)"

definition ascii_lower_char :: "char \<Rightarrow> char" where
  "ascii_lower_char c = (if CHR ''A'' \<le> c \<and> c \<le> CHR ''Z'' then char_of (of_char c + 32 :: nat) else c)"

definition ascii_upper_char :: "char \<Rightarrow> char" where
  "ascii_upper_char c = (if CHR ''a'' \<le> c \<and> c \<le> CHR ''z'' then char_of (of_char c - 32 :: nat) else c)"

definition to_ascii_lowercase :: "string \<Rightarrow> string" where
  "to_ascii_lowercase s = map ascii_lower_char s"

definition to_ascii_uppercase :: "string \<Rightarrow> string" where
  "to_ascii_uppercase s = map ascii_upper_char s"

definition eq_ignore_ascii_case :: "string \<Rightarrow> string \<Rightarrow> bool" where
  "eq_ignore_ascii_case a b \<longleftrightarrow> to_ascii_lowercase a = to_ascii_lowercase b"

fun starts_with :: "string \<Rightarrow> string \<Rightarrow> bool" where
  "starts_with s [] = True"
| "starts_with [] (p # ps) = False"
| "starts_with (c # s) (p # ps) = (c = p \<and> starts_with s ps)"

definition strip_prefix :: "string \<Rightarrow> string \<Rightarrow> string option" where
  "strip_prefix p s = (if starts_with s p then Some (drop (length p) s) else None)"

definition strip_suffix :: "string \<Rightarrow> string \<Rightarrow> string option" where
  "strip_suffix p s = map_option rev (strip_prefix (rev p) (rev s))"

definition trim_end_matches :: "char \<Rightarrow> string \<Rightarrow> string" where
  "trim_end_matches c s = rev (dropWhile (\<lambda>x. x = c) (rev s))"

text \<open>\<open>str::contains\<close> for a string pattern, and \<open>rsplit_once\<close> at the last separator.\<close>

fun contains_str :: "string \<Rightarrow> string \<Rightarrow> bool" where
  "contains_str [] p = (p = [])"
| "contains_str (c # s) p = (starts_with (c # s) p \<or> contains_str s p)"

definition rsplit_once :: "char \<Rightarrow> string \<Rightarrow> (string \<times> string) option" where
  "rsplit_once c s =
     (if c \<in> set s
      then Some (rev (tl (dropWhile (\<lambda>x. x \<noteq> c) (rev s))), rev (takeWhile (\<lambda>x. x \<noteq> c) (rev s)))
      else None)"


lemma starts_with_take: "starts_with s p \<longleftrightarrow> take (length p) s = p"
  by (induction s p rule: starts_with.induct) auto

lemma starts_with_append [simp]: "starts_with (p @ s) p"
  by (induction p) auto

lemma starts_with_iff: "starts_with s p \<longleftrightarrow> (\<exists>r. s = p @ r)"
  by (metis append_take_drop_id starts_with_append starts_with_take)

lemma strip_prefix_append [simp]: "strip_prefix p (p @ s) = Some s"
  by (simp add: strip_prefix_def)

lemma strip_prefix_Some_iff: "strip_prefix p s = Some r \<longleftrightarrow> s = p @ r"
  by (auto simp: strip_prefix_def starts_with_iff)

lemma strip_suffix_append [simp]: "strip_suffix p (s @ p) = Some s"
  by (simp add: strip_suffix_def)

lemma strip_suffix_Some_iff: "strip_suffix p s = Some r \<longleftrightarrow> s = r @ p"
proof
  assume "strip_suffix p s = Some r"
  then have "rev s = rev p @ rev r"
    by (auto simp: strip_suffix_def strip_prefix_Some_iff)
  then show "s = r @ p"
    by (metis rev_append rev_rev_ident)
qed simp

lemma contains_str_iff: "contains_str s p \<longleftrightarrow> (\<exists>a b. s = a @ p @ b)"
proof (induction s)
  case (Cons c s)
  have "contains_str (c # s) p \<longleftrightarrow> (\<exists>b. c # s = p @ b) \<or> (\<exists>a b. s = a @ p @ b)"
    using Cons by (simp add: starts_with_iff)
  also have "\<dots> \<longleftrightarrow> (\<exists>a b. c # s = a @ p @ b)"
  proof
    assume "\<exists>a b. c # s = a @ p @ b"
    then obtain a b where "c # s = a @ p @ b" by blast
    then show "(\<exists>b. c # s = p @ b) \<or> (\<exists>a b. s = a @ p @ b)"
      by (cases a) auto
  next
    assume "(\<exists>b. c # s = p @ b) \<or> (\<exists>a b. s = a @ p @ b)"
    then show "\<exists>a b. c # s = a @ p @ b"
      by (metis append_Cons append_Nil)
  qed
  finally show ?case .
qed auto

lemma rsplit_once_Some:
  assumes "rsplit_once c s = Some (a, b)"
  shows "s = a @ c # b \<and> c \<notin> set b"
proof -
  let ?r = "rev s"
  from assms have c: "c \<in> set ?r" and a: "a = rev (tl (dropWhile (\<lambda>x. x \<noteq> c) ?r))"
    and b: "b = rev (takeWhile (\<lambda>x. x \<noteq> c) ?r)"
    by (auto simp: rsplit_once_def split: if_splits)
  from c have ne: "dropWhile (\<lambda>x. x \<noteq> c) ?r \<noteq> []"
    by (auto simp: dropWhile_eq_Nil_conv)
  then obtain d ds where d: "dropWhile (\<lambda>x. x \<noteq> c) ?r = d # ds"
    by (cases "dropWhile (\<lambda>x. x \<noteq> c) ?r") auto
  have "d = c"
    using hd_dropWhile [OF ne] d by simp
  have "rev (takeWhile (\<lambda>x. x \<noteq> c) ?r @ d # ds) = s"
    using takeWhile_dropWhile_id [of "\<lambda>x. x \<noteq> c" ?r] by (simp only: d rev_rev_ident)
  then have "s = rev ds @ d # rev (takeWhile (\<lambda>x. x \<noteq> c) ?r)"
    by (simp only: rev_append rev.simps append_assoc append_Cons append_Nil)
  with a b d \<open>d = c\<close> show ?thesis
    by (auto dest: set_takeWhileD)
qed

subsection \<open>White space and case\<close>

lemma strip_ws_stop: "f s = 0 \<Longrightarrow> strip_ws f s = s"
  by (simp add: strip_ws.simps)

lemma strip_ws_stops:
  assumes "\<And>s. f s \<le> length s"
  shows "f (strip_ws f s) = 0"
proof (induction s rule: length_induct)
  case (1 s)
  show ?case
  proof (cases "f s = 0 \<or> s = []")
    case True
    then show ?thesis using assms [of "[]"] by (auto simp: strip_ws.simps)
  next
    case False
    with "1" show ?thesis by (simp add: strip_ws.simps [of f s])
  qed
qed

lemma strip_ws_idem: "(\<And>s. f s \<le> length s) \<Longrightarrow> strip_ws f (strip_ws f s) = strip_ws f s"
  by (rule strip_ws_stop) (rule strip_ws_stops)

lemma strip_ws_suffix: "\<exists>p. s = p @ strip_ws f s"
proof (induction s rule: length_induct)
  case (1 s)
  show ?case
  proof (cases "f s = 0 \<or> s = []")
    case False
    then have "length (drop (f s) s) < length s" by auto
    with "1" obtain p where "drop (f s) s = p @ strip_ws f (drop (f s) s)" by blast
    then have "s = (take (f s) s @ p) @ strip_ws f (drop (f s) s)"
      by (metis append.assoc append_take_drop_id)
    moreover from False have "strip_ws f (drop (f s) s) = strip_ws f s"
      by (simp add: strip_ws.simps [of f s])
    ultimately show ?thesis by metis
  qed (auto simp: strip_ws.simps)
qed

lemma strip_ws_map:
  assumes "\<And>s. f (map g s) = f s"
  shows "strip_ws f (map g s) = map g (strip_ws f s)"
proof (induction s rule: length_induct)
  case (1 s)
  show ?case
  proof (cases "f s = 0 \<or> s = []")
    case False
    then have "length (drop (f s) s) < length s" by auto
    with "1" have "strip_ws f (map g (drop (f s) s)) = map g (strip_ws f (drop (f s) s))" by blast
    with False show ?thesis
      by (simp add: strip_ws.simps [of f s] strip_ws.simps [of f "map g s"] assms drop_map)
  qed (auto simp: strip_ws.simps assms)
qed

lemma ws_len_append: "ws_len s \<noteq> 0 \<Longrightarrow> ws_len (s @ t) \<noteq> 0"
proof (induction s rule: ws_len.induct)
  case (2 a)
  then show ?case by (cases t rule: ws_len.cases) (auto split: if_splits)
next
  case (3 a b)
  then show ?case by (cases t) (auto split: if_splits)
qed (auto split: if_splits)

lemma trim_end_prefix: "\<exists>r. s = trim_end s @ r"
proof -
  obtain p where "rev s = p @ strip_ws ws_len_end (rev s)"
    using strip_ws_suffix by blast
  then have "s = rev (strip_ws ws_len_end (rev s)) @ rev p"
    by (metis rev_append rev_rev_ident)
  then show ?thesis by (auto simp: trim_end_def)
qed

lemma trim_start_idem: "trim_start (trim_start s) = trim_start s"
  by (simp add: trim_start_def strip_ws_idem ws_len_le)

lemma trim_end_idem: "trim_end (trim_end s) = trim_end s"
  by (simp add: trim_end_def strip_ws_idem ws_len_end_le)

lemma ws_len_trim [simp]: "ws_len (trim s) = 0"
proof -
  obtain r where "trim_start s = trim s @ r"
    using trim_end_prefix [of "trim_start s"] by (auto simp: trim_def)
  moreover have "ws_len (trim_start s) = 0"
    by (simp add: trim_start_def strip_ws_stops ws_len_le)
  ultimately show ?thesis
    using ws_len_append [of "trim s" r] by (cases "ws_len (trim s)") auto
qed

lemma trim_idem [simp]: "trim (trim s) = trim s"
proof -
  have "trim_start (trim s) = trim s"
    by (simp add: trim_start_def strip_ws_stop)
  then show ?thesis by (simp add: trim_def trim_end_idem)
qed

lemma trim_Nil [simp]: "trim [] = []"
  by (simp add: trim_def trim_start_def trim_end_def strip_ws.simps)


lemma of_char_lower:
  "(of_char (ascii_lower_char c) :: nat) =
     (if 65 \<le> (of_char c :: nat) \<and> (of_char c :: nat) \<le> 90 then of_char c + 32 else of_char c)"
  by (auto simp: ascii_lower_char_def less_eq_char_def)

lemma ascii_lower_char_fix:
  "ascii_lower_char c \<noteq> c \<Longrightarrow> 97 \<le> (of_char (ascii_lower_char c) :: nat) \<and>
     (of_char (ascii_lower_char c) :: nat) \<le> 122 \<and> 65 \<le> (of_char c :: nat) \<and> (of_char c :: nat) \<le> 90"
  by (auto simp: ascii_lower_char_def less_eq_char_def split: if_splits)

lemma ascii_lower_char_eq_iff:
  assumes "(of_char d :: nat) < 65 \<or> 122 < (of_char d :: nat)"
  shows "ascii_lower_char c = d \<longleftrightarrow> c = d"
  using assms ascii_lower_char_fix [of c] ascii_lower_char_fix [of d] by fastforce

lemma ascii_lower_char_idem [simp]: "ascii_lower_char (ascii_lower_char c) = ascii_lower_char c"
proof -
  have "(of_char (ascii_lower_char (ascii_lower_char c)) :: nat) = of_char (ascii_lower_char c)"
    by (simp add: of_char_lower)
  then show ?thesis by simp
qed

lemma ascii_ws_lower [simp]: "ascii_ws (ascii_lower_char c) = ascii_ws c"
  by (simp add: ascii_ws_def ascii_lower_char_eq_iff)

lemma ws2_lower [simp]: "ws2 (ascii_lower_char a) (ascii_lower_char b) = ws2 a b"
  by (simp add: ws2_def ascii_lower_char_eq_iff)

lemma ws3_lower [simp]:
  "ws3 (ascii_lower_char a) (ascii_lower_char b) (ascii_lower_char c) = ws3 a b c"
proof -
  have "CHR 0x80 \<le> ascii_lower_char c \<and> ascii_lower_char c \<le> CHR 0x8A \<longleftrightarrow> CHR 0x80 \<le> c \<and> c \<le> CHR 0x8A"
    using ascii_lower_char_fix [of c]
    by (cases "ascii_lower_char c = c") (auto simp: less_eq_char_def)
  then show ?thesis
    by (simp add: ws3_def ascii_lower_char_eq_iff)
qed

lemma ws_len_lower: "ws_len (map ascii_lower_char s) = ws_len s"
  by (induction s rule: ws_len.induct) simp_all

lemma ws_len_end_lower: "ws_len_end (map ascii_lower_char s) = ws_len_end s"
  by (induction s rule: ws_len_end.induct) simp_all

lemma trim_lower: "trim (to_ascii_lowercase s) = to_ascii_lowercase (trim s)"
  by (simp add: trim_def trim_start_def trim_end_def to_ascii_lowercase_def
      strip_ws_map ws_len_lower ws_len_end_lower rev_map)

lemma to_ascii_lowercase_idem [simp]:
  "to_ascii_lowercase (to_ascii_lowercase s) = to_ascii_lowercase s"
  by (simp add: to_ascii_lowercase_def)

lemma to_ascii_lowercase_Nil [simp]: "to_ascii_lowercase [] = []" "to_ascii_lowercase s = [] \<longleftrightarrow> s = []"
  by (simp_all add: to_ascii_lowercase_def)

lemma any_whitespace_lower: "any_whitespace (to_ascii_lowercase s) = any_whitespace s"
proof (induction s)
  case (Cons c s)
  have "ws_len (ascii_lower_char c # map ascii_lower_char s) = ws_len (c # s)"
    using ws_len_lower [of "c # s"] by simp
  with Cons show ?case
    by (simp add: to_ascii_lowercase_def)
qed (simp add: to_ascii_lowercase_def)

section \<open>Time\<close>

text \<open>
  A \<open>Duration\<close> is a whole number of nanoseconds. A Unix timestamp is an \<open>i64\<close>: the
  bridge is built without overflow checks in release mode, so its additions wrap around
  at 64 bits, which \<open>i64_add\<close> writes out; conversions from \<open>u64\<close> saturate.
  Every reading of the system clock is an argument of the operation that takes it.
\<close>

type_synonym duration = nat
type_synonym i64 = int

definition nanos_per_sec :: nat where
  "nanos_per_sec = 1000000000"

definition duration_from_secs :: "nat \<Rightarrow> duration" where
  "duration_from_secs s = s * nanos_per_sec"

definition as_secs :: "duration \<Rightarrow> nat" where
  "as_secs d = d div nanos_per_sec"

definition i64_max :: i64 where
  "i64_max = 9223372036854775807"

definition i64_wrap :: "int \<Rightarrow> i64" where
  "i64_wrap x = (x + 9223372036854775808) mod 18446744073709551616 - 9223372036854775808"

definition i64_add :: "i64 \<Rightarrow> i64 \<Rightarrow> i64" where
  "i64_add a b = i64_wrap (a + b)"

definition i64_sub :: "i64 \<Rightarrow> i64 \<Rightarrow> i64" where
  "i64_sub a b = i64_wrap (a - b)"

definition i64_from_u64 :: "nat \<Rightarrow> i64" where
  "i64_from_u64 n = (if int n \<le> i64_max then int n else i64_max)"

lemma i64_wrap_id: "- i64_max - 1 \<le> x \<Longrightarrow> x \<le> i64_max \<Longrightarrow> i64_wrap x = x"
  by (simp add: i64_wrap_def i64_max_def)

lemma i64_wrap_range: "- i64_max - 1 \<le> i64_wrap x \<and> i64_wrap x \<le> i64_max"
  by (simp add: i64_wrap_def i64_max_def)

lemma i64_from_u64_bounds: "0 \<le> i64_from_u64 n \<and> i64_from_u64 n \<le> i64_max"
  by (simp add: i64_from_u64_def i64_max_def)

end
