(* ===== verification/Core_Model.thy ===== *)
theory Core_Model
  imports Prelude
begin

text \<open>
  The protocol-independent domain of \<open>lore-auth-core\<close>: its error type
  (\<open>src/crates/lore-auth-core/src/lib.rs\<close>), roles and permissions, resource
  identifiers, the normalisation of account emails and repository identifiers, and the data
  that the ports exchange (\<open>model.rs\<close>). Each struct is a record whose fields carry
  the source's field names behind a short prefix; \<open>Default::default()\<close> is a constant.

  A formatted message is the list of its pieces: literal text, a \<open>{:?}\<close> argument
  (\<open>Dbg\<close>), or the display of an error of another library, none of which the code inspects.
\<close>

section \<open>Errors\<close>

datatype rusqlite_error =
    QueryReturnedNoRows
  | UniqueConstraint string
  | ForeignKeyConstraint
  | InvalidColumnType nat string
  | InvalidQuery

datatype authz_error = Datastore rusqlite_error | AuthzOther string

datatype fmt = Lit string | Dbg string | DispSql rusqlite_error | DispAuthz authz_error

type_synonym message = "fmt list"

datatype CoreError =
    NotFound
  | AuthSessionNotFound
  | InvalidArgument message
  | PermissionDenied
  | Unauthenticated
  | Unsupported
  | SigningKeyUnavailable
  | TokenIssueFailed
  | DeviceInvalidCode
  | DeviceExpiredCode
  | DeviceAuthorizationNotPending
  | DeviceIncompleteAuthorization
  | AdminAuditFailed message

text \<open>\<open>Display\<close> of an error.\<close>

fun CoreError_display :: "CoreError \<Rightarrow> message" where
  "CoreError_display NotFound = [Lit ''not found'']"
| "CoreError_display AuthSessionNotFound = [Lit ''auth session not found'']"
| "CoreError_display (InvalidArgument m) = Lit ''invalid argument: '' # m"
| "CoreError_display PermissionDenied = [Lit ''permission denied'']"
| "CoreError_display Unauthenticated = [Lit ''unauthenticated'']"
| "CoreError_display Unsupported = [Lit ''unsupported'']"
| "CoreError_display SigningKeyUnavailable = [Lit ''signing key unavailable'']"
| "CoreError_display TokenIssueFailed = [Lit ''token issue failed'']"
| "CoreError_display DeviceInvalidCode = [Lit ''device invalid code'']"
| "CoreError_display DeviceExpiredCode = [Lit ''device expired code'']"
| "CoreError_display DeviceAuthorizationNotPending = [Lit ''device authorization is not pending'']"
| "CoreError_display DeviceIncompleteAuthorization = [Lit ''device incomplete authorization'']"
| "CoreError_display (AdminAuditFailed m) = Lit ''operation rolled back because audit logging failed: '' # m"

type_synonym 'a core_result = "CoreError + 'a"

section \<open>Roles and permissions\<close>

datatype Permission = Read | Write | Admin

fun Permission_as_str :: "Permission \<Rightarrow> string" where
  "Permission_as_str Read = ''read''"
| "Permission_as_str Write = ''write''"
| "Permission_as_str Admin = ''admin''"

definition Permission_from_name :: "string \<Rightarrow> Permission option" where
  "Permission_from_name value =
     (if value = ''read'' then Some Read
      else if value = ''write'' then Some Write
      else if value = ''admin'' then Some Admin
      else None)"

datatype Role = Role_Reader | Role_Writer | Role_Admin

fun Role_as_str :: "Role \<Rightarrow> string" where
  "Role_as_str Role_Reader = ''reader''"
| "Role_as_str Role_Writer = ''writer''"
| "Role_as_str Role_Admin = ''admin''"

definition Role_from_name :: "string \<Rightarrow> Role option" where
  "Role_from_name value =
     (if value = ''reader'' then Some Role_Reader
      else if value = ''writer'' then Some Role_Writer
      else if value = ''admin'' then Some Role_Admin
      else None)"

fun Role_permissions :: "Role \<Rightarrow> Permission list option" where
  "Role_permissions Role_Reader = Some [Read]"
| "Role_permissions Role_Writer = Some [Read, Write]"
| "Role_permissions Role_Admin = Some [Read, Write, Admin]"

fun Role_token_permissions :: "Role \<Rightarrow> Permission list option" where
  "Role_token_permissions Role_Admin = Some [Read, Write]"
| "Role_token_permissions r = Role_permissions r"

definition Role_allows :: "Role \<Rightarrow> Permission \<Rightarrow> bool" where
  "Role_allows r action =
     (case Role_permissions r of None \<Rightarrow> False | Some permissions \<Rightarrow> action \<in> set permissions)"

definition role_permissions :: "string \<Rightarrow> Permission list option" where
  "role_permissions role = Option.bind (Role_from_name role) Role_permissions"

definition is_known_role :: "string \<Rightarrow> bool" where
  "is_known_role role \<longleftrightarrow> Role_from_name role \<noteq> None"

definition role_allows :: "string \<Rightarrow> string \<Rightarrow> bool" where
  "role_allows role action =
     (case Role_from_name role of
        None \<Rightarrow> False
      | Some r \<Rightarrow>
          (case Permission_from_name action of
             None \<Rightarrow> False
           | Some a \<Rightarrow> Role_allows r a))"

definition token_permissions_for_role :: "string \<Rightarrow> Permission list option" where
  "token_permissions_for_role role = Option.bind (Role_from_name role) Role_token_permissions"

section \<open>Resource identifiers\<close>

definition urc_prefix :: string where
  "urc_prefix = ''urc-''"

definition for_repository_id :: "string \<Rightarrow> string option" where
  "for_repository_id repository_id =
     (if repository_id = [] then None
      else if starts_with repository_id urc_prefix then Some repository_id
      else Some (urc_prefix @ repository_id))"

definition repository_id_from_resource_id :: "string \<Rightarrow> string" where
  "repository_id_from_resource_id resource_id =
     (case strip_prefix urc_prefix resource_id of None \<Rightarrow> resource_id | Some r \<Rightarrow> r)"

section \<open>Normalisation\<close>

definition normalize_email :: "string \<Rightarrow> string" where
  "normalize_email email = to_ascii_lowercase (trim email)"

definition normalize_valid_account_email :: "string \<Rightarrow> string option" where
  "normalize_valid_account_email email =
     (let normalized = normalize_email email in
      if normalized = [] \<or> CHR ''@'' \<notin> set normalized \<or> any_whitespace normalized
      then None else Some normalized)"

definition repository_id_byte :: "char \<Rightarrow> bool" where
  "repository_id_byte b \<longleftrightarrow>
     CHR ''0'' \<le> b \<and> b \<le> CHR ''9'' \<or> CHR ''A'' \<le> b \<and> b \<le> CHR ''Z'' \<or>
     CHR ''a'' \<le> b \<and> b \<le> CHR ''z'' \<or> b = CHR ''-'' \<or> b = CHR ''_''"

definition normalize_valid_lore_repository_id :: "string \<Rightarrow> string option" where
  "normalize_valid_lore_repository_id value =
     (let value = trim value in
      if value = [] \<or> length value > 128 \<or> \<not> list_all repository_id_byte value
      then None else Some value)"

section \<open>Data\<close>

record Group =
  g_id :: string
  g_name :: string
  g_description :: string

record Grant =
  gr_id :: string
  gr_subject_type :: string
  gr_subject_id :: string
  gr_repository_id :: string
  gr_role :: string

record GrantEvidence =
  ge_subject_type :: string
  ge_subject_id :: string
  ge_subject_name :: string
  ge_role :: string
  ge_path :: string

record AdminAuditEntry =
  aa_id :: string
  aa_actor :: string
  aa_action :: string
  aa_object_type :: string
  aa_object_id :: string
  aa_detail :: string
  aa_created_at :: i64

record SigningKeyMeta =
  sk_kid :: string
  sk_alg :: string
  sk_public_jwk_json :: string
  sk_private_key_path :: string
  sk_status :: string

record ExternalIdentity =
  ei_id :: string
  ei_user_id :: string
  ei_provider_id :: string
  ei_issuer :: string
  ei_subject :: string
  ei_subject_strategy :: string
  ei_email :: string
  ei_email_verified :: bool
  ei_display_name :: string
  ei_picture_url :: string
  ei_hosted_domain :: string
  ei_status :: string

record User =
  u_id :: string
  u_email :: string
  u_display_name :: string
  u_status :: string
  u_last_login_at :: i64

record UserListFilter =
  ulf_query :: string
  ulf_limit :: nat

definition bridge_subject :: "User \<Rightarrow> string" where
  "bridge_subject u = ''user:'' @ u_id u"

definition User_display :: "User \<Rightarrow> string" where
  "User_display u = (if u_display_name u = [] then bridge_subject u else u_display_name u)"

definition preferred_username :: "User \<Rightarrow> string" where
  "preferred_username u = (if u_email u = [] then bridge_subject u else u_email u)"

record TokenPrincipal =
  tp_user_id :: string
  tp_token_subject :: string
  tp_token_idp :: string
  tp_display_name :: string
  tp_preferred_username :: string
  tp_groups :: "string list"

record LoginBindingResult =
  lb_status :: string
  lb_external_identity_id :: string
  lb_invitation_id :: string

record LoginTrustPolicy =
  ltp_email_binding :: string
  ltp_allowed_email_domains :: "string list"

record LoginResolutionRequest =
  lr_identity :: ExternalIdentity
  lr_policy :: LoginTrustPolicy

record AddUserInput =
  au_email :: string
  au_display_name :: string

record IdentityInvitation =
  ii_id :: string
  ii_user_id :: string
  ii_provider_id :: string
  ii_issuer :: string
  ii_email :: string
  ii_binding_policy :: string
  ii_status :: string
  ii_accepted_identity_id :: string
  ii_expires_at :: i64
  ii_accepted_at :: i64

record AddInvitationInput =
  ai_provider_id :: string
  ai_issuer :: string
  ai_email :: string
  ai_display_name :: string
  ai_binding_policy :: string
  ai_expires_at :: i64

record Resource =
  r_id :: string
  r_name :: string
  r_remote_url :: string
  r_lore_repository_id :: string
  r_resource_id :: string
  r_status :: string

definition Resource_default :: Resource where
  "Resource_default = \<lparr>r_id = [], r_name = [], r_remote_url = [], r_lore_repository_id = [],
     r_resource_id = [], r_status = []\<rparr>"

record ResourcePermission =
  rp_resource_id :: string
  rp_permission :: "Permission list"

record ResourceFilter =
  rf_prefix :: string

record CreateDeviceAuthorizationInput =
  cd_device_code :: string
  cd_user_code :: string
  cd_requested_remote_url :: string
  cd_requested_repository_id :: string
  cd_ttl :: duration

record DeviceAuthorization =
  da_id :: string
  da_requested_remote_url :: string
  da_requested_repository_id :: string
  da_approved_user_id :: string
  da_status :: string
  da_created_at :: i64
  da_expires_at :: i64
  da_approved_at :: i64
  da_consumed_at :: i64

record AuthSession =
  as_id :: string
  as_client_state_hash :: string
  as_status :: string
  as_user_id :: string
  as_login_url_nonce :: string
  as_expires_at :: i64

record LoginStateInput =
  li_provider_id :: string
  li_nonce :: string
  li_login_url_nonce :: string
  li_return_path :: string
  li_private_state :: string

record LoginState =
  ls_id :: string
  ls_provider_id :: string
  ls_nonce :: string
  ls_login_url_nonce :: string
  ls_return_path :: string
  ls_private_state :: string
  ls_expires_at :: i64

record BrowserSession =
  bs_id :: string
  bs_user_id :: string
  bs_expires_at :: i64

record AuthnTokenInput =
  an_issuer :: string
  an_audience :: "string list"
  an_subject :: string
  an_name :: string
  an_preferred_username :: string
  an_groups :: "string list"
  an_idp :: string
  an_ttl :: duration
  an_now :: "int option"
  an_jti :: string

record AuthzTokenInput =
  az_issuer :: string
  az_audience :: "string list"
  az_subject :: string
  az_name :: string
  az_preferred_username :: string
  az_groups :: "string list"
  az_idp :: string
  az_resources :: "ResourcePermission list"
  az_ttl :: duration
  az_now :: "int option"
  az_jti :: string

record SignedToken =
  st_token :: string
  st_jti :: string
  st_kid :: string
  st_lore_resource_id :: string
  st_issued_at :: i64
  st_expires_at :: i64
  st_permissions :: "Permission list"
  st_audience :: "string list"

record VerifiedToken =
  vt_subject :: string
  vt_jti :: string
  vt_idp :: string
  vt_expires_at :: i64
  vt_audience :: "string list"
  vt_raw_claims :: string

record VerifyOptions =
  vo_issuer :: string
  vo_audience :: string

record IssuedToken =
  it_jti :: string
  it_kind :: string
  it_user_id :: string
  it_repository_id :: string
  it_lore_resource_id :: string
  it_role :: string
  it_kid :: string
  it_audience :: "string list"
  it_issued_at :: i64
  it_expires_at :: i64

record VerifiedAuthn =
  va_subject :: string
  va_principal :: TokenPrincipal
  va_user :: User


section \<open>Properties\<close>

named_theorems model_simps \<open>unfolding of the domain rules\<close>

lemmas role_defs [model_simps] =
  Permission_from_name_def Role_from_name_def Role_allows_def role_permissions_def
  is_known_role_def role_allows_def token_permissions_for_role_def

lemma Role_from_name_iff: "Role_from_name s = Some r \<longleftrightarrow> s = Role_as_str r"
  by (cases r) (auto simp: Role_from_name_def)

lemma Permission_from_name_iff: "Permission_from_name s = Some p \<longleftrightarrow> s = Permission_as_str p"
  by (cases p) (auto simp: Permission_from_name_def)

lemma is_known_role_iff: "is_known_role s \<longleftrightarrow> s \<in> {''reader'', ''writer'', ''admin''}"
  by (auto simp: is_known_role_def Role_from_name_def)

lemma role_allows_cases:
  "role_allows role action \<longleftrightarrow>
     action = ''read'' \<and> role \<in> {''reader'', ''writer'', ''admin''} \<or>
     action = ''write'' \<and> role \<in> {''writer'', ''admin''} \<or>
     action = ''admin'' \<and> role = ''admin''"
  by (auto simp: role_defs)

text \<open>Role and permission names round-trip: a name parses to a role or permission exactly
  when it is the name that value prints, so unknown names never parse.\<close>

lemma names_roundtrip:
  "(\<forall>s r. Role_from_name s = Some r \<longleftrightarrow> s = Role_as_str r) \<and>
   (\<forall>s p. Permission_from_name s = Some p \<longleftrightarrow> s = Permission_as_str p)"
  by (simp add: Role_from_name_iff Permission_from_name_iff)

text \<open>The role table is the intended hierarchy: a role name allows an action name exactly
  when both are known and the action is among the role's permissions, every permission of a role
  is one of each stronger role, and the permissions put into a token are those of the role
  without \<open>Admin\<close>.\<close>

lemma role_table:
  "(role_allows role action \<longleftrightarrow>
      (\<exists>r a ps. role = Role_as_str r \<and> action = Permission_as_str a \<and>
                Role_permissions r = Some ps \<and> a \<in> set ps)) \<and>
   (role_allows ''reader'' action \<longrightarrow> role_allows ''writer'' action) \<and>
   (role_allows ''writer'' action \<longrightarrow> role_allows ''admin'' action) \<and>
   (token_permissions_for_role role = map_option (filter (\<lambda>p. p \<noteq> Admin)) (role_permissions role))"
proof (intro conjI)
  show "role_allows role action \<longleftrightarrow>
      (\<exists>r a ps. role = Role_as_str r \<and> action = Permission_as_str a \<and>
                Role_permissions r = Some ps \<and> a \<in> set ps)"
    by (auto simp: role_allows_def Role_allows_def Role_from_name_iff [symmetric]
        Permission_from_name_iff [symmetric] split: option.splits)
  show "token_permissions_for_role role = map_option (filter (\<lambda>p. p \<noteq> Admin)) (role_permissions role)"
    by (auto simp: token_permissions_for_role_def role_permissions_def Role_from_name_def)
qed (auto simp: role_allows_cases)

lemma role_table_witness:
  "role_allows ''writer'' ''write'' \<and> role_allows ''admin'' ''write'' \<and>
   token_permissions_for_role ''admin'' = Some [Read, Write]"
  using role_table [of "''writer''" "''write''"] role_table [of "''admin''" "''write''"]
  by (simp add: role_defs)

lemma urc_prefix_not_Nil [simp]: "urc_prefix \<noteq> []" "length urc_prefix = 4"
  by (simp_all add: urc_prefix_def)

lemma repository_id_from_resource_id_urc [simp]:
  "repository_id_from_resource_id (urc_prefix @ s) = s"
  by (simp add: repository_id_from_resource_id_def)

lemma repository_id_from_resource_id_plain:
  "\<not> starts_with s urc_prefix \<Longrightarrow> repository_id_from_resource_id s = s"
  by (simp add: repository_id_from_resource_id_def strip_prefix_def)

lemma for_repository_id_plain:
  "s \<noteq> [] \<Longrightarrow> \<not> starts_with s urc_prefix \<Longrightarrow> for_repository_id s = Some (urc_prefix @ s)"
  by (simp add: for_repository_id_def)

lemma for_repository_id_None_iff [simp]: "for_repository_id s = None \<longleftrightarrow> s = []"
  by (simp add: for_repository_id_def)

text \<open>Resource and repository identifiers are inverse to each other on repository ids that
  do not themselves carry the \<open>urc-\<close> prefix; in general a repository id and its
  resource id name the same repository, and the resource id always carries the prefix.\<close>

lemma resource_id_roundtrip:
  assumes "for_repository_id repository_id = Some resource_id"
  shows "starts_with resource_id urc_prefix \<and>
    repository_id_from_resource_id resource_id = repository_id_from_resource_id repository_id \<and>
    (\<not> starts_with repository_id urc_prefix \<longrightarrow>
       repository_id_from_resource_id resource_id = repository_id) \<and>
    (\<not> starts_with (repository_id_from_resource_id resource_id) urc_prefix \<and>
     repository_id_from_resource_id resource_id \<noteq> [] \<longrightarrow>
       for_repository_id (repository_id_from_resource_id resource_id) = Some resource_id)"
  using assms
  by (auto simp: for_repository_id_def repository_id_from_resource_id_plain starts_with_iff
      split: if_splits)

lemma resource_id_roundtrip_witness:
  "for_repository_id ''repo-1'' = Some ''urc-repo-1'' \<and>
   repository_id_from_resource_id ''urc-repo-1'' = ''repo-1'' \<and>
   for_repository_id ''repo-1'' = Some ''urc-repo-1'' \<and>
   starts_with ''urc-repo-1'' urc_prefix"
proof -
  have h: "for_repository_id ''repo-1'' = Some ''urc-repo-1''"
    by (simp add: for_repository_id_def urc_prefix_def)
  have "\<not> starts_with ''repo-1'' urc_prefix" by (simp add: urc_prefix_def)
  with h show ?thesis using resource_id_roundtrip [OF h] by blast
qed

lemma normalize_email_idem [simp]: "normalize_email (normalize_email e) = normalize_email e"
  by (simp add: normalize_email_def trim_lower)

lemma normalize_email_trim [simp]: "normalize_email (trim e) = normalize_email e"
  by (simp add: normalize_email_def)

lemma repository_id_byte_not_ws:
  assumes "repository_id_byte c"
  shows "ws_len (c # s) = 0"
proof -
  have "\<not> ascii_ws c" and "c \<noteq> CHR 0xC2" and "c \<noteq> CHR 0xE1" and "c \<noteq> CHR 0xE2" and "c \<noteq> CHR 0xE3"
    using assms by (auto simp: ascii_ws_def repository_id_byte_def less_eq_char_def)
  then show ?thesis
    by (cases "c # s" rule: ws_len.cases) (auto simp: ws2_def ws3_def)
qed

lemma list_ex_not_ws_end:
  assumes "list_all repository_id_byte s"
  shows "ws_len_end s = 0"
proof -
  have "\<not> ascii_ws c" and "\<not> ws2 b c" and "\<not> ws3 a b c" if "repository_id_byte c" for a b c
    using that by (auto simp: ascii_ws_def ws2_def ws3_def repository_id_byte_def less_eq_char_def)
  then show ?thesis
    using assms by (cases s rule: ws_len_end.cases) auto
qed

lemma trim_repository_id: "list_all repository_id_byte s \<Longrightarrow> trim s = s"
proof -
  assume s: "list_all repository_id_byte s"
  then have "ws_len s = 0" by (cases s) (auto simp: repository_id_byte_not_ws)
  moreover from s have "ws_len_end (rev s) = 0" by (intro list_ex_not_ws_end) (simp add: list_all_iff)
  ultimately show ?thesis
    by (simp add: trim_def trim_start_def trim_end_def strip_ws_stop)
qed

text \<open>An accepted Lore repository id is exactly a string of 1 to 128 bytes out of
  \<open>A-Z a-z 0-9 - _\<close>: acceptance returns the trimmed input, every such string is accepted
  unchanged, and accepting twice changes nothing.\<close>

lemma valid_lore_repository_id:
  "(normalize_valid_lore_repository_id s = Some v \<longleftrightarrow>
      v = trim s \<and> 1 \<le> length v \<and> length v \<le> 128 \<and> list_all repository_id_byte v) \<and>
   (normalize_valid_lore_repository_id s = Some v \<longrightarrow>
      normalize_valid_lore_repository_id v = Some v)"
  by (auto simp: normalize_valid_lore_repository_id_def Let_def Suc_le_eq split: if_splits)

lemma valid_lore_repository_id_witness:
  "normalize_valid_lore_repository_id '' repo_1 '' = Some ''repo_1'' \<and>
   normalize_valid_lore_repository_id ''repo_1'' = Some ''repo_1'' \<and>
   normalize_valid_lore_repository_id ''a/b'' = None"
proof -
  have h: "normalize_valid_lore_repository_id '' repo_1 '' = Some ''repo_1''"
    and n: "normalize_valid_lore_repository_id ''a/b'' = None"
    by code_simp+
  then show ?thesis using valid_lore_repository_id [of "'' repo_1 ''" "''repo_1''"] by blast
qed

text \<open>An accepted account email is the trimmed, lower-cased input, contains \<open>@\<close> and no
  white space, and normalising it again gives the same address; whether an address is accepted
  depends only on its normal form.\<close>

lemma valid_account_email:
  "(normalize_valid_account_email e = Some n \<longrightarrow>
      n = normalize_email e \<and> CHR ''@'' \<in> set n \<and> \<not> any_whitespace n \<and>
      normalize_valid_account_email n = Some n) \<and>
   (normalize_email e = normalize_email e' \<longrightarrow>
      normalize_valid_account_email e = normalize_valid_account_email e')"
  by (auto simp: normalize_valid_account_email_def Let_def split: if_splits)

lemma valid_account_email_example:
  "normalize_valid_account_email '' Bob@Example.com'' = Some ''bob@example.com'' \<and>
   normalize_valid_account_email ''bob@example.com'' = Some ''bob@example.com'' \<and>
   normalize_valid_account_email ''bob@example.com'' = normalize_valid_account_email ''BOB@example.com''"
proof -
  have h: "normalize_valid_account_email '' Bob@Example.com'' = Some ''bob@example.com''"
    and e: "normalize_email ''bob@example.com'' = normalize_email ''BOB@example.com''"
    by code_simp+
  from valid_account_email [of "'' Bob@Example.com''" "''bob@example.com''"] h
    valid_account_email [of "''bob@example.com''" _ "''BOB@example.com''"] e
  show ?thesis by blast
qed

end
