(* ===== verification/Sqlite_Store.thy ===== *)
theory Sqlite_Store
  imports Core_Model
begin

text \<open>
  The database of the bridge: the tables of
  \<open>src/crates/lore-auth-adapters/src/sqlite/migrations.rs\<close> with their primary keys,
  unique indexes and foreign keys, and the helpers of \<open>sqlite/mod.rs\<close>.

  A table is the list of its rows in insertion order, which is the order in which a query
  without \<open>ORDER BY\<close> (and rows that \<open>ORDER BY\<close> leaves equal) come back. A nullable
  column is an option. \<open>INSERT\<close> and \<open>UPDATE\<close> check the constraints that the schema
  declares and fail without changing anything (foreign keys are switched on by
  \<open>Store::configure\<close>); no statement of the program deletes a row that another row refers
  to, so cascades never fire. The clock readings and the random identifiers that an operation
  draws are its arguments, in the order in which it draws them.
\<close>

section \<open>Statements over a table\<close>

text \<open>A unique index: its columns as SQLite reports them, and the key of a row, \<open>None\<close>
  when the row is not in the index (a NULL column, or the condition of a partial index).\<close>

type_synonym 'r index = "string \<times> ('r \<Rightarrow> string list option)"

definition unique_ok :: "('r \<Rightarrow> string list option) \<Rightarrow> 'r list \<Rightarrow> bool" where
  "unique_ok key rows \<longleftrightarrow> distinct (List.map_filter key rows)"

definition key_conflict :: "('r \<Rightarrow> string list option) \<Rightarrow> 'r \<Rightarrow> 'r list \<Rightarrow> bool" where
  "key_conflict key row rows \<longleftrightarrow> key row \<noteq> None \<and> key row \<in> set (map key rows)"

definition insert_row ::
  "'r index list \<Rightarrow> ('r \<Rightarrow> bool) \<Rightarrow> 'r \<Rightarrow> 'r list \<Rightarrow> rusqlite_error + 'r list" where
  "insert_row ixs fk row rows =
     (case find (\<lambda>ix. key_conflict (snd ix) row rows) ixs of
        Some ix \<Rightarrow> Inl (UniqueConstraint (fst ix))
      | None \<Rightarrow> if fk row then Inr (rows @ [row]) else Inl ForeignKeyConstraint)"

text \<open>\<open>INSERT OR IGNORE\<close> skips a row that conflicts with a unique index.\<close>

definition insert_or_ignore ::
  "'r index list \<Rightarrow> ('r \<Rightarrow> bool) \<Rightarrow> 'r \<Rightarrow> 'r list \<Rightarrow> rusqlite_error + 'r list" where
  "insert_or_ignore ixs fk row rows =
     (if list_ex (\<lambda>ix. key_conflict (snd ix) row rows) ixs then Inr rows
      else if fk row then Inr (rows @ [row]) else Inl ForeignKeyConstraint)"

text \<open>\<open>UPDATE\<close> returns the number of rows it changed. \<open>ixs\<close> are the indexes over the
  columns it assigns, \<open>fk\<close> the foreign keys over them.\<close>

definition update_rows ::
  "'r index list \<Rightarrow> ('r \<Rightarrow> bool) \<Rightarrow> ('r \<Rightarrow> bool) \<Rightarrow> ('r \<Rightarrow> 'r) \<Rightarrow> 'r list
     \<Rightarrow> rusqlite_error + (nat \<times> 'r list)" where
  "update_rows ixs fk P f rows =
     (let new = map (\<lambda>r. if P r then f r else r) rows in
      case find (\<lambda>ix. \<not> unique_ok (snd ix) new) ixs of
        Some ix \<Rightarrow> Inl (UniqueConstraint (fst ix))
      | None \<Rightarrow>
          if list_all fk (map f (filter P rows)) then Inr (length (filter P rows), new)
          else Inl ForeignKeyConstraint)"

definition delete_rows :: "('r \<Rightarrow> bool) \<Rightarrow> 'r list \<Rightarrow> nat \<times> 'r list" where
  "delete_rows P rows = (length (filter P rows), filter (\<lambda>r. \<not> P r) rows)"

section \<open>The tables\<close>

record users_row =
  ur_id :: string
  ur_display_name :: "string option"
  ur_primary_email :: "string option"
  ur_primary_email_normalized :: "string option"
  ur_status :: string
  ur_created_at :: i64
  ur_updated_at :: i64
  ur_last_login_at :: "i64 option"

record external_identities_row =
  xr_id :: string
  xr_user_id :: string
  xr_provider_id :: string
  xr_issuer :: string
  xr_subject :: string
  xr_subject_strategy :: string
  xr_email :: "string option"
  xr_email_verified :: i64
  xr_display_name :: "string option"
  xr_picture_url :: "string option"
  xr_hosted_domain :: "string option"
  xr_status :: string
  xr_first_seen_at :: i64
  xr_last_seen_at :: i64

record identity_invitations_row =
  vr_id :: string
  vr_user_id :: string
  vr_provider_id :: string
  vr_issuer :: string
  vr_email :: "string option"
  vr_email_normalized :: "string option"
  vr_binding_policy :: string
  vr_status :: string
  vr_accepted_identity_id :: "string option"
  vr_created_at :: i64
  vr_expires_at :: "i64 option"
  vr_accepted_at :: "i64 option"

record groups_row =
  pr_id :: string
  pr_name :: string
  pr_description :: "string option"
  pr_created_at :: i64
  pr_updated_at :: i64

record group_members_row =
  mr_group_id :: string
  mr_user_id :: string
  mr_created_at :: i64

record group_groups_row =
  nr_group_id :: string
  nr_member_group_id :: string
  nr_created_at :: i64

record repositories_row =
  rr_id :: string
  rr_name :: string
  rr_remote_url :: string
  rr_lore_repository_id :: string
  rr_status :: string
  rr_created_by_source :: string
  rr_created_at :: i64
  rr_updated_at :: i64

record grants_row =
  tr_id :: string
  tr_subject_type :: string
  tr_subject_id :: string
  tr_repository_id :: string
  tr_role :: string
  tr_created_at :: i64
  tr_updated_at :: i64

record auth_sessions_row =
  sr_id :: string
  sr_session_code_hash :: string
  sr_client_state_hash :: string
  sr_status :: string
  sr_user_id :: "string option"
  sr_login_url_nonce :: string
  sr_created_at :: i64
  sr_expires_at :: i64
  sr_completed_at :: "i64 option"
  sr_consumed_at :: "i64 option"

record login_transactions_row =
  lt_id :: string
  lt_state_hash :: string
  lt_provider_id :: string
  lt_nonce :: "string option"
  lt_login_url_nonce :: "string option"
  lt_return_path :: "string option"
  lt_private_state :: "string option"
  lt_created_at :: i64
  lt_expires_at :: i64
  lt_consumed_at :: "i64 option"

record sessions_row =
  br_id :: string
  br_user_id :: string
  br_created_at :: i64
  br_expires_at :: i64
  br_revoked_at :: "i64 option"

record csrf_tokens_row =
  cr_token_hash :: string
  cr_session_id :: string
  cr_created_at :: i64
  cr_expires_at :: i64
  cr_consumed_at :: "i64 option"

record device_authorizations_row =
  dr_id :: string
  dr_device_code_hash :: string
  dr_user_code_hash :: string
  dr_requested_remote_url :: string
  dr_requested_repository_id :: "string option"
  dr_approved_user_id :: "string option"
  dr_status :: string
  dr_created_at :: i64
  dr_expires_at :: i64
  dr_approved_at :: "i64 option"
  dr_consumed_at :: "i64 option"

record issued_tokens_row =
  kr_jti :: string
  kr_token_kind :: string
  kr_user_id :: "string option"
  kr_service_account_id :: "string option"
  kr_repository_id :: "string option"
  kr_lore_resource_id :: "string option"
  kr_role :: string
  kr_kid :: string
  kr_audience_json :: string
  kr_issued_at :: i64
  kr_expires_at :: i64
  kr_revoked_at :: "i64 option"

record signing_keys_row =
  kk_kid :: string
  kk_alg :: string
  kk_public_jwk_json :: string
  kk_private_key_path :: string
  kk_status :: string
  kk_created_at :: i64

record schema_migrations_row =
  zr_version :: string
  zr_applied_at :: i64

record Db =
  t_schema_migrations :: "schema_migrations_row list"
  t_users :: "users_row list"
  t_external_identities :: "external_identities_row list"
  t_identity_invitations :: "identity_invitations_row list"
  t_groups :: "groups_row list"
  t_group_members :: "group_members_row list"
  t_group_groups :: "group_groups_row list"
  t_repositories :: "repositories_row list"
  t_grants :: "grants_row list"
  t_auth_sessions :: "auth_sessions_row list"
  t_login_transactions :: "login_transactions_row list"
  t_sessions :: "sessions_row list"
  t_csrf_tokens :: "csrf_tokens_row list"
  t_device_authorizations :: "device_authorizations_row list"
  t_issued_tokens :: "issued_tokens_row list"
  t_signing_keys :: "signing_keys_row list"
  t_admin_audit :: "AdminAuditEntry list"

definition empty_db :: Db where
  "empty_db = \<lparr>t_schema_migrations = [], t_users = [], t_external_identities = [],
     t_identity_invitations = [], t_groups = [], t_group_members = [], t_group_groups = [],
     t_repositories = [], t_grants = [], t_auth_sessions = [], t_login_transactions = [],
     t_sessions = [], t_csrf_tokens = [], t_device_authorizations = [], t_issued_tokens = [],
     t_signing_keys = [], t_admin_audit = []\<rparr>"


section \<open>Keys and references\<close>

definition users_pk :: "users_row index" where
  "users_pk = (''users.id'', \<lambda>r. Some [ur_id r])"

definition users_email_ix :: "users_row index" where
  "users_email_ix = (''users.primary_email_normalized'',
     \<lambda>r. if ur_status r \<noteq> ''deleted'' then map_option (\<lambda>e. [e]) (ur_primary_email_normalized r) else None)"

definition users_ixs :: "users_row index list" where
  "users_ixs = [users_pk, users_email_ix]"

definition external_identities_ixs :: "external_identities_row index list" where
  "external_identities_ixs =
     [(''external_identities.id'', \<lambda>r. Some [xr_id r]),
      (''external_identities.provider_id, external_identities.issuer, external_identities.subject'',
       \<lambda>r. Some [xr_provider_id r, xr_issuer r, xr_subject r])]"

definition identity_invitations_ixs :: "identity_invitations_row index list" where
  "identity_invitations_ixs =
     [(''identity_invitations.id'', \<lambda>r. Some [vr_id r]),
      (''identity_invitations.provider_id, identity_invitations.issuer, identity_invitations.email_normalized'',
       \<lambda>r. if vr_status r = ''pending''
           then map_option (\<lambda>e. [vr_provider_id r, vr_issuer r, e]) (vr_email_normalized r) else None)]"

definition groups_ixs :: "groups_row index list" where
  "groups_ixs = [(''groups.id'', \<lambda>r. Some [pr_id r]), (''groups.name'', \<lambda>r. Some [pr_name r])]"

definition group_members_ixs :: "group_members_row index list" where
  "group_members_ixs =
     [(''group_members.group_id, group_members.user_id'', \<lambda>r. Some [mr_group_id r, mr_user_id r])]"

definition group_groups_ixs :: "group_groups_row index list" where
  "group_groups_ixs =
     [(''group_groups.group_id, group_groups.member_group_id'',
       \<lambda>r. Some [nr_group_id r, nr_member_group_id r])]"

definition repositories_name_ix :: "repositories_row index" where
  "repositories_name_ix = (''repositories.name'', \<lambda>r. Some [rr_name r])"

definition repositories_ixs :: "repositories_row index list" where
  "repositories_ixs =
     [(''repositories.id'', \<lambda>r. Some [rr_id r]), repositories_name_ix,
      (''repositories.lore_repository_id'', \<lambda>r. Some [rr_lore_repository_id r])]"

definition grants_ixs :: "grants_row index list" where
  "grants_ixs =
     [(''grants.id'', \<lambda>r. Some [tr_id r]),
      (''grants.subject_type, grants.subject_id, grants.repository_id, grants.role'',
       \<lambda>r. Some [tr_subject_type r, tr_subject_id r, tr_repository_id r, tr_role r])]"

definition auth_sessions_ixs :: "auth_sessions_row index list" where
  "auth_sessions_ixs =
     [(''auth_sessions.id'', \<lambda>r. Some [sr_id r]),
      (''auth_sessions.session_code_hash'', \<lambda>r. Some [sr_session_code_hash r])]"

definition login_transactions_ixs :: "login_transactions_row index list" where
  "login_transactions_ixs =
     [(''login_transactions.id'', \<lambda>r. Some [lt_id r]),
      (''login_transactions.state_hash'', \<lambda>r. Some [lt_state_hash r])]"

definition sessions_ixs :: "sessions_row index list" where
  "sessions_ixs = [(''sessions.id'', \<lambda>r. Some [br_id r])]"

definition csrf_tokens_ixs :: "csrf_tokens_row index list" where
  "csrf_tokens_ixs = [(''csrf_tokens.token_hash'', \<lambda>r. Some [cr_token_hash r])]"

definition device_authorizations_ixs :: "device_authorizations_row index list" where
  "device_authorizations_ixs =
     [(''device_authorizations.id'', \<lambda>r. Some [dr_id r]),
      (''device_authorizations.device_code_hash'', \<lambda>r. Some [dr_device_code_hash r]),
      (''device_authorizations.user_code_hash'', \<lambda>r. Some [dr_user_code_hash r])]"

definition issued_tokens_ixs :: "issued_tokens_row index list" where
  "issued_tokens_ixs = [(''issued_tokens.jti'', \<lambda>r. Some [kr_jti r])]"

definition signing_keys_ixs :: "signing_keys_row index list" where
  "signing_keys_ixs = [(''signing_keys.kid'', \<lambda>r. Some [kk_kid r])]"

definition admin_audit_ixs :: "AdminAuditEntry index list" where
  "admin_audit_ixs = [(''admin_audit.id'', \<lambda>r. Some [aa_id r])]"

definition schema_migrations_ixs :: "schema_migrations_row index list" where
  "schema_migrations_ixs = [(''schema_migrations.version'', \<lambda>r. Some [zr_version r])]"

definition user_exists :: "Db \<Rightarrow> string \<Rightarrow> bool" where
  "user_exists db i \<longleftrightarrow> i \<in> ur_id ` set (t_users db)"

definition group_exists :: "Db \<Rightarrow> string \<Rightarrow> bool" where
  "group_exists db i \<longleftrightarrow> i \<in> pr_id ` set (t_groups db)"

definition repository_exists :: "Db \<Rightarrow> string \<Rightarrow> bool" where
  "repository_exists db i \<longleftrightarrow> i \<in> rr_id ` set (t_repositories db)"

definition identity_exists :: "Db \<Rightarrow> string \<Rightarrow> bool" where
  "identity_exists db i \<longleftrightarrow> i \<in> xr_id ` set (t_external_identities db)"

definition session_exists :: "Db \<Rightarrow> string \<Rightarrow> bool" where
  "session_exists db i \<longleftrightarrow> i \<in> br_id ` set (t_sessions db)"

definition ref_ok :: "(string \<Rightarrow> bool) \<Rightarrow> string option \<Rightarrow> bool" where
  "ref_ok ex r = (case r of None \<Rightarrow> True | Some i \<Rightarrow> ex i)"

definition external_identities_fk :: "Db \<Rightarrow> external_identities_row \<Rightarrow> bool" where
  "external_identities_fk db r \<longleftrightarrow> user_exists db (xr_user_id r)"

definition identity_invitations_fk :: "Db \<Rightarrow> identity_invitations_row \<Rightarrow> bool" where
  "identity_invitations_fk db r \<longleftrightarrow>
     user_exists db (vr_user_id r) \<and> ref_ok (identity_exists db) (vr_accepted_identity_id r)"

definition group_members_fk :: "Db \<Rightarrow> group_members_row \<Rightarrow> bool" where
  "group_members_fk db r \<longleftrightarrow> group_exists db (mr_group_id r) \<and> user_exists db (mr_user_id r)"

definition group_groups_fk :: "Db \<Rightarrow> group_groups_row \<Rightarrow> bool" where
  "group_groups_fk db r \<longleftrightarrow> group_exists db (nr_group_id r) \<and> group_exists db (nr_member_group_id r)"

definition grants_fk :: "Db \<Rightarrow> grants_row \<Rightarrow> bool" where
  "grants_fk db r \<longleftrightarrow> repository_exists db (tr_repository_id r)"

definition auth_sessions_fk :: "Db \<Rightarrow> auth_sessions_row \<Rightarrow> bool" where
  "auth_sessions_fk db r \<longleftrightarrow> ref_ok (user_exists db) (sr_user_id r)"

definition sessions_fk :: "Db \<Rightarrow> sessions_row \<Rightarrow> bool" where
  "sessions_fk db r \<longleftrightarrow> user_exists db (br_user_id r)"

definition csrf_tokens_fk :: "Db \<Rightarrow> csrf_tokens_row \<Rightarrow> bool" where
  "csrf_tokens_fk db r \<longleftrightarrow> session_exists db (cr_session_id r)"

definition device_authorizations_fk :: "Db \<Rightarrow> device_authorizations_row \<Rightarrow> bool" where
  "device_authorizations_fk db r \<longleftrightarrow>
     ref_ok (repository_exists db) (dr_requested_repository_id r) \<and>
     ref_ok (user_exists db) (dr_approved_user_id r)"

definition issued_tokens_fk :: "Db \<Rightarrow> issued_tokens_row \<Rightarrow> bool" where
  "issued_tokens_fk db r \<longleftrightarrow>
     ref_ok (user_exists db) (kr_user_id r) \<and> ref_ok (repository_exists db) (kr_repository_id r)"

definition no_fk :: "'r \<Rightarrow> bool" where
  "no_fk r \<longleftrightarrow> True"

section \<open>Schema invariant\<close>

definition table_ok :: "'r index list \<Rightarrow> ('r \<Rightarrow> bool) \<Rightarrow> 'r list \<Rightarrow> bool" where
  "table_ok ixs fk rows \<longleftrightarrow> list_all (\<lambda>ix. unique_ok (snd ix) rows) ixs \<and> list_all fk rows"

definition schema_ok :: "Db \<Rightarrow> bool" where
  "schema_ok db \<longleftrightarrow>
     table_ok schema_migrations_ixs no_fk (t_schema_migrations db) \<and>
     table_ok users_ixs no_fk (t_users db) \<and>
     table_ok external_identities_ixs (external_identities_fk db) (t_external_identities db) \<and>
     table_ok identity_invitations_ixs (identity_invitations_fk db) (t_identity_invitations db) \<and>
     table_ok groups_ixs no_fk (t_groups db) \<and>
     table_ok group_members_ixs (group_members_fk db) (t_group_members db) \<and>
     table_ok group_groups_ixs (group_groups_fk db) (t_group_groups db) \<and>
     table_ok repositories_ixs no_fk (t_repositories db) \<and>
     table_ok grants_ixs (grants_fk db) (t_grants db) \<and>
     table_ok auth_sessions_ixs (auth_sessions_fk db) (t_auth_sessions db) \<and>
     table_ok login_transactions_ixs no_fk (t_login_transactions db) \<and>
     table_ok sessions_ixs (sessions_fk db) (t_sessions db) \<and>
     table_ok csrf_tokens_ixs (csrf_tokens_fk db) (t_csrf_tokens db) \<and>
     table_ok device_authorizations_ixs (device_authorizations_fk db) (t_device_authorizations db) \<and>
     table_ok issued_tokens_ixs (issued_tokens_fk db) (t_issued_tokens db) \<and>
     table_ok signing_keys_ixs no_fk (t_signing_keys db) \<and>
     table_ok admin_audit_ixs no_fk (t_admin_audit db)"

lemma schema_ok_empty: "schema_ok empty_db"
  by (simp add: schema_ok_def table_ok_def empty_db_def unique_ok_def List.map_filter_def list_all_iff)

lemma unique_ok_append:
  "unique_ok key rows \<Longrightarrow> \<not> key_conflict key row rows \<Longrightarrow> unique_ok key (rows @ [row])"
  by (force simp: unique_ok_def key_conflict_def List.map_filter_def)

lemma unique_ok_inj:
  assumes "unique_ok key rows" "r \<in> set rows" "r' \<in> set rows" "key r = Some k" "key r' = Some k"
  shows "r = r'"
  using assms
proof (induction rows)
  case (Cons a rows)
  have "\<not> (r'' \<in> set rows \<and> key r'' = Some k) \<or> key a \<noteq> Some k" for r''
    using Cons.prems(1) by (force simp: unique_ok_def List.map_filter_simps List.map_filter_def)
  moreover have "unique_ok key rows"
    using Cons.prems(1) by (auto simp: unique_ok_def List.map_filter_simps split: option.splits)
  ultimately show ?case using Cons by auto
qed simp

lemma find_None_list_all: "find P xs = None \<longleftrightarrow> list_all (\<lambda>x. \<not> P x) xs"
  by (auto simp: find_None_iff list_all_iff)

lemma find_SomeD: "find P xs = Some x \<Longrightarrow> x \<in> set xs \<and> P x"
  by (auto simp: find_Some_iff)

lemma find_Some_not_all: "find P xs = Some x \<Longrightarrow> \<not> list_all (\<lambda>x. \<not> P x) xs"
  by (auto simp: list_all_iff dest: find_SomeD)

lemma insert_row_Inr:
  "insert_row ixs fk row rows = Inr rows' \<longleftrightarrow>
     rows' = rows @ [row] \<and> fk row \<and> list_all (\<lambda>ix. \<not> key_conflict (snd ix) row rows) ixs"
proof (cases "find (\<lambda>ix. key_conflict (snd ix) row rows) ixs")
  case None
  then have "list_all (\<lambda>ix. \<not> key_conflict (snd ix) row rows) ixs"
    by (simp add: find_None_list_all)
  with None show ?thesis by (auto simp: insert_row_def)
next
  case (Some ix)
  from find_Some_not_all [OF Some] Some show ?thesis by (auto simp: insert_row_def)
qed

lemma insert_or_ignore_Inr:
  "insert_or_ignore ixs fk row rows = Inr rows' \<longleftrightarrow>
     (if list_ex (\<lambda>ix. key_conflict (snd ix) row rows) ixs then rows' = rows
      else fk row \<and> rows' = rows @ [row])"
  by (auto simp: insert_or_ignore_def)

lemma table_ok_insert:
  assumes "table_ok ixs fk rows" and "insert_row ixs fk row rows = Inr rows'"
  shows "table_ok ixs fk rows'"
  using assms by (auto simp: table_ok_def insert_row_Inr list_all_iff intro: unique_ok_append)

lemma table_ok_insert_or_ignore:
  assumes "table_ok ixs fk rows" and "insert_or_ignore ixs fk row rows = Inr rows'"
  shows "table_ok ixs fk rows'"
  using assms
  by (auto simp: table_ok_def insert_or_ignore_Inr list_all_iff list_ex_iff
      intro: unique_ok_append split: if_splits)

lemma table_ok_filter: "table_ok ixs fk rows \<Longrightarrow> table_ok ixs fk (filter P rows)"
proof -
  have "distinct (List.map_filter key rows) \<Longrightarrow> distinct (List.map_filter key (filter P rows))" for key
    by (induction rows) (auto simp: List.map_filter_def image_iff; force)+
  then show "table_ok ixs fk rows \<Longrightarrow> table_ok ixs fk (filter P rows)"
    by (auto simp: table_ok_def unique_ok_def list_all_iff)
qed

lemma unique_ok_map:
  assumes "\<And>r. r \<in> set rows \<Longrightarrow> P r \<Longrightarrow> key (f r) = key r \<or> key (f r) = None" and "unique_ok key rows"
  shows "unique_ok key (map (\<lambda>r. if P r then f r else r) rows)"
proof -
  let ?g = "\<lambda>r. if P r then f r else r"
  have "set (List.map_filter key (map ?g rows)) \<subseteq> set (List.map_filter key rows) \<and>
    (distinct (List.map_filter key rows) \<longrightarrow> distinct (List.map_filter key (map ?g rows)))"
    using assms(1)
  proof (induction rows)
    case (Cons r rows)
    have "key (?g r) = key r \<or> key (?g r) = None" using Cons.prems by simp
    with Cons show ?case
      by (auto simp: List.map_filter_simps split: option.splits)
  qed (simp add: List.map_filter_def)
  with assms(2) show ?thesis by (simp add: unique_ok_def)
qed

lemma update_rows_Inr:
  "update_rows ixs fk P f rows = Inr (n, rows') \<longleftrightarrow>
     rows' = map (\<lambda>r. if P r then f r else r) rows \<and> n = length (filter P rows) \<and>
     list_all (\<lambda>ix. unique_ok (snd ix) rows') ixs \<and> (\<forall>r \<in> set rows. P r \<longrightarrow> fk (f r))"
proof (cases "find (\<lambda>ix. \<not> unique_ok (snd ix) (map (\<lambda>r. if P r then f r else r) rows)) ixs")
  case (Some ix)
  then have "\<not> list_all (\<lambda>ix. unique_ok (snd ix) (map (\<lambda>r. if P r then f r else r) rows)) ixs"
    using find_Some_not_all [OF Some] by simp
  with Some show ?thesis by (auto simp: update_rows_def Let_def)
next
  case None
  then have "list_all (\<lambda>ix. unique_ok (snd ix) (map (\<lambda>r. if P r then f r else r) rows)) ixs"
    by (simp add: find_None_list_all)
  with None show ?thesis by (auto simp: update_rows_def Let_def list_all_iff)
qed

lemma update_rows_image:
  assumes "update_rows ixs fk P f rows = Inr (n, rows')" "\<And>r. g (f r) = g r"
  shows "g ` set rows' = g ` set rows"
proof -
  have "map g rows' = map g rows" using assms by (simp add: update_rows_Inr)
  then have "set (map g rows') = set (map g rows)" by (rule arg_cong)
  then show ?thesis by simp
qed

text \<open>An update that writes neither indexed nor referring columns always succeeds.\<close>

lemma update_rows_plain:
  "update_rows [] no_fk P f rows = Inr (length (filter P rows), map (\<lambda>r. if P r then f r else r) rows)"
  by (simp add: update_rows_def no_fk_def list_all_iff)

lemma table_ok_update:
  assumes ok: "table_ok ixs fk rows" and up: "update_rows ixs' fk' P f rows = Inr (n, rows')"
    and keys: "\<And>ix r. ix \<in> set ixs \<Longrightarrow> ix \<notin> set ixs' \<Longrightarrow> r \<in> set rows \<Longrightarrow> P r \<Longrightarrow>
        snd ix (f r) = snd ix r \<or> snd ix (f r) = None"
    and fks: "\<And>r. r \<in> set rows \<Longrightarrow> P r \<Longrightarrow> fk r \<Longrightarrow> fk' (f r) \<Longrightarrow> fk (f r)"
  shows "table_ok ixs fk rows'"
proof -
  have "unique_ok (snd ix) rows'" if "ix \<in> set ixs" for ix
  proof (cases "ix \<in> set ixs'")
    case True
    with up show ?thesis by (auto simp: update_rows_Inr list_all_iff)
  next
    case False
    moreover have "unique_ok (snd ix) rows" using ok that by (auto simp: table_ok_def list_all_iff)
    ultimately show ?thesis
      using up keys [OF that] unique_ok_map [of rows P "snd ix" f] by (auto simp: update_rows_Inr)
  qed
  moreover have "list_all fk rows'"
    using ok up fks by (auto simp: table_ok_def update_rows_Inr list_all_iff)
  ultimately show ?thesis by (simp add: table_ok_def list_all_iff)
qed

lemma table_ok_fk_mono: "table_ok ixs fk rows \<Longrightarrow> (\<And>r. r \<in> set rows \<Longrightarrow> fk r \<Longrightarrow> fk' r) \<Longrightarrow> table_ok ixs fk' rows"
  by (auto simp: table_ok_def list_all_iff)

lemma ref_ok_mono: "ref_ok P r \<Longrightarrow> (\<And>i. P i \<Longrightarrow> Q i) \<Longrightarrow> ref_ok Q r"
  by (auto simp: ref_ok_def split: option.splits)


lemmas fk_defs =
  external_identities_fk_def identity_invitations_fk_def group_members_fk_def group_groups_fk_def
  grants_fk_def auth_sessions_fk_def sessions_fk_def csrf_tokens_fk_def device_authorizations_fk_def
  issued_tokens_fk_def user_exists_def group_exists_def repository_exists_def identity_exists_def
  session_exists_def

lemmas fk_abs_defs = fk_defs [abs_def]

text \<open>Replacing one table keeps the invariant when the new table satisfies its own constraints
  and, for a table that others refer to, loses no key.\<close>

lemma schema_ok_leaf:
  assumes "schema_ok db"
  shows
    "\<And>rows. table_ok schema_migrations_ixs no_fk rows \<Longrightarrow> schema_ok (db\<lparr>t_schema_migrations := rows\<rparr>)"
    and "\<And>rows. table_ok identity_invitations_ixs (identity_invitations_fk db) rows \<Longrightarrow> schema_ok (db\<lparr>t_identity_invitations := rows\<rparr>)"
    and "\<And>rows. table_ok group_members_ixs (group_members_fk db) rows \<Longrightarrow> schema_ok (db\<lparr>t_group_members := rows\<rparr>)"
    and "\<And>rows. table_ok group_groups_ixs (group_groups_fk db) rows \<Longrightarrow> schema_ok (db\<lparr>t_group_groups := rows\<rparr>)"
    and "\<And>rows. table_ok grants_ixs (grants_fk db) rows \<Longrightarrow> schema_ok (db\<lparr>t_grants := rows\<rparr>)"
    and "\<And>rows. table_ok auth_sessions_ixs (auth_sessions_fk db) rows \<Longrightarrow> schema_ok (db\<lparr>t_auth_sessions := rows\<rparr>)"
    and "\<And>rows. table_ok login_transactions_ixs no_fk rows \<Longrightarrow> schema_ok (db\<lparr>t_login_transactions := rows\<rparr>)"
    and "\<And>rows. table_ok csrf_tokens_ixs (csrf_tokens_fk db) rows \<Longrightarrow> schema_ok (db\<lparr>t_csrf_tokens := rows\<rparr>)"
    and "\<And>rows. table_ok device_authorizations_ixs (device_authorizations_fk db) rows \<Longrightarrow> schema_ok (db\<lparr>t_device_authorizations := rows\<rparr>)"
    and "\<And>rows. table_ok issued_tokens_ixs (issued_tokens_fk db) rows \<Longrightarrow> schema_ok (db\<lparr>t_issued_tokens := rows\<rparr>)"
    and "\<And>rows. table_ok signing_keys_ixs no_fk rows \<Longrightarrow> schema_ok (db\<lparr>t_signing_keys := rows\<rparr>)"
    and "\<And>rows. table_ok admin_audit_ixs no_fk rows \<Longrightarrow> schema_ok (db\<lparr>t_admin_audit := rows\<rparr>)"
  using assms by (simp_all add: schema_ok_def fk_abs_defs)

lemma fk_mono:
  assumes "\<And>i. user_exists db i \<Longrightarrow> user_exists db' i" "\<And>i. group_exists db i \<Longrightarrow> group_exists db' i"
    "\<And>i. repository_exists db i \<Longrightarrow> repository_exists db' i"
    "\<And>i. identity_exists db i \<Longrightarrow> identity_exists db' i"
    "\<And>i. session_exists db i \<Longrightarrow> session_exists db' i"
  shows "external_identities_fk db xr \<Longrightarrow> external_identities_fk db' xr"
    and "identity_invitations_fk db vr \<Longrightarrow> identity_invitations_fk db' vr"
    and "group_members_fk db mr \<Longrightarrow> group_members_fk db' mr"
    and "group_groups_fk db nr \<Longrightarrow> group_groups_fk db' nr"
    and "grants_fk db tr \<Longrightarrow> grants_fk db' tr"
    and "auth_sessions_fk db sr \<Longrightarrow> auth_sessions_fk db' sr"
    and "sessions_fk db br \<Longrightarrow> sessions_fk db' br"
    and "csrf_tokens_fk db cr \<Longrightarrow> csrf_tokens_fk db' cr"
    and "device_authorizations_fk db dr \<Longrightarrow> device_authorizations_fk db' dr"
    and "issued_tokens_fk db kr \<Longrightarrow> issued_tokens_fk db' kr"
  using assms
  by (auto simp: external_identities_fk_def identity_invitations_fk_def group_members_fk_def
      group_groups_fk_def grants_fk_def auth_sessions_fk_def sessions_fk_def csrf_tokens_fk_def
      device_authorizations_fk_def issued_tokens_fk_def elim!: ref_ok_mono)

lemma schema_ok_grow:
  assumes ok: "schema_ok db"
    and same: "t_identity_invitations db' = t_identity_invitations db"
      "t_group_members db' = t_group_members db" "t_group_groups db' = t_group_groups db"
      "t_grants db' = t_grants db" "t_auth_sessions db' = t_auth_sessions db"
      "t_csrf_tokens db' = t_csrf_tokens db" "t_issued_tokens db' = t_issued_tokens db"
      "t_device_authorizations db' = t_device_authorizations db"
      "t_login_transactions db' = t_login_transactions db" "t_signing_keys db' = t_signing_keys db"
      "t_admin_audit db' = t_admin_audit db" "t_schema_migrations db' = t_schema_migrations db"
    and new: "table_ok users_ixs no_fk (t_users db')" "table_ok groups_ixs no_fk (t_groups db')"
      "table_ok repositories_ixs no_fk (t_repositories db')"
      "table_ok external_identities_ixs (external_identities_fk db) (t_external_identities db')"
      "table_ok sessions_ixs (sessions_fk db) (t_sessions db')"
    and grow: "\<And>i. user_exists db i \<Longrightarrow> user_exists db' i" "\<And>i. group_exists db i \<Longrightarrow> group_exists db' i"
      "\<And>i. repository_exists db i \<Longrightarrow> repository_exists db' i"
      "\<And>i. identity_exists db i \<Longrightarrow> identity_exists db' i"
      "\<And>i. session_exists db i \<Longrightarrow> session_exists db' i"
  shows "schema_ok db'"
proof -
  note mono = fk_mono [OF grow]
  show ?thesis
    using ok unfolding schema_ok_def same
    using new by (auto elim!: table_ok_fk_mono intro: mono)
qed

lemma schema_ok_users:
  assumes "schema_ok db" "table_ok users_ixs no_fk rows" "ur_id ` set (t_users db) \<subseteq> ur_id ` set rows"
  shows "schema_ok (db\<lparr>t_users := rows\<rparr>)"
  by (rule schema_ok_grow [OF assms(1)])
    (use assms in \<open>auto simp: schema_ok_def user_exists_def group_exists_def
       repository_exists_def identity_exists_def session_exists_def\<close>)

lemma schema_ok_groups:
  assumes "schema_ok db" "table_ok groups_ixs no_fk rows" "pr_id ` set (t_groups db) \<subseteq> pr_id ` set rows"
  shows "schema_ok (db\<lparr>t_groups := rows\<rparr>)"
  by (rule schema_ok_grow [OF assms(1)])
    (use assms in \<open>auto simp: schema_ok_def user_exists_def group_exists_def
       repository_exists_def identity_exists_def session_exists_def\<close>)

lemma schema_ok_repositories:
  assumes "schema_ok db" "table_ok repositories_ixs no_fk rows" "rr_id ` set (t_repositories db) \<subseteq> rr_id ` set rows"
  shows "schema_ok (db\<lparr>t_repositories := rows\<rparr>)"
  by (rule schema_ok_grow [OF assms(1)])
    (use assms in \<open>auto simp: schema_ok_def user_exists_def group_exists_def
       repository_exists_def identity_exists_def session_exists_def\<close>)

lemma schema_ok_external_identities:
  assumes "schema_ok db" "table_ok external_identities_ixs (external_identities_fk db) rows" "xr_id ` set (t_external_identities db) \<subseteq> xr_id ` set rows"
  shows "schema_ok (db\<lparr>t_external_identities := rows\<rparr>)"
  by (rule schema_ok_grow [OF assms(1)])
    (use assms in \<open>auto simp: schema_ok_def user_exists_def group_exists_def
       repository_exists_def identity_exists_def session_exists_def\<close>)

lemma schema_ok_sessions:
  assumes "schema_ok db" "table_ok sessions_ixs (sessions_fk db) rows" "br_id ` set (t_sessions db) \<subseteq> br_id ` set rows"
  shows "schema_ok (db\<lparr>t_sessions := rows\<rparr>)"
  by (rule schema_ok_grow [OF assms(1)])
    (use assms in \<open>auto simp: schema_ok_def user_exists_def group_exists_def
       repository_exists_def identity_exists_def session_exists_def\<close>)

lemmas schema_ok_tables =
  schema_ok_leaf schema_ok_users schema_ok_groups schema_ok_repositories
  schema_ok_external_identities schema_ok_sessions

lemma schema_okD:
  assumes "schema_ok db"
  shows "table_ok users_ixs no_fk (t_users db)" "table_ok groups_ixs no_fk (t_groups db)"
    "table_ok repositories_ixs no_fk (t_repositories db)"
    "table_ok external_identities_ixs (external_identities_fk db) (t_external_identities db)"
    "table_ok identity_invitations_ixs (identity_invitations_fk db) (t_identity_invitations db)"
    "table_ok group_members_ixs (group_members_fk db) (t_group_members db)"
    "table_ok group_groups_ixs (group_groups_fk db) (t_group_groups db)"
    "table_ok grants_ixs (grants_fk db) (t_grants db)"
    "table_ok auth_sessions_ixs (auth_sessions_fk db) (t_auth_sessions db)"
    "table_ok login_transactions_ixs no_fk (t_login_transactions db)"
    "table_ok sessions_ixs (sessions_fk db) (t_sessions db)"
    "table_ok csrf_tokens_ixs (csrf_tokens_fk db) (t_csrf_tokens db)"
    "table_ok device_authorizations_ixs (device_authorizations_fk db) (t_device_authorizations db)"
    "table_ok issued_tokens_ixs (issued_tokens_fk db) (t_issued_tokens db)"
    "table_ok signing_keys_ixs no_fk (t_signing_keys db)"
    "table_ok admin_audit_ixs no_fk (t_admin_audit db)"
    "table_ok schema_migrations_ixs no_fk (t_schema_migrations db)"
  using assms by (simp_all add: schema_ok_def)

section \<open>Lookup by a unique key\<close>

text \<open>
  What a unique index promises to the queries of the adapter: a query whose condition fixes the
  indexed columns has at most one row to return, so \<open>query_row\<close> returns it whatever the order.
\<close>

locale keyed_table =
  fixes tbl :: "Db \<Rightarrow> 'r list" and key :: "'r \<Rightarrow> string list option"
  assumes keyed: "schema_ok db \<Longrightarrow> unique_ok key (tbl db)"
begin

lemma same_row:
  assumes "schema_ok db" "r \<in> set (tbl db)" "r' \<in> set (tbl db)" "key r = key r'" "key r \<noteq> None"
  shows "r = r'"
  using unique_ok_inj [OF keyed [OF assms(1)] assms(2,3)] assms(4,5) by auto

lemma find_iff:
  assumes "schema_ok db" "\<And>x y. Q x \<Longrightarrow> Q y \<Longrightarrow> key x = key y \<and> key x \<noteq> None"
  shows "find Q (tbl db) = Some r \<longleftrightarrow> r \<in> set (tbl db) \<and> Q r"
proof
  assume r: "r \<in> set (tbl db) \<and> Q r"
  show "find Q (tbl db) = Some r"
  proof (cases "find Q (tbl db)")
    case None
    with r show ?thesis by (auto simp: find_None_iff)
  next
    case (Some x)
    with find_SomeD [OF Some] r assms same_row [of db x r] show ?thesis by auto
  qed
qed (auto dest: find_SomeD)

end

interpretation users_id: keyed_table t_users "\<lambda>r. Some [ur_id r]"
  by unfold_locales (drule schema_okD(1), simp add: table_ok_def users_ixs_def users_pk_def)

interpretation groups_id: keyed_table t_groups "\<lambda>r. Some [pr_id r]"
  by unfold_locales (drule schema_okD(2), simp add: table_ok_def groups_ixs_def)

interpretation groups_name: keyed_table t_groups "\<lambda>r. Some [pr_name r]"
  by unfold_locales (drule schema_okD(2), simp add: table_ok_def groups_ixs_def)

interpretation repositories_id: keyed_table t_repositories "\<lambda>r. Some [rr_id r]"
  by unfold_locales (drule schema_okD(3), simp add: table_ok_def repositories_ixs_def)

interpretation repositories_name: keyed_table t_repositories "\<lambda>r. Some [rr_name r]"
  by unfold_locales (drule schema_okD(3), simp add: table_ok_def repositories_ixs_def repositories_name_ix_def)

interpretation repositories_lore_id: keyed_table t_repositories "\<lambda>r. Some [rr_lore_repository_id r]"
  by unfold_locales (drule schema_okD(3), simp add: table_ok_def repositories_ixs_def)

interpretation identities_key:
  keyed_table t_external_identities "\<lambda>r. Some [xr_provider_id r, xr_issuer r, xr_subject r]"
  by unfold_locales (drule schema_okD(4), simp add: table_ok_def external_identities_ixs_def)

interpretation members_key: keyed_table t_group_members "\<lambda>r. Some [mr_group_id r, mr_user_id r]"
  by unfold_locales (drule schema_okD(6), simp add: table_ok_def group_members_ixs_def)

interpretation nesting_key: keyed_table t_group_groups "\<lambda>r. Some [nr_group_id r, nr_member_group_id r]"
  by unfold_locales (drule schema_okD(7), simp add: table_ok_def group_groups_ixs_def)

interpretation grants_key: keyed_table t_grants
    "\<lambda>r. Some [tr_subject_type r, tr_subject_id r, tr_repository_id r, tr_role r]"
  by unfold_locales (drule schema_okD(8), simp add: table_ok_def grants_ixs_def)

interpretation auth_sessions_code: keyed_table t_auth_sessions "\<lambda>r. Some [sr_session_code_hash r]"
  by unfold_locales (drule schema_okD(9), simp add: table_ok_def auth_sessions_ixs_def)

interpretation auth_sessions_id: keyed_table t_auth_sessions "\<lambda>r. Some [sr_id r]"
  by unfold_locales (drule schema_okD(9), simp add: table_ok_def auth_sessions_ixs_def)

interpretation login_states_hash: keyed_table t_login_transactions "\<lambda>r. Some [lt_state_hash r]"
  by unfold_locales (drule schema_okD(10), simp add: table_ok_def login_transactions_ixs_def)

interpretation login_states_id: keyed_table t_login_transactions "\<lambda>r. Some [lt_id r]"
  by unfold_locales (drule schema_okD(10), simp add: table_ok_def login_transactions_ixs_def)

interpretation sessions_id: keyed_table t_sessions "\<lambda>r. Some [br_id r]"
  by unfold_locales (drule schema_okD(11), simp add: table_ok_def sessions_ixs_def)

interpretation csrf_hash: keyed_table t_csrf_tokens "\<lambda>r. Some [cr_token_hash r]"
  by unfold_locales (drule schema_okD(12), simp add: table_ok_def csrf_tokens_ixs_def)

interpretation devices_code: keyed_table t_device_authorizations "\<lambda>r. Some [dr_device_code_hash r]"
  by unfold_locales (drule schema_okD(13), simp add: table_ok_def device_authorizations_ixs_def)

interpretation devices_user_code: keyed_table t_device_authorizations "\<lambda>r. Some [dr_user_code_hash r]"
  by unfold_locales (drule schema_okD(13), simp add: table_ok_def device_authorizations_ixs_def)

interpretation devices_id: keyed_table t_device_authorizations "\<lambda>r. Some [dr_id r]"
  by unfold_locales (drule schema_okD(13), simp add: table_ok_def device_authorizations_ixs_def)

interpretation tokens_jti: keyed_table t_issued_tokens "\<lambda>r. Some [kr_jti r]"
  by unfold_locales (drule schema_okD(14), simp add: table_ok_def issued_tokens_ixs_def)

interpretation keys_kid: keyed_table t_signing_keys "\<lambda>r. Some [kk_kid r]"
  by unfold_locales (drule schema_okD(15), simp add: table_ok_def signing_keys_ixs_def)

section \<open>Helpers of the store\<close>

definition BRIDGE_PROVIDER_ID :: string where
  "BRIDGE_PROVIDER_ID = ''bridge''"

definition DEFAULT_SUBJECT_STRATEGY :: string where
  "DEFAULT_SUBJECT_STRATEGY = ''oidc_sub''"

definition VERIFIED_EMAIL_INVITATION :: string where
  "VERIFIED_EMAIL_INVITATION = ''verified_email_invitation''"

definition core_from_sql :: "rusqlite_error \<Rightarrow> CoreError" where
  "core_from_sql err =
     (case err of QueryReturnedNoRows \<Rightarrow> NotFound
      | other \<Rightarrow> InvalidArgument [Lit ''sqlite: '', DispSql other])"

definition unwrap_or_default :: "string option \<Rightarrow> string" where
  "unwrap_or_default x = (case x of None \<Rightarrow> [] | Some v \<Rightarrow> v)"

definition unwrap_or_zero :: "i64 option \<Rightarrow> i64" where
  "unwrap_or_zero x = (case x of None \<Rightarrow> 0 | Some v \<Rightarrow> v)"

definition user_from_row :: "users_row \<Rightarrow> User" where
  "user_from_row row =
     \<lparr>u_id = ur_id row,
      u_email = unwrap_or_default (ur_primary_email row),
      u_display_name = unwrap_or_default (ur_display_name row),
      u_status = ur_status row,
      u_last_login_at = unwrap_or_zero (ur_last_login_at row)\<rparr>"

definition validated_lore_repository_id :: "string \<Rightarrow> string core_result" where
  "validated_lore_repository_id value =
     ok_or (InvalidArgument [Lit (''lore_repository_id must be 1-128 characters of A-Z, a-z, 0-9, '-' or '_'' @ [CHR 0x27])])
       (normalize_valid_lore_repository_id value)"

definition resource_id_from_resource :: "Resource \<Rightarrow> string core_result" where
  "resource_id_from_resource resource =
     (if trim (r_resource_id resource) \<noteq> [] then
        and_then (validated_lore_repository_id (repository_id_from_resource_id (trim (r_resource_id resource))))
          (\<lambda>repository_id.
             ok_or (InvalidArgument [Lit ''resource_id is required'']) (for_repository_id repository_id))
      else
        and_then (validated_lore_repository_id (r_lore_repository_id resource))
          (\<lambda>repository_id.
             ok_or (InvalidArgument [Lit ''resource_id is required'']) (for_repository_id repository_id)))"

definition validated_account_email :: "string \<Rightarrow> string core_result" where
  "validated_account_email value =
     (let email = trim value in
      ok_or (InvalidArgument [Lit ''email must contain '@' and no whitespace''])
        (map_option (\<lambda>_. email) (normalize_valid_account_email email)))"

definition allows_verified_email_invitation_binding :: "LoginTrustPolicy \<Rightarrow> bool" where
  "allows_verified_email_invitation_binding policy \<longleftrightarrow>
     trim (ltp_email_binding policy) = VERIFIED_EMAIL_INVITATION"

definition email_domain :: "string \<Rightarrow> string option" where
  "email_domain email =
     (case rsplit_once (CHR ''@'') (normalize_email email) of
        None \<Rightarrow> None
      | Some (_, domain) \<Rightarrow> if domain = [] then None else Some domain)"

definition email_domain_allowed :: "string \<Rightarrow> string list \<Rightarrow> bool" where
  "email_domain_allowed email allowed =
     (if allowed = [] then True
      else (case email_domain email of
              None \<Rightarrow> False
            | Some domain \<Rightarrow>
                list_ex (\<lambda>allowed_domain. eq_ignore_ascii_case (trim allowed_domain) domain) allowed))"

definition none_if_empty :: "string \<Rightarrow> string option" where
  "none_if_empty value = (let trimmed = trim value in if trimmed = [] then None else Some trimmed)"

definition none_i64_if_zero :: "i64 \<Rightarrow> i64 option" where
  "none_i64_if_zero value = (if value = 0 then None else Some value)"

definition bool_to_i64 :: "bool \<Rightarrow> i64" where
  "bool_to_i64 value = (if value then 1 else 0)"

definition require_affected :: "nat \<Rightarrow> CoreError \<Rightarrow> unit core_result" where
  "require_affected changed not_found = (if changed = 0 then Inl not_found else Inr ())"

definition effective_limit :: "nat \<Rightarrow> nat" where
  "effective_limit limit = max limit 1"

fun escape_like :: "string \<Rightarrow> string" where
  "escape_like [] = []"
| "escape_like (ch # rest) =
     (if ch \<in> {CHR 0x5C, CHR ''%'', CHR ''_''} then CHR 0x5C # ch # escape_like rest
      else ch # escape_like rest)"

text \<open>The SHA-256 digest in hex is an argument \<open>sha256_hex\<close>.\<close>

definition hash_secret :: "(string \<Rightarrow> string) \<Rightarrow> string \<Rightarrow> string" where
  "hash_secret sha256_hex value = sha256_hex (trim value)"

definition hash_code :: "(string \<Rightarrow> string) \<Rightarrow> string \<Rightarrow> string" where
  "hash_code sha256_hex value = hash_secret sha256_hex (to_ascii_uppercase (trim value))"

definition ttl_seconds :: "duration \<Rightarrow> i64" where
  "ttl_seconds ttl = i64_from_u64 (as_secs ttl)"

lemma require_affected_Inr [res_simps]: "require_affected n e = Inr x \<longleftrightarrow> n \<noteq> 0"
  by (simp add: require_affected_def)

lemma require_affected_Inl [res_simps]: "require_affected n e = Inl e' \<longleftrightarrow> n = 0 \<and> e' = e"
  by (auto simp: require_affected_def)

lemma none_if_empty_trim [simp]: "none_if_empty (trim s) = none_if_empty s"
  by (simp add: none_if_empty_def)

end
