(* ===== verification/Sqlite_Accounts.thy ===== *)
theory Sqlite_Accounts
  imports Sqlite_Store
begin

text \<open>
  The account directory of the SQLite adapter
  (\<open>src/crates/lore-auth-adapters/src/sqlite/accounts.rs\<close>): users, external identities and
  invitations, login resolution and invitation binding, and the account queries. An operation
  that writes returns its result with the database after the commit; on an error nothing is
  committed. The theorems say who can log in, what a login changes, that a disabled user is
  turned away, and that the user search is substring search.
\<close>

section \<open>Operations\<close>

definition first_row :: "'a list \<Rightarrow> 'a option" where
  "first_row xs = (case xs of [] \<Rightarrow> None | x # _ \<Rightarrow> Some x)"

definition users_row_of :: "User \<Rightarrow> i64 \<Rightarrow> users_row" where
  "users_row_of user now =
     \<lparr>ur_id = u_id user,
      ur_display_name = none_if_empty (u_display_name user),
      ur_primary_email = none_if_empty (u_email user),
      ur_primary_email_normalized = none_if_empty (normalize_email (u_email user)),
      ur_status = u_status user,
      ur_created_at = now, ur_updated_at = now, ur_last_login_at = None\<rparr>"

definition add_user_conn :: "i64 \<Rightarrow> string \<Rightarrow> AddUserInput \<Rightarrow> Db \<Rightarrow> (User \<times> Db) core_result" where
  "add_user_conn now new_id input db =
     and_then (validated_account_email (au_email input)) (\<lambda>email.
     let user = \<lparr>u_id = new_id, u_email = email, u_display_name = au_display_name input,
                 u_status = ''active'', u_last_login_at = 0\<rparr> in
     and_then (map_err core_from_sql (insert_row users_ixs no_fk (users_row_of user now) (t_users db)))
       (\<lambda>rows. Inr (user, db\<lparr>t_users := rows\<rparr>)))"

definition invitation_row_of :: "IdentityInvitation \<Rightarrow> string \<Rightarrow> i64 \<Rightarrow> identity_invitations_row" where
  "invitation_row_of invit email_normalized now =
     \<lparr>vr_id = ii_id invit, vr_user_id = ii_user_id invit, vr_provider_id = ii_provider_id invit,
      vr_issuer = ii_issuer invit, vr_email = none_if_empty (ii_email invit),
      vr_email_normalized = none_if_empty email_normalized,
      vr_binding_policy = ii_binding_policy invit, vr_status = ii_status invit,
      vr_accepted_identity_id = None, vr_created_at = now,
      vr_expires_at = none_i64_if_zero (ii_expires_at invit), vr_accepted_at = None\<rparr>"

definition add_invitation_db ::
  "i64 \<Rightarrow> string \<Rightarrow> string \<Rightarrow> AddInvitationInput \<Rightarrow> Db \<Rightarrow> ((User \<times> IdentityInvitation) \<times> Db) core_result" where
  "add_invitation_db now new_user_id new_invitation_id input db =
     (let provider_id = trim (ai_provider_id input); issuer = trim (ai_issuer input) in
      and_then (validated_account_email (ai_email input)) (\<lambda>email.
      let email_normalized = normalize_email email in
      if provider_id = [] \<or> issuer = [] \<or> email_normalized = [] then
        Inl (InvalidArgument [Lit ''provider_id, issuer, and email are required''])
      else
        let binding_policy =
              (if trim (ai_binding_policy input) = [] then VERIFIED_EMAIL_INVITATION
               else trim (ai_binding_policy input));
            user = \<lparr>u_id = new_user_id, u_email = email, u_display_name = ai_display_name input,
                    u_status = ''pending'', u_last_login_at = 0\<rparr>;
            invitation = \<lparr>ii_id = new_invitation_id, ii_user_id = u_id user,
                    ii_provider_id = provider_id, ii_issuer = issuer, ii_email = email,
                    ii_binding_policy = binding_policy, ii_status = ''pending'',
                    ii_accepted_identity_id = [], ii_expires_at = ai_expires_at input,
                    ii_accepted_at = 0\<rparr> in
        and_then (map_err core_from_sql (insert_row users_ixs no_fk (users_row_of user now) (t_users db)))
          (\<lambda>users.
        let db1 = db\<lparr>t_users := users\<rparr> in
        and_then (map_err core_from_sql
            (insert_row identity_invitations_ixs (identity_invitations_fk db1)
               (invitation_row_of invitation email_normalized now) (t_identity_invitations db1)))
          (\<lambda>invitations.
        Inr ((user, invitation), db1\<lparr>t_identity_invitations := invitations\<rparr>)))))"

definition resolve_user_id_conn :: "Db \<Rightarrow> string \<Rightarrow> string core_result" where
  "resolve_user_id_conn db email_or_id =
     (case find (\<lambda>r. ur_id r = email_or_id) (t_users db) of
        Some r \<Rightarrow> Inr (ur_id r)
      | None \<Rightarrow>
          ok_or NotFound (map_option ur_id
            (find (\<lambda>r. ur_primary_email_normalized r = Some (normalize_email email_or_id))
               (sort_key ur_created_at (t_users db)))))"

definition set_user_status_conn :: "string \<Rightarrow> i64 \<Rightarrow> Db \<Rightarrow> string \<Rightarrow> (unit \<times> Db) core_result" where
  "set_user_status_conn status now db email_or_id =
     and_then (resolve_user_id_conn db email_or_id) (\<lambda>user_id.
     and_then (map_err core_from_sql
         (update_rows [] no_fk (\<lambda>r. ur_id r = user_id \<and> ur_status r \<noteq> ''deleted'')
            (\<lambda>r. r\<lparr>ur_status := status, ur_updated_at := now\<rparr>) (t_users db)))
       (\<lambda>(changed, rows).
     and_then (require_affected changed NotFound) (\<lambda>_. Inr ((), db\<lparr>t_users := rows\<rparr>))))"

definition disable_user_conn :: "i64 \<Rightarrow> Db \<Rightarrow> string \<Rightarrow> (unit \<times> Db) core_result" where
  "disable_user_conn now db email_or_id = set_user_status_conn ''disabled'' now db email_or_id"

definition enable_user_conn :: "i64 \<Rightarrow> Db \<Rightarrow> string \<Rightarrow> (unit \<times> Db) core_result" where
  "enable_user_conn now db email_or_id = set_user_status_conn ''active'' now db email_or_id"

definition user_by_id_conn :: "Db \<Rightarrow> string \<Rightarrow> User core_result" where
  "user_by_id_conn db user_id =
     ok_or NotFound (map_option user_from_row
       (find (\<lambda>r. ur_id r = user_id \<and> ur_status r \<noteq> ''deleted'') (t_users db)))"

definition user_by_id_tx :: "Db \<Rightarrow> string \<Rightarrow> User core_result" where
  "user_by_id_tx db user_id =
     ok_or NotFound (map_option user_from_row (find (\<lambda>r. ur_id r = user_id) (t_users db)))"

definition resolve_user :: "Db \<Rightarrow> string \<Rightarrow> User core_result" where
  "resolve_user db email_or_id = and_then (resolve_user_id_conn db email_or_id) (user_by_id_conn db)"

definition group_names_conn :: "Db \<Rightarrow> string \<Rightarrow> string list" where
  "group_names_conn db user_id =
     sort [pr_name g. g \<leftarrow> t_groups db, m \<leftarrow> t_group_members db,
                      mr_group_id m = pr_id g \<and> mr_user_id m = user_id]"

definition active_user :: "User \<Rightarrow> unit core_result" where
  "active_user user = (if u_status user = ''active'' then Inr () else Inl PermissionDenied)"

definition principal_from_user :: "User \<Rightarrow> string \<Rightarrow> string list \<Rightarrow> TokenPrincipal" where
  "principal_from_user user token_idp grps =
     \<lparr>tp_user_id = u_id user, tp_token_subject = bridge_subject user, tp_token_idp = token_idp,
      tp_display_name = User_display user, tp_preferred_username = preferred_username user,
      tp_groups = grps\<rparr>"

definition principal_by_user_id :: "Db \<Rightarrow> string \<Rightarrow> TokenPrincipal core_result" where
  "principal_by_user_id db user_id =
     and_then (user_by_id_conn db user_id) (\<lambda>user.
     and_then (active_user user) (\<lambda>_.
     Inr (principal_from_user user BRIDGE_PROVIDER_ID (group_names_conn db (u_id user)))))"

definition principal_by_authn_token_jti :: "i64 \<Rightarrow> Db \<Rightarrow> string \<Rightarrow> TokenPrincipal core_result" where
  "principal_by_authn_token_jti now db jti =
     and_then (ok_or NotFound (map_option user_from_row (first_row
        [u. t \<leftarrow> t_issued_tokens db, u \<leftarrow> t_users db,
            kr_user_id t = Some (ur_id u) \<and> kr_jti t = jti \<and> kr_token_kind t = ''authn'' \<and>
            kr_revoked_at t = None \<and> kr_expires_at t > now \<and> ur_status u = ''active''])))
     (\<lambda>user. Inr (principal_from_user user BRIDGE_PROVIDER_ID (group_names_conn db (u_id user))))"

definition external_identity_from_row :: "external_identities_row \<Rightarrow> ExternalIdentity" where
  "external_identity_from_row row =
     \<lparr>ei_id = xr_id row, ei_user_id = xr_user_id row, ei_provider_id = xr_provider_id row,
      ei_issuer = xr_issuer row, ei_subject = xr_subject row,
      ei_subject_strategy = xr_subject_strategy row, ei_email = unwrap_or_default (xr_email row),
      ei_email_verified = (xr_email_verified row \<noteq> 0),
      ei_display_name = unwrap_or_default (xr_display_name row),
      ei_picture_url = unwrap_or_default (xr_picture_url row),
      ei_hosted_domain = unwrap_or_default (xr_hosted_domain row), ei_status = xr_status row\<rparr>"

definition identity_invitation_from_row :: "identity_invitations_row \<Rightarrow> IdentityInvitation" where
  "identity_invitation_from_row row =
     \<lparr>ii_id = vr_id row, ii_user_id = vr_user_id row, ii_provider_id = vr_provider_id row,
      ii_issuer = vr_issuer row, ii_email = unwrap_or_default (vr_email row),
      ii_binding_policy = vr_binding_policy row, ii_status = vr_status row,
      ii_accepted_identity_id = unwrap_or_default (vr_accepted_identity_id row),
      ii_expires_at = unwrap_or_zero (vr_expires_at row),
      ii_accepted_at = unwrap_or_zero (vr_accepted_at row)\<rparr>"

text \<open>\<open>resolve_login_conn\<close> in its two branches: an identity already bound, and the binding
  of a pending invitation.\<close>

definition login_existing ::
  "i64 \<Rightarrow> ExternalIdentity \<Rightarrow> Db \<Rightarrow> ((TokenPrincipal \<times> LoginBindingResult) \<times> Db) core_result" where
  "login_existing now existing db =
     and_then (map_err core_from_sql
         (update_rows [] no_fk (\<lambda>r. xr_id r = ei_id existing) (\<lambda>r. r\<lparr>xr_last_seen_at := now\<rparr>)
            (t_external_identities db)))
       (\<lambda>(_, identities).
     and_then (map_err core_from_sql
         (update_rows [] no_fk (\<lambda>r. ur_id r = ei_user_id existing)
            (\<lambda>r. r\<lparr>ur_last_login_at := Some now, ur_updated_at := now\<rparr>) (t_users db)))
       (\<lambda>(_, users).
     let tx = db\<lparr>t_external_identities := identities, t_users := users\<rparr> in
     and_then (user_by_id_tx tx (ei_user_id existing)) (\<lambda>user.
     and_then (active_user user) (\<lambda>_.
     Inr ((principal_from_user user (ei_provider_id existing) (group_names_conn tx (u_id user)),
           \<lparr>lb_status = ''existing'', lb_external_identity_id = ei_id existing, lb_invitation_id = []\<rparr>),
          tx)))))"

definition external_identity_row_of :: "ExternalIdentity \<Rightarrow> i64 \<Rightarrow> external_identities_row" where
  "external_identity_row_of e now =
     \<lparr>xr_id = ei_id e, xr_user_id = ei_user_id e, xr_provider_id = ei_provider_id e,
      xr_issuer = ei_issuer e, xr_subject = ei_subject e,
      xr_subject_strategy = ei_subject_strategy e, xr_email = none_if_empty (ei_email e),
      xr_email_verified = bool_to_i64 (ei_email_verified e),
      xr_display_name = none_if_empty (ei_display_name e),
      xr_picture_url = none_if_empty (ei_picture_url e),
      xr_hosted_domain = none_if_empty (ei_hosted_domain e), xr_status = ei_status e,
      xr_first_seen_at = now, xr_last_seen_at = now\<rparr>"

definition login_bind ::
  "i64 \<Rightarrow> string \<Rightarrow> ExternalIdentity \<Rightarrow> IdentityInvitation \<Rightarrow> Db
     \<Rightarrow> ((TokenPrincipal \<times> LoginBindingResult) \<times> Db) core_result" where
  "login_bind now new_id identity invitation db =
     (let external_identity =
        \<lparr>ei_id = new_id, ei_user_id = ii_user_id invitation,
         ei_provider_id = trim (ei_provider_id identity), ei_issuer = trim (ei_issuer identity),
         ei_subject = trim (ei_subject identity),
         ei_subject_strategy =
           (if trim (ei_subject_strategy identity) = [] then DEFAULT_SUBJECT_STRATEGY
            else ei_subject_strategy identity),
         ei_email = trim (ei_email identity), ei_email_verified = ei_email_verified identity,
         ei_display_name = ei_display_name identity, ei_picture_url = ei_picture_url identity,
         ei_hosted_domain = ei_hosted_domain identity, ei_status = ''active''\<rparr> in
      and_then (map_err core_from_sql
          (insert_row external_identities_ixs (external_identities_fk db)
             (external_identity_row_of external_identity now) (t_external_identities db)))
        (\<lambda>identities.
      let tx1 = db\<lparr>t_external_identities := identities\<rparr> in
      and_then (map_err core_from_sql
          (update_rows [] (identity_invitations_fk tx1)
             (\<lambda>r. vr_id r = ii_id invitation \<and> vr_status r = ''pending'')
             (\<lambda>r. r\<lparr>vr_status := ''accepted'', vr_accepted_identity_id := Some (ei_id external_identity),
                    vr_accepted_at := Some now\<rparr>)
             (t_identity_invitations tx1)))
        (\<lambda>(changed, invitations).
      and_then (require_affected changed NotFound) (\<lambda>_.
      let tx2 = tx1\<lparr>t_identity_invitations := invitations\<rparr>;
          display_name = (if ei_display_name identity = [] then ii_email invitation
                          else ei_display_name identity) in
      and_then (map_err core_from_sql
          (update_rows [users_email_ix] no_fk (\<lambda>r. ur_id r = ii_user_id invitation)
             (\<lambda>r. r\<lparr>ur_primary_email := Some (ei_email external_identity),
                    ur_primary_email_normalized := Some (normalize_email (ei_email external_identity)),
                    ur_display_name := none_if_empty display_name, ur_status := ''active'',
                    ur_updated_at := now, ur_last_login_at := Some now\<rparr>)
             (t_users tx2)))
        (\<lambda>(changed, users).
      and_then (require_affected changed NotFound) (\<lambda>_.
      let tx3 = tx2\<lparr>t_users := users\<rparr> in
      and_then (user_by_id_tx tx3 (ii_user_id invitation)) (\<lambda>user.
      Inr ((principal_from_user user (ei_provider_id external_identity)
              (group_names_conn tx3 (u_id user)),
            \<lparr>lb_status = ''bound_invitation'', lb_external_identity_id = ei_id external_identity,
             lb_invitation_id = ii_id invitation\<rparr>),
           tx3))))))))"

definition find_identity :: "Db \<Rightarrow> string \<Rightarrow> string \<Rightarrow> string \<Rightarrow> external_identities_row option" where
  "find_identity db provider_id issuer subject =
     find (\<lambda>r. xr_provider_id r = provider_id \<and> xr_issuer r = issuer \<and> xr_subject r = subject \<and>
               xr_status r = ''active'') (t_external_identities db)"

definition find_invitation :: "Db \<Rightarrow> i64 \<Rightarrow> string \<Rightarrow> string \<Rightarrow> string \<Rightarrow> identity_invitations_row option" where
  "find_invitation db now provider_id issuer email_normalized =
     find (\<lambda>r. vr_provider_id r = provider_id \<and> vr_issuer r = issuer \<and>
               vr_email_normalized r = Some email_normalized \<and>
               vr_binding_policy r = VERIFIED_EMAIL_INVITATION \<and> vr_status r = ''pending'' \<and>
               (case vr_expires_at r of None \<Rightarrow> True | Some e \<Rightarrow> e > now))
       (sort_key vr_created_at (t_identity_invitations db))"

definition resolve_login_conn ::
  "i64 \<Rightarrow> i64 \<Rightarrow> string \<Rightarrow> LoginResolutionRequest \<Rightarrow> Db
     \<Rightarrow> ((TokenPrincipal \<times> LoginBindingResult) \<times> Db) core_result" where
  "resolve_login_conn now1 now2 new_id req db =
     (let identity = lr_identity req;
          provider_id = trim (ei_provider_id identity);
          issuer = trim (ei_issuer identity);
          subject = trim (ei_subject identity) in
      if provider_id = [] \<or> issuer = [] \<or> subject = [] then
        Inl (InvalidArgument [Lit ''provider_id, issuer, and subject are required''])
      else
        case find_identity db provider_id issuer subject of
          Some existing \<Rightarrow> login_existing now1 (external_identity_from_row existing) db
        | None \<Rightarrow>
            if \<not> ei_email_verified identity \<or> trim (ei_email identity) = [] then Inl NotFound
            else if \<not> allows_verified_email_invitation_binding (lr_policy req) then Inl NotFound
            else
              let email_normalized = normalize_email (ei_email identity) in
              if \<not> email_domain_allowed email_normalized (ltp_allowed_email_domains (lr_policy req))
              then Inl NotFound
              else and_then (ok_or NotFound (find_invitation db now1 provider_id issuer email_normalized))
                     (\<lambda>invit. login_bind now2 new_id identity (identity_invitation_from_row invit) db))"

text \<open>SQLite's \<open>LIKE\<close> with \<open>ESCAPE\<close> backslash: case-insensitive on ASCII, \<open>%\<close>
  matches any sequence, \<open>_\<close> one UTF-8 character.\<close>

fun like_match :: "string \<Rightarrow> string \<Rightarrow> bool" where
  "like_match [] s = (s = [])"
| "like_match (p # ps) s =
     (if p = CHR 0x5C then
        (case ps of [] \<Rightarrow> False
         | q # qs \<Rightarrow> (case s of [] \<Rightarrow> False
                       | c # cs \<Rightarrow> ascii_lower_char c = ascii_lower_char q \<and> like_match qs cs))
      else if p = CHR ''%'' then
        like_match ps s \<or> (case s of [] \<Rightarrow> False | c # cs \<Rightarrow> like_match (p # ps) cs)
      else if p = CHR ''_'' then
        (case s of [] \<Rightarrow> False
         | c # cs \<Rightarrow> like_match ps (dropWhile (\<lambda>b. CHR 0x80 \<le> b \<and> b \<le> CHR 0xBF) cs))
      else
        (case s of [] \<Rightarrow> False
         | c # cs \<Rightarrow> ascii_lower_char c = ascii_lower_char p \<and> like_match ps cs))"

definition like_null :: "string \<Rightarrow> string option \<Rightarrow> bool" where
  "like_null pat v = (case v of None \<Rightarrow> False | Some s \<Rightarrow> like_match pat s)"

text \<open>\<open>ORDER BY\<close> a nullable column: NULL sorts first.\<close>

definition null_first :: "string option \<Rightarrow> string list" where
  "null_first v = (case v of None \<Rightarrow> [] | Some s \<Rightarrow> [s])"

definition list_users_conn :: "Db \<Rightarrow> UserListFilter \<Rightarrow> User list core_result" where
  "list_users_conn db filt =
     (let query = to_ascii_lowercase (trim (ulf_query filt));
          like = CHR ''%'' # escape_like query @ [CHR ''%''];
          lim = effective_limit (ulf_limit filt) in
      Inr (map user_from_row (take lim
        (sort_key (\<lambda>r. (null_first (ur_primary_email_normalized r), ur_id r))
          (filter (\<lambda>r. ur_status r \<noteq> ''deleted'' \<and>
             (query = [] \<or> like_null like (map_option to_ascii_lowercase (ur_primary_email_normalized r)) \<or>
              like_match like (to_ascii_lowercase (unwrap_or_default (ur_display_name r)))))
            (t_users db))))))"


section \<open>Rows and lookups\<close>

lemma first_row_in: "first_row xs = Some x \<Longrightarrow> x \<in> set xs"
  by (auto simp: first_row_def split: list.splits)

lemma users_unique_id:
  "schema_ok db \<Longrightarrow> r \<in> set (t_users db) \<Longrightarrow> r' \<in> set (t_users db) \<Longrightarrow> ur_id r = ur_id r' \<Longrightarrow> r = r'"
  by (rule users_id.same_row) auto

lemma find_user_by_id:
  assumes "schema_ok db" "r \<in> set (t_users db)" "P r"
  shows "find (\<lambda>x. ur_id x = ur_id r \<and> P x) (t_users db) = Some r"
    and "find (\<lambda>x. ur_id x = ur_id r) (t_users db) = Some r"
  by (subst users_id.find_iff [OF assms(1)]; use assms in simp)+

lemma resolve_user_id_conn_exists:
  "resolve_user_id_conn db x = Inr i \<Longrightarrow> user_exists db i"
  by (auto simp: resolve_user_id_conn_def user_exists_def res_simps dest!: find_SomeD
      split: option.splits)

lemma user_by_id_conn_iff:
  assumes "schema_ok db"
  shows "user_by_id_conn db i = Inr u \<longleftrightarrow>
    (\<exists>r \<in> set (t_users db). ur_id r = i \<and> ur_status r \<noteq> ''deleted'' \<and> u = user_from_row r)"
  using find_user_by_id(1) [OF assms]
  by (auto simp: user_by_id_conn_def res_simps dest: find_SomeD)

lemma user_from_row_simps [simp]:
  "u_id (user_from_row r) = ur_id r" "u_status (user_from_row r) = ur_status r"
  by (simp_all add: user_from_row_def)

lemma principal_by_user_id_iff:
  assumes "schema_ok db"
  shows "principal_by_user_id db i = Inr p \<longleftrightarrow>
    (\<exists>r \<in> set (t_users db). ur_id r = i \<and> ur_status r = ''active'' \<and>
       p = principal_from_user (user_from_row r) BRIDGE_PROVIDER_ID (group_names_conn db i))"
proof -
  have "principal_by_user_id db i = Inr p \<longleftrightarrow>
    (\<exists>u. user_by_id_conn db i = Inr u \<and> u_status u = ''active'' \<and>
         p = principal_from_user u BRIDGE_PROVIDER_ID (group_names_conn db (u_id u)))"
    by (auto simp: principal_by_user_id_def res_simps active_user_def split: if_splits)
  moreover have "\<dots> \<longleftrightarrow> (\<exists>r \<in> set (t_users db). ur_id r = i \<and> ur_status r = ''active'' \<and>
       p = principal_from_user (user_from_row r) BRIDGE_PROVIDER_ID (group_names_conn db i))"
    unfolding user_by_id_conn_iff [OF assms] by (rule iffI; elim exE bexE conjE; force)
  ultimately show ?thesis by simp
qed

lemma principal_from_user_id [simp]: "tp_user_id (principal_from_user u idp gs) = u_id u"
  by (simp add: principal_from_user_def)

section \<open>The schema invariant is kept\<close>

lemma add_user_conn_schema:
  "schema_ok db \<Longrightarrow> add_user_conn now i input db = Inr (u, db') \<Longrightarrow> schema_ok db'"
  by (auto simp: add_user_conn_def Let_def res_simps insert_row_Inr
      intro!: schema_ok_users intro: table_ok_insert [OF schema_okD(1)])

lemma add_invitation_db_schema:
  assumes ok: "schema_ok db" and res: "add_invitation_db now i j input db = Inr (x, db')"
  shows "schema_ok db'"
proof -
  from res obtain user row rows invs where
    users: "insert_row users_ixs no_fk (users_row_of user now) (t_users db) = Inr rows" and
    invs: "insert_row identity_invitations_ixs (identity_invitations_fk (db\<lparr>t_users := rows\<rparr>)) row
             (t_identity_invitations (db\<lparr>t_users := rows\<rparr>)) = Inr invs" and
    db': "db' = db\<lparr>t_users := rows, t_identity_invitations := invs\<rparr>"
    by (fastforce simp: add_invitation_db_def Let_def res_simps split: if_splits)
  let ?db1 = "db\<lparr>t_users := rows\<rparr>"
  have "schema_ok ?db1"
    using users by (intro schema_ok_users [OF ok] table_ok_insert [OF schema_okD(1) [OF ok] users])
      (auto simp: insert_row_Inr)
  then have "schema_ok (?db1\<lparr>t_identity_invitations := invs\<rparr>)"
    by (intro schema_ok_leaf(2)) (use invs in \<open>auto intro: table_ok_insert [OF schema_okD(5)]\<close>)
  then show ?thesis by (simp add: db')
qed

lemma set_user_status_schema:
  assumes ok: "schema_ok db" and res: "set_user_status_conn st now db x = Inr (y, db')"
    and st: "st \<noteq> ''deleted''"
  shows "schema_ok db'"
proof -
  from res obtain i n rows where
    up: "update_rows [] no_fk (\<lambda>r. ur_id r = i \<and> ur_status r \<noteq> ''deleted'')
           (\<lambda>r. r\<lparr>ur_status := st, ur_updated_at := now\<rparr>) (t_users db) = Inr (n, rows)" and
    db': "db' = db\<lparr>t_users := rows\<rparr>"
    by (auto simp: set_user_status_conn_def res_simps)
  have "table_ok users_ixs no_fk rows"
    by (rule table_ok_update [OF schema_okD(1) [OF ok] up])
      (use st in \<open>auto simp: users_ixs_def users_pk_def users_email_ix_def no_fk_def\<close>)
  moreover have "ur_id ` set (t_users db) \<subseteq> ur_id ` set rows"
    using update_rows_image [OF up, of ur_id] by simp
  ultimately show ?thesis unfolding db' by (rule schema_ok_users [OF ok])
qed

lemma login_existing_schema:
  assumes ok: "schema_ok db" and res: "login_existing now e db = Inr (x, db')"
  shows "schema_ok db'"
proof -
  from res obtain n ids m us where
    ids: "update_rows [] no_fk (\<lambda>r. xr_id r = ei_id e) (\<lambda>r. r\<lparr>xr_last_seen_at := now\<rparr>)
            (t_external_identities db) = Inr (n, ids)" and
    us: "update_rows [] no_fk (\<lambda>r. ur_id r = ei_user_id e)
           (\<lambda>r. r\<lparr>ur_last_login_at := Some now, ur_updated_at := now\<rparr>) (t_users db) = Inr (m, us)" and
    db': "db' = db\<lparr>t_external_identities := ids, t_users := us\<rparr>"
    by (auto simp: login_existing_def Let_def res_simps)
  have 1: "schema_ok (db\<lparr>t_external_identities := ids\<rparr>)"
  proof (rule schema_ok_external_identities [OF ok])
    show "table_ok external_identities_ixs (external_identities_fk db) ids"
      by (rule table_ok_update [OF schema_okD(4) [OF ok] ids])
        (auto simp: external_identities_ixs_def external_identities_fk_def)
  qed (use update_rows_image [OF ids, of xr_id] in simp)
  have "schema_ok (db\<lparr>t_external_identities := ids, t_users := us\<rparr>)"
  proof (rule schema_ok_users [OF 1])
    show "table_ok users_ixs no_fk us"
      by (rule table_ok_update [OF schema_okD(1) [OF ok] us])
        (auto simp: users_ixs_def users_pk_def users_email_ix_def no_fk_def)
  qed (use update_rows_image [OF us, of ur_id] in simp)
  then show ?thesis by (simp add: db')
qed


lemma login_bind_schema:
  assumes ok: "schema_ok db" and res: "login_bind now i identity invitation db = Inr (x, db')"
  shows "schema_ok db'"
proof -
  from res obtain row ids n invs m us f where
    ids: "insert_row external_identities_ixs (external_identities_fk db) row
            (t_external_identities db) = Inr ids" and
    invs: "update_rows [] (identity_invitations_fk (db\<lparr>t_external_identities := ids\<rparr>))
             (\<lambda>r. vr_id r = ii_id invitation \<and> vr_status r = ''pending'')
             (\<lambda>r. r\<lparr>vr_status := ''accepted'', vr_accepted_identity_id := Some i, vr_accepted_at := Some now\<rparr>)
             (t_identity_invitations db) = Inr (n, invs)" and
    us: "update_rows [users_email_ix] no_fk (\<lambda>r. ur_id r = ii_user_id invitation) f (t_users db) = Inr (m, us)" and
    f: "\<And>r. ur_id (f r) = ur_id r" and
    db': "db' = db\<lparr>t_external_identities := ids, t_identity_invitations := invs, t_users := us\<rparr>"
    by (fastforce simp: login_bind_def Let_def res_simps)
  let ?db1 = "db\<lparr>t_external_identities := ids\<rparr>"
  let ?db2 = "?db1\<lparr>t_identity_invitations := invs\<rparr>"
  have 1: "schema_ok ?db1"
    by (rule schema_ok_external_identities [OF ok table_ok_insert [OF schema_okD(4) [OF ok] ids]])
      (use ids in \<open>auto simp: insert_row_Inr\<close>)
  have 2: "schema_ok ?db2"
  proof (rule schema_ok_leaf(2) [OF 1])
    have "table_ok identity_invitations_ixs (identity_invitations_fk ?db1) (t_identity_invitations db)"
      using schema_okD(5) [OF 1] by simp
    then show "table_ok identity_invitations_ixs (identity_invitations_fk ?db1) invs"
      by (rule table_ok_update [OF _ invs]) (auto simp: identity_invitations_ixs_def)
  qed
  have "schema_ok (?db2\<lparr>t_users := us\<rparr>)"
  proof (rule schema_ok_users [OF 2])
    show "table_ok users_ixs no_fk us"
      by (rule table_ok_update [OF schema_okD(1) [OF ok] us])
        (auto simp: users_ixs_def users_pk_def f no_fk_def)
  qed (use update_rows_image [OF us, of ur_id] f in simp)
  then show ?thesis by (simp add: db')
qed


section \<open>Search\<close>

lemma like_match_percent:
  "like_match (CHR ''%'' # ps) s \<longleftrightarrow> (\<exists>a b. s = a @ b \<and> like_match ps b)"
proof (induction s)
  case (Cons c s)
  have "like_match (CHR ''%'' # ps) (c # s) \<longleftrightarrow>
      like_match ps (c # s) \<or> like_match (CHR ''%'' # ps) s"
    by simp
  also have "\<dots> \<longleftrightarrow> (\<exists>a b. c # s = a @ b \<and> like_match ps b)"
    unfolding Cons.IH by (auto simp: Cons_eq_append_conv)
  finally show ?case .
qed auto

lemma like_match_escape:
  "like_match (escape_like q @ ps) s \<longleftrightarrow>
     (\<exists>a b. s = a @ b \<and> to_ascii_lowercase a = to_ascii_lowercase q \<and> like_match ps b)"
proof (induction q arbitrary: s)
  case (Cons ch q)
  have "like_match (escape_like (ch # q) @ ps) s \<longleftrightarrow>
      (\<exists>c cs. s = c # cs \<and> ascii_lower_char c = ascii_lower_char ch \<and> like_match (escape_like q @ ps) cs)"
    by (cases s) auto
  also have "\<dots> \<longleftrightarrow>
      (\<exists>a b. s = a @ b \<and> to_ascii_lowercase a = to_ascii_lowercase (ch # q) \<and> like_match ps b)"
    (is "?L \<longleftrightarrow> ?R")
  proof
    assume ?L
    then obtain c a b where "s = (c # a) @ b" "to_ascii_lowercase (c # a) = to_ascii_lowercase (ch # q)"
      "like_match ps b"
      unfolding Cons.IH by (auto simp: to_ascii_lowercase_def)
    then show ?R by blast
  next
    assume ?R
    then obtain a b where "s = a @ b" "to_ascii_lowercase a = to_ascii_lowercase (ch # q)" "like_match ps b"
      by blast
    then show ?L unfolding Cons.IH by (cases a) (auto simp: to_ascii_lowercase_def)
  qed
  finally show ?case .
qed (simp add: to_ascii_lowercase_def)

lemma like_search:
  "like_match (CHR ''%'' # escape_like q @ [CHR ''%'']) s \<longleftrightarrow>
     contains_str (to_ascii_lowercase s) (to_ascii_lowercase q)"
proof -
  have any: "like_match [CHR ''%''] b" for b
    by (simp add: like_match_percent del: like_match.simps(2))
  have "like_match (CHR ''%'' # escape_like q @ [CHR ''%'']) s \<longleftrightarrow>
      (\<exists>a m b. s = a @ m @ b \<and> to_ascii_lowercase m = to_ascii_lowercase q)"
  proof -
    have "like_match (CHR ''%'' # escape_like q @ [CHR ''%'']) s \<longleftrightarrow>
        (\<exists>a r. s = a @ r \<and> like_match (escape_like q @ [CHR ''%'']) r)"
      by (rule like_match_percent)
    also have "\<dots> \<longleftrightarrow> (\<exists>a r. s = a @ r \<and>
        (\<exists>m b. r = m @ b \<and> to_ascii_lowercase m = to_ascii_lowercase q))"
      unfolding like_match_escape by (simp only: any simp_thms)
    finally show ?thesis by blast
  qed
  also have "\<dots> \<longleftrightarrow> (\<exists>a b. to_ascii_lowercase s = a @ to_ascii_lowercase q @ b)"
    (is "?L \<longleftrightarrow> ?R")
  proof
    assume ?L
    then obtain a m b where "s = a @ m @ b" "to_ascii_lowercase m = to_ascii_lowercase q" by blast
    then have "to_ascii_lowercase s = to_ascii_lowercase a @ to_ascii_lowercase q @ to_ascii_lowercase b"
      by (simp add: to_ascii_lowercase_def)
    then show ?R by blast
  next
    assume ?R
    then obtain a b where "map ascii_lower_char s = a @ to_ascii_lowercase q @ b"
      by (auto simp: to_ascii_lowercase_def)
    then obtain a' m' b' where "s = a' @ m' @ b'" "map ascii_lower_char m' = to_ascii_lowercase q"
      by (auto simp: map_eq_append_conv append_eq_map_conv)
    then show ?L by (auto simp: to_ascii_lowercase_def)
  qed
  finally show ?thesis by (simp add: contains_str_iff)
qed

text \<open>What the search promises: a user is listed when the query, trimmed and lower-cased, occurs
  in the normalised email or the display name, whatever characters it contains.\<close>

definition user_matches :: "string \<Rightarrow> users_row \<Rightarrow> bool" where
  "user_matches query r \<longleftrightarrow>
     contains_str (to_ascii_lowercase (unwrap_or_default (ur_primary_email_normalized r))) query \<or>
     contains_str (to_ascii_lowercase (unwrap_or_default (ur_display_name r))) query"

lemma contains_str_Nil [simp]: "contains_str s []"
  by (cases s) auto

text \<open>The user search lists exactly the users that are not deleted and whose email or display
  name contains the query as a substring (the escaped \<open>LIKE\<close> pattern gives no meaning to
  \<open>%\<close>, \<open>_\<close> or a backslash in it), ordered by email and id, at least one and at most
  the requested number of them.\<close>

lemma list_users_search:
  "list_users_conn db filt =
     Inr (map user_from_row (take (max (ulf_limit filt) 1)
       (sort_key (\<lambda>r. (null_first (ur_primary_email_normalized r), ur_id r))
         (filter (\<lambda>r. ur_status r \<noteq> ''deleted'' \<and>
                     user_matches (to_ascii_lowercase (trim (ulf_query filt))) r) (t_users db)))))"
proof -
  let ?q = "to_ascii_lowercase (trim (ulf_query filt))"
  let ?like = "CHR ''%'' # escape_like ?q @ [CHR ''%'']"
  have "(?q = [] \<or> like_null ?like (map_option to_ascii_lowercase (ur_primary_email_normalized r)) \<or>
      like_match ?like (to_ascii_lowercase (unwrap_or_default (ur_display_name r)))) = user_matches ?q r" for r
    unfolding like_null_def like_search user_matches_def
    by (cases "?q = []"; cases "ur_primary_email_normalized r")
      (auto simp: unwrap_or_default_def like_search)
  then show ?thesis
    by (simp add: list_users_conn_def Let_def effective_limit_def del: like_match.simps)
qed


section \<open>Login\<close>

lemma find_identity_Some:
  "find_identity db p i s = Some x \<Longrightarrow> x \<in> set (t_external_identities db) \<and>
     xr_provider_id x = p \<and> xr_issuer x = i \<and> xr_subject x = s \<and> xr_status x = ''active''"
  by (auto simp: find_identity_def dest: find_SomeD)

lemma external_identity_from_row_simps [simp]:
  "ei_id (external_identity_from_row x) = xr_id x"
  "ei_user_id (external_identity_from_row x) = xr_user_id x"
  "ei_provider_id (external_identity_from_row x) = xr_provider_id x"
  by (simp_all add: external_identity_from_row_def)

text \<open>The user row that a login of a bound identity leaves behind.\<close>

definition logged_in :: "i64 \<Rightarrow> users_row \<Rightarrow> users_row" where
  "logged_in now r = r\<lparr>ur_last_login_at := Some now, ur_updated_at := now\<rparr>"

lemma logged_in_simps [simp]: "ur_id (logged_in now r) = ur_id r" "ur_status (logged_in now r) = ur_status r"
  by (simp_all add: logged_in_def)

definition seen :: "i64 \<Rightarrow> external_identities_row \<Rightarrow> external_identities_row" where
  "seen now x = x\<lparr>xr_last_seen_at := now\<rparr>"

definition touch_db :: "i64 \<Rightarrow> external_identities_row \<Rightarrow> Db \<Rightarrow> Db" where
  "touch_db now x db = db\<lparr>
     t_external_identities := map (\<lambda>r. if xr_id r = xr_id x then seen now r else r) (t_external_identities db),
     t_users := map (\<lambda>r. if ur_id r = xr_user_id x then logged_in now r else r) (t_users db)\<rparr>"

lemma find_map_same:
  assumes "\<And>r. P (f r) = P r"
  shows "find P (map f rows) = map_option f (find P rows)"
  by (induction rows) (auto simp: assms)

lemma group_names_touch [simp]: "group_names_conn (touch_db now x db) i = group_names_conn db i"
  by (simp add: group_names_conn_def touch_db_def)

lemma login_existing_eq:
  assumes ok: "schema_ok db" and r: "r \<in> set (t_users db)" "ur_id r = xr_user_id x"
  shows "login_existing now (external_identity_from_row x) db =
    (if ur_status r = ''active'' then
       Inr ((principal_from_user (user_from_row (logged_in now r)) (xr_provider_id x)
               (group_names_conn db (ur_id r)),
             \<lparr>lb_status = ''existing'', lb_external_identity_id = xr_id x, lb_invitation_id = []\<rparr>),
            touch_db now x db)
     else Inl PermissionDenied)"
proof -
  let ?us = "map (\<lambda>r. if ur_id r = xr_user_id x then logged_in now r else r) (t_users db)"
  have "find (\<lambda>r. ur_id r = xr_user_id x) (t_users db) = Some r"
    using find_user_by_id(2) [OF ok r(1), of "\<lambda>_. True"] r(2) by simp
  then have "user_by_id_tx (touch_db now x db) (xr_user_id x) = Inr (user_from_row (logged_in now r))"
    by (subst user_by_id_tx_def) (simp add: touch_db_def find_map_same r(2))
  then show ?thesis
    by (simp add: login_existing_def update_rows_plain seen_def [symmetric] logged_in_def [symmetric]
        touch_db_def [symmetric] active_user_def Let_def)
qed

lemma login_existing_user:
  assumes "schema_ok db" "x \<in> set (t_external_identities db)"
  obtains r where "r \<in> set (t_users db)" "ur_id r = xr_user_id x"
  using schema_okD(4) [OF assms(1)] assms(2) that
  by (auto simp: table_ok_def list_all_iff external_identities_fk_def user_exists_def)

lemma resolve_login_existing:
  assumes "find_identity db (trim (ei_provider_id (lr_identity req))) (trim (ei_issuer (lr_identity req)))
             (trim (ei_subject (lr_identity req))) = Some x"
    and "trim (ei_provider_id (lr_identity req)) \<noteq> []" "trim (ei_issuer (lr_identity req)) \<noteq> []"
    "trim (ei_subject (lr_identity req)) \<noteq> []"
  shows "resolve_login_conn now1 now2 new_id req db = login_existing now1 (external_identity_from_row x) db"
  using assms by (simp add: resolve_login_conn_def Let_def)

text \<open>C30: A disabled user is turned away everywhere: after \<open>disable_user\<close> no principal is
  built for the user id, no issued authn token resolves to it, and a login through an identity
  bound to it fails with \<open>PermissionDenied\<close> whenever it happens.\<close>

theorem disabled_user_rejected:
  assumes "schema_ok db" "resolve_user_id_conn db email_or_id = Inr user_id"
    and "disable_user_conn now db email_or_id = Inr ((), db')"
  shows "principal_by_user_id db' user_id = Inl PermissionDenied \<and>
    (\<forall>t jti p. principal_by_authn_token_jti t db' jti = Inr p \<longrightarrow> tp_user_id p \<noteq> user_id) \<and>
    (\<forall>now1 now2 new_id req x.
       find_identity db' (trim (ei_provider_id (lr_identity req))) (trim (ei_issuer (lr_identity req)))
         (trim (ei_subject (lr_identity req))) = Some x \<and> xr_user_id x = user_id \<and>
       trim (ei_provider_id (lr_identity req)) \<noteq> [] \<and> trim (ei_issuer (lr_identity req)) \<noteq> [] \<and>
       trim (ei_subject (lr_identity req)) \<noteq> [] \<longrightarrow>
       resolve_login_conn now1 now2 new_id req db' = Inl PermissionDenied)"
proof -
  let ?f = "\<lambda>r. r\<lparr>ur_status := ''disabled'', ur_updated_at := now\<rparr>"
  let ?P = "\<lambda>r. ur_id r = user_id \<and> ur_status r \<noteq> ''deleted''"
  from assms(2,3) have db': "db' = db\<lparr>t_users := map (\<lambda>r. if ?P r then ?f r else r) (t_users db)\<rparr>"
    and ne: "filter ?P (t_users db) \<noteq> []"
    by (auto simp: disable_user_conn_def set_user_status_conn_def update_rows_plain res_simps)
  from ne obtain r where r: "r \<in> set (t_users db)" "?P r"
    by (auto simp: filter_empty_conv)
  then have r': "?f r \<in> set (t_users db')" by (force simp: db')
  have ok': "schema_ok db'"
    using set_user_status_schema [of db "''disabled''" now email_or_id] assms(1,3)
    by (auto simp: disable_user_conn_def)
  have only: "ur_status q = ''disabled''" if "q \<in> set (t_users db')" "ur_id q = user_id" for q
    using users_unique_id [OF ok' that(1) r'] that(2) r(2) by simp
  have "find (\<lambda>q. ur_id q = user_id \<and> ur_status q \<noteq> ''deleted'') (t_users db') = Some (?f r)"
    using find_user_by_id(1) [OF ok' r', of "\<lambda>q. ur_status q \<noteq> ''deleted''"] r(2) by simp
  then have "principal_by_user_id db' user_id = Inl PermissionDenied"
    by (simp add: principal_by_user_id_def user_by_id_conn_def active_user_def)
  moreover have "tp_user_id p \<noteq> user_id" if "principal_by_authn_token_jti t db' jti = Inr p" for t jti p
  proof -
    from that obtain u where u: "u \<in> set (t_users db')" "ur_status u = ''active''" "tp_user_id p = ur_id u"
      by (auto simp: principal_by_authn_token_jti_def res_simps dest!: first_row_in)
    with only [OF u(1)] show ?thesis by auto
  qed
  moreover have "login_existing now1 (external_identity_from_row x) db' = Inl PermissionDenied"
    if "xr_user_id x = user_id" for now1 x
    using login_existing_eq [OF ok' r'] that r(2) by simp
  ultimately show ?thesis by (auto simp: resolve_login_existing)
qed


lemma resolve_login_conn_schema:
  assumes "schema_ok db" "resolve_login_conn now1 now2 i req db = Inr (x, db')"
  shows "schema_ok db'"
  using assms
  by (auto simp: resolve_login_conn_def Let_def res_simps
      intro: login_existing_schema login_bind_schema split: if_splits option.splits)

text \<open>The identity row that binding inserts.\<close>

definition bound_identity_row :: "i64 \<Rightarrow> string \<Rightarrow> ExternalIdentity \<Rightarrow> string \<Rightarrow> external_identities_row \<Rightarrow> bool" where
  "bound_identity_row now new_id identity user_id x \<longleftrightarrow>
     xr_id x = new_id \<and> xr_user_id x = user_id \<and> xr_provider_id x = trim (ei_provider_id identity) \<and>
     xr_issuer x = trim (ei_issuer identity) \<and> xr_subject x = trim (ei_subject identity) \<and>
     xr_status x = ''active'' \<and> xr_first_seen_at x = now"

definition activated :: "i64 \<Rightarrow> ExternalIdentity \<Rightarrow> IdentityInvitation \<Rightarrow> users_row \<Rightarrow> users_row" where
  "activated now identity invitation r =
     r\<lparr>ur_primary_email := Some (trim (ei_email identity)),
       ur_primary_email_normalized := Some (normalize_email (ei_email identity)),
       ur_display_name := none_if_empty (if ei_display_name identity = [] then ii_email invitation
                                         else ei_display_name identity),
       ur_status := ''active'', ur_updated_at := now, ur_last_login_at := Some now\<rparr>"

lemma activated_simps [simp]:
  "ur_id (activated now e v r) = ur_id r" "ur_status (activated now e v r) = ''active''"
  by (simp_all add: activated_def)

lemma login_bind_effect:
  assumes "login_bind now new_id identity invitation db = Inr ((p, b), db')"
  shows "\<exists>x r. bound_identity_row now new_id identity (ii_user_id invitation) x \<and>
    t_external_identities db' = t_external_identities db @ [x] \<and>
    t_identity_invitations db' = map (\<lambda>v. if vr_id v = ii_id invitation \<and> vr_status v = ''pending''
        then v\<lparr>vr_status := ''accepted'', vr_accepted_identity_id := Some new_id, vr_accepted_at := Some now\<rparr>
        else v) (t_identity_invitations db) \<and>
    t_users db' = map (\<lambda>u. if ur_id u = ii_user_id invitation then activated now identity invitation u else u)
        (t_users db) \<and>
    r \<in> set (t_users db') \<and> ur_id r = ii_user_id invitation \<and> tp_user_id p = ur_id r \<and>
    b = \<lparr>lb_status = ''bound_invitation'', lb_external_identity_id = new_id,
          lb_invitation_id = ii_id invitation\<rparr>"
proof -
  define row where "row = external_identity_row_of
    \<lparr>ei_id = new_id, ei_user_id = ii_user_id invitation,
     ei_provider_id = trim (ei_provider_id identity), ei_issuer = trim (ei_issuer identity),
     ei_subject = trim (ei_subject identity),
     ei_subject_strategy =
       (if trim (ei_subject_strategy identity) = [] then DEFAULT_SUBJECT_STRATEGY
        else ei_subject_strategy identity),
     ei_email = trim (ei_email identity), ei_email_verified = ei_email_verified identity,
     ei_display_name = ei_display_name identity, ei_picture_url = ei_picture_url identity,
     ei_hosted_domain = ei_hosted_domain identity, ei_status = ''active''\<rparr> now"
  have row: "bound_identity_row now new_id identity (ii_user_id invitation) row"
    by (simp add: row_def bound_identity_row_def external_identity_row_of_def)
  from assms obtain u where
    e: "t_external_identities db' = t_external_identities db @ [row]" and
    v: "t_identity_invitations db' = map (\<lambda>v. if vr_id v = ii_id invitation \<and> vr_status v = ''pending''
        then v\<lparr>vr_status := ''accepted'', vr_accepted_identity_id := Some new_id, vr_accepted_at := Some now\<rparr>
        else v) (t_identity_invitations db)" and
    us: "t_users db' = map (\<lambda>u. if ur_id u = ii_user_id invitation then activated now identity invitation u else u)
        (t_users db)" and
    u: "user_by_id_tx db' (ii_user_id invitation) = Inr u" "tp_user_id p = u_id u" and
    b: "b = \<lparr>lb_status = ''bound_invitation'', lb_external_identity_id = new_id,
          lb_invitation_id = ii_id invitation\<rparr>"
    unfolding login_bind_def Let_def row_def [symmetric] activated_def
    by (clarsimp simp: res_simps insert_row_Inr update_rows_Inr)
  from u obtain r where r: "r \<in> set (t_users db')" "ur_id r = ii_user_id invitation" "u = user_from_row r"
    by (auto simp: user_by_id_tx_def res_simps dest!: find_SomeD)
  have "tp_user_id p = ur_id r" by (simp add: u r)
  with row e v us r(1,2) b show ?thesis by blast
qed

lemma resolve_login_cases:
  assumes "schema_ok db" "resolve_login_conn now1 now2 new_id req db = Inr ((p, b), db')"
  obtains (existing) x r where
      "find_identity db (trim (ei_provider_id (lr_identity req))) (trim (ei_issuer (lr_identity req)))
         (trim (ei_subject (lr_identity req))) = Some x"
      "r \<in> set (t_users db)" "ur_id r = xr_user_id x" "ur_status r = ''active''"
      "p = principal_from_user (user_from_row (logged_in now1 r)) (xr_provider_id x) (group_names_conn db (ur_id r))"
      "b = \<lparr>lb_status = ''existing'', lb_external_identity_id = xr_id x, lb_invitation_id = []\<rparr>"
      "db' = touch_db now1 x db"
  | (bound) v where
      "find_identity db (trim (ei_provider_id (lr_identity req))) (trim (ei_issuer (lr_identity req)))
         (trim (ei_subject (lr_identity req))) = None"
      "ei_email_verified (lr_identity req)" "allows_verified_email_invitation_binding (lr_policy req)"
      "email_domain_allowed (normalize_email (ei_email (lr_identity req)))
         (ltp_allowed_email_domains (lr_policy req))"
      "find_invitation db now1 (trim (ei_provider_id (lr_identity req))) (trim (ei_issuer (lr_identity req)))
         (normalize_email (ei_email (lr_identity req))) = Some v"
      "login_bind now2 new_id (lr_identity req) (identity_invitation_from_row v) db = Inr ((p, b), db')"
proof (cases "find_identity db (trim (ei_provider_id (lr_identity req)))
    (trim (ei_issuer (lr_identity req))) (trim (ei_subject (lr_identity req)))")
  case None
  with assms(2) show ?thesis
    by (auto simp: resolve_login_conn_def Let_def res_simps intro!: bound split: if_splits)
next
  case (Some x)
  from login_existing_user [OF assms(1)] find_identity_Some [OF Some]
  obtain r where r: "r \<in> set (t_users db)" "ur_id r = xr_user_id x" by blast
  from assms(2) Some have "login_existing now1 (external_identity_from_row x) db = Inr ((p, b), db')"
    by (auto simp: resolve_login_conn_def Let_def split: if_splits)
  with login_existing_eq [OF assms(1) r] show ?thesis
    by (intro existing [OF Some r]) (auto split: if_splits)
qed

lemma find_invitation_Some:
  "find_invitation db now p i e = Some v \<Longrightarrow> v \<in> set (t_identity_invitations db) \<and>
     vr_provider_id v = p \<and> vr_issuer v = i \<and> vr_email_normalized v = Some e \<and>
     vr_binding_policy v = VERIFIED_EMAIL_INVITATION \<and> vr_status v = ''pending'' \<and>
     (\<forall>t. vr_expires_at v = Some t \<longrightarrow> now < t)"
  by (auto simp: find_invitation_def dest!: find_SomeD split: option.splits)

lemma identity_invitation_from_row_simps [simp]:
  "ii_id (identity_invitation_from_row v) = vr_id v"
  "ii_user_id (identity_invitation_from_row v) = vr_user_id v"
  by (simp_all add: identity_invitation_from_row_def)

text \<open>The identity that a login request names, and a user that may act.\<close>

definition names_identity :: "ExternalIdentity \<Rightarrow> external_identities_row \<Rightarrow> bool" where
  "names_identity e x \<longleftrightarrow> xr_provider_id x = trim (ei_provider_id e) \<and> xr_issuer x = trim (ei_issuer e) \<and>
     xr_subject x = trim (ei_subject e) \<and> xr_status x = ''active''"

definition active_in :: "Db \<Rightarrow> string \<Rightarrow> bool" where
  "active_in db user_id \<longleftrightarrow> list_ex (\<lambda>r. ur_id r = user_id \<and> ur_status r = ''active'') (t_users db)"

lemma resolve_login_result:
  assumes "schema_ok db" "resolve_login_conn now1 now2 new_id req db = Inr ((p, b), db')"
  shows "active_in db' (tp_user_id p)"
    and "\<exists>x \<in> set (t_external_identities db'). names_identity (lr_identity req) x \<and>
        xr_user_id x = tp_user_id p \<and> xr_id x = lb_external_identity_id b"
proof -
  have "active_in db' (tp_user_id p) \<and> (\<exists>x \<in> set (t_external_identities db').
    names_identity (lr_identity req) x \<and> xr_user_id x = tp_user_id p \<and> xr_id x = lb_external_identity_id b)"
    using assms
  proof (cases rule: resolve_login_cases)
    case (existing x r)
    have "active_in db' (ur_id r)"
      using existing(2,3,4)
      by (auto simp: active_in_def list_ex_iff existing(7) touch_db_def intro!: bexI [of _ "logged_in now1 r"])
    moreover have "\<exists>y \<in> set (t_external_identities db'). names_identity (lr_identity req) y \<and>
        xr_user_id y = ur_id r \<and> xr_id y = xr_id x"
      using find_identity_Some [OF existing(1)] existing(3)
      by (intro bexI [of _ "seen now1 x"]) (auto simp: existing(7) touch_db_def seen_def names_identity_def)
    ultimately show ?thesis using existing(5,6) by simp
  next
    case (bound v)
    from login_bind_effect [OF bound(6), unfolded identity_invitation_from_row_simps] obtain x r where
      x: "bound_identity_row now2 new_id (lr_identity req) (vr_user_id v) x"
        "t_external_identities db' = t_external_identities db @ [x]" and
      us: "t_users db' = map (\<lambda>u. if ur_id u = vr_user_id v
          then activated now2 (lr_identity req) (identity_invitation_from_row v) u else u) (t_users db)" and
      r: "r \<in> set (t_users db')" "ur_id r = vr_user_id v" "tp_user_id p = vr_user_id v" and
      b: "b = \<lparr>lb_status = ''bound_invitation'', lb_external_identity_id = new_id, lb_invitation_id = vr_id v\<rparr>"
      by metis
    from r us have "active_in db' (tp_user_id p)" by (force simp: active_in_def list_ex_iff)
    with x r b show ?thesis by (auto simp: names_identity_def bound_identity_row_def)
  qed
  then show "active_in db' (tp_user_id p)" and "\<exists>x \<in> set (t_external_identities db').
    names_identity (lr_identity req) x \<and> xr_user_id x = tp_user_id p \<and> xr_id x = lb_external_identity_id b"
    by auto
qed

text \<open>C1: A login succeeds only for an active user through an active identity of the request's
  provider, issuer and subject that belongs to that user. Either that identity was already bound
  to that user, or the login consumed an invitation: then the identity's email is verified,
  the policy allows binding by verified email, the email's domain is allowed, and a pending,
  unexpired invitation of that provider, issuer and email, addressed to that user, is accepted.\<close>

theorem resolve_login_sound:
  assumes "schema_ok db" "resolve_login_conn now1 now2 new_id req db = Inr ((p, b), db')"
  shows "schema_ok db' \<and> active_in db' (tp_user_id p) \<and>
    (\<exists>x \<in> set (t_external_identities db'). names_identity (lr_identity req) x \<and>
        xr_user_id x = tp_user_id p \<and> xr_id x = lb_external_identity_id b) \<and>
    ((lb_status b = ''existing'' \<and> active_in db (tp_user_id p) \<and>
       (\<exists>x \<in> set (t_external_identities db). names_identity (lr_identity req) x \<and>
          xr_user_id x = tp_user_id p \<and> xr_id x = lb_external_identity_id b)) \<or>
     (lb_status b = ''bound_invitation'' \<and> ei_email_verified (lr_identity req) \<and>
       allows_verified_email_invitation_binding (lr_policy req) \<and>
       email_domain_allowed (normalize_email (ei_email (lr_identity req)))
         (ltp_allowed_email_domains (lr_policy req)) \<and>
       (\<exists>v \<in> set (t_identity_invitations db). vr_id v = lb_invitation_id b \<and> vr_user_id v = tp_user_id p \<and>
          vr_provider_id v = trim (ei_provider_id (lr_identity req)) \<and>
          vr_issuer v = trim (ei_issuer (lr_identity req)) \<and>
          vr_email_normalized v = Some (normalize_email (ei_email (lr_identity req))) \<and>
          vr_status v = ''pending'' \<and> (\<forall>t. vr_expires_at v = Some t \<longrightarrow> now1 < t)) \<and>
       (\<forall>v \<in> set (t_identity_invitations db'). vr_id v = lb_invitation_id b \<longrightarrow> vr_status v \<noteq> ''pending'')))"
  using assms
proof (cases rule: resolve_login_cases)
  case (existing x r)
  have "active_in db (ur_id r)" using existing(2,4) by (auto simp: active_in_def list_ex_iff)
  moreover have "\<exists>y \<in> set (t_external_identities db). names_identity (lr_identity req) y \<and>
      xr_user_id y = ur_id r \<and> xr_id y = xr_id x"
    using find_identity_Some [OF existing(1)] existing(3) by (auto simp: names_identity_def)
  ultimately show ?thesis
    using resolve_login_conn_schema [OF assms] resolve_login_result [OF assms] existing(5,6) by simp
next
  case (bound v)
  from login_bind_effect [OF bound(6), unfolded identity_invitation_from_row_simps] have
    vs: "t_identity_invitations db' = map (\<lambda>w. if vr_id w = vr_id v \<and> vr_status w = ''pending''
        then w\<lparr>vr_status := ''accepted'', vr_accepted_identity_id := Some new_id, vr_accepted_at := Some now2\<rparr>
        else w) (t_identity_invitations db)" and
    p: "tp_user_id p = vr_user_id v" and
    b: "b = \<lparr>lb_status = ''bound_invitation'', lb_external_identity_id = new_id, lb_invitation_id = vr_id v\<rparr>"
    by auto
  have "vr_status w \<noteq> ''pending''" if "w \<in> set (t_identity_invitations db')" "vr_id w = vr_id v" for w
    using that by (auto simp: vs)
  with bound(2-4) find_invitation_Some [OF bound(5)] p b show ?thesis
    using resolve_login_conn_schema [OF assms] resolve_login_result [OF assms] by auto
qed

lemma find_identity_unique:
  assumes "schema_ok db" "x \<in> set (t_external_identities db)" "names_identity e x"
  shows "find_identity db (trim (ei_provider_id e)) (trim (ei_issuer e)) (trim (ei_subject e)) = Some x"
  unfolding find_identity_def
  by (subst identities_key.find_iff [OF assms(1)]) (use assms in \<open>auto simp: names_identity_def\<close>)

lemma resolve_login_nonempty:
  "resolve_login_conn now1 now2 new_id req db = Inr y \<Longrightarrow>
     trim (ei_provider_id (lr_identity req)) \<noteq> [] \<and> trim (ei_issuer (lr_identity req)) \<noteq> [] \<and>
     trim (ei_subject (lr_identity req)) \<noteq> []"
  by (auto simp: resolve_login_conn_def Let_def split: if_splits)

text \<open>Login is repeatable: after any successful login the same identity logs in again, at
  any time, as the same user through the same stored identity and without an invitation, as long
  as nothing else changed.\<close>

lemma login_again:
  assumes "schema_ok db" "resolve_login_conn now1 now2 new_id req db = Inr ((p, b), db')"
  shows "\<exists>p' b' db''. resolve_login_conn t1 t2 new_id' req db' = Inr ((p', b'), db'') \<and>
    lb_status b' = ''existing'' \<and> tp_user_id p' = tp_user_id p \<and>
    lb_external_identity_id b' = lb_external_identity_id b"
proof -
  from resolve_login_conn_schema [OF assms] resolve_login_result [OF assms] obtain x r where ok: "schema_ok db'" and
    x: "x \<in> set (t_external_identities db')" "names_identity (lr_identity req) x"
      "xr_user_id x = tp_user_id p" "xr_id x = lb_external_identity_id b" and
    r: "r \<in> set (t_users db')" "ur_id r = xr_user_id x" "ur_status r = ''active''"
    by (auto simp: active_in_def list_ex_iff)
  note f = resolve_login_existing [OF find_identity_unique [OF ok x(1,2)], of t1 t2 new_id']
  show ?thesis
    using f resolve_login_nonempty [OF assms(2)] login_existing_eq [OF ok r(1,2)] r x by simp
qed

section \<open>A login on a concrete database\<close>

definition demo_invitation :: AddInvitationInput where
  "demo_invitation = \<lparr>ai_provider_id = ''google'', ai_issuer = ''https://idp'',
     ai_email = ''Bob@x.org'', ai_display_name = ''Bob'', ai_binding_policy = [], ai_expires_at = 500\<rparr>"

definition demo_login :: "bool \<Rightarrow> LoginResolutionRequest" where
  "demo_login verified = \<lparr>lr_identity =
     \<lparr>ei_id = [], ei_user_id = [], ei_provider_id = ''google'', ei_issuer = ''https://idp'',
      ei_subject = ''sub-1'', ei_subject_strategy = [], ei_email = ''bob@x.org'',
      ei_email_verified = verified, ei_display_name = ''Bob B'', ei_picture_url = [],
      ei_hosted_domain = [], ei_status = []\<rparr>,
     lr_policy = \<lparr>ltp_email_binding = ''verified_email_invitation'', ltp_allowed_email_domains = [''x.org'']\<rparr>\<rparr>"

definition result_db :: "'e + ('a \<times> 's) \<Rightarrow> 's \<Rightarrow> 's" where
  "result_db r db = (case r of Inl _ \<Rightarrow> db | Inr (_, db') \<Rightarrow> db')"

definition demo_invited :: Db where
  "demo_invited = result_db (add_invitation_db 100 ''u1'' ''v1'' demo_invitation empty_db) empty_db"

definition demo_bound :: Db where
  "demo_bound = result_db (resolve_login_conn 200 200 ''x1'' (demo_login True) demo_invited) demo_invited"

definition is_ok :: "'e + 'a \<Rightarrow> bool" where
  "is_ok r = (case r of Inl _ \<Rightarrow> False | Inr _ \<Rightarrow> True)"

lemma demo_ok: "schema_ok demo_invited" "schema_ok demo_bound"
  by code_simp+

lemma demo_login_result:
  "is_ok (resolve_login_conn 200 200 ''x1'' (demo_login True) demo_invited)"
  "resolve_login_conn 200 200 ''x1'' (demo_login False) demo_invited = Inl NotFound"
  "resolve_login_conn 500 500 ''x1'' (demo_login True) demo_invited = Inl NotFound"
  by code_simp+

lemma is_ok_obtain: "is_ok r \<Longrightarrow> \<exists>a. r = Inr a"
  by (cases r) (auto simp: is_ok_def)

theorem resolve_login_sound_witness:
  "\<exists>p b db'. resolve_login_conn 200 200 ''x1'' (demo_login True) demo_invited = Inr ((p, b), db') \<and>
     schema_ok db' \<and> active_in db' (tp_user_id p)"
proof -
  from is_ok_obtain [OF demo_login_result(1)] obtain p b db' where
    h: "resolve_login_conn 200 200 ''x1'' (demo_login True) demo_invited = Inr ((p, b), db')" by force
  from resolve_login_sound [OF demo_ok(1) h] h show ?thesis by blast
qed

lemma login_again_witness:
  "\<exists>p b db' p' b' db''. resolve_login_conn 200 200 ''x1'' (demo_login True) demo_invited = Inr ((p, b), db') \<and>
     resolve_login_conn 300 300 ''x2'' (demo_login True) db' = Inr ((p', b'), db'') \<and>
     lb_status b' = ''existing'' \<and> tp_user_id p' = tp_user_id p"
proof -
  from is_ok_obtain [OF demo_login_result(1)] obtain p b db' where
    h: "resolve_login_conn 200 200 ''x1'' (demo_login True) demo_invited = Inr ((p, b), db')" by force
  from login_again [OF demo_ok(1) h] h show ?thesis by blast
qed

lemma demo_disable:
  "is_ok (disable_user_conn 300 demo_bound ''BOB@x.org'')"
  "resolve_user_id_conn demo_bound ''BOB@x.org'' = Inr ''u1''"
  by code_simp+

theorem disabled_user_rejected_witness:
  "\<exists>db'. disable_user_conn 300 demo_bound ''BOB@x.org'' = Inr ((), db') \<and>
     principal_by_user_id db' ''u1'' = Inl PermissionDenied"
proof -
  from is_ok_obtain [OF demo_disable(1)] obtain db' where
    h: "disable_user_conn 300 demo_bound ''BOB@x.org'' = Inr ((), db')" by force
  from disabled_user_rejected [OF demo_ok(2) demo_disable(2) h] h show ?thesis by blast
qed

text \<open>Binding an invitation makes its user active whatever status the user has: a user that an
  administrator disabled before the first login comes back through the pending invitation.\<close>

theorem disabled_invitee_returns:
  "(case disable_user_conn 150 demo_invited ''u1'' of
      Inr (_, disabled) \<Rightarrow> \<not> active_in disabled ''u1'' \<and>
        (case resolve_login_conn 200 200 ''x1'' (demo_login True) disabled of
           Inr ((p, b), db') \<Rightarrow> tp_user_id p = ''u1'' \<and> active_in db' ''u1''
         | Inl _ \<Rightarrow> False)
    | Inl _ \<Rightarrow> False)"
  by code_simp

end
