(* ===== verification/Reachability.thy ===== *)
theory Reachability
  imports Prelude
begin

text \<open>
  Graph search as the bridge does it. A recursive common table expression with \<open>UNION\<close>
  (SQLite keeps a queue of rows and adds only rows it has not produced before) and the
  \<open>while changed\<close> loop of the snapshot checker both compute the nodes reachable from a
  set of start nodes. The locale states that contract; both searches interpret it, and the
  facts about cycles and reachable groups are proved once from it.
\<close>

section \<open>The contract of a search\<close>

lemma reach_step: "a \<in> R\<^sup>* `` X \<Longrightarrow> (a, b) \<in> R \<Longrightarrow> b \<in> R\<^sup>* `` X"
  by (auto intro: rtrancl_into_rtrancl)

locale reach_search =
  fixes search :: "('a \<times> 'a) list \<Rightarrow> 'a list \<Rightarrow> 'a list"
  assumes search_set: "set (search E S) = (set E)\<^sup>* `` set S"
begin

lemma search_start: "set S \<subseteq> set (search E S)"
  by (auto simp: search_set)

lemma search_closed: "a \<in> set (search E S) \<Longrightarrow> (a, b) \<in> set E \<Longrightarrow> b \<in> set (search E S)"
  by (auto simp: search_set intro: rtrancl_into_rtrancl)

lemma search_least:
  assumes "set S \<subseteq> X" and "\<And>a b. a \<in> X \<Longrightarrow> (a, b) \<in> set E \<Longrightarrow> b \<in> X"
  shows "set (search E S) \<subseteq> X"
proof
  fix b assume "b \<in> set (search E S)"
  then obtain a where "(a, b) \<in> (set E)\<^sup>*" and "a \<in> set S" by (auto simp: search_set)
  then show "b \<in> X"
    by (induction rule: rtrancl_induct) (use assms in auto)
qed

text \<open>The edges that leave the nodes found are all a search from the same start can use.\<close>

lemma search_restrict:
  "set (search [e \<leftarrow> E. fst e \<in> set (search E S)] S) = set (search E S)"
proof
  show "set (search [e \<leftarrow> E. fst e \<in> set (search E S)] S) \<subseteq> set (search E S)"
    by (rule search_least) (auto intro: search_start [THEN subsetD] search_closed)
  let ?R = "search [e \<leftarrow> E. fst e \<in> set (search E S)] S"
  have "set (search E S) \<subseteq> set ?R \<inter> set (search E S)"
    by (rule search_least)
      (auto intro: search_start [THEN subsetD] search_closed search_closed [where a = "fst e" for e])
  then show "set (search E S) \<subseteq> set ?R" by blast
qed

text \<open>
  An edge \<open>a \<rightarrow> b\<close> may be added to an acyclic graph exactly when the search from
  \<open>b\<close> does not find \<open>a\<close>.
\<close>

lemma acyclic_insert_search:
  assumes "acyclic (set E)"
  shows "acyclic (insert (a, b) (set E)) \<longleftrightarrow> a \<notin> set (search E [b])"
  using assms by (auto simp: acyclic_insert search_set)

end

section \<open>Recursive common table expressions\<close>

lemma cte_new_card:
  assumes "new = remdups [snd e. e \<leftarrow> E, fst e = x \<and> snd e \<notin> set seen]" and "new \<noteq> []"
  shows "card (snd ` set E - (set seen \<union> set new)) < card (snd ` set E - set seen)"
proof (rule psubset_card_mono)
  show "finite (snd ` set E - set seen)" by simp
  obtain y where "y \<in> set new" using assms(2) by (cases new) auto
  with assms(1) have "y \<in> snd ` set E - set seen" by auto
  with \<open>y \<in> set new\<close> show "snd ` set E - (set seen \<union> set new) \<subset> snd ` set E - set seen" by blast
qed

text \<open>
  \<open>cte_loop E queue seen\<close>: the queue holds the rows still to be expanded, \<open>seen\<close>
  every row produced so far; expanding a row appends its new successors to both.
\<close>

function cte_loop :: "('a \<times> 'a) list \<Rightarrow> 'a list \<Rightarrow> 'a list \<Rightarrow> 'a list" where
  "cte_loop E [] seen = seen"
| "cte_loop E (x # queue) seen =
     (let new = remdups [snd e. e \<leftarrow> E, fst e = x \<and> snd e \<notin> set seen]
      in cte_loop E (queue @ new) (seen @ new))"
  by pat_completeness auto

termination
proof (relation "measures [\<lambda>(E, q, seen). card (snd ` set E - set seen), \<lambda>(E, q, seen). length q]")
  fix E :: "('a \<times> 'a) list" and x queue seen new
  assume new: "new = remdups [snd e. e \<leftarrow> E, fst e = x \<and> snd e \<notin> set seen]"
  show "((E, queue @ new, seen @ new), E, x # queue, seen)
    \<in> measures [\<lambda>(E, q, seen). card (snd ` set E - set seen), \<lambda>(E, q, seen). length q]"
    using cte_new_card [OF new] by (cases "new = []") auto
qed simp

declare cte_loop.simps(2) [simp del]

definition cte :: "('a \<times> 'a) list \<Rightarrow> 'a list \<Rightarrow> 'a list" where
  "cte E S = cte_loop E (remdups S) (remdups S)"

lemma cte_loop_sound:
  "set queue \<subseteq> set seen \<Longrightarrow> set seen \<subseteq> (set E)\<^sup>* `` X \<Longrightarrow>
     set (cte_loop E queue seen) \<subseteq> (set E)\<^sup>* `` X"
proof (induction E queue seen rule: cte_loop.induct)
  case (2 E x queue seen)
  let ?new = "remdups [snd e. e \<leftarrow> E, fst e = x \<and> snd e \<notin> set seen]"
  have "x \<in> (set E)\<^sup>* `` X" using "2.prems" by auto
  then have "set ?new \<subseteq> (set E)\<^sup>* `` X"
    by (auto simp del: Image_iff intro: reach_step)
  with "2.prems" have "set (queue @ ?new) \<subseteq> set (seen @ ?new)" "set (seen @ ?new) \<subseteq> (set E)\<^sup>* `` X"
    by auto
  from "2.IH" [OF refl this] show ?case by (simp add: cte_loop.simps(2) Let_def)
qed simp

lemma cte_loop_closed:
  assumes "\<And>a b. a \<in> set seen - set queue \<Longrightarrow> (a, b) \<in> set E \<Longrightarrow> b \<in> set seen"
  shows "set seen \<subseteq> set (cte_loop E queue seen) \<and>
    (\<forall>a b. a \<in> set (cte_loop E queue seen) \<longrightarrow> (a, b) \<in> set E \<longrightarrow> b \<in> set (cte_loop E queue seen))"
  using assms
proof (induction E queue seen rule: cte_loop.induct)
  case (2 E x queue seen)
  let ?new = "remdups [snd e. e \<leftarrow> E, fst e = x \<and> snd e \<notin> set seen]"
  have "b \<in> set (seen @ ?new)" if "a \<in> set (seen @ ?new) - set (queue @ ?new)" "(a, b) \<in> set E" for a b
  proof (cases "a = x")
    case True
    with that show ?thesis by force
  next
    case False
    with that "2.prems" [of a b] show ?thesis by auto
  qed
  from "2.IH" [OF refl this] show ?case by (simp add: cte_loop.simps(2) Let_def)
qed simp

lemma cte_set: "set (cte E S) = (set E)\<^sup>* `` set S"
proof
  show "set (cte E S) \<subseteq> (set E)\<^sup>* `` set S"
    unfolding cte_def by (rule cte_loop_sound) auto
  have closed: "set S \<subseteq> set (cte E S)"
    "\<And>a b. a \<in> set (cte E S) \<Longrightarrow> (a, b) \<in> set E \<Longrightarrow> b \<in> set (cte E S)"
    using cte_loop_closed [of "remdups S" "remdups S" E] by (auto simp: cte_def)
  show "(set E)\<^sup>* `` set S \<subseteq> set (cte E S)"
  proof
    fix b assume "b \<in> (set E)\<^sup>* `` set S"
    then obtain a where "(a, b) \<in> (set E)\<^sup>*" and "a \<in> set S" by auto
    then show "b \<in> set (cte E S)"
      by (induction rule: rtrancl_induct) (use closed in auto)
  qed
qed

interpretation cte: reach_search cte
  by unfold_locales (rule cte_set)

lemma cte_loop_distinct: "distinct seen \<Longrightarrow> distinct (cte_loop E queue seen)"
proof (induction E queue seen rule: cte_loop.induct)
  case (2 E x queue seen)
  then show ?case by (auto simp: cte_loop.simps(2) Let_def)
qed simp

lemma cte_distinct: "distinct (cte E S)"
  by (simp add: cte_def cte_loop_distinct)

section \<open>The loop that runs until nothing changes\<close>

text \<open>One pass over the edges, adding targets as it goes, and whether it added any.\<close>

fun sweep :: "('a \<times> 'a) list \<Rightarrow> 'a list \<Rightarrow> bool \<Rightarrow> 'a list \<times> bool" where
  "sweep [] found changed = (found, changed)"
| "sweep ((a, b) # E) found changed =
     (if a \<in> set found \<and> b \<notin> set found then sweep E (b # found) True else sweep E found changed)"

lemma sweep_skip: "\<not> (a \<in> set found \<and> b \<notin> set found) \<Longrightarrow> sweep ((a, b) # E) found c = sweep E found c"
  by (simp only: sweep.simps if_False)

lemma sweep_found: "set found \<subseteq> set (fst (sweep E found c)) \<and>
   set (fst (sweep E found c)) \<subseteq> set found \<union> snd ` set E"
  by (induction E found c rule: sweep.induct) auto

lemma sweep_changed: "c \<Longrightarrow> snd (sweep E found c)"
  by (induction E found c rule: sweep.induct) auto

lemma sweep_stable:
  "\<not> snd (sweep E found c) \<Longrightarrow> fst (sweep E found c) = found \<and>
     (\<forall>a b. a \<in> set found \<longrightarrow> (a, b) \<in> set E \<longrightarrow> b \<in> set found)"
proof (induction E found c rule: sweep.induct)
  case (2 a b E found c)
  have skip: "\<not> (a \<in> set found \<and> b \<notin> set found)"
  proof
    assume "a \<in> set found \<and> b \<notin> set found"
    then have "sweep ((a, b) # E) found c = sweep E (b # found) True" by simp
    with "2.prems" sweep_changed [of True E "b # found"] show False by simp
  qed
  have "\<not> snd (sweep E found c)" using "2.prems" unfolding sweep_skip [OF skip] .
  from "2.IH"(2) [OF skip this] skip show ?case
    unfolding sweep_skip [OF skip] by auto
qed simp

lemma sweep_grows:
  "snd (sweep E found c) \<Longrightarrow> \<not> c \<Longrightarrow> \<exists>b \<in> snd ` set E. b \<notin> set found \<and> b \<in> set (fst (sweep E found c))"
proof (induction E found c rule: sweep.induct)
  case (2 a b E found c)
  then show ?case
    using sweep_found [of "b # found" E True] by (auto split: if_splits)
qed simp

lemma sweep_reach: "set found \<subseteq> R\<^sup>* `` X \<Longrightarrow> set E \<subseteq> R \<Longrightarrow> set (fst (sweep E found c)) \<subseteq> R\<^sup>* `` X"
proof (induction E found c rule: sweep.induct)
  case (2 a b E found c)
  show ?case
  proof (cases "a \<in> set found \<and> b \<notin> set found")
    case True
    with 2 have "b \<in> R\<^sup>* `` X" by (auto simp del: Image_iff intro: reach_step)
    with True 2 show ?thesis by simp
  next
    case False
    from "2.IH"(2) [OF False] "2.prems" show ?thesis
      unfolding sweep_skip [OF False] by simp
  qed
qed simp

lemma sweep_shrinks:
  assumes "snd (sweep E found False)"
  shows "card (snd ` set E - set (fst (sweep E found False))) < card (snd ` set E - set found)"
proof (rule psubset_card_mono)
  obtain b where "b \<in> snd ` set E" "b \<notin> set found" "b \<in> set (fst (sweep E found False))"
    using sweep_grows [OF assms] by auto
  then show "snd ` set E - set (fst (sweep E found False)) \<subset> snd ` set E - set found"
    using sweep_found [of found E False] by auto
qed simp

function sweep_loop :: "('a \<times> 'a) list \<Rightarrow> 'a list \<Rightarrow> 'a list" where
  "sweep_loop E found =
     (let r = sweep E found False in if snd r then sweep_loop E (fst r) else fst r)"
  by pat_completeness auto
termination
proof (relation "measure (\<lambda>(E, found). card (snd ` set E - set found))")
  fix E :: "('a \<times> 'a) list" and found r
  assume "r = sweep E found False" and "snd r"
  then show "((E, fst r), E, found) \<in> measure (\<lambda>(E, found). card (snd ` set E - set found))" by (simp add: sweep_shrinks)
qed simp

declare sweep_loop.simps [simp del]

lemma sweep_loop_spec:
  "set found \<subseteq> (set E)\<^sup>* `` X \<Longrightarrow> set found \<subseteq> set (sweep_loop E found) \<and>
     set (sweep_loop E found) \<subseteq> (set E)\<^sup>* `` X \<and>
     (\<forall>a b. a \<in> set (sweep_loop E found) \<longrightarrow> (a, b) \<in> set E \<longrightarrow> b \<in> set (sweep_loop E found))"
proof (induction E found rule: sweep_loop.induct)
  case (1 E found)
  let ?r = "sweep E found False"
  have sub: "set (fst ?r) \<subseteq> (set E)\<^sup>* `` X" using "1.prems" by (rule sweep_reach) simp
  show ?case
  proof (cases "snd ?r")
    case True
    with "1.IH" [OF refl True sub] sweep_found [of found E False] show ?thesis
      by (auto simp: sweep_loop.simps [of E found] Let_def)
  next
    case False
    with sweep_stable [of E found False] "1.prems" show ?thesis
      by (simp add: sweep_loop.simps [of E found] Let_def)
  qed
qed

lemma sweep_loop_set: "set (sweep_loop E S) = (set E)\<^sup>* `` set S"
proof
  have S: "set S \<subseteq> (set E)\<^sup>* `` set S" by auto
  note spec = sweep_loop_spec [OF S]
  then show "set (sweep_loop E S) \<subseteq> (set E)\<^sup>* `` set S" by blast
  show "(set E)\<^sup>* `` set S \<subseteq> set (sweep_loop E S)"
  proof
    fix b assume "b \<in> (set E)\<^sup>* `` set S"
    then obtain a where "(a, b) \<in> (set E)\<^sup>*" and "a \<in> set S" by auto
    then show "b \<in> set (sweep_loop E S)"
      by (induction rule: rtrancl_induct) (use spec in blast)+
  qed
qed

interpretation sweep: reach_search sweep_loop
  by unfold_locales (rule sweep_loop_set)

text \<open>The loop with a bound on its passes: \<open>None\<close> when the bound is used up. A pass that changes
  something adds a target, so one pass per target and a last one are enough.\<close>

fun sweep_passes :: "nat \<Rightarrow> ('a \<times> 'a) list \<Rightarrow> 'a list \<Rightarrow> 'a list option" where
  "sweep_passes 0 E found = None"
| "sweep_passes (Suc n) E found =
     (let r = sweep E found False in if snd r then sweep_passes n E (fst r) else Some (fst r))"

lemma sweep_passes_enough:
  "card (snd ` set E - set found) < n \<Longrightarrow> sweep_passes n E found = Some (sweep_loop E found)"
proof (induction n arbitrary: found)
  case (Suc n)
  show ?case
  proof (cases "snd (sweep E found False)")
    case True
    with sweep_shrinks [OF True] Suc show ?thesis by (simp add: sweep_loop.simps [of E found] Let_def)
  qed (simp add: sweep_loop.simps [of E found] Let_def)
qed simp

end
