(* ===== verification/Sqlite_Groups.thy ===== *)
theory Sqlite_Groups
  imports Sqlite_Accounts Reachability
begin

text \<open>
  Groups, membership and nesting (\<open>sqlite/groups.rs\<close>). Nested groups form a graph in
  \<open>group_groups\<close>; \<open>add_group_group\<close> looks for the parent among the descendants of
  the new member with a recursive common table expression. The theorems say that this check is
  exact, so the nesting graph of every database the adapter produces is acyclic.
\<close>

section \<open>Operations\<close>

definition group_from_row :: "groups_row \<Rightarrow> Group" where
  "group_from_row row = \<lparr>g_id = pr_id row, g_name = pr_name row,
     g_description = unwrap_or_default (pr_description row)\<rparr>"

definition find_group_by_name :: "Db \<Rightarrow> string \<Rightarrow> Group core_result" where
  "find_group_by_name db name =
     ok_or NotFound (map_option group_from_row (find (\<lambda>r. pr_name r = name) (t_groups db)))"

definition group_id_by_name_conn :: "Db \<Rightarrow> string \<Rightarrow> string core_result" where
  "group_id_by_name_conn db name =
     ok_or NotFound (map_option pr_id (find (\<lambda>r. pr_name r = name) (t_groups db)))"

text \<open>The row with the id comes first, a row with the name otherwise.\<close>

definition group_id_by_name_or_id_conn :: "Db \<Rightarrow> string \<Rightarrow> string core_result" where
  "group_id_by_name_or_id_conn db grp =
     ok_or NotFound (map_option pr_id (first_row
       (sort_key (\<lambda>r. if pr_id r = grp then 0 else 1 :: nat)
         (filter (\<lambda>r. pr_id r = grp \<or> pr_name r = grp) (t_groups db)))))"

definition group_group_edge_exists_tx :: "Db \<Rightarrow> string \<Rightarrow> string \<Rightarrow> bool" where
  "group_group_edge_exists_tx db parent_group_id member_group_id =
     list_ex (\<lambda>r. nr_group_id r = parent_group_id \<and> nr_member_group_id r = member_group_id)
       (t_group_groups db)"

text \<open>The edges that the recursion follows, from a group to the groups it contains.\<close>

definition descendant_edges :: "Db \<Rightarrow> (string \<times> string) list" where
  "descendant_edges db = map (\<lambda>r. (nr_group_id r, nr_member_group_id r)) (t_group_groups db)"

definition group_group_would_cycle_tx :: "Db \<Rightarrow> string \<Rightarrow> string \<Rightarrow> bool" where
  "group_group_would_cycle_tx db parent_group_id member_group_id =
     (let descendants = cte (descendant_edges db) [member_group_id]
      in parent_group_id \<in> set descendants)"

definition add_group :: "i64 \<Rightarrow> string \<Rightarrow> string \<Rightarrow> string \<Rightarrow> Db \<Rightarrow> (Group \<times> Db) core_result" where
  "add_group now new_id name description db =
     (let name = trim name in
      if name = [] then Inl (InvalidArgument [Lit ''group name must not be empty''])
      else
        let grp = \<lparr>g_id = new_id, g_name = name, g_description = description\<rparr> in
        and_then (map_err core_from_sql (insert_row groups_ixs no_fk
            \<lparr>pr_id = g_id grp, pr_name = g_name grp,
             pr_description = none_if_empty (g_description grp),
             pr_created_at = now, pr_updated_at = now\<rparr> (t_groups db)))
          (\<lambda>rows. Inr (grp, db\<lparr>t_groups := rows\<rparr>)))"

definition add_group_member :: "i64 \<Rightarrow> string \<Rightarrow> string \<Rightarrow> Db \<Rightarrow> (unit \<times> Db) core_result" where
  "add_group_member now grp user_email_or_id db =
     and_then (group_id_by_name_conn db grp) (\<lambda>group_id.
     and_then (resolve_user_id_conn db user_email_or_id) (\<lambda>user_id.
     and_then (map_err core_from_sql (insert_or_ignore group_members_ixs (group_members_fk db)
         \<lparr>mr_group_id = group_id, mr_user_id = user_id, mr_created_at = now\<rparr> (t_group_members db)))
       (\<lambda>rows. Inr ((), db\<lparr>t_group_members := rows\<rparr>))))"

definition remove_group_member :: "string \<Rightarrow> string \<Rightarrow> Db \<Rightarrow> (unit \<times> Db) core_result" where
  "remove_group_member grp user_email_or_id db =
     and_then (group_id_by_name_conn db grp) (\<lambda>group_id.
     and_then (resolve_user_id_conn db user_email_or_id) (\<lambda>user_id.
     let (changed, rows) = delete_rows (\<lambda>r. mr_group_id r = group_id \<and> mr_user_id r = user_id)
           (t_group_members db) in
     and_then (require_affected changed NotFound) (\<lambda>_. Inr ((), db\<lparr>t_group_members := rows\<rparr>))))"

definition add_group_group :: "i64 \<Rightarrow> string \<Rightarrow> string \<Rightarrow> Db \<Rightarrow> (unit \<times> Db) core_result" where
  "add_group_group now parent_group member_group db =
     and_then (group_id_by_name_or_id_conn db parent_group) (\<lambda>parent_group_id.
     and_then (group_id_by_name_or_id_conn db member_group) (\<lambda>member_group_id.
     if parent_group_id = member_group_id then
       Inl (InvalidArgument [Lit ''group cannot contain itself''])
     else if group_group_edge_exists_tx db parent_group_id member_group_id then Inr ((), db)
     else if group_group_would_cycle_tx db parent_group_id member_group_id then
       Inl (InvalidArgument [Lit ''group nesting would create a cycle''])
     else
       and_then (map_err core_from_sql (insert_row group_groups_ixs (group_groups_fk db)
           \<lparr>nr_group_id = parent_group_id, nr_member_group_id = member_group_id, nr_created_at = now\<rparr>
           (t_group_groups db)))
         (\<lambda>rows. Inr ((), db\<lparr>t_group_groups := rows\<rparr>))))"

definition remove_group_group :: "string \<Rightarrow> string \<Rightarrow> Db \<Rightarrow> (unit \<times> Db) core_result" where
  "remove_group_group parent_group member_group db =
     and_then (group_id_by_name_or_id_conn db parent_group) (\<lambda>parent_group_id.
     and_then (group_id_by_name_or_id_conn db member_group) (\<lambda>member_group_id.
     let (changed, rows) =
           delete_rows (\<lambda>r. nr_group_id r = parent_group_id \<and> nr_member_group_id r = member_group_id)
             (t_group_groups db) in
     and_then (require_affected changed NotFound) (\<lambda>_. Inr ((), db\<lparr>t_group_groups := rows\<rparr>))))"

definition list_groups :: "Db \<Rightarrow> Group list core_result" where
  "list_groups db = Inr (map group_from_row (sort_key pr_name (t_groups db)))"

definition list_group_members :: "Db \<Rightarrow> string \<Rightarrow> User list core_result" where
  "list_group_members db grp =
     and_then (group_id_by_name_or_id_conn db grp) (\<lambda>group_id.
     Inr (map user_from_row
       (sort_key (\<lambda>u. (null_first (ur_primary_email_normalized u), ur_id u))
         [u. gm \<leftarrow> t_group_members db, u \<leftarrow> t_users db,
             ur_id u = mr_user_id gm \<and> mr_group_id gm = group_id \<and> ur_status u \<noteq> ''deleted''])))"

definition list_group_groups :: "Db \<Rightarrow> string \<Rightarrow> Group list core_result" where
  "list_group_groups db grp =
     and_then (group_id_by_name_or_id_conn db grp) (\<lambda>group_id.
     Inr (map group_from_row
       (sort_key pr_name
         [g. gg \<leftarrow> t_group_groups db, g \<leftarrow> t_groups db,
             pr_id g = nr_member_group_id gg \<and> nr_group_id gg = group_id])))"

section \<open>Lookups\<close>

lemma resolve_user_id_conn_cong:
  "t_users db = t_users db' \<Longrightarrow> resolve_user_id_conn db x = resolve_user_id_conn db' x"
  unfolding resolve_user_id_conn_def by (simp split: option.split)

lemma acyclic_no_edges [simp]: "acyclic {}"
  by (simp add: acyclic_def)

lemma group_id_by_name_conn_exists: "group_id_by_name_conn db x = Inr i \<Longrightarrow> group_exists db i"
  by (auto simp: group_id_by_name_conn_def group_exists_def res_simps dest: find_SomeD)

lemma group_id_by_name_or_id_exists: "group_id_by_name_or_id_conn db x = Inr i \<Longrightarrow> group_exists db i"
  by (auto simp: group_id_by_name_or_id_conn_def group_exists_def res_simps dest!: first_row_in)

text \<open>A group id always names its own group, whatever the other groups are called.\<close>

lemma group_id_by_id:
  assumes "group_exists db i"
  shows "group_id_by_name_or_id_conn db i = Inr i"
proof -
  define k where "k = (\<lambda>r :: groups_row. if pr_id r = i then 0 else 1 :: nat)"
  let ?xs = "sort_key k (filter (\<lambda>r. pr_id r = i \<or> pr_name r = i) (t_groups db))"
  from assms have "\<exists>r \<in> set ?xs. k r = 0" by (auto simp: group_exists_def k_def)
  then obtain r y ys where r: "r \<in> set ?xs" "k r = 0" and y: "?xs = y # ys" by (cases ?xs) auto
  have "sorted (map k ?xs)" by simp
  with r y have "k y = 0" by auto
  then have "pr_id y = i" by (auto simp: k_def split: if_splits)
  with y show ?thesis
    by (simp add: group_id_by_name_or_id_conn_def k_def [symmetric] first_row_def)
qed

section \<open>Invariants\<close>

definition nesting_acyclic :: "Db \<Rightarrow> bool" where
  "nesting_acyclic db \<longleftrightarrow> acyclic (set (descendant_edges db))"

lemma add_group_schema: "schema_ok db \<Longrightarrow> add_group now i n d db = Inr (g, db') \<Longrightarrow> schema_ok db'"
  by (auto simp: add_group_def Let_def res_simps insert_row_Inr split: if_splits
      intro!: schema_ok_groups intro: table_ok_insert [OF schema_okD(2)])

lemma add_group_member_schema:
  "schema_ok db \<Longrightarrow> add_group_member now g u db = Inr (x, db') \<Longrightarrow> schema_ok db'"
  by (auto simp: add_group_member_def res_simps
      intro!: schema_ok_leaf(3) intro: table_ok_insert_or_ignore [OF schema_okD(6)])

lemma remove_group_member_schema:
  "schema_ok db \<Longrightarrow> remove_group_member g u db = Inr (x, db') \<Longrightarrow> schema_ok db'"
  by (auto simp: remove_group_member_def delete_rows_def res_simps
      intro!: schema_ok_leaf(3) table_ok_filter schema_okD)

lemma add_group_group_schema:
  "schema_ok db \<Longrightarrow> add_group_group now p m db = Inr (x, db') \<Longrightarrow> schema_ok db'"
  by (auto simp: add_group_group_def res_simps split: if_splits
      intro!: schema_ok_leaf(4) intro: table_ok_insert [OF schema_okD(7)])

lemma remove_group_group_schema:
  "schema_ok db \<Longrightarrow> remove_group_group p m db = Inr (x, db') \<Longrightarrow> schema_ok db'"
  by (auto simp: remove_group_group_def delete_rows_def res_simps
      intro!: schema_ok_leaf(4) table_ok_filter schema_okD)

lemma would_cycle_iff:
  "nesting_acyclic db \<Longrightarrow> group_group_would_cycle_tx db a b \<longleftrightarrow> \<not> acyclic (insert (a, b) (set (descendant_edges db)))"
  unfolding nesting_acyclic_def
  by (subst cte.acyclic_insert_search) (simp_all add: group_group_would_cycle_tx_def)

lemma add_group_group_acyclic:
  assumes "nesting_acyclic db" "add_group_group now p m db = Inr (x, db')"
  shows "nesting_acyclic db'"
proof -
  have "acyclic (set (descendant_edges (db\<lparr>t_group_groups := t_group_groups db @ [r]\<rparr>)))"
    if "\<not> group_group_would_cycle_tx db (nr_group_id r) (nr_member_group_id r)" for r
    using would_cycle_iff [OF assms(1)] that by (simp add: descendant_edges_def)
  with assms show ?thesis
    by (auto simp: add_group_group_def res_simps insert_row_Inr nesting_acyclic_def split: if_splits)
qed

lemma remove_group_group_acyclic:
  assumes "nesting_acyclic db" "remove_group_group p m db = Inr (x, db')"
  shows "nesting_acyclic db'"
proof -
  have "set (descendant_edges (db\<lparr>t_group_groups := filter P (t_group_groups db)\<rparr>)) \<subseteq> set (descendant_edges db)" for P
    by (auto simp: descendant_edges_def)
  from acyclic_subset [OF _ this] assms show ?thesis
    by (auto simp: remove_group_group_def delete_rows_def res_simps nesting_acyclic_def)
qed

section \<open>Nesting is exact\<close>

lemma edge_exists_iff: "group_group_edge_exists_tx db a b \<longleftrightarrow> (a, b) \<in> set (descendant_edges db)"
  by (auto simp: group_group_edge_exists_tx_def descendant_edges_def list_ex_iff)

text \<open>Nesting a group is accepted exactly when the nesting graph stays acyclic: on a
  database with acyclic nesting and for two existing groups, \<open>add_group_group\<close> succeeds if
  and only if the graph with the new edge has no cycle; it then has exactly that edge more (none
  when it was there already), keeps the schema, and otherwise changes nothing.\<close>

lemma add_group_group_exact:
  assumes "schema_ok db" "nesting_acyclic db"
    and "group_id_by_name_or_id_conn db p = Inr pid" "group_id_by_name_or_id_conn db m = Inr mid"
  shows "((\<exists>db'. add_group_group now p m db = Inr ((), db')) \<longleftrightarrow>
            acyclic (insert (pid, mid) (set (descendant_edges db)))) \<and>
    (\<forall>db'. add_group_group now p m db = Inr ((), db') \<longrightarrow>
       set (descendant_edges db') = insert (pid, mid) (set (descendant_edges db)) \<and>
       nesting_acyclic db' \<and> schema_ok db' \<and> db'\<lparr>t_group_groups := t_group_groups db\<rparr> = db)"
proof -
  let ?r = "\<lparr>nr_group_id = pid, nr_member_group_id = mid, nr_created_at = now\<rparr>"
  have new: "insert_row group_groups_ixs (group_groups_fk db) ?r (t_group_groups db) =
      Inr (t_group_groups db @ [?r])" if "(pid, mid) \<notin> set (descendant_edges db)"
    using that assms(3,4) group_id_by_name_or_id_exists
    by (auto simp: insert_row_Inr group_groups_ixs_def key_conflict_def group_groups_fk_def
        descendant_edges_def image_iff)
  have "acyclic (insert (pid, mid) (set (descendant_edges db)))" if "(pid, mid) \<in> set (descendant_edges db)"
    using that assms(2) by (simp add: insert_absorb nesting_acyclic_def)
  moreover have "\<not> acyclic (insert (pid, mid) (set (descendant_edges db)))" if "pid = mid"
    using that by (auto simp: acyclic_def)
  moreover have "nesting_acyclic db' \<and> schema_ok db'" if "add_group_group now p m db = Inr ((), db')" for db'
    using add_group_group_acyclic [OF assms(2) that] add_group_group_schema [OF assms(1) that] by blast
  ultimately show ?thesis
    using assms(3,4) new would_cycle_iff [OF assms(2), of pid mid] edge_exists_iff [of db pid mid]
    by (auto simp: add_group_group_def descendant_edges_def)
qed

definition memberships :: "Db \<Rightarrow> (string \<times> string) set" where
  "memberships db = set (map (\<lambda>r. (mr_group_id r, mr_user_id r)) (t_group_members db))"

text \<open>Membership is a set: for an existing group and user, adding the user always succeeds
  and makes the memberships one pair larger or leaves them (a second add changes nothing);
  removing succeeds exactly when the pair is there, fails with \<open>NotFound\<close> otherwise, and
  removes that pair only.\<close>

lemma membership_updates:
  assumes "schema_ok db" "group_id_by_name_conn db g = Inr gid" "resolve_user_id_conn db u = Inr uid"
  shows "(\<exists>db'. add_group_member now g u db = Inr ((), db') \<and> schema_ok db' \<and>
       memberships db' = insert (gid, uid) (memberships db) \<and>
       db'\<lparr>t_group_members := t_group_members db\<rparr> = db \<and>
       add_group_member now2 g u db' = Inr ((), db')) \<and>
    (if (gid, uid) \<in> memberships db
     then \<exists>db'. remove_group_member g u db = Inr ((), db') \<and> schema_ok db' \<and>
       memberships db' = memberships db - {(gid, uid)} \<and> db'\<lparr>t_group_members := t_group_members db\<rparr> = db
     else remove_group_member g u db = Inl NotFound)"
proof -
  let ?r = "\<lambda>now. \<lparr>mr_group_id = gid, mr_user_id = uid, mr_created_at = now\<rparr>"
  let ?ex = "(gid, uid) \<in> memberships db"
  let ?db = "if ?ex then db else db\<lparr>t_group_members := t_group_members db @ [?r now]\<rparr>"
  have conflict: "list_ex (\<lambda>ix. key_conflict (snd ix) (?r t) rows) group_members_ixs \<longleftrightarrow>
      (gid, uid) \<in> set (map (\<lambda>r. (mr_group_id r, mr_user_id r)) rows)" for t rows
    by (auto simp: group_members_ixs_def key_conflict_def)
  have fk: "group_members_fk db (?r t)" for t
    using group_id_by_name_conn_exists [OF assms(2)] resolve_user_id_conn_exists [OF assms(3)]
    by (simp add: group_members_fk_def)
  have add: "add_group_member now g u db = Inr ((), ?db)"
    using assms(2,3) fk by (simp add: add_group_member_def insert_or_ignore_def conflict memberships_def)
  moreover have "add_group_member now2 g u ?db = Inr ((), ?db)"
  proof -
    have "group_id_by_name_conn ?db g = Inr gid" "resolve_user_id_conn ?db u = Inr uid"
      using assms(2,3) resolve_user_id_conn_cong [of ?db db] by (simp_all add: group_id_by_name_conn_def)
    then show ?thesis by (simp add: add_group_member_def insert_or_ignore_def conflict memberships_def)
  qed
  moreover have "memberships ?db = insert (gid, uid) (memberships db)" by (auto simp: memberships_def)
  moreover have "?db\<lparr>t_group_members := t_group_members db\<rparr> = db" by simp
  moreover note add_group_member_schema [OF assms(1) add]
  moreover have "if ?ex
     then \<exists>db'. remove_group_member g u db = Inr ((), db') \<and> schema_ok db' \<and>
       memberships db' = memberships db - {(gid, uid)} \<and> db'\<lparr>t_group_members := t_group_members db\<rparr> = db
     else remove_group_member g u db = Inl NotFound"
  proof -
    let ?P = "\<lambda>r. mr_group_id r = gid \<and> mr_user_id r = uid"
    have "filter ?P (t_group_members db) \<noteq> [] \<longleftrightarrow> ?ex"
      by (auto simp: memberships_def filter_empty_conv)
    moreover have "memberships (db\<lparr>t_group_members := filter (\<lambda>r. \<not> ?P r) (t_group_members db)\<rparr>) =
        memberships db - {(gid, uid)}"
      by (auto simp: memberships_def)
    moreover have "schema_ok (db\<lparr>t_group_members := filter (\<lambda>r. \<not> ?P r) (t_group_members db)\<rparr>)"
      by (intro schema_ok_leaf(3) table_ok_filter schema_okD assms(1))
    ultimately show ?thesis
      using assms(2,3) by (auto simp: remove_group_member_def delete_rows_def require_affected_def)
  qed
  ultimately show ?thesis by blast
qed

section \<open>A concrete group hierarchy\<close>

text \<open>Groups \<open>dev\<close> and \<open>staff\<close>, the first inside the second, with one member.\<close>

definition demo_user :: "string \<Rightarrow> string \<Rightarrow> users_row" where
  "demo_user i email = \<lparr>ur_id = i, ur_display_name = None, ur_primary_email = Some email,
     ur_primary_email_normalized = Some email, ur_status = ''active'', ur_created_at = 1,
     ur_updated_at = 1, ur_last_login_at = None\<rparr>"

definition demo_group :: "string \<Rightarrow> string \<Rightarrow> groups_row" where
  "demo_group i name = \<lparr>pr_id = i, pr_name = name, pr_description = None, pr_created_at = 2, pr_updated_at = 2\<rparr>"

definition demo_groups :: Db where
  "demo_groups = empty_db\<lparr>t_users := [demo_user ''u1'' ''bob@x.org'', demo_user ''u2'' ''eve@x.org''],
     t_groups := [demo_group ''g1'' ''dev'', demo_group ''g2'' ''staff''],
     t_group_groups := [\<lparr>nr_group_id = ''g2'', nr_member_group_id = ''g1'', nr_created_at = 3\<rparr>],
     t_group_members := [\<lparr>mr_group_id = ''g1'', mr_user_id = ''u1'', mr_created_at = 3\<rparr>]\<rparr>"

lemma demo_groups_edges:
  "descendant_edges demo_groups = [(''g2'', ''g1'')]"
  "group_id_by_name_or_id_conn demo_groups ''dev'' = Inr ''g1''"
  "group_id_by_name_or_id_conn demo_groups ''staff'' = Inr ''g2''"
  "group_id_by_name_conn demo_groups ''dev'' = Inr ''g1''"
  "resolve_user_id_conn demo_groups ''u1'' = Inr ''u1''"
  "map (\<lambda>r. (mr_group_id r, mr_user_id r)) (t_group_members demo_groups) = [(''g1'', ''u1'')]"
  by code_simp+

lemma demo_groups_schema: "schema_ok demo_groups"
  by code_simp

lemma demo_groups_acyclic: "nesting_acyclic demo_groups"
  by (simp add: nesting_acyclic_def demo_groups_edges acyclic_insert)

lemma add_group_group_exact_witness:
  "\<not> (\<exists>db'. add_group_group 20 ''dev'' ''staff'' demo_groups = Inr ((), db')) \<and>
   (\<exists>db'. add_group_group 20 ''staff'' ''dev'' demo_groups = Inr ((), db') \<and> nesting_acyclic db')"
proof -
  have "\<not> acyclic (insert (''g1'', ''g2'') (set (descendant_edges demo_groups)))"
    by (auto simp: demo_groups_edges acyclic_insert)
  moreover have "acyclic (insert (''g2'', ''g1'') (set (descendant_edges demo_groups)))"
    by (simp add: demo_groups_edges acyclic_insert)
  ultimately show ?thesis
    using add_group_group_exact [OF demo_groups_schema demo_groups_acyclic demo_groups_edges(2,3)]
      add_group_group_exact [OF demo_groups_schema demo_groups_acyclic demo_groups_edges(3,2)]
    by blast
qed

lemma membership_updates_witness:
  "\<exists>db'. remove_group_member ''dev'' ''u1'' demo_groups = Inr ((), db') \<and> memberships db' = {}"
proof -
  have "memberships demo_groups = {(''g1'', ''u1'')}"
    by (simp add: memberships_def demo_groups_edges)
  then show ?thesis
    using membership_updates [OF demo_groups_schema demo_groups_edges(4,5), of 0 0] by auto
qed

end
