(* ===== verification/Sqlite_Resources.thy ===== *)
theory Sqlite_Resources
  imports Sqlite_Accounts
begin

text \<open>
  Repository resources (\<open>sqlite/resources.rs\<close>): creation and update, which keep the row of a
  repository that was deleted before, soft deletion, and the lookups. Theorems: what is created
  is found again under its id, what is deleted is not, manual and synchronised repositories do
  not overwrite each other, and a deleted repository comes back as the same row.
\<close>

section \<open>Operations\<close>

definition resource_from_row :: "repositories_row \<Rightarrow> Resource" where
  "resource_from_row row =
     \<lparr>r_id = rr_id row, r_name = rr_name row, r_remote_url = rr_remote_url row,
      r_lore_repository_id = rr_lore_repository_id row,
      r_resource_id = unwrap_or_default (for_repository_id (rr_lore_repository_id row)),
      r_status = rr_status row\<rparr>"

record ResourceWithSource =
  ws_resource :: Resource
  ws_created_by_source :: string

definition resource_with_source_from_row :: "repositories_row \<Rightarrow> ResourceWithSource" where
  "resource_with_source_from_row row =
     \<lparr>ws_resource = resource_from_row row, ws_created_by_source = rr_created_by_source row\<rparr>"

definition upsert_resource_conn :: "i64 \<Rightarrow> string \<Rightarrow> Resource \<Rightarrow> Db \<Rightarrow> (unit \<times> Db) core_result" where
  "upsert_resource_conn now new_id resource db =
     and_then (resource_id_from_resource resource) (\<lambda>resource_id.
     let lore_repository_id = repository_id_from_resource_id resource_id;
         name = (if trim (r_name resource) = [] then lore_repository_id else r_name resource) in
     if trim (r_remote_url resource) \<noteq> [] then
       (case map_option resource_with_source_from_row
               (find (\<lambda>r. rr_lore_repository_id r = lore_repository_id) (t_repositories db)) of
          Some existing \<Rightarrow>
            if ws_created_by_source existing \<noteq> ''manual'' then
              Inl (InvalidArgument [Lit ''repository '', Lit (r_lore_repository_id (ws_resource existing)),
                     Lit '' is managed by '', Lit (ws_created_by_source existing)])
            else
              and_then (map_err core_from_sql (update_rows [repositories_name_ix] no_fk
                  (\<lambda>r. rr_id r = r_id (ws_resource existing) \<and> rr_created_by_source r = ''manual'')
                  (\<lambda>r. r\<lparr>rr_name := name, rr_remote_url := r_remote_url resource,
                         rr_status := ''active'', rr_updated_at := now\<rparr>)
                  (t_repositories db)))
                (\<lambda>(changed, rows).
              and_then (require_affected changed NotFound) (\<lambda>_. Inr ((), db\<lparr>t_repositories := rows\<rparr>)))
        | None \<Rightarrow>
            and_then (map_err core_from_sql (insert_row repositories_ixs no_fk
                \<lparr>rr_id = new_id, rr_name = name, rr_remote_url = r_remote_url resource,
                 rr_lore_repository_id = lore_repository_id, rr_status = ''active'',
                 rr_created_by_source = ''manual'', rr_created_at = now, rr_updated_at = now\<rparr>
                (t_repositories db)))
              (\<lambda>rows. Inr ((), db\<lparr>t_repositories := rows\<rparr>)))
     else
       and_then (map_err core_from_sql (update_rows [] no_fk
           (\<lambda>r. rr_lore_repository_id r = lore_repository_id)
           (\<lambda>r. r\<lparr>rr_status := ''active'', rr_updated_at := now\<rparr>) (t_repositories db)))
         (\<lambda>(changed, rows).
       if changed > 0 then Inr ((), db\<lparr>t_repositories := rows\<rparr>)
       else
         and_then (map_err core_from_sql (insert_row repositories_ixs no_fk
             \<lparr>rr_id = new_id, rr_name = name, rr_remote_url = [],
              rr_lore_repository_id = lore_repository_id, rr_status = ''active'',
              rr_created_by_source = ''rebac_create_resource'', rr_created_at = now, rr_updated_at = now\<rparr>
             rows))
           (\<lambda>rows. Inr ((), db\<lparr>t_repositories := rows\<rparr>))))"

definition delete_resource_conn :: "i64 \<Rightarrow> string \<Rightarrow> Db \<Rightarrow> (unit \<times> Db) core_result" where
  "delete_resource_conn now resource_id db =
     (let lore_repository_id = repository_id_from_resource_id resource_id in
      and_then (map_err core_from_sql (update_rows [] no_fk
          (\<lambda>r. rr_lore_repository_id r = lore_repository_id)
          (\<lambda>r. r\<lparr>rr_status := ''deleted'', rr_updated_at := now\<rparr>) (t_repositories db)))
        (\<lambda>(changed, rows).
      and_then (require_affected changed NotFound) (\<lambda>_. Inr ((), db\<lparr>t_repositories := rows\<rparr>))))"

text \<open>The port's \<open>delete\<close> strips the prefix before \<open>delete_resource_conn\<close> strips it again.\<close>

definition ResourceStore_delete :: "i64 \<Rightarrow> string \<Rightarrow> Db \<Rightarrow> (unit \<times> Db) core_result" where
  "ResourceStore_delete now resource_id db =
     delete_resource_conn now (repository_id_from_resource_id resource_id) db"

definition get_by_id :: "Db \<Rightarrow> string \<Rightarrow> Resource core_result" where
  "get_by_id db i = ok_or NotFound (map_option resource_from_row
     (find (\<lambda>r. rr_id r = i \<and> rr_status r = ''active'') (t_repositories db)))"

definition get_by_resource_id :: "Db \<Rightarrow> string \<Rightarrow> Resource core_result" where
  "get_by_resource_id db resource_id =
     (let lore_repository_id = repository_id_from_resource_id resource_id in
      ok_or NotFound (map_option resource_from_row
        (find (\<lambda>r. rr_lore_repository_id r = lore_repository_id \<and> rr_status r = ''active'')
           (t_repositories db))))"

definition get_by_name :: "Db \<Rightarrow> string \<Rightarrow> Resource core_result" where
  "get_by_name db name = ok_or NotFound (map_option resource_from_row
     (find (\<lambda>r. rr_name r = name \<and> rr_status r = ''active'') (t_repositories db)))"

definition list_resources :: "Db \<Rightarrow> Resource list core_result" where
  "list_resources db = Inr (map resource_from_row
     (sort_key rr_name (filter (\<lambda>r. rr_status r = ''active'') (t_repositories db))))"

text \<open>Two calls on the connection: an error of the second does not undo the first.\<close>

definition upsert_and_get :: "i64 \<Rightarrow> string \<Rightarrow> Resource \<Rightarrow> (CoreError, Resource, Db) op" where
  "upsert_and_get now new_id resource db =
     (case resource_id_from_resource resource of
        Inl e \<Rightarrow> (Inl e, db)
      | Inr resource_id \<Rightarrow>
          bind_op (commit_op (upsert_resource_conn now new_id resource))
            (\<lambda>_. read_op (\<lambda>db. get_by_resource_id db resource_id)) db)"

section \<open>Invariant\<close>

lemma repositories_update_schema:
  assumes ok: "schema_ok db" and up: "update_rows ixs no_fk P f (t_repositories db) = Inr (n, rows)"
    and f: "\<And>r. rr_id (f r) = rr_id r" "\<And>r. rr_lore_repository_id (f r) = rr_lore_repository_id r"
    and ixs: "\<And>r. rr_name (f r) = rr_name r \<or> ixs = [repositories_name_ix]"
  shows "schema_ok (db\<lparr>t_repositories := rows\<rparr>)"
proof (rule schema_ok_repositories [OF ok])
  show "table_ok repositories_ixs no_fk rows"
    by (rule table_ok_update [OF schema_okD(3) [OF ok] up])
      (use f ixs in \<open>fastforce simp: repositories_ixs_def repositories_name_ix_def no_fk_def\<close>)+
qed (use update_rows_image [OF up, of rr_id] f in simp)

lemma repositories_insert_schema:
  "schema_ok db \<Longrightarrow> insert_row repositories_ixs no_fk r (t_repositories db) = Inr rows \<Longrightarrow>
     schema_ok (db\<lparr>t_repositories := rows\<rparr>)"
  by (rule schema_ok_repositories)
    (auto simp: insert_row_Inr intro: table_ok_insert [OF schema_okD(3)])

lemma update_none: "filter P rows = [] \<Longrightarrow> map (\<lambda>r. if P r then f r else r) rows = rows"
  by (induction rows) (auto split: if_splits)

lemma upsert_resource_schema:
  assumes ok: "schema_ok db" and res: "upsert_resource_conn now i res db = Inr (x, db')"
  shows "schema_ok db'"
  using res
  by (auto simp: upsert_resource_conn_def Let_def res_simps update_none update_rows_plain
      intro: repositories_insert_schema [OF ok] repositories_update_schema [OF ok]
      repositories_update_schema [OF ok update_rows_plain] split: if_splits option.splits)

lemma delete_resource_schema:
  assumes ok: "schema_ok db" and res: "delete_resource_conn now i db = Inr (x, db')"
  shows "schema_ok db'"
  using res repositories_update_schema [OF ok update_rows_plain]
  by (auto simp: delete_resource_conn_def Let_def res_simps update_rows_plain)

section \<open>Create, look up, delete\<close>

lemma get_by_resource_id_iff:
  assumes "schema_ok db"
  shows "get_by_resource_id db rid = Inr res \<longleftrightarrow> (\<exists>r \<in> set (t_repositories db).
    rr_lore_repository_id r = repository_id_from_resource_id rid \<and> rr_status r = ''active'' \<and>
    res = resource_from_row r)"
proof -
  let ?Q = "\<lambda>r. rr_lore_repository_id r = repository_id_from_resource_id rid \<and> rr_status r = ''active''"
  have "find ?Q (t_repositories db) = Some r \<longleftrightarrow> r \<in> set (t_repositories db) \<and> ?Q r" for r
    by (rule repositories_lore_id.find_iff [OF assms]) auto
  then show ?thesis by (auto simp: get_by_resource_id_def Let_def res_simps)
qed

lemma resource_from_row_simps [simp]:
  "r_id (resource_from_row r) = rr_id r" "r_status (resource_from_row r) = rr_status r"
  "r_lore_repository_id (resource_from_row r) = rr_lore_repository_id r"
  "r_resource_id (resource_from_row r) = unwrap_or_default (for_repository_id (rr_lore_repository_id r))"
  by (simp_all add: resource_from_row_def)

text \<open>What an upsert or a deletion of repository \<open>lid\<close> leaves of the other repositories.\<close>

definition only_changes :: "string \<Rightarrow> Db \<Rightarrow> Db \<Rightarrow> bool" where
  "only_changes lid db db' \<longleftrightarrow>
     filter (\<lambda>r. rr_lore_repository_id r \<noteq> lid) (t_repositories db') =
     filter (\<lambda>r. rr_lore_repository_id r \<noteq> lid) (t_repositories db) \<and>
     db'\<lparr>t_repositories := t_repositories db\<rparr> = db"

lemma filter_update_other:
  assumes "\<And>r. r \<in> set rows \<Longrightarrow> P r \<Longrightarrow> \<not> Q r \<and> \<not> Q (f r)"
  shows "filter Q (map (\<lambda>r. if P r then f r else r) rows) = filter Q rows"
  using assms by (induction rows) auto

lemma find_filter_other:
  assumes "\<And>r. Q r \<Longrightarrow> R r"
  shows "find Q (filter R rows) = find Q rows"
  using assms by (induction rows) auto

lemma only_changes_get:
  assumes "only_changes lid db db'" "repository_id_from_resource_id rid \<noteq> lid"
  shows "get_by_resource_id db' rid = get_by_resource_id db rid"
proof -
  let ?Q = "\<lambda>r. rr_lore_repository_id r = repository_id_from_resource_id rid \<and> rr_status r = ''active''"
  let ?R = "\<lambda>r. rr_lore_repository_id r \<noteq> lid"
  have other: "find ?Q (filter ?R rows) = find ?Q rows" for rows :: "repositories_row list"
    by (rule find_filter_other) (use assms(2) in auto)
  have same: "filter ?R (t_repositories db') = filter ?R (t_repositories db)"
    using assms(1) by (simp add: only_changes_def)
  have "find ?Q (t_repositories db') = find ?Q (filter ?R (t_repositories db'))" by (simp only: other)
  then have "find ?Q (t_repositories db') = find ?Q (t_repositories db)" by (simp only: same other)
  then show ?thesis by (simp add: get_by_resource_id_def)
qed

lemma upsert_effect:
  assumes ok: "schema_ok db" and res: "upsert_resource_conn now i res db = Inr ((), db')"
    and rid: "resource_id_from_resource res = Inr rid"
  defines lid: "lid \<equiv> repository_id_from_resource_id rid"
  shows "only_changes lid db db' \<and> (\<exists>r \<in> set (t_repositories db'). rr_lore_repository_id r = lid \<and>
     rr_status r = ''active'' \<and> (\<forall>q \<in> set (t_repositories db). rr_lore_repository_id q = lid \<longrightarrow>
        rr_id q = rr_id r \<and> rr_created_by_source q = rr_created_by_source r))"
proof (cases "find (\<lambda>r. rr_lore_repository_id r = lid) (t_repositories db)")
  case None
  then have none: "filter (\<lambda>r. rr_lore_repository_id r = lid) (t_repositories db) = []"
    by (auto simp: find_None_iff filter_empty_conv)
  have "\<exists>row. db' = db\<lparr>t_repositories := t_repositories db @ [row]\<rparr> \<and>
    rr_lore_repository_id row = lid \<and> rr_status row = ''active''"
    using res None none unfolding lid
    by (cases "trim (r_remote_url res) = []")
      (auto simp: upsert_resource_conn_def Let_def rid res_simps update_rows_plain
        update_none insert_row_Inr)
  then obtain row where "db' = db\<lparr>t_repositories := t_repositories db @ [row]\<rparr>"
    "rr_lore_repository_id row = lid" "rr_status row = ''active''" by blast
  with None show ?thesis by (auto simp: only_changes_def find_None_iff)
next
  case (Some q)
  from find_SomeD [OF Some] have q: "q \<in> set (t_repositories db)" "rr_lore_repository_id q = lid" by auto
  have uq: "x = q" if "x \<in> set (t_repositories db)" "rr_lore_repository_id x = lid" for x
    using repositories_lore_id.same_row [OF ok that(1) q(1)] that(2) q(2) by simp
  have uid: "x = q" if "x \<in> set (t_repositories db)" "rr_id x = rr_id q" for x
    using repositories_id.same_row [OF ok that(1) q(1)] that(2) by simp
  from q have ne: "filter (\<lambda>r. rr_lore_repository_id r = lid) (t_repositories db) \<noteq> []"
    by (auto simp: filter_empty_conv)
  obtain f P where
    db': "db' = db\<lparr>t_repositories := map (\<lambda>r. if P r then f r else r) (t_repositories db)\<rparr>" and
    P: "P q" "\<And>r. P r \<Longrightarrow> rr_lore_repository_id r = lid \<or> rr_id r = rr_id q" and
    f: "\<And>r. rr_lore_repository_id (f r) = rr_lore_repository_id r" "\<And>r. rr_id (f r) = rr_id r"
      "\<And>r. rr_status (f r) = ''active''" "\<And>r. rr_created_by_source (f r) = rr_created_by_source r"
  proof (cases "trim (r_remote_url res) = []")
    case True
    with res ne q(2) show thesis unfolding lid
      by (intro that [of "\<lambda>r. rr_lore_repository_id r = lid"
            "\<lambda>r. r\<lparr>rr_status := ''active'', rr_updated_at := now\<rparr>"])
        (auto simp: upsert_resource_conn_def Let_def rid lid update_rows_plain)
  next
    case False
    let ?name = "if trim (r_name res) = [] then repository_id_from_resource_id rid else r_name res"
    from False res Some q show thesis unfolding lid
      by (intro that [of "\<lambda>r. rr_id r = rr_id q \<and> rr_created_by_source r = ''manual''"
            "\<lambda>r. r\<lparr>rr_name := ?name, rr_remote_url := r_remote_url res, rr_status := ''active'', rr_updated_at := now\<rparr>"])
        (simp_all add: upsert_resource_conn_def Let_def rid lid res_simps update_rows_Inr
          resource_with_source_from_row_def split: if_splits)
  qed
  have "filter (\<lambda>r. rr_lore_repository_id r \<noteq> lid) (t_repositories db') =
      filter (\<lambda>r. rr_lore_repository_id r \<noteq> lid) (t_repositories db)"
    by (simp add: db', rule filter_update_other) (use P(2) uid q f in auto)
  then have "only_changes lid db db'" by (simp add: only_changes_def db')
  moreover have "f q \<in> set (t_repositories db')" using P(1) q(1) by (auto simp: db')
  moreover have "rr_id x = rr_id (f q) \<and> rr_created_by_source x = rr_created_by_source (f q)"
    if "x \<in> set (t_repositories db)" "rr_lore_repository_id x = lid" for x
    using uq [OF that] f by simp
  moreover have "rr_lore_repository_id (f q) = lid" "rr_status (f q) = ''active''" using f q by auto
  ultimately show ?thesis by blast
qed

text \<open>A repository that was created or updated is found again: after a successful upsert the
  lookup by its resource id returns an active repository with that Lore repository id, printed
  back with the same resource id unless the id itself is empty or carries a second prefix; it is the row the
  repository had before, if any, a row is never taken over by the other source, and every
  other repository is found as before.\<close>

lemma upsert_then_get:
  assumes "schema_ok db" "resource_id_from_resource res = Inr rid"
    and "upsert_resource_conn now new_id res db = Inr ((), db')"
  shows "\<exists>r. get_by_resource_id db' rid = Inr r \<and> r_status r = ''active'' \<and>
    r_lore_repository_id r = repository_id_from_resource_id rid \<and>
    (\<not> starts_with (repository_id_from_resource_id rid) urc_prefix \<and>
     repository_id_from_resource_id rid \<noteq> [] \<longrightarrow> r_resource_id r = rid) \<and>
    (\<forall>q \<in> set (t_repositories db). rr_lore_repository_id q = repository_id_from_resource_id rid \<longrightarrow>
       r_id r = rr_id q \<and> (trim (r_remote_url res) \<noteq> [] \<longrightarrow> rr_created_by_source q = ''manual'')) \<and>
    (\<forall>rid'. repository_id_from_resource_id rid' \<noteq> repository_id_from_resource_id rid \<longrightarrow>
       get_by_resource_id db' rid' = get_by_resource_id db rid') \<and> schema_ok db'"
proof -
  note ok' = upsert_resource_schema [OF assms(1,3)]
  from upsert_effect [OF assms(1,3,2)] obtain r where
    oc: "only_changes (repository_id_from_resource_id rid) db db'" and
    r: "r \<in> set (t_repositories db')" "rr_lore_repository_id r = repository_id_from_resource_id rid"
      "rr_status r = ''active''" and
    old: "\<And>q. q \<in> set (t_repositories db) \<Longrightarrow>
        rr_lore_repository_id q = repository_id_from_resource_id rid \<Longrightarrow> rr_id q = rr_id r"
    by blast
  from r have "get_by_resource_id db' rid = Inr (resource_from_row r)"
    unfolding get_by_resource_id_iff [OF ok'] by blast
  moreover have "r_resource_id (resource_from_row r) = rid"
    if plain: "\<not> starts_with (repository_id_from_resource_id rid) urc_prefix"
      "repository_id_from_resource_id rid \<noteq> []"
  proof -
    from assms(2) obtain x where "for_repository_id x = Some rid"
      by (auto simp: resource_id_from_resource_def res_simps split: if_splits)
    then obtain y where y: "rid = urc_prefix @ y"
      by (auto simp: for_repository_id_def starts_with_iff split: if_splits)
    with y plain show ?thesis
      by (simp add: r(2) for_repository_id_plain unwrap_or_default_def)
  qed
  moreover have "rr_created_by_source q = ''manual''"
    if "q \<in> set (t_repositories db)" "rr_lore_repository_id q = repository_id_from_resource_id rid"
      "trim (r_remote_url res) \<noteq> []" for q
  proof -
    have "find (\<lambda>r. rr_lore_repository_id r = repository_id_from_resource_id rid) (t_repositories db) = Some q"
      by (subst repositories_lore_id.find_iff [OF assms(1)]) (use that in auto)
    with assms(2,3) that(3) show ?thesis
      by (auto simp: upsert_resource_conn_def Let_def resource_with_source_from_row_def split: if_splits)
  qed
  ultimately show ?thesis using r old ok' only_changes_get [OF oc] by auto
qed

lemma delete_effect:
  assumes "delete_resource_conn now i db = Inr ((), db')"
  shows "only_changes (repository_id_from_resource_id i) db db' \<and>
    (\<forall>r \<in> set (t_repositories db'). rr_lore_repository_id r = repository_id_from_resource_id i \<longrightarrow>
       rr_status r = ''deleted'')"
  using assms
  by (auto simp: delete_resource_conn_def Let_def res_simps update_rows_plain only_changes_def
      intro!: filter_update_other)

text \<open>Deleting a repository succeeds exactly when it is stored under the id, and then it is
  not found any more while every other repository is found as before. Creating it again succeeds
  and brings back the row it had, so the grants given before the deletion apply to it again.\<close>

lemma delete_then_recreate:
  assumes "schema_ok db"
  shows "((\<exists>db'. delete_resource_conn now i db = Inr ((), db')) \<longleftrightarrow>
      (\<exists>r \<in> set (t_repositories db). rr_lore_repository_id r = repository_id_from_resource_id i)) \<and>
    (\<forall>db'. delete_resource_conn now i db = Inr ((), db') \<longrightarrow>
       get_by_resource_id db' i = Inl NotFound \<and> schema_ok db' \<and> t_grants db' = t_grants db \<and>
       (\<forall>rid'. repository_id_from_resource_id rid' \<noteq> repository_id_from_resource_id i \<longrightarrow>
          get_by_resource_id db' rid' = get_by_resource_id db rid') \<and>
       (\<forall>res r. resource_id_from_resource res = Inr i \<and> trim (r_remote_url res) = [] \<and>
          r \<in> set (t_repositories db) \<and> rr_lore_repository_id r = repository_id_from_resource_id i \<longrightarrow>
          (\<exists>db'' q. upsert_resource_conn now2 new_id res db' = Inr ((), db'') \<and>
             get_by_resource_id db'' i = Inr q \<and> r_id q = rr_id r \<and> t_grants db'' = t_grants db)))"
    (is "?iff \<and> (\<forall>db'. ?del db' \<longrightarrow> ?gone db' \<and> ?ok db' \<and> ?gr db' \<and> ?frame db' \<and> ?back db')")
proof -
  let ?lid = "repository_id_from_resource_id i"
  have iff: ?iff
    by (auto simp: delete_resource_conn_def Let_def update_rows_plain require_affected_def
        filter_empty_conv)
  have "?gone db' \<and> ?ok db' \<and> ?gr db' \<and> ?frame db' \<and> ?back db'" if del: "?del db'" for db'
  proof (intro conjI)
    note ok' = delete_resource_schema [OF assms del]
    from delete_effect [OF del] have oc: "only_changes ?lid db db'"
      and gone: "\<And>r. r \<in> set (t_repositories db') \<Longrightarrow> rr_lore_repository_id r = ?lid \<Longrightarrow> rr_status r = ''deleted''"
      by auto
    show "?gone db'"
      using gone by (auto simp: get_by_resource_id_def Let_def ok_or_def find_None_iff split: option.split dest!: find_SomeD)
    show "?ok db'" by (rule ok')
    show "?gr db'" using oc by (auto simp: only_changes_def dest: arg_cong [of _ _ t_grants])
    then have gr: "t_grants db' = t_grants db" .
    show "?frame db'" using only_changes_get [OF oc] by blast
    show "?back db'"
    proof (intro allI impI)
      fix res r
      assume r: "resource_id_from_resource res = Inr i \<and> trim (r_remote_url res) = [] \<and>
        r \<in> set (t_repositories db) \<and> rr_lore_repository_id r = ?lid"
      define q where "q = r\<lparr>rr_status := ''deleted'', rr_updated_at := now\<rparr>"
      from del have "db' = db\<lparr>t_repositories := map (\<lambda>r. if rr_lore_repository_id r = ?lid
          then r\<lparr>rr_status := ''deleted'', rr_updated_at := now\<rparr> else r) (t_repositories db)\<rparr>"
        by (auto simp: delete_resource_conn_def Let_def res_simps update_rows_plain)
      with r have q: "q \<in> set (t_repositories db')" "rr_lore_repository_id q = ?lid" "rr_id q = rr_id r"
        by (auto simp: q_def)
      let ?db'' = "db'\<lparr>t_repositories := map (\<lambda>r. if rr_lore_repository_id r = ?lid
          then r\<lparr>rr_status := ''active'', rr_updated_at := now2\<rparr> else r) (t_repositories db')\<rparr>"
      have up: "upsert_resource_conn now2 new_id res db' = Inr ((), ?db'')"
        using r q by (auto simp: upsert_resource_conn_def Let_def update_rows_plain filter_empty_conv)
      have "get_by_resource_id ?db'' i = Inr (resource_from_row (q\<lparr>rr_status := ''active'', rr_updated_at := now2\<rparr>))"
        unfolding get_by_resource_id_iff [OF upsert_resource_schema [OF ok' up]] 
        using q by (intro bexI [of _ "q\<lparr>rr_status := ''active'', rr_updated_at := now2\<rparr>"]) auto
      with up gr q(3) show "\<exists>db'' q. upsert_resource_conn now2 new_id res db' = Inr ((), db'') \<and>
          get_by_resource_id db'' i = Inr q \<and> r_id q = rr_id r \<and> t_grants db'' = t_grants db"
        by auto
    qed
  qed
  with iff show ?thesis by blast
qed

section \<open>Concrete repositories\<close>

definition demo_repo :: repositories_row where
  "demo_repo = \<lparr>rr_id = ''r1'', rr_name = ''game'', rr_remote_url = [], rr_lore_repository_id = ''game'',
     rr_status = ''active'', rr_created_by_source = ''rebac_create_resource'', rr_created_at = 1, rr_updated_at = 1\<rparr>"

definition demo_repos :: Db where
  "demo_repos = empty_db\<lparr>t_repositories := [demo_repo]\<rparr>"

definition demo_resource :: "string \<Rightarrow> Resource" where
  "demo_resource rid = Resource_default\<lparr>r_resource_id := rid\<rparr>"

lemma demo_repos_facts:
  "schema_ok demo_repos"
  "resource_id_from_resource (demo_resource ''urc-art'') = Inr ''urc-art''"
  "resource_id_from_resource (demo_resource ''urc-game'') = Inr ''urc-game''"
  "is_ok (upsert_resource_conn 5 ''r2'' (demo_resource ''urc-art'') demo_repos)"
  "is_ok (delete_resource_conn 6 ''urc-game'' demo_repos)"
  "repository_id_from_resource_id ''urc-art'' = ''art''"
  "repository_id_from_resource_id ''urc-game'' = ''game''"
  by code_simp+

lemma upsert_then_get_witness:
  "\<exists>db' r. upsert_resource_conn 5 ''r2'' (demo_resource ''urc-art'') demo_repos = Inr ((), db') \<and>
     get_by_resource_id db' ''urc-art'' = Inr r \<and> r_resource_id r = ''urc-art'' \<and>
     get_by_resource_id db' ''urc-game'' = get_by_resource_id demo_repos ''urc-game''"
proof -
  from is_ok_obtain [OF demo_repos_facts(4)] obtain db' where
    h: "upsert_resource_conn 5 ''r2'' (demo_resource ''urc-art'') demo_repos = Inr ((), db')" by force
  have "\<not> starts_with ''art'' urc_prefix" by (simp add: urc_prefix_def)
  with upsert_then_get [OF demo_repos_facts(1,2) h] h show ?thesis
    by (auto simp: demo_repos_facts(6,7))
qed

lemma delete_then_recreate_witness:
  "\<exists>db' db'' q. delete_resource_conn 6 ''urc-game'' demo_repos = Inr ((), db') \<and>
     get_by_resource_id db' ''urc-game'' = Inl NotFound \<and>
     upsert_resource_conn 7 ''r9'' (demo_resource ''urc-game'') db' = Inr ((), db'') \<and>
     get_by_resource_id db'' ''urc-game'' = Inr q \<and> r_id q = ''r1''"
proof -
  from is_ok_obtain [OF demo_repos_facts(5)] obtain db' where
    h: "delete_resource_conn 6 ''urc-game'' demo_repos = Inr ((), db')" by force
  have r: "trim (r_remote_url (demo_resource ''urc-game'')) = []" "demo_repo \<in> set (t_repositories demo_repos)"
    "rr_lore_repository_id demo_repo = repository_id_from_resource_id ''urc-game''" "rr_id demo_repo = ''r1''"
    by (simp_all add: demo_resource_def Resource_default_def demo_repos_def demo_repos_facts(7) demo_repo_def)
  from delete_then_recreate [OF demo_repos_facts(1), of 6 "''urc-game''" 7 "''r9''"] h
    demo_repos_facts(3) r show ?thesis by metis
qed

text \<open>The prefix is stripped once or twice depending on the operation, so the operations
  disagree about an id with a double prefix: creating \<open>urc-urc-x\<close> stores \<open>x\<close>, looking
  up \<open>urc-urc-x\<close> searches \<open>urc-x\<close>, and deleting it through the port deletes \<open>x\<close>.
  The id \<open>urc-\<close> is accepted and stored as the empty repository id.\<close>

theorem double_prefix_alias:
  "resource_id_from_resource (demo_resource ''urc-urc-game'') = Inr ''urc-game'' \<and>
   get_by_resource_id demo_repos ''urc-urc-game'' = Inl NotFound \<and>
   (case ResourceStore_delete 6 ''urc-urc-game'' demo_repos of
      Inr (_, db') \<Rightarrow> get_by_resource_id db' ''urc-game'' = Inl NotFound
    | Inl _ \<Rightarrow> False) \<and>
   (case upsert_resource_conn 5 ''r2'' (Resource_default\<lparr>r_lore_repository_id := ''urc-''\<rparr>) empty_db of
      Inr (_, db') \<Rightarrow> map rr_lore_repository_id (t_repositories db') = [[]]
    | Inl _ \<Rightarrow> False)"
  by code_simp

end
