(* ===== verification/Sqlite_Grants.thy ===== *)
theory Sqlite_Grants
  imports Sqlite_Groups Sqlite_Resources "HOL-Library.Multiset"
begin

text \<open>
  Grants and grant evidence (\<open>sqlite/grants.rs\<close>). A grant gives a user or a group a role on
  a repository; the evidence query explains which grants reach a user, directly or through nested
  groups, and along which chain of groups. Theorems: stored grants always name a known role
  and an existing subject, adding and removing are inverse, and the evidence lists exactly the
  grants that reach the user.
\<close>

section \<open>Operations\<close>

fun collect_rows :: "('e + 'a) list \<Rightarrow> 'e + 'a list" where
  "collect_rows [] = Inr []"
| "collect_rows (r # rs) = and_then r (\<lambda>a. and_then (collect_rows rs) (\<lambda>as. Inr (a # as)))"

definition repository_id_by_name_conn :: "Db \<Rightarrow> string \<Rightarrow> string core_result" where
  "repository_id_by_name_conn db name =
     ok_or NotFound (map_option rr_id
       (find (\<lambda>r. rr_name r = name \<and> rr_status r = ''active'') (t_repositories db)))"

definition repository_id_by_resource_conn :: "Db \<Rightarrow> string \<Rightarrow> string core_result" where
  "repository_id_by_resource_conn db resource_id =
     (let lore_repository_id = repository_id_from_resource_id (trim resource_id) in
      if lore_repository_id = [] then Inl (InvalidArgument [Lit ''resource_id must not be empty''])
      else ok_or NotFound (map_option rr_id
        (find (\<lambda>r. rr_status r = ''active'' \<and> rr_lore_repository_id r = lore_repository_id)
           (t_repositories db))))"

definition resolve_grant_subject_id_conn :: "Db \<Rightarrow> string \<Rightarrow> string \<Rightarrow> string core_result" where
  "resolve_grant_subject_id_conn db subject_type subject =
     (if subject_type = ''user'' then
        map_err (\<lambda>_. InvalidArgument [Lit ''unknown grant user '', Dbg subject])
          (resolve_user_id_conn db subject)
      else if subject_type = ''group'' then
        map_err (\<lambda>_. InvalidArgument [Lit ''unknown grant group '', Dbg subject])
          (group_id_by_name_or_id_conn db subject)
      else Inl (InvalidArgument [Lit ''unknown grant subject_type '', Dbg subject_type]))"

definition add_grant_conn ::
  "i64 \<Rightarrow> string \<Rightarrow> string \<Rightarrow> string \<Rightarrow> string \<Rightarrow> string \<Rightarrow> Db \<Rightarrow> (Grant \<times> Db) core_result" where
  "add_grant_conn now new_id subject_type subject_id repo role db =
     (if \<not> is_known_role role then
        Inl (InvalidArgument [Lit ''unknown grant role '', Dbg role])
      else
        and_then (resolve_grant_subject_id_conn db subject_type subject_id) (\<lambda>subject_id.
        and_then (repository_id_by_name_conn db repo) (\<lambda>repository_id.
        let grant = \<lparr>gr_id = new_id, gr_subject_type = subject_type, gr_subject_id = subject_id,
                     gr_repository_id = repository_id, gr_role = role\<rparr> in
        and_then (map_err core_from_sql (insert_row grants_ixs (grants_fk db)
            \<lparr>tr_id = gr_id grant, tr_subject_type = gr_subject_type grant,
             tr_subject_id = gr_subject_id grant, tr_repository_id = gr_repository_id grant,
             tr_role = gr_role grant, tr_created_at = now, tr_updated_at = now\<rparr> (t_grants db)))
          (\<lambda>rows. Inr (grant, db\<lparr>t_grants := rows\<rparr>)))))"

definition remove_grant_conn ::
  "string \<Rightarrow> string \<Rightarrow> string \<Rightarrow> string \<Rightarrow> Db \<Rightarrow> (unit \<times> Db) core_result" where
  "remove_grant_conn subject_type subject_id repo role db =
     and_then (resolve_grant_subject_id_conn db subject_type subject_id) (\<lambda>subject_id.
     and_then (repository_id_by_name_conn db repo) (\<lambda>repository_id.
     let (changed, rows) =
           delete_rows (\<lambda>r. tr_subject_type r = subject_type \<and> tr_subject_id r = subject_id \<and>
               tr_repository_id r = repository_id \<and> tr_role r = role) (t_grants db) in
     and_then (require_affected changed NotFound) (\<lambda>_. Inr ((), db\<lparr>t_grants := rows\<rparr>))))"

definition grant_from_row :: "grants_row \<Rightarrow> Grant" where
  "grant_from_row row = \<lparr>gr_id = tr_id row, gr_subject_type = tr_subject_type row,
     gr_subject_id = tr_subject_id row, gr_repository_id = tr_repository_id row, gr_role = tr_role row\<rparr>"

definition grants_order :: "grants_row \<Rightarrow> string list" where
  "grants_order r = [tr_repository_id r, tr_subject_type r, tr_subject_id r, tr_role r]"

definition list_grants_conn :: "Db \<Rightarrow> string \<Rightarrow> Grant list core_result" where
  "list_grants_conn db repo =
     (if trim repo = [] then Inr (map grant_from_row (sort_key grants_order (t_grants db)))
      else
        and_then (repository_id_by_name_conn db repo) (\<lambda>repository_id.
        Inr (map grant_from_row (sort_key grants_order
          (filter (\<lambda>r. tr_repository_id r = repository_id) (t_grants db))))))"

subsection \<open>Evidence\<close>

definition coalesce :: "string option \<Rightarrow> string \<Rightarrow> string" where
  "coalesce a b = (case a of Some x \<Rightarrow> x | None \<Rightarrow> b)"

definition user_label_conn :: "Db \<Rightarrow> string \<Rightarrow> string core_result" where
  "user_label_conn db user_id =
     ok_or NotFound (map_option (\<lambda>r. coalesce (ur_primary_email r) (ur_id r))
       (find (\<lambda>r. ur_id r = user_id \<and> ur_status r \<noteq> ''deleted'') (t_users db)))"

text \<open>The edges from a group to the groups that contain it, and the groups of a user.\<close>

definition parent_edges :: "Db \<Rightarrow> (string \<times> string) list" where
  "parent_edges db = map (\<lambda>r. (nr_member_group_id r, nr_group_id r)) (t_group_groups db)"

definition direct_groups :: "Db \<Rightarrow> string \<Rightarrow> string list" where
  "direct_groups db user_id =
     map mr_group_id (filter (\<lambda>r. mr_user_id r = user_id) (t_group_members db))"

definition reachable_group_ids_conn :: "Db \<Rightarrow> string \<Rightarrow> string list" where
  "reachable_group_ids_conn db user_id = cte (parent_edges db) (direct_groups db user_id)"

text \<open>\<open>LEFT JOIN\<close> of one row with the rows that match it.\<close>

definition left_join :: "('r \<Rightarrow> bool) \<Rightarrow> 'r list \<Rightarrow> 'r option list" where
  "left_join P rows = (case filter P rows of [] \<Rightarrow> [None] | rs \<Rightarrow> map Some rs)"

fun visit_parents ::
  "(string \<rightharpoonup> string) \<Rightarrow> string list \<Rightarrow> string \<Rightarrow> string list
     \<Rightarrow> (string \<rightharpoonup> string) \<times> string list \<Rightarrow> (string \<rightharpoonup> string) \<times> string list" where
  "visit_parents labels reach child_path [] st = st"
| "visit_parents labels reach child_path (p # ps) (paths, queue) =
     (if p \<notin> set reach \<or> paths p \<noteq> None then visit_parents labels reach child_path ps (paths, queue)
      else
        let label = (case labels p of Some l \<Rightarrow> l | None \<Rightarrow> p) in
        visit_parents labels reach child_path ps
          (paths(p \<mapsto> child_path @ '' -> '' @ label), queue @ [p]))"

lemma visit_parents_measure:
  "visit_parents labels reach cp ps (paths, queue) = (paths', queue') \<Longrightarrow>
     (paths' = paths \<and> queue' = queue) \<or>
     card (set reach - dom paths') < card (set reach - dom paths)"
proof (induction ps arbitrary: paths queue)
  case (Cons p ps)
  show ?case
  proof (cases "p \<notin> set reach \<or> paths p \<noteq> None")
    case True
    with Cons show ?thesis by simp
  next
    case False
    define paths2 where "paths2 = paths(p \<mapsto> cp @ '' -> '' @ (case labels p of Some l \<Rightarrow> l | None \<Rightarrow> p))"
    have "card (set reach - dom paths2) < card (set reach - dom paths)"
      by (rule psubset_card_mono) (use False in \<open>auto simp: paths2_def\<close>)
    moreover from Cons.prems False have "visit_parents labels reach cp ps (paths2, queue @ [p]) = (paths', queue')"
      by (simp add: Let_def paths2_def del: append.simps)
    ultimately show ?thesis using Cons.IH [of paths2 "queue @ [p]"] by auto
  qed
qed simp

function paths_loop ::
  "(string \<rightharpoonup> string) \<Rightarrow> string list \<Rightarrow> (string \<Rightarrow> string list) \<Rightarrow> string list
     \<Rightarrow> (string \<rightharpoonup> string) \<Rightarrow> (string \<rightharpoonup> string)" where
  "paths_loop labels reach parents [] paths = paths"
| "paths_loop labels reach parents (child # queue) paths =
     (case paths child of
        None \<Rightarrow> paths_loop labels reach parents queue paths
      | Some child_path \<Rightarrow>
          let st = visit_parents labels reach child_path (parents child) (paths, queue) in
          paths_loop labels reach parents (snd st) (fst st))"
  by pat_completeness auto
termination
proof (relation "measures [\<lambda>(l, reach, p, q, paths). card (set reach - dom paths), \<lambda>(l, reach, p, q, paths). length q]")
  fix labels reach and parents :: "string \<Rightarrow> string list" and child queue and paths :: "string \<rightharpoonup> string" and child_path st
  assume "st = visit_parents labels reach child_path (parents child) (paths, queue)"
  then show "((labels, reach, parents, snd st, fst st), labels, reach, parents, child # queue, paths)
    \<in> measures [\<lambda>(l, reach, p, q, paths). card (set reach - dom paths), \<lambda>(l, reach, p, q, paths). length q]"
    using visit_parents_measure [of labels reach child_path "parents child" paths queue "fst st" "snd st"]
    by auto
qed auto

definition group_paths_conn :: "Db \<Rightarrow> string \<Rightarrow> string list \<Rightarrow> (string \<rightharpoonup> string)" where
  "group_paths_conn db user_id reachable_group_ids =
     (let labels = map_of (rev (map (\<lambda>g. (pr_id g, pr_name g)) (sort_key pr_name (t_groups db))));
          direct_rows = sort_key snd
            [(mr_group_id gm, coalesce (map_option pr_name g) (mr_group_id gm)).
               gm \<leftarrow> filter (\<lambda>gm. mr_user_id gm = user_id) (t_group_members db),
               g \<leftarrow> left_join (\<lambda>g. pr_id g = mr_group_id gm) (t_groups db)];
          (paths, queue) = fold (\<lambda>(group_id, label) (paths, queue).
              if group_id \<in> set reachable_group_ids then
                (paths(group_id \<mapsto> label), if paths group_id = None then queue @ [group_id] else queue)
              else (paths, queue)) direct_rows (Map.empty, []);
          edges = sort_key (\<lambda>r. [nr_member_group_id r, nr_group_id r]) (t_group_groups db);
          parents_by_member = (\<lambda>child. map nr_group_id (filter (\<lambda>r. nr_member_group_id r = child) edges)) in
      paths_loop labels reachable_group_ids parents_by_member queue paths)"

definition direct_evidence :: "Db \<Rightarrow> string \<Rightarrow> string \<Rightarrow> string \<Rightarrow> GrantEvidence list core_result" where
  "direct_evidence db repository_id user_id user_label =
     collect_rows
       [(case u of
           None \<Rightarrow> Inl (core_from_sql (InvalidColumnType 2 ''COALESCE(u.primary_email, u.id)''))
         | Some u \<Rightarrow>
             Inr \<lparr>ge_subject_type = tr_subject_type g, ge_subject_id = tr_subject_id g,
                  ge_subject_name = coalesce (ur_primary_email u) (ur_id u), ge_role = tr_role g,
                  ge_path = ''user:'' @ user_label @ '' -> grant''\<rparr>).
          g \<leftarrow> sort_key tr_role (filter (\<lambda>g. tr_repository_id g = repository_id \<and>
                 tr_subject_type g = ''user'' \<and> tr_subject_id g = user_id) (t_grants db)),
          u \<leftarrow> left_join (\<lambda>u. ur_id u = tr_subject_id g) (t_users db)]"

definition group_evidence :: "Db \<Rightarrow> string \<Rightarrow> string \<Rightarrow> (string \<rightharpoonup> string) \<Rightarrow> string \<Rightarrow> GrantEvidence list" where
  "group_evidence db repository_id user_label group_paths group_id =
     map (\<lambda>(g, subject_name).
          let group_path = (case group_paths (tr_subject_id g) of Some p \<Rightarrow> p | None \<Rightarrow> subject_name) in
          \<lparr>ge_subject_type = tr_subject_type g, ge_subject_id = tr_subject_id g,
           ge_subject_name = subject_name, ge_role = tr_role g,
           ge_path = ''user:'' @ user_label @ '' -> '' @ group_path @ '' -> grant''\<rparr>)
       (sort_key (\<lambda>(g, subject_name). [subject_name, tr_role g])
         [(g, coalesce (map_option pr_name gr) (tr_subject_id g)).
            g \<leftarrow> filter (\<lambda>g. tr_repository_id g = repository_id \<and> tr_subject_type g = ''group'' \<and>
                   tr_subject_id g = group_id) (t_grants db),
            gr \<leftarrow> left_join (\<lambda>gr. pr_id gr = tr_subject_id g) (t_groups db)])"

definition evidence_order :: "GrantEvidence \<Rightarrow> string list" where
  "evidence_order e = [ge_path e, ge_subject_type e, ge_subject_id e, ge_role e]"

definition grant_evidence_conn :: "Db \<Rightarrow> string \<Rightarrow> string \<Rightarrow> GrantEvidence list core_result" where
  "grant_evidence_conn db user_id resource_id =
     and_then (repository_id_by_resource_conn db resource_id) (\<lambda>repository_id.
     and_then (user_label_conn db user_id) (\<lambda>user_label.
     and_then (direct_evidence db repository_id user_id user_label) (\<lambda>direct.
     let group_ids = reachable_group_ids_conn db user_id;
         from_groups =
           (if group_ids = [] then []
            else
              let group_paths = group_paths_conn db user_id group_ids in
              concat (map (group_evidence db repository_id user_label group_paths) (sort group_ids))) in
     Inr (sort_key evidence_order (direct @ from_groups)))))"

section \<open>Stored grants\<close>

definition grant_row_ok :: "Db \<Rightarrow> grants_row \<Rightarrow> bool" where
  "grant_row_ok db g \<longleftrightarrow> is_known_role (tr_role g) \<and>
     (tr_subject_type g = ''user'' \<and> user_exists db (tr_subject_id g) \<or>
      tr_subject_type g = ''group'' \<and> group_exists db (tr_subject_id g))"

definition grants_ok :: "Db \<Rightarrow> bool" where
  "grants_ok db \<longleftrightarrow> list_all (grant_row_ok db) (t_grants db)"

lemma grants_ok_mono:
  assumes "grants_ok db" "set (t_grants db') \<subseteq> set (t_grants db)"
    and "\<And>i. user_exists db i \<Longrightarrow> user_exists db' i" "\<And>i. group_exists db i \<Longrightarrow> group_exists db' i"
  shows "grants_ok db'"
  using assms by (auto simp: grants_ok_def grant_row_ok_def list_all_iff; blast)

lemma resolve_grant_subject:
  assumes "resolve_grant_subject_id_conn db ty s = Inr i"
  shows "ty = ''user'' \<and> user_exists db i \<or> ty = ''group'' \<and> group_exists db i"
  using assms resolve_user_id_conn_exists group_id_by_name_or_id_exists
  by (auto simp: resolve_grant_subject_id_conn_def res_simps split: if_splits)

lemma add_grant_cases:
  assumes "add_grant_conn now i ty s repo role db = Inr (g, db')"
  obtains sid rid where "is_known_role role" "resolve_grant_subject_id_conn db ty s = Inr sid"
    "repository_id_by_name_conn db repo = Inr rid"
    "g = \<lparr>gr_id = i, gr_subject_type = ty, gr_subject_id = sid, gr_repository_id = rid, gr_role = role\<rparr>"
    "insert_row grants_ixs (grants_fk db) \<lparr>tr_id = i, tr_subject_type = ty, tr_subject_id = sid,
       tr_repository_id = rid, tr_role = role, tr_created_at = now, tr_updated_at = now\<rparr> (t_grants db)
       = Inr (t_grants db')"
    "db' = db\<lparr>t_grants := t_grants db'\<rparr>"
  using assms by (auto simp: add_grant_conn_def Let_def res_simps split: if_splits)

lemma add_grant_schema:
  assumes "schema_ok db" "add_grant_conn now i ty s repo role db = Inr (g, db')"
  shows "schema_ok db'"
  using assms(2)
proof (cases rule: add_grant_cases)
  case 1
  from schema_ok_leaf(5) [OF assms(1) table_ok_insert [OF schema_okD(8) [OF assms(1)] 1(5)]] 1(6)
  show ?thesis by metis
qed

lemma add_grant_ok:
  assumes "grants_ok db" "add_grant_conn now i ty s repo role db = Inr (g, db')"
  shows "grants_ok db'"
  using assms(2)
proof (cases rule: add_grant_cases)
  case (1 sid rid)
  have ex: "user_exists db' = user_exists db" "group_exists db' = group_exists db"
    by (subst 1(6), simp add: user_exists_def [abs_def] group_exists_def [abs_def])+
  from 1(5) have "t_grants db' = t_grants db @ [\<lparr>tr_id = i, tr_subject_type = ty, tr_subject_id = sid,
       tr_repository_id = rid, tr_role = role, tr_created_at = now, tr_updated_at = now\<rparr>]"
    by (simp add: insert_row_Inr)
  with assms(1) 1(1) resolve_grant_subject [OF 1(2)] show ?thesis
    by (auto simp: grants_ok_def grant_row_ok_def [abs_def] ex)
qed

lemma remove_grant_schema:
  "schema_ok db \<Longrightarrow> remove_grant_conn ty s repo role db = Inr (x, db') \<Longrightarrow> schema_ok db'"
  by (auto simp: remove_grant_conn_def delete_rows_def res_simps
      intro!: schema_ok_leaf(5) table_ok_filter schema_okD)

lemma remove_grant_ok:
  "grants_ok db \<Longrightarrow> remove_grant_conn ty s repo role db = Inr (x, db') \<Longrightarrow> grants_ok db'"
  by (erule grants_ok_mono)
    (auto simp: remove_grant_conn_def delete_rows_def res_simps user_exists_def group_exists_def)

lemma resolve_grant_subject_cong:
  "t_users db = t_users db' \<Longrightarrow> t_groups db = t_groups db' \<Longrightarrow>
     resolve_grant_subject_id_conn db ty s = resolve_grant_subject_id_conn db' ty s"
  by (simp add: resolve_grant_subject_id_conn_def resolve_user_id_conn_cong [of db db']
      group_id_by_name_or_id_conn_def)

text \<open>Granting and revoking are inverse. A successful \<open>add_grant\<close> stores exactly one new
  grant, with a known role and an existing user or group as subject; adding the same grant again
  fails, and removing it succeeds and restores the database. Removing a grant that is not stored
  fails with \<open>NotFound\<close>.\<close>

lemma grant_add_remove:
  assumes "schema_ok db" "add_grant_conn now new_id ty subject repo role db = Inr (g, db')"
  shows "\<exists>row. t_grants db' = t_grants db @ [row] \<and> grant_row_ok db' row \<and>
    grant_from_row row = g \<and> gr_role g = role \<and> schema_ok db' \<and>
    (\<exists>m. add_grant_conn now2 new_id2 ty subject repo role db' = Inl (InvalidArgument m)) \<and>
    remove_grant_conn ty subject repo role db' = Inr ((), db) \<and>
    remove_grant_conn ty subject repo role db = Inl NotFound"
  using assms(2)
proof (cases rule: add_grant_cases)
  case (1 sid rid)
  let ?row = "\<lambda>i t. \<lparr>tr_id = i, tr_subject_type = ty, tr_subject_id = sid,
       tr_repository_id = rid, tr_role = role, tr_created_at = t, tr_updated_at = t\<rparr>"
  let ?P = "\<lambda>r. tr_subject_type r = ty \<and> tr_subject_id r = sid \<and> tr_repository_id r = rid \<and> tr_role r = role"
  from 1(5) have rows: "t_grants db' = t_grants db @ [?row new_id now]" and
    new: "\<not> (\<exists>r \<in> set (t_grants db). ?P r)"
    by (auto simp: insert_row_Inr grants_ixs_def key_conflict_def image_iff)
  have db': "db' = db\<lparr>t_grants := t_grants db @ [?row new_id now]\<rparr>" using 1(6) rows by metis
  have res: "resolve_grant_subject_id_conn db' ty subject = Inr sid"
    "repository_id_by_name_conn db' repo = Inr rid"
    using resolve_grant_subject_cong [of db' db] 1(2,3) by (simp_all add: db' repository_id_by_name_conn_def)
  have "\<exists>e. insert_row grants_ixs (grants_fk db') (?row new_id2 now2) (t_grants db') = Inl e \<and>
      e \<noteq> QueryReturnedNoRows"
    by (auto simp: insert_row_def grants_ixs_def key_conflict_def rows)
  then have again: "\<exists>m. add_grant_conn now2 new_id2 ty subject repo role db' = Inl (InvalidArgument m)"
    using 1(1) res by (auto simp: add_grant_conn_def Let_def core_from_sql_def split: rusqlite_error.splits)
  have none: "filter (\<lambda>r. \<not> ?P r) (t_grants db) = t_grants db" "filter ?P (t_grants db) = []"
    using new by (auto simp: filter_id_conv filter_empty_conv)
  have rm: "remove_grant_conn ty subject repo role db' = Inr ((), db)"
    using res none by (simp add: remove_grant_conn_def delete_rows_def rows require_affected_def) (simp add: db')
  have nf: "remove_grant_conn ty subject repo role db = Inl NotFound"
    using 1(2,3) none by (simp add: remove_grant_conn_def delete_rows_def require_affected_def)
  have "grant_row_ok db' (?row new_id now)"
    using 1(1) resolve_grant_subject [OF res(1)] by (simp add: grant_row_ok_def)
  with rows again rm nf add_grant_schema [OF assms] show ?thesis
    by (auto simp: grant_from_row_def 1(4))
qed

section \<open>Evidence\<close>

lemma filter_key:
  assumes "distinct (map f rows)"
  shows "filter (\<lambda>r. f r = i) rows = (case find (\<lambda>r. f r = i) rows of None \<Rightarrow> [] | Some r \<Rightarrow> [r])"
  using assms
proof (induction rows)
  case (Cons a rows)
  have "filter (\<lambda>r. f r = i) rows = []" if "f a = i"
    using Cons.prems that by (auto simp: filter_empty_conv image_iff)
  with Cons show ?case by simp
qed simp

lemma left_join_key: "distinct (map f rows) \<Longrightarrow> left_join (\<lambda>r. f r = i) rows = [find (\<lambda>r. f r = i) rows]"
  by (simp add: left_join_def filter_key split: option.split)

lemma unique_ok_total: "unique_ok (\<lambda>r. Some [f r]) rows \<longleftrightarrow> distinct (map f rows)"
proof -
  have "List.map_filter (\<lambda>r. Some [f r]) rows = map (\<lambda>x. [x]) (map f rows)"
    by (induction rows) (simp_all add: List.map_filter_simps)
  then show ?thesis by (simp add: unique_ok_def distinct_map inj_on_def)
qed

lemma group_ids_distinct: "schema_ok db \<Longrightarrow> distinct (map pr_id (t_groups db))"
  using groups_id.keyed by (simp add: unique_ok_total)

lemma user_ids_distinct: "schema_ok db \<Longrightarrow> distinct (map ur_id (t_users db))"
  using users_id.keyed by (simp add: unique_ok_total)

lemma collect_rows_Inr: "collect_rows (map (\<lambda>x. Inr (f x)) xs) = Inr (map f xs)"
  by (induction xs) auto

text \<open>The chain search: every reachable group gets a path.\<close>

lemma visit_parents_spec:
  assumes "visit_parents labels reach cp ps (paths, queue) = (paths', queue')"
  shows "dom paths \<subseteq> dom paths' \<and> dom paths' \<subseteq> dom paths \<union> set reach \<and>
    set ps \<inter> set reach \<subseteq> dom paths' \<and> dom paths' - dom paths \<subseteq> set queue' \<and> set queue \<subseteq> set queue'"
  using assms
proof (induction ps arbitrary: paths queue)
  case (Cons p ps)
  let ?st = "if p \<notin> set reach \<or> paths p \<noteq> None then (paths, queue)
    else (paths(p \<mapsto> cp @ '' -> '' @ (case labels p of Some l \<Rightarrow> l | None \<Rightarrow> p)), queue @ [p])"
  obtain q r where st: "?st = (q, r)" by (cases ?st)
  have step: "visit_parents labels reach cp ps (q, r) = (paths', queue')"
    using Cons.prems st by (auto simp: Let_def split: if_splits)
  from st have sub: "dom paths \<subseteq> dom q" "dom q \<subseteq> dom paths \<union> set reach" "p \<in> set reach \<Longrightarrow> p \<in> dom q"
    "dom q - dom paths \<subseteq> set r" "set queue \<subseteq> set r"
    by (auto split: if_splits)
  have ih: "dom q \<subseteq> dom paths'" "dom paths' \<subseteq> dom q \<union> set reach" "set ps \<inter> set reach \<subseteq> dom paths'"
    "dom paths' - dom q \<subseteq> set queue'" "set r \<subseteq> set queue'"
    using Cons.IH [OF step] by auto
  have "set (p # ps) \<inter> set reach \<subseteq> dom paths'"
  proof
    fix x assume "x \<in> set (p # ps) \<inter> set reach"
    then show "x \<in> dom paths'" using sub(3) ih(1,3) by (cases "x = p") (simp_all only: list.set, blast+)
  qed
  moreover have "dom paths \<subseteq> dom paths'" using sub(1) ih(1) by (rule subset_trans)
  moreover have "set queue \<subseteq> set queue'" using sub(5) ih(5) by (rule subset_trans)
  moreover have "dom paths' \<subseteq> dom paths \<union> set reach" using sub(2) ih(2) by blast
  moreover have "dom paths' - dom paths \<subseteq> set queue'" using sub(4) ih(4,5) by blast
  ultimately show ?case by blast
qed auto

lemma visit_parents_queue:
  "visit_parents labels reach cp ps (paths, queue) = (paths', queue') \<Longrightarrow> set queue' \<subseteq> set queue \<union> dom paths'"
proof (induction ps arbitrary: paths queue)
  case (Cons p ps)
  show ?case
  proof (cases "p \<notin> set reach \<or> paths p \<noteq> None")
    case True
    with Cons show ?thesis by simp
  next
    case False
    define paths2 where "paths2 = paths(p \<mapsto> cp @ '' -> '' @ (case labels p of Some l \<Rightarrow> l | None \<Rightarrow> p))"
    from Cons.prems False have step: "visit_parents labels reach cp ps (paths2, queue @ [p]) = (paths', queue')"
      by (simp add: Let_def paths2_def del: append.simps)
    have "p \<in> dom paths'" using visit_parents_spec [OF step] by (auto simp: paths2_def)
    with Cons.IH [OF step] show ?thesis by auto
  qed
qed simp

lemma paths_loop_spec:
  assumes "set queue \<subseteq> dom paths"
    and "\<And>g. g \<in> dom paths - set queue \<Longrightarrow> set (parents g) \<inter> set reach \<subseteq> dom paths"
  shows "dom paths \<subseteq> dom (paths_loop labels reach parents queue paths) \<and>
    (\<forall>g \<in> dom (paths_loop labels reach parents queue paths).
       set (parents g) \<inter> set reach \<subseteq> dom (paths_loop labels reach parents queue paths))"
  using assms
proof (induction labels reach parents queue paths rule: paths_loop.induct)
  case (2 labels reach parents child queue paths)
  from "2.prems"(1) obtain cp where cp: "paths child = Some cp" by auto
  obtain paths' queue' where st: "visit_parents labels reach cp (parents child) (paths, queue) = (paths', queue')"
    by (cases "visit_parents labels reach cp (parents child) (paths, queue)")
  from visit_parents_spec [OF st] have v: "dom paths \<subseteq> dom paths'"
    "set (parents child) \<inter> set reach \<subseteq> dom paths'" "dom paths' - dom paths \<subseteq> set queue'" "set queue \<subseteq> set queue'"
    by auto
  have "set queue \<subseteq> dom paths'" using "2.prems"(1) v(1) by (meson set_subset_Cons subset_trans)
  with visit_parents_queue [OF st] have new: "set queue' \<subseteq> dom paths'" by blast
  have "set (parents g) \<inter> set reach \<subseteq> dom paths'" if g: "g \<in> dom paths' - set queue'" for g
  proof (cases "g = child")
    case True
    with v(2) show ?thesis by simp
  next
    case False
    with g v(3,4) have "g \<in> dom paths - set (child # queue)" by auto
    with "2.prems"(2) v(1) show ?thesis by blast
  qed
  with "2.IH"(2) [OF cp refl] new st have "dom paths' \<subseteq> dom (paths_loop labels reach parents queue' paths') \<and>
    (\<forall>g \<in> dom (paths_loop labels reach parents queue' paths').
       set (parents g) \<inter> set reach \<subseteq> dom (paths_loop labels reach parents queue' paths'))"
    by simp
  moreover have "paths_loop labels reach parents (child # queue) paths = paths_loop labels reach parents queue' paths'"
    using cp st by (simp add: Let_def)
  ultimately show ?case using v(1) by (metis subset_trans)
qed simp

lemma group_paths_cover:
  assumes "set reach = (set (parent_edges db))\<^sup>* `` set (direct_groups db uid)"
  shows "set reach \<subseteq> dom (group_paths_conn db uid reach)"
proof -
  let ?step = "\<lambda>(group_id, label) (paths :: string \<rightharpoonup> string, queue).
      if group_id \<in> set reach then (paths(group_id \<mapsto> label), if paths group_id = None then queue @ [group_id] else queue)
      else (paths, queue)"
  define rows where "rows = sort_key snd
      [(mr_group_id gm, coalesce (map_option pr_name g) (mr_group_id gm)).
         gm \<leftarrow> filter (\<lambda>gm. mr_user_id gm = uid) (t_group_members db),
         g \<leftarrow> left_join (\<lambda>g. pr_id g = mr_group_id gm) (t_groups db)]"
  define parents where "parents = (\<lambda>child. map nr_group_id (filter (\<lambda>r. nr_member_group_id r = child)
      (sort_key (\<lambda>r. [nr_member_group_id r, nr_group_id r]) (t_group_groups db))))"
  obtain paths queue where st: "fold ?step rows (Map.empty, []) = (paths, queue)"
    by (cases "fold ?step rows (Map.empty, [])")
  have inv: "set q = dom p \<Longrightarrow> fold ?step rs (p, q) = (p', q') \<Longrightarrow>
      set q' = dom p' \<and> dom p' = dom p \<union> (fst ` set rs \<inter> set reach)" for rs p q p' q'
  proof (induction rs arbitrary: p q)
    case (Cons r rs)
    obtain g l where r: "r = (g, l)" by (cases r)
    obtain p2 q2 where s2: "?step r (p, q) = (p2, q2)" by (cases "?step r (p, q)")
    with Cons.prems(1) have "set q2 = dom p2" "dom p2 = dom p \<union> ({g} \<inter> set reach)"
      by (auto simp: r split: if_splits)
    moreover have "fold ?step rs (p2, q2) = (p', q')" using Cons.prems(2) s2 by simp
    ultimately show ?case using Cons.IH [of q2 p2] by (auto simp: r)
  qed simp
  have "fst ` set rows = set (direct_groups db uid)"
  proof -
    have "left_join P gs \<noteq> []" for P and gs :: "groups_row list"
      by (simp add: left_join_def split: list.split)
    then show ?thesis
      by (auto simp: rows_def direct_groups_def image_UN image_image image_constant_conv)
  qed
  moreover have "set (direct_groups db uid) \<subseteq> set reach" using assms by auto
  ultimately have start: "set queue = dom paths" "set (direct_groups db uid) \<subseteq> dom paths"
    using inv [OF _ st] by auto
  let ?res = "group_paths_conn db uid reach"
  have res: "?res = paths_loop (map_of (rev (map (\<lambda>g. (pr_id g, pr_name g)) (sort_key pr_name (t_groups db)))))
      reach parents queue paths"
    using st by (simp add: group_paths_conn_def Let_def rows_def parents_def)
  have closed: "dom paths \<subseteq> dom ?res" "\<And>g. g \<in> dom ?res \<Longrightarrow> set (parents g) \<inter> set reach \<subseteq> dom ?res"
    using paths_loop_spec [of queue paths parents reach] start(1) unfolding res by auto
  have edge: "(a, b) \<in> set (parent_edges db) \<Longrightarrow> b \<in> set (parents a)" for a b
    by (auto simp: parent_edges_def parents_def)
  show ?thesis
  proof
    fix g assume "g \<in> set reach"
    then obtain d where "(d, g) \<in> (set (parent_edges db))\<^sup>*" "d \<in> set (direct_groups db uid)"
      using assms by auto
    then show "g \<in> dom ?res"
    proof (induction rule: rtrancl_induct)
      case base
      then show ?case using start(2) closed(1) by auto
    next
      case (step y z)
      have "z \<in> set reach" using assms step(1,2,4) by (auto intro: rtrancl_into_rtrancl)
      with closed(2) [OF step(3) [OF step(4)]] edge [OF step(2)] show ?case by blast
    qed
  qed
qed

text \<open>The specification of access: the groups of a user are the groups it is a member of and,
  transitively, the groups that contain those; a grant reaches a user when it names the user or
  one of the user's groups.\<close>

definition groups_of :: "Db \<Rightarrow> string \<Rightarrow> string set" where
  "groups_of db user_id = (set (parent_edges db))\<^sup>* `` {g. (g, user_id) \<in> memberships db}"

definition grant_reaches :: "Db \<Rightarrow> string \<Rightarrow> grants_row \<Rightarrow> bool" where
  "grant_reaches db user_id g \<longleftrightarrow>
     tr_subject_type g = ''user'' \<and> tr_subject_id g = user_id \<or>
     tr_subject_type g = ''group'' \<and> tr_subject_id g \<in> groups_of db user_id"

lemma direct_groups_set: "set (direct_groups db u) = {g. (g, u) \<in> memberships db}"
  by (auto simp: direct_groups_def memberships_def)

lemma reachable_group_ids_set: "set (reachable_group_ids_conn db u) = groups_of db u"
  by (simp add: reachable_group_ids_conn_def groups_of_def cte.search_set direct_groups_set)

lemma mset_concat_by_key:
  assumes "distinct ids"
  shows "mset (concat (map (\<lambda>i. filter (\<lambda>x. P x \<and> k x = i) xs) ids)) =
    mset (filter (\<lambda>x. P x \<and> k x \<in> set ids) xs)"
  using assms
proof (induction ids)
  case (Cons i ids)
  have "filter_mset (\<lambda>x. P x \<and> k x \<in> set (i # ids)) (mset xs) =
      filter_mset (\<lambda>x. P x \<and> k x = i) (mset xs) + filter_mset (\<lambda>x. P x \<and> k x \<in> set ids) (mset xs)"
    using Cons.prems by (induction xs) auto
  with Cons show ?case by simp
qed simp

definition grant_key :: "grants_row \<Rightarrow> string \<times> string \<times> string" where
  "grant_key g = (tr_subject_type g, tr_subject_id g, tr_role g)"

definition evidence_key :: "GrantEvidence \<Rightarrow> string \<times> string \<times> string" where
  "evidence_key e = (ge_subject_type e, ge_subject_id e, ge_role e)"

lemma concat_map_single:
  "(\<And>x. x \<in> set xs \<Longrightarrow> f x = [g x]) \<Longrightarrow> concat (map f xs) = map g xs"
  by (induction xs) auto

lemma user_label_exists:
  "user_label_conn db u = Inr l \<Longrightarrow> \<exists>r \<in> set (t_users db). ur_id r = u"
  by (auto simp: user_label_conn_def res_simps dest: find_SomeD)

lemma direct_evidence_ok:
  assumes "schema_ok db" "user_label_conn db u = Inr label"
  shows "\<exists>evs. direct_evidence db rep u label = Inr evs \<and>
    mset (map evidence_key evs) = mset (map grant_key (filter (\<lambda>g. tr_repository_id g = rep \<and>
      tr_subject_type g = ''user'' \<and> tr_subject_id g = u) (t_grants db)))"
proof -
  from user_label_exists [OF assms(2)] obtain r where r: "r \<in> set (t_users db)" "ur_id r = u" by blast
  have find: "left_join (\<lambda>x. ur_id x = u) (t_users db) = [Some r]"
    by (subst left_join_key [OF user_ids_distinct [OF assms(1)]], simp)
      (use r assms(1) in \<open>auto simp: users_id.find_iff\<close>)
  let ?gs = "filter (\<lambda>g. tr_repository_id g = rep \<and> tr_subject_type g = ''user'' \<and> tr_subject_id g = u) (t_grants db)"
  let ?ev = "\<lambda>g. \<lparr>ge_subject_type = tr_subject_type g, ge_subject_id = tr_subject_id g,
      ge_subject_name = coalesce (ur_primary_email r) (ur_id r), ge_role = tr_role g,
      ge_path = ''user:'' @ label @ '' -> grant''\<rparr>"
  have "direct_evidence db rep u label = collect_rows (map (\<lambda>g. Inr (?ev g)) (sort_key tr_role ?gs))"
    unfolding direct_evidence_def
    by (rule arg_cong [of _ _ collect_rows], rule concat_map_single) (auto simp: find)
  then have "direct_evidence db rep u label = Inr (map ?ev (sort_key tr_role ?gs))"
    by (simp only: collect_rows_Inr)
  moreover have "mset (map evidence_key (map ?ev (sort_key tr_role ?gs))) = mset (map grant_key ?gs)"
    by (simp add: o_def evidence_key_def grant_key_def [abs_def])
  ultimately show ?thesis by blast
qed

lemma group_evidence_keys:
  assumes "schema_ok db"
  shows "mset (map evidence_key (group_evidence db rep label paths i)) =
    mset (map grant_key (filter (\<lambda>g. (tr_repository_id g = rep \<and> tr_subject_type g = ''group'') \<and>
      tr_subject_id g = i) (t_grants db)))"
proof -
  let ?gs = "filter (\<lambda>g. tr_repository_id g = rep \<and> tr_subject_type g = ''group'' \<and> tr_subject_id g = i) (t_grants db)"
  let ?name = "\<lambda>g. coalesce (map_option pr_name (find (\<lambda>x. pr_id x = tr_subject_id g) (t_groups db))) (tr_subject_id g)"
  have rows: "[(g, coalesce (map_option pr_name gr) (tr_subject_id g)).
      g \<leftarrow> ?gs, gr \<leftarrow> left_join (\<lambda>gr. pr_id gr = tr_subject_id g) (t_groups db)] = map (\<lambda>g. (g, ?name g)) ?gs"
    by (rule concat_map_single) (simp add: left_join_key [OF group_ids_distinct [OF assms]])
  have "map evidence_key (group_evidence db rep label paths i) =
      map (\<lambda>(g, n). grant_key g) (sort_key (\<lambda>(g, n). [n, tr_role g]) (map (\<lambda>g. (g, ?name g)) ?gs))"
    unfolding group_evidence_def rows by (simp add: o_def case_prod_unfold Let_def evidence_key_def grant_key_def)
  then have "mset (map evidence_key (group_evidence db rep label paths i)) = mset (map grant_key ?gs)"
    by (simp add: o_def case_prod_unfold image_mset.compositionality)
  then show ?thesis by (simp add: conj_assoc)
qed

lemma group_evidence_path:
  assumes "schema_ok db" "e \<in> set (group_evidence db rep label paths i)"
  shows "ge_subject_id e = i \<and> ge_subject_type e = ''group'' \<and>
    (\<forall>p. paths i = Some p \<longrightarrow> ge_path e = ''user:'' @ label @ '' -> '' @ p @ '' -> grant'')"
  using assms(2) by (auto simp: group_evidence_def Let_def)

lemma mset_map_concat: "mset (map k (concat (map f is))) = (\<Sum>i \<leftarrow> is. mset (map k (f i)))"
  by (induction "is") simp_all

text \<open>C25: The evidence query explains access exactly. For an active repository and a stored user
  it succeeds and lists one line for each grant on the repository that reaches the user, directly
  or through nested groups, and nothing else; the line of a group grant shows the chain of groups
  that the search found from the user to that group.\<close>

theorem grant_evidence_exact:
  assumes "schema_ok db" "repository_id_by_resource_conn db resource_id = Inr rep"
    and "user_label_conn db user_id = Inr label"
  shows "\<exists>evs. grant_evidence_conn db user_id resource_id = Inr evs \<and>
    mset (map evidence_key evs) =
      mset (map grant_key (filter (\<lambda>g. tr_repository_id g = rep \<and> grant_reaches db user_id g) (t_grants db))) \<and>
    (\<forall>e \<in> set evs. ge_subject_type e = ''group'' \<longrightarrow>
       (\<exists>p. group_paths_conn db user_id (reachable_group_ids_conn db user_id) (ge_subject_id e) = Some p \<and>
            ge_path e = ''user:'' @ label @ '' -> '' @ p @ '' -> grant''))"
proof -
  define ids where "ids = reachable_group_ids_conn db user_id"
  define paths where "paths = group_paths_conn db user_id ids"
  from direct_evidence_ok [OF assms(1,3)] obtain direct where
    d: "direct_evidence db rep user_id label = Inr direct"
      "mset (map evidence_key direct) = mset (map grant_key (filter (\<lambda>g. tr_repository_id g = rep \<and>
        tr_subject_type g = ''user'' \<and> tr_subject_id g = user_id) (t_grants db)))" by blast
  define fg where "fg = concat (map (group_evidence db rep label paths) (sort ids))"
  have res: "grant_evidence_conn db user_id resource_id = Inr (sort_key evidence_order (direct @ fg))"
    using assms(2,3) d(1) by (auto simp: grant_evidence_conn_def Let_def fg_def ids_def paths_def)
  let ?G = "\<lambda>g. tr_repository_id g = rep \<and> tr_subject_type g = ''group''"
  have "mset (map evidence_key fg) =
      (\<Sum>i \<leftarrow> sort ids. mset (map evidence_key (group_evidence db rep label paths i)))"
    unfolding fg_def by (rule mset_map_concat)
  also have "\<dots> = (\<Sum>i \<leftarrow> sort ids. mset (map grant_key (filter (\<lambda>g. ?G g \<and> tr_subject_id g = i) (t_grants db))))"
    by (simp only: group_evidence_keys [OF assms(1)])
  also have "\<dots> = mset (map grant_key (concat (map (\<lambda>i. filter (\<lambda>g. ?G g \<and> tr_subject_id g = i) (t_grants db)) (sort ids))))"
    by (rule mset_map_concat [symmetric])
  also have "\<dots> = image_mset grant_key (mset (filter (\<lambda>g. ?G g \<and> tr_subject_id g \<in> set ids) (t_grants db)))"
    unfolding mset_map
    by (subst mset_concat_by_key) (simp_all add: ids_def reachable_group_ids_conn_def cte_distinct)
  finally have f: "mset (map evidence_key fg) =
      mset (map grant_key (filter (\<lambda>g. ?G g \<and> tr_subject_id g \<in> groups_of db user_id) (t_grants db)))"
    by (simp add: ids_def reachable_group_ids_set)
  have split: "filter_mset (\<lambda>g. tr_repository_id g = rep \<and> grant_reaches db user_id g) M =
      filter_mset (\<lambda>g. tr_repository_id g = rep \<and> tr_subject_type g = ''user'' \<and> tr_subject_id g = user_id) M +
      filter_mset (\<lambda>g. ?G g \<and> tr_subject_id g \<in> groups_of db user_id) M" for M
    by (induction M) (auto simp: grant_reaches_def)
  have "mset (map evidence_key (sort_key evidence_order (direct @ fg))) =
      mset (map grant_key (filter (\<lambda>g. tr_repository_id g = rep \<and> grant_reaches db user_id g) (t_grants db)))"
    using d(2) f by (simp add: split)
  moreover have "\<exists>p. paths (ge_subject_id e) = Some p \<and> ge_path e = ''user:'' @ label @ '' -> '' @ p @ '' -> grant''"
    if "e \<in> set (sort_key evidence_order (direct @ fg))" "ge_subject_type e = ''group''" for e
  proof -
    have "evidence_key x \<in> set_mset (mset (map evidence_key direct))" if "x \<in> set direct" for x
      using that by simp
    then have "ge_subject_type x = ''user''" if "x \<in> set direct" for x
      using that unfolding d(2) by (force simp: evidence_key_def grant_key_def)
    with that obtain i where i: "i \<in> set ids" "e \<in> set (group_evidence db rep label paths i)"
      by (auto simp: fg_def)
    have "set ids \<subseteq> dom paths"
      unfolding paths_def by (rule group_paths_cover)
        (simp add: ids_def reachable_group_ids_set groups_of_def direct_groups_set)
    with i group_evidence_path [OF assms(1) i(2)] show ?thesis by auto
  qed
  ultimately show ?thesis using res by (auto simp: paths_def ids_def)
qed

section \<open>A concrete access database\<close>

text \<open>The repository \<open>game\<close>, a writer grant for the group \<open>staff\<close>, which contains
  \<open>dev\<close>, whose member is \<open>u1\<close>.\<close>

definition demo_grant :: "string \<Rightarrow> string \<Rightarrow> string \<Rightarrow> string \<Rightarrow> grants_row" where
  "demo_grant i ty sid role = \<lparr>tr_id = i, tr_subject_type = ty, tr_subject_id = sid,
     tr_repository_id = ''r1'', tr_role = role, tr_created_at = 5, tr_updated_at = 5\<rparr>"

definition demo_access :: Db where
  "demo_access = demo_groups\<lparr>t_repositories := [demo_repo],
     t_grants := [demo_grant ''t1'' ''group'' ''g2'' ''writer'']\<rparr>"

lemma demo_access_facts:
  "schema_ok demo_access" "grants_ok demo_access"
  "repository_id_by_resource_conn demo_access ''urc-game'' = Inr ''r1''"
  "user_label_conn demo_access ''u1'' = Inr ''bob@x.org''"
  "is_ok (add_grant_conn 9 ''t2'' ''user'' ''eve@x.org'' ''game'' ''reader'' demo_access)"
  by code_simp+

lemma grant_add_remove_witness:
  "\<exists>g db'. add_grant_conn 9 ''t2'' ''user'' ''eve@x.org'' ''game'' ''reader'' demo_access = Inr (g, db') \<and>
     remove_grant_conn ''user'' ''eve@x.org'' ''game'' ''reader'' db' = Inr ((), demo_access)"
proof -
  from is_ok_obtain [OF demo_access_facts(5)] obtain g db' where
    h: "add_grant_conn 9 ''t2'' ''user'' ''eve@x.org'' ''game'' ''reader'' demo_access = Inr (g, db')" by force
  from grant_add_remove [OF demo_access_facts(1) h] h show ?thesis by blast
qed

lemma demo_reaches:
  "filter (\<lambda>g. tr_repository_id g = ''r1'' \<and> grant_reaches demo_access ''u1'' g) (t_grants demo_access) =
     [demo_grant ''t1'' ''group'' ''g2'' ''writer'']"
proof -
  have "set (reachable_group_ids_conn demo_access ''u1'') = {''g1'', ''g2''}" by code_simp
  then have "groups_of demo_access ''u1'' = {''g1'', ''g2''}" by (simp only: reachable_group_ids_set)
  then show ?thesis by (simp add: demo_access_def demo_grant_def grant_reaches_def)
qed

theorem grant_evidence_exact_witness:
  "\<exists>e. grant_evidence_conn demo_access ''u1'' ''urc-game'' = Inr [e] \<and>
     evidence_key e = (''group'', ''g2'', ''writer'')"
proof -
  from grant_evidence_exact [OF demo_access_facts(1,3,4)] obtain evs where
    "grant_evidence_conn demo_access ''u1'' ''urc-game'' = Inr evs"
    "mset (map evidence_key evs) = mset (map grant_key [demo_grant ''t1'' ''group'' ''g2'' ''writer''])"
    unfolding demo_reaches by blast
  moreover from this(2) have "mset (map evidence_key evs) = {#(''group'', ''g2'', ''writer'')#}"
    by (simp add: grant_key_def demo_grant_def)
  then obtain e where "evs = [e]" "evidence_key e = (''group'', ''g2'', ''writer'')"
    by (cases evs) (auto simp: single_is_union)
  ultimately show ?thesis by blast
qed

end
