(* ===== verification/Sqlite_State.thy ===== *)
theory Sqlite_State
  imports Sqlite_Accounts
begin

text \<open>
  Short-lived login state (\<open>sqlite/state.rs\<close>): interactive auth sessions, OIDC login
  transactions, browser sessions and CSRF tokens. Secrets are stored as hashes, each record has
  an expiry, and completing, consuming or revoking is one conditional \<open>UPDATE\<close>. Theorems:
  the life of an auth session is pending, completed, consumed and nothing else; a login state and a
  CSRF token can be used once and only before they expire; a browser session identifies its user
  until it is revoked, expires, or the user is disabled.

  The SHA-256 digest in hex is the argument \<open>sha\<close>; codes, identifiers and clock
  readings are arguments in the order in which the operation draws them.
\<close>

section \<open>Operations\<close>

subsection \<open>Auth sessions\<close>

definition auth_session_from_row :: "auth_sessions_row \<Rightarrow> AuthSession" where
  "auth_session_from_row row =
     \<lparr>as_id = sr_id row, as_client_state_hash = sr_client_state_hash row, as_status = sr_status row,
      as_user_id = unwrap_or_default (sr_user_id row), as_login_url_nonce = sr_login_url_nonce row,
      as_expires_at = sr_expires_at row\<rparr>"

definition create_auth_session ::
  "(string \<Rightarrow> string) \<Rightarrow> string \<Rightarrow> i64 \<Rightarrow> string \<Rightarrow> string \<Rightarrow> string \<Rightarrow> duration \<Rightarrow> Db
     \<Rightarrow> ((string \<times> AuthSession) \<times> Db) core_result" where
  "create_auth_session sha code now new_id nonce client_state ttl db =
     (let session = \<lparr>as_id = new_id, as_client_state_hash = hash_secret sha client_state,
            as_status = ''pending'', as_user_id = [], as_login_url_nonce = nonce,
            as_expires_at = i64_add now (ttl_seconds ttl)\<rparr> in
      and_then (map_err core_from_sql (insert_row auth_sessions_ixs (auth_sessions_fk db)
          \<lparr>sr_id = as_id session, sr_session_code_hash = hash_secret sha code,
           sr_client_state_hash = as_client_state_hash session, sr_status = as_status session,
           sr_user_id = None, sr_login_url_nonce = as_login_url_nonce session, sr_created_at = now,
           sr_expires_at = as_expires_at session, sr_completed_at = None, sr_consumed_at = None\<rparr>
          (t_auth_sessions db)))
        (\<lambda>rows. Inr ((code, session), db\<lparr>t_auth_sessions := rows\<rparr>)))"

definition auth_session_by_clause ::
  "i64 \<Rightarrow> Db \<Rightarrow> (auth_sessions_row \<Rightarrow> bool) \<Rightarrow> AuthSession core_result" where
  "auth_session_by_clause now db clause =
     and_then (ok_or AuthSessionNotFound (map_option auth_session_from_row (find clause (t_auth_sessions db))))
       (\<lambda>session. if as_expires_at session \<le> now then Inl AuthSessionNotFound else Inr session)"

definition get_auth_session_by_code :: "(string \<Rightarrow> string) \<Rightarrow> i64 \<Rightarrow> Db \<Rightarrow> string \<Rightarrow> AuthSession core_result" where
  "get_auth_session_by_code sha now db code =
     auth_session_by_clause now db (\<lambda>r. sr_session_code_hash r = hash_secret sha code)"

definition get_auth_session_by_nonce :: "i64 \<Rightarrow> Db \<Rightarrow> string \<Rightarrow> AuthSession core_result" where
  "get_auth_session_by_nonce now db nonce = auth_session_by_clause now db (\<lambda>r. sr_login_url_nonce r = nonce)"

definition complete_auth_session :: "i64 \<Rightarrow> string \<Rightarrow> string \<Rightarrow> Db \<Rightarrow> (unit \<times> Db) core_result" where
  "complete_auth_session now i user_id db =
     and_then (map_err core_from_sql (update_rows [] (auth_sessions_fk db)
         (\<lambda>r. sr_id r = i \<and> sr_status r = ''pending'' \<and> sr_expires_at r > now)
         (\<lambda>r. r\<lparr>sr_status := ''completed'', sr_user_id := Some user_id, sr_completed_at := Some now\<rparr>)
         (t_auth_sessions db)))
       (\<lambda>(changed, rows).
     and_then (require_affected changed AuthSessionNotFound) (\<lambda>_. Inr ((), db\<lparr>t_auth_sessions := rows\<rparr>)))"

definition consume_auth_session :: "i64 \<Rightarrow> string \<Rightarrow> Db \<Rightarrow> (unit \<times> Db) core_result" where
  "consume_auth_session now i db =
     and_then (map_err core_from_sql (update_rows [] no_fk
         (\<lambda>r. sr_id r = i \<and> sr_status r = ''completed'' \<and> sr_expires_at r > now)
         (\<lambda>r. r\<lparr>sr_status := ''consumed'', sr_consumed_at := Some now\<rparr>) (t_auth_sessions db)))
       (\<lambda>(changed, rows).
     and_then (require_affected changed AuthSessionNotFound) (\<lambda>_. Inr ((), db\<lparr>t_auth_sessions := rows\<rparr>)))"

definition match_client_state :: "(string \<Rightarrow> string) \<Rightarrow> AuthSession \<Rightarrow> string \<Rightarrow> bool" where
  "match_client_state sha session client_state \<longleftrightarrow>
     as_client_state_hash session = hash_secret sha client_state"

subsection \<open>Login states\<close>

definition create_login_state ::
  "(string \<Rightarrow> string) \<Rightarrow> string \<Rightarrow> i64 \<Rightarrow> string \<Rightarrow> LoginStateInput \<Rightarrow> duration \<Rightarrow> Db
     \<Rightarrow> ((string \<times> LoginState) \<times> Db) core_result" where
  "create_login_state sha state now new_id input ttl db =
     (let login_state = \<lparr>ls_id = new_id, ls_provider_id = li_provider_id input, ls_nonce = li_nonce input,
            ls_login_url_nonce = li_login_url_nonce input, ls_return_path = li_return_path input,
            ls_private_state = li_private_state input, ls_expires_at = i64_add now (ttl_seconds ttl)\<rparr> in
      and_then (map_err core_from_sql (insert_row login_transactions_ixs no_fk
          \<lparr>lt_id = ls_id login_state, lt_state_hash = hash_secret sha state,
           lt_provider_id = ls_provider_id login_state, lt_nonce = none_if_empty (ls_nonce login_state),
           lt_login_url_nonce = none_if_empty (ls_login_url_nonce login_state),
           lt_return_path = none_if_empty (ls_return_path login_state),
           lt_private_state = Some (ls_private_state login_state), lt_created_at = now,
           lt_expires_at = ls_expires_at login_state, lt_consumed_at = None\<rparr>
          (t_login_transactions db)))
        (\<lambda>rows. Inr ((state, login_state), db\<lparr>t_login_transactions := rows\<rparr>)))"

definition set_login_state_private_state ::
  "(string \<Rightarrow> string) \<Rightarrow> i64 \<Rightarrow> string \<Rightarrow> string \<Rightarrow> Db \<Rightarrow> (unit \<times> Db) core_result" where
  "set_login_state_private_state sha now state private_state db =
     and_then (map_err core_from_sql (update_rows [] no_fk
         (\<lambda>r. lt_state_hash r = hash_secret sha state \<and> lt_consumed_at r = None \<and> lt_expires_at r > now)
         (\<lambda>r. r\<lparr>lt_private_state := Some private_state\<rparr>) (t_login_transactions db)))
       (\<lambda>(changed, rows).
     and_then (require_affected changed NotFound) (\<lambda>_. Inr ((), db\<lparr>t_login_transactions := rows\<rparr>)))"

record StoredLoginState =
  sls_state :: LoginState
  sls_consumed_at :: i64

definition login_state_from_row :: "login_transactions_row \<Rightarrow> StoredLoginState" where
  "login_state_from_row row =
     \<lparr>sls_state = \<lparr>ls_id = lt_id row, ls_provider_id = lt_provider_id row,
        ls_nonce = unwrap_or_default (lt_nonce row),
        ls_login_url_nonce = unwrap_or_default (lt_login_url_nonce row),
        ls_return_path = unwrap_or_default (lt_return_path row),
        ls_private_state = unwrap_or_default (lt_private_state row), ls_expires_at = lt_expires_at row\<rparr>,
      sls_consumed_at = unwrap_or_zero (lt_consumed_at row)\<rparr>"

definition consume_login_state ::
  "(string \<Rightarrow> string) \<Rightarrow> i64 \<Rightarrow> i64 \<Rightarrow> i64 \<Rightarrow> string \<Rightarrow> Db \<Rightarrow> (LoginState \<times> Db) core_result" where
  "consume_login_state sha now1 now2 now3 state db =
     and_then (ok_or NotFound (map_option login_state_from_row
         (find (\<lambda>r. lt_state_hash r = hash_secret sha state) (t_login_transactions db))))
       (\<lambda>login_state.
     if sls_consumed_at login_state \<noteq> 0 \<or> ls_expires_at (sls_state login_state) \<le> now1 then Inl NotFound
     else
       and_then (map_err core_from_sql (update_rows [] no_fk
           (\<lambda>r. lt_id r = ls_id (sls_state login_state) \<and> lt_consumed_at r = None \<and> lt_expires_at r > now3)
           (\<lambda>r. r\<lparr>lt_consumed_at := Some now2\<rparr>) (t_login_transactions db)))
         (\<lambda>(changed, rows).
       and_then (require_affected changed NotFound)
         (\<lambda>_. Inr (sls_state login_state, db\<lparr>t_login_transactions := rows\<rparr>))))"

subsection \<open>Browser sessions and CSRF tokens\<close>

definition create_browser_session ::
  "i64 \<Rightarrow> string \<Rightarrow> string \<Rightarrow> duration \<Rightarrow> Db \<Rightarrow> (BrowserSession \<times> Db) core_result" where
  "create_browser_session now secret user_id ttl db =
     (let session = \<lparr>bs_id = secret, bs_user_id = user_id, bs_expires_at = i64_add now (ttl_seconds ttl)\<rparr> in
      and_then (map_err core_from_sql (insert_row sessions_ixs (sessions_fk db)
          \<lparr>br_id = bs_id session, br_user_id = bs_user_id session, br_created_at = now,
           br_expires_at = bs_expires_at session, br_revoked_at = None\<rparr> (t_sessions db)))
        (\<lambda>rows. Inr (session, db\<lparr>t_sessions := rows\<rparr>)))"

definition user_by_browser_session :: "i64 \<Rightarrow> Db \<Rightarrow> string \<Rightarrow> User core_result" where
  "user_by_browser_session now db session_id =
     ok_or NotFound (map_option user_from_row (first_row
       [u. s \<leftarrow> t_sessions db, u \<leftarrow> t_users db,
           ur_id u = br_user_id s \<and> br_id s = session_id \<and> br_revoked_at s = None \<and>
           br_expires_at s > now \<and> ur_status u = ''active'']))"

definition revoke_browser_session :: "i64 \<Rightarrow> string \<Rightarrow> Db \<Rightarrow> (unit \<times> Db) core_result" where
  "revoke_browser_session now session_id db =
     and_then (map_err core_from_sql (update_rows [] no_fk
         (\<lambda>r. br_id r = session_id \<and> br_revoked_at r = None)
         (\<lambda>r. r\<lparr>br_revoked_at := Some now\<rparr>) (t_sessions db)))
       (\<lambda>(changed, rows).
     and_then (require_affected changed NotFound) (\<lambda>_. Inr ((), db\<lparr>t_sessions := rows\<rparr>)))"

definition create_csrf_token ::
  "(string \<Rightarrow> string) \<Rightarrow> string \<Rightarrow> i64 \<Rightarrow> string \<Rightarrow> duration \<Rightarrow> Db \<Rightarrow> (string \<times> Db) core_result" where
  "create_csrf_token sha token now session_id ttl db =
     and_then (map_err core_from_sql (insert_row csrf_tokens_ixs (csrf_tokens_fk db)
         \<lparr>cr_token_hash = hash_secret sha token, cr_session_id = session_id, cr_created_at = now,
          cr_expires_at = i64_add now (ttl_seconds ttl), cr_consumed_at = None\<rparr> (t_csrf_tokens db)))
       (\<lambda>rows. Inr (token, db\<lparr>t_csrf_tokens := rows\<rparr>))"

definition consume_csrf_token ::
  "(string \<Rightarrow> string) \<Rightarrow> i64 \<Rightarrow> i64 \<Rightarrow> string \<Rightarrow> string \<Rightarrow> Db \<Rightarrow> (unit \<times> Db) core_result" where
  "consume_csrf_token sha now1 now2 session_id token db =
     and_then (map_err core_from_sql (update_rows [] no_fk
         (\<lambda>r. cr_token_hash r = hash_secret sha token \<and> cr_session_id r = session_id \<and>
              cr_consumed_at r = None \<and> cr_expires_at r > now2)
         (\<lambda>r. r\<lparr>cr_consumed_at := Some now1\<rparr>) (t_csrf_tokens db)))
       (\<lambda>(changed, rows).
     and_then (require_affected changed NotFound) (\<lambda>_. Inr ((), db\<lparr>t_csrf_tokens := rows\<rparr>)))"

section \<open>The schema invariant is kept\<close>

lemma create_auth_session_schema:
  "schema_ok db \<Longrightarrow> create_auth_session sha c now i n cs ttl db = Inr (x, db') \<Longrightarrow> schema_ok db'"
  by (auto simp: create_auth_session_def Let_def res_simps
      intro!: schema_ok_leaf(6) intro: table_ok_insert [OF schema_okD(9)])

lemma complete_auth_session_schema:
  "schema_ok db \<Longrightarrow> complete_auth_session now i u db = Inr (x, db') \<Longrightarrow> schema_ok db'"
  by (auto simp: complete_auth_session_def res_simps auth_sessions_ixs_def
      intro!: schema_ok_leaf(6) elim!: table_ok_update [OF schema_okD(9), rotated])

lemma consume_auth_session_schema:
  "schema_ok db \<Longrightarrow> consume_auth_session now i db = Inr (x, db') \<Longrightarrow> schema_ok db'"
  by (auto simp: consume_auth_session_def res_simps auth_sessions_ixs_def auth_sessions_fk_def
      intro!: schema_ok_leaf(6) elim!: table_ok_update [OF schema_okD(9), rotated])

lemma create_login_state_schema:
  "schema_ok db \<Longrightarrow> create_login_state sha s now i inp ttl db = Inr (x, db') \<Longrightarrow> schema_ok db'"
  by (auto simp: create_login_state_def Let_def res_simps
      intro!: schema_ok_leaf(7) intro: table_ok_insert [OF schema_okD(10)])

lemma set_login_state_private_state_schema:
  "schema_ok db \<Longrightarrow> set_login_state_private_state sha now s p db = Inr (x, db') \<Longrightarrow> schema_ok db'"
  by (auto simp: set_login_state_private_state_def res_simps login_transactions_ixs_def
      intro!: schema_ok_leaf(7) elim!: table_ok_update [OF schema_okD(10), rotated])

lemma consume_login_state_schema:
  "schema_ok db \<Longrightarrow> consume_login_state sha n1 n2 n3 s db = Inr (x, db') \<Longrightarrow> schema_ok db'"
  by (auto simp: consume_login_state_def res_simps login_transactions_ixs_def split: if_splits
      intro!: schema_ok_leaf(7) elim!: table_ok_update [OF schema_okD(10), rotated])

lemma create_browser_session_schema:
  "schema_ok db \<Longrightarrow> create_browser_session now s u ttl db = Inr (x, db') \<Longrightarrow> schema_ok db'"
  by (auto simp: create_browser_session_def Let_def res_simps insert_row_Inr
      intro!: schema_ok_sessions intro: table_ok_insert [OF schema_okD(11)])

lemma revoke_browser_session_schema:
  assumes ok: "schema_ok db" and res: "revoke_browser_session now s db = Inr (x, db')"
  shows "schema_ok db'"
proof -
  from res obtain n rows where
    up: "update_rows [] no_fk (\<lambda>r. br_id r = s \<and> br_revoked_at r = None)
           (\<lambda>r. r\<lparr>br_revoked_at := Some now\<rparr>) (t_sessions db) = Inr (n, rows)"
    and db': "db' = db\<lparr>t_sessions := rows\<rparr>"
    by (auto simp: revoke_browser_session_def res_simps)
  have "table_ok sessions_ixs (sessions_fk db) rows"
    by (rule table_ok_update [OF schema_okD(11) [OF ok] up]) (auto simp: sessions_ixs_def sessions_fk_def)
  then show ?thesis
    unfolding db' by (rule schema_ok_sessions [OF ok]) (use update_rows_image [OF up, of br_id] in simp)
qed

lemma create_csrf_token_schema:
  "schema_ok db \<Longrightarrow> create_csrf_token sha t now s ttl db = Inr (x, db') \<Longrightarrow> schema_ok db'"
  by (auto simp: create_csrf_token_def res_simps
      intro!: schema_ok_leaf(8) intro: table_ok_insert [OF schema_okD(12)])

lemma consume_csrf_token_schema:
  "schema_ok db \<Longrightarrow> consume_csrf_token sha n1 n2 s t db = Inr (x, db') \<Longrightarrow> schema_ok db'"
  by (auto simp: consume_csrf_token_def res_simps csrf_tokens_ixs_def csrf_tokens_fk_def
      intro!: schema_ok_leaf(8) elim!: table_ok_update [OF schema_okD(12), rotated])

section \<open>Auth sessions\<close>

text \<open>The stored session with an id.\<close>

definition session_row :: "Db \<Rightarrow> string \<Rightarrow> auth_sessions_row option" where
  "session_row db i = find (\<lambda>r. sr_id r = i) (t_auth_sessions db)"

lemma session_row_iff: "schema_ok db \<Longrightarrow> session_row db i = Some r \<longleftrightarrow> r \<in> set (t_auth_sessions db) \<and> sr_id r = i"
  unfolding session_row_def by (rule auth_sessions_id.find_iff) auto

lemma find_update_key:
  assumes "\<And>r. k (f r) = k r"
  shows "find (\<lambda>r. k r = j) (map (\<lambda>r. if P r then f r else r) rows) =
    map_option (\<lambda>r. if P r then f r else r) (find (\<lambda>r. k r = j) rows)"
  by (induction rows) (auto simp: assms)

lemma filter_one:
  assumes "schema_ok db" "session_row db i = Some r" "\<And>x. P x \<Longrightarrow> sr_id x = i"
  shows "filter P (t_auth_sessions db) = [] \<longleftrightarrow> \<not> P r"
proof
  assume none: "filter P (t_auth_sessions db) = []"
  from assms(1,2) have "r \<in> set (t_auth_sessions db)" by (simp add: session_row_iff)
  with none show "\<not> P r" by (simp add: filter_empty_conv)
next
  assume "\<not> P r"
  have "x = r" if "x \<in> set (t_auth_sessions db)" "P x" for x
    using auth_sessions_id.same_row [OF assms(1) that(1), of r] assms that by (auto simp: session_row_iff)
  with \<open>\<not> P r\<close> show "filter P (t_auth_sessions db) = []" by (auto simp: filter_empty_conv)
qed

lemma complete_auth_session_eq:
  assumes "schema_ok db" "session_row db i = Some r"
  shows "complete_auth_session now i u db =
    (if sr_status r = ''pending'' \<and> sr_expires_at r > now then
       if user_exists db u then
         Inr ((), db\<lparr>t_auth_sessions := map (\<lambda>x. if sr_id x = i \<and> sr_status x = ''pending'' \<and> sr_expires_at x > now
           then x\<lparr>sr_status := ''completed'', sr_user_id := Some u, sr_completed_at := Some now\<rparr> else x)
           (t_auth_sessions db)\<rparr>)
       else Inl (InvalidArgument [Lit ''sqlite: '', DispSql ForeignKeyConstraint])
     else Inl AuthSessionNotFound)"
proof -
  let ?P = "\<lambda>x. sr_id x = i \<and> sr_status x = ''pending'' \<and> sr_expires_at x > now"
  have "filter ?P (t_auth_sessions db) = [] \<longleftrightarrow> \<not> ?P r" by (rule filter_one [OF assms]) auto
  moreover have "?P r \<longleftrightarrow> sr_status r = ''pending'' \<and> sr_expires_at r > now"
    using assms by (auto simp: session_row_iff)
  moreover have "list_all (auth_sessions_fk db) (map (\<lambda>x. x\<lparr>sr_status := ''completed'', sr_user_id := Some u,
      sr_completed_at := Some now\<rparr>) (filter ?P (t_auth_sessions db))) \<longleftrightarrow>
      filter ?P (t_auth_sessions db) = [] \<or> user_exists db u"
    by (cases "filter ?P (t_auth_sessions db)") (auto simp: auth_sessions_fk_def ref_ok_def list_all_iff)
  ultimately show ?thesis
    by (auto simp: complete_auth_session_def update_rows_def Let_def require_affected_def core_from_sql_def)
qed

lemma consume_auth_session_eq:
  assumes "schema_ok db" "session_row db i = Some r"
  shows "consume_auth_session now i db =
    (if sr_status r = ''completed'' \<and> sr_expires_at r > now then
       Inr ((), db\<lparr>t_auth_sessions := map (\<lambda>x. if sr_id x = i \<and> sr_status x = ''completed'' \<and> sr_expires_at x > now
         then x\<lparr>sr_status := ''consumed'', sr_consumed_at := Some now\<rparr> else x) (t_auth_sessions db)\<rparr>)
     else Inl AuthSessionNotFound)"
proof -
  let ?P = "\<lambda>x. sr_id x = i \<and> sr_status x = ''completed'' \<and> sr_expires_at x > now"
  have "filter ?P (t_auth_sessions db) = [] \<longleftrightarrow> \<not> ?P r" by (rule filter_one [OF assms]) auto
  moreover have "?P r \<longleftrightarrow> sr_status r = ''completed'' \<and> sr_expires_at r > now"
    using assms by (auto simp: session_row_iff)
  ultimately show ?thesis
    by (auto simp: consume_auth_session_def update_rows_plain require_affected_def)
qed

lemma complete_auth_session_row:
  assumes "schema_ok db" "session_row db i = Some r" "complete_auth_session now i u db = Inr ((), db')"
  shows "session_row db' j = (if j = i
      then Some (r\<lparr>sr_status := ''completed'', sr_user_id := Some u, sr_completed_at := Some now\<rparr>)
      else session_row db j)"
proof -
  let ?P = "\<lambda>x. sr_id x = i \<and> sr_status x = ''pending'' \<and> sr_expires_at x > now"
  let ?f = "\<lambda>x. x\<lparr>sr_status := ''completed'', sr_user_id := Some u, sr_completed_at := Some now\<rparr>"
  have "session_row db' j = map_option (\<lambda>r. if ?P r then ?f r else r) (session_row db j)"
    using assms(3) unfolding complete_auth_session_eq [OF assms(1,2)] session_row_def
    by (auto split: if_splits intro!: find_update_key)
  moreover have "?P r" using assms by (auto simp: complete_auth_session_eq session_row_iff split: if_splits)
  moreover have "\<not> ?P x" if "session_row db j = Some x" "j \<noteq> i" for x
    using that assms(1) by (simp add: session_row_iff)
  ultimately show ?thesis using assms(2) by (cases "session_row db j"; cases "j = i") (simp_all del: not_less)
qed

lemma consume_auth_session_row:
  assumes "schema_ok db" "session_row db i = Some r" "consume_auth_session now i db = Inr ((), db')"
  shows "session_row db' j = (if j = i
      then Some (r\<lparr>sr_status := ''consumed'', sr_consumed_at := Some now\<rparr>) else session_row db j)"
proof -
  let ?P = "\<lambda>x. sr_id x = i \<and> sr_status x = ''completed'' \<and> sr_expires_at x > now"
  let ?f = "\<lambda>x. x\<lparr>sr_status := ''consumed'', sr_consumed_at := Some now\<rparr>"
  have "session_row db' j = map_option (\<lambda>r. if ?P r then ?f r else r) (session_row db j)"
    using assms(3) unfolding consume_auth_session_eq [OF assms(1,2)] session_row_def
    by (auto split: if_splits intro!: find_update_key)
  moreover have "?P r" using assms by (auto simp: consume_auth_session_eq session_row_iff split: if_splits)
  moreover have "\<not> ?P x" if "session_row db j = Some x" "j \<noteq> i" for x
    using that assms(1) by (simp add: session_row_iff)
  ultimately show ?thesis using assms(2) by (cases "session_row db j"; cases "j = i") (simp_all del: not_less)
qed

text \<open>An auth session moves from pending to completed to consumed and nowhere else:
  completing needs a pending, unexpired session and an existing user and records that user;
  consuming needs a completed, unexpired session; each changes only its own session, and every
  other attempt fails with \<open>AuthSessionNotFound\<close> (an unknown user with a database error).\<close>

lemma auth_session_transitions:
  assumes "schema_ok db" "session_row db i = Some r"
  shows "((\<exists>db'. complete_auth_session now i u db = Inr ((), db')) \<longleftrightarrow>
      sr_status r = ''pending'' \<and> now < sr_expires_at r \<and> user_exists db u) \<and>
    ((\<exists>db'. consume_auth_session now i db = Inr ((), db')) \<longleftrightarrow>
      sr_status r = ''completed'' \<and> now < sr_expires_at r) \<and>
    (\<not> (sr_status r = ''pending'' \<and> now < sr_expires_at r) \<longrightarrow>
      complete_auth_session now i u db = Inl AuthSessionNotFound) \<and>
    (\<not> (sr_status r = ''completed'' \<and> now < sr_expires_at r) \<longrightarrow>
      consume_auth_session now i db = Inl AuthSessionNotFound) \<and>
    (\<forall>db' j. complete_auth_session now i u db = Inr ((), db') \<longrightarrow> session_row db' j =
      (if j = i then Some (r\<lparr>sr_status := ''completed'', sr_user_id := Some u, sr_completed_at := Some now\<rparr>)
       else session_row db j)) \<and>
    (\<forall>db' j. consume_auth_session now i db = Inr ((), db') \<longrightarrow> session_row db' j =
      (if j = i then Some (r\<lparr>sr_status := ''consumed'', sr_consumed_at := Some now\<rparr>) else session_row db j))"
proof (intro conjI)
  show "\<forall>db' j. complete_auth_session now i u db = Inr ((), db') \<longrightarrow> session_row db' j =
      (if j = i then Some (r\<lparr>sr_status := ''completed'', sr_user_id := Some u, sr_completed_at := Some now\<rparr>)
       else session_row db j)"
    using complete_auth_session_row [OF assms] by blast
  show "\<forall>db' j. consume_auth_session now i db = Inr ((), db') \<longrightarrow> session_row db' j =
      (if j = i then Some (r\<lparr>sr_status := ''consumed'', sr_consumed_at := Some now\<rparr>) else session_row db j)"
    using consume_auth_session_row [OF assms] by blast
qed (auto simp: complete_auth_session_eq [OF assms] consume_auth_session_eq [OF assms])

section \<open>Login states\<close>

lemma login_state_row:
  assumes "schema_ok db" "r \<in> set (t_login_transactions db)" "lt_state_hash r = h"
  shows "find (\<lambda>r. lt_state_hash r = h) (t_login_transactions db) = Some r"
  by (subst login_states_hash.find_iff [OF assms(1)]) (use assms in auto)

lemma consume_login_state_eq:
  assumes "schema_ok db" "r \<in> set (t_login_transactions db)" "lt_state_hash r = hash_secret sha s"
  shows "consume_login_state sha n1 n2 n3 s db =
    (if lt_consumed_at r = None \<and> n1 < lt_expires_at r \<and> n3 < lt_expires_at r then
       Inr (sls_state (login_state_from_row r),
         db\<lparr>t_login_transactions := map (\<lambda>x. if lt_id x = lt_id r \<and> lt_consumed_at x = None \<and> n3 < lt_expires_at x
           then x\<lparr>lt_consumed_at := Some n2\<rparr> else x) (t_login_transactions db)\<rparr>)
     else Inl NotFound)"
proof -
  let ?P = "\<lambda>x. lt_id x = lt_id r \<and> lt_consumed_at x = None \<and> n3 < lt_expires_at x"
  have "x = r" if "x \<in> set (t_login_transactions db)" "lt_id x = lt_id r" for x
    using login_states_id.same_row [OF assms(1) that(1) assms(2)] that(2) by simp
  with assms(2) have "filter ?P (t_login_transactions db) = [] \<longleftrightarrow> \<not> ?P r"
    by (auto simp: filter_empty_conv)
  then show ?thesis
    by (auto simp: consume_login_state_def login_state_row [OF assms] login_state_from_row_def
        update_rows_plain require_affected_def unwrap_or_zero_def)
qed

text \<open>A login state is used at most once and only before it expires: what
  \<open>create_login_state\<close> stored for a fresh state secret is returned by the first
  \<open>consume_login_state\<close> with that secret (with the text fields trimmed), provided every clock
  reading is before the expiry, and after that every further attempt fails.\<close>

lemma login_state_once:
  assumes "schema_ok db" "create_login_state sha state now new_id input ttl db = Inr ((state', ls), db1)"
  shows "schema_ok db1 \<and> state' = state \<and>
    (\<forall>n1 n2 n3. (n1 < ls_expires_at ls \<and> n3 < ls_expires_at ls \<longrightarrow>
        (\<exists>db2. consume_login_state sha n1 n2 n3 state db1 =
           Inr (ls\<lparr>ls_nonce := trim (ls_nonce ls), ls_login_url_nonce := trim (ls_login_url_nonce ls),
                  ls_return_path := trim (ls_return_path ls)\<rparr>, db2) \<and>
           (\<forall>m1 m2 m3. consume_login_state sha m1 m2 m3 state db2 = Inl NotFound))) \<and>
      (\<not> (n1 < ls_expires_at ls \<and> n3 < ls_expires_at ls) \<longrightarrow>
        consume_login_state sha n1 n2 n3 state db1 = Inl NotFound))"
proof -
  note ok1 = create_login_state_schema [OF assms]
  from assms(2) obtain r where r: "r \<in> set (t_login_transactions db1)" "lt_state_hash r = hash_secret sha state"
    "lt_consumed_at r = None" "lt_expires_at r = ls_expires_at ls" and st: "state' = state" and
    ls: "sls_state (login_state_from_row r) =
       ls\<lparr>ls_nonce := trim (ls_nonce ls), ls_login_url_nonce := trim (ls_login_url_nonce ls),
          ls_return_path := trim (ls_return_path ls)\<rparr>"
    by (fastforce simp: create_login_state_def Let_def res_simps insert_row_Inr login_state_from_row_def
        none_if_empty_def unwrap_or_default_def)
  note eq = consume_login_state_eq [OF ok1 r(1,2)]
  have again: "consume_login_state sha m1 m2 m3 state db2 = Inl NotFound"
    if c: "consume_login_state sha n1 n2 n3 state db1 = Inr (x, db2)" for n1 n2 n3 x db2 m1 m2 m3
  proof -
    let ?r = "r\<lparr>lt_consumed_at := Some n2\<rparr>"
    have "?r \<in> set (t_login_transactions db2)"
      using c r unfolding eq by (force split: if_splits)
    with consume_login_state_eq [OF consume_login_state_schema [OF ok1 c] this] r(2) show ?thesis by simp
  qed
  have "\<exists>db2. consume_login_state sha n1 n2 n3 state db1 = Inr (sls_state (login_state_from_row r), db2)"
    if "n1 < ls_expires_at ls \<and> n3 < ls_expires_at ls" for n1 n2 n3
    using that eq r(3,4) by simp
  moreover have "consume_login_state sha n1 n2 n3 state db1 = Inl NotFound"
    if "\<not> (n1 < ls_expires_at ls \<and> n3 < ls_expires_at ls)" for n1 n2 n3
    using that unfolding eq r(3,4) by simp
  ultimately show ?thesis using ok1 st again unfolding ls by metis
qed

section \<open>Browser sessions\<close>

lemma first_row_unique: "r \<in> set xs \<Longrightarrow> (\<And>x. x \<in> set xs \<Longrightarrow> x = r) \<Longrightarrow> first_row xs = Some r"
proof -
  assume r: "r \<in> set xs" and u: "\<And>x. x \<in> set xs \<Longrightarrow> x = r"
  then obtain y ys where "xs = y # ys" by (cases xs) auto
  with u [of y] show "first_row xs = Some r" by (simp add: first_row_def)
qed

lemma user_by_browser_session_iff:
  assumes "schema_ok db"
  shows "user_by_browser_session now db sid = Inr u \<longleftrightarrow>
    (\<exists>s \<in> set (t_sessions db). \<exists>r \<in> set (t_users db). br_id s = sid \<and> br_revoked_at s = None \<and>
       now < br_expires_at s \<and> ur_id r = br_user_id s \<and> ur_status r = ''active'' \<and> u = user_from_row r)"
    (is "_ \<longleftrightarrow> ?rhs")
proof
  assume "user_by_browser_session now db sid = Inr u"
  then show ?rhs by (fastforce simp: user_by_browser_session_def res_simps dest!: first_row_in)
next
  assume ?rhs
  then obtain s r where sr: "s \<in> set (t_sessions db)" "r \<in> set (t_users db)" "br_id s = sid"
    "br_revoked_at s = None" "now < br_expires_at s" "ur_id r = br_user_id s" "ur_status r = ''active''"
    "u = user_from_row r" by blast
  let ?xs = "[u. s \<leftarrow> t_sessions db, u \<leftarrow> t_users db, ur_id u = br_user_id s \<and> br_id s = sid \<and>
    br_revoked_at s = None \<and> br_expires_at s > now \<and> ur_status u = ''active'']"
  have "r \<in> set ?xs" using sr by auto
  moreover have "x = r" if "x \<in> set ?xs" for x
  proof -
    from that obtain s' where "s' \<in> set (t_sessions db)" "br_id s' = sid" "ur_id x = br_user_id s'"
      "x \<in> set (t_users db)" by auto
    with sessions_id.same_row [OF assms, of s' s] users_unique_id [OF assms, of x r] sr show ?thesis by auto
  qed
  ultimately have "first_row ?xs = Some r" by (rule first_row_unique)
  with sr(8) show "user_by_browser_session now db sid = Inr u"
    by (simp add: user_by_browser_session_def)
qed

text \<open>A browser session identifies its user exactly until it expires, is revoked, or the user
  stops being active: after \<open>create_browser_session\<close> the session resolves to the user at
  every time before its expiry while the user is active, and never afterwards; once
  \<open>revoke_browser_session\<close> succeeded it resolves to nobody, and revoking twice fails.\<close>

lemma browser_session_valid:
  assumes "schema_ok db" "create_browser_session now secret user_id ttl db = Inr (session, db1)"
  shows "schema_ok db1 \<and> bs_id session = secret \<and>
    (\<forall>t u. user_by_browser_session t db1 secret = Inr u \<longleftrightarrow>
       t < bs_expires_at session \<and>
       (\<exists>r \<in> set (t_users db). ur_id r = user_id \<and> ur_status r = ''active'' \<and> u = user_from_row r)) \<and>
    (\<forall>t. \<exists>db2. revoke_browser_session t secret db1 = Inr ((), db2) \<and>
       (\<forall>t'. user_by_browser_session t' db2 secret = Inl NotFound \<and>
             revoke_browser_session t' secret db2 = Inl NotFound))"
proof -
  note ok1 = create_browser_session_schema [OF assms]
  let ?s = "\<lparr>br_id = secret, br_user_id = user_id, br_created_at = now,
      br_expires_at = bs_expires_at session, br_revoked_at = None\<rparr>"
  from assms(2) have db1: "db1 = db\<lparr>t_sessions := t_sessions db @ [?s]\<rparr>" and sid: "bs_id session = secret"
    by (auto simp: create_browser_session_def Let_def res_simps insert_row_Inr)
  have s: "?s \<in> set (t_sessions db1)" by (simp add: db1)
  have only: "x = ?s" if "x \<in> set (t_sessions db1)" "br_id x = secret" for x
    using sessions_id.same_row [OF ok1 that(1) s] that(2) by simp
  have valid: "user_by_browser_session t db1 secret = Inr u \<longleftrightarrow> t < bs_expires_at session \<and>
       (\<exists>r \<in> set (t_users db). ur_id r = user_id \<and> ur_status r = ''active'' \<and> u = user_from_row r)" for t u
  proof -
    have "user_by_browser_session t db1 secret = Inr u \<longleftrightarrow>
      (\<exists>r \<in> set (t_users db1). br_revoked_at ?s = None \<and> t < br_expires_at ?s \<and> ur_id r = br_user_id ?s \<and>
         ur_status r = ''active'' \<and> u = user_from_row r)"
      unfolding user_by_browser_session_iff [OF ok1] using s only by (metis sessions_row.select_convs(1))
    moreover have "t_users db1 = t_users db" by (simp add: db1)
    ultimately show ?thesis by auto
  qed
  have rev: "\<exists>db2. revoke_browser_session t secret db1 = Inr ((), db2) \<and>
     (\<forall>t'. user_by_browser_session t' db2 secret = Inl NotFound \<and> revoke_browser_session t' secret db2 = Inl NotFound)" for t
  proof -
    let ?rows = "map (\<lambda>r. if br_id r = secret \<and> br_revoked_at r = None then r\<lparr>br_revoked_at := Some t\<rparr> else r)
      (t_sessions db1)"
    let ?db2 = "db1\<lparr>t_sessions := ?rows\<rparr>"
    have r: "revoke_browser_session t secret db1 = Inr ((), ?db2)"
      by (simp add: revoke_browser_session_def update_rows_plain require_affected_def db1)
    have dead: "br_revoked_at x \<noteq> None" if "x \<in> set ?rows" "br_id x = secret" for x
    proof -
      from that(1) obtain y where "y \<in> set (t_sessions db1)" "x = (if br_id y = secret \<and> br_revoked_at y = None
          then y\<lparr>br_revoked_at := Some t\<rparr> else y)" by auto
      with that(2) show ?thesis by (cases "br_id y = secret \<and> br_revoked_at y = None") auto
    qed
    have "user_by_browser_session t' ?db2 secret = Inl NotFound" for t'
    proof (cases "user_by_browser_session t' ?db2 secret")
      case (Inl e)
      then show ?thesis by (auto simp: user_by_browser_session_def res_simps)
    next
      case (Inr u)
      then obtain x where "x \<in> set (t_sessions ?db2)" "br_id x = secret" "br_revoked_at x = None"
        unfolding user_by_browser_session_iff [OF revoke_browser_session_schema [OF ok1 r]] by blast
      with dead [of x] show ?thesis by (simp only: Db.select_convs Db.update_convs Db.simps) simp
    qed
    moreover have "revoke_browser_session t' secret ?db2 = Inl NotFound" for t'
    proof -
      have "filter (\<lambda>r. br_id r = secret \<and> br_revoked_at r = None) ?rows = []"
        using dead by (auto simp: filter_empty_conv)
      then show ?thesis
        by (simp add: revoke_browser_session_def update_rows_plain require_affected_def)
    qed
    ultimately show ?thesis using r by blast
  qed
  show ?thesis using ok1 sid valid rev by blast
qed

section \<open>Concrete sessions\<close>

definition demo_session :: auth_sessions_row where
  "demo_session = \<lparr>sr_id = ''s1'', sr_session_code_hash = ''code'', sr_client_state_hash = ''cs'',
     sr_status = ''pending'', sr_user_id = None, sr_login_url_nonce = ''n'', sr_created_at = 1,
     sr_expires_at = 100, sr_completed_at = None, sr_consumed_at = None\<rparr>"

definition demo_user1 :: users_row where
  "demo_user1 = \<lparr>ur_id = ''u1'', ur_display_name = None, ur_primary_email = None,
     ur_primary_email_normalized = None, ur_status = ''active'', ur_created_at = 1,
     ur_updated_at = 1, ur_last_login_at = None\<rparr>"

definition demo_state :: Db where
  "demo_state = empty_db\<lparr>t_users := [demo_user1], t_auth_sessions := [demo_session]\<rparr>"

definition demo_login_input :: LoginStateInput where
  "demo_login_input = \<lparr>li_provider_id = ''google'', li_nonce = ''n1'', li_login_url_nonce = [],
     li_return_path = ''/'', li_private_state = ''p''\<rparr>"

lemma demo_state_facts:
  "schema_ok demo_state" "session_row demo_state ''s1'' = Some demo_session" "user_exists demo_state ''u1''"
  by code_simp+

lemma ttl_seconds_from_secs [simp]: "ttl_seconds (duration_from_secs n) = i64_from_u64 n"
  by (simp add: ttl_seconds_def as_secs_def duration_from_secs_def nanos_per_sec_def)

lemmas demo_state_defs = demo_state_def empty_db_def insert_row_def key_conflict_def no_fk_def is_ok_def

lemma demo_created:
  "is_ok (create_login_state (\<lambda>x. x) ''st'' 10 ''l1'' demo_login_input (duration_from_secs 60) demo_state)"
  "is_ok (create_browser_session 10 ''secret'' ''u1'' (duration_from_secs n) demo_state)"
  using demo_state_facts(3)
  by (simp_all add: create_login_state_def create_browser_session_def Let_def demo_state_defs
      login_transactions_ixs_def sessions_ixs_def sessions_fk_def)

lemma auth_session_transitions_witness:
  "\<exists>db'. complete_auth_session 50 ''s1'' ''u1'' demo_state = Inr ((), db') \<and>
     consume_auth_session 50 ''s1'' demo_state = Inl AuthSessionNotFound"
  using auth_session_transitions [OF demo_state_facts(1,2), of 50 "''u1''"] demo_state_facts(3)
  by (simp add: demo_session_def)

lemma login_state_once_witness:
  "\<exists>ls db1. create_login_state (\<lambda>x. x) ''st'' 10 ''l1'' demo_login_input (duration_from_secs 60) demo_state =
       Inr ((''st'', ls), db1) \<and>
     (\<exists>x db2. consume_login_state (\<lambda>x. x) 20 20 20 ''st'' db1 = Inr (x, db2) \<and>
        consume_login_state (\<lambda>x. x) 21 21 21 ''st'' db2 = Inl NotFound)"
proof -
  from is_ok_obtain [OF demo_created(1)] obtain st ls db1 where
    h: "create_login_state (\<lambda>x. x) ''st'' 10 ''l1'' demo_login_input (duration_from_secs 60) demo_state =
       Inr ((st, ls), db1)" by force
  have "ls_expires_at ls = i64_add 10 (ttl_seconds (duration_from_secs 60))"
    using h by (auto simp: create_login_state_def Let_def res_simps)
  also have "\<dots> = 70" by (simp add: i64_from_u64_def i64_max_def i64_add_def i64_wrap_def)
  finally have "20 < ls_expires_at ls" by simp
  with login_state_once [OF demo_state_facts(1) h] h show ?thesis by metis
qed

lemma browser_session_valid_witness:
  "\<exists>session db1 db2. create_browser_session 10 ''secret'' ''u1'' (duration_from_secs 60) demo_state = Inr (session, db1) \<and>
     revoke_browser_session 30 ''secret'' db1 = Inr ((), db2) \<and>
     user_by_browser_session 31 db2 ''secret'' = Inl NotFound"
proof -
  from is_ok_obtain [OF demo_created(2)] obtain session db1 where
    h: "create_browser_session 10 ''secret'' ''u1'' (duration_from_secs 60) demo_state = Inr (session, db1)" by force
  from browser_session_valid [OF demo_state_facts(1) h] h show ?thesis by metis
qed

text \<open>The expiry is computed without a check for overflow: a lifetime of \<open>u64::MAX\<close> seconds
  saturates to \<open>i64::MAX\<close> and the sum wraps, so the session has expired when it is created.\<close>

theorem lifetime_overflow:
  "\<exists>session db1. create_browser_session 10 ''secret'' ''u1'' (duration_from_secs (2 ^ 64 - 1)) demo_state =
     Inr (session, db1) \<and> bs_expires_at session < 10 \<and> (\<forall>u. user_by_browser_session 10 db1 ''secret'' \<noteq> Inr u)"
proof -
  from is_ok_obtain [OF demo_created(2)] obtain session db1 where
    h: "create_browser_session 10 ''secret'' ''u1'' (duration_from_secs (2 ^ 64 - 1)) demo_state = Inr (session, db1)"
    by force
  then have "bs_expires_at session = i64_add 10 (i64_from_u64 (2 ^ 64 - 1))"
    by (auto simp: create_browser_session_def Let_def res_simps)
  also have "\<dots> < 10" by (simp add: i64_from_u64_def i64_max_def i64_add_def i64_wrap_def)
  finally have "bs_expires_at session < 10" .
  moreover have "\<not> 10 < br_expires_at s" if "s \<in> set (t_sessions db1)" for s
    using h that \<open>bs_expires_at session < 10\<close>
    by (auto simp: create_browser_session_def Let_def res_simps insert_row_Inr demo_state_def empty_db_def)
  then have "user_by_browser_session 10 db1 ''secret'' \<noteq> Inr u" for u
    unfolding user_by_browser_session_iff [OF create_browser_session_schema [OF demo_state_facts(1) h]] by blast
  ultimately show ?thesis using h by blast
qed

end
