(* ===== verification/Sqlite_Tokens.thy ===== *)
theory Sqlite_Tokens
  imports Sqlite_State
begin

text \<open>
  The log of issued tokens and the signing-key metadata (\<open>sqlite/issued_tokens.rs\<close>) and the
  schema migrations (\<open>sqlite/migrations.rs\<close>). Theorems: a logged authn token identifies its
  user until it expires, is revoked or the user stops being active; the key chosen for signing is
  the newest active one and is always among the published keys; migrating is idempotent and
  satisfies the schema check. JSON encoding and decoding (serde_json) are the arguments
  \<open>to_json\<close> and \<open>from_json\<close>.
\<close>

section \<open>Operations\<close>

definition record_token :: "(string list \<Rightarrow> string) \<Rightarrow> IssuedToken \<Rightarrow> Db \<Rightarrow> (unit \<times> Db) core_result" where
  "record_token to_json token db =
     and_then (map_err core_from_sql (insert_row issued_tokens_ixs (issued_tokens_fk db)
         \<lparr>kr_jti = it_jti token, kr_token_kind = it_kind token,
          kr_user_id = none_if_empty (it_user_id token), kr_service_account_id = None,
          kr_repository_id = none_if_empty (it_repository_id token),
          kr_lore_resource_id = none_if_empty (it_lore_resource_id token), kr_role = it_role token,
          kr_kid = it_kid token, kr_audience_json = to_json (it_audience token),
          kr_issued_at = it_issued_at token, kr_expires_at = it_expires_at token, kr_revoked_at = None\<rparr>
         (t_issued_tokens db)))
       (\<lambda>rows. Inr ((), db\<lparr>t_issued_tokens := rows\<rparr>))"

definition revoke_issued_token :: "i64 \<Rightarrow> string \<Rightarrow> Db \<Rightarrow> (unit \<times> Db) core_result" where
  "revoke_issued_token now jti db =
     and_then (map_err core_from_sql (update_rows [] no_fk (\<lambda>r. kr_jti r = jti)
         (\<lambda>r. r\<lparr>kr_revoked_at := Some now\<rparr>) (t_issued_tokens db)))
       (\<lambda>(changed, rows).
     and_then (require_affected changed NotFound) (\<lambda>_. Inr ((), db\<lparr>t_issued_tokens := rows\<rparr>)))"

definition signing_key_from_row :: "signing_keys_row \<Rightarrow> SigningKeyMeta" where
  "signing_key_from_row row =
     \<lparr>sk_kid = kk_kid row, sk_alg = kk_alg row, sk_public_jwk_json = kk_public_jwk_json row,
      sk_private_key_path = kk_private_key_path row, sk_status = kk_status row\<rparr>"

definition add_signing_key_meta_conn :: "i64 \<Rightarrow> SigningKeyMeta \<Rightarrow> Db \<Rightarrow> (SigningKeyMeta \<times> Db) core_result" where
  "add_signing_key_meta_conn now key db =
     (let key = (if sk_status key = [] then key\<lparr>sk_status := ''active''\<rparr> else key) in
      and_then (map_err core_from_sql (insert_row signing_keys_ixs no_fk
          \<lparr>kk_kid = sk_kid key, kk_alg = sk_alg key, kk_public_jwk_json = sk_public_jwk_json key,
           kk_private_key_path = sk_private_key_path key, kk_status = sk_status key, kk_created_at = now\<rparr>
          (t_signing_keys db)))
        (\<lambda>rows. Inr (key, db\<lparr>t_signing_keys := rows\<rparr>)))"

text \<open>\<open>ORDER BY created_at DESC\<close>.\<close>

definition newest_first :: "signing_keys_row list \<Rightarrow> signing_keys_row list" where
  "newest_first rows = sort_key (\<lambda>r. - kk_created_at r) rows"

definition active_signing_key_conn :: "Db \<Rightarrow> string \<Rightarrow> SigningKeyMeta core_result" where
  "active_signing_key_conn db kid =
     (if kid = [] then
        ok_or NotFound (map_option signing_key_from_row (first_row (newest_first
          (filter (\<lambda>r. kk_status r = ''active'') (t_signing_keys db)))))
      else
        ok_or NotFound (map_option signing_key_from_row (first_row (newest_first
          (filter (\<lambda>r. kk_status r = ''active'' \<and> kk_kid r = kid) (t_signing_keys db))))))"

definition signing_key_by_kid_conn :: "Db \<Rightarrow> string \<Rightarrow> SigningKeyMeta core_result" where
  "signing_key_by_kid_conn db kid =
     ok_or NotFound (map_option signing_key_from_row (find (\<lambda>r. kk_kid r = kid) (t_signing_keys db)))"

definition list_signing_keys_conn :: "Db \<Rightarrow> SigningKeyMeta list core_result" where
  "list_signing_keys_conn db = Inr (map signing_key_from_row (newest_first (t_signing_keys db)))"

fun parse_jwks :: "(string \<Rightarrow> string + 'j) \<Rightarrow> string list \<Rightarrow> 'j list core_result" where
  "parse_jwks from_json [] = Inr []"
| "parse_jwks from_json (raw # rest) =
     and_then (map_err (\<lambda>err. InvalidArgument [Lit ''sqlite: invalid public_jwk_json: '', Lit err]) (from_json raw))
       (\<lambda>parsed. and_then (parse_jwks from_json rest) (\<lambda>out. Inr (parsed # out)))"

definition public_jwks :: "(string \<Rightarrow> string + 'j) \<Rightarrow> Db \<Rightarrow> 'j list core_result" where
  "public_jwks from_json db =
     parse_jwks from_json (map kk_public_jwk_json (newest_first
       (filter (\<lambda>r. kk_status r \<in> {''active'', ''retiring''}) (t_signing_keys db))))"

definition generate_active_key :: "string \<Rightarrow> string \<Rightarrow> nat \<Rightarrow> SigningKeyMeta core_result" where
  "generate_active_key kid alg bits = Inl Unsupported"

subsection \<open>Migrations\<close>

definition BASELINE_VERSION :: string where
  "BASELINE_VERSION = ''phase2b_baseline_20260702''"

definition GROUP_GROUPS_VERSION :: string where
  "GROUP_GROUPS_VERSION = ''phase3_group_groups_20260702''"

definition ADMIN_AUDIT_VERSION :: string where
  "ADMIN_AUDIT_VERSION = ''phase4_admin_audit_20260702''"

text \<open>The tables of the model exist already, so \<open>CREATE TABLE IF NOT EXISTS\<close> keeps them.\<close>

definition migrate :: "i64 \<Rightarrow> i64 \<Rightarrow> i64 \<Rightarrow> Db \<Rightarrow> rusqlite_error + (unit \<times> Db)" where
  "migrate now1 now2 now3 db =
     and_then (insert_or_ignore schema_migrations_ixs no_fk
         \<lparr>zr_version = BASELINE_VERSION, zr_applied_at = now1\<rparr> (t_schema_migrations db)) (\<lambda>rows1.
     and_then (insert_or_ignore schema_migrations_ixs no_fk
         \<lparr>zr_version = GROUP_GROUPS_VERSION, zr_applied_at = now2\<rparr> rows1) (\<lambda>rows2.
     and_then (insert_or_ignore schema_migrations_ixs no_fk
         \<lparr>zr_version = ADMIN_AUDIT_VERSION, zr_applied_at = now3\<rparr> rows2) (\<lambda>rows3.
     Inr ((), db\<lparr>t_schema_migrations := rows3\<rparr>))))"

fun validate_versions :: "Db \<Rightarrow> string list \<Rightarrow> rusqlite_error + unit" where
  "validate_versions db [] = Inr ()"
| "validate_versions db (expected # rest) =
     (case find (\<lambda>r. zr_version r = expected) (t_schema_migrations db) of
        None \<Rightarrow> Inl InvalidQuery
      | Some _ \<Rightarrow> validate_versions db rest)"

definition validate_schema :: "Db \<Rightarrow> rusqlite_error + unit" where
  "validate_schema db = validate_versions db [BASELINE_VERSION, GROUP_GROUPS_VERSION, ADMIN_AUDIT_VERSION]"

section \<open>The schema invariant is kept\<close>

lemma record_token_schema:
  "schema_ok db \<Longrightarrow> record_token to_json tok db = Inr (x, db') \<Longrightarrow> schema_ok db'"
  by (auto simp: record_token_def res_simps
      intro!: schema_ok_leaf(10) intro: table_ok_insert [OF schema_okD(14)])

lemma revoke_issued_token_schema:
  "schema_ok db \<Longrightarrow> revoke_issued_token now jti db = Inr (x, db') \<Longrightarrow> schema_ok db'"
  by (auto simp: revoke_issued_token_def res_simps issued_tokens_ixs_def issued_tokens_fk_def
      intro!: schema_ok_leaf(10) elim!: table_ok_update [OF schema_okD(14), rotated])

lemma add_signing_key_meta_schema:
  "schema_ok db \<Longrightarrow> add_signing_key_meta_conn now key db = Inr (x, db') \<Longrightarrow> schema_ok db'"
  by (auto simp: add_signing_key_meta_conn_def Let_def res_simps split: if_splits
      intro!: schema_ok_leaf(11) intro: table_ok_insert [OF schema_okD(15)])

lemma migrate_schema: "schema_ok db \<Longrightarrow> migrate n1 n2 n3 db = Inr (x, db') \<Longrightarrow> schema_ok db'"
  by (auto simp: migrate_def res_simps intro!: schema_ok_leaf(1)
      intro: table_ok_insert_or_ignore [OF table_ok_insert_or_ignore [OF table_ok_insert_or_ignore [OF schema_okD(17)]]])

section \<open>Issued tokens\<close>

lemma principal_by_jti_iff:
  assumes "schema_ok db"
  shows "principal_by_authn_token_jti now db jti = Inr p \<longleftrightarrow>
    (\<exists>t \<in> set (t_issued_tokens db). \<exists>r \<in> set (t_users db). kr_jti t = jti \<and> kr_token_kind t = ''authn'' \<and>
       kr_revoked_at t = None \<and> now < kr_expires_at t \<and> kr_user_id t = Some (ur_id r) \<and> ur_status r = ''active'' \<and>
       p = principal_from_user (user_from_row r) BRIDGE_PROVIDER_ID (group_names_conn db (ur_id r)))"
    (is "_ \<longleftrightarrow> ?rhs")
proof
  assume "principal_by_authn_token_jti now db jti = Inr p"
  then show ?rhs by (fastforce simp: principal_by_authn_token_jti_def res_simps dest!: first_row_in)
next
  assume ?rhs
  then obtain t r where tr: "t \<in> set (t_issued_tokens db)" "r \<in> set (t_users db)" "kr_jti t = jti"
    "kr_token_kind t = ''authn''" "kr_revoked_at t = None" "now < kr_expires_at t"
    "kr_user_id t = Some (ur_id r)" "ur_status r = ''active''"
    "p = principal_from_user (user_from_row r) BRIDGE_PROVIDER_ID (group_names_conn db (ur_id r))" by blast
  let ?xs = "[u. t \<leftarrow> t_issued_tokens db, u \<leftarrow> t_users db,
    kr_user_id t = Some (ur_id u) \<and> kr_jti t = jti \<and> kr_token_kind t = ''authn'' \<and>
    kr_revoked_at t = None \<and> kr_expires_at t > now \<and> ur_status u = ''active'']"
  have "r \<in> set ?xs" using tr by auto
  moreover have "x = r" if "x \<in> set ?xs" for x
  proof -
    from that obtain t' where "t' \<in> set (t_issued_tokens db)" "kr_jti t' = jti" "kr_user_id t' = Some (ur_id x)"
      "x \<in> set (t_users db)" by auto
    moreover from this have "t' = t" using tokens_jti.same_row [OF assms _ tr(1)] tr(3) by simp
    ultimately show ?thesis using users_unique_id [OF assms _ tr(2)] tr(7) by simp
  qed
  ultimately have "first_row ?xs = Some r" by (rule first_row_unique)
  with tr(9) show "principal_by_authn_token_jti now db jti = Inr p"
    by (simp add: principal_by_authn_token_jti_def)
qed

text \<open>A logged authn token identifies its user until it expires, is revoked, or the user stops
  being active: after \<open>record\<close> of an authn token the lookup by its jti yields the principal
  of the recorded user exactly before the expiry and while that user is active, revoking the token
  always succeeds, and after the revocation the jti resolves to nobody.\<close>

lemma authn_token_valid:
  assumes "schema_ok db" "record_token to_json tok db = Inr ((), db1)" "it_kind tok = ''authn''"
  shows "schema_ok db1 \<and>
    (\<forall>now p. principal_by_authn_token_jti now db1 (it_jti tok) = Inr p \<longleftrightarrow> now < it_expires_at tok \<and>
       (\<exists>r \<in> set (t_users db). none_if_empty (it_user_id tok) = Some (ur_id r) \<and> ur_status r = ''active'' \<and>
          p = principal_from_user (user_from_row r) BRIDGE_PROVIDER_ID (group_names_conn db (ur_id r)))) \<and>
    (\<forall>now. \<exists>db2. revoke_issued_token now (it_jti tok) db1 = Inr ((), db2) \<and>
       (\<forall>t. principal_by_authn_token_jti t db2 (it_jti tok) = Inl NotFound))"
proof -
  note ok1 = record_token_schema [OF assms(1,2)]
  from assms(2) obtain row where db1: "db1 = db\<lparr>t_issued_tokens := t_issued_tokens db @ [row]\<rparr>" and
    row: "kr_jti row = it_jti tok" "kr_token_kind row = it_kind tok" "kr_user_id row = none_if_empty (it_user_id tok)"
      "kr_revoked_at row = None" "kr_expires_at row = it_expires_at tok"
    by (fastforce simp: record_token_def res_simps insert_row_Inr)
  have in1: "row \<in> set (t_issued_tokens db1)" by (simp add: db1)
  have only: "x = row" if "x \<in> set (t_issued_tokens db1)" "kr_jti x = it_jti tok" for x
    using tokens_jti.same_row [OF ok1 that(1) in1] that(2) row(1) by simp
  have same: "t_users db1 = t_users db" "group_names_conn db1 = group_names_conn db"
    by (simp_all add: db1 group_names_conn_def [abs_def])
  have "principal_by_authn_token_jti now db1 (it_jti tok) = Inr p \<longleftrightarrow>
    (\<exists>r \<in> set (t_users db1). kr_token_kind row = ''authn'' \<and> kr_revoked_at row = None \<and> now < kr_expires_at row \<and>
       kr_user_id row = Some (ur_id r) \<and> ur_status r = ''active'' \<and>
       p = principal_from_user (user_from_row r) BRIDGE_PROVIDER_ID (group_names_conn db1 (ur_id r)))" for now p
    unfolding principal_by_jti_iff [OF ok1] using in1 only row(1) by blast
  then have valid: "principal_by_authn_token_jti now db1 (it_jti tok) = Inr p \<longleftrightarrow> now < it_expires_at tok \<and>
       (\<exists>r \<in> set (t_users db). none_if_empty (it_user_id tok) = Some (ur_id r) \<and> ur_status r = ''active'' \<and>
          p = principal_from_user (user_from_row r) BRIDGE_PROVIDER_ID (group_names_conn db (ur_id r)))" for now p
    unfolding same row(2-5) assms(3) by blast
  have "\<exists>db2. revoke_issued_token now (it_jti tok) db1 = Inr ((), db2) \<and>
       (\<forall>t. principal_by_authn_token_jti t db2 (it_jti tok) = Inl NotFound)" for now
  proof -
    let ?rows = "map (\<lambda>r. if kr_jti r = it_jti tok then r\<lparr>kr_revoked_at := Some now\<rparr> else r) (t_issued_tokens db1)"
    let ?db2 = "db1\<lparr>t_issued_tokens := ?rows\<rparr>"
    have r: "revoke_issued_token now (it_jti tok) db1 = Inr ((), ?db2)"
      by (simp add: revoke_issued_token_def update_rows_plain require_affected_def db1 row(1))
    have dead: "kr_revoked_at x \<noteq> None" if x: "x \<in> set (t_issued_tokens ?db2)" "kr_jti x = it_jti tok" for x
      using x by auto
    have "principal_by_authn_token_jti t ?db2 (it_jti tok) = Inl NotFound" for t
    proof (cases "principal_by_authn_token_jti t ?db2 (it_jti tok)")
      case (Inl e)
      then show ?thesis by (auto simp: principal_by_authn_token_jti_def res_simps)
    next
      case (Inr p)
      then obtain x where "x \<in> set (t_issued_tokens ?db2)" "kr_jti x = it_jti tok" "kr_revoked_at x = None"
        unfolding principal_by_jti_iff [OF revoke_issued_token_schema [OF ok1 r]] by blast
      with dead show ?thesis by blast
    qed
    with r show ?thesis by blast
  qed
  with ok1 valid show ?thesis by blast
qed

section \<open>Signing keys\<close>

lemma first_row_newest:
  assumes "first_row (newest_first rows) = Some r"
  shows "r \<in> set rows \<and> (\<forall>x \<in> set rows. kk_created_at x \<le> kk_created_at r)"
proof -
  let ?k = "\<lambda>r :: signing_keys_row. - kk_created_at r"
  have s: "sorted (map ?k (newest_first rows))" by (simp add: newest_first_def)
  from assms obtain ys where ys: "newest_first rows = r # ys"
    by (cases "newest_first rows") (auto simp: first_row_def)
  have st: "set (newest_first rows) = set rows" by (simp add: newest_first_def)
  with ys have "r \<in> set rows" by auto
  moreover from s ys st have "\<forall>x \<in> set rows. ?k r \<le> ?k x" by auto
  ultimately show ?thesis by auto
qed

lemma parse_jwks_all:
  "parse_jwks f raws = Inr out \<Longrightarrow> raw \<in> set raws \<Longrightarrow> \<exists>j \<in> set out. f raw = Inr j"
  by (induction raws arbitrary: out) (auto simp: res_simps)

text \<open>The signing key that the bridge picks is a stored, active key, the newest one when no
  key id is configured and the configured one otherwise, and its public part is always among the
  published keys, so that whatever it signs can be verified against the key set.\<close>

lemma active_key_published:
  assumes "active_signing_key_conn db kid = Inr key" "public_jwks from_json db = Inr jwks"
  shows "sk_status key = ''active'' \<and> (kid \<noteq> [] \<longrightarrow> sk_kid key = kid) \<and>
    (\<exists>r \<in> set (t_signing_keys db). key = signing_key_from_row r \<and>
       (kid = [] \<longrightarrow> (\<forall>x \<in> set (t_signing_keys db). kk_status x = ''active'' \<longrightarrow> kk_created_at x \<le> kk_created_at r))) \<and>
    (\<exists>j \<in> set jwks. from_json (sk_public_jwk_json key) = Inr j)"
proof -
  from assms(1) obtain r where r: "r \<in> set (t_signing_keys db)" "kk_status r = ''active''" "key = signing_key_from_row r"
    "kid \<noteq> [] \<Longrightarrow> kk_kid r = kid"
    "kid = [] \<Longrightarrow> \<forall>x \<in> set (t_signing_keys db). kk_status x = ''active'' \<longrightarrow> kk_created_at x \<le> kk_created_at r"
    by (cases "kid = []") (auto simp: active_signing_key_conn_def res_simps dest!: first_row_newest)
  have "kk_public_jwk_json r \<in> set (map kk_public_jwk_json (newest_first
       (filter (\<lambda>r. kk_status r \<in> {''active'', ''retiring''}) (t_signing_keys db))))"
    using r(1,2) by (auto simp: newest_first_def)
  with assms(2) have "\<exists>j \<in> set jwks. from_json (kk_public_jwk_json r) = Inr j"
    unfolding public_jwks_def by (rule parse_jwks_all)
  with r show ?thesis by (auto simp: signing_key_from_row_def)
qed

section \<open>Migrations\<close>

text \<open>Migration always succeeds, leaves a database that passes the schema check, keeps every
  constraint, and is idempotent: migrating a migrated database changes nothing.\<close>

lemma migrate_idempotent:
  "\<exists>db'. migrate n1 n2 n3 db = Inr ((), db') \<and> validate_schema db' = Inr () \<and>
     migrate m1 m2 m3 db' = Inr ((), db') \<and> (schema_ok db \<longrightarrow> schema_ok db') \<and>
     db'\<lparr>t_schema_migrations := t_schema_migrations db\<rparr> = db"
proof -
  define add where "add = (\<lambda>v n rows. if v \<in> zr_version ` set rows then rows
    else rows @ [\<lparr>zr_version = v, zr_applied_at = n\<rparr>])"
  have ins: "insert_or_ignore schema_migrations_ixs no_fk \<lparr>zr_version = v, zr_applied_at = n\<rparr> rows = Inr (add v n rows)"
    for v n and rows :: "schema_migrations_row list"
    by (auto simp: insert_or_ignore_def schema_migrations_ixs_def key_conflict_def no_fk_def add_def)
  let ?rows = "add ADMIN_AUDIT_VERSION n3 (add GROUP_GROUPS_VERSION n2 (add BASELINE_VERSION n1 (t_schema_migrations db)))"
  have vers: "BASELINE_VERSION \<in> zr_version ` set ?rows" "GROUP_GROUPS_VERSION \<in> zr_version ` set ?rows"
    "ADMIN_AUDIT_VERSION \<in> zr_version ` set ?rows"
    by (auto simp: add_def)
  let ?db = "db\<lparr>t_schema_migrations := ?rows\<rparr>"
  have m: "migrate n1 n2 n3 db = Inr ((), ?db)" by (simp add: migrate_def ins)
  have "migrate m1 m2 m3 ?db = Inr ((), ?db)"
  proof -
    have "add v n ?rows = ?rows" if "v \<in> zr_version ` set ?rows" for v n using that by (simp add: add_def)
    with vers show ?thesis by (simp add: migrate_def ins)
  qed
  moreover have "validate_schema ?db = Inr ()"
  proof -
    have "\<exists>r. find (\<lambda>r. zr_version r = v) ?rows = Some r" if "v \<in> zr_version ` set ?rows" for v
      using that by (cases "find (\<lambda>r. zr_version r = v) ?rows") (auto simp: find_None_iff)
    note f = this [OF vers(1)] this [OF vers(2)] this [OF vers(3)]
    then obtain r1 r2 r3 where "find (\<lambda>r. zr_version r = BASELINE_VERSION) ?rows = Some r1"
      "find (\<lambda>r. zr_version r = GROUP_GROUPS_VERSION) ?rows = Some r2"
      "find (\<lambda>r. zr_version r = ADMIN_AUDIT_VERSION) ?rows = Some r3" by blast
    then show ?thesis by (simp add: validate_schema_def)
  qed
  ultimately show ?thesis using m migrate_schema [OF _ m] by auto
qed

section \<open>Concrete tokens and keys\<close>

definition demo_token :: IssuedToken where
  "demo_token = \<lparr>it_jti = ''j1'', it_kind = ''authn'', it_user_id = ''u1'', it_repository_id = [],
     it_lore_resource_id = [], it_role = [], it_kid = ''k1'', it_audience = [''lore''],
     it_issued_at = 10, it_expires_at = 70\<rparr>"

definition demo_key :: "string \<Rightarrow> string \<Rightarrow> i64 \<Rightarrow> signing_keys_row" where
  "demo_key kid status t = \<lparr>kk_kid = kid, kk_alg = ''RS256'', kk_public_jwk_json = kid @ ''-jwk'',
     kk_private_key_path = ''/keys'', kk_status = status, kk_created_at = t\<rparr>"

definition demo_keys :: Db where
  "demo_keys = demo_state\<lparr>t_signing_keys := [demo_key ''k0'' ''retiring'' 1, demo_key ''k1'' ''active'' 2,
     demo_key ''k2'' ''active'' 3]\<rparr>"

lemma demo_token_facts:
  "is_ok (record_token concat demo_token demo_state)"
  "active_signing_key_conn demo_keys [] = Inr (signing_key_from_row (demo_key ''k2'' ''active'' 3))"
  "public_jwks Inr demo_keys = Inr [''k2-jwk'', ''k1-jwk'', ''k0-jwk'']"
  by code_simp+

lemma authn_token_valid_witness:
  "\<exists>db1 db2. record_token concat demo_token demo_state = Inr ((), db1) \<and>
     revoke_issued_token 30 ''j1'' db1 = Inr ((), db2) \<and> principal_by_authn_token_jti 40 db2 ''j1'' = Inl NotFound"
proof -
  from is_ok_obtain [OF demo_token_facts(1)] obtain db1 where
    h: "record_token concat demo_token demo_state = Inr ((), db1)" by force
  have k: "it_kind demo_token = ''authn''" "it_jti demo_token = ''j1''" by (simp_all add: demo_token_def)
  from authn_token_valid [OF demo_state_facts(1) h k(1)] h show ?thesis unfolding k(2) by blast
qed

lemma active_key_published_witness:
  "active_signing_key_conn demo_keys [] = Inr (signing_key_from_row (demo_key ''k2'' ''active'' 3)) \<and>
   (\<exists>j \<in> set [''k2-jwk'', ''k1-jwk'', ''k0-jwk'']. (Inr ''k2-jwk'' :: string + string) = Inr j)"
  using active_key_published [OF demo_token_facts(2,3)] demo_token_facts(2)
  by (simp add: signing_key_from_row_def demo_key_def)

lemma migrate_idempotent_witness:
  "\<exists>db'. migrate 1 1 1 empty_db = Inr ((), db') \<and> validate_schema db' = Inr () \<and> schema_ok db'"
  using migrate_idempotent [of 1 1 1 empty_db] schema_ok_empty by blast

end
