(* ===== verification/Sqlite_Audited.thy ===== *)
theory Sqlite_Audited
  imports Sqlite_Grants Sqlite_Tokens
begin

text \<open>
  Audited administration (\<open>sqlite/audited.rs\<close>): every administrative write of an actor runs in
  one immediate transaction with the insertion of its audit row. The locale states what that
  gives (the audited operation is the plain one plus its audit row, or nothing), and each operation
  of \<open>AuditedStore\<close> interprets it. The clock reading and id that \<open>admin_audit_entry\<close>
  draws follow those of the plain operation in the argument list.
\<close>

section \<open>Audit rows\<close>

definition admin_audit_failed :: "CoreError \<Rightarrow> CoreError" where
  "admin_audit_failed err = AdminAuditFailed (CoreError_display err)"

definition admin_audit_entry ::
  "string \<Rightarrow> i64 \<Rightarrow> string \<Rightarrow> string \<Rightarrow> string \<Rightarrow> string \<Rightarrow> string \<Rightarrow> AdminAuditEntry" where
  "admin_audit_entry new_id now actor action object_type object_id detail =
     \<lparr>aa_id = new_id, aa_actor = actor, aa_action = action, aa_object_type = object_type,
      aa_object_id = object_id, aa_detail = detail, aa_created_at = now\<rparr>"

definition insert_admin_audit_conn :: "AdminAuditEntry \<Rightarrow> Db \<Rightarrow> (unit \<times> Db) core_result" where
  "insert_admin_audit_conn entry db =
     and_then (map_err core_from_sql (insert_row admin_audit_ixs no_fk entry (t_admin_audit db)))
       (\<lambda>rows. Inr ((), db\<lparr>t_admin_audit := rows\<rparr>))"

definition list_admin_audit :: "Db \<Rightarrow> AdminAuditEntry list core_result" where
  "list_admin_audit db = Inr (sort_key aa_created_at (sort_key aa_id (t_admin_audit db)))"

definition grant_detail :: "string \<Rightarrow> string \<Rightarrow> string \<Rightarrow> string \<Rightarrow> string" where
  "grant_detail subject_type subject_id repo role =
     ''subject_type='' @ subject_type @ '' subject_id='' @ subject_id @ '' repo='' @ repo @ '' role='' @ role"

text \<open>The tail of every audited write: record the entry in the open transaction, then commit.\<close>

definition audit_and_commit :: "'a \<Rightarrow> AdminAuditEntry \<Rightarrow> Db \<Rightarrow> ('a \<times> Db) core_result" where
  "audit_and_commit a entry tx =
     and_then (map_err admin_audit_failed (insert_admin_audit_conn entry tx)) (\<lambda>(_, tx). Inr (a, tx))"

section \<open>Audited operations\<close>

definition audited_add_signing_key_meta ::
  "string \<Rightarrow> i64 \<Rightarrow> SigningKeyMeta \<Rightarrow> string \<Rightarrow> string \<Rightarrow> i64 \<Rightarrow> Db \<Rightarrow> (SigningKeyMeta \<times> Db) core_result" where
  "audited_add_signing_key_meta actor now key bits audit_id audit_now db =
     and_then (add_signing_key_meta_conn now key db) (\<lambda>(key, tx).
     audit_and_commit key (admin_audit_entry audit_id audit_now actor ''signing_key.generate'' ''signing_key''
       (sk_kid key) (''kid='' @ sk_kid key @ '' alg='' @ sk_alg key @ '' bits='' @ bits)) tx)"

definition audited_add_grant ::
  "string \<Rightarrow> i64 \<Rightarrow> string \<Rightarrow> string \<Rightarrow> string \<Rightarrow> string \<Rightarrow> string \<Rightarrow> string \<Rightarrow> i64 \<Rightarrow> Db \<Rightarrow> (Grant \<times> Db) core_result" where
  "audited_add_grant actor now new_id subject_type subject_id repo role audit_id audit_now db =
     and_then (add_grant_conn now new_id subject_type subject_id repo role db) (\<lambda>(grant, tx).
     audit_and_commit grant (admin_audit_entry audit_id audit_now actor ''grant.add'' ''grant''
       (gr_id grant) (grant_detail subject_type subject_id repo role)) tx)"

definition audited_remove_grant ::
  "string \<Rightarrow> string \<Rightarrow> string \<Rightarrow> string \<Rightarrow> string \<Rightarrow> string \<Rightarrow> i64 \<Rightarrow> Db \<Rightarrow> (unit \<times> Db) core_result" where
  "audited_remove_grant actor subject_type subject_id repo role audit_id audit_now db =
     and_then (remove_grant_conn subject_type subject_id repo role db) (\<lambda>(_, tx).
     audit_and_commit () (admin_audit_entry audit_id audit_now actor ''grant.remove'' ''grant''
       (subject_type @ '':'' @ subject_id @ '':'' @ repo @ '':'' @ role)
       (grant_detail subject_type subject_id repo role)) tx)"

definition audited_add_user ::
  "string \<Rightarrow> i64 \<Rightarrow> string \<Rightarrow> AddUserInput \<Rightarrow> string \<Rightarrow> i64 \<Rightarrow> Db \<Rightarrow> (User \<times> Db) core_result" where
  "audited_add_user actor now new_id input audit_id audit_now db =
     and_then (add_user_conn now new_id input db) (\<lambda>(user, tx).
     audit_and_commit user (admin_audit_entry audit_id audit_now actor ''user.add'' ''user''
       (u_id user) (''email='' @ u_email user)) tx)"

definition audited_add_invitation ::
  "string \<Rightarrow> i64 \<Rightarrow> string \<Rightarrow> string \<Rightarrow> AddInvitationInput \<Rightarrow> string \<Rightarrow> i64 \<Rightarrow> Db
     \<Rightarrow> ((User \<times> IdentityInvitation) \<times> Db) core_result" where
  "audited_add_invitation actor now new_user_id new_invitation_id input audit_id audit_now db =
     and_then (add_invitation_db now new_user_id new_invitation_id input db) (\<lambda>((user, invitation), tx).
     audit_and_commit (user, invitation) (admin_audit_entry audit_id audit_now actor ''user.invite'' ''user''
       (u_id user) (''email='' @ u_email user @ '' invitation_id='' @ ii_id invitation)) tx)"

definition audited_disable_user ::
  "string \<Rightarrow> i64 \<Rightarrow> string \<Rightarrow> string \<Rightarrow> i64 \<Rightarrow> Db \<Rightarrow> (unit \<times> Db) core_result" where
  "audited_disable_user actor now user_id_or_email audit_id audit_now db =
     and_then (and_then (resolve_user_id_conn db user_id_or_email) (user_by_id_conn db)) (\<lambda>user.
     and_then (disable_user_conn now db user_id_or_email) (\<lambda>(_, tx).
     audit_and_commit () (admin_audit_entry audit_id audit_now actor ''user.disable'' ''user''
       (u_id user) (''email='' @ u_email user)) tx))"

definition audited_enable_user ::
  "string \<Rightarrow> i64 \<Rightarrow> string \<Rightarrow> string \<Rightarrow> i64 \<Rightarrow> Db \<Rightarrow> (unit \<times> Db) core_result" where
  "audited_enable_user actor now user_id_or_email audit_id audit_now db =
     and_then (and_then (resolve_user_id_conn db user_id_or_email) (user_by_id_conn db)) (\<lambda>user.
     and_then (enable_user_conn now db user_id_or_email) (\<lambda>(_, tx).
     audit_and_commit () (admin_audit_entry audit_id audit_now actor ''user.enable'' ''user''
       (u_id user) (''email='' @ u_email user)) tx))"

definition audited_upsert ::
  "string \<Rightarrow> i64 \<Rightarrow> string \<Rightarrow> Resource \<Rightarrow> string \<Rightarrow> i64 \<Rightarrow> Db \<Rightarrow> (unit \<times> Db) core_result" where
  "audited_upsert actor now new_id resource audit_id audit_now db =
     and_then (resource_id_from_resource resource) (\<lambda>resource_id.
     let detail = ''name='' @ r_name resource @ '' lore_repository_id='' @ repository_id_from_resource_id resource_id in
     and_then (upsert_resource_conn now new_id resource db) (\<lambda>(_, tx).
     audit_and_commit () (admin_audit_entry audit_id audit_now actor ''repository.add'' ''repository''
       resource_id detail) tx))"

definition audited_delete ::
  "string \<Rightarrow> i64 \<Rightarrow> string \<Rightarrow> string \<Rightarrow> i64 \<Rightarrow> Db \<Rightarrow> (unit \<times> Db) core_result" where
  "audited_delete actor now resource_id audit_id audit_now db =
     and_then (delete_resource_conn now resource_id db) (\<lambda>(_, tx).
     audit_and_commit () (admin_audit_entry audit_id audit_now actor ''repository.disable'' ''repository''
       resource_id []) tx)"

definition audited_add_group ::
  "string \<Rightarrow> i64 \<Rightarrow> string \<Rightarrow> string \<Rightarrow> string \<Rightarrow> string \<Rightarrow> i64 \<Rightarrow> Db \<Rightarrow> (Group \<times> Db) core_result" where
  "audited_add_group actor now new_id name description audit_id audit_now db =
     (let name = trim name in
      if name = [] then Inl (InvalidArgument [Lit ''group name must not be empty''])
      else
        let grp = \<lparr>g_id = new_id, g_name = name, g_description = description\<rparr> in
        and_then (map_err core_from_sql (insert_row groups_ixs no_fk
            \<lparr>pr_id = g_id grp, pr_name = g_name grp,
             pr_description = none_if_empty (g_description grp),
             pr_created_at = now, pr_updated_at = now\<rparr> (t_groups db)))
          (\<lambda>rows.
        audit_and_commit grp (admin_audit_entry audit_id audit_now actor ''group.add'' ''group''
          (g_id grp) (''name='' @ g_name grp)) (db\<lparr>t_groups := rows\<rparr>)))"

definition audited_add_group_member ::
  "string \<Rightarrow> i64 \<Rightarrow> string \<Rightarrow> string \<Rightarrow> string \<Rightarrow> i64 \<Rightarrow> Db \<Rightarrow> (unit \<times> Db) core_result" where
  "audited_add_group_member actor now grp user_email_or_id audit_id audit_now db =
     and_then (group_id_by_name_conn db grp) (\<lambda>group_id.
     and_then (resolve_user_id_conn db user_email_or_id) (\<lambda>user_id.
     and_then (map_err core_from_sql (insert_or_ignore group_members_ixs (group_members_fk db)
         \<lparr>mr_group_id = group_id, mr_user_id = user_id, mr_created_at = now\<rparr> (t_group_members db)))
       (\<lambda>rows.
     audit_and_commit () (admin_audit_entry audit_id audit_now actor ''group.member.add'' ''group''
       grp (''user='' @ user_email_or_id)) (db\<lparr>t_group_members := rows\<rparr>))))"

definition audited_remove_group_member ::
  "string \<Rightarrow> string \<Rightarrow> string \<Rightarrow> string \<Rightarrow> i64 \<Rightarrow> Db \<Rightarrow> (unit \<times> Db) core_result" where
  "audited_remove_group_member actor grp user_email_or_id audit_id audit_now db =
     and_then (group_id_by_name_conn db grp) (\<lambda>group_id.
     and_then (resolve_user_id_conn db user_email_or_id) (\<lambda>user_id.
     let (changed, rows) = delete_rows (\<lambda>r. mr_group_id r = group_id \<and> mr_user_id r = user_id)
           (t_group_members db) in
     and_then (require_affected changed NotFound) (\<lambda>_.
     audit_and_commit () (admin_audit_entry audit_id audit_now actor ''group.member.remove'' ''group''
       grp (''user='' @ user_email_or_id)) (db\<lparr>t_group_members := rows\<rparr>))))"

text \<open>An edge that exists already is committed without an audit row.\<close>

definition audited_add_group_group ::
  "string \<Rightarrow> i64 \<Rightarrow> string \<Rightarrow> string \<Rightarrow> string \<Rightarrow> i64 \<Rightarrow> Db \<Rightarrow> (unit \<times> Db) core_result" where
  "audited_add_group_group actor now parent_group member_group audit_id audit_now db =
     and_then (group_id_by_name_or_id_conn db parent_group) (\<lambda>parent_group_id.
     and_then (group_id_by_name_or_id_conn db member_group) (\<lambda>member_group_id.
     if parent_group_id = member_group_id then
       Inl (InvalidArgument [Lit ''group cannot contain itself''])
     else if group_group_edge_exists_tx db parent_group_id member_group_id then Inr ((), db)
     else if group_group_would_cycle_tx db parent_group_id member_group_id then
       Inl (InvalidArgument [Lit ''group nesting would create a cycle''])
     else
       and_then (map_err core_from_sql (insert_row group_groups_ixs (group_groups_fk db)
           \<lparr>nr_group_id = parent_group_id, nr_member_group_id = member_group_id, nr_created_at = now\<rparr>
           (t_group_groups db)))
         (\<lambda>rows.
       audit_and_commit () (admin_audit_entry audit_id audit_now actor ''group.nest.add'' ''group''
         parent_group (''member_group='' @ member_group)) (db\<lparr>t_group_groups := rows\<rparr>))))"

definition audited_remove_group_group ::
  "string \<Rightarrow> string \<Rightarrow> string \<Rightarrow> string \<Rightarrow> i64 \<Rightarrow> Db \<Rightarrow> (unit \<times> Db) core_result" where
  "audited_remove_group_group actor parent_group member_group audit_id audit_now db =
     and_then (group_id_by_name_or_id_conn db parent_group) (\<lambda>parent_group_id.
     and_then (group_id_by_name_or_id_conn db member_group) (\<lambda>member_group_id.
     let (changed, rows) =
           delete_rows (\<lambda>r. nr_group_id r = parent_group_id \<and> nr_member_group_id r = member_group_id)
             (t_group_groups db) in
     and_then (require_affected changed NotFound) (\<lambda>_.
     audit_and_commit () (admin_audit_entry audit_id audit_now actor ''group.nest.remove'' ''group''
       parent_group (''member_group='' @ member_group)) (db\<lparr>t_group_groups := rows\<rparr>))))"

section \<open>The contract of an audited write\<close>

definition drop_result :: "('a \<times> Db) core_result \<Rightarrow> Db core_result" where
  "drop_result r = and_then r (\<lambda>(a, db). Inr db)"

text \<open>What auditing adds to a write: a failing write fails as before; a write that succeeds either
  had nothing to do, or is committed together with one audit row of the actor, or, when that row
  cannot be stored, fails as a whole.\<close>

definition written_with_audit ::
  "string \<Rightarrow> string \<Rightarrow> i64 \<Rightarrow> (Db \<Rightarrow> Db core_result) \<Rightarrow> (Db \<Rightarrow> Db core_result) \<Rightarrow> bool" where
  "written_with_audit actor aid anow plain audited \<longleftrightarrow> (\<forall>db.
     case plain db of
       Inl e \<Rightarrow> audited db = Inl e
     | Inr tx \<Rightarrow>
         (tx = db \<and> audited db = Inr db) \<or>
         (if aid \<in> aa_id ` set (t_admin_audit db)
          then \<exists>m. audited db = Inl (AdminAuditFailed m)
          else \<exists>e. aa_actor e = actor \<and> aa_id e = aid \<and> aa_created_at e = anow \<and>
                   audited db = Inr (tx\<lparr>t_admin_audit := t_admin_audit db @ [e]\<rparr>)))"

text \<open>\<open>plain\<close> is the write, \<open>entry\<close> the audit row it is recorded with (none when there was
  nothing to do), \<open>audited\<close> the two in one transaction.\<close>

locale audited_write =
  fixes plain :: "Db \<Rightarrow> ('a \<times> Db) core_result"
    and entry :: "Db \<Rightarrow> 'a \<Rightarrow> AdminAuditEntry option"
    and audited :: "Db \<Rightarrow> ('a \<times> Db) core_result"
  assumes audited_eq: "audited db = and_then (plain db) (\<lambda>(a, tx).
      case entry db a of None \<Rightarrow> Inr (a, tx) | Some e \<Rightarrow> audit_and_commit a e tx)"
    and plain_audit: "plain db = Inr (a, tx) \<Longrightarrow> t_admin_audit tx = t_admin_audit db"
    and plain_schema: "schema_ok db \<Longrightarrow> plain db = Inr (a, tx) \<Longrightarrow> schema_ok tx"
begin

lemma audited_Inr:
  "audited db = Inr (a, db') \<longleftrightarrow> (\<exists>tx. plain db = Inr (a, tx) \<and>
     (case entry db a of
        None \<Rightarrow> db' = tx
      | Some e \<Rightarrow> insert_row admin_audit_ixs no_fk e (t_admin_audit db) = Inr (t_admin_audit db @ [e]) \<and>
                  db' = tx\<lparr>t_admin_audit := t_admin_audit db @ [e]\<rparr>))"
proof (cases "plain db")
  case (Inr p)
  obtain b tx where p: "p = (b, tx)" by (cases p)
  with Inr plain_audit [of db b tx] show ?thesis
    by (cases "entry db b")
      (auto simp: audited_eq audit_and_commit_def insert_admin_audit_conn_def res_simps insert_row_Inr)
qed (simp add: audited_eq)

text \<open>All or nothing: an audited write fails exactly when the write fails or its audit row cannot
  be stored.\<close>

lemma audited_iff:
  "(\<exists>a db'. audited db = Inr (a, db')) \<longleftrightarrow> (\<exists>a tx. plain db = Inr (a, tx) \<and>
     (\<forall>e. entry db a = Some e \<longrightarrow> aa_id e \<notin> aa_id ` set (t_admin_audit db)))"
proof (cases "plain db")
  case (Inr p)
  obtain b tx where p: "p = (b, tx)" by (cases p)
  with Inr show ?thesis
    by (cases "entry db b") (auto simp: audited_Inr insert_row_Inr admin_audit_ixs_def key_conflict_def no_fk_def)
qed (simp add: audited_eq)

lemma audited_schema:
  assumes "schema_ok db" "audited db = Inr (a, db')"
  shows "schema_ok db'"
proof -
  from assms(2) obtain tx where tx: "plain db = Inr (a, tx)"
    "case entry db a of None \<Rightarrow> db' = tx | Some e \<Rightarrow>
       insert_row admin_audit_ixs no_fk e (t_admin_audit db) = Inr (t_admin_audit db @ [e]) \<and>
       db' = tx\<lparr>t_admin_audit := t_admin_audit db @ [e]\<rparr>"
    by (auto simp: audited_Inr)
  note ok = plain_schema [OF assms(1) tx(1)]
  show ?thesis
  proof (cases "entry db a")
    case (Some e)
    with tx(2) have "insert_row admin_audit_ixs no_fk e (t_admin_audit db) = Inr (t_admin_audit db @ [e])"
      and db': "db' = tx\<lparr>t_admin_audit := t_admin_audit db @ [e]\<rparr>" by auto
    from table_ok_insert [OF schema_okD(16) [OF assms(1)] this(1)] show ?thesis
      unfolding db' by (rule schema_ok_leaf(12) [OF ok])
  qed (use tx(2) ok in simp)
qed

lemma plain_error: "plain db = Inl e \<Longrightarrow> audited db = Inl e"
  by (simp add: audited_eq)

text \<open>When every entry carries the actor and a write without an entry changes nothing.\<close>

lemma audited_by_actor:
  assumes entries: "\<And>db a e. entry db a = Some e \<Longrightarrow> aa_actor e = actor \<and> aa_id e = aid \<and> aa_created_at e = anow"
    and none: "\<And>db a tx. plain db = Inr (a, tx) \<Longrightarrow> entry db a = None \<Longrightarrow> tx = db"
  shows "written_with_audit actor aid anow (\<lambda>db. drop_result (plain db)) (\<lambda>db. drop_result (audited db))"
  unfolding written_with_audit_def drop_result_def
proof (intro allI)
  fix db
  show "case and_then (plain db) (\<lambda>(a, db). Inr db) of
      Inl e \<Rightarrow> and_then (audited db) (\<lambda>(a, db). Inr db) = Inl e
    | Inr tx \<Rightarrow>
        (tx = db \<and> and_then (audited db) (\<lambda>(a, db). Inr db) = Inr db) \<or>
        (if aid \<in> aa_id ` set (t_admin_audit db)
         then \<exists>m. and_then (audited db) (\<lambda>(a, db). Inr db) = Inl (AdminAuditFailed m)
         else \<exists>e. aa_actor e = actor \<and> aa_id e = aid \<and> aa_created_at e = anow \<and>
                  and_then (audited db) (\<lambda>(a, db). Inr db) = Inr (tx\<lparr>t_admin_audit := t_admin_audit db @ [e]\<rparr>))"
  proof (cases "plain db")
    case (Inl e)
    then show ?thesis by (simp add: plain_error)
  next
    case (Inr p)
    obtain a tx where p: "p = (a, tx)" by (cases p)
    have aud: "t_admin_audit tx = t_admin_audit db" using plain_audit Inr p by simp
    show ?thesis
    proof (cases "entry db a")
      case None
      with none Inr p have "tx = db" by simp
      with None Inr p show ?thesis by (simp add: audited_eq)
    next
      case (Some e)
      have ins: "insert_row admin_audit_ixs no_fk e (t_admin_audit db) =
          (if aid \<in> aa_id ` set (t_admin_audit db) then Inl (UniqueConstraint ''admin_audit.id'')
           else Inr (t_admin_audit db @ [e]))"
        using entries [OF Some] by (auto simp: insert_row_def admin_audit_ixs_def key_conflict_def no_fk_def)
      from entries [OF Some] Some Inr p aud ins show ?thesis
        by (auto simp: audited_eq audit_and_commit_def insert_admin_audit_conn_def admin_audit_failed_def)
    qed
  qed
qed

end


section \<open>Every administrative write satisfies it\<close>

lemma and_then_assoc: "and_then (and_then r f) g = and_then r (\<lambda>a. and_then (f a) g)"
  by (cases r) auto

lemma and_then_map_err_Inr: "and_then (and_then r (\<lambda>rows. Inr (f rows))) g = and_then r (\<lambda>rows. g (f rows))"
  by (cases r) auto

interpretation aud_signing_key: audited_write "add_signing_key_meta_conn now key"
  "\<lambda>db key. Some (admin_audit_entry audit_id audit_now actor ''signing_key.generate'' ''signing_key''
     (sk_kid key) (''kid='' @ sk_kid key @ '' alg='' @ sk_alg key @ '' bits='' @ bits))"
  "audited_add_signing_key_meta actor now key bits audit_id audit_now"
  by unfold_locales
    (auto simp: audited_add_signing_key_meta_def add_signing_key_meta_schema
      dest: add_signing_key_meta_schema, auto simp: add_signing_key_meta_conn_def Let_def res_simps)

interpretation aud_add_grant: audited_write "add_grant_conn now new_id ty sid repo role"
  "\<lambda>db g. Some (admin_audit_entry audit_id audit_now actor ''grant.add'' ''grant'' (gr_id g) (grant_detail ty sid repo role))"
  "audited_add_grant actor now new_id ty sid repo role audit_id audit_now"
  by unfold_locales
    (auto simp: audited_add_grant_def dest: add_grant_schema,
      auto simp: add_grant_conn_def Let_def res_simps split: if_splits)

interpretation aud_remove_grant: audited_write "remove_grant_conn ty sid repo role"
  "\<lambda>db _. Some (admin_audit_entry audit_id audit_now actor ''grant.remove'' ''grant''
     (ty @ '':'' @ sid @ '':'' @ repo @ '':'' @ role) (grant_detail ty sid repo role))"
  "audited_remove_grant actor ty sid repo role audit_id audit_now"
  by unfold_locales
    (auto simp: audited_remove_grant_def dest: remove_grant_schema,
      auto simp: remove_grant_conn_def delete_rows_def res_simps)

interpretation aud_add_user: audited_write "add_user_conn now new_id input"
  "\<lambda>db u. Some (admin_audit_entry audit_id audit_now actor ''user.add'' ''user'' (u_id u) (''email='' @ u_email u))"
  "audited_add_user actor now new_id input audit_id audit_now"
  by unfold_locales
    (auto simp: audited_add_user_def dest: add_user_conn_schema,
      auto simp: add_user_conn_def Let_def res_simps)

interpretation aud_add_invitation: audited_write "add_invitation_db now uid iid input"
  "\<lambda>db (u, v). Some (admin_audit_entry audit_id audit_now actor ''user.invite'' ''user'' (u_id u)
     (''email='' @ u_email u @ '' invitation_id='' @ ii_id v))"
  "audited_add_invitation actor now uid iid input audit_id audit_now"
  by unfold_locales
    (auto simp: audited_add_invitation_def case_prod_unfold dest: add_invitation_db_schema,
      auto simp: add_invitation_db_def Let_def res_simps split: if_splits)

lemma upsert_frame:
  assumes "upsert_resource_conn now i res db = Inr (x, db')"
  shows "\<exists>rows. db' = db\<lparr>t_repositories := rows\<rparr>"
proof -
  from assms obtain rid where rid: "resource_id_from_resource res = Inr rid"
    by (auto simp: upsert_resource_conn_def res_simps)
  let ?lid = "repository_id_from_resource_id rid"
  show ?thesis
  proof (cases "trim (r_remote_url res) = []")
    case True
    with assms rid show ?thesis
      by (cases "filter (\<lambda>r. rr_lore_repository_id r = ?lid) (t_repositories db) = []")
        (auto simp: upsert_resource_conn_def Let_def update_rows_plain res_simps)
  next
    case False
    with assms rid show ?thesis
      by (cases "find (\<lambda>r. rr_lore_repository_id r = ?lid) (t_repositories db)")
        (auto simp: upsert_resource_conn_def Let_def res_simps)
  qed
qed

interpretation aud_upsert: audited_write "upsert_resource_conn now new_id res"
  "\<lambda>db _. Some (admin_audit_entry audit_id audit_now actor ''repository.add'' ''repository''
     (case resource_id_from_resource res of Inr rid \<Rightarrow> rid | Inl _ \<Rightarrow> [])
     (''name='' @ r_name res @ '' lore_repository_id='' @
        (case resource_id_from_resource res of Inr rid \<Rightarrow> repository_id_from_resource_id rid | Inl _ \<Rightarrow> [])))"
  "audited_upsert actor now new_id res audit_id audit_now"
proof unfold_locales
  fix db :: Db
  show "audited_upsert actor now new_id res audit_id audit_now db =
    and_then (upsert_resource_conn now new_id res db) (\<lambda>(a, tx). case Some (admin_audit_entry audit_id audit_now actor
      ''repository.add'' ''repository'' (case resource_id_from_resource res of Inr rid \<Rightarrow> rid | Inl _ \<Rightarrow> [])
      (''name='' @ r_name res @ '' lore_repository_id='' @
        (case resource_id_from_resource res of Inr rid \<Rightarrow> repository_id_from_resource_id rid | Inl _ \<Rightarrow> []))) of
      None \<Rightarrow> Inr (a, tx) | Some e \<Rightarrow> audit_and_commit a e tx)"
    by (cases "resource_id_from_resource res") (auto simp: audited_upsert_def upsert_resource_conn_def Let_def)
  fix a :: unit and tx :: Db
  show "schema_ok db \<Longrightarrow> upsert_resource_conn now new_id res db = Inr (a, tx) \<Longrightarrow> schema_ok tx"
    by (rule upsert_resource_schema)
  assume "upsert_resource_conn now new_id res db = Inr (a, tx)"
  then show "t_admin_audit tx = t_admin_audit db"
    using upsert_frame by fastforce
qed

interpretation aud_delete: audited_write "delete_resource_conn now rid"
  "\<lambda>db _. Some (admin_audit_entry audit_id audit_now actor ''repository.disable'' ''repository'' rid [])"
  "audited_delete actor now rid audit_id audit_now"
  by unfold_locales
    (auto simp: audited_delete_def dest: delete_resource_schema,
      auto simp: delete_resource_conn_def Let_def res_simps)

text \<open>Disabling and enabling look the user up for the audit row first; the lookup fails only when the
  write would fail with the same error.\<close>

definition named_user :: "string \<Rightarrow> Db \<Rightarrow> User core_result" where
  "named_user x db = and_then (resolve_user_id_conn db x) (user_by_id_conn db)"

definition user_entry :: "string \<Rightarrow> i64 \<Rightarrow> string \<Rightarrow> string \<Rightarrow> string \<Rightarrow> Db \<Rightarrow> AdminAuditEntry option" where
  "user_entry audit_id audit_now actor action x db =
     (case named_user x db of Inl _ \<Rightarrow> None | Inr user \<Rightarrow>
        Some (admin_audit_entry audit_id audit_now actor action ''user'' (u_id user) (''email='' @ u_email user)))"

lemma named_user_Inl:
  assumes "named_user x db = Inl e"
  shows "set_user_status_conn st now db x = Inl e"
proof (cases "resolve_user_id_conn db x")
  case (Inr i)
  with assms have "find (\<lambda>r. ur_id r = i \<and> ur_status r \<noteq> ''deleted'') (t_users db) = None" "e = NotFound"
    by (auto simp: named_user_def user_by_id_conn_def res_simps)
  then have "filter (\<lambda>r. ur_id r = i \<and> ur_status r \<noteq> ''deleted'') (t_users db) = []"
    by (auto simp: find_None_iff filter_empty_conv)
  with Inr \<open>e = NotFound\<close> show ?thesis
    by (simp add: set_user_status_conn_def update_rows_plain require_affected_def)
qed (use assms in \<open>simp add: named_user_def set_user_status_conn_def\<close>)

lemma set_user_status_frame:
  "set_user_status_conn st now db x = Inr (y, db') \<Longrightarrow> \<exists>rows. db' = db\<lparr>t_users := rows\<rparr>"
  by (auto simp: set_user_status_conn_def res_simps)

interpretation aud_disable_user: audited_write "\<lambda>db. disable_user_conn now db x"
  "\<lambda>db _. user_entry audit_id audit_now actor ''user.disable'' x db"
  "audited_disable_user actor now x audit_id audit_now"
proof unfold_locales
  fix db :: Db
  show "audited_disable_user actor now x audit_id audit_now db =
    and_then (disable_user_conn now db x) (\<lambda>(a, tx). case user_entry audit_id audit_now actor ''user.disable'' x db of
      None \<Rightarrow> Inr (a, tx) | Some e \<Rightarrow> audit_and_commit a e tx)"
    using named_user_Inl [of x db]
    by (cases "named_user x db")
      (auto simp: audited_disable_user_def named_user_def [symmetric] user_entry_def disable_user_conn_def)
  fix a tx
  show "disable_user_conn now db x = Inr (a, tx) \<Longrightarrow> t_admin_audit tx = t_admin_audit db"
    by (auto simp: disable_user_conn_def dest!: set_user_status_frame)
  show "schema_ok db \<Longrightarrow> disable_user_conn now db x = Inr (a, tx) \<Longrightarrow> schema_ok tx"
    by (auto simp: disable_user_conn_def intro: set_user_status_schema)
qed

interpretation aud_enable_user: audited_write "\<lambda>db. enable_user_conn now db x"
  "\<lambda>db _. user_entry audit_id audit_now actor ''user.enable'' x db"
  "audited_enable_user actor now x audit_id audit_now"
proof unfold_locales
  fix db :: Db
  show "audited_enable_user actor now x audit_id audit_now db =
    and_then (enable_user_conn now db x) (\<lambda>(a, tx). case user_entry audit_id audit_now actor ''user.enable'' x db of
      None \<Rightarrow> Inr (a, tx) | Some e \<Rightarrow> audit_and_commit a e tx)"
    using named_user_Inl [of x db]
    by (cases "named_user x db")
      (auto simp: audited_enable_user_def named_user_def [symmetric] user_entry_def enable_user_conn_def)
  fix a tx
  show "enable_user_conn now db x = Inr (a, tx) \<Longrightarrow> t_admin_audit tx = t_admin_audit db"
    by (auto simp: enable_user_conn_def dest!: set_user_status_frame)
  show "schema_ok db \<Longrightarrow> enable_user_conn now db x = Inr (a, tx) \<Longrightarrow> schema_ok tx"
    by (auto simp: enable_user_conn_def intro: set_user_status_schema)
qed

interpretation aud_add_group: audited_write "add_group now new_id name descr"
  "\<lambda>db g. Some (admin_audit_entry audit_id audit_now actor ''group.add'' ''group'' (g_id g) (''name='' @ g_name g))"
  "audited_add_group actor now new_id name descr audit_id audit_now"
  by unfold_locales
    (auto simp: audited_add_group_def add_group_def Let_def and_then_assoc dest: add_group_schema,
      auto simp: add_group_def Let_def res_simps split: if_splits)

interpretation aud_add_member: audited_write "add_group_member now grp u"
  "\<lambda>db _. Some (admin_audit_entry audit_id audit_now actor ''group.member.add'' ''group'' grp (''user='' @ u))"
  "audited_add_group_member actor now grp u audit_id audit_now"
  by unfold_locales
    (simp add: audited_add_group_member_def add_group_member_def and_then_assoc,
      fastforce simp: add_group_member_def res_simps, erule (1) add_group_member_schema)

interpretation aud_remove_member: audited_write "remove_group_member grp u"
  "\<lambda>db _. Some (admin_audit_entry audit_id audit_now actor ''group.member.remove'' ''group'' grp (''user='' @ u))"
  "audited_remove_group_member actor grp u audit_id audit_now"
  by unfold_locales
    (simp add: audited_remove_group_member_def remove_group_member_def and_then_assoc delete_rows_def,
      fastforce simp: remove_group_member_def delete_rows_def res_simps, erule (1) remove_group_member_schema)

text \<open>Whether the nesting edge is there already, in which case nothing is recorded.\<close>

definition nesting_entry :: "string \<Rightarrow> i64 \<Rightarrow> string \<Rightarrow> string \<Rightarrow> string \<Rightarrow> Db \<Rightarrow> AdminAuditEntry option" where
  "nesting_entry audit_id audit_now actor p m db =
     (case (group_id_by_name_or_id_conn db p, group_id_by_name_or_id_conn db m) of
        (Inr pid, Inr mid) \<Rightarrow> if group_group_edge_exists_tx db pid mid then None
          else Some (admin_audit_entry audit_id audit_now actor ''group.nest.add'' ''group'' p (''member_group='' @ m))
      | _ \<Rightarrow> None)"

interpretation aud_nest: audited_write "add_group_group now p m"
  "\<lambda>db _. nesting_entry audit_id audit_now actor p m db"
  "audited_add_group_group actor now p m audit_id audit_now"
proof unfold_locales
  fix db :: Db
  show "audited_add_group_group actor now p m audit_id audit_now db =
    and_then (add_group_group now p m db) (\<lambda>(a, tx). case nesting_entry audit_id audit_now actor p m db of
      None \<Rightarrow> Inr (a, tx) | Some e \<Rightarrow> audit_and_commit a e tx)"
    by (cases "group_id_by_name_or_id_conn db p"; cases "group_id_by_name_or_id_conn db m")
      (auto simp: audited_add_group_group_def add_group_group_def nesting_entry_def and_then_assoc)
  fix a tx
  show "add_group_group now p m db = Inr (a, tx) \<Longrightarrow> t_admin_audit tx = t_admin_audit db"
    by (auto simp: add_group_group_def res_simps split: if_splits)
  show "schema_ok db \<Longrightarrow> add_group_group now p m db = Inr (a, tx) \<Longrightarrow> schema_ok tx"
    by (rule add_group_group_schema)
qed

interpretation aud_unnest: audited_write "remove_group_group p m"
  "\<lambda>db _. Some (admin_audit_entry audit_id audit_now actor ''group.nest.remove'' ''group'' p (''member_group='' @ m))"
  "audited_remove_group_group actor p m audit_id audit_now"
  by unfold_locales
    (simp add: audited_remove_group_group_def remove_group_group_def and_then_assoc delete_rows_def,
      fastforce simp: remove_group_group_def delete_rows_def res_simps, erule (1) remove_group_group_schema)

section \<open>Administrative writes\<close>

text \<open>The writes of an administrator with the clock readings and ids they draw.\<close>

datatype admin_write =
    AddUser i64 string AddUserInput
  | AddInvitation i64 string string AddInvitationInput
  | DisableUser i64 string
  | EnableUser i64 string
  | AddGroup i64 string string string
  | AddGroupMember i64 string string
  | RemoveGroupMember string string
  | AddGroupGroup i64 string string
  | RemoveGroupGroup string string
  | UpsertResource i64 string Resource
  | DeleteResource i64 string
  | AddGrant i64 string string string string string
  | RemoveGrant string string string string
  | AddSigningKey i64 SigningKeyMeta string

fun run_plain :: "admin_write \<Rightarrow> Db \<Rightarrow> Db core_result" where
  "run_plain (AddUser now i input) db = drop_result (add_user_conn now i input db)"
| "run_plain (AddInvitation now i j input) db = drop_result (add_invitation_db now i j input db)"
| "run_plain (DisableUser now x) db = drop_result (disable_user_conn now db x)"
| "run_plain (EnableUser now x) db = drop_result (enable_user_conn now db x)"
| "run_plain (AddGroup now i n d) db = drop_result (add_group now i n d db)"
| "run_plain (AddGroupMember now g u) db = drop_result (add_group_member now g u db)"
| "run_plain (RemoveGroupMember g u) db = drop_result (remove_group_member g u db)"
| "run_plain (AddGroupGroup now p m) db = drop_result (add_group_group now p m db)"
| "run_plain (RemoveGroupGroup p m) db = drop_result (remove_group_group p m db)"
| "run_plain (UpsertResource now i res) db = drop_result (upsert_resource_conn now i res db)"
| "run_plain (DeleteResource now rid) db = drop_result (delete_resource_conn now rid db)"
| "run_plain (AddGrant now i ty s repo role) db = drop_result (add_grant_conn now i ty s repo role db)"
| "run_plain (RemoveGrant ty s repo role) db = drop_result (remove_grant_conn ty s repo role db)"
| "run_plain (AddSigningKey now key bits) db = drop_result (add_signing_key_meta_conn now key db)"

fun run_audited :: "string \<Rightarrow> string \<Rightarrow> i64 \<Rightarrow> admin_write \<Rightarrow> Db \<Rightarrow> Db core_result" where
  "run_audited actor aid anow (AddUser now i input) db = drop_result (audited_add_user actor now i input aid anow db)"
| "run_audited actor aid anow (AddInvitation now i j input) db = drop_result (audited_add_invitation actor now i j input aid anow db)"
| "run_audited actor aid anow (DisableUser now x) db = drop_result (audited_disable_user actor now x aid anow db)"
| "run_audited actor aid anow (EnableUser now x) db = drop_result (audited_enable_user actor now x aid anow db)"
| "run_audited actor aid anow (AddGroup now i n d) db = drop_result (audited_add_group actor now i n d aid anow db)"
| "run_audited actor aid anow (AddGroupMember now g u) db = drop_result (audited_add_group_member actor now g u aid anow db)"
| "run_audited actor aid anow (RemoveGroupMember g u) db = drop_result (audited_remove_group_member actor g u aid anow db)"
| "run_audited actor aid anow (AddGroupGroup now p m) db = drop_result (audited_add_group_group actor now p m aid anow db)"
| "run_audited actor aid anow (RemoveGroupGroup p m) db = drop_result (audited_remove_group_group actor p m aid anow db)"
| "run_audited actor aid anow (UpsertResource now i res) db = drop_result (audited_upsert actor now i res aid anow db)"
| "run_audited actor aid anow (DeleteResource now rid) db = drop_result (audited_delete actor now rid aid anow db)"
| "run_audited actor aid anow (AddGrant now i ty s repo role) db =
     drop_result (audited_add_grant actor now i ty s repo role aid anow db)"
| "run_audited actor aid anow (RemoveGrant ty s repo role) db =
     drop_result (audited_remove_grant actor ty s repo role aid anow db)"
| "run_audited actor aid anow (AddSigningKey now key bits) db =
     drop_result (audited_add_signing_key_meta actor now key bits aid anow db)"

lemma nesting_none:
  "add_group_group now p m db = Inr (a, tx) \<Longrightarrow> nesting_entry aid anow actor p m db = None \<Longrightarrow> tx = db"
  by (auto simp: add_group_group_def nesting_entry_def res_simps split: if_splits)

lemma user_entry_none:
  "set_user_status_conn st now db x = Inr (a, tx) \<Longrightarrow> user_entry aid anow actor act x db \<noteq> None"
  using named_user_Inl [of x db] by (auto simp: user_entry_def split: sum.splits)

lemmas entry_defs = admin_audit_entry_def user_entry_def nesting_entry_def

lemmas audited_by_actor =
  aud_add_user.audited_by_actor aud_add_invitation.audited_by_actor aud_disable_user.audited_by_actor
  aud_enable_user.audited_by_actor aud_add_group.audited_by_actor aud_add_member.audited_by_actor
  aud_remove_member.audited_by_actor aud_nest.audited_by_actor aud_unnest.audited_by_actor
  aud_upsert.audited_by_actor aud_delete.audited_by_actor aud_add_grant.audited_by_actor
  aud_remove_grant.audited_by_actor aud_signing_key.audited_by_actor

lemma run_written_with_audit: "written_with_audit actor aid anow (run_plain w) (run_audited actor aid anow w)"
  by (cases w; simp only: run_plain.simps [abs_def] run_audited.simps [abs_def]; rule audited_by_actor)
    (auto simp: entry_defs disable_user_conn_def enable_user_conn_def
      dest: nesting_none dest!: user_entry_none [unfolded entry_defs] split: if_splits sum.splits)

text \<open>C28: Administration is audited atomically. For every administrative write, every actor and
  every database: when the write fails, the audited write fails with the same error; when it
  succeeds, either it had nothing to change, or the audited write commits its effect together with
  exactly one new audit row of that actor, or, when that row cannot be stored, the whole
  operation fails with \<open>AdminAuditFailed\<close> and nothing is written.\<close>

theorem audited_atomic:
  "case run_plain w db of
     Inl e \<Rightarrow> run_audited actor aid anow w db = Inl e
   | Inr tx \<Rightarrow>
       (tx = db \<and> run_audited actor aid anow w db = Inr db) \<or>
       (if aid \<in> aa_id ` set (t_admin_audit db)
        then \<exists>m. run_audited actor aid anow w db = Inl (AdminAuditFailed m)
        else \<exists>e. aa_actor e = actor \<and> aa_id e = aid \<and> aa_created_at e = anow \<and>
                 run_audited actor aid anow w db = Inr (tx\<lparr>t_admin_audit := t_admin_audit db @ [e]\<rparr>))"
  using run_written_with_audit unfolding written_with_audit_def by blast

end
