(* ===== verification/Sqlite_Devices.thy ===== *)
theory Sqlite_Devices
  imports Sqlite_State
begin

text \<open>
  Device authorizations (\<open>sqlite/devices.rs\<close>): a device asks for access with a device code, a
  user approves it with the short user code, and the device picks the result up once. Theorems:
  an authorization moves from pending to approved to consumed, or from pending to expired, and
  nowhere else; codes are found again whatever their case and surrounding white space.
\<close>

section \<open>Operations\<close>

record CreateDeviceAuthorizationParams =
  cdp_device_code_hash :: string
  cdp_user_code_hash :: string
  cdp_requested_remote_url :: string
  cdp_requested_repository_id :: string
  cdp_ttl_seconds :: i64

record SqliteDeviceAuthorization =
  sd_id :: string
  sd_device_code_hash :: string
  sd_user_code_hash :: string
  sd_requested_remote_url :: string
  sd_requested_repository_id :: string
  sd_approved_user_id :: string
  sd_status :: string
  sd_created_at :: i64
  sd_expires_at :: i64
  sd_approved_at :: i64
  sd_consumed_at :: i64

definition Store_create_device_authorization ::
  "i64 \<Rightarrow> string \<Rightarrow> CreateDeviceAuthorizationParams \<Rightarrow> Db \<Rightarrow> (SqliteDeviceAuthorization \<times> Db) core_result" where
  "Store_create_device_authorization now new_id input db =
     (let device = \<lparr>sd_id = new_id, sd_device_code_hash = cdp_device_code_hash input,
            sd_user_code_hash = cdp_user_code_hash input,
            sd_requested_remote_url = cdp_requested_remote_url input,
            sd_requested_repository_id = cdp_requested_repository_id input, sd_approved_user_id = [],
            sd_status = ''pending'', sd_created_at = now,
            sd_expires_at = i64_add now (cdp_ttl_seconds input), sd_approved_at = 0, sd_consumed_at = 0\<rparr> in
      and_then (map_err core_from_sql (insert_row device_authorizations_ixs (device_authorizations_fk db)
          \<lparr>dr_id = sd_id device, dr_device_code_hash = sd_device_code_hash device,
           dr_user_code_hash = sd_user_code_hash device,
           dr_requested_remote_url = sd_requested_remote_url device,
           dr_requested_repository_id = none_if_empty (sd_requested_repository_id device),
           dr_approved_user_id = None, dr_status = sd_status device, dr_created_at = sd_created_at device,
           dr_expires_at = sd_expires_at device, dr_approved_at = None, dr_consumed_at = None\<rparr>
          (t_device_authorizations db)))
        (\<lambda>rows. Inr (device, db\<lparr>t_device_authorizations := rows\<rparr>)))"

definition device_from_row :: "device_authorizations_row \<Rightarrow> SqliteDeviceAuthorization" where
  "device_from_row row =
     \<lparr>sd_id = dr_id row, sd_device_code_hash = dr_device_code_hash row,
      sd_user_code_hash = dr_user_code_hash row, sd_requested_remote_url = dr_requested_remote_url row,
      sd_requested_repository_id = unwrap_or_default (dr_requested_repository_id row),
      sd_approved_user_id = unwrap_or_default (dr_approved_user_id row), sd_status = dr_status row,
      sd_created_at = dr_created_at row, sd_expires_at = dr_expires_at row,
      sd_approved_at = unwrap_or_zero (dr_approved_at row),
      sd_consumed_at = unwrap_or_zero (dr_consumed_at row)\<rparr>"

definition device_to_core :: "SqliteDeviceAuthorization \<Rightarrow> DeviceAuthorization" where
  "device_to_core device =
     \<lparr>da_id = sd_id device, da_requested_remote_url = sd_requested_remote_url device,
      da_requested_repository_id = sd_requested_repository_id device,
      da_approved_user_id = sd_approved_user_id device, da_status = sd_status device,
      da_created_at = sd_created_at device, da_expires_at = sd_expires_at device,
      da_approved_at = sd_approved_at device, da_consumed_at = sd_consumed_at device\<rparr>"

definition device_by_user_code_hash :: "Db \<Rightarrow> string \<Rightarrow> SqliteDeviceAuthorization core_result" where
  "device_by_user_code_hash db hash =
     ok_or NotFound (map_option device_from_row
       (find (\<lambda>r. dr_user_code_hash r = hash) (t_device_authorizations db)))"

definition device_by_device_code_hash :: "Db \<Rightarrow> string \<Rightarrow> SqliteDeviceAuthorization core_result" where
  "device_by_device_code_hash db hash =
     ok_or NotFound (map_option device_from_row
       (find (\<lambda>r. dr_device_code_hash r = hash) (t_device_authorizations db)))"

definition approve_device_authorization :: "i64 \<Rightarrow> string \<Rightarrow> string \<Rightarrow> Db \<Rightarrow> (unit \<times> Db) core_result" where
  "approve_device_authorization now i user_id db =
     and_then (map_err core_from_sql (update_rows [] (device_authorizations_fk db)
         (\<lambda>r. dr_id r = i \<and> dr_status r = ''pending'' \<and> dr_expires_at r > now)
         (\<lambda>r. r\<lparr>dr_status := ''approved'', dr_approved_user_id := Some user_id, dr_approved_at := Some now\<rparr>)
         (t_device_authorizations db)))
       (\<lambda>(changed, rows).
     and_then (require_affected changed NotFound) (\<lambda>_. Inr ((), db\<lparr>t_device_authorizations := rows\<rparr>)))"

definition consume_device_authorization :: "i64 \<Rightarrow> string \<Rightarrow> Db \<Rightarrow> (unit \<times> Db) core_result" where
  "consume_device_authorization now i db =
     and_then (map_err core_from_sql (update_rows [] no_fk
         (\<lambda>r. dr_id r = i \<and> dr_status r = ''approved'')
         (\<lambda>r. r\<lparr>dr_status := ''consumed'', dr_consumed_at := Some now\<rparr>) (t_device_authorizations db)))
       (\<lambda>(changed, rows).
     and_then (require_affected changed NotFound) (\<lambda>_. Inr ((), db\<lparr>t_device_authorizations := rows\<rparr>)))"

definition expire_device_authorization :: "string \<Rightarrow> Db \<Rightarrow> (unit \<times> Db) core_result" where
  "expire_device_authorization i db =
     and_then (map_err core_from_sql (update_rows [] no_fk
         (\<lambda>r. dr_id r = i \<and> dr_status r = ''pending'') (\<lambda>r. r\<lparr>dr_status := ''expired''\<rparr>)
         (t_device_authorizations db)))
       (\<lambda>(_, rows). Inr ((), db\<lparr>t_device_authorizations := rows\<rparr>))"

definition create_device_authorization ::
  "(string \<Rightarrow> string) \<Rightarrow> i64 \<Rightarrow> string \<Rightarrow> CreateDeviceAuthorizationInput \<Rightarrow> Db
     \<Rightarrow> (DeviceAuthorization \<times> Db) core_result" where
  "create_device_authorization sha now new_id input db =
     and_then (Store_create_device_authorization now new_id
         \<lparr>cdp_device_code_hash = hash_code sha (cd_device_code input),
          cdp_user_code_hash = hash_code sha (cd_user_code input),
          cdp_requested_remote_url = cd_requested_remote_url input,
          cdp_requested_repository_id = cd_requested_repository_id input,
          cdp_ttl_seconds = ttl_seconds (cd_ttl input)\<rparr> db)
       (\<lambda>(device, db). Inr (device_to_core device, db))"

definition device_by_user_code :: "(string \<Rightarrow> string) \<Rightarrow> Db \<Rightarrow> string \<Rightarrow> DeviceAuthorization core_result" where
  "device_by_user_code sha db user_code =
     and_then (device_by_user_code_hash db (hash_code sha user_code)) (\<lambda>d. Inr (device_to_core d))"

definition device_by_device_code :: "(string \<Rightarrow> string) \<Rightarrow> Db \<Rightarrow> string \<Rightarrow> DeviceAuthorization core_result" where
  "device_by_device_code sha db device_code =
     and_then (device_by_device_code_hash db (hash_code sha device_code)) (\<lambda>d. Inr (device_to_core d))"

section \<open>The schema invariant is kept\<close>

lemma create_device_authorization_schema:
  "schema_ok db \<Longrightarrow> create_device_authorization sha now i input db = Inr (x, db') \<Longrightarrow> schema_ok db'"
  by (auto simp: create_device_authorization_def Store_create_device_authorization_def Let_def res_simps
      intro!: schema_ok_leaf(9) intro: table_ok_insert [OF schema_okD(13)])

lemma approve_device_authorization_schema:
  "schema_ok db \<Longrightarrow> approve_device_authorization now i u db = Inr (x, db') \<Longrightarrow> schema_ok db'"
  by (auto simp: approve_device_authorization_def res_simps device_authorizations_ixs_def
      intro!: schema_ok_leaf(9) elim!: table_ok_update [OF schema_okD(13), rotated])

lemma consume_device_authorization_schema:
  "schema_ok db \<Longrightarrow> consume_device_authorization now i db = Inr (x, db') \<Longrightarrow> schema_ok db'"
  by (auto simp: consume_device_authorization_def res_simps device_authorizations_ixs_def
      device_authorizations_fk_def intro!: schema_ok_leaf(9) elim!: table_ok_update [OF schema_okD(13), rotated])

lemma expire_device_authorization_schema:
  "schema_ok db \<Longrightarrow> expire_device_authorization i db = Inr (x, db') \<Longrightarrow> schema_ok db'"
  by (auto simp: expire_device_authorization_def res_simps device_authorizations_ixs_def
      device_authorizations_fk_def intro!: schema_ok_leaf(9) elim!: table_ok_update [OF schema_okD(13), rotated])

section \<open>The life of an authorization\<close>

definition device_row :: "Db \<Rightarrow> string \<Rightarrow> device_authorizations_row option" where
  "device_row db i = find (\<lambda>r. dr_id r = i) (t_device_authorizations db)"

lemma device_row_iff:
  "schema_ok db \<Longrightarrow> device_row db i = Some r \<longleftrightarrow> r \<in> set (t_device_authorizations db) \<and> dr_id r = i"
  unfolding device_row_def by (rule devices_id.find_iff) auto

lemma device_filter_one:
  assumes "schema_ok db" "device_row db i = Some r" "\<And>x. P x \<Longrightarrow> dr_id x = i"
  shows "filter P (t_device_authorizations db) = [] \<longleftrightarrow> \<not> P r"
proof
  assume none: "filter P (t_device_authorizations db) = []"
  from assms(1,2) have "r \<in> set (t_device_authorizations db)" by (simp add: device_row_iff)
  with none show "\<not> P r" by (simp add: filter_empty_conv)
next
  assume "\<not> P r"
  have "x = r" if "x \<in> set (t_device_authorizations db)" "P x" for x
    using devices_id.same_row [OF assms(1) that(1), of r] assms that by (auto simp: device_row_iff)
  with \<open>\<not> P r\<close> show "filter P (t_device_authorizations db) = []" by (auto simp: filter_empty_conv)
qed

text \<open>The effect of an update of one authorization, for all three updates.\<close>

lemma device_update_row:
  assumes "schema_ok db" "device_row db i = Some r" "\<And>x. P x \<Longrightarrow> dr_id x = i" "\<And>x. dr_id (f x) = dr_id x"
    and "t_device_authorizations db' = map (\<lambda>x. if P x then f x else x) (t_device_authorizations db)"
  shows "device_row db' j = (if j = i \<and> P r then Some (f r) else device_row db j)"
proof -
  have "device_row db' j = map_option (\<lambda>r. if P r then f r else r) (device_row db j)"
    unfolding device_row_def assms(5) by (rule find_update_key) (rule assms(4))
  moreover have "\<not> P x" if "device_row db j = Some x" "j \<noteq> i" for x
    using that assms(1,3) by (auto simp: device_row_iff)
  ultimately show ?thesis using assms(2) by (cases "device_row db j"; cases "j = i") simp_all
qed

lemma approve_eq:
  assumes "schema_ok db" "device_row db i = Some r"
  shows "approve_device_authorization now i u db =
    (if dr_status r = ''pending'' \<and> dr_expires_at r > now then
       if user_exists db u then
         Inr ((), db\<lparr>t_device_authorizations := map (\<lambda>x. if dr_id x = i \<and> dr_status x = ''pending'' \<and> dr_expires_at x > now
           then x\<lparr>dr_status := ''approved'', dr_approved_user_id := Some u, dr_approved_at := Some now\<rparr> else x)
           (t_device_authorizations db)\<rparr>)
       else Inl (InvalidArgument [Lit ''sqlite: '', DispSql ForeignKeyConstraint])
     else Inl NotFound)"
proof -
  let ?P = "\<lambda>x. dr_id x = i \<and> dr_status x = ''pending'' \<and> dr_expires_at x > now"
  let ?f = "\<lambda>x. x\<lparr>dr_status := ''approved'', dr_approved_user_id := Some u, dr_approved_at := Some now\<rparr>"
  have 1: "filter ?P (t_device_authorizations db) = [] \<longleftrightarrow> \<not> ?P r" by (rule device_filter_one [OF assms]) auto
  have 2: "?P r \<longleftrightarrow> dr_status r = ''pending'' \<and> dr_expires_at r > now"
    using assms by (auto simp: device_row_iff)
  have "device_authorizations_fk db (?f x) \<longleftrightarrow> user_exists db u" if "x \<in> set (t_device_authorizations db)" for x
    using schema_okD(13) [OF assms(1)] that
    by (auto simp: table_ok_def list_all_iff device_authorizations_fk_def ref_ok_def)
  then have "list_all (device_authorizations_fk db) (map ?f (filter ?P (t_device_authorizations db))) \<longleftrightarrow>
      filter ?P (t_device_authorizations db) = [] \<or> user_exists db u"
    by (auto simp: list_all_iff filter_empty_conv)
  with 1 2 show ?thesis
    by (auto simp: approve_device_authorization_def update_rows_def Let_def require_affected_def core_from_sql_def)
qed

lemma consume_eq:
  assumes "schema_ok db" "device_row db i = Some r"
  shows "consume_device_authorization now i db =
    (if dr_status r = ''approved'' then
       Inr ((), db\<lparr>t_device_authorizations := map (\<lambda>x. if dr_id x = i \<and> dr_status x = ''approved''
         then x\<lparr>dr_status := ''consumed'', dr_consumed_at := Some now\<rparr> else x) (t_device_authorizations db)\<rparr>)
     else Inl NotFound)"
proof -
  let ?P = "\<lambda>x. dr_id x = i \<and> dr_status x = ''approved''"
  have "filter ?P (t_device_authorizations db) = [] \<longleftrightarrow> \<not> ?P r" by (rule device_filter_one [OF assms]) auto
  moreover have "?P r \<longleftrightarrow> dr_status r = ''approved''" using assms by (auto simp: device_row_iff)
  ultimately show ?thesis
    by (auto simp: consume_device_authorization_def update_rows_plain require_affected_def)
qed

lemma expire_eq:
  "expire_device_authorization i db =
     Inr ((), db\<lparr>t_device_authorizations := map (\<lambda>x. if dr_id x = i \<and> dr_status x = ''pending''
       then x\<lparr>dr_status := ''expired''\<rparr> else x) (t_device_authorizations db)\<rparr>)"
  by (simp add: expire_device_authorization_def update_rows_plain)

text \<open>A device authorization moves from pending to approved to consumed, or from pending to
  expired, and nowhere else: approving needs a pending, unexpired authorization and an existing
  user and records that user; consuming needs an approved one; expiring changes only a pending
  one and always succeeds; every other attempt fails and each changes only its own row.\<close>

lemma device_transitions:
  assumes "schema_ok db" "device_row db i = Some r"
  shows "((\<exists>db'. approve_device_authorization now i u db = Inr ((), db')) \<longleftrightarrow>
      dr_status r = ''pending'' \<and> now < dr_expires_at r \<and> user_exists db u) \<and>
    ((\<exists>db'. consume_device_authorization now i db = Inr ((), db')) \<longleftrightarrow> dr_status r = ''approved'') \<and>
    (dr_status r \<noteq> ''approved'' \<longrightarrow> consume_device_authorization now i db = Inl NotFound) \<and>
    (\<forall>db' j. approve_device_authorization now i u db = Inr ((), db') \<longrightarrow> device_row db' j =
      (if j = i then Some (r\<lparr>dr_status := ''approved'', dr_approved_user_id := Some u, dr_approved_at := Some now\<rparr>)
       else device_row db j)) \<and>
    (\<forall>db' j. consume_device_authorization now i db = Inr ((), db') \<longrightarrow> device_row db' j =
      (if j = i then Some (r\<lparr>dr_status := ''consumed'', dr_consumed_at := Some now\<rparr>) else device_row db j)) \<and>
    (\<exists>db'. expire_device_authorization i db = Inr ((), db') \<and> (\<forall>j. device_row db' j =
      (if j = i \<and> dr_status r = ''pending'' then Some (r\<lparr>dr_status := ''expired''\<rparr>) else device_row db j)))"
proof (intro conjI)
  have i: "dr_id r = i" using assms by (simp add: device_row_iff)
  have "device_row db' j = (if j = i then Some (r\<lparr>dr_status := ''approved'', dr_approved_user_id := Some u,
      dr_approved_at := Some now\<rparr>) else device_row db j)"
    if "approve_device_authorization now i u db = Inr ((), db')" for db' j
    by (subst device_update_row [OF assms, of "\<lambda>x. dr_id x = i \<and> dr_status x = ''pending'' \<and> dr_expires_at x > now"
          "\<lambda>x. x\<lparr>dr_status := ''approved'', dr_approved_user_id := Some u, dr_approved_at := Some now\<rparr>"])
      (use that i in \<open>auto simp: approve_eq [OF assms] split: if_splits\<close>)
  then show "\<forall>db' j. approve_device_authorization now i u db = Inr ((), db') \<longrightarrow> device_row db' j =
      (if j = i then Some (r\<lparr>dr_status := ''approved'', dr_approved_user_id := Some u, dr_approved_at := Some now\<rparr>)
       else device_row db j)" by blast
  have "device_row db' j = (if j = i then Some (r\<lparr>dr_status := ''consumed'', dr_consumed_at := Some now\<rparr>)
      else device_row db j)" if "consume_device_authorization now i db = Inr ((), db')" for db' j
    by (subst device_update_row [OF assms, of "\<lambda>x. dr_id x = i \<and> dr_status x = ''approved''"
          "\<lambda>x. x\<lparr>dr_status := ''consumed'', dr_consumed_at := Some now\<rparr>"])
      (use that i in \<open>auto simp: consume_eq [OF assms] split: if_splits\<close>)
  then show "\<forall>db' j. consume_device_authorization now i db = Inr ((), db') \<longrightarrow> device_row db' j =
      (if j = i then Some (r\<lparr>dr_status := ''consumed'', dr_consumed_at := Some now\<rparr>) else device_row db j)"
    by blast
  have "device_row db' j = (if j = i \<and> dr_status r = ''pending'' then Some (r\<lparr>dr_status := ''expired''\<rparr>) else device_row db j)"
    if "expire_device_authorization i db = Inr ((), db')" for db' j
    by (subst device_update_row [OF assms, of "\<lambda>x. dr_id x = i \<and> dr_status x = ''pending''"
          "\<lambda>x. x\<lparr>dr_status := ''expired''\<rparr>"])
      (use that i in \<open>auto simp: expire_eq\<close>)
  then show "\<exists>db'. expire_device_authorization i db = Inr ((), db') \<and> (\<forall>j. device_row db' j =
      (if j = i \<and> dr_status r = ''pending'' then Some (r\<lparr>dr_status := ''expired''\<rparr>) else device_row db j))"
    using expire_eq [of i db] by blast
qed (auto simp: approve_eq [OF assms] consume_eq [OF assms])

text \<open>A device authorization is found again under both of its codes, in any letter case and
  with any surrounding white space: the lookup after a creation returns the authorization that was
  created, whatever form of the code is typed in, with the requested repository id trimmed.\<close>

lemma device_found_by_code:
  assumes "schema_ok db" "create_device_authorization sha now new_id input db = Inr (d, db')"
    and "to_ascii_uppercase (trim typed_user) = to_ascii_uppercase (trim (cd_user_code input))"
    and "to_ascii_uppercase (trim typed_device) = to_ascii_uppercase (trim (cd_device_code input))"
  shows "schema_ok db' \<and> da_status d = ''pending'' \<and>
    device_by_user_code sha db' typed_user = Inr (d\<lparr>da_requested_repository_id := trim (da_requested_repository_id d)\<rparr>) \<and>
    device_by_device_code sha db' typed_device = Inr (d\<lparr>da_requested_repository_id := trim (da_requested_repository_id d)\<rparr>)"
proof -
  note ok' = create_device_authorization_schema [OF assms(1,2)]
  from assms(2) obtain r where r: "r \<in> set (t_device_authorizations db')"
    "dr_user_code_hash r = hash_code sha (cd_user_code input)"
    "dr_device_code_hash r = hash_code sha (cd_device_code input)"
    "device_to_core (device_from_row r) = d\<lparr>da_requested_repository_id := trim (da_requested_repository_id d)\<rparr>"
    "da_status d = ''pending''"
    by (fastforce simp: create_device_authorization_def Store_create_device_authorization_def Let_def
        res_simps insert_row_Inr device_to_core_def device_from_row_def none_if_empty_def
        unwrap_or_default_def unwrap_or_zero_def)
  have "find (\<lambda>x. dr_user_code_hash x = hash_code sha typed_user) (t_device_authorizations db') = Some r"
    by (subst devices_user_code.find_iff [OF ok']) (use r assms(3) in \<open>auto simp: hash_code_def\<close>)
  moreover have "find (\<lambda>x. dr_device_code_hash x = hash_code sha typed_device) (t_device_authorizations db') = Some r"
    by (subst devices_code.find_iff [OF ok']) (use r assms(4) in \<open>auto simp: hash_code_def\<close>)
  ultimately show ?thesis
    using ok' r(4,5) by (simp add: device_by_user_code_def device_by_user_code_hash_def
        device_by_device_code_def device_by_device_code_hash_def)
qed

section \<open>A concrete authorization\<close>

definition demo_device :: device_authorizations_row where
  "demo_device = \<lparr>dr_id = ''d1'', dr_device_code_hash = ''DC'', dr_user_code_hash = ''UC'',
     dr_requested_remote_url = ''lore://h'', dr_requested_repository_id = None, dr_approved_user_id = None,
     dr_status = ''pending'', dr_created_at = 1, dr_expires_at = 100, dr_approved_at = None, dr_consumed_at = None\<rparr>"

definition demo_devices :: Db where
  "demo_devices = demo_state\<lparr>t_device_authorizations := [demo_device]\<rparr>"

definition demo_device_input :: CreateDeviceAuthorizationInput where
  "demo_device_input = \<lparr>cd_device_code = ''dev-1'', cd_user_code = ''ABCD-EFGH'',
     cd_requested_remote_url = ''lore://h'', cd_requested_repository_id = [], cd_ttl = 0\<rparr>"

lemma demo_devices_facts:
  "schema_ok demo_devices" "device_row demo_devices ''d1'' = Some demo_device" "user_exists demo_devices ''u1''"
  "hash_code (\<lambda>x. x) (cd_device_code demo_device_input) = ''DEV-1''"
  "hash_code (\<lambda>x. x) (cd_user_code demo_device_input) = ''ABCD-EFGH''"
  "to_ascii_uppercase (trim '' abcd-efgh '') = to_ascii_uppercase (trim (cd_user_code demo_device_input))"
  "to_ascii_uppercase (trim ''DEV-1'') = to_ascii_uppercase (trim (cd_device_code demo_device_input))"
  by code_simp+

lemma demo_device_created: "is_ok (create_device_authorization (\<lambda>x. x) 5 ''d2'' demo_device_input demo_devices)"
  unfolding create_device_authorization_def demo_devices_facts(4,5)
  by (simp add: Store_create_device_authorization_def Let_def demo_devices_def demo_state_defs
      device_authorizations_ixs_def device_authorizations_fk_def demo_device_def demo_device_input_def
      none_if_empty_def ref_ok_def)

lemma device_transitions_witness:
  "\<exists>db'. approve_device_authorization 50 ''d1'' ''u1'' demo_devices = Inr ((), db') \<and>
     consume_device_authorization 50 ''d1'' demo_devices = Inl NotFound"
  using device_transitions [OF demo_devices_facts(1,2), of 50 "''u1''"] demo_devices_facts(3)
  by (simp add: demo_device_def)

lemma device_found_by_code_witness:
  "\<exists>d db'. create_device_authorization (\<lambda>x. x) 5 ''d2'' demo_device_input demo_devices = Inr (d, db') \<and>
     (\<exists>d'. device_by_user_code (\<lambda>x. x) db' '' abcd-efgh '' = Inr d')"
proof -
  from is_ok_obtain [OF demo_device_created] obtain d db' where
    h: "create_device_authorization (\<lambda>x. x) 5 ''d2'' demo_device_input demo_devices = Inr (d, db')" by force
  from device_found_by_code [OF demo_devices_facts(1) h demo_devices_facts(6,7)] h show ?thesis by blast
qed

end
