(* ===== verification/Sqlite_System.thy ===== *)
theory Sqlite_System
  imports Sqlite_Audited Sqlite_Devices
begin

text \<open>
  The database as a whole: every write that the adapter can commit is a step of a transition
  relation (the operations run one at a time on the store's single connection, so an interleaving
  of requests is a sequence of such steps). The invariant, that all constraints of the schema
  hold, group nesting is acyclic and every grant names a known role and an existing subject, holds
  in every database reachable from the empty one; and what is consumed once stays consumed
  however requests interleave.
\<close>

section \<open>Steps\<close>

inductive db_step :: "Db \<Rightarrow> Db \<Rightarrow> bool" where
  migrating: "migrate n1 n2 n3 db = Inr ((), db') \<Longrightarrow> db_step db db'"
| admin: "run_plain w db = Inr db' \<Longrightarrow> db_step db db'"
| audited: "run_audited actor aid anow w db = Inr db' \<Longrightarrow> db_step db db'"
| login: "resolve_login_conn n1 n2 i req db = Inr (x, db') \<Longrightarrow> db_step db db'"
| new_auth_session: "create_auth_session sha c now i n cs ttl db = Inr (y, db') \<Longrightarrow> db_step db db'"
| complete: "complete_auth_session now i u db = Inr ((), db') \<Longrightarrow> db_step db db'"
| consume: "consume_auth_session now i db = Inr ((), db') \<Longrightarrow> db_step db db'"
| new_login_state: "create_login_state sha s now i inp ttl db = Inr (z, db') \<Longrightarrow> db_step db db'"
| set_private: "set_login_state_private_state sha now s p db = Inr ((), db') \<Longrightarrow> db_step db db'"
| consume_state: "consume_login_state sha n1 n2 n3 s db = Inr (ls, db') \<Longrightarrow> db_step db db'"
| new_browser_session: "create_browser_session now s u ttl db = Inr (bs, db') \<Longrightarrow> db_step db db'"
| revoke_session: "revoke_browser_session now s db = Inr ((), db') \<Longrightarrow> db_step db db'"
| new_csrf: "create_csrf_token sha t now s ttl db = Inr (tok, db') \<Longrightarrow> db_step db db'"
| consume_csrf: "consume_csrf_token sha n1 n2 s t db = Inr ((), db') \<Longrightarrow> db_step db db'"
| new_device: "create_device_authorization sha now i dinp db = Inr (d, db') \<Longrightarrow> db_step db db'"
| approve: "approve_device_authorization now i u db = Inr ((), db') \<Longrightarrow> db_step db db'"
| consume_device: "consume_device_authorization now i db = Inr ((), db') \<Longrightarrow> db_step db db'"
| expire_device: "expire_device_authorization i db = Inr ((), db') \<Longrightarrow> db_step db db'"
| log_token: "record_token to_json tk db = Inr ((), db') \<Longrightarrow> db_step db db'"
| revoke_token: "revoke_issued_token now jti db = Inr ((), db') \<Longrightarrow> db_step db db'"
| log_audit: "insert_admin_audit_conn e db = Inr ((), db') \<Longrightarrow> db_step db db'"

definition db_inv :: "Db \<Rightarrow> bool" where
  "db_inv db \<longleftrightarrow> schema_ok db \<and> nesting_acyclic db \<and> grants_ok db"

lemma db_inv_schema: "db_inv db \<Longrightarrow> schema_ok db"
  by (simp add: db_inv_def)

section \<open>Each write touches its own tables\<close>

text \<open>What a write outside groups and grants leaves alone.\<close>

definition access_same :: "Db \<Rightarrow> Db \<Rightarrow> bool" where
  "access_same db db' \<longleftrightarrow> t_group_groups db' = t_group_groups db \<and> t_grants db' = t_grants db \<and>
     ur_id ` set (t_users db) \<subseteq> ur_id ` set (t_users db') \<and> pr_id ` set (t_groups db) \<subseteq> pr_id ` set (t_groups db')"

lemma access_same_inv:
  "access_same db db' \<Longrightarrow> schema_ok db' \<Longrightarrow> db_inv db \<Longrightarrow> db_inv db'"
  by (auto simp: db_inv_def access_same_def nesting_acyclic_def descendant_edges_def user_exists_def
      group_exists_def elim!: grants_ok_mono) blast+

text \<open>The short-lived records.\<close>

definition flow_same :: "Db \<Rightarrow> Db \<Rightarrow> bool" where
  "flow_same db db' \<longleftrightarrow> t_auth_sessions db' = t_auth_sessions db \<and>
     t_login_transactions db' = t_login_transactions db \<and> t_csrf_tokens db' = t_csrf_tokens db \<and>
     t_device_authorizations db' = t_device_authorizations db \<and> t_sessions db' = t_sessions db"

lemma flow_same_refl [simp]: "flow_same db db"
  by (simp add: flow_same_def)

lemma admin_flow: "run_plain w db = Inr db' \<Longrightarrow> flow_same db db'"
proof (cases w)
  case (UpsertResource now i res)
  assume "run_plain w db = Inr db'"
  then obtain x where "upsert_resource_conn now i res db = Inr (x, db')"
    by (auto simp: UpsertResource drop_result_def res_simps)
  then show ?thesis using upsert_frame by (fastforce simp: flow_same_def)
qed (auto simp: drop_result_def res_simps Let_def delete_rows_def flow_same_def
    add_user_conn_def add_invitation_db_def disable_user_conn_def enable_user_conn_def
    set_user_status_conn_def add_group_def add_group_member_def remove_group_member_def
    add_group_group_def remove_group_group_def delete_resource_conn_def add_grant_conn_def
    remove_grant_conn_def add_signing_key_meta_conn_def split: if_splits)

lemma audited_cases:
  assumes "run_audited actor aid anow w db = Inr db'"
  obtains tx where "run_plain w db = Inr tx"
    "db' = tx \<or> (\<exists>e. db' = tx\<lparr>t_admin_audit := t_admin_audit db @ [e]\<rparr>)"
  using assms run_written_with_audit [of actor aid anow w, unfolded written_with_audit_def, rule_format, of db]
  by (auto split: sum.splits if_splits)

lemma audited_flow: "run_audited actor aid anow w db = Inr db' \<Longrightarrow> flow_same db db'"
  by (erule audited_cases) (auto dest!: admin_flow simp: flow_same_def)

lemma login_flow: "resolve_login_conn n1 n2 i req db = Inr (x, db') \<Longrightarrow> flow_same db db'"
  by (auto simp: resolve_login_conn_def login_existing_def login_bind_def Let_def res_simps flow_same_def
      split: if_splits option.splits)

section \<open>The invariant\<close>

lemma admin_schema: "schema_ok db \<Longrightarrow> run_plain w db = Inr db' \<Longrightarrow> schema_ok db'"
  by (cases w) (auto simp: drop_result_def res_simps disable_user_conn_def enable_user_conn_def
      elim: add_user_conn_schema add_invitation_db_schema set_user_status_schema add_group_schema
      add_group_member_schema remove_group_member_schema add_group_group_schema remove_group_group_schema
      upsert_resource_schema delete_resource_schema add_grant_schema remove_grant_schema
      add_signing_key_meta_schema)

fun changes_access :: "admin_write \<Rightarrow> bool" where
  "changes_access (AddGroupGroup now p m) = True"
| "changes_access (RemoveGroupGroup p m) = True"
| "changes_access (AddGrant now i ty s repo role) = True"
| "changes_access (RemoveGrant ty s repo role) = True"
| "changes_access _ = False"

lemma set_user_status_access:
  "set_user_status_conn st now db x = Inr (y, db') \<Longrightarrow> access_same db db'"
  by (auto simp: set_user_status_conn_def res_simps access_same_def dest!: update_rows_image [where g = ur_id])

lemma upsert_access: "upsert_resource_conn now i res db = Inr (x, db') \<Longrightarrow> access_same db db'"
  using upsert_frame by (fastforce simp: access_same_def)

lemma admin_access:
  assumes "run_plain w db = Inr db'" "\<not> changes_access w"
  shows "access_same db db'"
proof (cases w)
  case UpsertResource
  with assms(1) show ?thesis by (auto simp: drop_result_def res_simps intro: upsert_access)
next
  case DisableUser
  with assms(1) show ?thesis
    by (auto simp: drop_result_def res_simps disable_user_conn_def intro: set_user_status_access)
next
  case EnableUser
  with assms(1) show ?thesis
    by (auto simp: drop_result_def res_simps enable_user_conn_def intro: set_user_status_access)
qed (use assms in \<open>auto simp: drop_result_def res_simps add_user_conn_def add_invitation_db_def add_group_def
       add_group_member_def remove_group_member_def delete_resource_conn_def add_signing_key_meta_conn_def
       Let_def insert_row_Inr delete_rows_def access_same_def split: if_splits\<close>)

lemma nesting_grants:
  assumes "grants_ok db" "t_grants db' = t_grants db" "t_users db' = t_users db" "t_groups db' = t_groups db"
  shows "grants_ok db'"
  using assms by (elim grants_ok_mono) (simp_all add: user_exists_def group_exists_def)

lemma grant_nesting: "nesting_acyclic db \<Longrightarrow> t_group_groups db' = t_group_groups db \<Longrightarrow> nesting_acyclic db'"
  by (simp add: nesting_acyclic_def descendant_edges_def)

lemma add_nesting_grants: "grants_ok db \<Longrightarrow> add_group_group now p m db = Inr (x, db') \<Longrightarrow> grants_ok db'"
  by (erule nesting_grants) (auto simp: add_group_group_def res_simps split: if_splits)

lemma remove_nesting_grants: "grants_ok db \<Longrightarrow> remove_group_group p m db = Inr (x, db') \<Longrightarrow> grants_ok db'"
  by (erule nesting_grants) (auto simp: remove_group_group_def delete_rows_def res_simps)

lemma add_grant_nesting:
  "nesting_acyclic db \<Longrightarrow> add_grant_conn now i ty s repo role db = Inr (g, db') \<Longrightarrow> nesting_acyclic db'"
  by (erule grant_nesting) (auto simp: add_grant_conn_def Let_def res_simps split: if_splits)

lemma remove_grant_nesting:
  "nesting_acyclic db \<Longrightarrow> remove_grant_conn ty s repo role db = Inr (x, db') \<Longrightarrow> nesting_acyclic db'"
  by (erule grant_nesting) (auto simp: remove_grant_conn_def delete_rows_def res_simps)

lemma admin_inv:
  assumes "db_inv db" "run_plain w db = Inr db'"
  shows "db_inv db'"
proof (cases "changes_access w")
  case False
  with assms admin_schema admin_access show ?thesis by (blast intro: access_same_inv dest: db_inv_schema)
next
  case True
  have "nesting_acyclic db' \<and> grants_ok db'"
    using assms True
    by (cases w) (auto simp: db_inv_def drop_result_def res_simps elim: add_group_group_acyclic
        remove_group_group_acyclic add_grant_ok remove_grant_ok add_nesting_grants remove_nesting_grants
        add_grant_nesting remove_grant_nesting)
  with assms admin_schema show ?thesis by (auto simp: db_inv_def)
qed

lemmas audited_schemas =
  aud_add_user.audited_schema aud_add_invitation.audited_schema aud_disable_user.audited_schema
  aud_enable_user.audited_schema aud_add_group.audited_schema aud_add_member.audited_schema
  aud_remove_member.audited_schema aud_nest.audited_schema aud_unnest.audited_schema
  aud_upsert.audited_schema aud_delete.audited_schema aud_add_grant.audited_schema
  aud_remove_grant.audited_schema aud_signing_key.audited_schema

lemma audited_inv:
  assumes "db_inv db" "run_audited actor aid anow w db = Inr db'"
  shows "db_inv db'"
proof -
  have "schema_ok db'"
    using assms(2) db_inv_schema [OF assms(1)]
    by (cases w) (auto simp: drop_result_def res_simps elim: audited_schemas)
  from assms(2) obtain tx where tx: "run_plain w db = Inr tx"
    "db' = tx \<or> (\<exists>e. db' = tx\<lparr>t_admin_audit := t_admin_audit db @ [e]\<rparr>)" by (rule audited_cases)
  have "access_same tx db'" using tx(2) by (auto simp: access_same_def)
  with admin_inv [OF assms(1) tx(1)] \<open>schema_ok db'\<close> show ?thesis by (blast intro: access_same_inv)
qed

lemma login_access:
  assumes "resolve_login_conn n1 n2 i req db = Inr (x, db')"
  shows "access_same db db'"
  using assms
  by (auto simp: resolve_login_conn_def login_existing_def login_bind_def Let_def res_simps access_same_def
      dest!: update_rows_image [where g = ur_id] split: if_splits option.splits)

lemma log_audit_schema: "schema_ok db \<Longrightarrow> insert_admin_audit_conn e db = Inr (x, db') \<Longrightarrow> schema_ok db'"
  by (auto simp: insert_admin_audit_conn_def res_simps intro!: schema_ok_leaf intro: table_ok_insert schema_okD)

lemmas other_schema =
  create_auth_session_schema complete_auth_session_schema consume_auth_session_schema
  create_login_state_schema set_login_state_private_state_schema consume_login_state_schema
  create_browser_session_schema revoke_browser_session_schema create_csrf_token_schema
  consume_csrf_token_schema create_device_authorization_schema approve_device_authorization_schema
  consume_device_authorization_schema expire_device_authorization_schema record_token_schema
  revoke_issued_token_schema migrate_schema log_audit_schema

lemma migrate_access: "migrate n1 n2 n3 db = Inr ((), db') \<Longrightarrow> access_same db db'"
  by (auto simp: migrate_def Let_def res_simps access_same_def split: if_splits)

lemma state_access:
  "create_auth_session sha c now i n cs ttl db = Inr (y, db') \<Longrightarrow> access_same db db'"
  "complete_auth_session now i u db = Inr ((), db') \<Longrightarrow> access_same db db'"
  "consume_auth_session now i db = Inr ((), db') \<Longrightarrow> access_same db db'"
  "create_login_state sha s now i inp ttl db = Inr (z, db') \<Longrightarrow> access_same db db'"
  "set_login_state_private_state sha now s p db = Inr ((), db') \<Longrightarrow> access_same db db'"
  "consume_login_state sha n1 n2 n3 s db = Inr (ls, db') \<Longrightarrow> access_same db db'"
  "create_browser_session now s u ttl db = Inr (bs, db') \<Longrightarrow> access_same db db'"
  "revoke_browser_session now s db = Inr ((), db') \<Longrightarrow> access_same db db'"
  "create_csrf_token sha t now s ttl db = Inr (tok, db') \<Longrightarrow> access_same db db'"
  "consume_csrf_token sha n1 n2 s t db = Inr ((), db') \<Longrightarrow> access_same db db'"
  by (auto simp: create_auth_session_def complete_auth_session_def consume_auth_session_def
      create_login_state_def set_login_state_private_state_def consume_login_state_def
      create_browser_session_def revoke_browser_session_def create_csrf_token_def consume_csrf_token_def
      Let_def res_simps access_same_def split: if_splits)

lemma device_access:
  "create_device_authorization sha now i dinp db = Inr (d, db') \<Longrightarrow> access_same db db'"
  "approve_device_authorization now i u db = Inr ((), db') \<Longrightarrow> access_same db db'"
  "consume_device_authorization now i db = Inr ((), db') \<Longrightarrow> access_same db db'"
  "expire_device_authorization i db = Inr ((), db') \<Longrightarrow> access_same db db'"
  by (auto simp: create_device_authorization_def Store_create_device_authorization_def
      approve_device_authorization_def consume_device_authorization_def expire_device_authorization_def
      Let_def res_simps access_same_def split: if_splits)

lemma log_access:
  "record_token to_json tk db = Inr ((), db') \<Longrightarrow> access_same db db'"
  "revoke_issued_token now jti db = Inr ((), db') \<Longrightarrow> access_same db db'"
  "insert_admin_audit_conn e db = Inr ((), db') \<Longrightarrow> access_same db db'"
  by (auto simp: record_token_def revoke_issued_token_def insert_admin_audit_conn_def
      Let_def res_simps access_same_def split: if_splits)

lemmas other_access = migrate_access state_access device_access log_access

lemma step_inv: "db_step db db' \<Longrightarrow> db_inv db \<Longrightarrow> db_inv db'"
proof (induction rule: db_step.induct)
  case (admin w db db')
  then show ?case by (blast intro: admin_inv)
next
  case (audited actor aid anow w db db')
  then show ?case by (blast intro: audited_inv)
next
  case (login n1 n2 i req db x db')
  then show ?case by (blast intro: access_same_inv login_access resolve_login_conn_schema dest: db_inv_schema)
qed (rule access_same_inv, erule other_access, blast intro: other_schema dest: db_inv_schema, assumption)+

lemma reachable_inv: "db_step\<^sup>*\<^sup>* db db' \<Longrightarrow> db_inv db \<Longrightarrow> db_inv db'"
  by (induction rule: rtranclp_induct) (auto intro: step_inv)

lemma empty_inv: "db_inv empty_db"
  using schema_ok_empty
  by (simp add: db_inv_def nesting_acyclic_def grants_ok_def descendant_edges_def) (simp add: empty_db_def)

section \<open>Credentials that are used once\<close>

locale one_shot =
  fixes inv :: "'s \<Rightarrow> bool" and step :: "'s \<Rightarrow> 's \<Rightarrow> bool" and use :: "'s \<Rightarrow> 's \<Rightarrow> bool" and spent :: "'s \<Rightarrow> bool"
  assumes inv_step: "step s s' \<Longrightarrow> inv s \<Longrightarrow> inv s'"
    and use_step: "use s s' \<Longrightarrow> step s s'"
    and use_spends: "inv s \<Longrightarrow> use s s' \<Longrightarrow> spent s'"
    and spent_stays: "step s s' \<Longrightarrow> spent s \<Longrightarrow> spent s'"
    and spent_blocks: "inv s \<Longrightarrow> spent s \<Longrightarrow> \<not> use s s'"
begin

lemma spent_forever: "step\<^sup>*\<^sup>* s s' \<Longrightarrow> spent s \<Longrightarrow> spent s'"
  by (induction rule: rtranclp_induct) (auto intro: spent_stays)

lemma inv_forever: "step\<^sup>*\<^sup>* s s' \<Longrightarrow> inv s \<Longrightarrow> inv s'"
  by (induction rule: rtranclp_induct) (auto intro: inv_step)

lemma used_once:
  assumes "inv s" "use s s1" "step\<^sup>*\<^sup>* s1 s2"
  shows "\<not> use s2 s3"
proof -
  from assms have "inv s1" "spent s1" by (blast intro: inv_step use_step use_spends)+
  with assms(3) have "inv s2" "spent s2" by (blast dest: inv_forever spent_forever)+
  then show ?thesis by (rule spent_blocks)
qed

end

definition uses_auth_session :: "string \<Rightarrow> Db \<Rightarrow> Db \<Rightarrow> bool" where
  "uses_auth_session i db db' \<longleftrightarrow> (\<exists>now. consume_auth_session now i db = Inr ((), db'))"

definition uses_login_state :: "(string \<Rightarrow> string) \<Rightarrow> string \<Rightarrow> Db \<Rightarrow> Db \<Rightarrow> bool" where
  "uses_login_state sha s db db' \<longleftrightarrow> (\<exists>n1 n2 n3 ls. consume_login_state sha n1 n2 n3 s db = Inr (ls, db'))"

definition uses_csrf_token :: "(string \<Rightarrow> string) \<Rightarrow> string \<Rightarrow> Db \<Rightarrow> Db \<Rightarrow> bool" where
  "uses_csrf_token sha t db db' \<longleftrightarrow> (\<exists>n1 n2 s. consume_csrf_token sha n1 n2 s t db = Inr ((), db'))"

definition uses_device :: "string \<Rightarrow> Db \<Rightarrow> Db \<Rightarrow> bool" where
  "uses_device i db db' \<longleftrightarrow> (\<exists>now. consume_device_authorization now i db = Inr ((), db'))"

definition revokes_session :: "string \<Rightarrow> Db \<Rightarrow> Db \<Rightarrow> bool" where
  "revokes_session i db db' \<longleftrightarrow> (\<exists>now. revoke_browser_session now i db = Inr ((), db'))"

definition session_revoked :: "string \<Rightarrow> Db \<Rightarrow> bool" where
  "session_revoked i db \<longleftrightarrow> (\<exists>r \<in> set (t_sessions db). br_id r = i \<and> br_revoked_at r \<noteq> None)"

definition auth_session_spent :: "string \<Rightarrow> Db \<Rightarrow> bool" where
  "auth_session_spent i db \<longleftrightarrow> (\<exists>r \<in> set (t_auth_sessions db). sr_id r = i \<and> sr_status r = ''consumed'')"

definition login_state_spent :: "string \<Rightarrow> Db \<Rightarrow> bool" where
  "login_state_spent h db \<longleftrightarrow> (\<exists>r \<in> set (t_login_transactions db). lt_state_hash r = h \<and> lt_consumed_at r \<noteq> None)"

definition csrf_token_spent :: "string \<Rightarrow> Db \<Rightarrow> bool" where
  "csrf_token_spent h db \<longleftrightarrow> (\<exists>r \<in> set (t_csrf_tokens db). cr_token_hash r = h \<and> cr_consumed_at r \<noteq> None)"

definition device_spent :: "string \<Rightarrow> Db \<Rightarrow> bool" where
  "device_spent i db \<longleftrightarrow> (\<exists>r \<in> set (t_device_authorizations db). dr_id r = i \<and> dr_status r = ''consumed'')"

text \<open>A row that an update does not select stays in its table.\<close>

lemma update_keeps:
  "update_rows ixs fk P f rows = Inr (n, rows') \<Longrightarrow> r \<in> set rows \<Longrightarrow> \<not> P r \<Longrightarrow> r \<in> set rows'"
  by (auto simp: update_rows_Inr intro!: image_eqI [where x = r])

lemma update_hits:
  assumes "update_rows ixs fk P f rows = Inr (n, rows')" "n \<noteq> 0"
  obtains r where "r \<in> set rows" "P r" "f r \<in> set rows'"
proof -
  from assms obtain r where "r \<in> set rows" "P r" by (auto simp: update_rows_Inr filter_empty_conv)
  with assms(1) that show ?thesis by (fastforce simp: update_rows_Inr)
qed

lemma insert_keeps: "insert_row ixs fk x rows = Inr rows' \<Longrightarrow> r \<in> set rows \<Longrightarrow> r \<in> set rows'"
  by (auto simp: insert_row_Inr)

lemma other_flow:
  "migrate n1 n2 n3 db = Inr ((), db') \<Longrightarrow> flow_same db db'"
  "record_token to_json tk db = Inr ((), db') \<Longrightarrow> flow_same db db'"
  "revoke_issued_token now jti db = Inr ((), db') \<Longrightarrow> flow_same db db'"
  "insert_admin_audit_conn e db = Inr ((), db') \<Longrightarrow> flow_same db db'"
  by (auto simp: migrate_def record_token_def
      revoke_issued_token_def insert_admin_audit_conn_def Let_def res_simps flow_same_def split: if_splits)

lemmas flow_steps = admin_flow audited_flow login_flow other_flow

text \<open>No step touches a row that was used up, and no browser session is deleted.\<close>

definition keeps_spent :: "Db \<Rightarrow> Db \<Rightarrow> bool" where
  "keeps_spent db db' \<longleftrightarrow>
     (\<forall>r \<in> set (t_auth_sessions db). sr_status r = ''consumed'' \<longrightarrow> r \<in> set (t_auth_sessions db')) \<and>
     (\<forall>r \<in> set (t_login_transactions db). lt_consumed_at r \<noteq> None \<longrightarrow> r \<in> set (t_login_transactions db')) \<and>
     (\<forall>r \<in> set (t_csrf_tokens db). cr_consumed_at r \<noteq> None \<longrightarrow> r \<in> set (t_csrf_tokens db')) \<and>
     (\<forall>r \<in> set (t_device_authorizations db). dr_status r = ''consumed'' \<longrightarrow> r \<in> set (t_device_authorizations db')) \<and>
     (\<forall>r \<in> set (t_sessions db). br_revoked_at r \<noteq> None \<longrightarrow> r \<in> set (t_sessions db')) \<and>
     (\<forall>r \<in> set (t_sessions db). \<exists>r' \<in> set (t_sessions db'). br_id r' = br_id r)"

lemma flow_same_keeps: "flow_same db db' \<Longrightarrow> keeps_spent db db'"
  by (auto simp: flow_same_def keeps_spent_def)

lemma state_keeps:
  "create_auth_session sha c now i n cs ttl db = Inr (y, db') \<Longrightarrow> keeps_spent db db'"
  "complete_auth_session now i u db = Inr ((), db') \<Longrightarrow> keeps_spent db db'"
  "consume_auth_session now i db = Inr ((), db') \<Longrightarrow> keeps_spent db db'"
  "create_login_state sha s now i inp ttl db = Inr (z, db') \<Longrightarrow> keeps_spent db db'"
  "set_login_state_private_state sha now s p db = Inr ((), db') \<Longrightarrow> keeps_spent db db'"
  "consume_login_state sha n1 n2 n3 s db = Inr (ls, db') \<Longrightarrow> keeps_spent db db'"
  "create_csrf_token sha t now s ttl db = Inr (tok, db') \<Longrightarrow> keeps_spent db db'"
  "consume_csrf_token sha n1 n2 s t db = Inr ((), db') \<Longrightarrow> keeps_spent db db'"
  by (auto simp: create_auth_session_def complete_auth_session_def consume_auth_session_def
      create_login_state_def set_login_state_private_state_def consume_login_state_def
      create_csrf_token_def consume_csrf_token_def
      Let_def res_simps keeps_spent_def intro: insert_keeps elim!: update_keeps split: if_splits)

lemma browser_keeps:
  "create_browser_session now s u ttl db = Inr (bs, db') \<Longrightarrow> keeps_spent db db'"
  "revoke_browser_session now s db = Inr ((), db') \<Longrightarrow> keeps_spent db db'"
proof -
  assume "create_browser_session now s u ttl db = Inr (bs, db')"
  then show "keeps_spent db db'"
    by (auto simp: create_browser_session_def Let_def res_simps keeps_spent_def insert_row_Inr split: if_splits)
next
  assume "revoke_browser_session now s db = Inr ((), db')"
  then obtain n rows ixs fk where
    u: "update_rows ixs fk (\<lambda>r. br_id r = s \<and> br_revoked_at r = None) (\<lambda>r. r\<lparr>br_revoked_at := Some now\<rparr>) (t_sessions db) = Inr (n, rows)"
    and db': "db' = db\<lparr>t_sessions := rows\<rparr>"
    by (auto simp: revoke_browser_session_def res_simps)
  have "br_id ` set rows = br_id ` set (t_sessions db)" using u by (rule update_rows_image) simp
  then have "\<exists>r' \<in> set rows. br_id r' = br_id r" if "r \<in> set (t_sessions db)" for r
    using that by (metis imageE imageI)
  with u show "keeps_spent db db'" by (auto simp: keeps_spent_def db' elim: update_keeps)
qed

lemma device_keeps:
  "create_device_authorization sha now i dinp db = Inr (d, db') \<Longrightarrow> keeps_spent db db'"
  "approve_device_authorization now i u db = Inr ((), db') \<Longrightarrow> keeps_spent db db'"
  "consume_device_authorization now i db = Inr ((), db') \<Longrightarrow> keeps_spent db db'"
  "expire_device_authorization i db = Inr ((), db') \<Longrightarrow> keeps_spent db db'"
  by (auto simp: create_device_authorization_def Store_create_device_authorization_def
      approve_device_authorization_def consume_device_authorization_def expire_device_authorization_def
      Let_def res_simps keeps_spent_def intro: insert_keeps elim!: update_keeps split: if_splits)

lemma step_keeps: "db_step db db' \<Longrightarrow> keeps_spent db db'"
  by (induction rule: db_step.induct)
    ((erule state_keeps | erule browser_keeps | erule device_keeps | rule flow_same_keeps, erule flow_steps)+)

lemma step_spent:
  "db_step db db' \<Longrightarrow> auth_session_spent i db \<Longrightarrow> auth_session_spent i db'"
  "db_step db db' \<Longrightarrow> login_state_spent h db \<Longrightarrow> login_state_spent h db'"
  "db_step db db' \<Longrightarrow> csrf_token_spent h db \<Longrightarrow> csrf_token_spent h db'"
  "db_step db db' \<Longrightarrow> device_spent i db \<Longrightarrow> device_spent i db'"
  "db_step db db' \<Longrightarrow> session_revoked i db \<Longrightarrow> session_revoked i db'"
  by (drule step_keeps; unfold keeps_spent_def auth_session_spent_def login_state_spent_def csrf_token_spent_def
      device_spent_def session_revoked_def; blast)+

lemma keeps_spent_trans:
  assumes "keeps_spent db1 db2" "keeps_spent db2 db3"
  shows "keeps_spent db1 db3"
proof -
  have "\<exists>r' \<in> set (t_sessions db3). br_id r' = br_id r" if "r \<in> set (t_sessions db1)" for r
  proof -
    from assms(1) that obtain r1 where 1: "r1 \<in> set (t_sessions db2)" "br_id r1 = br_id r"
      unfolding keeps_spent_def by blast
    with assms(2) obtain r2 where "r2 \<in> set (t_sessions db3)" "br_id r2 = br_id r1"
      unfolding keeps_spent_def by blast
    with 1 show ?thesis by auto
  qed
  with assms show ?thesis unfolding keeps_spent_def by simp
qed

lemma steps_keep_spent: "db_step\<^sup>*\<^sup>* db db' \<Longrightarrow> keeps_spent db db'"
  by (induction rule: rtranclp_induct) (auto intro: keeps_spent_trans step_keeps flow_same_keeps)

lemma steps_sessions:
  "db_step\<^sup>*\<^sup>* db db' \<Longrightarrow> r \<in> set (t_sessions db) \<Longrightarrow> \<exists>r' \<in> set (t_sessions db'). br_id r' = br_id r"
  by (drule steps_keep_spent) (simp add: keeps_spent_def)

interpretation auth_sessions: one_shot db_inv db_step "uses_auth_session i" "auth_session_spent i"
proof unfold_locales
  fix s s' assume inv: "db_inv s" and sp: "auth_session_spent i s"
  from sp obtain r where r: "session_row s i = Some r" "sr_status r = ''consumed''"
    using session_row_iff [OF db_inv_schema [OF inv]] by (auto simp: auth_session_spent_def)
  then show "\<not> uses_auth_session i s s'"
    by (auto simp: uses_auth_session_def consume_auth_session_eq [OF db_inv_schema [OF inv]])
next
  fix s s' assume "uses_auth_session i s s'"
  then show "auth_session_spent i s'"
    by (auto simp: uses_auth_session_def consume_auth_session_def res_simps require_affected_Inr
        auth_session_spent_def elim!: update_hits intro: rev_bexI)
qed (auto simp: uses_auth_session_def intro: step_inv step_spent db_step.intros)

interpretation login_states: one_shot db_inv db_step "uses_login_state sha s" "login_state_spent (hash_secret sha s)"
proof unfold_locales
  fix db db' assume inv: "db_inv db" and sp: "login_state_spent (hash_secret sha s) db"
  then show "\<not> uses_login_state sha s db db'"
    by (auto simp: uses_login_state_def login_state_spent_def consume_login_state_eq [OF db_inv_schema [OF inv]])
next
  fix db db' assume inv: "db_inv db" and use: "uses_login_state sha s db db'"
  then obtain n1 n2 n3 ls where c: "consume_login_state sha n1 n2 n3 s db = Inr (ls, db')"
    by (auto simp: uses_login_state_def)
  then obtain r where r: "r \<in> set (t_login_transactions db)" "lt_state_hash r = hash_secret sha s"
    by (auto simp: consume_login_state_def res_simps dest!: find_SomeD)
  note eq = consume_login_state_eq [OF db_inv_schema [OF inv] r, where ?n1.0 = n1 and ?n2.0 = n2 and ?n3.0 = n3]
  have free: "lt_consumed_at r = None \<and> n1 < lt_expires_at r \<and> n3 < lt_expires_at r"
    using c unfolding eq by (simp split: if_splits)
  then have "r\<lparr>lt_consumed_at := Some n2\<rparr> \<in> set (t_login_transactions db')"
    using c r(1) unfolding eq by (auto intro!: image_eqI [where x = r])
  with r(2) show "login_state_spent (hash_secret sha s) db'"
    unfolding login_state_spent_def by (elim rev_bexI) simp
qed (auto simp: uses_login_state_def intro: step_inv step_spent db_step.intros)

interpretation csrf_tokens: one_shot db_inv db_step "uses_csrf_token sha t" "csrf_token_spent (hash_secret sha t)"
proof unfold_locales
  fix db db' assume inv: "db_inv db" and sp: "csrf_token_spent (hash_secret sha t) db"
  then obtain r where r: "r \<in> set (t_csrf_tokens db)" "cr_token_hash r = hash_secret sha t" "cr_consumed_at r \<noteq> None"
    by (auto simp: csrf_token_spent_def)
  have "x = r" if "x \<in> set (t_csrf_tokens db)" "cr_token_hash x = hash_secret sha t" for x
    using csrf_hash.same_row [OF db_inv_schema [OF inv] that(1) r(1)] that(2) r(2) by simp
  with r(3) show "\<not> uses_csrf_token sha t db db'"
    by (auto simp: uses_csrf_token_def consume_csrf_token_def res_simps require_affected_Inr elim!: update_hits)
next
  fix db db' assume "uses_csrf_token sha t db db'"
  then show "csrf_token_spent (hash_secret sha t) db'"
    by (auto simp: uses_csrf_token_def consume_csrf_token_def res_simps require_affected_Inr
        csrf_token_spent_def elim!: update_hits intro: rev_bexI)
qed (auto simp: uses_csrf_token_def intro: step_inv step_spent db_step.intros)

interpretation device_codes: one_shot db_inv db_step "uses_device i" "device_spent i"
proof unfold_locales
  fix db db' assume inv: "db_inv db" and sp: "device_spent i db"
  then obtain r where r: "r \<in> set (t_device_authorizations db)" "dr_id r = i" "dr_status r = ''consumed''"
    by (auto simp: device_spent_def)
  have "x = r" if "x \<in> set (t_device_authorizations db)" "dr_id x = i" for x
    using devices_id.same_row [OF db_inv_schema [OF inv] that(1) r(1)] that(2) r(2) by simp
  with r(3) show "\<not> uses_device i db db'"
    by (auto simp: uses_device_def consume_device_authorization_def res_simps require_affected_Inr elim!: update_hits)
next
  fix db db' assume "uses_device i db db'"
  then show "device_spent i db'"
    by (auto simp: uses_device_def consume_device_authorization_def res_simps require_affected_Inr
        device_spent_def elim!: update_hits intro: rev_bexI)
qed (auto simp: uses_device_def intro: step_inv step_spent db_step.intros)

interpretation browser_sessions: one_shot db_inv db_step "revokes_session i" "session_revoked i"
proof unfold_locales
  fix db db' assume inv: "db_inv db" and sp: "session_revoked i db"
  then obtain r where r: "r \<in> set (t_sessions db)" "br_id r = i" "br_revoked_at r \<noteq> None"
    by (auto simp: session_revoked_def)
  have "x = r" if "x \<in> set (t_sessions db)" "br_id x = i" for x
    using sessions_id.same_row [OF db_inv_schema [OF inv] that(1) r(1)] that(2) r(2) by simp
  with r(3) show "\<not> revokes_session i db db'"
    by (auto simp: revokes_session_def revoke_browser_session_def res_simps require_affected_Inr elim!: update_hits)
next
  fix db db' assume "revokes_session i db db'"
  then show "session_revoked i db'"
    by (auto simp: revokes_session_def revoke_browser_session_def res_simps require_affected_Inr
        session_revoked_def elim!: update_hits intro: rev_bexI)
qed (auto simp: revokes_session_def intro: step_inv step_spent db_step.intros)

text \<open>C26: Every database that the adapter can reach from a fresh one, by any interleaving of its
  writes, satisfies every constraint of the schema, has acyclic group nesting, and has only grants
  with a known role whose subject exists; starting from any such database the same holds.\<close>

theorem database_invariant:
  assumes "db_step\<^sup>*\<^sup>* db db'" "db = empty_db \<or> db_inv db"
  shows "db_inv db'"
  using assms empty_inv by (auto intro: reachable_inv)

text \<open>C27: What may be used once is used once, however requests interleave: after an auth session,
  a login state, a CSRF token or a device authorization was consumed, no sequence of writes of the
  adapter leads to a database in which it can be consumed again, at any clock reading.\<close>

theorem consumed_once:
  assumes "db_inv db" "db_step\<^sup>*\<^sup>* db1 db2"
  shows "(consume_auth_session n i db = Inr ((), db1) \<longrightarrow> (\<exists>e. consume_auth_session m1 i db2 = Inl e)) \<and>
    (consume_login_state sha n1 n2 n3 s db = Inr (ls, db1) \<longrightarrow> (\<exists>e. consume_login_state sha m1 m2 m3 s db2 = Inl e)) \<and>
    (consume_csrf_token sha n1 n2 b t db = Inr ((), db1) \<longrightarrow> (\<exists>e. consume_csrf_token sha m1 m2 b' t db2 = Inl e)) \<and>
    (consume_device_authorization n i db = Inr ((), db1) \<longrightarrow> (\<exists>e. consume_device_authorization m1 i db2 = Inl e))"
proof (intro conjI impI)
  assume "consume_auth_session n i db = Inr ((), db1)"
  then have "uses_auth_session i db db1" unfolding uses_auth_session_def ..
  from auth_sessions.used_once [OF assms(1) this assms(2)] show "\<exists>e. consume_auth_session m1 i db2 = Inl e"
    unfolding uses_auth_session_def by (cases "consume_auth_session m1 i db2") auto
next
  assume "consume_login_state sha n1 n2 n3 s db = Inr (ls, db1)"
  then have "uses_login_state sha s db db1" unfolding uses_login_state_def by blast
  from login_states.used_once [OF assms(1) this assms(2)] show "\<exists>e. consume_login_state sha m1 m2 m3 s db2 = Inl e"
    unfolding uses_login_state_def by (cases "consume_login_state sha m1 m2 m3 s db2") auto
next
  assume "consume_csrf_token sha n1 n2 b t db = Inr ((), db1)"
  then have "uses_csrf_token sha t db db1" unfolding uses_csrf_token_def by blast
  from csrf_tokens.used_once [OF assms(1) this assms(2)] show "\<exists>e. consume_csrf_token sha m1 m2 b' t db2 = Inl e"
    unfolding uses_csrf_token_def by (cases "consume_csrf_token sha m1 m2 b' t db2") auto
next
  assume "consume_device_authorization n i db = Inr ((), db1)"
  then have "uses_device i db db1" unfolding uses_device_def ..
  from device_codes.used_once [OF assms(1) this assms(2)] show "\<exists>e. consume_device_authorization m1 i db2 = Inl e"
    unfolding uses_device_def by (cases "consume_device_authorization m1 i db2") auto
qed

section \<open>Concrete runs\<close>

definition demo_approved :: Db where
  "demo_approved = demo_state\<lparr>t_device_authorizations :=
     [demo_device\<lparr>dr_status := ''approved'', dr_approved_user_id := Some ''u1'', dr_approved_at := Some 50\<rparr>]\<rparr>"

lemma demo_approved_inv: "db_inv demo_approved"
proof -
  have "schema_ok demo_approved" "grants_ok demo_approved" by code_simp+
  then show ?thesis
    by (simp add: db_inv_def nesting_acyclic_def descendant_edges_def demo_approved_def demo_state_def empty_db_def)
qed

lemma demo_runs:
  "is_ok (migrate 1 1 1 empty_db)" "is_ok (consume_device_authorization 60 ''d1'' demo_approved)"
  by code_simp+

theorem database_invariant_witness:
  "\<exists>db. migrate 1 1 1 empty_db = Inr ((), db) \<and> db_inv db"
proof -
  from is_ok_obtain [OF demo_runs(1)] obtain db where h: "migrate 1 1 1 empty_db = Inr ((), db)" by force
  then have "db_step\<^sup>*\<^sup>* empty_db db" by (blast intro: migrating)
  from database_invariant [OF this] h show ?thesis by blast
qed

theorem consumed_once_witness:
  "\<exists>db1 db2. consume_device_authorization 60 ''d1'' demo_approved = Inr ((), db1) \<and>
     expire_device_authorization ''d1'' db1 = Inr ((), db2) \<and>
     (\<exists>e. consume_device_authorization 61 ''d1'' db2 = Inl e)"
proof -
  from is_ok_obtain [OF demo_runs(2)] obtain db1 where
    c: "consume_device_authorization 60 ''d1'' demo_approved = Inr ((), db1)" by force
  obtain db2 where e: "expire_device_authorization ''d1'' db1 = Inr ((), db2)"
    by (simp add: expire_device_authorization_def update_rows_plain)
  then have "db_step\<^sup>*\<^sup>* db1 db2" by (blast intro: expire_device)
  from consumed_once [OF demo_approved_inv this] c e show ?thesis by blast
qed

end
