(* ===== verification/Rebac_Authz.thy ===== *)
theory Rebac_Authz
  imports Sqlite_Grants
begin

text \<open>
  The authorization policy (\<open>authz.rs\<close> and \<open>permissions.rs\<close>). The policy turns grants and
  group memberships into relation tuples, hands a snapshot of them to the resolver of the
  authz-core package, and asks it about the relations \<open>reader\<close>, \<open>writer\<close> and \<open>admin\<close>.
  The resolver, the parser of its schema language and the parsed schema are not part of the
  repository: they are parameters. What is assumed of the resolver is the documented meaning of
  a relation \<open>[user | group#member]\<close> over the tuples it can read (\<open>resolver_ok\<close>).
  Theorems: the filters pushed into SQL select what the filter on tuples selects, the snapshot
  of one user decides every check like all tuples do, the policy allows exactly what the grants
  that reach the user allow, unknown roles fail closed, and the list of accessible resources
  agrees with the single checks.
\<close>

section \<open>Permission sets\<close>

record PermissionSet =
  ps_read :: bool
  ps_write :: bool
  ps_admin :: bool

definition PermissionSet_default :: PermissionSet where
  "PermissionSet_default = \<lparr>ps_read = False, ps_write = False, ps_admin = False\<rparr>"

fun PermissionSet_insert :: "PermissionSet \<Rightarrow> Permission \<Rightarrow> PermissionSet" where
  "PermissionSet_insert s Read = s\<lparr>ps_read := True\<rparr>"
| "PermissionSet_insert s Write = s\<lparr>ps_write := True\<rparr>"
| "PermissionSet_insert s Admin = s\<lparr>ps_admin := True\<rparr>"

definition into_permissions :: "PermissionSet \<Rightarrow> Permission list" where
  "into_permissions s =
     (if ps_read s then [Read] else []) @ (if ps_write s then [Write] else []) @
     (if ps_admin s then [Admin] else [])"

section \<open>Tuples and filters\<close>

text \<open>A tuple of authz-core; its condition is \<open>None\<close> in every tuple the adapter builds.\<close>

record Tuple =
  tu_object_type :: string
  tu_object_id :: string
  tu_relation :: string
  tu_subject_type :: string
  tu_subject_id :: string

record TupleFilter =
  tf_object_type :: "string option"
  tf_object_id :: "string option"
  tf_relation :: "string option"
  tf_subject_type :: "string option"
  tf_subject_id :: "string option"

definition matches_filter_value :: "string \<Rightarrow> string option \<Rightarrow> bool" where
  "matches_filter_value value f = (case f of None \<Rightarrow> True | Some expected \<Rightarrow> expected = value)"

definition tuple_matches_filter :: "Tuple \<Rightarrow> TupleFilter \<Rightarrow> bool" where
  "tuple_matches_filter t f \<longleftrightarrow>
     matches_filter_value (tu_object_type t) (tf_object_type f) \<and>
     matches_filter_value (tu_object_id t) (tf_object_id f) \<and>
     matches_filter_value (tu_relation t) (tf_relation f) \<and>
     matches_filter_value (tu_subject_type t) (tf_subject_type f) \<and>
     matches_filter_value (tu_subject_id t) (tf_subject_id f)"

definition member_suffix :: string where
  "member_suffix = ''#member''"

definition grant_tuple :: "string \<Rightarrow> string \<Rightarrow> string \<Rightarrow> string \<Rightarrow> Tuple" where
  "grant_tuple lore_repository_id relation subject_type raw_subject_id =
     \<lparr>tu_object_type = ''resource'',
      tu_object_id = unwrap_or_default (for_repository_id lore_repository_id),
      tu_relation = relation, tu_subject_type = subject_type,
      tu_subject_id = (if subject_type = ''group'' then raw_subject_id @ member_suffix else raw_subject_id)\<rparr>"

definition user_member_tuple :: "string \<Rightarrow> string \<Rightarrow> Tuple" where
  "user_member_tuple group_id user_id =
     \<lparr>tu_object_type = ''group'', tu_object_id = group_id, tu_relation = ''member'',
      tu_subject_type = ''user'', tu_subject_id = user_id\<rparr>"

definition group_member_tuple :: "string \<Rightarrow> string \<Rightarrow> Tuple" where
  "group_member_tuple group_id member_group_id =
     \<lparr>tu_object_type = ''group'', tu_object_id = group_id, tu_relation = ''member'',
      tu_subject_type = ''group'', tu_subject_id = member_group_id @ member_suffix\<rparr>"

section \<open>The reader over the database\<close>

text \<open>The clauses for the subject of a grant; \<open>None\<close> when no grant can match.\<close>

definition push_grant_subject_filter :: "TupleFilter \<Rightarrow> (grants_row \<Rightarrow> bool) option" where
  "push_grant_subject_filter f =
     (case (tf_subject_type f, tf_subject_id f) of
        (Some ty, sid) \<Rightarrow>
          if ty = ''user'' then
            (case sid of
               Some s \<Rightarrow> Some (\<lambda>g. tr_subject_type g = ''user'' \<and> tr_subject_id g = s)
             | None \<Rightarrow> Some (\<lambda>g. tr_subject_type g = ''user''))
          else if ty = ''group'' then
            (case sid of
               Some s \<Rightarrow>
                 (case strip_suffix member_suffix s of
                    None \<Rightarrow> None
                  | Some group_id \<Rightarrow> Some (\<lambda>g. tr_subject_type g = ''group'' \<and> tr_subject_id g = group_id))
             | None \<Rightarrow> Some (\<lambda>g. tr_subject_type g = ''group''))
          else None
      | (None, Some s) \<Rightarrow>
          (case strip_suffix member_suffix s of
             Some group_id \<Rightarrow>
               Some (\<lambda>g. tr_subject_type g = ''group'' \<and> tr_subject_id g = group_id \<or>
                         tr_subject_type g = ''user'' \<and> tr_subject_id g = s)
           | None \<Rightarrow> Some (\<lambda>g. tr_subject_type g = ''user'' \<and> tr_subject_id g = s))
      | (None, None) \<Rightarrow> Some (\<lambda>g. True))"

definition opt_eq :: "string option \<Rightarrow> string \<Rightarrow> bool" where
  "opt_eq clause value = (case clause of None \<Rightarrow> True | Some v \<Rightarrow> value = v)"

definition grant_columns :: "repositories_row \<times> grants_row \<Rightarrow> string list" where
  "grant_columns = (\<lambda>(r, g). [rr_lore_repository_id r, tr_role g, tr_subject_type g, tr_subject_id g])"

definition tuple_of_grant :: "repositories_row \<times> grants_row \<Rightarrow> Tuple" where
  "tuple_of_grant = (\<lambda>(r, g). grant_tuple (rr_lore_repository_id r) (tr_role g) (tr_subject_type g) (tr_subject_id g))"

text \<open>The inner join of grants with the active repositories.\<close>

definition granted_repositories :: "Db \<Rightarrow> (repositories_row \<times> grants_row) list" where
  "granted_repositories db =
     [(r, g). g \<leftarrow> t_grants db, r \<leftarrow> t_repositories db, rr_id r = tr_repository_id g \<and> rr_status r = ''active'']"

definition read_grant_tuples_conn :: "Db \<Rightarrow> TupleFilter \<Rightarrow> Tuple list" where
  "read_grant_tuples_conn db f =
     (if \<not> matches_filter_value ''resource'' (tf_object_type f) then []
      else
        let object_clause = (\<lambda>r. opt_eq (map_option repository_id_from_resource_id (tf_object_id f)) (rr_lore_repository_id r));
            relation_clause = (\<lambda>g. opt_eq (tf_relation f) (tr_role g)) in
        case push_grant_subject_filter f of
          None \<Rightarrow> []
        | Some subject_clause \<Rightarrow>
            map tuple_of_grant (sort_key grant_columns
              (filter (\<lambda>(r, g). object_clause r \<and> relation_clause g \<and> subject_clause g)
                (granted_repositories db))))"

definition read_user_group_member_tuples_conn :: "Db \<Rightarrow> TupleFilter \<Rightarrow> Tuple list" where
  "read_user_group_member_tuples_conn db f =
     (if \<not> matches_filter_value ''user'' (tf_subject_type f) then []
      else
        map (\<lambda>m. user_member_tuple (mr_group_id m) (mr_user_id m))
          (sort_key (\<lambda>m. [mr_group_id m, mr_user_id m])
            (filter (\<lambda>m. opt_eq (tf_object_id f) (mr_group_id m) \<and> opt_eq (tf_subject_id f) (mr_user_id m))
              (t_group_members db))))"

definition read_group_group_member_tuples_conn :: "Db \<Rightarrow> TupleFilter \<Rightarrow> Tuple list" where
  "read_group_group_member_tuples_conn db f =
     (if \<not> matches_filter_value ''group'' (tf_subject_type f) then []
      else
        let rows = (\<lambda>member_clause.
              map (\<lambda>m. group_member_tuple (nr_group_id m) (nr_member_group_id m))
                (sort_key (\<lambda>m. [nr_group_id m, nr_member_group_id m])
                  (filter (\<lambda>m. opt_eq (tf_object_id f) (nr_group_id m) \<and> opt_eq member_clause (nr_member_group_id m))
                    (t_group_groups db)))) in
        case tf_subject_id f of
          None \<Rightarrow> rows None
        | Some subject_id \<Rightarrow>
            (case strip_suffix member_suffix subject_id of
               None \<Rightarrow> []
             | Some member_group_id \<Rightarrow> rows (Some member_group_id)))"

definition read_group_member_tuples_conn :: "Db \<Rightarrow> TupleFilter \<Rightarrow> Tuple list" where
  "read_group_member_tuples_conn db f =
     (if \<not> matches_filter_value ''group'' (tf_object_type f) \<or>
         \<not> matches_filter_value ''member'' (tf_relation f) then []
      else read_user_group_member_tuples_conn db f @ read_group_group_member_tuples_conn db f)"

definition read_tuples_conn :: "Db \<Rightarrow> TupleFilter \<Rightarrow> Tuple list" where
  "read_tuples_conn db f = read_grant_tuples_conn db f @ read_group_member_tuples_conn db f"

subsection \<open>The reader interface\<close>

record TupleReader =
  read_tuples :: "TupleFilter \<Rightarrow> authz_error + Tuple list"
  read_user_tuple :: "string \<Rightarrow> string \<Rightarrow> string \<Rightarrow> string \<Rightarrow> string \<Rightarrow> authz_error + Tuple option"
  read_userset_tuples :: "string \<Rightarrow> string \<Rightarrow> string \<Rightarrow> authz_error + Tuple list"
  read_starting_with_user :: "string \<Rightarrow> string \<Rightarrow> authz_error + Tuple list"
  read_user_tuple_batch :: "string \<Rightarrow> string \<Rightarrow> string list \<Rightarrow> string \<Rightarrow> string \<Rightarrow> authz_error + Tuple option"

definition user_tuple_filter :: "string \<Rightarrow> string \<Rightarrow> string \<Rightarrow> string \<Rightarrow> string \<Rightarrow> TupleFilter" where
  "user_tuple_filter object_type object_id relation subject_type subject_id =
     \<lparr>tf_object_type = Some object_type, tf_object_id = Some object_id, tf_relation = Some relation,
      tf_subject_type = Some subject_type, tf_subject_id = Some subject_id\<rparr>"

definition first_user_tuple ::
  "(TupleFilter \<Rightarrow> authz_error + Tuple list) \<Rightarrow> string \<Rightarrow> string \<Rightarrow> string \<Rightarrow> string \<Rightarrow> string
     \<Rightarrow> authz_error + Tuple option" where
  "first_user_tuple filtered object_type object_id relation subject_type subject_id =
     and_then (filtered (user_tuple_filter object_type object_id relation subject_type subject_id))
       (\<lambda>tuples. Inr (first_row tuples))"

fun first_relation_tuple ::
  "(TupleFilter \<Rightarrow> authz_error + Tuple list) \<Rightarrow> string \<Rightarrow> string \<Rightarrow> string list \<Rightarrow> string \<Rightarrow> string
     \<Rightarrow> authz_error + Tuple option" where
  "first_relation_tuple filtered object_type object_id [] subject_type subject_id = Inr None"
| "first_relation_tuple filtered object_type object_id (relation # relations) subject_type subject_id =
     and_then (first_user_tuple filtered object_type object_id relation subject_type subject_id)
       (\<lambda>found. case found of
          Some tuple \<Rightarrow> Inr (Some tuple)
        | None \<Rightarrow> first_relation_tuple filtered object_type object_id relations subject_type subject_id)"

text \<open>Both readers implement the interface by filtered reads.\<close>

definition filtered_reader :: "(TupleFilter \<Rightarrow> authz_error + Tuple list) \<Rightarrow> TupleReader" where
  "filtered_reader filtered =
     \<lparr>read_tuples = filtered,
      read_user_tuple = first_user_tuple filtered,
      read_userset_tuples = (\<lambda>object_type object_id relation. filtered
        \<lparr>tf_object_type = Some object_type, tf_object_id = Some object_id, tf_relation = Some relation,
         tf_subject_type = Some ''group'', tf_subject_id = None\<rparr>),
      read_starting_with_user = (\<lambda>subject_type subject_id. filtered
        \<lparr>tf_object_type = None, tf_object_id = None, tf_relation = None,
         tf_subject_type = Some subject_type, tf_subject_id = Some subject_id\<rparr>),
      read_user_tuple_batch = first_relation_tuple filtered\<rparr>"

definition SqliteTupleReader :: "Db \<Rightarrow> TupleReader" where
  "SqliteTupleReader db = filtered_reader (\<lambda>f. Inr (read_tuples_conn db f))"

definition filtered_tuples :: "Tuple list \<Rightarrow> TupleFilter \<Rightarrow> Tuple list" where
  "filtered_tuples tuples f = filter (\<lambda>t. tuple_matches_filter t f) tuples"

definition SnapshotTupleReader :: "Tuple list \<Rightarrow> TupleReader" where
  "SnapshotTupleReader tuples = filtered_reader (\<lambda>f. Inr (filtered_tuples tuples f))"

section \<open>Snapshots\<close>

definition core_from_authz :: "authz_error \<Rightarrow> CoreError" where
  "core_from_authz err = InvalidArgument [Lit ''authz: '', DispAuthz err]"

definition authz_from_sql :: "rusqlite_error \<Rightarrow> authz_error" where
  "authz_from_sql err = Datastore err"

definition tuple_core_from_sql :: "rusqlite_error \<Rightarrow> CoreError" where
  "tuple_core_from_sql err = core_from_authz (authz_from_sql err)"

text \<open>A row of the grant queries; the columns of the grant are \<open>NULL\<close> when the left join
  found none.\<close>

type_synonym grant_row_columns = "string \<times> string option \<times> string option \<times> string option"

definition joined_columns :: "repositories_row \<Rightarrow> grants_row option \<Rightarrow> grant_row_columns" where
  "joined_columns r g = (rr_lore_repository_id r, map_option tr_role g, map_option tr_subject_type g,
     map_option tr_subject_id g)"

definition grant_tuple_from_row :: "grant_row_columns \<Rightarrow> Tuple option" where
  "grant_tuple_from_row = (\<lambda>(lore_repository_id, relation, subject_type, raw_subject_id).
     case relation of None \<Rightarrow> None | Some relation \<Rightarrow>
     case subject_type of None \<Rightarrow> None | Some subject_type \<Rightarrow>
     case raw_subject_id of None \<Rightarrow> None | Some raw_subject_id \<Rightarrow>
       Some (grant_tuple lore_repository_id relation subject_type raw_subject_id))"

definition nullable_order :: "repositories_row \<times> grants_row option \<Rightarrow> string list" where
  "nullable_order = (\<lambda>(r, g). rr_lore_repository_id r #
     (case g of None \<Rightarrow> [] | Some g \<Rightarrow> [tr_role g, tr_subject_type g, tr_subject_id g]))"

definition read_active_repository_grant_tuples_conn :: "Db \<Rightarrow> string \<Rightarrow> Tuple list core_result" where
  "read_active_repository_grant_tuples_conn db lore_repository_id =
     (let rows = sort_key nullable_order
            [(r, g). r \<leftarrow> filter (\<lambda>r. rr_status r = ''active'' \<and> rr_lore_repository_id r = lore_repository_id)
                       (t_repositories db),
                     g \<leftarrow> left_join (\<lambda>g. tr_repository_id g = rr_id r) (t_grants db)] in
      if rows = [] then Inl NotFound
      else Inr (List.map_filter (\<lambda>(r, g). grant_tuple_from_row (joined_columns r g)) rows))"

definition read_candidate_grant_tuples_conn :: "Db \<Rightarrow> string list \<Rightarrow> Tuple list core_result" where
  "read_candidate_grant_tuples_conn db resource_ids =
     (let lore_repository_ids = map repository_id_from_resource_id resource_ids in
      if lore_repository_ids = [] then Inr []
      else
        collect_rows (map (\<lambda>(r, g). map_err tuple_core_from_sql
            (ok_or (InvalidColumnType 1 ''role'') (grant_tuple_from_row (joined_columns r (Some g)))))
          (sort_key grant_columns
            (filter (\<lambda>(r, g). rr_lore_repository_id r \<in> set lore_repository_ids)
              [(r, g). r \<leftarrow> t_repositories db, g \<leftarrow> t_grants db,
                 tr_repository_id g = rr_id r \<and> rr_status r = ''active'']))))"

definition read_user_reachable_group_member_tuples_conn :: "Db \<Rightarrow> string \<Rightarrow> Tuple list" where
  "read_user_reachable_group_member_tuples_conn db user_id =
     map (\<lambda>m. user_member_tuple (mr_group_id m) (mr_user_id m))
       (sort_key (\<lambda>m. [mr_group_id m, mr_user_id m])
         (filter (\<lambda>m. mr_user_id m = user_id) (t_group_members db))) @
     (let user_groups = cte (parent_edges db) (direct_groups db user_id) in
      map (\<lambda>m. group_member_tuple (nr_group_id m) (nr_member_group_id m))
        (sort_key (\<lambda>m. [nr_group_id m, nr_member_group_id m])
          [gg. gg \<leftarrow> t_group_groups db, ug \<leftarrow> user_groups, nr_member_group_id gg = ug]))"

text \<open>The loop that collects the groups of the user from the tuples.\<close>

definition tuple_start :: "Tuple list \<Rightarrow> string \<Rightarrow> string list" where
  "tuple_start tuples user_id =
     map tu_object_id (filter (\<lambda>t. tu_object_type t = ''group'' \<and> tu_relation t = ''member'' \<and>
       tu_subject_type t = ''user'' \<and> tu_subject_id t = user_id) tuples)"

definition tuple_edges :: "Tuple list \<Rightarrow> (string \<times> string) list" where
  "tuple_edges tuples =
     List.map_filter (\<lambda>t.
       if tu_object_type t \<noteq> ''group'' \<or> tu_relation t \<noteq> ''member'' \<or> tu_subject_type t \<noteq> ''group'' then None
       else map_option (\<lambda>member_group_id. (member_group_id, tu_object_id t))
              (strip_suffix member_suffix (tu_subject_id t))) tuples"

definition reachable_group_ids_from_tuples :: "Tuple list \<Rightarrow> string \<Rightarrow> string list" where
  "reachable_group_ids_from_tuples tuples user_id =
     sweep_loop (tuple_edges tuples) (tuple_start tuples user_id)"

fun validate_roles :: "string \<Rightarrow> string list \<Rightarrow> unit core_result" where
  "validate_roles action [] = Inr ()"
| "validate_roles action (role # roles) =
     (if role = Role_as_str Role_Admin then Inr ()
      else if Role_from_name role = None then
        Inl (InvalidArgument [Lit ''unknown grant role '', Dbg role])
      else if role_allows role action then Inr ()
      else validate_roles action roles)"

definition reaching_relation :: "string list \<Rightarrow> string \<Rightarrow> Tuple \<Rightarrow> string option" where
  "reaching_relation group_ids user_id t =
     (if tu_subject_type t = ''user'' \<and> tu_subject_id t = user_id then Some (tu_relation t)
      else if tu_subject_type t = ''group'' then
        (case strip_suffix member_suffix (tu_subject_id t) of
           None \<Rightarrow> None
         | Some group_id \<Rightarrow> if group_id \<in> set group_ids then Some (tu_relation t) else None)
      else None)"

definition validate_snapshot_can_access_roles :: "Tuple list \<Rightarrow> string \<Rightarrow> string \<Rightarrow> unit core_result" where
  "validate_snapshot_can_access_roles tuples user_id action =
     (let group_ids = reachable_group_ids_from_tuples tuples user_id;
          roles = List.map_filter (reaching_relation group_ids user_id)
            (filter (\<lambda>t. tu_object_type t = ''resource'') tuples) in
      validate_roles action (sort roles))"

definition can_access_snapshot_conn :: "Db \<Rightarrow> string \<Rightarrow> string \<Rightarrow> string \<Rightarrow> Tuple list core_result" where
  "can_access_snapshot_conn db lore_repository_id user_id action =
     and_then (read_active_repository_grant_tuples_conn db lore_repository_id) (\<lambda>grants.
     let tuples = grants @ read_user_reachable_group_member_tuples_conn db user_id in
     and_then (validate_snapshot_can_access_roles tuples user_id action) (\<lambda>_. Inr tuples))"

fun candidate_rows :: "string \<Rightarrow> (string \<times> string) list \<Rightarrow> string list \<Rightarrow> string list core_result" where
  "candidate_rows prefix [] by_resource = Inr by_resource"
| "candidate_rows prefix ((lore_repository_id, role) # rows) by_resource =
     (let resource_id = unwrap_or_default (for_repository_id lore_repository_id) in
      if prefix \<noteq> [] \<and> \<not> starts_with resource_id prefix then candidate_rows prefix rows by_resource
      else if role_permissions role = None then
        Inl (InvalidArgument [Lit ''unknown grant role '', Dbg role])
      else candidate_rows prefix rows (insort_insert resource_id by_resource))"

definition candidate_resource_ids_conn :: "Db \<Rightarrow> string \<Rightarrow> string \<Rightarrow> string list core_result" where
  "candidate_resource_ids_conn db user_id prefix =
     (let user_groups = cte (parent_edges db) (direct_groups db user_id);
          rows = map (\<lambda>(r, g). (rr_lore_repository_id r, tr_role g))
            (sort_key (\<lambda>(r, g). [rr_name r, tr_role g])
              (filter (\<lambda>(r, g). tr_subject_type g = ''user'' \<and> tr_subject_id g = user_id \<or>
                   tr_subject_type g = ''group'' \<and> tr_subject_id g \<in> set user_groups)
                [(r, g). r \<leftarrow> t_repositories db, g \<leftarrow> t_grants db,
                   tr_repository_id g = rr_id r \<and> rr_status r = ''active''])) in
      candidate_rows prefix rows [])"

definition list_accessible_snapshot_conn :: "Db \<Rightarrow> string \<Rightarrow> string \<Rightarrow> (string list \<times> Tuple list) core_result" where
  "list_accessible_snapshot_conn db user_id prefix =
     and_then (candidate_resource_ids_conn db user_id prefix) (\<lambda>resource_ids.
     if resource_ids = [] then Inr (resource_ids, [])
     else
       and_then (read_candidate_grant_tuples_conn db resource_ids) (\<lambda>grants.
       Inr (resource_ids, grants @ read_user_reachable_group_member_tuples_conn db user_id)))"

section \<open>The policy\<close>

datatype CheckResult = Allowed | Denied | ConditionRequired "string list"

record ResolveCheckRequest =
  rq_object_type :: string
  rq_object_id :: string
  rq_relation :: string
  rq_subject_type :: string
  rq_subject_id :: string

text \<open>A resolver answers a request from what its reader returns; the schema is inside it.\<close>

type_synonym resolver = "TupleReader \<Rightarrow> ResolveCheckRequest \<Rightarrow> authz_error + CheckResult"

fun join_comma :: "string list \<Rightarrow> string" where
  "join_comma [] = []"
| "join_comma [x] = x"
| "join_comma (x # xs) = x @ '', '' @ join_comma xs"

definition check_allowed_with_resolver ::
  "resolver \<Rightarrow> TupleReader \<Rightarrow> string \<Rightarrow> string \<Rightarrow> string \<Rightarrow> string \<Rightarrow> string \<Rightarrow> bool core_result" where
  "check_allowed_with_resolver resolve reader object_type object_id relation subject_type subject_id =
     and_then (map_err core_from_authz (resolve reader
         \<lparr>rq_object_type = object_type, rq_object_id = object_id, rq_relation = relation,
          rq_subject_type = subject_type, rq_subject_id = subject_id\<rparr>))
       (\<lambda>result. case result of
          Allowed \<Rightarrow> Inr True
        | Denied \<Rightarrow> Inr False
        | ConditionRequired params \<Rightarrow>
            Inl (InvalidArgument [Lit ''authz: condition required: '', Lit (join_comma params)]))"

fun check_any_relation_with_resolver ::
  "resolver \<Rightarrow> TupleReader \<Rightarrow> string \<Rightarrow> string \<Rightarrow> string list \<Rightarrow> bool core_result" where
  "check_any_relation_with_resolver resolve reader resource_id user_id [] = Inr False"
| "check_any_relation_with_resolver resolve reader resource_id user_id (relation # relations) =
     and_then (check_allowed_with_resolver resolve reader ''resource'' resource_id relation ''user'' user_id)
       (\<lambda>allowed. if allowed then Inr True
          else check_any_relation_with_resolver resolve reader resource_id user_id relations)"

definition relations_for_action :: "string \<Rightarrow> string list" where
  "relations_for_action action =
     (if action = ''read'' then [''reader'', ''writer'', ''admin'']
      else if action = ''write'' then [''writer'', ''admin'']
      else [''admin''])"

definition can_access :: "resolver \<Rightarrow> Db \<Rightarrow> string \<Rightarrow> string \<Rightarrow> string \<Rightarrow> bool core_result" where
  "can_access resolve db user_id resource_id action =
     and_then (can_access_snapshot_conn db (repository_id_from_resource_id resource_id) user_id action)
       (\<lambda>snapshot. check_any_relation_with_resolver resolve (SnapshotTupleReader snapshot) resource_id user_id
          (relations_for_action action))"

definition resource_permissions_with_resolver ::
  "resolver \<Rightarrow> TupleReader \<Rightarrow> string \<Rightarrow> string \<Rightarrow> Permission list core_result" where
  "resource_permissions_with_resolver resolve reader user_id resource_id =
     (let check = (\<lambda>relation. check_allowed_with_resolver resolve reader ''resource'' resource_id relation ''user'' user_id) in
      and_then (check ''admin'') (\<lambda>admin.
      if admin then Inr [Read, Write, Admin]
      else
        and_then (check ''reader'') (\<lambda>reader.
        and_then (check ''writer'') (\<lambda>writer.
        let s = PermissionSet_default;
            s = (if reader \<or> writer then PermissionSet_insert s Read else s);
            s = (if writer then PermissionSet_insert s Write else s) in
        Inr (into_permissions s)))))"

fun accessible_resources ::
  "resolver \<Rightarrow> TupleReader \<Rightarrow> string \<Rightarrow> string list \<Rightarrow> ResourcePermission list core_result" where
  "accessible_resources resolve reader user_id [] = Inr []"
| "accessible_resources resolve reader user_id (resource_id # resource_ids) =
     and_then (resource_permissions_with_resolver resolve reader user_id resource_id) (\<lambda>permissions.
     and_then (accessible_resources resolve reader user_id resource_ids) (\<lambda>out.
     Inr (if permissions = [] then out
          else \<lparr>rp_resource_id = resource_id, rp_permission = permissions\<rparr> # out)))"

definition list_accessible :: "resolver \<Rightarrow> Db \<Rightarrow> string \<Rightarrow> ResourceFilter \<Rightarrow> ResourcePermission list core_result" where
  "list_accessible resolve db user_id f =
     and_then (list_accessible_snapshot_conn db user_id (rf_prefix f)) (\<lambda>(resource_ids, snapshot).
     accessible_resources resolve (SnapshotTupleReader snapshot) user_id resource_ids)"

section \<open>What the relations mean\<close>

text \<open>The documented meaning of a relation declared as \<open>[user | group#member]\<close>: a user has it
  through a tuple that names the user, or through one that names the members of a group the user
  is a member of.\<close>

inductive rebac_holds :: "Tuple list \<Rightarrow> string \<Rightarrow> string \<Rightarrow> string \<Rightarrow> string \<Rightarrow> bool" for ts u where
  direct: "t \<in> set ts \<Longrightarrow> tu_subject_type t = ''user'' \<Longrightarrow> tu_subject_id t = u \<Longrightarrow>
     rebac_holds ts u (tu_object_type t) (tu_object_id t) (tu_relation t)"
| userset: "t \<in> set ts \<Longrightarrow> tu_subject_type t = ''group'' \<Longrightarrow> tu_subject_id t = g @ member_suffix \<Longrightarrow>
     rebac_holds ts u ''group'' g ''member'' \<Longrightarrow>
     rebac_holds ts u (tu_object_type t) (tu_object_id t) (tu_relation t)"

inductive_simps rebac_holds_group: "rebac_holds ts u ''group'' g ''member''"
inductive_simps rebac_holds_resource: "rebac_holds ts u ''resource'' oid rel"

definition access_request :: "string \<Rightarrow> string \<Rightarrow> string \<Rightarrow> ResolveCheckRequest" where
  "access_request resource_id relation user_id =
     \<lparr>rq_object_type = ''resource'', rq_object_id = resource_id, rq_relation = relation,
      rq_subject_type = ''user'', rq_subject_id = user_id\<rparr>"

text \<open>A resolver may fail (its depth limit), but when it answers about one of the three relations
  of a resource, the answer is the meaning of the relation.\<close>

definition resolver_ok :: "resolver \<Rightarrow> bool" where
  "resolver_ok resolve \<longleftrightarrow> (\<forall>ts rid rel u. rel \<in> {''reader'', ''writer'', ''admin''} \<longrightarrow>
     (resolve (SnapshotTupleReader ts) (access_request rid rel u) = Inr Allowed \<longrightarrow> rebac_holds ts u ''resource'' rid rel) \<and>
     (resolve (SnapshotTupleReader ts) (access_request rid rel u) = Inr Denied \<longrightarrow> \<not> rebac_holds ts u ''resource'' rid rel))"

definition resolver_answers :: "resolver \<Rightarrow> bool" where
  "resolver_answers resolve \<longleftrightarrow> (\<forall>ts rid rel u. rel \<in> {''reader'', ''writer'', ''admin''} \<longrightarrow>
     resolve (SnapshotTupleReader ts) (access_request rid rel u) \<in> {Inr Allowed, Inr Denied})"

lemma map_filter_set: "set (List.map_filter f xs) = {y. \<exists>x \<in> set xs. f x = Some y}"
  by (induction xs) (auto simp: List.map_filter_simps split: option.splits)

lemma user_member_tuple_iff:
  "t = user_member_tuple g u \<longleftrightarrow> tu_object_type t = ''group'' \<and> tu_object_id t = g \<and> tu_relation t = ''member'' \<and>
     tu_subject_type t = ''user'' \<and> tu_subject_id t = u" for t :: Tuple
  by (cases t) (auto simp: user_member_tuple_def)

lemma group_member_tuple_iff:
  "t = group_member_tuple g m \<longleftrightarrow> tu_object_type t = ''group'' \<and> tu_object_id t = g \<and> tu_relation t = ''member'' \<and>
     tu_subject_type t = ''group'' \<and> tu_subject_id t = m @ member_suffix" for t :: Tuple
  by (cases t) (auto simp: group_member_tuple_def)

lemma tuple_start_iff: "g \<in> set (tuple_start ts u) \<longleftrightarrow> user_member_tuple g u \<in> set ts"
proof -
  have "g \<in> set (tuple_start ts u) \<longleftrightarrow> (\<exists>t \<in> set ts. t = user_member_tuple g u)"
    unfolding user_member_tuple_iff by (auto simp: tuple_start_def)
  then show ?thesis by simp
qed

lemma tuple_edges_iff: "(m, g) \<in> set (tuple_edges ts) \<longleftrightarrow> group_member_tuple g m \<in> set ts"
proof -
  have "(m, g) \<in> set (tuple_edges ts) \<longleftrightarrow> (\<exists>t \<in> set ts. t = group_member_tuple g m)"
    unfolding group_member_tuple_iff by (auto simp: tuple_edges_def map_filter_set strip_suffix_Some_iff)
  then show ?thesis by simp
qed

lemma reaching_relation_iff:
  "reaching_relation gs u t = Some rel \<longleftrightarrow> tu_relation t = rel \<and>
     (tu_subject_type t = ''user'' \<and> tu_subject_id t = u \<or>
      tu_subject_type t = ''group'' \<and> (\<exists>g \<in> set gs. tu_subject_id t = g @ member_suffix))"
proof (cases "strip_suffix member_suffix (tu_subject_id t)")
  case None
  then have "\<nexists>g. tu_subject_id t = g @ member_suffix" using strip_suffix_append by (metis option.distinct(1))
  with None show ?thesis by (auto simp: reaching_relation_def)
next
  case (Some g)
  then have "tu_subject_id t = g @ member_suffix" by (simp add: strip_suffix_Some_iff)
  then show ?thesis by (auto simp: reaching_relation_def)
qed

lemma rebac_group_iff:
  "rebac_holds ts u ''group'' g ''member'' \<longleftrightarrow> g \<in> set (reachable_group_ids_from_tuples ts u)"
proof
  have "rebac_holds ts u ot g rel \<Longrightarrow> ot = ''group'' \<Longrightarrow> rel = ''member'' \<Longrightarrow>
      g \<in> set (reachable_group_ids_from_tuples ts u)" for ot g rel
  proof (induction rule: rebac_holds.induct)
    case (direct t)
    then have "tu_object_id t \<in> set (tuple_start ts u)" by (auto simp: tuple_start_def)
    then show ?case unfolding reachable_group_ids_from_tuples_def by (rule sweep.search_start [THEN subsetD])
  next
    case (userset t m)
    then have "(m, tu_object_id t) \<in> set (tuple_edges ts)"
      by (force simp: tuple_edges_def map_filter_set strip_suffix_Some_iff)
    with userset show ?case unfolding reachable_group_ids_from_tuples_def by (blast intro: sweep.search_closed)
  qed
  then show "rebac_holds ts u ''group'' g ''member'' \<Longrightarrow> g \<in> set (reachable_group_ids_from_tuples ts u)" by blast
  have "set (reachable_group_ids_from_tuples ts u) \<subseteq> {g. rebac_holds ts u ''group'' g ''member''}"
    unfolding reachable_group_ids_from_tuples_def
  proof (rule sweep.search_least)
    show "set (tuple_start ts u) \<subseteq> {g. rebac_holds ts u ''group'' g ''member''}"
      using rebac_holds.direct [of "user_member_tuple g u" ts u for g]
      by (auto simp: tuple_start_iff) (simp add: user_member_tuple_def)
  next
    fix a b assume "a \<in> {g. rebac_holds ts u ''group'' g ''member''}" "(a, b) \<in> set (tuple_edges ts)"
    then show "b \<in> {g. rebac_holds ts u ''group'' g ''member''}"
      using rebac_holds.userset [of "group_member_tuple b a" ts a u]
      by (simp add: tuple_edges_iff) (simp add: group_member_tuple_def)
  qed
  then show "g \<in> set (reachable_group_ids_from_tuples ts u) \<Longrightarrow> rebac_holds ts u ''group'' g ''member''" by blast
qed

lemma rebac_resource_iff:
  "rebac_holds ts u ''resource'' rid rel \<longleftrightarrow>
     (\<exists>t \<in> set ts. tu_object_type t = ''resource'' \<and> tu_object_id t = rid \<and>
        reaching_relation (reachable_group_ids_from_tuples ts u) u t = Some rel)"
  unfolding rebac_holds_resource rebac_group_iff reaching_relation_iff
  unfolding Bex_def eq_commute [of "''resource''"] eq_commute [of rid] eq_commute [of rel] by blast

section \<open>What the snapshots hold\<close>

text \<open>The grants of a user on a resource: the repository is active, the resource id is the one of
  the repository, and the grant reaches the user.\<close>

definition granted :: "Db \<Rightarrow> string \<Rightarrow> string \<Rightarrow> string \<Rightarrow> bool" where
  "granted db user_id resource_id role \<longleftrightarrow>
     (\<exists>(r, g) \<in> set (granted_repositories db).
        rr_lore_repository_id r = repository_id_from_resource_id resource_id \<and>
        unwrap_or_default (for_repository_id (rr_lore_repository_id r)) = resource_id \<and>
        grant_reaches db user_id g \<and> tr_role g = role)"

definition is_grant_tuple :: "Tuple \<Rightarrow> bool" where
  "is_grant_tuple t \<longleftrightarrow> tu_object_type t = ''resource''"

lemma grant_tuple_simps [simp]:
  "tu_object_type (grant_tuple l rel ty s) = ''resource''"
  "tu_object_id (grant_tuple l rel ty s) = unwrap_or_default (for_repository_id l)"
  "tu_relation (grant_tuple l rel ty s) = rel" "tu_subject_type (grant_tuple l rel ty s) = ty"
  "tu_subject_id (grant_tuple l rel ty s) = (if ty = ''group'' then s @ member_suffix else s)"
  by (simp_all add: grant_tuple_def)

lemma member_tuple_simps [simp]:
  "tu_object_type (user_member_tuple g u) = ''group''" "tu_object_type (group_member_tuple g m) = ''group''"
  by (simp_all add: user_member_tuple_def group_member_tuple_def)

lemma member_tuple_inj [simp]:
  "user_member_tuple g u = user_member_tuple g' u' \<longleftrightarrow> g = g' \<and> u = u'"
  "group_member_tuple g m = group_member_tuple g' m' \<longleftrightarrow> g = g' \<and> m = m'"
  "user_member_tuple g u \<noteq> group_member_tuple g' m'" "group_member_tuple g' m' \<noteq> user_member_tuple g u"
  by (auto simp: user_member_tuple_def group_member_tuple_def)

lemma user_tuples_start:
  "user_member_tuple g v \<in> set (read_user_reachable_group_member_tuples_conn db u) \<longleftrightarrow>
     v = u \<and> (g, u) \<in> memberships db"
  by (auto simp: read_user_reachable_group_member_tuples_conn_def Let_def memberships_def)

lemma user_tuples_edges:
  "group_member_tuple g m \<in> set (read_user_reachable_group_member_tuples_conn db u) \<longleftrightarrow>
     (m, g) \<in> set (parent_edges db) \<and> m \<in> set (cte (parent_edges db) (direct_groups db u))"
  by (auto simp: read_user_reachable_group_member_tuples_conn_def Let_def parent_edges_def)

text \<open>Restricting the nesting edges to the user's groups loses none of them.\<close>

lemma snapshot_groups:
  assumes "\<And>t. t \<in> set grants \<Longrightarrow> is_grant_tuple t"
  shows "set (reachable_group_ids_from_tuples (grants @ read_user_reachable_group_member_tuples_conn db u) u) =
    groups_of db u"
proof -
  let ?ts = "grants @ read_user_reachable_group_member_tuples_conn db u"
  let ?E = "parent_edges db" and ?S = "direct_groups db u"
  have none: "user_member_tuple g v \<notin> set grants" "group_member_tuple g m \<notin> set grants" for g v m
    using assms [of "user_member_tuple g v"] assms [of "group_member_tuple g m"] by (auto simp: is_grant_tuple_def)
  have "set (tuple_start ?ts u) = set ?S"
    by (auto simp: tuple_start_iff none user_tuples_start direct_groups_set)
  moreover have "set (tuple_edges ?ts) = set [e \<leftarrow> ?E. fst e \<in> set (cte ?E ?S)]"
    by (auto simp: tuple_edges_iff none user_tuples_edges)
  ultimately have "set (reachable_group_ids_from_tuples ?ts u) = set (cte [e \<leftarrow> ?E. fst e \<in> set (cte ?E ?S)] ?S)"
    by (simp only: reachable_group_ids_from_tuples_def sweep.search_set cte.search_set)
  also have "\<dots> = groups_of db u"
    unfolding cte.search_restrict by (simp add: groups_of_def cte.search_set direct_groups_set)
  finally show ?thesis .
qed

lemma tuple_of_grant_reaches:
  assumes "set gs = groups_of db u"
  shows "reaching_relation gs u (tuple_of_grant (r, g)) = Some rel \<longleftrightarrow> grant_reaches db u g \<and> tr_role g = rel"
  using assms by (auto simp: reaching_relation_iff tuple_of_grant_def grant_reaches_def)

lemma tuple_of_grant_id: "tu_object_id (tuple_of_grant (r, g)) = unwrap_or_default (for_repository_id (rr_lore_repository_id r))"
  by (simp add: tuple_of_grant_def)

lemma snapshot_holds:
  assumes grants: "set grants = tuple_of_grant ` {p \<in> set (granted_repositories db). rr_lore_repository_id (fst p) \<in> L}"
  shows "rebac_holds (grants @ read_user_reachable_group_member_tuples_conn db u) u ''resource'' rid rel \<longleftrightarrow>
    (\<exists>(r, g) \<in> set (granted_repositories db). rr_lore_repository_id r \<in> L \<and>
        unwrap_or_default (for_repository_id (rr_lore_repository_id r)) = rid \<and>
        grant_reaches db u g \<and> tr_role g = rel)"
proof -
  let ?ts = "grants @ read_user_reachable_group_member_tuples_conn db u"
  have gt: "\<And>t. t \<in> set grants \<Longrightarrow> is_grant_tuple t"
    unfolding grants by (auto simp: is_grant_tuple_def tuple_of_grant_def)
  have members: "tu_object_type t = ''group''" if "t \<in> set (read_user_reachable_group_member_tuples_conn db u)" for t
    using that by (auto simp: read_user_reachable_group_member_tuples_conn_def Let_def)
  note gs = snapshot_groups [OF gt, of grants db u, simplified]
  have "rebac_holds ?ts u ''resource'' rid rel \<longleftrightarrow>
     (\<exists>t \<in> set grants. tu_object_id t = rid \<and> reaching_relation (reachable_group_ids_from_tuples ?ts u) u t = Some rel)"
    unfolding rebac_resource_iff using members gt by (auto simp: is_grant_tuple_def)
  also have "\<dots> \<longleftrightarrow> (\<exists>p \<in> set (granted_repositories db). rr_lore_repository_id (fst p) \<in> L \<and>
       tu_object_id (tuple_of_grant p) = rid \<and>
       reaching_relation (reachable_group_ids_from_tuples ?ts u) u (tuple_of_grant p) = Some rel)"
    unfolding grants by blast
  also have "\<dots> \<longleftrightarrow> (\<exists>(r, g) \<in> set (granted_repositories db). rr_lore_repository_id r \<in> L \<and>
        unwrap_or_default (for_repository_id (rr_lore_repository_id r)) = rid \<and>
        grant_reaches db u g \<and> tr_role g = rel)"
    by (rule bex_cong [OF refl]) (auto simp: tuple_of_grant_reaches [OF gs] tuple_of_grant_id)
  finally show ?thesis .
qed

lemma left_join_set: "Some g \<in> set (left_join P rows) \<longleftrightarrow> g \<in> set rows \<and> P g"
  by (cases "filter P rows") (auto simp: left_join_def filter_empty_conv filter_eq_Cons_iff)

lemma left_join_not_Nil [simp]: "left_join P rows \<noteq> []"
  by (simp add: left_join_def split: list.split)

lemma granted_repositories_iff:
  "(r, g) \<in> set (granted_repositories db) \<longleftrightarrow> r \<in> set (t_repositories db) \<and> g \<in> set (t_grants db) \<and>
     tr_repository_id g = rr_id r \<and> rr_status r = ''active''"
  by (auto simp: granted_repositories_def)

lemma grant_tuple_from_row_simps [simp]:
  "grant_tuple_from_row (joined_columns r None) = None"
  "grant_tuple_from_row (joined_columns r (Some g)) = Some (tuple_of_grant (r, g))"
  by (simp_all add: grant_tuple_from_row_def joined_columns_def tuple_of_grant_def)

lemma grant_tuple_from_row_SomeE:
  assumes "grant_tuple_from_row (joined_columns r og) = Some t"
  obtains g where "og = Some g" "t = tuple_of_grant (r, g)"
  using assms by (cases og) auto

definition active_repository :: "Db \<Rightarrow> string \<Rightarrow> bool" where
  "active_repository db lore_repository_id \<longleftrightarrow>
     list_ex (\<lambda>r. rr_status r = ''active'' \<and> rr_lore_repository_id r = lore_repository_id) (t_repositories db)"

lemma active_grants_cases:
  "if active_repository db lid
   then \<exists>grants. read_active_repository_grant_tuples_conn db lid = Inr grants \<and>
     set grants = tuple_of_grant ` {p \<in> set (granted_repositories db). rr_lore_repository_id (fst p) \<in> {lid}}
   else read_active_repository_grant_tuples_conn db lid = Inl NotFound"
proof -
  define rows where "rows = sort_key nullable_order
     [(r, g). r \<leftarrow> filter (\<lambda>r. rr_status r = ''active'' \<and> rr_lore_repository_id r = lid) (t_repositories db),
              g \<leftarrow> left_join (\<lambda>g. tr_repository_id g = rr_id r) (t_grants db)]"
  have set_rows: "set rows = {(r, g). r \<in> set (t_repositories db) \<and> rr_status r = ''active'' \<and>
      rr_lore_repository_id r = lid \<and> g \<in> set (left_join (\<lambda>g. tr_repository_id g = rr_id r) (t_grants db))}"
    by (auto simp: rows_def)
  have "rows = [] \<longleftrightarrow> set rows = {}" by simp
  then have empty: "rows = [] \<longleftrightarrow> \<not> active_repository db lid"
    by (auto simp: set_rows active_repository_def list_ex_iff)
  have "set (List.map_filter (\<lambda>(r, g). grant_tuple_from_row (joined_columns r g)) rows) =
      tuple_of_grant ` {p \<in> set (granted_repositories db). rr_lore_repository_id (fst p) \<in> {lid}}" (is "?A = ?B")
  proof (intro set_eqI iffI)
    fix t assume "t \<in> ?A"
    then obtain r g where "(r, Some g) \<in> set rows" "t = tuple_of_grant (r, g)"
      by (auto simp: map_filter_set elim!: grant_tuple_from_row_SomeE split: prod.splits)
    then show "t \<in> ?B" by (auto simp: set_rows left_join_set granted_repositories_iff)
  next
    fix t assume "t \<in> ?B"
    then obtain r g where "(r, Some g) \<in> set rows" "t = tuple_of_grant (r, g)"
      by (auto simp: set_rows left_join_set granted_repositories_iff)
    then show "t \<in> ?A" by (auto simp: map_filter_set intro!: rev_bexI)
  qed
  then show ?thesis
    using empty by (auto simp: read_active_repository_grant_tuples_conn_def Let_def simp flip: rows_def)
qed

text \<open>Role validation: with only known roles it always passes; an unknown role lets it pass only
  when some role that reaches the user allows the action.\<close>

lemma validate_roles_known: "list_all is_known_role roles \<Longrightarrow> validate_roles action roles = Inr ()"
  by (induction action roles rule: validate_roles.induct) (auto simp: is_known_role_def)

lemma validate_roles_unknown:
  assumes "validate_roles action roles = Inr ()" "\<not> list_all is_known_role roles"
  shows "\<exists>role \<in> set roles. role = ''admin'' \<or> role_allows role action"
  using assms
  by (induction action roles rule: validate_roles.induct) (auto simp: is_known_role_def split: if_splits)

lemma validate_roles_error: "validate_roles action roles = Inl e \<Longrightarrow>
   \<exists>role \<in> set roles. \<not> is_known_role role \<and> e = InvalidArgument [Lit ''unknown grant role '', Dbg role]"
  by (induction action roles rule: validate_roles.induct) (auto simp: is_known_role_def split: if_splits)

definition reaching_roles :: "Db \<Rightarrow> string \<Rightarrow> string \<Rightarrow> string set" where
  "reaching_roles db user_id lore_repository_id =
     {tr_role g | r g. (r, g) \<in> set (granted_repositories db) \<and> rr_lore_repository_id r = lore_repository_id \<and>
        grant_reaches db user_id g}"

lemma snapshot_roles:
  assumes grants: "set grants = tuple_of_grant ` {p \<in> set (granted_repositories db). rr_lore_repository_id (fst p) \<in> {lid}}"
  shows "\<exists>roles. set roles = reaching_roles db u lid \<and>
    validate_snapshot_can_access_roles (grants @ read_user_reachable_group_member_tuples_conn db u) u action =
      validate_roles action roles"
proof -
  let ?ts = "grants @ read_user_reachable_group_member_tuples_conn db u"
  have gt: "\<And>t. t \<in> set grants \<Longrightarrow> is_grant_tuple t"
    unfolding grants by (auto simp: is_grant_tuple_def tuple_of_grant_def)
  have members: "tu_object_type t = ''group''" if "t \<in> set (read_user_reachable_group_member_tuples_conn db u)" for t
    using that by (auto simp: read_user_reachable_group_member_tuples_conn_def Let_def)
  note gs = snapshot_groups [OF gt, of grants db u, simplified]
  let ?roles = "List.map_filter (reaching_relation (reachable_group_ids_from_tuples ?ts u) u)
      (filter (\<lambda>t. tu_object_type t = ''resource'') ?ts)"
  have "filter (\<lambda>t. tu_object_type t = ''resource'') ?ts = grants"
    using gt members by (auto simp: is_grant_tuple_def filter_id_conv filter_empty_conv)
  then have "set ?roles = {rel. \<exists>t \<in> set grants. reaching_relation (reachable_group_ids_from_tuples ?ts u) u t = Some rel}"
    by (simp only: map_filter_set)
  also have "\<dots> = reaching_roles db u lid"
    unfolding grants reaching_roles_def by (auto simp: tuple_of_grant_reaches [OF gs])
  finally have "set (sort ?roles) = reaching_roles db u lid" by simp
  then show ?thesis unfolding validate_snapshot_can_access_roles_def Let_def by blast
qed

text \<open>The snapshot of a check: it exists exactly for an active repository whose reaching roles pass
  validation, and every relation on it means a grant.\<close>

lemma can_access_snapshot_cases:
  "if active_repository db lid
   then \<exists>roles snapshot. set roles = reaching_roles db u lid \<and>
     can_access_snapshot_conn db lid u action = and_then (validate_roles action roles) (\<lambda>_. Inr snapshot) \<and>
     (\<forall>rid rel. repository_id_from_resource_id rid = lid \<longrightarrow>
        (rebac_holds snapshot u ''resource'' rid rel \<longleftrightarrow> granted db u rid rel))
   else can_access_snapshot_conn db lid u action = Inl NotFound"
proof (cases "active_repository db lid")
  case True
  with active_grants_cases [of db lid] obtain grants where
    g: "read_active_repository_grant_tuples_conn db lid = Inr grants"
    "set grants = tuple_of_grant ` {p \<in> set (granted_repositories db). rr_lore_repository_id (fst p) \<in> {lid}}"
    by auto
  from snapshot_roles [OF g(2), of u action] obtain roles where
    r: "set roles = reaching_roles db u lid"
    "validate_snapshot_can_access_roles (grants @ read_user_reachable_group_member_tuples_conn db u) u action =
       validate_roles action roles" by blast
  have "rebac_holds (grants @ read_user_reachable_group_member_tuples_conn db u) u ''resource'' rid rel \<longleftrightarrow>
      granted db u rid rel" if "repository_id_from_resource_id rid = lid" for rid rel
    unfolding snapshot_holds [OF g(2)] granted_def using that by simp
  moreover have "can_access_snapshot_conn db lid u action = and_then (validate_roles action roles)
      (\<lambda>_. Inr (grants @ read_user_reachable_group_member_tuples_conn db u))"
    using g(1) r(2) by (simp add: can_access_snapshot_conn_def Let_def)
  ultimately show ?thesis using True r(1) by auto
next
  case False
  with active_grants_cases [of db lid] show ?thesis by (simp add: can_access_snapshot_conn_def)
qed

lemma check_allowed_Inr:
  assumes "resolver_ok resolve" "rel \<in> {''reader'', ''writer'', ''admin''}"
    "check_allowed_with_resolver resolve (SnapshotTupleReader ts) ''resource'' rid rel ''user'' u = Inr b"
  shows "b \<longleftrightarrow> rebac_holds ts u ''resource'' rid rel"
proof -
  have ok: "resolve (SnapshotTupleReader ts) (access_request rid rel u) = Inr Allowed \<Longrightarrow> rebac_holds ts u ''resource'' rid rel"
    "resolve (SnapshotTupleReader ts) (access_request rid rel u) = Inr Denied \<Longrightarrow> \<not> rebac_holds ts u ''resource'' rid rel"
    using assms(1,2) unfolding resolver_ok_def by blast+
  from assms(3) show ?thesis
    using ok by (cases "resolve (SnapshotTupleReader ts) (access_request rid rel u)")
      (auto simp: check_allowed_with_resolver_def simp flip: access_request_def split: CheckResult.splits)
qed

lemma check_allowed_answers:
  assumes "resolver_answers resolve" "rel \<in> {''reader'', ''writer'', ''admin''}"
  shows "\<exists>b. check_allowed_with_resolver resolve (SnapshotTupleReader ts) ''resource'' rid rel ''user'' u = Inr b"
proof -
  have "resolve (SnapshotTupleReader ts) (access_request rid rel u) \<in> {Inr Allowed, Inr Denied}"
    using assms unfolding resolver_answers_def by blast
  then show ?thesis by (auto simp: check_allowed_with_resolver_def simp flip: access_request_def)
qed

lemma check_any_Inr:
  assumes "resolver_ok resolve" "set rels \<subseteq> {''reader'', ''writer'', ''admin''}"
    "check_any_relation_with_resolver resolve (SnapshotTupleReader ts) rid u rels = Inr b"
  shows "b \<longleftrightarrow> (\<exists>rel \<in> set rels. rebac_holds ts u ''resource'' rid rel)"
  using assms(2,3)
proof (induction rels)
  case (Cons rel rels)
  from Cons.prems(2) obtain c where
    c: "check_allowed_with_resolver resolve (SnapshotTupleReader ts) ''resource'' rid rel ''user'' u = Inr c"
    by (auto simp: res_simps)
  have "c \<longleftrightarrow> rebac_holds ts u ''resource'' rid rel"
    using check_allowed_Inr [OF assms(1) _ c] Cons.prems(1) by simp
  with c Cons show ?case by (cases c) auto
qed simp

lemma check_any_answers:
  assumes "resolver_answers resolve" "set rels \<subseteq> {''reader'', ''writer'', ''admin''}"
  shows "\<exists>b. check_any_relation_with_resolver resolve (SnapshotTupleReader ts) rid u rels = Inr b"
  using assms(2)
proof (induction rels)
  case (Cons rel rels)
  with check_allowed_answers [OF assms(1), of rel ts rid u] obtain c where
    "check_allowed_with_resolver resolve (SnapshotTupleReader ts) ''resource'' rid rel ''user'' u = Inr c" by auto
  with Cons show ?case by (cases c) auto
qed (simp add: exI [of _ False])

lemma relations_for_action_iff:
  "set (relations_for_action action) \<subseteq> {''reader'', ''writer'', ''admin''}"
  "role \<in> set (relations_for_action action) \<longleftrightarrow> role_allows role action \<or> role = ''admin''"
  by (auto simp: relations_for_action_def role_allows_cases)

section \<open>The list of accessible resources\<close>

definition plain_repository_ids :: "Db \<Rightarrow> bool" where
  "plain_repository_ids db \<longleftrightarrow>
     list_all (\<lambda>r. rr_lore_repository_id r \<noteq> [] \<and> \<not> starts_with (rr_lore_repository_id r) urc_prefix) (t_repositories db)"

lemma plain_resource_id:
  assumes "plain_repository_ids db" "r \<in> set (t_repositories db)"
  shows "unwrap_or_default (for_repository_id (rr_lore_repository_id r)) = rid \<longleftrightarrow>
    rid = urc_prefix @ rr_lore_repository_id r"
  using assms by (auto simp: plain_repository_ids_def list_all_iff for_repository_id_plain unwrap_or_default_def)

lemma granted_plain:
  assumes "plain_repository_ids db"
  shows "granted db u rid role \<longleftrightarrow> (\<exists>(r, g) \<in> set (granted_repositories db).
    rid = urc_prefix @ rr_lore_repository_id r \<and> grant_reaches db u g \<and> tr_role g = role)"
  unfolding granted_def
  by (rule bex_cong [OF refl]) (auto simp: plain_resource_id [OF assms] granted_repositories_iff)

abbreviation prefix_ok :: "string \<Rightarrow> string \<Rightarrow> bool" where
  "prefix_ok prefix resource_id \<equiv> prefix = [] \<or> starts_with resource_id prefix"

lemma candidate_rows_Inr:
  assumes "candidate_rows prefix rows acc = Inr ids" "sorted acc" "distinct acc"
  shows "sorted ids \<and> distinct ids \<and>
    set ids = set acc \<union> {rid \<in> (\<lambda>(l, role). unwrap_or_default (for_repository_id l)) ` set rows. prefix_ok prefix rid}"
  using assms
proof (induction prefix rows acc rule: candidate_rows.induct)
  case (2 prefix l role rows acc)
  let ?rid = "unwrap_or_default (for_repository_id l)"
  show ?case
  proof (cases "prefix_ok prefix ?rid")
    case True
    with 2 show ?thesis
      by (auto simp: Let_def sorted_insort_insert distinct_insort_insert set_insort_insert split: if_splits)
  next
    case False
    with 2 show ?thesis by (auto simp: Let_def)
  qed
qed simp

lemma candidate_rows_known:
  assumes "\<And>l role. (l, role) \<in> set rows \<Longrightarrow> is_known_role role"
  shows "\<exists>ids. candidate_rows prefix rows acc = Inr ids"
  using assms
proof (induction prefix rows acc rule: candidate_rows.induct)
  case (2 prefix l role rows acc)
  have "role_permissions role \<noteq> None" using "2.prems" [of l role] by (auto simp: is_known_role_iff role_permissions_def Role_from_name_def)
  with 2 show ?case by (auto simp: Let_def)
qed simp

definition reaching_rows :: "Db \<Rightarrow> string \<Rightarrow> (repositories_row \<times> grants_row) set" where
  "reaching_rows db u = {(r, g). (r, g) \<in> set (granted_repositories db) \<and> grant_reaches db u g}"

lemma candidate_ids:
  "\<exists>rows. set rows = (\<lambda>(r, g). (rr_lore_repository_id r, tr_role g)) ` reaching_rows db u \<and>
     candidate_resource_ids_conn db u prefix = candidate_rows prefix rows []"
proof -
  let ?rows = "map (\<lambda>(r, g). (rr_lore_repository_id r, tr_role g))
       (sort_key (\<lambda>(r, g). [rr_name r, tr_role g])
         (filter (\<lambda>(r, g). tr_subject_type g = ''user'' \<and> tr_subject_id g = u \<or>
              tr_subject_type g = ''group'' \<and> tr_subject_id g \<in> set (cte (parent_edges db) (direct_groups db u)))
           [(r, g). r \<leftarrow> t_repositories db, g \<leftarrow> t_grants db, tr_repository_id g = rr_id r \<and> rr_status r = ''active'']))"
  have "set (cte (parent_edges db) (direct_groups db u)) = groups_of db u"
    using reachable_group_ids_set by (simp add: reachable_group_ids_conn_def)
  then have "set ?rows = (\<lambda>(r, g). (rr_lore_repository_id r, tr_role g)) ` reaching_rows db u"
    unfolding set_map set_sort set_filter
    by (intro arg_cong [where f = "image _"]) (auto simp: reaching_rows_def granted_repositories_iff grant_reaches_def)
  then show ?thesis unfolding candidate_resource_ids_conn_def Let_def by blast
qed

lemma candidate_row_tuples:
  "collect_rows (map (\<lambda>(r, g). map_err tuple_core_from_sql
      (ok_or (InvalidColumnType 1 ''role'') (grant_tuple_from_row (joined_columns r (Some g))))) rows) =
    Inr (map tuple_of_grant rows)"
  by (induction rows) auto

lemma candidate_grants:
  "\<exists>grants. read_candidate_grant_tuples_conn db rids = Inr grants \<and>
     set grants = tuple_of_grant ` {p \<in> set (granted_repositories db).
       rr_lore_repository_id (fst p) \<in> repository_id_from_resource_id ` set rids}"
proof (cases "rids = []")
  case False
  let ?rows = "sort_key grant_columns
     (filter (\<lambda>(r, g). rr_lore_repository_id r \<in> set (map repository_id_from_resource_id rids))
       [(r, g). r \<leftarrow> t_repositories db, g \<leftarrow> t_grants db, tr_repository_id g = rr_id r \<and> rr_status r = ''active''])"
  from False have "read_candidate_grant_tuples_conn db rids = Inr (map tuple_of_grant ?rows)"
    unfolding read_candidate_grant_tuples_conn_def Let_def candidate_row_tuples by simp
  moreover have "set ?rows = {p \<in> set (granted_repositories db).
       rr_lore_repository_id (fst p) \<in> repository_id_from_resource_id ` set rids}"
    by (auto simp: granted_repositories_iff)
  ultimately show ?thesis by (intro exI [of _ "map tuple_of_grant ?rows"]) (simp only: set_map)
qed (simp add: read_candidate_grant_tuples_conn_def)

definition permissions_granted :: "Db \<Rightarrow> string \<Rightarrow> string \<Rightarrow> Permission list" where
  "permissions_granted db user_id resource_id =
     filter (\<lambda>p. \<exists>role. granted db user_id resource_id role \<and> role_allows role (Permission_as_str p)) [Read, Write, Admin]"

lemma permissions_granted_eq:
  "permissions_granted db u rid =
     (if granted db u rid ''admin'' then [Read, Write, Admin]
      else (if granted db u rid ''reader'' \<or> granted db u rid ''writer'' then [Read] else []) @
        (if granted db u rid ''writer'' then [Write] else []))"
  by (auto simp: permissions_granted_def role_allows_cases)

lemma resource_permissions_Inr:
  assumes ok: "resolver_ok resolve"
    and holds: "\<And>rel. rebac_holds ts u ''resource'' rid rel \<longleftrightarrow> granted db u rid rel"
    and res: "resource_permissions_with_resolver resolve (SnapshotTupleReader ts) u rid = Inr ps"
  shows "ps = permissions_granted db u rid"
proof -
  let ?c = "\<lambda>rel. check_allowed_with_resolver resolve (SnapshotTupleReader ts) ''resource'' rid rel ''user'' u"
  have c: "?c rel = Inr b \<Longrightarrow> rel \<in> {''reader'', ''writer'', ''admin''} \<Longrightarrow> b \<longleftrightarrow> granted db u rid rel" for rel b
    using check_allowed_Inr [OF ok] holds by blast
  from res show ?thesis
    unfolding resource_permissions_with_resolver_def Let_def permissions_granted_eq
    by (auto simp: res_simps into_permissions_def PermissionSet_default_def dest!: c split: if_splits)
qed

lemma resource_permissions_answers:
  assumes "resolver_answers resolve"
  shows "\<exists>ps. resource_permissions_with_resolver resolve (SnapshotTupleReader ts) u rid = Inr ps"
proof -
  obtain a r w where
    "check_allowed_with_resolver resolve (SnapshotTupleReader ts) ''resource'' rid ''admin'' ''user'' u = Inr a"
    "check_allowed_with_resolver resolve (SnapshotTupleReader ts) ''resource'' rid ''reader'' ''user'' u = Inr r"
    "check_allowed_with_resolver resolve (SnapshotTupleReader ts) ''resource'' rid ''writer'' ''user'' u = Inr w"
    using check_allowed_answers [OF assms, of "''admin''" ts rid u] check_allowed_answers [OF assms, of "''reader''" ts rid u]
      check_allowed_answers [OF assms, of "''writer''" ts rid u] by blast
  then show ?thesis by (cases a) (simp_all add: resource_permissions_with_resolver_def Let_def)
qed

lemma accessible_resources_Inr:
  assumes "accessible_resources resolve reader u rids = Inr out"
    and "\<And>rid ps. rid \<in> set rids \<Longrightarrow> resource_permissions_with_resolver resolve reader u rid = Inr ps \<Longrightarrow> ps = f rid"
  shows "out = map (\<lambda>rid. \<lparr>rp_resource_id = rid, rp_permission = f rid\<rparr>) (filter (\<lambda>rid. f rid \<noteq> []) rids)"
  using assms
proof (induction rids arbitrary: out)
  case (Cons rid rids)
  from Cons.prems(1) obtain ps out' where
    1: "resource_permissions_with_resolver resolve reader u rid = Inr ps"
       "accessible_resources resolve reader u rids = Inr out'"
       "out = (if ps = [] then out' else \<lparr>rp_resource_id = rid, rp_permission = ps\<rparr> # out')"
    by (auto simp: res_simps)
  from Cons.prems(2) [OF _ 1(1)] have ps: "ps = f rid" by simp
  have "out' = map (\<lambda>rid. \<lparr>rp_resource_id = rid, rp_permission = f rid\<rparr>) (filter (\<lambda>rid. f rid \<noteq> []) rids)"
    by (rule Cons.IH [OF 1(2)]) (rule Cons.prems(2), simp_all)
  with 1(3) ps show ?case by (cases "f rid = []") simp_all
qed simp

lemma accessible_resources_answers:
  "resolver_answers resolve \<Longrightarrow> \<exists>out. accessible_resources resolve (SnapshotTupleReader ts) u rids = Inr out"
proof (induction rids)
  case (Cons rid rids)
  with resource_permissions_answers [of resolve ts u rid] show ?case by auto
qed simp

lemma list_snapshot:
  assumes "list_accessible_snapshot_conn db u prefix = Inr (rids, ts)" "plain_repository_ids db"
  shows "sorted rids \<and> distinct rids \<and> (\<forall>rid. rid \<in> set rids \<longleftrightarrow> prefix_ok prefix rid \<and> (\<exists>role. granted db u rid role)) \<and>
    (\<forall>rid \<in> set rids. \<forall>rel. rebac_holds ts u ''resource'' rid rel \<longleftrightarrow> granted db u rid rel)"
proof -
  from candidate_ids [of db u prefix] obtain rows where
    rows: "set rows = (\<lambda>(r, g). (rr_lore_repository_id r, tr_role g)) ` reaching_rows db u"
    "candidate_resource_ids_conn db u prefix = candidate_rows prefix rows []" by blast
  from assms(1) rows(2) have ids: "candidate_rows prefix rows [] = Inr rids"
    by (auto simp: list_accessible_snapshot_conn_def res_simps split: if_splits)
  from candidate_rows_Inr [OF ids] have srt: "sorted rids" "distinct rids" and
    set_ids: "set rids = {rid \<in> (\<lambda>(l, role). unwrap_or_default (for_repository_id l)) ` set rows. prefix_ok prefix rid}"
    by auto
  have mem: "rid \<in> set rids \<longleftrightarrow> prefix_ok prefix rid \<and> (\<exists>role. granted db u rid role)" for rid
  proof -
    have "rid \<in> (\<lambda>(l, role). unwrap_or_default (for_repository_id l)) ` set rows \<longleftrightarrow>
      (\<exists>(r, g) \<in> reaching_rows db u. unwrap_or_default (for_repository_id (rr_lore_repository_id r)) = rid)"
      unfolding rows by auto
    also have "\<dots> \<longleftrightarrow> (\<exists>(r, g) \<in> reaching_rows db u. rid = urc_prefix @ rr_lore_repository_id r)"
      by (rule bex_cong [OF refl]) (auto simp: plain_resource_id [OF assms(2)] reaching_rows_def granted_repositories_iff)
    also have "\<dots> \<longleftrightarrow> (\<exists>role. granted db u rid role)"
      unfolding granted_plain [OF assms(2)] reaching_rows_def by blast
    finally show ?thesis unfolding set_ids by blast
  qed
  have "rebac_holds ts u ''resource'' rid rel \<longleftrightarrow> granted db u rid rel" if rid: "rid \<in> set rids" for rid rel
  proof -
    from rid have "rids \<noteq> []" by auto
    with candidate_grants [of db rids] assms(1) rows(2) ids obtain grants where
      ts: "ts = grants @ read_user_reachable_group_member_tuples_conn db u" and
      gr: "set grants = tuple_of_grant ` {p \<in> set (granted_repositories db).
         rr_lore_repository_id (fst p) \<in> repository_id_from_resource_id ` set rids}"
      by (auto simp: list_accessible_snapshot_conn_def)
    have "rebac_holds ts u ''resource'' rid rel \<longleftrightarrow> (\<exists>(r, g) \<in> set (granted_repositories db).
        rid = urc_prefix @ rr_lore_repository_id r \<and> grant_reaches db u g \<and> tr_role g = rel)"
      unfolding ts snapshot_holds [OF gr]
    proof (rule bex_cong [OF refl], clarify)
      fix r g assume "(r, g) \<in> set (granted_repositories db)"
      then have eq: "unwrap_or_default (for_repository_id (rr_lore_repository_id r)) = rid \<longleftrightarrow>
          rid = urc_prefix @ rr_lore_repository_id r"
        by (intro plain_resource_id [OF assms(2)]) (simp add: granted_repositories_iff)
      have "rr_lore_repository_id r \<in> repository_id_from_resource_id ` set rids" if "rid = urc_prefix @ rr_lore_repository_id r"
        using rid that by (intro image_eqI [where x = rid]) simp_all
      with eq show "(rr_lore_repository_id r \<in> repository_id_from_resource_id ` set rids \<and>
          unwrap_or_default (for_repository_id (rr_lore_repository_id r)) = rid \<and> grant_reaches db u g \<and> tr_role g = rel) =
        (rid = urc_prefix @ rr_lore_repository_id r \<and> grant_reaches db u g \<and> tr_role g = rel)" by blast
    qed
    then show ?thesis by (simp add: granted_plain [OF assms(2)])
  qed
  with srt mem show ?thesis by blast
qed

section \<open>Filters\<close>

definition no_filter :: TupleFilter where
  "no_filter = \<lparr>tf_object_type = None, tf_object_id = None, tf_relation = None, tf_subject_type = None,
     tf_subject_id = None\<rparr>"

lemma matches_opt_eq: "matches_filter_value v f \<longleftrightarrow> opt_eq f v"
  by (auto simp: matches_filter_value_def opt_eq_def split: option.splits)

lemma filter_sorted_rows:
  "filter P (map f (sort_key k xs)) = map f (sort_key k (filter (\<lambda>x. P (f x)) xs))"
  by (simp add: filter_map o_def filter_sort)

definition resource_filter_ok :: "TupleFilter \<Rightarrow> bool" where
  "resource_filter_ok f \<longleftrightarrow> tf_object_type f = Some ''group'' \<or>
     (case tf_object_id f of None \<Rightarrow> True | Some oid \<Rightarrow> starts_with oid urc_prefix)"

lemma object_clause:
  assumes "plain_repository_ids db" "r \<in> set (t_repositories db)" "resource_filter_ok f" "opt_eq (tf_object_type f) ''resource''"
  shows "opt_eq (map_option repository_id_from_resource_id (tf_object_id f)) (rr_lore_repository_id r) \<longleftrightarrow>
    opt_eq (tf_object_id f) (unwrap_or_default (for_repository_id (rr_lore_repository_id r)))"
proof (cases "tf_object_id f")
  case (Some oid)
  with assms(3,4) have "starts_with oid urc_prefix" by (auto simp: resource_filter_ok_def opt_eq_def)
  then obtain x where "oid = urc_prefix @ x" by (auto simp: starts_with_iff)
  with Some plain_resource_id [OF assms(1,2), of oid] show ?thesis by (auto simp: opt_eq_def)
qed (simp add: opt_eq_def)

lemma subject_clause:
  assumes "tr_subject_type g = ''user'' \<or> tr_subject_type g = ''group''"
  shows "(case push_grant_subject_filter f of None \<Rightarrow> False | Some clause \<Rightarrow> clause g) \<longleftrightarrow>
    opt_eq (tf_subject_type f) (tr_subject_type g) \<and>
    opt_eq (tf_subject_id f) (if tr_subject_type g = ''group'' then tr_subject_id g @ member_suffix else tr_subject_id g)"
proof (cases "tf_subject_id f")
  case None
  with assms show ?thesis
    by (auto simp: push_grant_subject_filter_def opt_eq_def split: option.splits)
next
  case (Some s)
  show ?thesis
  proof (cases "strip_suffix member_suffix s")
    case None
    then have "\<And>x. s \<noteq> x @ member_suffix" by auto
    with None Some assms show ?thesis
      by (auto simp: push_grant_subject_filter_def opt_eq_def split: option.splits)
  next
    case (Some x)
    then have "s = x @ member_suffix" by (simp add: strip_suffix_Some_iff)
    with \<open>tf_subject_id f = Some s\<close> assms show ?thesis
      by (auto simp: push_grant_subject_filter_def opt_eq_def split: option.splits)
  qed
qed

lemma grant_pushdown:
  assumes "plain_repository_ids db" "grants_ok db" "resource_filter_ok f"
  shows "read_grant_tuples_conn db f = filtered_tuples (read_grant_tuples_conn db no_filter) f"
proof (cases "opt_eq (tf_object_type f) ''resource''")
  case True
  have all: "read_grant_tuples_conn db no_filter = map tuple_of_grant (sort_key grant_columns (granted_repositories db))"
    by (simp add: read_grant_tuples_conn_def no_filter_def matches_opt_eq opt_eq_def push_grant_subject_filter_def Let_def)
  have "tuple_matches_filter (tuple_of_grant (r, g)) f \<longleftrightarrow>
      opt_eq (map_option repository_id_from_resource_id (tf_object_id f)) (rr_lore_repository_id r) \<and>
      opt_eq (tf_relation f) (tr_role g) \<and> (case push_grant_subject_filter f of None \<Rightarrow> False | Some clause \<Rightarrow> clause g)"
    if "(r, g) \<in> set (granted_repositories db)" for r g
  proof -
    have "tr_subject_type g = ''user'' \<or> tr_subject_type g = ''group''"
      using assms(2) that by (auto simp: grants_ok_def grant_row_ok_def list_all_iff granted_repositories_iff)
    moreover have "r \<in> set (t_repositories db)" using that by (simp add: granted_repositories_iff)
    ultimately show ?thesis
      using True object_clause [OF assms(1) _ assms(3) True, of r]
      by (auto simp: tuple_matches_filter_def tuple_of_grant_def matches_opt_eq subject_clause)
  qed
  then have eq: "filter (\<lambda>p. tuple_matches_filter (tuple_of_grant p) f) (granted_repositories db) =
      filter (\<lambda>(r, g). opt_eq (map_option repository_id_from_resource_id (tf_object_id f)) (rr_lore_repository_id r) \<and>
        opt_eq (tf_relation f) (tr_role g) \<and> (case push_grant_subject_filter f of None \<Rightarrow> False | Some clause \<Rightarrow> clause g))
        (granted_repositories db)"
    by (intro filter_cong [OF refl]) auto
  show ?thesis
    unfolding all filtered_tuples_def filter_sorted_rows eq
    using True by (cases "push_grant_subject_filter f") (simp_all add: read_grant_tuples_conn_def matches_opt_eq Let_def)
next
  case False
  have "\<not> tuple_matches_filter t f" if "t \<in> set (read_grant_tuples_conn db no_filter)" for t
    using that False
    by (auto simp: read_grant_tuples_conn_def tuple_matches_filter_def tuple_of_grant_def matches_opt_eq Let_def
        split: option.splits if_splits)
  then have "filtered_tuples (read_grant_tuples_conn db no_filter) f = []"
    by (simp add: filtered_tuples_def filter_empty_conv)
  with False show ?thesis by (simp add: read_grant_tuples_conn_def matches_opt_eq)
qed

lemma user_member_pushdown:
  assumes "opt_eq (tf_object_type f) ''group''" "opt_eq (tf_relation f) ''member''"
  shows "read_user_group_member_tuples_conn db f = filtered_tuples (read_user_group_member_tuples_conn db no_filter) f"
proof -
  have "read_user_group_member_tuples_conn db no_filter =
      map (\<lambda>m. user_member_tuple (mr_group_id m) (mr_user_id m)) (sort_key (\<lambda>m. [mr_group_id m, mr_user_id m]) (t_group_members db))"
    by (simp add: read_user_group_member_tuples_conn_def no_filter_def matches_opt_eq opt_eq_def)
  with assms show ?thesis
    by (auto simp: filtered_tuples_def filter_sorted_rows tuple_matches_filter_def user_member_tuple_def matches_opt_eq
        read_user_group_member_tuples_conn_def)
qed

lemma group_member_pushdown:
  assumes "opt_eq (tf_object_type f) ''group''" "opt_eq (tf_relation f) ''member''"
  shows "read_group_group_member_tuples_conn db f = filtered_tuples (read_group_group_member_tuples_conn db no_filter) f"
proof -
  have all: "read_group_group_member_tuples_conn db no_filter =
      map (\<lambda>m. group_member_tuple (nr_group_id m) (nr_member_group_id m))
        (sort_key (\<lambda>m. [nr_group_id m, nr_member_group_id m]) (t_group_groups db))"
    by (simp add: read_group_group_member_tuples_conn_def no_filter_def matches_opt_eq opt_eq_def Let_def)
  have match: "tuple_matches_filter (group_member_tuple g m) f \<longleftrightarrow> opt_eq (tf_object_id f) g \<and>
      opt_eq (tf_subject_type f) ''group'' \<and> opt_eq (tf_subject_id f) (m @ member_suffix)" for g m
    using assms by (auto simp: tuple_matches_filter_def group_member_tuple_def matches_opt_eq)
  have none: "s \<noteq> x @ member_suffix" if "strip_suffix member_suffix s = None" for s x using that by auto
  show ?thesis
    unfolding all filtered_tuples_def filter_sorted_rows match
    by (cases "tf_subject_id f"; cases "strip_suffix member_suffix (the (tf_subject_id f))")
      (auto simp: read_group_group_member_tuples_conn_def matches_opt_eq opt_eq_def Let_def strip_suffix_Some_iff
        none [symmetric])
qed

lemma member_pushdown:
  "read_group_member_tuples_conn db f = filtered_tuples (read_group_member_tuples_conn db no_filter) f"
proof (cases "opt_eq (tf_object_type f) ''group'' \<and> opt_eq (tf_relation f) ''member''")
  case True
  then show ?thesis
    using user_member_pushdown [of f db] group_member_pushdown [of f db]
    by (simp add: read_group_member_tuples_conn_def matches_opt_eq filtered_tuples_def no_filter_def opt_eq_def)
next
  case False
  have "tu_object_type t = ''group'' \<and> tu_relation t = ''member''" if "t \<in> set (read_group_member_tuples_conn db no_filter)" for t
    using that by (auto simp: read_group_member_tuples_conn_def read_user_group_member_tuples_conn_def
        read_group_group_member_tuples_conn_def user_member_tuple_def group_member_tuple_def Let_def
        split: if_splits option.splits)
  with False have "filtered_tuples (read_group_member_tuples_conn db no_filter) f = []"
    by (auto simp: filtered_tuples_def filter_empty_conv tuple_matches_filter_def matches_opt_eq)
  with False show ?thesis by (auto simp: read_group_member_tuples_conn_def matches_opt_eq)
qed

section \<open>The answer of a check\<close>

lemma can_access_missing:
  "\<not> active_repository db (repository_id_from_resource_id rid) \<Longrightarrow> can_access resolve db u rid action = Inl NotFound"
  using can_access_snapshot_cases [of db "repository_id_from_resource_id rid" u action] by (simp add: can_access_def)

lemma can_access_cases:
  assumes "active_repository db (repository_id_from_resource_id rid)"
  shows "\<exists>roles snapshot. set roles = reaching_roles db u (repository_id_from_resource_id rid) \<and>
    (\<forall>rel. rebac_holds snapshot u ''resource'' rid rel \<longleftrightarrow> granted db u rid rel) \<and>
    can_access resolve db u rid action = and_then (validate_roles action roles) (\<lambda>_.
       check_any_relation_with_resolver resolve (SnapshotTupleReader snapshot) rid u (relations_for_action action))"
proof -
  from can_access_snapshot_cases [of db "repository_id_from_resource_id rid" u action] assms obtain roles snapshot where
    1: "set roles = reaching_roles db u (repository_id_from_resource_id rid)" and
    snap: "can_access_snapshot_conn db (repository_id_from_resource_id rid) u action =
       and_then (validate_roles action roles) (\<lambda>_. Inr snapshot)" and
    2: "\<forall>rid' rel. repository_id_from_resource_id rid' = repository_id_from_resource_id rid \<longrightarrow>
      (rebac_holds snapshot u ''resource'' rid' rel \<longleftrightarrow> granted db u rid' rel)"
    unfolding if_P [OF assms] by blast
  have "can_access resolve db u rid action = and_then (validate_roles action roles) (\<lambda>_.
       check_any_relation_with_resolver resolve (SnapshotTupleReader snapshot) rid u (relations_for_action action))"
    by (cases "validate_roles action roles") (simp_all add: can_access_def snap)
  with 1 2 show ?thesis by blast
qed

lemma can_access_answer:
  assumes "resolver_ok resolve" "can_access resolve db u rid action = Inr b"
  shows "b \<longleftrightarrow> (\<exists>role. granted db u rid role \<and> (role_allows role action \<or> role = ''admin''))"
proof (cases "active_repository db (repository_id_from_resource_id rid)")
  case True
  from can_access_cases [OF True, of u resolve action] obtain roles snapshot where
    holds: "\<forall>rel. rebac_holds snapshot u ''resource'' rid rel \<longleftrightarrow> granted db u rid rel" and
    eq: "can_access resolve db u rid action = and_then (validate_roles action roles) (\<lambda>_.
       check_any_relation_with_resolver resolve (SnapshotTupleReader snapshot) rid u (relations_for_action action))"
    by blast
  show ?thesis
    using check_any_Inr [OF assms(1) relations_for_action_iff(1), of snapshot rid u action b] assms(2)
    unfolding eq by (auto simp: res_simps relations_for_action_iff(2) holds)
qed (use assms(2) can_access_missing in simp)

lemma can_access_answers:
  assumes "active_repository db (repository_id_from_resource_id rid)" "grants_ok db" "resolver_answers resolve"
  shows "\<exists>b. can_access resolve db u rid action = Inr b"
proof -
  from can_access_cases [OF assms(1), of u resolve action] obtain roles snapshot where
    roles: "set roles = reaching_roles db u (repository_id_from_resource_id rid)" and
    eq: "can_access resolve db u rid action = and_then (validate_roles action roles) (\<lambda>_.
       check_any_relation_with_resolver resolve (SnapshotTupleReader snapshot) rid u (relations_for_action action))"
    by blast
  have "validate_roles action roles = Inr ()"
    using assms(2) roles by (intro validate_roles_known)
      (auto simp: list_all_iff reaching_roles_def grants_ok_def grant_row_ok_def granted_repositories_iff)
  then show ?thesis
    using check_any_answers [OF assms(3) relations_for_action_iff(1), of snapshot rid u action] by (simp add: eq)
qed

section \<open>Properties\<close>

text \<open>C2: The policy decides exactly by the grants. For every user, resource id and action: when no
  active repository has the id, the check fails with \<open>NotFound\<close>; whenever the check answers, it
  answers yes exactly when some grant that reaches the user, directly or through nested groups,
  on the active repository of that resource id has a role that allows the action (or is
  \<open>admin\<close>); and it does answer when the resolver does and all stored roles are known.\<close>

theorem can_access_exact:
  assumes "resolver_ok resolve"
  shows "(\<not> active_repository db (repository_id_from_resource_id rid) \<longrightarrow>
       can_access resolve db u rid action = Inl NotFound) \<and>
    (\<forall>b. can_access resolve db u rid action = Inr b \<longrightarrow>
       (b \<longleftrightarrow> (\<exists>role. granted db u rid role \<and> (role_allows role action \<or> role = ''admin'')))) \<and>
    (active_repository db (repository_id_from_resource_id rid) \<and> grants_ok db \<and> resolver_answers resolve \<longrightarrow>
       (\<exists>b. can_access resolve db u rid action = Inr b))"
  using can_access_missing [of db rid resolve u action] can_access_answer [OF assms] can_access_answers [of db rid resolve u action]
  by blast

text \<open>Unknown roles fail closed: when a grant with an unknown role reaches the user on an active
  repository and no grant that reaches the user allows the action, the check does not answer no
  but fails with the invalid role, whatever the resolver does.\<close>

lemma unknown_role_fails_closed:
  assumes "active_repository db (repository_id_from_resource_id rid)"
    and "role \<in> reaching_roles db u (repository_id_from_resource_id rid)" "\<not> is_known_role role"
    and "\<forall>r \<in> reaching_roles db u (repository_id_from_resource_id rid). \<not> role_allows r action \<and> r \<noteq> ''admin''"
  shows "\<exists>r. \<not> is_known_role r \<and>
    can_access resolve db u rid action = Inl (InvalidArgument [Lit ''unknown grant role '', Dbg r])"
proof -
  from assms(1) can_access_snapshot_cases [of db "repository_id_from_resource_id rid" u action] obtain roles snapshot where
    roles: "set roles = reaching_roles db u (repository_id_from_resource_id rid)" and
    snap: "can_access_snapshot_conn db (repository_id_from_resource_id rid) u action =
       and_then (validate_roles action roles) (\<lambda>_. Inr snapshot)"
    by auto
  have "\<not> list_all is_known_role roles" using assms(2,3) roles by (auto simp: list_all_iff)
  then have "validate_roles action roles \<noteq> Inr ()"
    using validate_roles_unknown [of action roles] assms(4) roles by blast
  then obtain e where e: "validate_roles action roles = Inl e"
    by (cases "validate_roles action roles") auto
  with validate_roles_error [OF e] snap show ?thesis by (auto simp: can_access_def)
qed


text \<open>Filters pushed into SQL are exact: over a database with plain repository ids and valid
  grants, what the reader over the database returns for a filter is, in the same order, what
  filtering all tuples returns, for every filter whose resource id carries the prefix.\<close>

lemma pushdown_exact:
  assumes "plain_repository_ids db" "grants_ok db" "resource_filter_ok f"
  shows "read_tuples_conn db f = filtered_tuples (read_tuples_conn db no_filter) f"
  using grant_pushdown [OF assms] member_pushdown [of db f]
  by (simp add: read_tuples_conn_def filtered_tuples_def)

text \<open>C19: The search for a user's groups in a snapshot ends: whatever tuples the snapshot holds, cyclic
  nesting included, the loop that repeats its pass until nothing changes stops after at most one
  pass per member tuple and a last one, with exactly the groups that hold the user directly or
  through nested groups.\<close>

theorem group_search_ends:
  "sweep_passes (Suc (length ts)) (tuple_edges ts) (tuple_start ts u) = Some (reachable_group_ids_from_tuples ts u) \<and>
   set (reachable_group_ids_from_tuples ts u) = {g. rebac_holds ts u ''group'' g ''member''}"
proof
  have "card (snd ` set (tuple_edges ts) - set (tuple_start ts u)) \<le> card (set (tuple_edges ts))"
    by (metis Diff_subset List.finite_set card_image_le card_mono finite_imageI order_trans)
  also have "\<dots> \<le> length (tuple_edges ts)" by (rule card_length)
  also have "\<dots> \<le> length ts" by (simp add: tuple_edges_def List.map_filter_def)
  finally show "sweep_passes (Suc (length ts)) (tuple_edges ts) (tuple_start ts u) =
      Some (reachable_group_ids_from_tuples ts u)"
    by (simp add: reachable_group_ids_from_tuples_def sweep_passes_enough del: sweep_passes.simps)
  show "set (reachable_group_ids_from_tuples ts u) = {g. rebac_holds ts u ''group'' g ''member''}"
    by (auto simp: rebac_group_iff)
qed

section \<open>A concrete policy\<close>

text \<open>A resolver with the documented meaning, by searching the tuples it reads.\<close>

definition demo_resolver :: resolver where
  "demo_resolver reader rq =
     and_then (read_tuples reader no_filter) (\<lambda>ts.
     Inr (if list_ex (\<lambda>t. tu_object_type t = rq_object_type rq \<and> tu_object_id t = rq_object_id rq \<and>
            reaching_relation (reachable_group_ids_from_tuples ts (rq_subject_id rq)) (rq_subject_id rq) t =
              Some (rq_relation rq)) ts
          then Allowed else Denied))"

lemma demo_resolver_eq:
  "demo_resolver (SnapshotTupleReader ts) (access_request rid rel u) =
     Inr (if rebac_holds ts u ''resource'' rid rel then Allowed else Denied)"
  by (simp add: demo_resolver_def SnapshotTupleReader_def filtered_reader_def filtered_tuples_def
      tuple_matches_filter_def no_filter_def matches_filter_value_def access_request_def list_ex_iff rebac_resource_iff)

lemma demo_resolver_ok: "resolver_ok demo_resolver" "resolver_answers demo_resolver"
  by (auto simp: resolver_ok_def resolver_answers_def demo_resolver_eq)

definition demo_unknown :: Db where
  "demo_unknown = demo_access\<lparr>t_grants := [demo_grant ''t1'' ''group'' ''g2'' ''owner'']\<rparr>"

lemma demo_policy_facts:
  "active_repository demo_access (repository_id_from_resource_id ''urc-game'')"
  "active_repository demo_unknown (repository_id_from_resource_id ''urc-game'')"
  "plain_repository_ids demo_access" "\<not> is_known_role ''owner''"
  "resource_filter_ok \<lparr>tf_object_type = Some ''resource'', tf_object_id = Some ''urc-game'', tf_relation = None,
     tf_subject_type = None, tf_subject_id = Some ''g2#member''\<rparr>"
  by code_simp+

lemma demo_group_closure:
  "groups_of demo_access ''u1'' = {''g1'', ''g2''}" "groups_of demo_unknown ''u1'' = {''g1'', ''g2''}"
proof -
  have "set (reachable_group_ids_conn demo_access ''u1'') = {''g1'', ''g2''}"
    "set (reachable_group_ids_conn demo_unknown ''u1'') = {''g1'', ''g2''}" by code_simp+
  then show "groups_of demo_access ''u1'' = {''g1'', ''g2''}" "groups_of demo_unknown ''u1'' = {''g1'', ''g2''}"
    by (simp_all only: reachable_group_ids_set)
qed

lemma demo_granted_rows:
  "granted_repositories demo_access = [(demo_repo, demo_grant ''t1'' ''group'' ''g2'' ''writer'')]"
  "granted_repositories demo_unknown = [(demo_repo, demo_grant ''t1'' ''group'' ''g2'' ''owner'')]"
  by code_simp+

lemma demo_granted: "granted demo_access ''u1'' ''urc-game'' role \<longleftrightarrow> role = ''writer''"
proof -
  have "unwrap_or_default (for_repository_id ''game'') = ''urc-game''" "repository_id_from_resource_id ''urc-game'' = ''game''"
    by code_simp+
  then show ?thesis
    by (auto simp: granted_def demo_granted_rows grant_reaches_def demo_group_closure demo_repo_def demo_grant_def)
qed

theorem can_access_exact_witness:
  "can_access demo_resolver demo_access ''u1'' ''urc-game'' ''write'' = Inr True \<and>
   can_access demo_resolver demo_access ''u1'' ''urc-other'' ''write'' = Inl NotFound"
proof
  have "\<exists>role. granted demo_access ''u1'' ''urc-game'' role \<and> (role_allows role ''write'' \<or> role = ''admin'')"
    by (simp add: demo_granted role_allows_cases)
  with can_access_exact [OF demo_resolver_ok(1), of demo_access "''urc-game''" "''u1''" "''write''"]
    demo_policy_facts(1) demo_access_facts(2) demo_resolver_ok(2)
  show "can_access demo_resolver demo_access ''u1'' ''urc-game'' ''write'' = Inr True" by metis
  have "\<not> active_repository demo_access (repository_id_from_resource_id ''urc-other'')" by code_simp
  with can_access_exact [OF demo_resolver_ok(1), of demo_access "''urc-other''" "''u1''" "''write''"]
  show "can_access demo_resolver demo_access ''u1'' ''urc-other'' ''write'' = Inl NotFound" by blast
qed

lemma unknown_role_fails_closed_witness:
  "\<exists>e. can_access demo_resolver demo_unknown ''u1'' ''urc-game'' ''read'' = Inl e"
proof -
  have "repository_id_from_resource_id ''urc-game'' = ''game''" by code_simp
  then have "reaching_roles demo_unknown ''u1'' (repository_id_from_resource_id ''urc-game'') = {''owner''}"
    by (auto simp: reaching_roles_def demo_granted_rows grant_reaches_def demo_group_closure demo_repo_def demo_grant_def)
  with unknown_role_fails_closed [OF demo_policy_facts(2), of "''owner''" "''u1''" "''read''" demo_resolver] demo_policy_facts(4)
  show ?thesis by (auto simp: role_allows_cases)
qed


lemma pushdown_exact_witness:
  "read_tuples_conn demo_access \<lparr>tf_object_type = Some ''resource'', tf_object_id = Some ''urc-game'', tf_relation = None,
     tf_subject_type = None, tf_subject_id = Some ''g2#member''\<rparr> =
   filtered_tuples (read_tuples_conn demo_access no_filter) \<lparr>tf_object_type = Some ''resource'',
     tf_object_id = Some ''urc-game'', tf_relation = None, tf_subject_type = None, tf_subject_id = Some ''g2#member''\<rparr>"
  by (rule pushdown_exact [OF demo_policy_facts(3) demo_access_facts(2) demo_policy_facts(5)])

text \<open>Without the prefix the two readers differ: the reader over the database normalises the resource
  id of the filter, the one over a snapshot compares it as it is.\<close>

theorem readers_differ:
  "read_tuples_conn demo_access \<lparr>tf_object_type = Some ''resource'', tf_object_id = Some ''game'', tf_relation = None,
     tf_subject_type = None, tf_subject_id = None\<rparr> \<noteq> [] \<and>
   filtered_tuples (read_tuples_conn demo_access no_filter) \<lparr>tf_object_type = Some ''resource'',
     tf_object_id = Some ''game'', tf_relation = None, tf_subject_type = None, tf_subject_id = None\<rparr> = []"
  by code_simp

text \<open>An unknown action is allowed to administrators, although no role allows it.\<close>

theorem unknown_action_admin:
  "\<not> role_allows ''admin'' ''erase'' \<and>
   can_access demo_resolver (demo_access\<lparr>t_grants := [demo_grant ''t1'' ''user'' ''u1'' ''admin'']\<rparr>)
     ''u1'' ''urc-game'' ''erase'' = Inr True"
  by code_simp

end
