(* ===== verification/Ports.thy ===== *)
theory Ports
  imports Core_Model
begin

text \<open>
  The outbound ports (\<open>core/src/ports.rs\<close>) as records of operations over a world \<open>'s\<close>: an
  operation returns its result and the world after it, and what it committed before an error
  stays. The clock is an operation of the same kind. The second part is what the services need to
  know of their ports: every port moves the world along the steps of the system, and then so does
  everything composed from ports.
\<close>

type_synonym ('a, 's) port = "(CoreError, 'a, 's) op"

section \<open>Ports\<close>

record IdentityProviderDescriptor =
  ipd_id :: string
  ipd_provider_type :: string
  ipd_display_name :: string
  ipd_issuer :: string
  ipd_trust_policy :: LoginTrustPolicy

record BeginAuthRequest =
  bq_state :: string
  bq_nonce :: string
  bq_redirect_url :: string
  bq_login_hint :: string

definition BeginAuthRequest_default :: BeginAuthRequest where
  "BeginAuthRequest_default = \<lparr>bq_state = [], bq_nonce = [], bq_redirect_url = [], bq_login_hint = []\<rparr>"

record BeginAuthResult =
  ba_redirect_url :: string
  ba_private_state :: string

record CompleteAuthRequest =
  cq_code :: string
  cq_state :: string
  cq_nonce :: string
  cq_redirect_url :: string
  cq_params :: "string \<rightharpoonup> string list"
  cq_private_state :: string

definition CompleteAuthRequest_default :: CompleteAuthRequest where
  "CompleteAuthRequest_default = \<lparr>cq_code = [], cq_state = [], cq_nonce = [], cq_redirect_url = [],
     cq_params = Map.empty, cq_private_state = []\<rparr>"

record 's IdentityProvider =
  ip_descriptor :: IdentityProviderDescriptor
  ip_begin_auth :: "BeginAuthRequest \<Rightarrow> (BeginAuthResult, 's) port"
  ip_complete_auth :: "CompleteAuthRequest \<Rightarrow> (ExternalIdentity, 's) port"

record 's IdentityProviderRegistry =
  ir_get :: "string \<Rightarrow> 's IdentityProvider option"
  ir_default_id :: string
  ir_list :: "IdentityProviderDescriptor list"

record 's AccountDirectory =
  ad_user_by_id :: "string \<Rightarrow> (User, 's) port"
  ad_list_users :: "UserListFilter \<Rightarrow> (User list, 's) port"
  ad_resolve_login :: "LoginResolutionRequest \<Rightarrow> (TokenPrincipal \<times> LoginBindingResult, 's) port"
  ad_principal_by_user_id :: "string \<Rightarrow> (TokenPrincipal, 's) port"
  ad_principal_by_authn_token_jti :: "string \<Rightarrow> (TokenPrincipal, 's) port"
  ad_add_user :: "AddUserInput \<Rightarrow> (User, 's) port"
  ad_add_invitation :: "AddInvitationInput \<Rightarrow> (User \<times> IdentityInvitation, 's) port"
  ad_disable_user :: "string \<Rightarrow> (unit, 's) port"
  ad_enable_user :: "string \<Rightarrow> (unit, 's) port"

record 's AuthorizationPolicy =
  ap_can_access :: "string \<Rightarrow> string \<Rightarrow> string \<Rightarrow> (bool, 's) port"
  ap_list_accessible :: "string \<Rightarrow> ResourceFilter \<Rightarrow> (ResourcePermission list, 's) port"

record 's ResourceStore =
  rs_get_by_id :: "string \<Rightarrow> (Resource, 's) port"
  rs_get_by_resource_id :: "string \<Rightarrow> (Resource, 's) port"
  rs_get_by_name :: "string \<Rightarrow> (Resource, 's) port"
  rs_list :: "(Resource list, 's) port"
  rs_upsert :: "Resource \<Rightarrow> (unit, 's) port"
  rs_delete :: "string \<Rightarrow> (unit, 's) port"

record 's GroupQuery =
  gq_list_groups :: "(Group list, 's) port"
  gq_list_group_members :: "string \<Rightarrow> (User list, 's) port"
  gq_list_group_groups :: "string \<Rightarrow> (Group list, 's) port"

record 's GroupAdmin =
  ga_add_group :: "string \<Rightarrow> string \<Rightarrow> (Group, 's) port"
  ga_add_group_member :: "string \<Rightarrow> string \<Rightarrow> (unit, 's) port"
  ga_remove_group_member :: "string \<Rightarrow> string \<Rightarrow> (unit, 's) port"
  ga_add_group_group :: "string \<Rightarrow> string \<Rightarrow> (unit, 's) port"
  ga_remove_group_group :: "string \<Rightarrow> string \<Rightarrow> (unit, 's) port"

record 's GrantQuery =
  gt_list_grants :: "string \<Rightarrow> (Grant list, 's) port"
  gt_grants_for_user_on_repository :: "string \<Rightarrow> string \<Rightarrow> (GrantEvidence list, 's) port"

record 's GrantAdmin =
  gt_add_grant :: "string \<Rightarrow> string \<Rightarrow> string \<Rightarrow> string \<Rightarrow> (Grant, 's) port"
  gt_remove_grant :: "string \<Rightarrow> string \<Rightarrow> string \<Rightarrow> string \<Rightarrow> (unit, 's) port"

text \<open>The ports an administrator writes through; the factory \<open>for_actor\<close> makes them for an actor.\<close>

record 's AdminWritePorts =
  aw_accounts :: "'s AccountDirectory"
  aw_resources :: "'s ResourceStore"
  aw_groups :: "'s GroupAdmin"
  aw_grants :: "'s GrantAdmin"

type_synonym 's AdminWritePortFactory = "string \<Rightarrow> 's AdminWritePorts"

record 's DeviceAuthorizationStore =
  ds_create :: "CreateDeviceAuthorizationInput \<Rightarrow> (DeviceAuthorization, 's) port"
  ds_by_user_code :: "string \<Rightarrow> (DeviceAuthorization, 's) port"
  ds_by_device_code :: "string \<Rightarrow> (DeviceAuthorization, 's) port"
  ds_approve :: "string \<Rightarrow> string \<Rightarrow> (unit, 's) port"
  ds_consume :: "string \<Rightarrow> (unit, 's) port"
  ds_expire :: "string \<Rightarrow> (unit, 's) port"

record 's DeviceCodeGenerator =
  dg_device_code :: "(string, 's) port"
  dg_user_code :: "(string, 's) port"

record 's StateStore =
  ss_create_auth_session :: "string \<Rightarrow> duration \<Rightarrow> (string \<times> AuthSession, 's) port"
  ss_get_auth_session_by_code :: "string \<Rightarrow> (AuthSession, 's) port"
  ss_get_auth_session_by_nonce :: "string \<Rightarrow> (AuthSession, 's) port"
  ss_complete_auth_session :: "string \<Rightarrow> string \<Rightarrow> (unit, 's) port"
  ss_consume_auth_session :: "string \<Rightarrow> (unit, 's) port"
  ss_create_login_state :: "LoginStateInput \<Rightarrow> duration \<Rightarrow> (string \<times> LoginState, 's) port"
  ss_set_login_state_private_state :: "string \<Rightarrow> string \<Rightarrow> (unit, 's) port"
  ss_consume_login_state :: "string \<Rightarrow> (LoginState, 's) port"
  ss_create_browser_session :: "string \<Rightarrow> duration \<Rightarrow> (BrowserSession, 's) port"
  ss_user_by_browser_session :: "string \<Rightarrow> (User, 's) port"
  ss_revoke_browser_session :: "string \<Rightarrow> (unit, 's) port"
  ss_create_csrf_token :: "string \<Rightarrow> duration \<Rightarrow> (string, 's) port"
  ss_consume_csrf_token :: "string \<Rightarrow> string \<Rightarrow> (unit, 's) port"
  ss_match_client_state :: "AuthSession \<Rightarrow> string \<Rightarrow> bool"

record 's TokenSigner =
  ts_sign_authn :: "AuthnTokenInput \<Rightarrow> (SignedToken, 's) port"
  ts_sign_authz :: "AuthzTokenInput \<Rightarrow> (SignedToken, 's) port"
  ts_verify :: "string \<Rightarrow> VerifyOptions \<Rightarrow> (VerifiedToken, 's) port"
  ts_jwks :: "(string, 's) port"

type_synonym 's IssuedTokenLog = "IssuedToken \<Rightarrow> (unit, 's) port"

text \<open>The clock of the process: seconds since the epoch.\<close>

type_synonym 's clock = "'s \<Rightarrow> i64 \<times> 's"

definition now_op :: "'s clock \<Rightarrow> (i64, 's) port" where
  "now_op clock s = (case clock s of (t, s') \<Rightarrow> (Inr t, s'))"

definition first_nonzero :: "duration list \<Rightarrow> duration" where
  "first_nonzero values = (case find (\<lambda>v. v \<noteq> 0) values of Some v \<Rightarrow> v | None \<Rightarrow> 0)"

definition seconds :: "duration \<Rightarrow> i64" where
  "seconds ttl = i64_from_u64 (as_secs ttl)"

section \<open>Progress along the steps of a system\<close>

text \<open>Running an operation, whatever its result, moves the world along a preorder.\<close>

definition moves :: "('s \<Rightarrow> 's \<Rightarrow> bool) \<Rightarrow> ('e, 'a, 's) op \<Rightarrow> bool" where
  "moves R m \<longleftrightarrow> (\<forall>s. R s (snd (m s)))"

named_theorems moves_intros \<open>every composition of moving operations moves\<close>

locale preorder_steps =
  fixes R :: "'s \<Rightarrow> 's \<Rightarrow> bool"
  assumes refl: "R s s" and trans: "R s t \<Longrightarrow> R t u \<Longrightarrow> R s u"
begin

lemma moves_return [moves_intros]: "moves R (return_op a)"
  by (simp add: moves_def return_op_def refl)

lemma moves_fail [moves_intros]: "moves R (fail_op e)"
  by (simp add: moves_def fail_op_def refl)

lemma moves_read [moves_intros]: "moves R (read_op f)"
  by (simp add: moves_def read_op_def refl)

lemma moves_map_err [moves_intros]: "moves R m \<Longrightarrow> moves R (map_err_op g m)"
  unfolding moves_def map_err_op_def by (auto split: prod.splits) (metis snd_conv)

lemma moves_bind [moves_intros]:
  assumes "moves R m" "\<And>a. moves R (f a)"
  shows "moves R (bind_op m f)"
  unfolding moves_def
proof
  fix s
  obtain r t where mt: "m s = (r, t)" by (cases "m s")
  with assms(1) have "R s t" unfolding moves_def by (metis snd_conv)
  moreover have "R t (snd (f a t))" for a using assms(2) by (simp add: moves_def)
  ultimately show "R s (snd (bind_op m f s))"
    using mt by (cases r) (auto simp: bind_op_def intro: trans)
qed

lemma moves_catch [moves_intros]:
  assumes "moves R m" "\<And>r. moves R (f r)"
  shows "moves R (catch_op m f)"
  unfolding moves_def
proof
  fix s
  obtain r t where mt: "m s = (r, t)" by (cases "m s")
  with assms(1) have "R s t" unfolding moves_def by (metis snd_conv)
  moreover have "R t (snd (f r t))" using assms(2) by (simp add: moves_def)
  ultimately show "R s (snd (catch_op m f s))" using mt by (auto simp: catch_op_def intro: trans)
qed

lemma moves_if [moves_intros]: "moves R m \<Longrightarrow> moves R n \<Longrightarrow> moves R (if b then m else n)"
  by simp

lemma moves_option [moves_intros]:
  "moves R m \<Longrightarrow> (\<And>x. moves R (f x)) \<Longrightarrow> moves R (case opt of None \<Rightarrow> m | Some x \<Rightarrow> f x)"
  by (cases opt) auto

lemma moves_prod [moves_intros]: "(\<And>x y. moves R (f x y)) \<Longrightarrow> moves R (case p of (x, y) \<Rightarrow> f x y)"
  by (cases p) auto

lemma moves_run: "moves R m \<Longrightarrow> m s = (r, t) \<Longrightarrow> R s t"
  unfolding moves_def by (metis snd_conv)

end

end
