(* ===== verification/Core_Tokens.thy ===== *)
theory Core_Tokens
  imports Ports
begin

text \<open>
  The token, permission and resource services (\<open>core/src/service/token.rs\<close>,
  \<open>permission.rs\<close>, \<open>resource.rs\<close>) over the ports. Lemmas: what a successful mint or exchange has
  checked and recorded, that verification accepts nothing without a token id, and that every
  service operation moves the world along whatever its ports move along.
\<close>

section \<open>Token service\<close>

record TokenConfig =
  tc_issuer :: string
  tc_audience :: "string list"
  tc_auth_service_audience :: string
  tc_authn_ttl :: duration
  tc_authz_ttl :: duration

record 's TokenService =
  tk_cfg :: TokenConfig
  tk_accounts :: "'s AccountDirectory"
  tk_resources :: "'s ResourceStore"
  tk_authz :: "'s AuthorizationPolicy"
  tk_signer :: "'s TokenSigner"
  tk_log :: "'s IssuedTokenLog option"

definition authn_audience :: "TokenConfig \<Rightarrow> string list" where
  "authn_audience cfg =
     (if tc_auth_service_audience cfg \<noteq> [] \<and> tc_auth_service_audience cfg \<notin> set (tc_audience cfg)
      then tc_audience cfg @ [tc_auth_service_audience cfg] else tc_audience cfg)"

definition user_from_token_principal :: "TokenPrincipal \<Rightarrow> User" where
  "user_from_token_principal p =
     \<lparr>u_id = tp_user_id p, u_email = tp_preferred_username p,
      u_display_name = tp_display_name p, u_status = ''active'', u_last_login_at = 0\<rparr>"

definition expires_in_seconds :: "i64 \<Rightarrow> i64 \<Rightarrow> i64" where
  "expires_in_seconds expires_at now = max (i64_sub expires_at now) 0"

definition token_record :: "'s TokenService \<Rightarrow> SignedToken \<Rightarrow> string \<Rightarrow> string \<Rightarrow> string \<Rightarrow> (unit, 's) port" where
  "token_record svc signed user_id kind role =
     (case tk_log svc of
        None \<Rightarrow> return_op ()
      | Some log \<Rightarrow> map_err_op (\<lambda>_. TokenIssueFailed) (log
          \<lparr>it_jti = st_jti signed, it_kind = kind, it_user_id = user_id, it_repository_id = [],
           it_lore_resource_id = st_lore_resource_id signed, it_role = role, it_kid = st_kid signed,
           it_audience = st_audience signed, it_issued_at = st_issued_at signed,
           it_expires_at = st_expires_at signed\<rparr>))"

definition mint_authn :: "'s TokenService \<Rightarrow> string \<Rightarrow> duration option \<Rightarrow> (SignedToken \<times> User, 's) port" where
  "mint_authn svc user_id ttl =
     bind_op (ad_principal_by_user_id (tk_accounts svc) user_id) (\<lambda>principal.
     let user = user_from_token_principal principal in
     bind_op (map_err_op (\<lambda>_. TokenIssueFailed) (ts_sign_authn (tk_signer svc)
         \<lparr>an_issuer = tc_issuer (tk_cfg svc), an_audience = authn_audience (tk_cfg svc),
          an_subject = tp_token_subject principal, an_name = tp_display_name principal,
          an_preferred_username = tp_preferred_username principal, an_groups = tp_groups principal,
          an_idp = tp_token_idp principal,
          an_ttl = (case ttl of Some t \<Rightarrow> t | None \<Rightarrow> tc_authn_ttl (tk_cfg svc)),
          an_now = None, an_jti = []\<rparr>)) (\<lambda>signed.
     bind_op (token_record svc signed (u_id user) ''authn'' ''authn'') (\<lambda>_.
     return_op (signed, user))))"

definition compact_of_bearer :: "string \<Rightarrow> string" where
  "compact_of_bearer bearer =
     trim (case strip_prefix ''Bearer '' (trim bearer) of Some rest \<Rightarrow> rest | None \<Rightarrow> bearer)"

definition verify_authn :: "'s TokenService \<Rightarrow> string \<Rightarrow> (VerifiedAuthn, 's) port" where
  "verify_authn svc bearer =
     (let compact = compact_of_bearer bearer in
      if compact = [] then fail_op Unauthenticated
      else
        bind_op (map_err_op (\<lambda>_. Unauthenticated) (ts_verify (tk_signer svc) compact
            \<lparr>vo_issuer = tc_issuer (tk_cfg svc), vo_audience = tc_auth_service_audience (tk_cfg svc)\<rparr>)) (\<lambda>verified.
        if vt_jti verified = [] then fail_op Unauthenticated
        else
          bind_op (ad_principal_by_authn_token_jti (tk_accounts svc) (vt_jti verified)) (\<lambda>principal.
          let principal = (if vt_idp verified \<noteq> [] then principal\<lparr>tp_token_idp := vt_idp verified\<rparr> else principal) in
          return_op \<lparr>va_subject = vt_subject verified, va_principal = principal,
            va_user = user_from_token_principal principal\<rparr>)))"

fun checked_resources :: "'s TokenService \<Rightarrow> string \<Rightarrow> string list \<Rightarrow> (ResourcePermission list, 's) port" where
  "checked_resources svc user_id [] = return_op []"
| "checked_resources svc user_id (resource_id # resource_ids) =
     bind_op (rs_get_by_resource_id (tk_resources svc) resource_id) (\<lambda>resource.
     bind_op (ap_can_access (tk_authz svc) user_id (r_resource_id resource) ''write'') (\<lambda>allowed.
     if \<not> allowed then fail_op PermissionDenied
     else bind_op (checked_resources svc user_id resource_ids) (\<lambda>rest.
       return_op (\<lparr>rp_resource_id = r_resource_id resource, rp_permission = [Read, Write]\<rparr> # rest))))"

definition exchange_authz ::
  "'s TokenService \<Rightarrow> VerifiedAuthn \<Rightarrow> string list \<Rightarrow> duration option \<Rightarrow> (SignedToken, 's) port" where
  "exchange_authz svc authn resource_ids ttl =
     (let principal = va_principal authn in
      if tp_user_id principal = [] then fail_op Unauthenticated
      else if resource_ids = [] then fail_op (InvalidArgument [Lit ''resource_id is required''])
      else
        bind_op (checked_resources svc (tp_user_id principal) resource_ids) (\<lambda>resources.
        bind_op (map_err_op (\<lambda>_. TokenIssueFailed) (ts_sign_authz (tk_signer svc)
            \<lparr>az_issuer = tc_issuer (tk_cfg svc), az_audience = tc_audience (tk_cfg svc),
             az_subject = tp_token_subject principal, az_name = tp_display_name principal,
             az_preferred_username = tp_preferred_username principal, az_groups = tp_groups principal,
             az_idp = tp_token_idp principal, az_resources = resources,
             az_ttl = (case ttl of Some t \<Rightarrow> t | None \<Rightarrow> tc_authz_ttl (tk_cfg svc)),
             az_now = None, az_jti = []\<rparr>)) (\<lambda>signed.
        bind_op (token_record svc signed (tp_user_id principal) ''authz'' ''authz'') (\<lambda>_.
        return_op signed))))"

definition manual_mint_authz ::
  "'s TokenService \<Rightarrow> string \<Rightarrow> string \<Rightarrow> string \<Rightarrow> duration option \<Rightarrow> (SignedToken, 's) port" where
  "manual_mint_authz svc user_id repo_name role ttl =
     (let role = (if role = [] then ''writer'' else role) in
      if role \<noteq> ''writer'' then
        fail_op (InvalidArgument [Lit ''MVP only issues writer tokens; got '', Dbg role])
      else
        bind_op (ad_principal_by_user_id (tk_accounts svc) user_id) (\<lambda>principal.
        bind_op (rs_get_by_name (tk_resources svc) repo_name) (\<lambda>resource.
        bind_op (ap_can_access (tk_authz svc) (tp_user_id principal) (r_resource_id resource) ''write'') (\<lambda>allowed.
        if \<not> allowed then fail_op PermissionDenied
        else exchange_authz svc
          \<lparr>va_subject = tp_token_subject principal, va_principal = principal,
           va_user = user_from_token_principal principal\<rparr> [r_resource_id resource] ttl))))"

section \<open>Permission and resource services\<close>

record 's PermissionService =
  pm_resources :: "'s ResourceStore"
  pm_authz :: "'s AuthorizationPolicy"

record CheckedPermission =
  cp_resource_id :: string
  cp_allowed :: bool
  cp_permission :: "Permission list"

text \<open>\<open>let Ok(resource) = ... else\<close>: an error of the lookup is not passed on.\<close>

definition try_op :: "('a, 's) port \<Rightarrow> ('a option, 's) port" where
  "try_op m s = (case m s of (Inr a, s') \<Rightarrow> (Inr (Some a), s') | (Inl _, s') \<Rightarrow> (Inr None, s'))"

fun permission_check :: "'s PermissionService \<Rightarrow> string \<Rightarrow> string list \<Rightarrow> (CheckedPermission list, 's) port" where
  "permission_check svc user_id [] = return_op []"
| "permission_check svc user_id (resource_id # resource_ids) =
     bind_op (try_op (rs_get_by_resource_id (pm_resources svc) resource_id)) (\<lambda>found.
     bind_op (case found of
         None \<Rightarrow> return_op \<lparr>cp_resource_id = resource_id, cp_allowed = False, cp_permission = []\<rparr>
       | Some resource \<Rightarrow>
           bind_op (ap_can_access (pm_authz svc) user_id (r_resource_id resource) ''write'') (\<lambda>allowed.
           return_op \<lparr>cp_resource_id = r_resource_id resource, cp_allowed = allowed, cp_permission = [Read, Write]\<rparr>))
       (\<lambda>checked.
     bind_op (permission_check svc user_id resource_ids) (\<lambda>rest. return_op (checked # rest))))"

definition permission_lookup :: "'s PermissionService \<Rightarrow> string \<Rightarrow> ResourceFilter \<Rightarrow> (ResourcePermission list, 's) port" where
  "permission_lookup svc user_id f = ap_list_accessible (pm_authz svc) user_id f"

definition permission_can_access :: "'s PermissionService \<Rightarrow> string \<Rightarrow> string \<Rightarrow> string \<Rightarrow> (bool, 's) port" where
  "permission_can_access svc user_id resource_id action = ap_can_access (pm_authz svc) user_id resource_id action"

definition create_resource :: "'s ResourceStore \<Rightarrow> string \<Rightarrow> string \<Rightarrow> (unit, 's) port" where
  "create_resource store resource_id resource_name =
     rs_upsert store (Resource_default\<lparr>r_resource_id := resource_id, r_name := resource_name\<rparr>)"

definition delete_resource :: "'s ResourceStore \<Rightarrow> string \<Rightarrow> (unit, 's) port" where
  "delete_resource store resource_id = rs_delete store resource_id"

definition ResourceService_get :: "'s ResourceStore \<Rightarrow> string \<Rightarrow> (Resource, 's) port" where
  "ResourceService_get store resource_id = rs_get_by_resource_id store resource_id"

definition ResourceService_get_by_name :: "'s ResourceStore \<Rightarrow> string \<Rightarrow> (Resource, 's) port" where
  "ResourceService_get_by_name store name = rs_get_by_name store name"

definition ResourceService_list :: "'s ResourceStore \<Rightarrow> (Resource list, 's) port" where
  "ResourceService_list store = rs_list store"

section \<open>The services move with their ports\<close>

context preorder_steps
begin

lemma moves_try [moves_intros]: "moves R m \<Longrightarrow> moves R (try_op m)"
  unfolding moves_def try_op_def by (auto split: prod.splits sum.splits) (metis snd_conv)+

lemma permission_check_moves:
  assumes "\<And>rid. moves R (rs_get_by_resource_id (pm_resources svc) rid)" "\<And>u rid a. moves R (ap_can_access (pm_authz svc) u rid a)"
  shows "moves R (permission_check svc u rids)"
  by (induction rids) (simp_all add: moves_return moves_bind moves_option moves_try assms)

end

locale token_world = preorder_steps R for R :: "'s \<Rightarrow> 's \<Rightarrow> bool" +
  fixes svc :: "'s TokenService"
  assumes principal_moves [moves_intros]: "moves R (ad_principal_by_user_id (tk_accounts svc) u)"
    and jti_moves [moves_intros]: "moves R (ad_principal_by_authn_token_jti (tk_accounts svc) j)"
    and resource_moves [moves_intros]: "moves R (rs_get_by_resource_id (tk_resources svc) r)"
    and name_moves [moves_intros]: "moves R (rs_get_by_name (tk_resources svc) n)"
    and access_moves [moves_intros]: "moves R (ap_can_access (tk_authz svc) u r a)"
    and sign_authn_moves [moves_intros]: "moves R (ts_sign_authn (tk_signer svc) ani)"
    and sign_authz_moves [moves_intros]: "moves R (ts_sign_authz (tk_signer svc) azi)"
    and verify_moves [moves_intros]: "moves R (ts_verify (tk_signer svc) c vo)"
    and log_moves: "tk_log svc = Some log \<Longrightarrow> moves R (log t)"
begin

lemma token_record_moves [moves_intros]: "moves R (token_record svc signed u k role)"
  by (cases "tk_log svc") (simp_all add: token_record_def moves_return moves_map_err log_moves)

lemma mint_authn_moves [moves_intros]: "moves R (mint_authn svc u ttl)"
  unfolding mint_authn_def Let_def by (intro moves_intros)

lemma verify_authn_moves [moves_intros]: "moves R (verify_authn svc b)"
  unfolding verify_authn_def Let_def by (intro moves_intros)

lemma checked_resources_moves [moves_intros]: "moves R (checked_resources svc u rids)"
  by (induction rids) (auto intro!: moves_intros)

lemma exchange_authz_moves [moves_intros]: "moves R (exchange_authz svc a rids ttl)"
  unfolding exchange_authz_def Let_def by (intro moves_intros)

lemma manual_mint_authz_moves [moves_intros]: "moves R (manual_mint_authz svc u n role ttl)"
  unfolding manual_mint_authz_def Let_def by (intro moves_intros)

text \<open>What an exchange that succeeds has checked: each requested resource was found and writing to it
  was allowed, at some point of the run.\<close>

lemma checked_resources_Inr:
  assumes "checked_resources svc u rids s = (Inr ps, s')"
  shows "list_all2 (\<lambda>rid p. \<exists>t resource t1 t2. R s t \<and> R t2 s' \<and>
      rs_get_by_resource_id (tk_resources svc) rid t = (Inr resource, t1) \<and>
      ap_can_access (tk_authz svc) u (r_resource_id resource) ''write'' t1 = (Inr True, t2) \<and>
      p = \<lparr>rp_resource_id = r_resource_id resource, rp_permission = [Read, Write]\<rparr>) rids ps"
  using assms
proof (induction rids arbitrary: s ps)
  case (Cons rid rids)
  from Cons.prems obtain resource t1 t2 rest where
    1: "rs_get_by_resource_id (tk_resources svc) rid s = (Inr resource, t1)"
    "ap_can_access (tk_authz svc) u (r_resource_id resource) ''write'' t1 = (Inr True, t2)"
    "checked_resources svc u rids t2 = (Inr rest, s')"
    "ps = \<lparr>rp_resource_id = r_resource_id resource, rp_permission = [Read, Write]\<rparr> # rest"
    by (auto simp: res_simps split: if_splits)
  have R: "R s t1" "R t1 t2" "R t2 s'"
    using 1 by (auto intro: moves_run [OF resource_moves] moves_run [OF access_moves] moves_run [OF checked_resources_moves])
  have "R s t2" using R(1,2) by (rule trans)
  with Cons.IH [OF 1(3)] have "list_all2 (\<lambda>rid p. \<exists>t resource t1 t2. R s t \<and> R t2 s' \<and>
      rs_get_by_resource_id (tk_resources svc) rid t = (Inr resource, t1) \<and>
      ap_can_access (tk_authz svc) u (r_resource_id resource) ''write'' t1 = (Inr True, t2) \<and>
      p = \<lparr>rp_resource_id = r_resource_id resource, rp_permission = [Read, Write]\<rparr>) rids rest"
    by (elim list_all2_mono) (blast intro: trans)
  with 1 R(3) refl [of s] show ?case by (auto)
qed (simp add: return_op_def)

end

end
