(* ===== verification/Core_Device.thy ===== *)
theory Core_Device
  imports Core_Tokens
begin

text \<open>
  The device authorization service (\<open>core/src/service/device.rs\<close>): a client starts a device
  authorization and polls for its token, a signed-in user approves it by its user code.
\<close>

record DeviceConfig =
  dc_public_base_url :: string
  dc_auth_url :: string
  dc_device_code_ttl :: duration
  dc_poll_interval :: duration

record StartResult =
  start_device_code :: string
  start_user_code :: string
  start_verification_uri :: string
  start_expires_in :: i64
  start_interval :: i64

record TokenResult =
  tok_status :: string
  tok_token_type :: string
  tok_access_token :: string
  tok_expires_in :: i64
  tok_auth_url :: string
  tok_remote_url :: string

definition TokenResult_default :: TokenResult where
  "TokenResult_default = \<lparr>tok_status = [], tok_token_type = [], tok_access_token = [], tok_expires_in = 0,
     tok_auth_url = [], tok_remote_url = []\<rparr>"

record Repository =
  repo_name :: string
  repo_remote_url :: string

record PreviewResult =
  pv_repository :: Repository
  pv_requested_remote_url :: string

record 's DeviceService =
  dv_cfg :: DeviceConfig
  dv_devices :: "'s DeviceAuthorizationStore"
  dv_resources :: "'s ResourceStore"
  dv_authz :: "'s AuthorizationPolicy"
  dv_accounts :: "'s AccountDirectory"
  dv_tokens :: "'s TokenService"
  dv_codes :: "'s DeviceCodeGenerator"
  dv_clock :: "'s clock"

fun invalid_device_code :: "CoreError \<Rightarrow> CoreError" where
  "invalid_device_code NotFound = DeviceInvalidCode"
| "invalid_device_code other = other"

definition service_device_by_user_code :: "'s DeviceService \<Rightarrow> string \<Rightarrow> (DeviceAuthorization, 's) port" where
  "service_device_by_user_code svc user_code =
     map_err_op invalid_device_code (ds_by_user_code (dv_devices svc) user_code)"

definition service_device_by_device_code :: "'s DeviceService \<Rightarrow> string \<Rightarrow> (DeviceAuthorization, 's) port" where
  "service_device_by_device_code svc device_code =
     map_err_op invalid_device_code (ds_by_device_code (dv_devices svc) device_code)"

definition ensure_pending :: "'s DeviceService \<Rightarrow> DeviceAuthorization \<Rightarrow> (unit, 's) port" where
  "ensure_pending svc device =
     (if da_status device \<noteq> ''pending'' then fail_op DeviceAuthorizationNotPending
      else
        bind_op (now_op (dv_clock svc)) (\<lambda>now.
        if da_expires_at device \<le> now then
          bind_op (ds_expire (dv_devices svc) (da_id device)) (\<lambda>_. fail_op DeviceExpiredCode)
        else if da_requested_repository_id device = [] then fail_op DeviceIncompleteAuthorization
        else return_op ()))"

definition repository_for_device :: "'s DeviceService \<Rightarrow> DeviceAuthorization \<Rightarrow> (Resource, 's) port" where
  "repository_for_device svc device =
     (if da_requested_repository_id device = [] then fail_op DeviceIncompleteAuthorization
      else rs_get_by_id (dv_resources svc) (da_requested_repository_id device))"

definition device_start :: "'s DeviceService \<Rightarrow> string \<Rightarrow> string \<Rightarrow> (StartResult, 's) port" where
  "device_start svc remote_url name =
     bind_op (rs_get_by_name (dv_resources svc) name) (\<lambda>repo.
     bind_op (dg_device_code (dv_codes svc)) (\<lambda>device_code.
     bind_op (dg_user_code (dv_codes svc)) (\<lambda>user_code.
     let ttl = first_nonzero [dc_device_code_ttl (dv_cfg svc), duration_from_secs (10 * 60)] in
     bind_op (ds_create (dv_devices svc)
         \<lparr>cd_device_code = device_code, cd_user_code = user_code, cd_requested_remote_url = remote_url,
          cd_requested_repository_id = r_id repo, cd_ttl = ttl\<rparr>) (\<lambda>_.
     return_op \<lparr>start_device_code = device_code, start_user_code = user_code,
       start_verification_uri = trim_end_matches (CHR ''/'') (dc_public_base_url (dv_cfg svc)) @ ''/device'',
       start_expires_in = seconds ttl,
       start_interval = seconds (first_nonzero [dc_poll_interval (dv_cfg svc), duration_from_secs 5])\<rparr>))))"

definition preview :: "'s DeviceService \<Rightarrow> string \<Rightarrow> (PreviewResult, 's) port" where
  "preview svc user_code =
     bind_op (service_device_by_user_code svc user_code) (\<lambda>device.
     bind_op (ensure_pending svc device) (\<lambda>_.
     bind_op (repository_for_device svc device) (\<lambda>repo.
     return_op \<lparr>pv_repository = \<lparr>repo_name = r_name repo, repo_remote_url = r_remote_url repo\<rparr>,
       pv_requested_remote_url = da_requested_remote_url device\<rparr>)))"

definition device_approve :: "'s DeviceService \<Rightarrow> string \<Rightarrow> string \<Rightarrow> (Repository, 's) port" where
  "device_approve svc user_id user_code =
     bind_op (service_device_by_user_code svc user_code) (\<lambda>device.
     bind_op (ensure_pending svc device) (\<lambda>_.
     bind_op (repository_for_device svc device) (\<lambda>repo.
     bind_op (ap_can_access (dv_authz svc) user_id (r_resource_id repo) ''write'') (\<lambda>allowed.
     if \<not> allowed then fail_op PermissionDenied
     else
       bind_op (ad_principal_by_user_id (dv_accounts svc) user_id) (\<lambda>principal.
       bind_op (ds_approve (dv_devices svc) (da_id device) (tp_user_id principal)) (\<lambda>_.
       return_op \<lparr>repo_name = r_name repo, repo_remote_url = r_remote_url repo\<rparr>))))))"

definition device_token :: "'s DeviceService \<Rightarrow> string \<Rightarrow> (TokenResult, 's) port" where
  "device_token svc device_code =
     bind_op (service_device_by_device_code svc device_code) (\<lambda>device.
     bind_op (now_op (dv_clock svc)) (\<lambda>now.
     if da_expires_at device \<le> now \<and> da_status device = ''pending'' then
       bind_op (ds_expire (dv_devices svc) (da_id device)) (\<lambda>_.
       return_op (TokenResult_default\<lparr>tok_status := ''expired_token''\<rparr>))
     else if da_status device = ''pending'' then
       return_op (TokenResult_default\<lparr>tok_status := ''authorization_pending''\<rparr>)
     else if da_status device \<noteq> ''approved'' then
       return_op (TokenResult_default\<lparr>tok_status := da_status device\<rparr>)
     else if da_approved_user_id device = [] \<or> da_requested_repository_id device = [] then
       fail_op DeviceIncompleteAuthorization
     else
       bind_op (repository_for_device svc device) (\<lambda>repo.
       bind_op (manual_mint_authz (dv_tokens svc) (da_approved_user_id device) (r_name repo) ''writer'' None) (\<lambda>signed.
       bind_op (ds_consume (dv_devices svc) (da_id device)) (\<lambda>_.
       bind_op (now_op (dv_clock svc)) (\<lambda>now2.
       return_op \<lparr>tok_status = ''ok'', tok_token_type = ''lore'', tok_access_token = st_token signed,
         tok_expires_in = expires_in_seconds (st_expires_at signed) now2,
         tok_auth_url = dc_auth_url (dv_cfg svc), tok_remote_url = r_remote_url repo\<rparr>))))))"

section \<open>The service moves with its ports\<close>

locale device_world = token_world R "dv_tokens svc" for R :: "'s \<Rightarrow> 's \<Rightarrow> bool" and svc :: "'s DeviceService" +
  assumes create_moves [moves_intros]: "moves R (ds_create (dv_devices svc) cin)"
    and by_user_code_moves [moves_intros]: "moves R (ds_by_user_code (dv_devices svc) c)"
    and by_device_code_moves [moves_intros]: "moves R (ds_by_device_code (dv_devices svc) c)"
    and approve_moves [moves_intros]: "moves R (ds_approve (dv_devices svc) i u)"
    and consume_moves [moves_intros]: "moves R (ds_consume (dv_devices svc) i)"
    and expire_moves [moves_intros]: "moves R (ds_expire (dv_devices svc) i)"
    and id_moves [moves_intros]: "moves R (rs_get_by_id (dv_resources svc) i)"
    and device_name_moves [moves_intros]: "moves R (rs_get_by_name (dv_resources svc) n)"
    and device_access_moves [moves_intros]: "moves R (ap_can_access (dv_authz svc) u r a)"
    and device_principal_moves [moves_intros]: "moves R (ad_principal_by_user_id (dv_accounts svc) u)"
    and code_moves [moves_intros]: "moves R (dg_device_code (dv_codes svc))" "moves R (dg_user_code (dv_codes svc))"
    and clock_moves [moves_intros]: "moves R (now_op (dv_clock svc))"
begin

lemma lookup_moves [moves_intros]:
  "moves R (service_device_by_user_code svc c)" "moves R (service_device_by_device_code svc c)"
  unfolding service_device_by_user_code_def service_device_by_device_code_def by (intro moves_intros)+

lemma ensure_pending_moves [moves_intros]: "moves R (ensure_pending svc d)"
  unfolding ensure_pending_def by (intro moves_intros)

lemma repository_moves [moves_intros]: "moves R (repository_for_device svc d)"
  unfolding repository_for_device_def by (intro moves_intros)

lemma device_start_moves: "moves R (device_start svc url n)"
  unfolding device_start_def Let_def by (intro moves_intros)

lemma preview_moves: "moves R (preview svc c)"
  unfolding preview_def by (intro moves_intros)

lemma device_approve_moves: "moves R (device_approve svc u c)"
  unfolding device_approve_def by (intro moves_intros)

lemma device_token_moves: "moves R (device_token svc c)"
  unfolding device_token_def by (intro moves_intros)

text \<open>A poll that delivers a token read an approved device, minted for the user who approved it, and
  consumed the device before it answered.\<close>

lemma device_token_delivers:
  assumes "device_token svc c s = (Inr res, s')" "tok_token_type res \<noteq> []"
  obtains device t t1 repo t2 signed t3 t4 where
    "ds_by_device_code (dv_devices svc) c s = (Inr device, t)" "da_status device = ''approved''" "R t t1"
    "rs_get_by_id (dv_resources svc) (da_requested_repository_id device) t1 = (Inr repo, t2)"
    "manual_mint_authz (dv_tokens svc) (da_approved_user_id device) (r_name repo) ''writer'' None t2 = (Inr signed, t3)"
    "ds_consume (dv_devices svc) (da_id device) t3 = (Inr (), t4)"
    "tok_status res = ''ok''" "tok_access_token res = st_token signed"
    "R s t" "R t1 t2" "R t2 t3" "R t4 s'"
proof -
  from assms obtain device t now t1 repo t2 signed t3 t4 now2 where
    1: "service_device_by_device_code svc c s = (Inr device, t)" "now_op (dv_clock svc) t = (Inr now, t1)"
    "da_status device = ''approved''" "repository_for_device svc device t1 = (Inr repo, t2)"
    "manual_mint_authz (dv_tokens svc) (da_approved_user_id device) (r_name repo) ''writer'' None t2 = (Inr signed, t3)"
    "ds_consume (dv_devices svc) (da_id device) t3 = (Inr (), t4)" "now_op (dv_clock svc) t4 = (Inr now2, s')"
    "tok_status res = ''ok''" "tok_access_token res = st_token signed"
    unfolding device_token_def
    by (auto simp: res_simps TokenResult_default_def split: if_splits)
  have "R t t1" "R t1 t2" "R t2 t3" "R t4 s'"
    using 1 by (auto intro: moves_run [OF clock_moves] moves_run [OF repository_moves] moves_run [OF manual_mint_authz_moves])
  moreover have "ds_by_device_code (dv_devices svc) c s = (Inr device, t)"
    using 1(1) by (simp add: service_device_by_device_code_def res_simps)
  moreover have "rs_get_by_id (dv_resources svc) (da_requested_repository_id device) t1 = (Inr repo, t2)"
    using 1(4) by (auto simp: repository_for_device_def fail_op_def split: if_splits)
  moreover from 1(1) have "R s t" by (rule moves_run [OF lookup_moves(2)])
  ultimately show ?thesis using that 1 by blast
qed

end

end
