(* ===== verification/Core_Login.thy ===== *)
theory Core_Login
  imports Core_Tokens
begin

text \<open>
  The login service (\<open>core/src/service/login.rs\<close>): sessions of the command-line client, and the
  completion of a login at an identity provider.
\<close>

record LoginConfig =
  lc_public_base_url :: string
  lc_session_ttl :: duration
  lc_auth_session_ttl :: duration

record 's LoginService =
  lg_cfg :: LoginConfig
  lg_idps :: "'s IdentityProviderRegistry"
  lg_users :: "'s AccountDirectory"
  lg_state :: "'s StateStore"
  lg_tokens :: "'s TokenService"
  lg_clock :: "'s clock"

record StartAuthSessionResult =
  sa_session_code :: string
  sa_login_url :: string

record AuthSessionTokenResult =
  at_token :: SignedToken
  at_user :: User
  at_ready :: bool

definition SignedToken_default :: SignedToken where
  "SignedToken_default = \<lparr>st_token = [], st_jti = [], st_kid = [], st_lore_resource_id = [], st_issued_at = 0,
     st_expires_at = 0, st_permissions = [], st_audience = []\<rparr>"

definition User_default :: User where
  "User_default = \<lparr>u_id = [], u_email = [], u_display_name = [], u_status = [], u_last_login_at = 0\<rparr>"

definition BrowserSession_default :: BrowserSession where
  "BrowserSession_default = \<lparr>bs_id = [], bs_user_id = [], bs_expires_at = 0\<rparr>"

record OAuthCallbackResult =
  oc_identity :: ExternalIdentity
  oc_user :: User
  oc_browser_session :: BrowserSession
  oc_unknown_user :: bool
  oc_cli_complete :: bool

definition effective_provider_id :: "'s LoginService \<Rightarrow> string \<Rightarrow> string" where
  "effective_provider_id svc provider_id =
     (if provider_id = [] then ir_default_id (lg_idps svc) else provider_id)"

definition identity_provider ::
  "'s LoginService \<Rightarrow> string \<Rightarrow> ('s IdentityProvider \<times> IdentityProviderDescriptor) core_result" where
  "identity_provider svc provider_id =
     (let provider_id = effective_provider_id svc provider_id in
      if provider_id = [] then Inl Unsupported
      else
        and_then (ok_or NotFound (ir_get (lg_idps svc) provider_id)) (\<lambda>provider.
        let descriptor = ip_descriptor provider in
        Inr (provider, if ipd_id descriptor = [] then descriptor\<lparr>ipd_id := provider_id\<rparr> else descriptor)))"

definition begin_auth :: "'s LoginService \<Rightarrow> string \<Rightarrow> BeginAuthRequest \<Rightarrow> (BeginAuthResult, 's) port" where
  "begin_auth svc provider_id req =
     bind_op (read_op (\<lambda>_. identity_provider svc provider_id)) (\<lambda>(provider, _).
     ip_begin_auth provider req)"

definition auth_code_url :: "'s LoginService \<Rightarrow> string \<Rightarrow> (string, 's) port" where
  "auth_code_url svc state =
     bind_op (begin_auth svc [] (BeginAuthRequest_default\<lparr>bq_state := state\<rparr>)) (\<lambda>result.
     return_op (ba_redirect_url result))"

definition login_providers :: "'s LoginService \<Rightarrow> IdentityProviderDescriptor list" where
  "login_providers svc = ir_list (lg_idps svc)"

definition default_provider_id :: "'s LoginService \<Rightarrow> string" where
  "default_provider_id svc = ir_default_id (lg_idps svc)"

definition has_provider :: "'s LoginService \<Rightarrow> string \<Rightarrow> bool" where
  "has_provider svc provider_id =
     (let provider_id = effective_provider_id svc provider_id in
      provider_id \<noteq> [] \<and> ir_get (lg_idps svc) provider_id \<noteq> None)"

definition start_auth_session :: "'s LoginService \<Rightarrow> string \<Rightarrow> (StartAuthSessionResult, 's) port" where
  "start_auth_session svc client_state =
     (let ttl = first_nonzero [lc_auth_session_ttl (lg_cfg svc), lc_session_ttl (lg_cfg svc), duration_from_secs (10 * 60)] in
      bind_op (ss_create_auth_session (lg_state svc) client_state ttl) (\<lambda>(code, session).
      return_op \<lparr>sa_session_code = code,
        sa_login_url = trim_end_matches (CHR ''/'') (lc_public_base_url (lg_cfg svc)) @ ''/login/session/'' @
          as_login_url_nonce session\<rparr>))"

fun auth_session_not_found :: "CoreError \<Rightarrow> CoreError" where
  "auth_session_not_found NotFound = AuthSessionNotFound"
| "auth_session_not_found AuthSessionNotFound = AuthSessionNotFound"
| "auth_session_not_found other = other"

definition get_auth_session :: "'s LoginService \<Rightarrow> string \<Rightarrow> string \<Rightarrow> (AuthSessionTokenResult, 's) port" where
  "get_auth_session svc session_code client_state =
     bind_op (map_err_op auth_session_not_found (ss_get_auth_session_by_code (lg_state svc) session_code)) (\<lambda>session.
     bind_op (now_op (lg_clock svc)) (\<lambda>now.
     if as_expires_at session \<le> now then fail_op AuthSessionNotFound
     else if \<not> ss_match_client_state (lg_state svc) session client_state then
       fail_op (InvalidArgument [Lit ''client_state mismatch''])
     else if as_status session \<noteq> ''completed'' \<or> as_user_id session = [] then
       return_op \<lparr>at_token = SignedToken_default, at_user = User_default, at_ready = False\<rparr>
     else
       bind_op (mint_authn (lg_tokens svc) (as_user_id session) None) (\<lambda>(token, user).
       bind_op (ss_consume_auth_session (lg_state svc) (as_id session)) (\<lambda>_.
       return_op \<lparr>at_token = token, at_user = user, at_ready = True\<rparr>))))"

definition normalize_identity :: "ExternalIdentity \<Rightarrow> IdentityProviderDescriptor \<Rightarrow> ExternalIdentity core_result" where
  "normalize_identity identity descriptor =
     (let identity = (if ei_provider_id identity = [] then identity\<lparr>ei_provider_id := ipd_id descriptor\<rparr> else identity) in
      if ei_provider_id identity \<noteq> ipd_id descriptor then Inl Unauthenticated
      else
        let identity = (if ei_issuer identity = [] then identity\<lparr>ei_issuer := ipd_issuer descriptor\<rparr> else identity) in
        if ipd_issuer descriptor \<noteq> [] \<and> ei_issuer identity \<noteq> ipd_issuer descriptor then Inl Unauthenticated
        else Inr identity)"

definition user_from_principal :: "TokenPrincipal \<Rightarrow> User" where
  "user_from_principal p =
     \<lparr>u_id = tp_user_id p, u_email = tp_preferred_username p, u_display_name = tp_display_name p,
      u_status = ''active'', u_last_login_at = 0\<rparr>"

definition finish_browser_login :: "'s LoginService \<Rightarrow> ExternalIdentity \<Rightarrow> User \<Rightarrow> (OAuthCallbackResult, 's) port" where
  "finish_browser_login svc identity user =
     (let ttl = first_nonzero [lc_session_ttl (lg_cfg svc), duration_from_secs (60 * 60)] in
      bind_op (ss_create_browser_session (lg_state svc) (u_id user) ttl) (\<lambda>browser_session.
      return_op \<lparr>oc_identity = identity, oc_user = user, oc_browser_session = browser_session,
        oc_unknown_user = False, oc_cli_complete = False\<rparr>))"

definition complete_auth ::
  "'s LoginService \<Rightarrow> string \<Rightarrow> CompleteAuthRequest \<Rightarrow> string \<Rightarrow> (OAuthCallbackResult, 's) port" where
  "complete_auth svc provider_id req login_nonce =
     bind_op (read_op (\<lambda>_. identity_provider svc provider_id)) (\<lambda>(provider, descriptor).
     bind_op (map_err_op (\<lambda>_. Unauthenticated) (ip_complete_auth provider req)) (\<lambda>identity.
     bind_op (read_op (\<lambda>_. normalize_identity identity descriptor)) (\<lambda>identity.
     catch_op (ad_resolve_login (lg_users svc) \<lparr>lr_identity = identity, lr_policy = ipd_trust_policy descriptor\<rparr>)
       (\<lambda>resolved. case resolved of
          Inl NotFound \<Rightarrow>
            return_op \<lparr>oc_identity = identity, oc_user = User_default, oc_browser_session = BrowserSession_default,
              oc_unknown_user = True, oc_cli_complete = False\<rparr>
        | Inl err \<Rightarrow> fail_op err
        | Inr (p, _) \<Rightarrow>
            let user = user_from_principal p in
            if login_nonce = [] then finish_browser_login svc identity user
            else
              catch_op (ss_get_auth_session_by_nonce (lg_state svc) login_nonce) (\<lambda>found. case found of
                  Inr auth_session \<Rightarrow>
                    bind_op (ss_complete_auth_session (lg_state svc) (as_id auth_session) (u_id user)) (\<lambda>_.
                    return_op \<lparr>oc_identity = identity, oc_user = user, oc_browser_session = BrowserSession_default,
                      oc_unknown_user = False, oc_cli_complete = True\<rparr>)
                | Inl NotFound \<Rightarrow> finish_browser_login svc identity user
                | Inl AuthSessionNotFound \<Rightarrow> finish_browser_login svc identity user
                | Inl err \<Rightarrow> fail_op err)))))"

definition complete_oauth_callback :: "'s LoginService \<Rightarrow> string \<Rightarrow> string \<Rightarrow> (OAuthCallbackResult, 's) port" where
  "complete_oauth_callback svc code login_nonce =
     complete_auth svc [] (CompleteAuthRequest_default\<lparr>cq_code := code\<rparr>) login_nonce"

section \<open>The service moves with its ports\<close>

locale login_world = token_world R "lg_tokens svc" for R :: "'s \<Rightarrow> 's \<Rightarrow> bool" and svc :: "'s LoginService" +
  assumes provider_moves [moves_intros]:
      "ir_get (lg_idps svc) pid = Some p \<Longrightarrow> moves R (ip_begin_auth p b)"
      "ir_get (lg_idps svc) pid = Some p \<Longrightarrow> moves R (ip_complete_auth p c)"
    and resolve_login_moves [moves_intros]: "moves R (ad_resolve_login (lg_users svc) rq)"
    and create_session_moves [moves_intros]: "moves R (ss_create_auth_session (lg_state svc) cs ttl)"
    and by_code_moves [moves_intros]: "moves R (ss_get_auth_session_by_code (lg_state svc) code)"
    and by_nonce_moves [moves_intros]: "moves R (ss_get_auth_session_by_nonce (lg_state svc) nonce)"
    and complete_session_moves [moves_intros]: "moves R (ss_complete_auth_session (lg_state svc) i u)"
    and consume_session_moves [moves_intros]: "moves R (ss_consume_auth_session (lg_state svc) i)"
    and browser_session_moves [moves_intros]: "moves R (ss_create_browser_session (lg_state svc) u ttl)"
    and login_clock_moves [moves_intros]: "moves R (now_op (lg_clock svc))"
begin

lemma identity_provider_registered:
  "identity_provider svc pid = Inr (p, d) \<Longrightarrow> \<exists>i. ir_get (lg_idps svc) i = Some p"
  by (auto simp: identity_provider_def Let_def res_simps split: if_splits)

lemma begin_auth_moves: "moves R (begin_auth svc pid rq)"
  unfolding moves_def
proof
  fix s
  show "R s (snd (begin_auth svc pid rq s))"
  proof (cases "identity_provider svc pid")
    case (Inr pd)
    obtain p d where pd: "pd = (p, d)" by (cases pd)
    from identity_provider_registered [of pid p d] Inr pd obtain i where "ir_get (lg_idps svc) i = Some p" by blast
    from provider_moves(1) [OF this, of rq] Inr pd show ?thesis
      by (simp add: begin_auth_def bind_op_def read_op_def moves_def)
  qed (simp add: begin_auth_def bind_op_def read_op_def refl)
qed

lemma start_auth_session_moves: "moves R (start_auth_session svc cs)"
  unfolding start_auth_session_def Let_def by (intro moves_intros)

lemma get_auth_session_moves: "moves R (get_auth_session svc c cs)"
  unfolding get_auth_session_def by (intro moves_intros)

lemma finish_browser_login_moves [moves_intros]: "moves R (finish_browser_login svc i u)"
  unfolding finish_browser_login_def Let_def by (intro moves_intros)

lemma moves_found [moves_intros]:
  assumes "\<And>a. moves R (f a)" "moves R n" "\<And>e. moves R (g e)"
  shows "moves R (case r of Inr a \<Rightarrow> f a | Inl NotFound \<Rightarrow> n | Inl AuthSessionNotFound \<Rightarrow> n | Inl e \<Rightarrow> g e)"
  using assms by (auto split: sum.split CoreError.split)

lemma moves_resolved [moves_intros]:
  assumes "\<And>a b. moves R (f a b)" "moves R n" "\<And>e. moves R (g e)"
  shows "moves R (case r of Inl NotFound \<Rightarrow> n | Inl e \<Rightarrow> g e | Inr (a, b) \<Rightarrow> f a b)"
  using assms by (auto split: sum.split CoreError.split)

lemma complete_auth_moves: "moves R (complete_auth svc pid rq nonce)"
  unfolding moves_def
proof
  fix s
  show "R s (snd (complete_auth svc pid rq nonce s))"
  proof (cases "identity_provider svc pid")
    case (Inr pd)
    obtain p d where pd: "pd = (p, d)" by (cases pd)
    from identity_provider_registered [of pid p d] Inr pd obtain i where "ir_get (lg_idps svc) i = Some p" by blast
    note [moves_intros] = provider_moves(2) [OF this]
    have provider: "bind_op (read_op (\<lambda>_. identity_provider svc pid)) F = F (p, d)" for F :: "_ \<Rightarrow> ('b, 's) port"
      by (rule ext) (simp add: bind_op_def read_op_def Inr pd)
    have "moves R (complete_auth svc pid rq nonce)"
      unfolding complete_auth_def provider prod.case Let_def by (intro moves_intros)
    then show ?thesis by (simp add: moves_def)
  qed (simp add: complete_auth_def bind_op_def read_op_def refl)
qed

text \<open>A poll that is ready read a completed session with the client's state, minted for the user of
  the session, and consumed the session before it answered.\<close>

lemma get_auth_session_ready:
  assumes "get_auth_session svc code cs s = (Inr res, s')" "at_ready res"
  obtains session t t1 t2 t3 where
    "ss_get_auth_session_by_code (lg_state svc) code s = (Inr session, t)"
    "ss_match_client_state (lg_state svc) session cs" "as_status session = ''completed''"
    "mint_authn (lg_tokens svc) (as_user_id session) None t1 = (Inr (at_token res, at_user res), t2)"
    "ss_consume_auth_session (lg_state svc) (as_id session) t2 = (Inr (), s')"
    "R s t" "R t t1" "R t1 t2"
proof -
  from assms obtain session t now t1 t2 where
    1: "ss_get_auth_session_by_code (lg_state svc) code s = (Inr session, t)" "now_op (lg_clock svc) t = (Inr now, t1)"
    "ss_match_client_state (lg_state svc) session cs" "as_status session = ''completed''"
    "mint_authn (lg_tokens svc) (as_user_id session) None t1 = (Inr (at_token res, at_user res), t2)"
    "ss_consume_auth_session (lg_state svc) (as_id session) t2 = (Inr (), s')"
    unfolding get_auth_session_def by (auto simp: res_simps split: if_splits)
  then have "R s t" "R t t1" "R t1 t2"
    by (auto intro: moves_run [OF by_code_moves] moves_run [OF login_clock_moves] moves_run [OF mint_authn_moves])
  with 1 that show ?thesis by blast
qed

end

text \<open>An identity that passes normalisation names the provider that was asked, and its issuer when
  the provider has one.\<close>

lemma normalize_identity_Inr:
  "normalize_identity identity d = Inr i \<longleftrightarrow>
     i = identity\<lparr>ei_provider_id := ipd_id d, ei_issuer := (if ei_issuer identity = [] then ipd_issuer d else ei_issuer identity)\<rparr> \<and>
     (ei_provider_id identity = [] \<or> ei_provider_id identity = ipd_id d) \<and>
     (ipd_issuer d = [] \<or> ei_issuer identity = [] \<or> ei_issuer identity = ipd_issuer d)"
  by (cases identity) (auto simp: normalize_identity_def Let_def)

end
