(* ===== verification/Rs256.thy ===== *)
theory Rs256
  imports Sqlite_Audited
begin

text \<open>
  The RS256 token signer and the administration of signing keys (\<open>rs256.rs\<close>). RSA, the JWT
  library, JSON and base64 are third-party code: they are the fields of a record \<open>Jwt\<close>, and
  what a theorem needs of them is a named hypothesis. Times are nanoseconds since the epoch; the
  standard library's panic when a time plus a lifetime leaves its range is the error of the
  conversion that follows. Theorems: the claims of a token, that a signed token verifies until it
  expires and only for its issuer and audience, and that a failed key generation leaves neither a
  key file nor a row behind.
\<close>

section \<open>Claims\<close>

definition DEFAULT_ENV :: string where
  "DEFAULT_ENV = ''prod''"

definition ALG_RS256 :: string where
  "ALG_RS256 = ''RS256''"

definition DEFAULT_RSA_BITS :: nat where
  "DEFAULT_RSA_BITS = 2048"

datatype Rs256Error =
    MissingIssuer
  | MissingAudience
  | MissingSubject
  | MissingIdp
  | MissingAuthzResources
  | InvalidCompact
  | MissingExpiration
  | Expired
  | UnexpectedIssuer string
  | AudienceNotPresent string
  | UnexpectedAlgorithm string
  | MissingKid
  | UnexpectedKid string
  | UnsupportedPrivateKey
  | Crypto string

fun Rs256Error_display :: "Rs256Error \<Rightarrow> message" where
  "Rs256Error_display MissingIssuer = [Lit ''token: issuer must not be empty'']"
| "Rs256Error_display MissingAudience = [Lit ''token: audience must not be empty'']"
| "Rs256Error_display MissingSubject = [Lit ''token: subject must not be empty'']"
| "Rs256Error_display MissingIdp = [Lit ''token: idp must not be empty'']"
| "Rs256Error_display MissingAuthzResources = [Lit ''token: authz token requires at least one resource'']"
| "Rs256Error_display InvalidCompact = [Lit ''token: compact JWT must have 3 parts'']"
| "Rs256Error_display MissingExpiration = [Lit ''token: missing exp'']"
| "Rs256Error_display Expired = [Lit ''token: expired'']"
| "Rs256Error_display (UnexpectedIssuer s) = [Lit ''token: unexpected issuer '', Dbg s]"
| "Rs256Error_display (AudienceNotPresent s) = [Lit ''token: audience '', Dbg s, Lit '' not present'']"
| "Rs256Error_display (UnexpectedAlgorithm s) = [Lit ''token: unexpected alg '', Dbg s]"
| "Rs256Error_display MissingKid = [Lit ''token: missing kid'']"
| "Rs256Error_display (UnexpectedKid s) = [Lit ''token: unexpected kid '', Dbg s]"
| "Rs256Error_display UnsupportedPrivateKey =
     [Lit ''token: unsupported private key format (want PKCS#8 or PKCS#1 RSA)'']"
| "Rs256Error_display (Crypto s) = [Lit ''token: '', Lit s]"

record LoreResourcePermission =
  lp_resource_id :: string
  lp_permission :: "string list"

record LoreClaims =
  cl_subject :: string
  cl_issuer :: string
  cl_issued_at :: i64
  cl_expires_at :: i64
  cl_audience :: "string list"
  cl_env :: string
  cl_name :: string
  cl_preferred_username :: string
  cl_resources :: "LoreResourcePermission list"
  cl_groups :: "string list"
  cl_is_service_account :: "bool option"
  cl_idp :: string
  cl_jti :: string

record AuthnOptions =
  no_issuer :: string
  no_audience :: "string list"
  no_subject :: string
  no_env :: string
  no_name :: string
  no_preferred_username :: string
  no_groups :: "string list"
  no_idp :: string
  no_is_service_account :: bool
  no_ttl :: duration
  no_now :: "int option"
  no_jti :: string

record AuthzOptions =
  zo_issuer :: string
  zo_audience :: "string list"
  zo_subject :: string
  zo_env :: string
  zo_name :: string
  zo_preferred_username :: string
  zo_groups :: "string list"
  zo_idp :: string
  zo_is_service_account :: bool
  zo_resources :: "LoreResourcePermission list"
  zo_ttl :: duration
  zo_now :: "int option"
  zo_jti :: string

definition default_ttl :: "duration \<Rightarrow> duration" where
  "default_ttl ttl = (if ttl = 0 then duration_from_secs (60 * 60) else ttl)"

definition default_now :: "int option \<Rightarrow> int \<Rightarrow> int" where
  "default_now now system_now = (case now of Some t \<Rightarrow> t | None \<Rightarrow> system_now)"

definition default_env :: "string \<Rightarrow> string" where
  "default_env env = (if env = [] then DEFAULT_ENV else env)"

definition default_to_subject :: "string \<Rightarrow> string \<Rightarrow> string" where
  "default_to_subject value subject = (if value = [] then subject else value)"

definition unix_seconds :: "int \<Rightarrow> Rs256Error + i64" where
  "unix_seconds time =
     (if time < 0 then Inl (Crypto ''time before unix epoch'')
      else
        let secs = time div int nanos_per_sec in
        if secs > i64_max then Inl (Crypto ''time overflow'') else Inr secs)"

definition new_authn_claims :: "int \<Rightarrow> AuthnOptions \<Rightarrow> Rs256Error + LoreClaims" where
  "new_authn_claims system_now opts =
     (if no_issuer opts = [] then Inl MissingIssuer
      else if no_audience opts = [] then Inl MissingAudience
      else if no_subject opts = [] then Inl MissingSubject
      else if no_idp opts = [] then Inl MissingIdp
      else
        let ttl = default_ttl (no_ttl opts);
            now = default_now (no_now opts) system_now in
        and_then (unix_seconds now) (\<lambda>issued_at.
        and_then (unix_seconds (now + int ttl)) (\<lambda>expires_at.
        Inr \<lparr>cl_subject = no_subject opts, cl_issuer = no_issuer opts, cl_issued_at = issued_at,
             cl_expires_at = expires_at, cl_audience = no_audience opts, cl_env = default_env (no_env opts),
             cl_name = default_to_subject (no_name opts) (no_subject opts),
             cl_preferred_username = default_to_subject (no_preferred_username opts) (no_subject opts),
             cl_resources = [], cl_groups = no_groups opts,
             cl_is_service_account = Some (no_is_service_account opts), cl_idp = no_idp opts,
             cl_jti = no_jti opts\<rparr>)))"

definition new_authz_claims :: "int \<Rightarrow> AuthzOptions \<Rightarrow> Rs256Error + LoreClaims" where
  "new_authz_claims system_now opts =
     (if zo_resources opts = [] then Inl MissingAuthzResources
      else
        and_then (new_authn_claims system_now
          \<lparr>no_issuer = zo_issuer opts, no_audience = zo_audience opts, no_subject = zo_subject opts,
           no_env = zo_env opts, no_name = zo_name opts, no_preferred_username = zo_preferred_username opts,
           no_groups = zo_groups opts, no_idp = zo_idp opts, no_is_service_account = zo_is_service_account opts,
           no_ttl = zo_ttl opts, no_now = zo_now opts, no_jti = zo_jti opts\<rparr>)
        (\<lambda>claims. Inr (claims\<lparr>cl_resources := zo_resources opts\<rparr>)))"

definition validate_claims :: "LoreClaims \<Rightarrow> VerifyOptions \<Rightarrow> int \<Rightarrow> Rs256Error + unit" where
  "validate_claims claims opts now =
     (if cl_expires_at claims = 0 then Inl MissingExpiration
      else
        and_then (unix_seconds now) (\<lambda>now_secs.
        if now_secs \<ge> cl_expires_at claims then Inl Expired
        else if vo_issuer opts \<noteq> [] \<and> cl_issuer claims \<noteq> vo_issuer opts then
          Inl (UnexpectedIssuer (cl_issuer claims))
        else if vo_audience opts \<noteq> [] \<and> \<not> list_ex (\<lambda>aud. aud = vo_audience opts) (cl_audience claims) then
          Inl (AudienceNotPresent (vo_audience opts))
        else Inr ()))"

section \<open>The signer\<close>

record JwtHeader =
  jh_alg :: string
  jh_typ :: string
  jh_kid :: string

record DecodedHeader =
  dh_alg :: string
  dh_kid :: "string option"

text \<open>The third-party code: JSON and base64 (\<open>encode_json_part\<close>), the RSA signature over a
  signing input, the header and the verified claims of a compact token, the JSON of claims and of
  the public key.\<close>

record Jwt =
  jw_encode_header :: "JwtHeader \<Rightarrow> Rs256Error + string"
  jw_encode_claims :: "LoreClaims \<Rightarrow> Rs256Error + string"
  jw_sign :: "string \<Rightarrow> string + string"
  jw_decode_header :: "string \<Rightarrow> string + DecodedHeader"
  jw_decode :: "string \<Rightarrow> string + LoreClaims"
  jw_claims_json :: "LoreClaims \<Rightarrow> string + string"
  jw_jwks_json :: "string \<Rightarrow> string \<Rightarrow> string + string"

record SigningKey =
  key_kid :: string
  key_alg :: string

record Signer =
  sg_key :: SigningKey
  sg_verification_time :: "int option"

definition Signer_now :: "Signer \<Rightarrow> int \<Rightarrow> int" where
  "Signer_now signer system_now =
     (case sg_verification_time signer of Some t \<Rightarrow> t | None \<Rightarrow> system_now)"

definition ensure_jti :: "string \<Rightarrow> string \<Rightarrow> string" where
  "ensure_jti fresh jti = (if jti = [] then fresh else jti)"

definition sign_lore_claims :: "Jwt \<Rightarrow> SigningKey \<Rightarrow> LoreClaims \<Rightarrow> Rs256Error + string" where
  "sign_lore_claims jwt key claims =
     and_then (jw_encode_header jwt \<lparr>jh_alg = key_alg key, jh_typ = ''JWT'', jh_kid = key_kid key\<rparr>) (\<lambda>encoded_header.
     and_then (jw_encode_claims jwt claims) (\<lambda>encoded_claims.
     let signing_input = encoded_header @ ''.'' @ encoded_claims in
     and_then (map_err (\<lambda>e. Crypto (''sign JWT: '' @ e)) (jw_sign jwt signing_input)) (\<lambda>signature.
     Inr (signing_input @ ''.'' @ signature))))"

definition to_core_invalid :: "Rs256Error \<Rightarrow> CoreError" where
  "to_core_invalid err = InvalidArgument (Rs256Error_display err)"

definition to_core_signing_key :: "Rs256Error \<Rightarrow> CoreError" where
  "to_core_signing_key err = SigningKeyUnavailable"

definition to_core_unauth :: "Rs256Error \<Rightarrow> CoreError" where
  "to_core_unauth err = Unauthenticated"

definition sign_authn :: "Jwt \<Rightarrow> Signer \<Rightarrow> string \<Rightarrow> int \<Rightarrow> AuthnTokenInput \<Rightarrow> SignedToken core_result" where
  "sign_authn jwt signer fresh system_now input =
     and_then (map_err to_core_invalid (new_authn_claims system_now
         \<lparr>no_issuer = an_issuer input, no_audience = an_audience input, no_subject = an_subject input,
          no_env = [], no_name = an_name input, no_preferred_username = an_preferred_username input,
          no_groups = an_groups input, no_idp = an_idp input, no_is_service_account = False,
          no_ttl = an_ttl input, no_now = an_now input, no_jti = ensure_jti fresh (an_jti input)\<rparr>)) (\<lambda>claims.
     and_then (map_err to_core_signing_key (sign_lore_claims jwt (sg_key signer) claims)) (\<lambda>token.
     Inr \<lparr>st_token = token, st_jti = cl_jti claims, st_kid = key_kid (sg_key signer),
          st_lore_resource_id = [], st_issued_at = cl_issued_at claims, st_expires_at = cl_expires_at claims,
          st_permissions = [], st_audience = cl_audience claims\<rparr>))"

definition model_resource_to_claim_resource :: "ResourcePermission \<Rightarrow> LoreResourcePermission" where
  "model_resource_to_claim_resource resource =
     \<lparr>lp_resource_id = rp_resource_id resource, lp_permission = map Permission_as_str (rp_permission resource)\<rparr>"

definition sign_authz :: "Jwt \<Rightarrow> Signer \<Rightarrow> string \<Rightarrow> int \<Rightarrow> AuthzTokenInput \<Rightarrow> SignedToken core_result" where
  "sign_authz jwt signer fresh system_now input =
     and_then (map_err to_core_invalid (new_authz_claims system_now
         \<lparr>zo_issuer = az_issuer input, zo_audience = az_audience input, zo_subject = az_subject input,
          zo_env = [], zo_name = az_name input, zo_preferred_username = az_preferred_username input,
          zo_groups = az_groups input, zo_idp = az_idp input, zo_is_service_account = False,
          zo_resources = map model_resource_to_claim_resource (az_resources input),
          zo_ttl = az_ttl input, zo_now = az_now input, zo_jti = ensure_jti fresh (az_jti input)\<rparr>)) (\<lambda>claims.
     and_then (map_err to_core_signing_key (sign_lore_claims jwt (sg_key signer) claims)) (\<lambda>token.
     let (lore_resource_id, permissions) =
           (case az_resources input of [] \<Rightarrow> ([], []) | r # _ \<Rightarrow> (rp_resource_id r, rp_permission r)) in
     Inr \<lparr>st_token = token, st_jti = cl_jti claims, st_kid = key_kid (sg_key signer),
          st_lore_resource_id = lore_resource_id, st_issued_at = cl_issued_at claims,
          st_expires_at = cl_expires_at claims, st_permissions = permissions, st_audience = cl_audience claims\<rparr>))"

definition signer_verify :: "Jwt \<Rightarrow> Signer \<Rightarrow> int \<Rightarrow> string \<Rightarrow> VerifyOptions \<Rightarrow> VerifiedToken core_result" where
  "signer_verify jwt signer system_now compact opts =
     and_then (map_err (\<lambda>_. Unauthenticated) (jw_decode_header jwt compact)) (\<lambda>header.
     if dh_alg header \<noteq> ALG_RS256 then Inl (to_core_unauth (UnexpectedAlgorithm (dh_alg header)))
     else case dh_kid header of
       None \<Rightarrow> Inl (to_core_unauth MissingKid)
     | Some kid \<Rightarrow>
         if kid \<noteq> key_kid (sg_key signer) then Inl (to_core_unauth (UnexpectedKid kid))
         else
           and_then (map_err (\<lambda>e. to_core_unauth (Crypto e)) (jw_decode jwt compact)) (\<lambda>claims.
           and_then (map_err to_core_unauth (validate_claims claims opts (Signer_now signer system_now))) (\<lambda>_.
           and_then (map_err (\<lambda>e. to_core_unauth (Crypto e)) (jw_claims_json jwt claims)) (\<lambda>raw_claims.
           Inr \<lparr>vt_subject = cl_subject claims, vt_jti = cl_jti claims, vt_idp = cl_idp claims,
                vt_expires_at = cl_expires_at claims, vt_audience = cl_audience claims,
                vt_raw_claims = raw_claims\<rparr>))))"

definition signer_jwks :: "Jwt \<Rightarrow> Signer \<Rightarrow> string core_result" where
  "signer_jwks jwt signer =
     map_err (\<lambda>_. SigningKeyUnavailable) (jw_jwks_json jwt (key_kid (sg_key signer)) (key_alg (sg_key signer)))"

fun split_dots :: "string \<Rightarrow> string list" where
  "split_dots [] = [[]]"
| "split_dots (c # s) =
     (if c = CHR ''.'' then [] # split_dots s
      else case split_dots s of [] \<Rightarrow> [[c]] | p # ps \<Rightarrow> (c # p) # ps)"

definition split_compact :: "string \<Rightarrow> Rs256Error + string list" where
  "split_compact compact =
     (let parts = split_dots compact in if length parts \<noteq> 3 then Inl InvalidCompact else Inr parts)"

definition decode_insecure :: "(string \<Rightarrow> Rs256Error + 'j) \<Rightarrow> string \<Rightarrow> Rs256Error + ('j \<times> 'j)" where
  "decode_insecure decode_json_part compact =
     and_then (split_compact compact) (\<lambda>parts.
     and_then (decode_json_part (parts ! 0)) (\<lambda>header.
     and_then (decode_json_part (parts ! 1)) (\<lambda>claims.
     Inr (header, claims))))"

section \<open>Signing keys\<close>

definition valid_kid :: "string \<Rightarrow> bool" where
  "valid_kid kid \<longleftrightarrow> kid \<noteq> [] \<and>
     list_all (\<lambda>b. CHR ''0'' \<le> b \<and> b \<le> CHR ''9'' \<or> CHR ''A'' \<le> b \<and> b \<le> CHR ''Z'' \<or>
       CHR ''a'' \<le> b \<and> b \<le> CHR ''z'' \<or> b \<in> {CHR ''_'', CHR ''.'', CHR ''-''}) kid"

text \<open>RSA key generation and serialisation, with key material of any type.\<close>

record 'k RsaTools =
  rsa_new :: "nat \<Rightarrow> string + 'k"
  rsa_der :: "'k \<Rightarrow> string + string"
  rsa_pem :: "'k \<Rightarrow> string + string"
  rsa_utf8 :: "string \<Rightarrow> string + string"
  rsa_from_pkcs8 :: "string \<Rightarrow> string + 'k"
  rsa_from_pkcs1 :: "string \<Rightarrow> string + 'k"
  rsa_jwk_json :: "string \<Rightarrow> string \<Rightarrow> 'k \<Rightarrow> string + string"

text \<open>What the operating system answers during one operation on a key file: an error of each call, or none;
  a failed write leaves the bytes written so far.\<close>

record KeyFs =
  kf_exists :: string
  kf_missing :: string
  kf_create_dir :: "string option"
  kf_chmod :: "string option"
  kf_open :: "string option"
  kf_write :: "(string \<times> string) option"
  kf_sync :: "string option"
  kf_remove :: bool

text \<open>The files of the key directory and the database.\<close>

record KeyState =
  ks_files :: "string \<rightharpoonup> string"
  ks_db :: Db

definition SigningKey_from_private :: "'k RsaTools \<Rightarrow> string \<Rightarrow> 'k \<Rightarrow> Rs256Error + (SigningKey \<times> 'k)" where
  "SigningKey_from_private rsa kid private =
     and_then (map_err (\<lambda>e. Crypto (''marshal private key: '' @ e)) (rsa_der rsa private)) (\<lambda>_.
     Inr (\<lparr>key_kid = kid, key_alg = ALG_RS256\<rparr>, private))"

definition SigningKey_generate :: "'k RsaTools \<Rightarrow> string \<Rightarrow> nat \<Rightarrow> Rs256Error + (SigningKey \<times> 'k)" where
  "SigningKey_generate rsa kid bits =
     (if kid = [] then Inl MissingKid
      else
        let bits = (if bits = 0 then DEFAULT_RSA_BITS else bits) in
        and_then (map_err (\<lambda>e. Crypto (''generate rsa key: '' @ e)) (rsa_new rsa bits))
          (SigningKey_from_private rsa kid))"

definition parse_rsa_private_key :: "'k RsaTools \<Rightarrow> string \<Rightarrow> Rs256Error + 'k" where
  "parse_rsa_private_key rsa pem =
     (case rsa_from_pkcs8 rsa pem of
        Inr k \<Rightarrow> Inr k
      | Inl _ \<Rightarrow> map_err (\<lambda>_. UnsupportedPrivateKey) (rsa_from_pkcs1 rsa pem))"

definition load_pem :: "'k RsaTools \<Rightarrow> KeyFs \<Rightarrow> string \<Rightarrow> string \<Rightarrow> KeyState \<Rightarrow> Rs256Error + (SigningKey \<times> 'k)" where
  "load_pem rsa fs kid path st =
     (if kid = [] then Inl MissingKid
      else
        and_then (ok_or (Crypto (''read private key: '' @ kf_missing fs)) (ks_files st path)) (\<lambda>raw.
        and_then (map_err (\<lambda>e. Crypto (''parse pem: '' @ e)) (rsa_utf8 rsa raw)) (\<lambda>pem.
        and_then (parse_rsa_private_key rsa pem) (SigningKey_from_private rsa kid))))"

definition path_join :: "string \<Rightarrow> string \<Rightarrow> string" where
  "path_join dir file = (if dir = [] \<or> last dir = CHR ''/'' then dir @ file else dir @ ''/'' @ file)"

definition write_private_pem_inner ::
  "'k RsaTools \<Rightarrow> KeyFs \<Rightarrow> 'k \<Rightarrow> string \<Rightarrow> bool \<Rightarrow> (Rs256Error, unit, KeyState) op" where
  "write_private_pem_inner rsa fs private path exclusive st =
     (case rsa_pem rsa private of
        Inl e \<Rightarrow> (Inl (Crypto (''marshal private key: '' @ e)), st)
      | Inr pem \<Rightarrow>
         (case (kf_create_dir fs, kf_chmod fs) of
            (Some e, _) \<Rightarrow> (Inl (Crypto (''create key dir: '' @ e)), st)
          | (None, Some e) \<Rightarrow> (Inl (Crypto (''chmod key dir: '' @ e)), st)
          | (None, None) \<Rightarrow>
              if exclusive \<and> ks_files st path \<noteq> None then (Inl (Crypto (''create private key: '' @ kf_exists fs)), st)
              else case kf_open fs of
                Some e \<Rightarrow> (Inl (Crypto (''create private key: '' @ e)), st)
              | None \<Rightarrow>
                 (case kf_write fs of
                    Some (e, partial) \<Rightarrow>
                      (Inl (Crypto (''write private key: '' @ e)), st\<lparr>ks_files := (ks_files st)(path \<mapsto> partial)\<rparr>)
                  | None \<Rightarrow>
                      let st = st\<lparr>ks_files := (ks_files st)(path \<mapsto> pem)\<rparr> in
                      case kf_sync fs of
                        Some e \<Rightarrow> (Inl (Crypto (''sync private key: '' @ e)), st)
                      | None \<Rightarrow> (Inr (), st))))"

definition write_private_pem_exclusive ::
  "'k RsaTools \<Rightarrow> KeyFs \<Rightarrow> 'k \<Rightarrow> string \<Rightarrow> (Rs256Error, unit, KeyState) op" where
  "write_private_pem_exclusive rsa fs private path = write_private_pem_inner rsa fs private path True"

definition generate_active_key_file ::
  "'k RsaTools \<Rightarrow> KeyFs \<Rightarrow> (SigningKeyMeta \<Rightarrow> nat \<Rightarrow> Db \<Rightarrow> (SigningKeyMeta \<times> Db) core_result) \<Rightarrow> string
     \<Rightarrow> string \<Rightarrow> string \<Rightarrow> nat \<Rightarrow> (CoreError, SigningKeyMeta, KeyState) op" where
  "generate_active_key_file rsa fs add_meta dir kid alg bits st =
     (let alg = (if alg = [] then ALG_RS256 else alg) in
      if alg \<noteq> ALG_RS256 then (Inl (InvalidArgument [Lit ''only RS256 is supported'']), st)
      else if \<not> valid_kid kid then (Inl (InvalidArgument [Lit ''kid contains unsupported characters'']), st)
      else case signing_key_by_kid_conn (ks_db st) kid of
        Inr _ \<Rightarrow> (Inl (InvalidArgument [Lit ''signing key kid '', Dbg kid, Lit '' already exists'']), st)
      | Inl NotFound \<Rightarrow>
         (case map_err to_core_invalid (SigningKey_generate rsa kid bits) of
            Inl e \<Rightarrow> (Inl e, st)
          | Inr (key, private) \<Rightarrow>
              let private_path = path_join dir (kid @ ''.pem'') in
              case map_err_op to_core_invalid (write_private_pem_exclusive rsa fs private private_path) st of
                (Inl e, st) \<Rightarrow> (Inl e, st)
              | (Inr _, st) \<Rightarrow>
                 (case rsa_jwk_json rsa (key_kid key) (key_alg key) private of
                    Inl e \<Rightarrow> (Inl (InvalidArgument [Lit ''marshal public jwk for '', Dbg kid, Lit '': '', Lit e]), st)
                  | Inr public_jwk_json \<Rightarrow>
                      let meta = \<lparr>sk_kid = key_kid key, sk_alg = key_alg key, sk_public_jwk_json = public_jwk_json,
                                  sk_private_key_path = private_path, sk_status = ''active''\<rparr> in
                      case add_meta meta bits (ks_db st) of
                        Inr (meta, db) \<Rightarrow> (Inr meta, st\<lparr>ks_db := db\<rparr>)
                      | Inl err \<Rightarrow>
                          (Inl err, if kf_remove fs then st\<lparr>ks_files := (ks_files st)(private_path := None)\<rparr> else st)))
      | Inl err \<Rightarrow> (Inl err, st))"

section \<open>Claims and lifetimes\<close>

lemma unix_seconds_Inr:
  "unix_seconds t = Inr s \<longleftrightarrow> 0 \<le> t \<and> s = t div int nanos_per_sec \<and> s \<le> i64_max"
  by (auto simp: unix_seconds_def Let_def)

lemma div_below_two:
  assumes "0 \<le> x" "x < 2 * n" "0 < (n :: int)"
  shows "x div n \<in> {0, 1}"
proof (cases "x < n")
  case False
  have "x div n = 1" by (rule int_div_pos_eq [where r = "x - n"]) (use False assms in auto)
  then show ?thesis by simp
qed (use assms in \<open>simp add: div_pos_pos_trivial\<close>)

lemma seconds_after:
  "(t + int d) div int nanos_per_sec - t div int nanos_per_sec \<in> {int (as_secs d), int (as_secs d) + 1}"
proof -
  let ?n = "int nanos_per_sec"
  have n: "0 < ?n" by (simp add: nanos_per_sec_def)
  have "(t mod ?n + int d mod ?n) div ?n \<in> {0, 1}"
    using pos_mod_bound [OF n, of t] pos_mod_bound [OF n, of "int d"] pos_mod_sign [OF n, of t]
      pos_mod_sign [OF n, of "int d"] n by (intro div_below_two) linarith+
  moreover have "(t + int d) div ?n = t div ?n + int d div ?n + (t mod ?n + int d mod ?n) div ?n"
    by (rule div_add1_eq)
  ultimately show ?thesis by (auto simp: as_secs_def zdiv_int)
qed

lemma new_authn_claims_Inr:
  assumes "new_authn_claims system_now opts = Inr claims"
  shows "0 \<le> cl_issued_at claims \<and> cl_expires_at claims \<le> i64_max \<and>
    cl_expires_at claims - cl_issued_at claims \<in>
      {int (as_secs (default_ttl (no_ttl opts))), int (as_secs (default_ttl (no_ttl opts))) + 1} \<and>
    cl_subject claims = no_subject opts \<and> cl_issuer claims = no_issuer opts \<and> cl_audience claims = no_audience opts \<and>
    cl_idp claims = no_idp opts \<and> cl_jti claims = no_jti opts \<and> cl_resources claims = [] \<and>
    cl_subject claims \<noteq> [] \<and> cl_issuer claims \<noteq> [] \<and> cl_audience claims \<noteq> [] \<and> cl_idp claims \<noteq> []"
proof -
  from assms obtain issued expires where
    1: "unix_seconds (default_now (no_now opts) system_now) = Inr issued"
      "unix_seconds (default_now (no_now opts) system_now + int (default_ttl (no_ttl opts))) = Inr expires"
      "cl_issued_at claims = issued" "cl_expires_at claims = expires"
    by (auto simp: new_authn_claims_def Let_def res_simps split: if_splits)
  from 1 seconds_after [of "default_now (no_now opts) system_now" "default_ttl (no_ttl opts)"]
  have "0 \<le> issued" "expires \<le> i64_max"
    "expires - issued \<in> {int (as_secs (default_ttl (no_ttl opts))), int (as_secs (default_ttl (no_ttl opts))) + 1}"
    by (auto simp: unix_seconds_Inr pos_imp_zdiv_nonneg_iff nanos_per_sec_def)
  moreover have "cl_subject claims = no_subject opts \<and> cl_issuer claims = no_issuer opts \<and> cl_audience claims = no_audience opts \<and>
    cl_idp claims = no_idp opts \<and> cl_jti claims = no_jti opts \<and> cl_resources claims = [] \<and>
    cl_subject claims \<noteq> [] \<and> cl_issuer claims \<noteq> [] \<and> cl_audience claims \<noteq> [] \<and> cl_idp claims \<noteq> []"
    using assms by (auto simp: new_authn_claims_def Let_def res_simps split: if_splits)
  ultimately show ?thesis using 1(3,4) by blast
qed

lemma validate_claims_Inr:
  "validate_claims claims opts now = Inr () \<longleftrightarrow>
     0 \<le> now \<and> now div int nanos_per_sec \<le> i64_max \<and> now div int nanos_per_sec < cl_expires_at claims \<and>
     cl_expires_at claims \<noteq> 0 \<and> (vo_issuer opts = [] \<or> cl_issuer claims = vo_issuer opts) \<and>
     (vo_audience opts = [] \<or> vo_audience opts \<in> set (cl_audience claims))"
  by (auto simp: validate_claims_def res_simps unix_seconds_Inr list_ex_iff split: if_splits)

text \<open>What is assumed of the JWT code: decoding a token that was assembled from its encoded header,
  its encoded claims and the signature over them gives that header and those claims.\<close>

definition jwt_ok :: "Jwt \<Rightarrow> bool" where
  "jwt_ok jwt \<longleftrightarrow> (\<forall>hd h claims c sig.
     jw_encode_header jwt hd = Inr h \<longrightarrow> jw_encode_claims jwt claims = Inr c \<longrightarrow>
     jw_sign jwt (h @ ''.'' @ c) = Inr sig \<longrightarrow>
       jw_decode_header jwt ((h @ ''.'' @ c) @ ''.'' @ sig) = Inr \<lparr>dh_alg = jh_alg hd, dh_kid = Some (jh_kid hd)\<rparr> \<and>
       jw_decode jwt ((h @ ''.'' @ c) @ ''.'' @ sig) = Inr claims \<and>
       (\<exists>raw. jw_claims_json jwt claims = Inr raw))"

lemma signed_claims_decode:
  assumes "jwt_ok jwt" "sign_lore_claims jwt key claims = Inr token"
  shows "jw_decode_header jwt token = Inr \<lparr>dh_alg = key_alg key, dh_kid = Some (key_kid key)\<rparr> \<and>
    jw_decode jwt token = Inr claims \<and> (\<exists>raw. jw_claims_json jwt claims = Inr raw)"
proof -
  from assms(2) obtain h c sig where
    "jw_encode_header jwt \<lparr>jh_alg = key_alg key, jh_typ = ''JWT'', jh_kid = key_kid key\<rparr> = Inr h"
    "jw_encode_claims jwt claims = Inr c" "jw_sign jwt (h @ ''.'' @ c) = Inr sig"
    "token = (h @ ''.'' @ c) @ ''.'' @ sig"
    by (auto simp: sign_lore_claims_def Let_def res_simps)
  with assms(1) show ?thesis unfolding jwt_ok_def by fastforce
qed


lemma signer_verify_Inr:
  assumes "signer_verify jwt signer t compact opts = Inr v"
  obtains claims where
    "jw_decode_header jwt compact = Inr \<lparr>dh_alg = ALG_RS256, dh_kid = Some (key_kid (sg_key signer))\<rparr>"
    "jw_decode jwt compact = Inr claims" "validate_claims claims opts (Signer_now signer t) = Inr ()"
    "vt_subject v = cl_subject claims" "vt_jti v = cl_jti claims" "vt_idp v = cl_idp claims"
    "vt_expires_at v = cl_expires_at claims" "vt_audience v = cl_audience claims"
proof -
  from assms obtain hd claims where
    1: "jw_decode_header jwt compact = Inr hd" "dh_alg hd = ALG_RS256" "dh_kid hd = Some (key_kid (sg_key signer))"
    "jw_decode jwt compact = Inr claims" "validate_claims claims opts (Signer_now signer t) = Inr ()"
    "vt_subject v = cl_subject claims" "vt_jti v = cl_jti claims" "vt_idp v = cl_idp claims"
    "vt_expires_at v = cl_expires_at claims" "vt_audience v = cl_audience claims"
    by (auto simp: signer_verify_def res_simps split: if_splits option.splits)
  moreover have "hd = \<lparr>dh_alg = ALG_RS256, dh_kid = Some (key_kid (sg_key signer))\<rparr>"
    using 1(2,3) by (cases hd) simp
  ultimately show ?thesis using that by blast
qed

text \<open>C21: Nothing else verifies: whenever a token is accepted, its header names RS256 and the key of the
  signer, its signature was checked, it has not expired, and it has the demanded issuer and audience.\<close>

theorem verified_token_valid:
  assumes "signer_verify jwt signer t compact opts = Inr v"
  shows "jw_decode_header jwt compact = Inr \<lparr>dh_alg = ALG_RS256, dh_kid = Some (key_kid (sg_key signer))\<rparr> \<and>
    (\<exists>claims. jw_decode jwt compact = Inr claims \<and> vt_subject v = cl_subject claims \<and> vt_jti v = cl_jti claims \<and>
       vt_idp v = cl_idp claims \<and> vt_expires_at v = cl_expires_at claims \<and>
       (vo_issuer opts \<noteq> [] \<longrightarrow> cl_issuer claims = vo_issuer opts)) \<and>
    0 \<le> Signer_now signer t \<and> Signer_now signer t div int nanos_per_sec < vt_expires_at v \<and>
    (vo_audience opts \<noteq> [] \<longrightarrow> vo_audience opts \<in> set (vt_audience v))"
  using signer_verify_Inr [OF assms] by (metis validate_claims_Inr)

section \<open>Key generation\<close>

definition key_request_ok :: "string \<Rightarrow> string \<Rightarrow> KeyState \<Rightarrow> bool" where
  "key_request_ok kid alg st \<longleftrightarrow> alg \<in> {[], ALG_RS256} \<and> valid_kid kid \<and>
     signing_key_by_kid_conn (ks_db st) kid = Inl NotFound"

text \<open>An operating system on which a file that was opened is written, and a removal works.\<close>

definition fs_ok :: "KeyFs \<Rightarrow> bool" where
  "fs_ok fs \<longleftrightarrow> kf_write fs = None \<and> kf_sync fs = None \<and> kf_remove fs"

lemma generate_refused:
  assumes "\<not> key_request_ok kid alg st"
  shows "\<exists>e. generate_active_key_file rsa fs add_meta dir kid alg bits st = (Inl e, st)"
proof (cases "signing_key_by_kid_conn (ks_db st) kid")
  case (Inl e)
  with assms show ?thesis
    by (cases e) (auto simp: generate_active_key_file_def key_request_ok_def)
qed (auto simp: generate_active_key_file_def)

lemma write_exclusive_cases:
  assumes "fs_ok fs"
  shows "write_private_pem_exclusive rsa fs secret path st =
      (Inr (), st\<lparr>ks_files := (ks_files st)(path \<mapsto> projr (rsa_pem rsa secret))\<rparr>) \<and>
      ks_files st path = None \<and> (\<exists>pem. rsa_pem rsa secret = Inr pem) \<or>
    (\<exists>e. write_private_pem_exclusive rsa fs secret path st = (Inl e, st))"
  using assms
  by (auto simp: write_private_pem_exclusive_def write_private_pem_inner_def fs_ok_def Let_def
      split: sum.splits option.splits)

lemma from_private_Inr:
  "SigningKey_from_private rsa kid secret = Inr r \<longleftrightarrow>
     r = (\<lparr>key_kid = kid, key_alg = ALG_RS256\<rparr>, secret) \<and> (\<exists>der. rsa_der rsa secret = Inr der)"
  by (auto simp: SigningKey_from_private_def res_simps)

text \<open>The run of a key generation whose request is in order.\<close>

lemma generate_runs:
  assumes "key_request_ok kid alg st" "fs_ok fs" "\<forall>kid alg k. \<exists>j. rsa_jwk_json rsa kid alg k = Inr j"
  shows "(\<exists>e. generate_active_key_file rsa fs add_meta dir kid alg bits st = (Inl e, st)) \<or>
    (\<exists>secret pem json meta db. rsa_new rsa (if bits = 0 then DEFAULT_RSA_BITS else bits) = Inr secret \<and>
       rsa_pem rsa secret = Inr pem \<and> ks_files st (path_join dir (kid @ ''.pem'')) = None \<and>
       add_meta \<lparr>sk_kid = kid, sk_alg = ALG_RS256, sk_public_jwk_json = json,
          sk_private_key_path = path_join dir (kid @ ''.pem''), sk_status = ''active''\<rparr> bits (ks_db st) = Inr (meta, db) \<and>
       generate_active_key_file rsa fs add_meta dir kid alg bits st =
         (Inr meta, st\<lparr>ks_files := (ks_files st)(path_join dir (kid @ ''.pem'') \<mapsto> pem), ks_db := db\<rparr>))"
proof (cases "SigningKey_generate rsa kid bits")
  case (Inl e)
  with assms(1) show ?thesis by (auto simp: generate_active_key_file_def key_request_ok_def)
next
  case (Inr kp)
  let ?path = "path_join dir (kid @ ''.pem'')"
  from Inr obtain secret where new: "rsa_new rsa (if bits = 0 then DEFAULT_RSA_BITS else bits) = Inr secret"
    and kp: "kp = (\<lparr>key_kid = kid, key_alg = ALG_RS256\<rparr>, secret)"
    by (auto simp: SigningKey_generate_def res_simps from_private_Inr split: if_splits)
  obtain json where json: "rsa_jwk_json rsa kid ALG_RS256 secret = Inr json" using assms(3) by blast
  have undo: "st\<lparr>ks_files := (ks_files st)(?path := None)\<rparr> = st" if "ks_files st ?path = None"
    using that by (cases st) (auto intro: ext)
  note gen = generate_active_key_file_def [where st = st] Inr kp Let_def
  from write_exclusive_cases [OF assms(2), of rsa secret ?path st] show ?thesis
  proof (elim disjE conjE exE)
    fix e
    assume "write_private_pem_exclusive rsa fs secret ?path st = (Inl e, st)"
    with assms(1) show ?thesis by (auto simp: gen key_request_ok_def map_err_op_def)
  next
    fix pem
    assume w: "write_private_pem_exclusive rsa fs secret ?path st =
        (Inr (), st\<lparr>ks_files := (ks_files st)(?path \<mapsto> projr (rsa_pem rsa secret))\<rparr>)"
      "ks_files st ?path = None" "rsa_pem rsa secret = Inr pem"
    let ?meta = "\<lparr>sk_kid = kid, sk_alg = ALG_RS256, sk_public_jwk_json = json, sk_private_key_path = ?path,
       sk_status = ''active''\<rparr>"
    show ?thesis
      using assms(1,2) w new json undo
      by (cases "add_meta ?meta bits (ks_db st)") (auto simp: gen key_request_ok_def map_err_op_def fs_ok_def)
  qed
qed


text \<open>A generated key is the key the server loads at startup: after a successful generation the new
  key file, read under the stored path, gives the private key that was generated, under the kid of
  the stored metadata.\<close>

lemma generated_key_loads:
  assumes tools: "\<forall>kid alg k. \<exists>j. rsa_jwk_json rsa kid alg k = Inr j"
      "\<forall>k pem. rsa_pem rsa k = Inr pem \<longrightarrow> rsa_utf8 rsa pem = Inr pem \<and> rsa_from_pkcs8 rsa pem = Inr k"
      "\<forall>k. \<exists>der. rsa_der rsa k = Inr der"
    and fs: "fs_ok fs"
    and run: "generate_active_key_file rsa fs (\<lambda>m bits. add_signing_key_meta_conn now m) dir kid alg bits st = (Inr meta, st')"
  shows "\<exists>secret. rsa_new rsa (if bits = 0 then DEFAULT_RSA_BITS else bits) = Inr secret \<and>
    load_pem rsa fs' (sk_kid meta) (sk_private_key_path meta) st' =
      Inr (\<lparr>key_kid = sk_kid meta, key_alg = ALG_RS256\<rparr>, secret)"
proof (cases "key_request_ok kid alg st")
  case False
  then show ?thesis using generate_refused [OF False, of rsa fs "\<lambda>m bits. add_signing_key_meta_conn now m" dir bits] run by auto
next
  case True
  from generate_runs [OF True fs tools(1), of "\<lambda>m bits. add_signing_key_meta_conn now m" dir bits] run
  obtain secret pem json db where
    1: "rsa_new rsa (if bits = 0 then DEFAULT_RSA_BITS else bits) = Inr secret" "rsa_pem rsa secret = Inr pem"
    "add_signing_key_meta_conn now \<lparr>sk_kid = kid, sk_alg = ALG_RS256, sk_public_jwk_json = json,
          sk_private_key_path = path_join dir (kid @ ''.pem''), sk_status = ''active''\<rparr> (ks_db st) = Inr (meta, db)"
    "st' = st\<lparr>ks_files := (ks_files st)(path_join dir (kid @ ''.pem'') \<mapsto> pem), ks_db := db\<rparr>"
    by auto
  have "sk_kid meta = kid" "sk_private_key_path meta = path_join dir (kid @ ''.pem'')"
    using 1(3) by (auto simp: add_signing_key_meta_conn_def Let_def res_simps)
  moreover have "kid \<noteq> []" using True by (simp add: key_request_ok_def valid_kid_def)
  ultimately show ?thesis
    using 1(1,2,4) tools(2,3)
    by (auto simp: load_pem_def parse_rsa_private_key_def res_simps from_private_Inr intro!: exI [of _ secret])
qed

text \<open>A write that fails leaves its file behind: the next generation of that kid is refused although no key
  with the kid is stored.\<close>

theorem failed_write_blocks_kid:
  assumes "key_request_ok kid alg st" "SigningKey_generate rsa kid bits = Inr (key, secret)" "rsa_pem rsa secret = Inr pem"
    and "kf_create_dir fs = None" "kf_chmod fs = None" "kf_open fs = None" "kf_write fs = Some (e, partial)"
    and "ks_files st (path_join dir (kid @ ''.pem'')) = None"
  shows "\<exists>st1 e1. generate_active_key_file rsa fs add_meta dir kid alg bits st = (Inl e1, st1) \<and>
    key_request_ok kid alg st1 \<and> (\<forall>fs'. \<exists>e2. generate_active_key_file rsa fs' add_meta dir kid alg bits st1 = (Inl e2, st1))"
proof -
  let ?path = "path_join dir (kid @ ''.pem'')"
  define st1 where "st1 = st\<lparr>ks_files := (ks_files st)(?path \<mapsto> partial)\<rparr>"
  note gen = generate_active_key_file_def assms(2) map_err_op_def write_private_pem_exclusive_def
    write_private_pem_inner_def Let_def
  have "generate_active_key_file rsa fs add_meta dir kid alg bits st =
      (Inl (to_core_invalid (Crypto (''write private key: '' @ e))), st1)"
    using assms by (auto simp: gen key_request_ok_def st1_def)
  moreover have ok1: "key_request_ok kid alg st1" using assms(1) by (simp add: key_request_ok_def st1_def)
  moreover have "\<exists>e2. generate_active_key_file rsa fs' add_meta dir kid alg bits st1 = (Inl e2, st1)" for fs'
    using ok1 assms(3) by (auto simp: gen key_request_ok_def st1_def split: option.splits)
  ultimately show ?thesis by blast
qed

section \<open>Examples\<close>

text \<open>A JWT implementation that knows one header and one set of claims.\<close>

definition demo_header :: JwtHeader where
  "demo_header = \<lparr>jh_alg = ''RS256'', jh_typ = ''JWT'', jh_kid = ''k1''\<rparr>"

definition demo_claims :: LoreClaims where
  "demo_claims = \<lparr>cl_subject = ''u1'', cl_issuer = ''bridge'', cl_issued_at = 7, cl_expires_at = 3607,
     cl_audience = [''lore''], cl_env = ''prod'', cl_name = ''Ann'', cl_preferred_username = ''u1'',
     cl_resources = [], cl_groups = [], cl_is_service_account = Some False, cl_idp = ''oidc'', cl_jti = ''j1''\<rparr>"

definition demo_jwt :: Jwt where
  "demo_jwt =
     \<lparr>jw_encode_header = (\<lambda>h. if h = demo_header then Inr ''h'' else Inl (Crypto ''header'')),
      jw_encode_claims = (\<lambda>c. if c = demo_claims then Inr ''c'' else Inl (Crypto ''claims'')),
      jw_sign = (\<lambda>input. Inr ''s''),
      jw_decode_header = (\<lambda>t. if t = ''h.c.s'' then Inr \<lparr>dh_alg = ''RS256'', dh_kid = Some ''k1''\<rparr> else Inl ''header''),
      jw_decode = (\<lambda>t. if t = ''h.c.s'' then Inr demo_claims else Inl ''signature''),
      jw_claims_json = (\<lambda>c. Inr ''{}''),
      jw_jwks_json = (\<lambda>kid alg. Inr ''{}'')\<rparr>"

lemma demo_jwt_ok: "jwt_ok demo_jwt"
  by (auto simp: jwt_ok_def demo_jwt_def demo_header_def split: if_splits)

definition demo_signer :: Signer where
  "demo_signer = \<lparr>sg_key = \<lparr>key_kid = ''k1'', key_alg = ''RS256''\<rparr>, sg_verification_time = None\<rparr>"

definition demo_input :: AuthnTokenInput where
  "demo_input = \<lparr>an_issuer = ''bridge'', an_audience = [''lore''], an_subject = ''u1'', an_name = ''Ann'',
     an_preferred_username = [], an_groups = [], an_idp = ''oidc'', an_ttl = 0, an_now = None, an_jti = []\<rparr>"

definition demo_signed :: SignedToken where
  "demo_signed = \<lparr>st_token = ''h.c.s'', st_jti = ''j1'', st_kid = ''k1'', st_lore_resource_id = [],
     st_issued_at = 7, st_expires_at = 3607, st_permissions = [], st_audience = [''lore'']\<rparr>"

lemmas demo_jwt_defs = demo_jwt_def demo_header_def demo_claims_def demo_signer_def demo_input_def demo_signed_def
  ALG_RS256_def DEFAULT_ENV_def

lemmas claim_defs = sign_lore_claims_def ensure_jti_def
  new_authn_claims_def default_ttl_def default_now_def default_env_def default_to_subject_def unix_seconds_def
  duration_from_secs_def nanos_per_sec_def i64_max_def

lemma demo_sign: "sign_authn demo_jwt demo_signer ''j1'' 7900000000 demo_input = Inr demo_signed"
  by (simp add: sign_authn_def claim_defs demo_jwt_defs)

lemma demo_verify:
  "signer_verify demo_jwt demo_signer 9000000000 ''h.c.s'' \<lparr>vo_issuer = ''bridge'', vo_audience = ''lore''\<rparr> =
     Inr \<lparr>vt_subject = ''u1'', vt_jti = ''j1'', vt_idp = ''oidc'', vt_expires_at = 3607, vt_audience = [''lore''],
          vt_raw_claims = ''{}''\<rparr>"
  by (simp add: signer_verify_def validate_claims_def Signer_now_def unix_seconds_def nanos_per_sec_def i64_max_def
      demo_jwt_defs)


theorem verified_token_valid_witness:
  "jw_decode demo_jwt ''h.c.s'' = Inr demo_claims \<and>
   Signer_now demo_signer 9000000000 div int nanos_per_sec < 3607"
  using verified_token_valid [OF demo_verify] by (simp add: demo_jwt_def)

definition demo_rsa :: "nat RsaTools" where
  "demo_rsa = \<lparr>rsa_new = (\<lambda>bits. Inr bits), rsa_der = (\<lambda>k. Inr ''der''), rsa_pem = (\<lambda>k. Inr (replicate k CHR ''1'')),
     rsa_utf8 = (\<lambda>s. Inr s), rsa_from_pkcs8 = (\<lambda>s. Inr (length s)), rsa_from_pkcs1 = (\<lambda>s. Inl ''no''),
     rsa_jwk_json = (\<lambda>kid alg k. Inr ''{}'')\<rparr>"

definition demo_fs :: KeyFs where
  "demo_fs = \<lparr>kf_exists = [], kf_missing = [], kf_create_dir = None, kf_chmod = None, kf_open = None, kf_write = None,
     kf_sync = None, kf_remove = True\<rparr>"

lemma demo_key_facts:
  "\<forall>kid alg k. \<exists>j. rsa_jwk_json demo_rsa kid alg k = Inr j" "fs_ok demo_fs"
  by (simp_all add: demo_rsa_def demo_fs_def fs_ok_def)

lemma demo_generate:
  "\<exists>meta st. generate_active_key_file demo_rsa demo_fs (\<lambda>m bits. add_signing_key_meta_conn 5 m) ''keys'' ''k1'' [] 3
      \<lparr>ks_files = Map.empty, ks_db = empty_db\<rparr> = (Inr meta, st) \<and> sk_private_key_path meta = ''keys/k1.pem'' \<and> sk_kid meta = ''k1''"
  by (simp add: generate_active_key_file_def valid_kid_def signing_key_by_kid_conn_def SigningKey_generate_def
      SigningKey_from_private_def write_private_pem_exclusive_def write_private_pem_inner_def map_err_op_def demo_rsa_def
      demo_fs_def empty_db_def add_signing_key_meta_conn_def insert_row_def key_conflict_def no_fk_def signing_keys_ixs_def
      path_join_def ALG_RS256_def Let_def)


lemma generated_key_loads_witness:
  "\<exists>meta st. generate_active_key_file demo_rsa demo_fs (\<lambda>m bits. add_signing_key_meta_conn 5 m) ''keys'' ''k1'' [] 3
      \<lparr>ks_files = Map.empty, ks_db = empty_db\<rparr> = (Inr meta, st) \<and>
      load_pem demo_rsa demo_fs ''k1'' ''keys/k1.pem'' st = Inr (\<lparr>key_kid = ''k1'', key_alg = ALG_RS256\<rparr>, 3)"
proof -
  from demo_generate obtain meta st where
    run: "generate_active_key_file demo_rsa demo_fs (\<lambda>m bits. add_signing_key_meta_conn 5 m) ''keys'' ''k1'' [] 3
      \<lparr>ks_files = Map.empty, ks_db = empty_db\<rparr> = (Inr meta, st)" and
    path: "sk_private_key_path meta = ''keys/k1.pem''" "sk_kid meta = ''k1''" by blast
  have "\<forall>k pem. rsa_pem demo_rsa k = Inr pem \<longrightarrow> rsa_utf8 demo_rsa pem = Inr pem \<and> rsa_from_pkcs8 demo_rsa pem = Inr k"
    "\<forall>k. \<exists>der. rsa_der demo_rsa k = Inr der" by (auto simp: demo_rsa_def)
  from generated_key_loads [OF demo_key_facts(1) this demo_key_facts(2) run, of demo_fs] run path show ?thesis
    by (auto simp: demo_rsa_def)
qed

end
