(* ===== verification/Providers.thy ===== *)
theory Providers
  imports Ports
begin

text \<open>
  The small adapters next to the store: the registry of identity providers (\<open>idpregistry.rs\<close>),
  the static identity provider (\<open>staticidp.rs\<close>) and the generator of device codes
  (\<open>device.rs\<close>). The registry's \<open>BTreeMap\<close> is its list of entries in the order of the keys. URL
  parsing and printing are third-party code: a parameter takes a URL and the query pairs to append.
\<close>

section \<open>Registry\<close>

record 's Registry =
  rg_default_id :: string
  rg_by_id :: "(string \<times> 's IdentityProvider) list"

definition Registry_new :: "string \<Rightarrow> 's Registry" where
  "Registry_new default_id = \<lparr>rg_default_id = default_id, rg_by_id = []\<rparr>"

definition btree_insert :: "string \<Rightarrow> 'v \<Rightarrow> (string \<times> 'v) list \<Rightarrow> (string \<times> 'v) list" where
  "btree_insert k v m = insort_key fst (k, v) (filter (\<lambda>e. fst e \<noteq> k) m)"

definition register :: "'s IdentityProvider \<Rightarrow> 's Registry \<Rightarrow> 's Registry core_result" where
  "register provider reg =
     (let descriptor = ip_descriptor provider in
      if ipd_id descriptor = [] then
        Inl (InvalidArgument [Lit ''idp registry: provider id is required''])
      else if map_of (rg_by_id reg) (ipd_id descriptor) \<noteq> None then
        Inl (InvalidArgument [Lit ''idp registry: duplicate provider id '', Dbg (ipd_id descriptor)])
      else Inr (reg\<lparr>rg_by_id := btree_insert (ipd_id descriptor) provider (rg_by_id reg)\<rparr>))"

definition registry_get :: "'s Registry \<Rightarrow> string \<Rightarrow> 's IdentityProvider option" where
  "registry_get reg i = map_of (rg_by_id reg) i"

definition registry_list :: "'s Registry \<Rightarrow> IdentityProviderDescriptor list" where
  "registry_list reg = map (\<lambda>(_, provider). ip_descriptor provider) (rg_by_id reg)"

definition registry_port :: "'s Registry \<Rightarrow> 's IdentityProviderRegistry" where
  "registry_port reg = \<lparr>ir_get = registry_get reg, ir_default_id = rg_default_id reg, ir_list = registry_list reg\<rparr>"

section \<open>Static provider\<close>

definition CALLBACK_CODE :: string where
  "CALLBACK_CODE = ''static''"

record StaticConfig =
  sc_provider_id :: string
  sc_display_name :: string
  sc_issuer :: string
  sc_subject :: string
  sc_email :: string
  sc_email_verified :: bool
  sc_name :: string
  sc_picture_url :: string
  sc_hosted_domain :: string

record StaticProvider =
  sp_id :: string
  sp_display_name :: string
  sp_identity :: ExternalIdentity

definition StaticProvider_new :: "StaticConfig \<Rightarrow> StaticProvider core_result" where
  "StaticProvider_new config =
     (let i = trim (sc_provider_id config) in
      if i = [] then Inl (InvalidArgument [Lit ''staticidp: provider id is required''])
      else if trim (sc_issuer config) = [] then Inl (InvalidArgument [Lit ''staticidp: issuer is required''])
      else if trim (sc_subject config) = [] then Inl (InvalidArgument [Lit ''staticidp: subject is required''])
      else
        let display_name = (if trim (sc_display_name config) = [] then i else trim (sc_display_name config)) in
        Inr \<lparr>sp_id = i, sp_display_name = display_name,
             sp_identity = \<lparr>ei_id = [], ei_user_id = [], ei_provider_id = i, ei_issuer = sc_issuer config,
               ei_subject = sc_subject config, ei_subject_strategy = ''oidc_sub'', ei_email = sc_email config,
               ei_email_verified = sc_email_verified config, ei_display_name = sc_name config,
               ei_picture_url = sc_picture_url config, ei_hosted_domain = sc_hosted_domain config, ei_status = []\<rparr>\<rparr>)"

definition static_descriptor :: "StaticProvider \<Rightarrow> IdentityProviderDescriptor" where
  "static_descriptor p =
     \<lparr>ipd_id = sp_id p, ipd_provider_type = ''static'', ipd_display_name = sp_display_name p,
      ipd_issuer = ei_issuer (sp_identity p),
      ipd_trust_policy = \<lparr>ltp_email_binding = [], ltp_allowed_email_domains = []\<rparr>\<rparr>"

definition static_begin_auth ::
  "(string \<Rightarrow> (string \<times> string) list \<Rightarrow> string + string) \<Rightarrow> BeginAuthRequest \<Rightarrow> (BeginAuthResult, 's) port" where
  "static_begin_auth url_append req =
     (case url_append (bq_redirect_url req) [(''state'', bq_state req), (''code'', CALLBACK_CODE)] of
        Inl err \<Rightarrow> fail_op (InvalidArgument [Lit ''staticidp: parse callback url: '', Lit err])
      | Inr callback \<Rightarrow> return_op \<lparr>ba_redirect_url = callback, ba_private_state = []\<rparr>)"

definition static_complete_auth :: "StaticProvider \<Rightarrow> CompleteAuthRequest \<Rightarrow> (ExternalIdentity, 's) port" where
  "static_complete_auth p req =
     (if cq_code req \<noteq> CALLBACK_CODE then fail_op (InvalidArgument [Lit ''staticidp: invalid callback code''])
      else return_op (sp_identity p))"

definition static_provider ::
  "(string \<Rightarrow> (string \<times> string) list \<Rightarrow> string + string) \<Rightarrow> StaticProvider \<Rightarrow> 's IdentityProvider" where
  "static_provider url_append p =
     \<lparr>ip_descriptor = static_descriptor p, ip_begin_auth = static_begin_auth url_append,
      ip_complete_auth = static_complete_auth p\<rparr>"

section \<open>Device codes\<close>

text \<open>The random values are the simple forms (32 hexadecimal digits) of the UUIDs drawn.\<close>

definition uuid_device_code :: "string \<Rightarrow> string \<Rightarrow> string" where
  "uuid_device_code uuid1 uuid2 = uuid1 @ uuid2"

definition uuid_user_code :: "string \<Rightarrow> string" where
  "uuid_user_code raw =
     (let code = to_ascii_uppercase (take 8 raw) in take 4 code @ ''-'' @ drop 4 code)"

section \<open>The registry is a sorted map\<close>

definition registry_ok :: "'s Registry \<Rightarrow> bool" where
  "registry_ok reg \<longleftrightarrow> sorted (map fst (rg_by_id reg)) \<and> distinct (map fst (rg_by_id reg)) \<and>
     list_all (\<lambda>(i, p). i \<noteq> [] \<and> ipd_id (ip_descriptor p) = i) (rg_by_id reg)"

lemma btree_insert_sorted:
  assumes "sorted (map fst m)" "distinct (map fst m)"
  shows "sorted (map fst (btree_insert k v m))" "distinct (map fst (btree_insert k v m))"
proof -
  have f: "sorted (map fst (filter (\<lambda>e. fst e \<noteq> k) m))" "distinct (map fst (filter (\<lambda>e. fst e \<noteq> k) m))"
    using assms by (simp_all add: sorted_filter distinct_map_filter)
  from f(1) show "sorted (map fst (btree_insert k v m))"
    by (simp add: btree_insert_def sorted_insort_key)
  from f(2) show "distinct (map fst (btree_insert k v m))"
    unfolding btree_insert_def
    by (simp add: distinct_map distinct_insort set_insort_key inj_on_insert) blast
qed

lemma btree_insert_set: "set (btree_insert k v m) = insert (k, v) {e \<in> set m. fst e \<noteq> k}"
  by (simp add: btree_insert_def set_insort_key)

lemma btree_insert_lookup:
  assumes "sorted (map fst m)" "distinct (map fst m)"
  shows "map_of (btree_insert k v m) = (map_of m)(k \<mapsto> v)"
proof
  fix x
  have d: "distinct (map fst (btree_insert k v m))" using assms by (rule btree_insert_sorted)
  have "map_of (btree_insert k v m) x = Some y \<longleftrightarrow> ((map_of m)(k \<mapsto> v)) x = Some y" for y
    using map_of_eq_Some_iff [OF d, of x y] map_of_eq_Some_iff [OF assms(2), of x y]
    by (auto simp: btree_insert_set)
  then show "map_of (btree_insert k v m) x = ((map_of m)(k \<mapsto> v)) x"
    by (metis not_None_eq)
qed

text \<open>The registry of identity providers is well formed at every moment: it starts well formed,
  and registering a provider succeeds exactly when its id is not empty and not taken, keeps the
  registry well formed (entries in the order of their distinct, non-empty ids, each under the id of
  its descriptor), makes the provider the answer for its id, leaves every other id and the default
  as they were, and fails with an invalid argument otherwise.\<close>

lemma register_type:
  fixes reg :: "'s Registry"
  assumes "registry_ok reg"
  shows "registry_ok (Registry_new d :: 's Registry) \<and>
    (case register p reg of
       Inr reg' \<Rightarrow> ipd_id (ip_descriptor p) \<noteq> [] \<and> registry_get reg (ipd_id (ip_descriptor p)) = None \<and>
         registry_ok reg' \<and> registry_get reg' = (registry_get reg)(ipd_id (ip_descriptor p) \<mapsto> p) \<and>
         rg_default_id reg' = rg_default_id reg \<and>
         set (registry_list reg') = insert (ip_descriptor p) (set (registry_list reg))
     | Inl e \<Rightarrow> (\<exists>m. e = InvalidArgument m) \<and>
         (ipd_id (ip_descriptor p) = [] \<or> registry_get reg (ipd_id (ip_descriptor p)) \<noteq> None))"
proof -
  let ?i = "ipd_id (ip_descriptor p)" and ?m = "rg_by_id reg"
  have reg: "sorted (map fst ?m)" "distinct (map fst ?m)" "list_all (\<lambda>(i, p). i \<noteq> [] \<and> ipd_id (ip_descriptor p) = i) ?m"
    using assms by (simp_all add: registry_ok_def)
  have "registry_ok (reg\<lparr>rg_by_id := btree_insert ?i p ?m\<rparr>)" if "?i \<noteq> []"
    using that reg btree_insert_sorted [OF reg(1,2)] by (auto simp: registry_ok_def list_all_iff btree_insert_set)
  moreover have "registry_get (reg\<lparr>rg_by_id := btree_insert ?i p ?m\<rparr>) = (registry_get reg)(?i \<mapsto> p)"
    by (rule ext) (simp add: registry_get_def btree_insert_lookup [OF reg(1,2)])
  moreover have "{e \<in> set ?m. fst e \<noteq> ?i} = set ?m" if "map_of ?m ?i = None"
    using that by (force simp: map_of_eq_None_iff)
  then have "set (registry_list (reg\<lparr>rg_by_id := btree_insert ?i p ?m\<rparr>)) =
      insert (ip_descriptor p) (set (registry_list reg))" if "map_of ?m ?i = None"
    using that by (auto simp: registry_list_def btree_insert_set)
  ultimately show ?thesis
    by (auto simp: register_def Let_def registry_get_def registry_ok_def Registry_new_def)
qed

section \<open>Static identities and user codes\<close>

lemma length_user_code:
  "8 \<le> length raw \<Longrightarrow> length (uuid_user_code raw) = 9"
  by (simp add: uuid_user_code_def Let_def to_ascii_uppercase_def)

text \<open>A static provider is consistent with its descriptor: for every configuration it accepts, the
  identity it returns for its own callback carries the provider id and issuer that its descriptor
  announces, with a non-blank subject; every other callback code is refused.\<close>

lemma static_provider_consistent:
  assumes "StaticProvider_new config = Inr p"
  shows "ipd_id (static_descriptor p) = trim (sc_provider_id config) \<and> ipd_id (static_descriptor p) \<noteq> [] \<and>
    (case static_complete_auth p req s of
       (Inr identity, s') \<Rightarrow> cq_code req = CALLBACK_CODE \<and> s' = s \<and>
         ei_provider_id identity = ipd_id (static_descriptor p) \<and> ei_issuer identity = ipd_issuer (static_descriptor p) \<and>
         trim (ei_subject identity) \<noteq> []
     | (Inl e, s') \<Rightarrow> cq_code req \<noteq> CALLBACK_CODE \<and> s' = s)"
  using assms
  by (auto simp: StaticProvider_new_def static_descriptor_def static_complete_auth_def return_op_def fail_op_def Let_def
      split: if_splits)

section \<open>Examples\<close>

definition demo_static :: StaticConfig where
  "demo_static = \<lparr>sc_provider_id = '' corp '', sc_display_name = [], sc_issuer = ''https://idp'', sc_subject = ''s1'',
     sc_email = ''ann@x.org'', sc_email_verified = True, sc_name = ''Ann'', sc_picture_url = [], sc_hosted_domain = []\<rparr>"

definition demo_static_provider :: StaticProvider where
  "demo_static_provider = (case StaticProvider_new demo_static of Inr p \<Rightarrow> p)"

lemma demo_static_new: "StaticProvider_new demo_static = Inr demo_static_provider"
  by code_simp

lemma register_type_witness:
  "\<exists>reg. register (static_provider (\<lambda>u q. Inr u) demo_static_provider) (Registry_new [] :: unit Registry) = Inr reg \<and>
     registry_ok reg \<and> registry_get reg ''corp'' \<noteq> None"
proof -
  let ?p = "static_provider (\<lambda>u q. Inr u) demo_static_provider :: unit IdentityProvider"
  have i: "ipd_id (ip_descriptor ?p) = ''corp''"
    unfolding static_provider_def by (simp add: static_descriptor_def) code_simp
  have "registry_ok (Registry_new [] :: unit Registry)" by (simp add: registry_ok_def Registry_new_def)
  moreover have "registry_get (Registry_new [] :: unit Registry) ''corp'' = None"
    by (simp add: registry_get_def Registry_new_def)
  ultimately show ?thesis
    using register_type [of "Registry_new [] :: unit Registry" "[]" ?p] i by (auto split: sum.splits)
qed

lemma static_provider_consistent_example:
  "ipd_id (static_descriptor demo_static_provider) = ''corp'' \<and>
   (\<exists>identity. static_complete_auth demo_static_provider (CompleteAuthRequest_default\<lparr>cq_code := ''static''\<rparr>) () =
      (Inr identity, ()) \<and> ei_provider_id identity = ''corp'')"
proof -
  have "trim (sc_provider_id demo_static) = ''corp''" by code_simp
  with static_provider_consistent [OF demo_static_new, of "CompleteAuthRequest_default\<lparr>cq_code := ''static''\<rparr>" "()"]
  show ?thesis by (auto simp: CALLBACK_CODE_def split: prod.splits sum.splits)
qed

end
