(* ===== verification/Sqlite_Ports.thy ===== *)
theory Sqlite_Ports
  imports Sqlite_System Rebac_Authz Core_Device Core_Login Rs256 Providers
begin

text \<open>
  The services as the server wires them (\<open>build_graph\<close> of \<open>server/src/main.rs\<close>): over the SQLite
  adapter, the authorization policy and the RS256 signer. The world holds the database, the clock
  readings, the random values and the answers of identity providers that calls draw, and the
  writes of other requests: before each call of a port any sequence of steps of the database may
  have happened. The locales of the services are interpreted on these ports.
\<close>

section \<open>The world\<close>

record World =
  w_db :: Db
  w_call :: nat
  w_times :: "nat \<Rightarrow> nat \<Rightarrow> i64"
  w_nanos :: "nat \<Rightarrow> int"
  w_ids :: "nat \<Rightarrow> nat \<Rightarrow> string"
  w_others :: "nat \<Rightarrow> Db \<Rightarrow> Db"

text \<open>The next call: the writes of other requests come first.\<close>

definition next_call :: "World \<Rightarrow> World" where
  "next_call w = w\<lparr>w_db := w_others w (w_call w) (w_db w), w_call := Suc (w_call w)\<rparr>"

definition db_read :: "((nat \<Rightarrow> i64) \<Rightarrow> Db \<Rightarrow> 'a core_result) \<Rightarrow> ('a, World) port" where
  "db_read f w = (let w = next_call w in (f (w_times w (w_call w)) (w_db w), w))"

definition db_write ::
  "((nat \<Rightarrow> i64) \<Rightarrow> (nat \<Rightarrow> string) \<Rightarrow> Db \<Rightarrow> ('a \<times> Db) core_result) \<Rightarrow> ('a, World) port" where
  "db_write f w =
     (let w = next_call w in
      case f (w_times w (w_call w)) (w_ids w (w_call w)) (w_db w) of
        Inl e \<Rightarrow> (Inl e, w)
      | Inr (a, db) \<Rightarrow> (Inr a, w\<lparr>w_db := db\<rparr>))"

text \<open>A call that does not use the database.\<close>

definition outside :: "(World \<Rightarrow> 'a core_result) \<Rightarrow> ('a, World) port" where
  "outside f w = (let w = w\<lparr>w_call := Suc (w_call w)\<rparr> in (f w, w))"

definition world_clock :: "World clock" where
  "world_clock w = (w_times w (w_call w) 0, w\<lparr>w_call := Suc (w_call w)\<rparr>)"

definition others_ok :: "World \<Rightarrow> bool" where
  "others_ok w \<longleftrightarrow> (\<forall>n db. db_step\<^sup>*\<^sup>* db (w_others w n db))"

definition world_step :: "World \<Rightarrow> World \<Rightarrow> bool" where
  "world_step w w' \<longleftrightarrow> w_others w' = w_others w \<and> (others_ok w \<longrightarrow> db_step\<^sup>*\<^sup>* (w_db w) (w_db w'))"

interpretation world: preorder_steps world_step
  by unfold_locales (auto simp: world_step_def others_ok_def)

section \<open>The ports\<close>

definition sqlite_accounts :: "World AccountDirectory" where
  "sqlite_accounts =
     \<lparr>ad_user_by_id = (\<lambda>i. db_read (\<lambda>t db. user_by_id_conn db i)),
      ad_list_users = (\<lambda>f. db_read (\<lambda>t db. list_users_conn db f)),
      ad_resolve_login = (\<lambda>rq. db_write (\<lambda>t i. resolve_login_conn (t 0) (t 1) (i 0) rq)),
      ad_principal_by_user_id = (\<lambda>i. db_read (\<lambda>t db. principal_by_user_id db i)),
      ad_principal_by_authn_token_jti = (\<lambda>j. db_read (\<lambda>t db. principal_by_authn_token_jti (t 0) db j)),
      ad_add_user = (\<lambda>input. db_write (\<lambda>t i. add_user_conn (t 0) (i 0) input)),
      ad_add_invitation = (\<lambda>input. db_write (\<lambda>t i. add_invitation_db (t 0) (i 0) (i 1) input)),
      ad_disable_user = (\<lambda>x. db_write (\<lambda>t i db. disable_user_conn (t 0) db x)),
      ad_enable_user = (\<lambda>x. db_write (\<lambda>t i db. enable_user_conn (t 0) db x))\<rparr>"

definition rebac_policy :: "resolver \<Rightarrow> World AuthorizationPolicy" where
  "rebac_policy resolve =
     \<lparr>ap_can_access = (\<lambda>u r a. db_read (\<lambda>t db. can_access resolve db u r a)),
      ap_list_accessible = (\<lambda>u f. db_read (\<lambda>t db. list_accessible resolve db u f))\<rparr>"

definition sqlite_resources :: "World ResourceStore" where
  "sqlite_resources =
     \<lparr>rs_get_by_id = (\<lambda>i. db_read (\<lambda>t db. get_by_id db i)),
      rs_get_by_resource_id = (\<lambda>i. db_read (\<lambda>t db. get_by_resource_id db i)),
      rs_get_by_name = (\<lambda>n. db_read (\<lambda>t db. get_by_name db n)),
      rs_list = db_read (\<lambda>t db. list_resources db),
      rs_upsert = (\<lambda>r. db_write (\<lambda>t i. upsert_resource_conn (t 0) (i 0) r)),
      rs_delete = (\<lambda>r. db_write (\<lambda>t i. ResourceStore_delete (t 0) r))\<rparr>"

definition sqlite_groups :: "World GroupQuery" where
  "sqlite_groups =
     \<lparr>gq_list_groups = db_read (\<lambda>t db. list_groups db),
      gq_list_group_members = (\<lambda>g. db_read (\<lambda>t db. list_group_members db g)),
      gq_list_group_groups = (\<lambda>g. db_read (\<lambda>t db. list_group_groups db g))\<rparr>"

definition sqlite_grants :: "World GrantQuery" where
  "sqlite_grants =
     \<lparr>gt_list_grants = (\<lambda>repo. db_read (\<lambda>t db. list_grants_conn db repo)),
      gt_grants_for_user_on_repository = (\<lambda>u r. db_read (\<lambda>t db. grant_evidence_conn db u r))\<rparr>"

text \<open>The audited store: reads and logins pass to the store, administrative writes are audited.\<close>

definition AuditedStoreFactory :: "World AdminWritePortFactory" where
  "AuditedStoreFactory actor =
     \<lparr>aw_accounts = sqlite_accounts\<lparr>
        ad_add_user := (\<lambda>input. db_write (\<lambda>t i. audited_add_user actor (t 0) (i 0) input (i 1) (t 1))),
        ad_add_invitation := (\<lambda>input. db_write (\<lambda>t i. audited_add_invitation actor (t 0) (i 0) (i 1) input (i 2) (t 1))),
        ad_disable_user := (\<lambda>x. db_write (\<lambda>t i. audited_disable_user actor (t 0) x (i 0) (t 1))),
        ad_enable_user := (\<lambda>x. db_write (\<lambda>t i. audited_enable_user actor (t 0) x (i 0) (t 1)))\<rparr>,
      aw_resources = sqlite_resources\<lparr>
        rs_upsert := (\<lambda>r. db_write (\<lambda>t i. audited_upsert actor (t 0) (i 0) r (i 1) (t 1))),
        rs_delete := (\<lambda>r. db_write (\<lambda>t i. audited_delete actor (t 0) r (i 0) (t 1)))\<rparr>,
      aw_groups =
        \<lparr>ga_add_group = (\<lambda>n d. db_write (\<lambda>t i. audited_add_group actor (t 0) (i 0) n d (i 1) (t 1))),
         ga_add_group_member = (\<lambda>g u. db_write (\<lambda>t i. audited_add_group_member actor (t 0) g u (i 0) (t 1))),
         ga_remove_group_member = (\<lambda>g u. db_write (\<lambda>t i. audited_remove_group_member actor g u (i 0) (t 0))),
         ga_add_group_group = (\<lambda>p m. db_write (\<lambda>t i. audited_add_group_group actor (t 0) p m (i 0) (t 1))),
         ga_remove_group_group = (\<lambda>p m. db_write (\<lambda>t i. audited_remove_group_group actor p m (i 0) (t 0)))\<rparr>,
      aw_grants =
        \<lparr>gt_add_grant = (\<lambda>ty s repo role. db_write (\<lambda>t i. audited_add_grant actor (t 0) (i 0) ty s repo role (i 1) (t 1))),
         gt_remove_grant = (\<lambda>ty s repo role. db_write (\<lambda>t i. audited_remove_grant actor ty s repo role (i 0) (t 0)))\<rparr>\<rparr>"

definition sqlite_devices :: "(string \<Rightarrow> string) \<Rightarrow> World DeviceAuthorizationStore" where
  "sqlite_devices sha =
     \<lparr>ds_create = (\<lambda>input. db_write (\<lambda>t i. create_device_authorization sha (t 0) (i 0) input)),
      ds_by_user_code = (\<lambda>c. db_read (\<lambda>t db. device_by_user_code sha db c)),
      ds_by_device_code = (\<lambda>c. db_read (\<lambda>t db. device_by_device_code sha db c)),
      ds_approve = (\<lambda>i u. db_write (\<lambda>t _. approve_device_authorization (t 0) i u)),
      ds_consume = (\<lambda>i. db_write (\<lambda>t _. consume_device_authorization (t 0) i)),
      ds_expire = (\<lambda>i. db_write (\<lambda>t _. expire_device_authorization i))\<rparr>"

definition sqlite_state :: "(string \<Rightarrow> string) \<Rightarrow> World StateStore" where
  "sqlite_state sha =
     \<lparr>ss_create_auth_session = (\<lambda>cs ttl. db_write (\<lambda>t i. create_auth_session sha (i 0) (t 0) (i 1) (i 2) cs ttl)),
      ss_get_auth_session_by_code = (\<lambda>c. db_read (\<lambda>t db. get_auth_session_by_code sha (t 0) db c)),
      ss_get_auth_session_by_nonce = (\<lambda>n. db_read (\<lambda>t db. get_auth_session_by_nonce (t 0) db n)),
      ss_complete_auth_session = (\<lambda>i u. db_write (\<lambda>t _. complete_auth_session (t 0) i u)),
      ss_consume_auth_session = (\<lambda>i. db_write (\<lambda>t _. consume_auth_session (t 0) i)),
      ss_create_login_state = (\<lambda>input ttl. db_write (\<lambda>t i. create_login_state sha (i 0) (t 0) (i 1) input ttl)),
      ss_set_login_state_private_state = (\<lambda>s p. db_write (\<lambda>t _. set_login_state_private_state sha (t 0) s p)),
      ss_consume_login_state = (\<lambda>s. db_write (\<lambda>t _. consume_login_state sha (t 0) (t 1) (t 2) s)),
      ss_create_browser_session = (\<lambda>u ttl. db_write (\<lambda>t i. create_browser_session (t 0) (i 0) u ttl)),
      ss_user_by_browser_session = (\<lambda>s. db_read (\<lambda>t db. user_by_browser_session (t 0) db s)),
      ss_revoke_browser_session = (\<lambda>s. db_write (\<lambda>t _. revoke_browser_session (t 0) s)),
      ss_create_csrf_token = (\<lambda>s ttl. db_write (\<lambda>t i. create_csrf_token sha (i 0) (t 0) s ttl)),
      ss_consume_csrf_token = (\<lambda>s tok. db_write (\<lambda>t _. consume_csrf_token sha (t 0) (t 1) s tok)),
      ss_match_client_state = match_client_state sha\<rparr>"

definition sqlite_log :: "(string list \<Rightarrow> string) \<Rightarrow> World IssuedTokenLog" where
  "sqlite_log to_json tok = db_write (\<lambda>t _. record_token to_json tok)"

definition rs256_signer :: "Jwt \<Rightarrow> Signer \<Rightarrow> World TokenSigner" where
  "rs256_signer jwt signer =
     \<lparr>ts_sign_authn = (\<lambda>input. outside (\<lambda>w. sign_authn jwt signer (w_ids w (w_call w) 0) (w_nanos w (w_call w)) input)),
      ts_sign_authz = (\<lambda>input. outside (\<lambda>w. sign_authz jwt signer (w_ids w (w_call w) 0) (w_nanos w (w_call w)) input)),
      ts_verify = (\<lambda>compact opts. outside (\<lambda>w. signer_verify jwt signer (w_nanos w (w_call w)) compact opts)),
      ts_jwks = outside (\<lambda>w. signer_jwks jwt signer)\<rparr>"

definition UuidDeviceCodeGenerator :: "World DeviceCodeGenerator" where
  "UuidDeviceCodeGenerator =
     \<lparr>dg_device_code = outside (\<lambda>w. Inr (uuid_device_code (w_ids w (w_call w) 0) (w_ids w (w_call w) 1))),
      dg_user_code = outside (\<lambda>w. Inr (uuid_user_code (w_ids w (w_call w) 0)))\<rparr>"

text \<open>Identity providers are other servers: their answers may depend on the call, and they do not use
  the database of the bridge.\<close>

record ExternalProvider =
  xp_descriptor :: IdentityProviderDescriptor
  xp_begin_auth :: "nat \<Rightarrow> BeginAuthRequest \<Rightarrow> BeginAuthResult core_result"
  xp_complete_auth :: "nat \<Rightarrow> CompleteAuthRequest \<Rightarrow> ExternalIdentity core_result"

definition external_provider :: "ExternalProvider \<Rightarrow> World IdentityProvider" where
  "external_provider xp =
     \<lparr>ip_descriptor = xp_descriptor xp,
      ip_begin_auth = (\<lambda>req. outside (\<lambda>w. xp_begin_auth xp (w_call w) req)),
      ip_complete_auth = (\<lambda>req. outside (\<lambda>w. xp_complete_auth xp (w_call w) req))\<rparr>"

fun register_all :: "ExternalProvider list \<Rightarrow> World Registry \<Rightarrow> World Registry core_result" where
  "register_all [] reg = Inr reg"
| "register_all (xp # xps) reg = and_then (register (external_provider xp) reg) (register_all xps)"

section \<open>The services\<close>

text \<open>What the server is built from: its configuration, the signing key and the third-party code.\<close>

record Setup =
  st_resolve :: resolver
  st_jwt :: Jwt
  st_signer :: Signer
  st_sha :: "string \<Rightarrow> string"
  st_to_json :: "string list \<Rightarrow> string"
  st_providers :: "ExternalProvider list"
  st_default_provider :: string
  st_token_cfg :: TokenConfig
  st_login_cfg :: LoginConfig
  st_device_cfg :: DeviceConfig

definition graph_tokens :: "Setup \<Rightarrow> World TokenService" where
  "graph_tokens g =
     \<lparr>tk_cfg = st_token_cfg g, tk_accounts = sqlite_accounts, tk_resources = sqlite_resources,
      tk_authz = rebac_policy (st_resolve g), tk_signer = rs256_signer (st_jwt g) (st_signer g),
      tk_log = Some (sqlite_log (st_to_json g))\<rparr>"

text \<open>A server whose providers do not register does not start: it is modelled with no provider.\<close>

definition build_identity_providers :: "Setup \<Rightarrow> World Registry core_result" where
  "build_identity_providers g = register_all (st_providers g) (Registry_new (st_default_provider g))"

definition graph_idps :: "Setup \<Rightarrow> World Registry" where
  "graph_idps g =
     (case build_identity_providers g of Inr reg \<Rightarrow> reg | Inl _ \<Rightarrow> Registry_new (st_default_provider g))"

definition graph_login :: "Setup \<Rightarrow> World LoginService" where
  "graph_login g =
     \<lparr>lg_cfg = st_login_cfg g, lg_idps = registry_port (graph_idps g), lg_users = sqlite_accounts,
      lg_state = sqlite_state (st_sha g), lg_tokens = graph_tokens g, lg_clock = world_clock\<rparr>"

definition graph_permissions :: "Setup \<Rightarrow> World PermissionService" where
  "graph_permissions g = \<lparr>pm_resources = sqlite_resources, pm_authz = rebac_policy (st_resolve g)\<rparr>"

definition graph_device :: "Setup \<Rightarrow> World DeviceService" where
  "graph_device g =
     \<lparr>dv_cfg = st_device_cfg g, dv_devices = sqlite_devices (st_sha g), dv_resources = sqlite_resources,
      dv_authz = rebac_policy (st_resolve g), dv_accounts = sqlite_accounts, dv_tokens = graph_tokens g,
      dv_codes = UuidDeviceCodeGenerator, dv_clock = world_clock\<rparr>"

section \<open>Every port moves the database along its steps\<close>

lemma next_call_step: "world_step w (next_call w)"
  by (auto simp: world_step_def next_call_def others_ok_def)

lemma world_step_db:
  "world_step w w' \<Longrightarrow> (others_ok w' \<Longrightarrow> db_step\<^sup>*\<^sup>* (w_db w') db) \<Longrightarrow> world_step w (w'\<lparr>w_db := db\<rparr>)"
  unfolding world_step_def others_ok_def by (auto intro: rtranclp_trans)

lemma db_read_moves [moves_intros]: "moves world_step (db_read f)"
  by (simp add: moves_def db_read_def Let_def next_call_step)

lemma db_write_moves:
  assumes "\<And>t i db a db'. f t i db = Inr (a, db') \<Longrightarrow> db_step db db'"
  shows "moves world_step (db_write f)"
  unfolding moves_def db_write_def Let_def
  by (auto split: sum.splits intro: next_call_step world_step_db dest!: assms)

lemma outside_moves [moves_intros]: "moves world_step (outside f)"
  by (simp add: moves_def outside_def world_step_def Let_def)

lemma world_clock_moves [moves_intros]: "moves world_step (now_op world_clock)"
  by (simp add: moves_def now_op_def world_clock_def world_step_def)

lemma account_moves [moves_intros]:
  "moves world_step (ad_principal_by_user_id sqlite_accounts u)"
  "moves world_step (ad_principal_by_authn_token_jti sqlite_accounts j)"
  "moves world_step (ad_resolve_login sqlite_accounts rq)"
  by (auto simp: sqlite_accounts_def intro!: moves_intros db_write_moves intro: db_step.intros)

lemma policy_moves [moves_intros]:
  "moves world_step (ap_can_access (rebac_policy resolve) u r a)"
  "moves world_step (ap_list_accessible (rebac_policy resolve) u f)"
  by (auto simp: rebac_policy_def intro!: moves_intros)

lemma upsert_step: "upsert_resource_conn now i r db = Inr (a, db') \<Longrightarrow> db_step db db'"
  by (rule db_step.admin [where w = "UpsertResource now i r"]) (simp add: drop_result_def)

lemma delete_step: "ResourceStore_delete now i db = Inr (a, db') \<Longrightarrow> db_step db db'"
  by (rule db_step.admin [where w = "DeleteResource now (repository_id_from_resource_id i)"])
    (simp add: ResourceStore_delete_def drop_result_def)

lemma resource_moves [moves_intros]:
  "moves world_step (rs_get_by_id sqlite_resources i)"
  "moves world_step (rs_get_by_resource_id sqlite_resources i)"
  "moves world_step (rs_get_by_name sqlite_resources i)"
  "moves world_step (rs_list sqlite_resources)"
  "moves world_step (rs_upsert sqlite_resources r)"
  "moves world_step (rs_delete sqlite_resources i)"
  by (auto simp: sqlite_resources_def intro!: moves_intros db_write_moves intro: upsert_step delete_step)

lemma device_moves [moves_intros]:
  "moves world_step (ds_create (sqlite_devices sha) inp)"
  "moves world_step (ds_by_user_code (sqlite_devices sha) c)"
  "moves world_step (ds_by_device_code (sqlite_devices sha) c)"
  "moves world_step (ds_approve (sqlite_devices sha) i u)"
  "moves world_step (ds_consume (sqlite_devices sha) i)"
  "moves world_step (ds_expire (sqlite_devices sha) i)"
  by (auto simp: sqlite_devices_def intro!: moves_intros db_write_moves intro: db_step.intros)

lemma state_moves [moves_intros]:
  "moves world_step (ss_create_auth_session (sqlite_state sha) cs ttl)"
  "moves world_step (ss_get_auth_session_by_code (sqlite_state sha) c)"
  "moves world_step (ss_get_auth_session_by_nonce (sqlite_state sha) n)"
  "moves world_step (ss_complete_auth_session (sqlite_state sha) i u)"
  "moves world_step (ss_consume_auth_session (sqlite_state sha) i)"
  "moves world_step (ss_create_browser_session (sqlite_state sha) u ttl)"
  by (auto simp: sqlite_state_def intro!: moves_intros db_write_moves intro: db_step.intros)

lemma signer_moves [moves_intros]:
  "moves world_step (ts_sign_authn (rs256_signer jwt sg) a)"
  "moves world_step (ts_sign_authz (rs256_signer jwt sg) z)"
  "moves world_step (ts_verify (rs256_signer jwt sg) c opts)"
  by (auto simp: rs256_signer_def intro!: moves_intros)

lemma log_moves [moves_intros]: "moves world_step (sqlite_log to_json tok)"
  unfolding sqlite_log_def by (rule db_write_moves) (auto intro: db_step.intros)

lemma code_moves [moves_intros]:
  "moves world_step (dg_device_code UuidDeviceCodeGenerator)" "moves world_step (dg_user_code UuidDeviceCodeGenerator)"
  by (auto simp: UuidDeviceCodeGenerator_def intro!: moves_intros)

lemma external_moves [moves_intros]:
  "moves world_step (ip_begin_auth (external_provider xp) b)"
  "moves world_step (ip_complete_auth (external_provider xp) c)"
  by (auto simp: external_provider_def intro!: moves_intros)

interpretation graph_tokens: token_world world_step "graph_tokens g"
  by unfold_locales (auto simp: graph_tokens_def intro!: moves_intros)

interpretation graph_device: device_world world_step "graph_device g"
  by unfold_locales (auto simp: graph_device_def graph_tokens_def intro!: moves_intros)

lemma register_entries:
  "register p reg = Inr reg' \<Longrightarrow> snd ` set (rg_by_id reg') \<subseteq> insert p (snd ` set (rg_by_id reg))"
  by (auto simp: register_def Let_def btree_insert_set split: if_splits)

lemma register_all_entries:
  "register_all xps reg = Inr reg' \<Longrightarrow> p \<in> snd ` set (rg_by_id reg') \<Longrightarrow>
     p \<in> snd ` set (rg_by_id reg) \<or> (\<exists>xp. p = external_provider xp)"
proof (induction xps arbitrary: reg)
  case (Cons xp xps)
  from Cons.prems(1) obtain reg1 where 1: "register (external_provider xp) reg = Inr reg1" "register_all xps reg1 = Inr reg'"
    by (auto simp: and_then_Inr_iff)
  from Cons.IH [OF 1(2) Cons.prems(2)] register_entries [OF 1(1)] show ?case by blast
qed auto

lemma graph_idps_external: "registry_get (graph_idps g) i = Some p \<Longrightarrow> \<exists>xp. p = external_provider xp"
proof -
  assume "registry_get (graph_idps g) i = Some p"
  then have "p \<in> snd ` set (rg_by_id (graph_idps g))"
    by (auto simp: registry_get_def dest!: map_of_SomeD intro: rev_image_eqI)
  then show ?thesis
    by (auto simp: graph_idps_def build_identity_providers_def Registry_new_def split: sum.splits
        dest!: register_all_entries)
qed

interpretation graph_login: login_world world_step "graph_login g"
  by unfold_locales
    (auto simp: graph_login_def graph_tokens_def registry_port_def intro!: moves_intros dest!: graph_idps_external)

section \<open>Requests\<close>

text \<open>The requests that the services answer, one operation each; what a request does to the world.\<close>

datatype request =
    StartDevice string string
  | PreviewDevice string
  | ApproveDevice string string
  | PollDevice string
  | StartSession string
  | PollSession string string
  | BeginAuth string BeginAuthRequest
  | CompleteAuth string CompleteAuthRequest string
  | MintAuthn string "duration option"
  | VerifyAuthn string
  | ExchangeAuthz VerifiedAuthn "string list" "duration option"
  | MintAuthz string string string "duration option"
  | CheckPermissions string "string list"
  | LookupPermissions string ResourceFilter
  | CreateResource string string
  | DropResource string

fun serve :: "Setup \<Rightarrow> request \<Rightarrow> World \<Rightarrow> World" where
  "serve g (StartDevice url name) w = snd (device_start (graph_device g) url name w)"
| "serve g (PreviewDevice code) w = snd (preview (graph_device g) code w)"
| "serve g (ApproveDevice user code) w = snd (device_approve (graph_device g) user code w)"
| "serve g (PollDevice code) w = snd (device_token (graph_device g) code w)"
| "serve g (StartSession cs) w = snd (start_auth_session (graph_login g) cs w)"
| "serve g (PollSession code cs) w = snd (get_auth_session (graph_login g) code cs w)"
| "serve g (BeginAuth pid rq) w = snd (begin_auth (graph_login g) pid rq w)"
| "serve g (CompleteAuth pid rq nonce) w = snd (complete_auth (graph_login g) pid rq nonce w)"
| "serve g (MintAuthn user ttl) w = snd (mint_authn (graph_tokens g) user ttl w)"
| "serve g (VerifyAuthn bearer) w = snd (verify_authn (graph_tokens g) bearer w)"
| "serve g (ExchangeAuthz authn rids ttl) w = snd (exchange_authz (graph_tokens g) authn rids ttl w)"
| "serve g (MintAuthz user repo role ttl) w = snd (manual_mint_authz (graph_tokens g) user repo role ttl w)"
| "serve g (CheckPermissions user rids) w = snd (permission_check (graph_permissions g) user rids w)"
| "serve g (LookupPermissions user f) w = snd (permission_lookup (graph_permissions g) user f w)"
| "serve g (CreateResource rid name) w = snd (create_resource sqlite_resources rid name w)"
| "serve g (DropResource rid) w = snd (delete_resource sqlite_resources rid w)"

lemma permission_moves [moves_intros]:
  "moves world_step (permission_check (graph_permissions g) u rids)"
  "moves world_step (permission_lookup (graph_permissions g) u f)"
  by (simp_all add: world.permission_check_moves permission_lookup_def graph_permissions_def resource_moves policy_moves)

lemma resource_service_moves:
  "moves world_step (create_resource sqlite_resources i n)" "moves world_step (delete_resource sqlite_resources i)"
  by (auto simp: create_resource_def delete_resource_def intro!: moves_intros)

lemmas service_moves = graph_device.device_start_moves graph_device.preview_moves graph_device.device_approve_moves
  graph_device.device_token_moves graph_login.start_auth_session_moves graph_login.get_auth_session_moves
  graph_login.begin_auth_moves graph_login.complete_auth_moves graph_tokens.mint_authn_moves
  graph_tokens.verify_authn_moves graph_tokens.exchange_authz_moves graph_tokens.manual_mint_authz_moves
  permission_moves resource_service_moves

lemma serve_step: "world_step w (serve g rq w)"
  by (cases rq) (simp_all add: service_moves [unfolded moves_def, THEN spec])

end
