(* ===== verification/Server_Flows.thy ===== *)
theory Server_Flows
  imports Sqlite_Ports
begin

text \<open>
  What the running server guarantees, services, policy, signer and store together, for any
  interleaving with the writes of other requests: every request moves the database along the steps
  of the store and keeps its invariant; a device code and a session code deliver at most one
  token; an authorization token names only repositories its user could write to while it was
  issued, and is on record; and an approved device gets its token.
\<close>

section \<open>Runs of requests\<close>

lemma world_step_trans: "world_step w1 w2 \<Longrightarrow> world_step w2 w3 \<Longrightarrow> world_step w1 w3"
  by (rule world.trans)

lemma world_step_steps: "world_step w w' \<Longrightarrow> others_ok w \<Longrightarrow> db_step\<^sup>*\<^sup>* (w_db w) (w_db w') \<and> others_ok w'"
  by (simp add: world_step_def others_ok_def)

lemma world_step_inv: "world_step w w' \<Longrightarrow> others_ok w \<Longrightarrow> db_inv (w_db w) \<Longrightarrow> db_inv (w_db w')"
  by (blast dest: world_step_steps intro: reachable_inv)

lemma run_step: "world_step w (fold (serve g) rqs w)"
proof (induction rqs arbitrary: w)
  case (Cons rq rqs)
  have "world_step (serve g rq w) (fold (serve g) rqs (serve g rq w))" by (rule Cons.IH)
  then show ?case by (simp add: world_step_trans [OF serve_step])
qed (simp add: world.refl)

lemma db_read_iff:
  "db_read f w = (r, w') \<longleftrightarrow> w' = next_call w \<and> r = f (w_times w' (w_call w')) (w_db w')"
  by (auto simp: db_read_def Let_def)

lemma db_write_Inr:
  "db_write f w = (Inr a, w') \<longleftrightarrow> (\<exists>v db. v = next_call w \<and> f (w_times v (w_call v)) (w_ids v (w_call v)) (w_db v) = Inr (a, db) \<and>
     w' = v\<lparr>w_db := db\<rparr>)"
  by (auto simp: db_write_def Let_def split: sum.splits)

text \<open>The services refine the store: whatever requests the server answers, in whatever order, with
  whatever writes of other requests between any two calls, its database moves along the steps of the
  store, so that every state it passes through satisfies the constraints of the schema, has acyclic
  nesting and valid grants.\<close>

lemma requests_refine_store:
  assumes "others_ok w" "db_inv (w_db w)"
  shows "db_step\<^sup>*\<^sup>* (w_db w) (w_db (fold (serve g) rqs w)) \<and> db_inv (w_db (fold (serve g) rqs w)) \<and>
    others_ok (fold (serve g) rqs w)"
  using world_step_steps [OF run_step assms(1)] world_step_inv [OF run_step assms] by blast

section \<open>Codes stay with their rows\<close>

definition same_codes :: "Db \<Rightarrow> Db \<Rightarrow> bool" where
  "same_codes db db' \<longleftrightarrow>
     (\<lambda>r. (dr_id r, dr_device_code_hash r)) ` set (t_device_authorizations db) \<subseteq>
       (\<lambda>r. (dr_id r, dr_device_code_hash r)) ` set (t_device_authorizations db') \<and>
     (\<lambda>r. (sr_id r, sr_session_code_hash r)) ` set (t_auth_sessions db) \<subseteq>
       (\<lambda>r. (sr_id r, sr_session_code_hash r)) ` set (t_auth_sessions db')"

lemma flow_same_codes: "flow_same db db' \<Longrightarrow> same_codes db db'"
  by (simp add: flow_same_def same_codes_def)

lemma state_codes:
  "create_auth_session sha c now i n cs ttl db = Inr (y, db') \<Longrightarrow> same_codes db db'"
  "complete_auth_session now i u db = Inr ((), db') \<Longrightarrow> same_codes db db'"
  "consume_auth_session now i db = Inr ((), db') \<Longrightarrow> same_codes db db'"
  "create_login_state sha s now i inp ttl db = Inr (z, db') \<Longrightarrow> same_codes db db'"
  "set_login_state_private_state sha now s p db = Inr ((), db') \<Longrightarrow> same_codes db db'"
  "consume_login_state sha n1 n2 n3 s db = Inr (ls, db') \<Longrightarrow> same_codes db db'"
  "create_csrf_token sha t now s ttl db = Inr (tok, db') \<Longrightarrow> same_codes db db'"
  "consume_csrf_token sha n1 n2 s t db = Inr ((), db') \<Longrightarrow> same_codes db db'"
  "create_browser_session now s u ttl db = Inr (bs, db') \<Longrightarrow> same_codes db db'"
  "revoke_browser_session now s db = Inr ((), db') \<Longrightarrow> same_codes db db'"
  by (auto simp: create_auth_session_def complete_auth_session_def consume_auth_session_def
      create_login_state_def set_login_state_private_state_def consume_login_state_def
      create_csrf_token_def consume_csrf_token_def create_browser_session_def revoke_browser_session_def
      Let_def res_simps same_codes_def insert_row_Inr
      dest!: update_rows_image [where g = "\<lambda>r. (sr_id r, sr_session_code_hash r)"] split: if_splits)

lemma device_codes_kept:
  "create_device_authorization sha now i dinp db = Inr (d, db') \<Longrightarrow> same_codes db db'"
  "approve_device_authorization now i u db = Inr ((), db') \<Longrightarrow> same_codes db db'"
  "consume_device_authorization now i db = Inr ((), db') \<Longrightarrow> same_codes db db'"
  "expire_device_authorization i db = Inr ((), db') \<Longrightarrow> same_codes db db'"
  by (auto simp: create_device_authorization_def Store_create_device_authorization_def
      approve_device_authorization_def consume_device_authorization_def expire_device_authorization_def
      Let_def res_simps same_codes_def insert_row_Inr
      dest!: update_rows_image [where g = "\<lambda>r. (dr_id r, dr_device_code_hash r)"] split: if_splits)

lemma step_codes: "db_step db db' \<Longrightarrow> same_codes db db'"
  by (induction rule: db_step.induct)
    ((erule state_codes | erule device_codes_kept | rule flow_same_codes, erule flow_steps)+)

lemma same_codes_trans: "same_codes db1 db2 \<Longrightarrow> same_codes db2 db3 \<Longrightarrow> same_codes db1 db3"
  unfolding same_codes_def by (meson subset_trans)

lemma steps_codes: "db_step\<^sup>*\<^sup>* db db' \<Longrightarrow> same_codes db db'"
  by (induction rule: rtranclp_induct) (auto simp: same_codes_def [of db db] intro: same_codes_trans step_codes)

section \<open>A device code delivers one token\<close>

definition device_code_spent :: "string \<Rightarrow> Db \<Rightarrow> bool" where
  "device_code_spent h db \<longleftrightarrow> (\<exists>r \<in> set (t_device_authorizations db). dr_device_code_hash r = h \<and> dr_status r = ''consumed'')"

lemma device_code_spent_later:
  "db_step\<^sup>*\<^sup>* db db' \<Longrightarrow> device_code_spent h db \<Longrightarrow> device_code_spent h db'"
  using steps_keep_spent unfolding device_code_spent_def keeps_spent_def by blast

lemma device_code_consumed:
  assumes "db_inv db" "r \<in> set (t_device_authorizations db)" "db_step\<^sup>*\<^sup>* db db1"
    "consume_device_authorization now (dr_id r) db1 = Inr ((), db2)"
  shows "device_code_spent (dr_device_code_hash r) db2"
proof -
  have steps: "db_step\<^sup>*\<^sup>* db db2" using assms(3,4) by (auto intro: rtranclp.rtrancl_into_rtrancl db_step.consume_device)
  have inv: "db_inv db1" "db_inv db2" using assms(1,3) steps by (auto intro: reachable_inv)
  have "device_spent (dr_id r) db2"
    using assms(4) by (intro device_codes.use_spends [OF inv(1)]) (auto simp: uses_device_def)
  then obtain x where x: "x \<in> set (t_device_authorizations db2)" "dr_id x = dr_id r" "dr_status x = ''consumed''"
    by (auto simp: device_spent_def)
  from steps_codes [OF steps] assms(2) obtain y where
    y: "y \<in> set (t_device_authorizations db2)" "dr_id y = dr_id r" "dr_device_code_hash y = dr_device_code_hash r"
    by (auto simp: same_codes_def)
  have "x = y" using devices_id.same_row [OF db_inv_schema [OF inv(2)] x(1) y(1)] x(2) y(2) by simp
  with x y show ?thesis by (auto simp: device_code_spent_def)
qed

lemma device_by_device_code_iff:
  assumes "schema_ok db"
  shows "device_by_device_code sha db c = Inr d \<longleftrightarrow> (\<exists>r \<in> set (t_device_authorizations db).
    dr_device_code_hash r = hash_code sha c \<and> d = device_to_core (device_from_row r))"
proof -
  have "find (\<lambda>r. dr_device_code_hash r = hash_code sha c) (t_device_authorizations db) = Some r \<longleftrightarrow>
      r \<in> set (t_device_authorizations db) \<and> dr_device_code_hash r = hash_code sha c" for r
    by (rule devices_code.find_iff [OF assms]) auto
  then show ?thesis by (auto simp: device_by_device_code_def device_by_device_code_hash_def res_simps)
qed

lemma poll_spent:
  assumes "others_ok w" "db_inv (w_db w)" "device_code_spent (hash_code (st_sha g) c) (w_db w)"
  shows "fst (device_token (graph_device g) c w) = Inr (TokenResult_default\<lparr>tok_status := ''consumed''\<rparr>)"
proof -
  let ?v = "next_call w"
  have "world_step w ?v" by (rule next_call_step)
  with assms have steps: "db_step\<^sup>*\<^sup>* (w_db w) (w_db ?v)" by (blast dest: world_step_steps)
  then have ok: "schema_ok (w_db ?v)" using assms(2) by (blast intro: db_inv_schema reachable_inv)
  from device_code_spent_later [OF steps assms(3)] obtain r where
    r: "r \<in> set (t_device_authorizations (w_db ?v))" "dr_device_code_hash r = hash_code (st_sha g) c" "dr_status r = ''consumed''"
    by (auto simp: device_code_spent_def)
  then have "device_by_device_code (st_sha g) (w_db ?v) c = Inr (device_to_core (device_from_row r))"
    by (auto simp: device_by_device_code_iff [OF ok])
  then have "ds_by_device_code (dv_devices (graph_device g)) c w = (Inr (device_to_core (device_from_row r)), ?v)"
    by (simp add: graph_device_def sqlite_devices_def db_read_iff)
  moreover have "da_status (device_to_core (device_from_row r)) = ''consumed''"
    using r(3) by (simp add: device_to_core_def device_from_row_def)
  ultimately show ?thesis
    by (simp add: device_token_def service_device_by_device_code_def map_err_op_def bind_op_def now_op_def
        graph_device_def world_clock_def return_op_def)
qed

text \<open>C4: A device code delivers at most one token: once a poll has delivered a token, every later poll
  with that code, in any spelling that normalises to it, after any further requests and whatever
  other requests write in between, reports the authorization as consumed and delivers nothing.\<close>

theorem device_code_delivers_once:
  assumes "others_ok w" "db_inv (w_db w)"
    and "device_token (graph_device g) code w = (Inr res, w1)" "tok_token_type res \<noteq> []"
    and "to_ascii_uppercase (trim code') = to_ascii_uppercase (trim code)"
  shows "fst (device_token (graph_device g) code' (fold (serve g) rqs w1)) =
    Inr (TokenResult_default\<lparr>tok_status := ''consumed''\<rparr>)"
proof -
  from graph_device.device_token_delivers [OF assms(3,4)] obtain device t t1 t2 t3 t4 where
    1: "ds_by_device_code (dv_devices (graph_device g)) code w = (Inr device, t)"
    "ds_consume (dv_devices (graph_device g)) (da_id device) t3 = (Inr (), t4)" and
    ws: "world_step w t" "world_step t t1" "world_step t1 t2" "world_step t2 t3" "world_step t4 w1"
    by metis
  let ?v = "next_call t3"
  have "world_step t ?v" using ws next_call_step by (blast intro: world_step_trans)
  moreover have t: "others_ok t" "db_inv (w_db t)" using ws(1) assms(1,2) by (auto dest: world_step_steps world_step_inv)
  ultimately have tv: "db_step\<^sup>*\<^sup>* (w_db t) (w_db ?v)" "others_ok ?v" by (auto dest: world_step_steps)
  from 1(1) have "device_by_device_code (st_sha g) (w_db t) code = Inr device"
    by (simp add: graph_device_def sqlite_devices_def db_read_iff)
  then obtain r where r: "r \<in> set (t_device_authorizations (w_db t))" "dr_device_code_hash r = hash_code (st_sha g) code"
    "da_id device = dr_id r"
    by (auto simp: device_by_device_code_iff [OF db_inv_schema [OF t(2)]] device_to_core_def device_from_row_def)
  from 1(2) obtain now db where c: "consume_device_authorization now (dr_id r) (w_db ?v) = Inr ((), db)" and
    t4: "t4 = ?v\<lparr>w_db := db\<rparr>"
    by (auto simp: graph_device_def sqlite_devices_def db_write_Inr r(3))
  have "device_code_spent (hash_code (st_sha g) code) (w_db t4)"
    using device_code_consumed [OF t(2) r(1) tv(1) c] by (simp add: t4 r(2))
  moreover have "db_inv (w_db ?v)" using t(2) tv(1) by (blast intro: reachable_inv)
  then have "db_inv (w_db t4)" using step_inv [OF db_step.consume_device [OF c]] by (simp add: t4)
  moreover have "others_ok t4" using tv(2) by (simp add: t4 others_ok_def)
  moreover have "world_step t4 (fold (serve g) rqs w1)" using ws(5) run_step by (rule world_step_trans)
  ultimately show ?thesis
    using assms(5) by (intro poll_spent) (auto simp: hash_code_def dest: world_step_steps world_step_inv
        intro: device_code_spent_later)
qed

section \<open>A session code delivers one token\<close>

definition session_code_spent :: "string \<Rightarrow> Db \<Rightarrow> bool" where
  "session_code_spent h db \<longleftrightarrow> (\<exists>r \<in> set (t_auth_sessions db). sr_session_code_hash r = h \<and> sr_status r = ''consumed'')"

lemma session_code_spent_later:
  "db_step\<^sup>*\<^sup>* db db' \<Longrightarrow> session_code_spent h db \<Longrightarrow> session_code_spent h db'"
  using steps_keep_spent unfolding session_code_spent_def keeps_spent_def by blast

lemma session_code_consumed:
  assumes "db_inv db" "r \<in> set (t_auth_sessions db)" "db_step\<^sup>*\<^sup>* db db1"
    "consume_auth_session now (sr_id r) db1 = Inr ((), db2)"
  shows "session_code_spent (sr_session_code_hash r) db2"
proof -
  have steps: "db_step\<^sup>*\<^sup>* db db2" using assms(3,4) by (auto intro: rtranclp.rtrancl_into_rtrancl db_step.consume)
  have inv: "db_inv db1" "db_inv db2" using assms(1,3) steps by (auto intro: reachable_inv)
  have "auth_session_spent (sr_id r) db2"
    using assms(4) by (intro auth_sessions.use_spends [OF inv(1)]) (auto simp: uses_auth_session_def)
  then obtain x where x: "x \<in> set (t_auth_sessions db2)" "sr_id x = sr_id r" "sr_status x = ''consumed''"
    by (auto simp: auth_session_spent_def)
  from steps_codes [OF steps] assms(2) obtain y where
    y: "y \<in> set (t_auth_sessions db2)" "sr_id y = sr_id r" "sr_session_code_hash y = sr_session_code_hash r"
    by (auto simp: same_codes_def)
  have "x = y" using auth_sessions_id.same_row [OF db_inv_schema [OF inv(2)] x(1) y(1)] x(2) y(2) by simp
  with x y show ?thesis by (auto simp: session_code_spent_def)
qed

lemma get_auth_session_by_code_Inr:
  assumes "get_auth_session_by_code sha now db c = Inr session"
  obtains r where "r \<in> set (t_auth_sessions db)" "sr_session_code_hash r = hash_secret sha c"
    "session = auth_session_from_row r"
  using assms that
  by (auto simp: get_auth_session_by_code_def auth_session_by_clause_def res_simps dest!: find_SomeD split: if_splits)

lemma session_poll_spent:
  assumes "others_ok w" "db_inv (w_db w)" "session_code_spent (hash_secret (st_sha g) c) (w_db w)"
    and "get_auth_session (graph_login g) c cs w = (Inr res, w')"
  shows "\<not> at_ready res"
proof
  assume "at_ready res"
  from graph_login.get_auth_session_ready [OF assms(4) this] obtain session t where
    1: "ss_get_auth_session_by_code (lg_state (graph_login g)) c w = (Inr session, t)" "as_status session = ''completed''"
    "world_step w t"
    by metis
  from 1(1) have "get_auth_session_by_code (st_sha g) (w_times t (w_call t) 0) (w_db t) c = Inr session"
    by (simp add: graph_login_def sqlite_state_def db_read_iff)
  then obtain r where r: "r \<in> set (t_auth_sessions (w_db t))" "sr_session_code_hash r = hash_secret (st_sha g) c"
    "session = auth_session_from_row r" by (rule get_auth_session_by_code_Inr)
  have "session_code_spent (hash_secret (st_sha g) c) (w_db t)" "db_inv (w_db t)"
    using 1(3) assms by (auto dest: world_step_steps world_step_inv intro: session_code_spent_later)
  then obtain x where x: "x \<in> set (t_auth_sessions (w_db t))" "sr_session_code_hash x = hash_secret (st_sha g) c"
    "sr_status x = ''consumed''" and ok: "schema_ok (w_db t)"
    by (auto simp: session_code_spent_def db_inv_schema)
  have "r = x" using auth_sessions_code.same_row [OF ok r(1) x(1)] r(2) x(2) by simp
  with 1(2) r(3) x(3) show False by (simp add: auth_session_from_row_def)
qed

text \<open>C9: A session code delivers at most one token to the command-line client: once a poll was ready,
  no later poll with that code is ready, with any client state, after any further requests and
  whatever other requests write in between.\<close>

theorem session_code_ready_once:
  assumes "others_ok w" "db_inv (w_db w)"
    and "get_auth_session (graph_login g) code cs w = (Inr res, w1)" "at_ready res"
  shows "\<not> (\<exists>res'. fst (get_auth_session (graph_login g) code cs' (fold (serve g) rqs w1)) = Inr res' \<and> at_ready res')"
proof -
  from graph_login.get_auth_session_ready [OF assms(3,4)] obtain session t t1 t2 where
    1: "ss_get_auth_session_by_code (lg_state (graph_login g)) code w = (Inr session, t)"
    "ss_consume_auth_session (lg_state (graph_login g)) (as_id session) t2 = (Inr (), w1)" and
    ws: "world_step w t" "world_step t t1" "world_step t1 t2"
    by metis
  let ?v = "next_call t2"
  have "world_step t ?v" using ws next_call_step by (blast intro: world_step_trans)
  moreover have t: "others_ok t" "db_inv (w_db t)" using ws(1) assms(1,2) by (auto dest: world_step_steps world_step_inv)
  ultimately have tv: "db_step\<^sup>*\<^sup>* (w_db t) (w_db ?v)" "others_ok ?v" by (auto dest: world_step_steps)
  from 1(1) have "get_auth_session_by_code (st_sha g) (w_times t (w_call t) 0) (w_db t) code = Inr session"
    by (simp add: graph_login_def sqlite_state_def db_read_iff)
  then obtain r where r: "r \<in> set (t_auth_sessions (w_db t))" "sr_session_code_hash r = hash_secret (st_sha g) code"
    "session = auth_session_from_row r" by (rule get_auth_session_by_code_Inr)
  from 1(2) obtain now db where c: "consume_auth_session now (sr_id r) (w_db ?v) = Inr ((), db)" and
    w1: "w1 = ?v\<lparr>w_db := db\<rparr>"
    by (auto simp: graph_login_def sqlite_state_def db_write_Inr r(3) auth_session_from_row_def)
  have "session_code_spent (hash_secret (st_sha g) code) (w_db w1)"
    using session_code_consumed [OF t(2) r(1) tv(1) c] by (simp add: w1 r(2))
  moreover have "db_inv (w_db ?v)" using t(2) tv(1) by (blast intro: reachable_inv)
  then have "db_inv (w_db w1)" using step_inv [OF db_step.consume [OF c]] by (simp add: w1)
  moreover have "others_ok w1" using tv(2) by (simp add: w1 others_ok_def)
  ultimately show ?thesis
    using run_step [of w1 g rqs] session_poll_spent [of "fold (serve g) rqs w1" g code cs']
    by (metis prod.collapse session_code_spent_later world_step_inv world_step_steps)
qed

section \<open>Authorization tokens\<close>

lemma sign_authz_Inr:
  assumes "jwt_ok jwt" "sign_authz jwt signer fresh now input = Inr signed"
  shows "\<exists>claims. jw_decode jwt (st_token signed) = Inr claims \<and> cl_subject claims = az_subject input \<and>
    cl_issuer claims = az_issuer input \<and> cl_audience claims = az_audience input \<and> cl_jti claims = st_jti signed \<and>
    cl_resources claims = map model_resource_to_claim_resource (az_resources input)"
proof -
  from assms(2) obtain claims token where
    1: "new_authz_claims now
         \<lparr>zo_issuer = az_issuer input, zo_audience = az_audience input, zo_subject = az_subject input,
          zo_env = [], zo_name = az_name input, zo_preferred_username = az_preferred_username input,
          zo_groups = az_groups input, zo_idp = az_idp input, zo_is_service_account = False,
          zo_resources = map model_resource_to_claim_resource (az_resources input),
          zo_ttl = az_ttl input, zo_now = az_now input, zo_jti = ensure_jti fresh (az_jti input)\<rparr> = Inr claims"
    "sign_lore_claims jwt (sg_key signer) claims = Inr token" "st_token signed = token" "st_jti signed = cl_jti claims"
    by (auto simp: sign_authz_def Let_def res_simps split: list.splits)
  from 1(1) have "cl_subject claims = az_subject input \<and> cl_issuer claims = az_issuer input \<and>
      cl_audience claims = az_audience input \<and>
      cl_resources claims = map model_resource_to_claim_resource (az_resources input)"
    by (auto simp: new_authz_claims_def Let_def res_simps dest: new_authn_claims_Inr split: if_splits)
  with signed_claims_decode [OF assms(1) 1(2)] 1(3,4) show ?thesis by auto
qed

text \<open>A user could write to a resource: the repository was active and a grant that reached the user
  allowed writing.\<close>

definition could_write :: "Db \<Rightarrow> string \<Rightarrow> string \<Rightarrow> bool" where
  "could_write db u rid \<longleftrightarrow> active_repository db (repository_id_from_resource_id rid) \<and>
     (\<exists>role. granted db u rid role \<and> (role_allows role ''write'' \<or> role = ''admin''))"

lemma write_check_passed:
  assumes "resolver_ok (st_resolve g)"
    and "ap_can_access (tk_authz (graph_tokens g)) u rid ''write'' w = (Inr True, w')"
  shows "could_write (w_db w') u rid"
proof -
  from assms(2) have "can_access (st_resolve g) (w_db w') u rid ''write'' = Inr True"
    by (simp add: graph_tokens_def rebac_policy_def db_read_iff)
  with can_access_answer [OF assms(1) this] can_access_missing show ?thesis
    by (force simp: could_write_def)
qed

lemma checked_could_write:
  assumes "resolver_ok (st_resolve g)" "others_ok w" "checked_resources (graph_tokens g) u rids w = (Inr ps, w')"
    and "p \<in> set ps"
  shows "\<exists>db. db_step\<^sup>*\<^sup>* (w_db w) db \<and> db_step\<^sup>*\<^sup>* db (w_db w') \<and> could_write db u (rp_resource_id p)"
proof -
  from graph_tokens.checked_resources_Inr [OF assms(3)] assms(4) obtain rid t resource t1 t2 where
    1: "world_step w t" "world_step t2 w'"
    "rs_get_by_resource_id (tk_resources (graph_tokens g)) rid t = (Inr resource, t1)"
    "ap_can_access (tk_authz (graph_tokens g)) u (r_resource_id resource) ''write'' t1 = (Inr True, t2)"
    "p = \<lparr>rp_resource_id = r_resource_id resource, rp_permission = [Read, Write]\<rparr>"
    by (fastforce simp: list_all2_conv_all_nth in_set_conv_nth)
  have "world_step t t1" "world_step t1 t2"
    using 1(3,4) by (auto intro: world.moves_run [OF graph_tokens.resource_moves] world.moves_run [OF graph_tokens.access_moves])
  with 1(1) have "world_step w t2" by (blast intro: world_step_trans)
  with 1(2) assms(2) have "db_step\<^sup>*\<^sup>* (w_db w) (w_db t2)" "db_step\<^sup>*\<^sup>* (w_db t2) (w_db w')"
    by (auto dest: world_step_steps)
  with write_check_passed [OF assms(1) 1(4)] 1(5) show ?thesis by auto
qed

lemma checked_length: "checked_resources (graph_tokens g) u rids w = (Inr ps, w') \<Longrightarrow> length ps = length rids"
  by (drule graph_tokens.checked_resources_Inr, drule list_all2_lengthD, simp)

lemma exchange_justified:
  assumes "jwt_ok (st_jwt g)" "resolver_ok (st_resolve g)" "others_ok w"
    and "exchange_authz (graph_tokens g) authn rids ttl w = (Inr signed, w')"
  shows "\<exists>claims. jw_decode (st_jwt g) (st_token signed) = Inr claims \<and>
      cl_subject claims = tp_token_subject (va_principal authn) \<and>
      cl_issuer claims = tc_issuer (st_token_cfg g) \<and> cl_audience claims = tc_audience (st_token_cfg g) \<and>
      length (cl_resources claims) = length rids \<and>
      (\<forall>res \<in> set (cl_resources claims). \<exists>db. db_step\<^sup>*\<^sup>* (w_db w) db \<and> db_step\<^sup>*\<^sup>* db (w_db w') \<and>
         could_write db (tp_user_id (va_principal authn)) (lp_resource_id res)) \<and>
      (\<exists>row \<in> set (t_issued_tokens (w_db w')). kr_jti row = cl_jti claims \<and> kr_token_kind row = ''authz'' \<and>
         kr_user_id row = none_if_empty (tp_user_id (va_principal authn)) \<and> kr_revoked_at row = None)"
proof -
  let ?p = "va_principal authn" and ?svc = "graph_tokens g"
  from assms(4) obtain ps t input t1 where
    1: "checked_resources ?svc (tp_user_id ?p) rids w = (Inr ps, t)"
    "ts_sign_authz (tk_signer ?svc) input t = (Inr signed, t1)"
    "token_record ?svc signed (tp_user_id ?p) ''authz'' ''authz'' t1 = (Inr (), w')" and
    input: "az_resources input = ps" "az_subject input = tp_token_subject ?p"
    "az_issuer input = tc_issuer (st_token_cfg g)" "az_audience input = tc_audience (st_token_cfg g)"
    by (auto simp: exchange_authz_def Let_def res_simps graph_tokens_def split: if_splits)
  have "world_step t t1" "world_step t1 w'"
    using 1(2,3) by (auto intro: world.moves_run [OF graph_tokens.sign_authz_moves] world.moves_run [OF graph_tokens.token_record_moves])
  moreover have "world_step w t" using 1(1) by (rule world.moves_run [OF graph_tokens.checked_resources_moves])
  ultimately have later: "db_step\<^sup>*\<^sup>* (w_db t) (w_db w')"
    using assms(3) by (blast dest: world_step_steps intro: rtranclp_trans)
  from 1(2) obtain fresh now where "sign_authz (st_jwt g) (st_signer g) fresh now input = Inr signed"
    by (auto simp: graph_tokens_def rs256_signer_def outside_def Let_def)
  from sign_authz_Inr [OF assms(1) this] obtain claims where
    claims: "jw_decode (st_jwt g) (st_token signed) = Inr claims" "cl_subject claims = az_subject input"
    "cl_issuer claims = az_issuer input" "cl_audience claims = az_audience input" "cl_jti claims = st_jti signed"
    "cl_resources claims = map model_resource_to_claim_resource ps"
    by (auto simp: input(1))
  have "\<exists>db. db_step\<^sup>*\<^sup>* (w_db w) db \<and> db_step\<^sup>*\<^sup>* db (w_db w') \<and> could_write db (tp_user_id ?p) (lp_resource_id res)"
    if "res \<in> set (cl_resources claims)" for res
    using that checked_could_write [OF assms(2,3) 1(1)] later
    by (force simp: claims(6) model_resource_to_claim_resource_def intro: rtranclp_trans)
  moreover have "\<exists>row \<in> set (t_issued_tokens (w_db w')). kr_jti row = st_jti signed \<and> kr_token_kind row = ''authz'' \<and>
      kr_user_id row = none_if_empty (tp_user_id ?p) \<and> kr_revoked_at row = None"
    using 1(3) by (auto simp: graph_tokens_def token_record_def res_simps sqlite_log_def db_write_Inr record_token_def
        insert_row_Inr)
  ultimately show ?thesis using claims input checked_length [OF 1(1)] by auto
qed


section \<open>An approved device is served\<close>

text \<open>A world without other requests, in which the clock is in range and the random values are new.\<close>

definition quiet :: "Setup \<Rightarrow> World \<Rightarrow> bool" where
  "quiet g w \<longleftrightarrow> w_others w = (\<lambda>_ db. db) \<and>
     (\<forall>n. 0 \<le> w_nanos w n \<and>
        (w_nanos w n + int (default_ttl (tc_authz_ttl (st_token_cfg g)))) div int nanos_per_sec \<le> i64_max) \<and>
     (\<forall>n k. w_ids w n k \<notin> kr_jti ` set (t_issued_tokens (w_db w)))"

text \<open>The JWT code signs, and the server is configured.\<close>

definition signs_all :: "Setup \<Rightarrow> bool" where
  "signs_all g \<longleftrightarrow> (\<forall>hd. \<exists>h. jw_encode_header (st_jwt g) hd = Inr h) \<and>
     (\<forall>claims. \<exists>c. jw_encode_claims (st_jwt g) claims = Inr c) \<and> (\<forall>i. \<exists>sig. jw_sign (st_jwt g) i = Inr sig) \<and>
     tc_issuer (st_token_cfg g) \<noteq> [] \<and> tc_audience (st_token_cfg g) \<noteq> []"

abbreviation tick :: "World \<Rightarrow> World" where
  "tick w \<equiv> w\<lparr>w_call := Suc (w_call w)\<rparr>"

lemma quiet_tick [simp]: "quiet g (w\<lparr>w_call := n\<rparr>) = quiet g w"
  by (simp add: quiet_def)

lemma quiet_next [simp]: "quiet g w \<Longrightarrow> next_call w = tick w"
  by (simp add: quiet_def next_call_def)

lemma quiet_read: "quiet g w \<Longrightarrow> db_read f w = (f (w_times w (Suc (w_call w))) (w_db w), tick w)"
  by (simp add: db_read_def Let_def)

lemma unix_seconds_ok: "0 \<le> t \<Longrightarrow> t div int nanos_per_sec \<le> i64_max \<Longrightarrow> unix_seconds t = Inr (t div int nanos_per_sec)"
  by (simp add: unix_seconds_Inr)

lemma sign_lore_claims_total:
  assumes "signs_all g"
  shows "\<exists>token. sign_lore_claims (st_jwt g) key claims = Inr token"
proof -
  from assms obtain h c where hc:
    "jw_encode_header (st_jwt g) \<lparr>jh_alg = key_alg key, jh_typ = ''JWT'', jh_kid = key_kid key\<rparr> = Inr h"
    "jw_encode_claims (st_jwt g) claims = Inr c" unfolding signs_all_def by blast
  obtain sig where "jw_sign (st_jwt g) (h @ ''.'' @ c) = Inr sig" using assms unfolding signs_all_def by blast
  with hc show ?thesis by (simp add: sign_lore_claims_def)
qed

lemma authz_claims_total:
  assumes "0 \<le> now" "(now + int (default_ttl (zo_ttl opts))) div int nanos_per_sec \<le> i64_max"
    "zo_issuer opts \<noteq> []" "zo_audience opts \<noteq> []" "zo_subject opts \<noteq> []" "zo_idp opts \<noteq> []" "zo_resources opts \<noteq> []"
    "zo_now opts = None"
  shows "\<exists>claims. new_authz_claims now opts = Inr claims \<and> cl_jti claims = zo_jti opts"
proof -
  have "now div int nanos_per_sec \<le> (now + int (default_ttl (zo_ttl opts))) div int nanos_per_sec"
    by (rule zdiv_mono1) (simp_all add: nanos_per_sec_def)
  with assms(1,2) have "unix_seconds now = Inr (now div int nanos_per_sec)"
    "unix_seconds (now + int (default_ttl (zo_ttl opts))) = Inr ((now + int (default_ttl (zo_ttl opts))) div int nanos_per_sec)"
    by (simp_all add: unix_seconds_ok)
  with assms(3-) show ?thesis
    by (simp add: new_authz_claims_def new_authn_claims_def default_now_def Let_def)
qed

lemma quiet_sign:
  assumes "quiet g w" "signs_all g" "az_issuer input = tc_issuer (st_token_cfg g)"
    "az_audience input = tc_audience (st_token_cfg g)" "az_subject input \<noteq> []" "az_idp input \<noteq> []" "az_resources input \<noteq> []"
    "az_ttl input = tc_authz_ttl (st_token_cfg g)" "az_now input = None" "az_jti input = []"
  shows "\<exists>signed. ts_sign_authz (rs256_signer (st_jwt g) (st_signer g)) input w = (Inr signed, tick w) \<and>
    st_jti signed = w_ids w (Suc (w_call w)) 0"
proof -
  let ?opts = "\<lparr>zo_issuer = az_issuer input, zo_audience = az_audience input, zo_subject = az_subject input,
     zo_env = [], zo_name = az_name input, zo_preferred_username = az_preferred_username input,
     zo_groups = az_groups input, zo_idp = az_idp input, zo_is_service_account = False,
     zo_resources = map model_resource_to_claim_resource (az_resources input),
     zo_ttl = az_ttl input, zo_now = az_now input, zo_jti = ensure_jti (w_ids w (Suc (w_call w)) 0) (az_jti input)\<rparr>"
  have "\<exists>claims. new_authz_claims (w_nanos w (Suc (w_call w))) ?opts = Inr claims \<and> cl_jti claims = zo_jti ?opts"
    by (rule authz_claims_total) (use assms in \<open>simp_all add: quiet_def signs_all_def\<close>)
  then obtain claims where c: "new_authz_claims (w_nanos w (Suc (w_call w))) ?opts = Inr claims"
    "cl_jti claims = w_ids w (Suc (w_call w)) 0"
    using assms(10) by (auto simp: ensure_jti_def)
  obtain token where "sign_lore_claims (st_jwt g) (sg_key (st_signer g)) claims = Inr token"
    using sign_lore_claims_total [OF assms(2)] by blast
  with c show ?thesis
    by (cases "az_resources input") (simp_all add: rs256_signer_def outside_def Let_def sign_authz_def)
qed

text \<open>What the database must hold for a user to be served on a repository.\<close>

definition serves :: "Db \<Rightarrow> string \<Rightarrow> repositories_row \<Rightarrow> bool" where
  "serves db u rr \<longleftrightarrow> db_inv db \<and> plain_repository_ids db \<and> u \<noteq> [] \<and> trim u = u \<and>
     (\<exists>r \<in> set (t_users db). ur_id r = u \<and> ur_status r = ''active'') \<and>
     rr \<in> set (t_repositories db) \<and> rr_status rr = ''active'' \<and> rr_id rr \<noteq> [] \<and>
     could_write db u (r_resource_id (resource_from_row rr))"

lemma serves_access:
  assumes "serves db u rr" "resolver_ok resolve" "resolver_answers resolve"
  shows "can_access resolve db u (r_resource_id (resource_from_row rr)) ''write'' = Inr True"
proof -
  have h: "could_write db u (r_resource_id (resource_from_row rr))" "grants_ok db"
    using assms(1) by (auto simp: serves_def db_inv_def)
  then obtain b where b: "can_access resolve db u (r_resource_id (resource_from_row rr)) ''write'' = Inr b"
    using can_access_answers [OF _ _ assms(3)] unfolding could_write_def by blast
  with can_access_answer [OF assms(2) b] h(1) show ?thesis by (auto simp: could_write_def)
qed

lemma serves_lookup:
  assumes "serves db u rr"
  shows "get_by_id db (rr_id rr) = Inr (resource_from_row rr)"
    and "get_by_name db (rr_name rr) = Inr (resource_from_row rr)"
    and "get_by_resource_id db (r_resource_id (resource_from_row rr)) = Inr (resource_from_row rr)"
proof -
  have ok: "schema_ok db" and rr: "rr \<in> set (t_repositories db)" "rr_status rr = ''active''" and plain: "plain_repository_ids db"
    using assms by (auto simp: serves_def db_inv_schema)
  have "find (\<lambda>r. rr_id r = rr_id rr \<and> rr_status r = ''active'') (t_repositories db) = Some rr"
    "find (\<lambda>r. rr_name r = rr_name rr \<and> rr_status r = ''active'') (t_repositories db) = Some rr"
    by (subst repositories_id.find_iff [OF ok] repositories_name.find_iff [OF ok]; use rr in auto)+
  then show "get_by_id db (rr_id rr) = Inr (resource_from_row rr)" "get_by_name db (rr_name rr) = Inr (resource_from_row rr)"
    by (simp_all add: get_by_id_def get_by_name_def)
  have "r_resource_id (resource_from_row rr) = urc_prefix @ rr_lore_repository_id rr"
    using plain_resource_id [OF plain rr(1)] by simp
  with rr show "get_by_resource_id db (r_resource_id (resource_from_row rr)) = Inr (resource_from_row rr)"
    by (auto simp: get_by_resource_id_iff [OF ok])
qed

lemma serves_principal:
  assumes "serves db u rr"
  shows "\<exists>p. principal_by_user_id db u = Inr p \<and> tp_user_id p = u \<and> tp_token_subject p \<noteq> [] \<and> tp_token_idp p \<noteq> []"
proof -
  from assms obtain r where "r \<in> set (t_users db)" "ur_id r = u" "ur_status r = ''active''" "schema_ok db"
    by (auto simp: serves_def db_inv_schema)
  then have "principal_by_user_id db u =
      Inr (principal_from_user (user_from_row r) BRIDGE_PROVIDER_ID (group_names_conn db u))"
    by (auto simp: principal_by_user_id_iff)
  with \<open>ur_id r = u\<close> show ?thesis
    by (auto simp: principal_from_user_def bridge_subject_def BRIDGE_PROVIDER_ID_def)
qed

lemma quiet_record:
  assumes "quiet g w" "serves (w_db w) u rr" "st_jti signed = w_ids w n k"
  shows "\<exists>w'. token_record (graph_tokens g) signed u kind role w = (Inr (), w') \<and>
    w_others w' = (\<lambda>_ db. db) \<and> flow_same (w_db w) (w_db w') \<and> schema_ok (w_db w') \<and> w_times w' = w_times w"
proof -
  let ?tok = "\<lparr>it_jti = st_jti signed, it_kind = kind, it_user_id = u, it_repository_id = [],
     it_lore_resource_id = st_lore_resource_id signed, it_role = role, it_kid = st_kid signed,
     it_audience = st_audience signed, it_issued_at = st_issued_at signed, it_expires_at = st_expires_at signed\<rparr>"
  have "user_exists (w_db w) u" "trim u = u" "u \<noteq> []" "schema_ok (w_db w)"
    using assms(2) by (auto simp: serves_def user_exists_def db_inv_schema list_ex_iff)
  moreover have "st_jti signed \<notin> kr_jti ` set (t_issued_tokens (w_db w))"
    using assms(1,3) by (simp add: quiet_def)
  ultimately obtain db where db: "record_token (st_to_json g) ?tok (w_db w) = Inr ((), db)"
    by (auto simp: record_token_def insert_row_Inr res_simps issued_tokens_ixs_def issued_tokens_fk_def
        key_conflict_def none_if_empty_def ref_ok_def image_iff)
  from record_token_schema [OF \<open>schema_ok (w_db w)\<close> db] other_flow(2) [OF db] db assms(1) show ?thesis
    by (simp add: graph_tokens_def token_record_def sqlite_log_def map_err_op_def db_write_def quiet_def next_call_def)
qed

lemma quiet_mint:
  assumes "quiet g w" "serves (w_db w) u rr" "signs_all g" "resolver_ok (st_resolve g)" "resolver_answers (st_resolve g)"
  shows "\<exists>signed w'. manual_mint_authz (graph_tokens g) u (rr_name rr) ''writer'' None w = (Inr signed, w') \<and>
    w_others w' = (\<lambda>_ db. db) \<and> t_device_authorizations (w_db w') = t_device_authorizations (w_db w) \<and> schema_ok (w_db w')"
proof -
  let ?rid = "r_resource_id (resource_from_row rr)"
  note l = serves_lookup [OF assms(2)] serves_access [OF assms(2,4,5)]
  from serves_principal [OF assms(2)] obtain p where
    p: "principal_by_user_id (w_db w) u = Inr p" "tp_user_id p = u" "tp_token_subject p \<noteq> []" "tp_token_idp p \<noteq> []" by blast
  define w5 where "w5 = tick (tick (tick (tick (tick w))))"
  define input where "input = \<lparr>az_issuer = tc_issuer (st_token_cfg g), az_audience = tc_audience (st_token_cfg g),
     az_subject = tp_token_subject p, az_name = tp_display_name p, az_preferred_username = tp_preferred_username p,
     az_groups = tp_groups p, az_idp = tp_token_idp p,
     az_resources = [\<lparr>rp_resource_id = ?rid, rp_permission = [Read, Write]\<rparr>],
     az_ttl = tc_authz_ttl (st_token_cfg g), az_now = None, az_jti = []\<rparr>"
  have q: "quiet g w5" "w_db w5 = w_db w" using assms(1) by (simp_all add: w5_def)
  obtain signed where s: "ts_sign_authz (rs256_signer (st_jwt g) (st_signer g)) input w5 = (Inr signed, tick w5)"
    "st_jti signed = w_ids w5 (Suc (w_call w5)) 0"
    using quiet_sign [OF q(1) assms(3), of input] p by (auto simp: input_def)
  obtain w' where w': "token_record (graph_tokens g) signed u ''authz'' ''authz'' (tick w5) = (Inr (), w')"
    "w_others w' = (\<lambda>_ db. db)" "t_device_authorizations (w_db w') = t_device_authorizations (w_db w)" "schema_ok (w_db w')"
    using quiet_record [of g "tick w5" u rr signed "Suc (w_call w5)" 0 "''authz''" "''authz''"] q assms(2) s(2) by (auto simp: flow_same_def)
  have "manual_mint_authz (graph_tokens g) u (rr_name rr) ''writer'' None w = (Inr signed, w')"
    using p l s(1) w'(1) assms(1,2) unfolding manual_mint_authz_def exchange_authz_def input_def w5_def
    by (simp add: bind_op_def map_err_op_def return_op_def graph_tokens_def sqlite_accounts_def sqlite_resources_def
        rebac_policy_def quiet_read [where g = g] serves_def)
  with w' show ?thesis by blast
qed

lemma quiet_poll:
  assumes "quiet g w" "serves (w_db w) u rr" "signs_all g" "resolver_ok (st_resolve g)" "resolver_answers (st_resolve g)"
    and "r \<in> set (t_device_authorizations (w_db w))" "dr_device_code_hash r = hash_code (st_sha g) code"
    and "dr_status r = ''approved''" "dr_approved_user_id r = Some u" "dr_requested_repository_id r = Some (rr_id rr)"
  shows "\<exists>res w'. device_token (graph_device g) code w = (Inr res, w') \<and> tok_status res = ''ok'' \<and>
    tok_token_type res = ''lore'' \<and> tok_remote_url res = r_remote_url (resource_from_row rr) \<and>
    device_code_spent (hash_code (st_sha g) code) (w_db w')"
proof -
  have inv: "db_inv (w_db w)" "u \<noteq> []" "rr_id rr \<noteq> []" using assms(2) by (auto simp: serves_def)
  define d where "d = device_to_core (device_from_row r)"
  have d: "da_status d = ''approved''" "da_approved_user_id d = u" "da_requested_repository_id d = rr_id rr" "da_id d = dr_id r"
    using assms(8-10) by (simp_all add: d_def device_to_core_def device_from_row_def unwrap_or_default_def)
  have found: "device_by_device_code (st_sha g) (w_db w) code = Inr d"
    using assms(6,7) by (auto simp: device_by_device_code_iff [OF db_inv_schema [OF inv(1)]] d_def)
  define w3 where "w3 = tick (tick (tick w))"
  have q: "quiet g w3" "w_db w3 = w_db w" using assms(1) by (simp_all add: w3_def)
  obtain signed w4 where m: "manual_mint_authz (graph_tokens g) u (rr_name rr) ''writer'' None w3 = (Inr signed, w4)"
    "w_others w4 = (\<lambda>_ db. db)" "t_device_authorizations (w_db w4) = t_device_authorizations (w_db w)" "schema_ok (w_db w4)"
    using quiet_mint [of g w3 u rr] q assms(2-5) by auto
  have "device_row (w_db w4) (dr_id r) = Some r" using assms(6) m(3) by (simp add: device_row_iff [OF m(4)])
  note c = consume_eq [OF m(4) this, where now = "w_times w4 (Suc (w_call w4)) 0"]
  define f where "f = (\<lambda>x :: device_authorizations_row. if dr_id x = dr_id r \<and> dr_status x = ''approved''
    then x\<lparr>dr_status := ''consumed'', dr_consumed_at := Some (w_times w4 (Suc (w_call w4)) 0)\<rparr> else x)"
  let ?db = "(w_db w4)\<lparr>t_device_authorizations := map f (t_device_authorizations (w_db w4))\<rparr>"
  have db: "consume_device_authorization (w_times w4 (Suc (w_call w4)) 0) (dr_id r) (w_db w4) = Inr ((), ?db)"
    using c assms(8) by (simp add: f_def)
  have "f r \<in> f ` set (t_device_authorizations (w_db w4))" using assms(6) m(3) by (metis imageI)
  then have spent: "device_code_spent (hash_code (st_sha g) code) ?db"
    unfolding device_code_spent_def using assms(7,8) by (intro bexI [of _ "f r"]) (simp_all, simp_all add: f_def)
  have "r_name (resource_from_row rr) = rr_name rr" by (simp add: resource_from_row_def)
  then show ?thesis
    using serves_lookup [OF assms(2)] d found m(1,2) db spent inv assms(1) unfolding device_token_def w3_def
    by (simp add: bind_op_def map_err_op_def return_op_def service_device_by_device_code_def repository_for_device_def
        graph_device_def sqlite_devices_def sqlite_resources_def quiet_read [where g = g] now_op_def world_clock_def
        db_write_def next_call_def Let_def)
qed


section \<open>A concrete server\<close>

definition demo_served :: Db where
  "demo_served = demo_access\<lparr>
     t_device_authorizations := [demo_device\<lparr>dr_status := ''approved'', dr_approved_user_id := Some ''u1'',
       dr_requested_repository_id := Some ''r1''\<rparr>],
     t_auth_sessions := [demo_session\<lparr>sr_status := ''completed'', sr_user_id := Some ''u1''\<rparr>]\<rparr>"

lemma demo_served_facts:
  "schema_ok demo_served" "grants_ok demo_served" "plain_repository_ids demo_served"
  "active_repository demo_served (repository_id_from_resource_id ''urc-game'')"
  "r_resource_id (resource_from_row demo_repo) = ''urc-game''" "trim ''u1'' = ''u1''"
  "hash_code (\<lambda>x. x) ''dc'' = ''DC''" "hash_secret (\<lambda>x. x) ''code'' = ''code''" "hash_secret (\<lambda>x. x) ''cs'' = ''cs''"
  by code_simp+

lemma demo_served_granted: "granted demo_served u rid role \<longleftrightarrow> granted demo_access u rid role"
  by (simp add: granted_def granted_repositories_def grant_reaches_def groups_of_def parent_edges_def memberships_def
      demo_served_def)

lemma demo_served_inv: "db_inv demo_served"
  using demo_served_facts(1,2) demo_groups_edges(1)
  by (simp add: db_inv_def nesting_acyclic_def descendant_edges_def demo_served_def demo_access_def)

lemma demo_served_serves: "serves demo_served ''u1'' demo_repo"
proof -
  have "granted demo_access ''u1'' ''urc-game'' ''writer''" by (simp add: demo_granted)
  moreover have "role_allows ''writer'' ''write''" by code_simp
  ultimately show ?thesis
    unfolding serves_def could_write_def demo_served_facts(5) demo_served_granted
    using demo_served_facts demo_served_inv
    by (auto simp: demo_repo_def demo_served_def demo_access_def demo_groups_def demo_user_def)
qed

definition any_jwt :: Jwt where
  "any_jwt = \<lparr>jw_encode_header = (\<lambda>h. Inr ''h''), jw_encode_claims = (\<lambda>c. Inr ''c''), jw_sign = (\<lambda>i. Inr ''s''),
     jw_decode_header = (\<lambda>t. Inl ''no''), jw_decode = (\<lambda>t. Inl ''no''), jw_claims_json = (\<lambda>c. Inr ''{}''),
     jw_jwks_json = (\<lambda>kid alg. Inr ''{}'')\<rparr>"

definition demo_setup :: "Jwt \<Rightarrow> Setup" where
  "demo_setup jwt = \<lparr>st_resolve = demo_resolver, st_jwt = jwt, st_signer = demo_signer, st_sha = (\<lambda>x. x),
     st_to_json = concat, st_providers = [], st_default_provider = [],
     st_token_cfg = \<lparr>tc_issuer = ''bridge'', tc_audience = [''lore''], tc_auth_service_audience = ''host'',
       tc_authn_ttl = 0, tc_authz_ttl = duration_from_secs 900\<rparr>,
     st_login_cfg = \<lparr>lc_public_base_url = [], lc_session_ttl = 0, lc_auth_session_ttl = 0\<rparr>,
     st_device_cfg = \<lparr>dc_public_base_url = [], dc_auth_url = [], dc_device_code_ttl = 0, dc_poll_interval = 0\<rparr>\<rparr>"

definition demo_world :: World where
  "demo_world = \<lparr>w_db = demo_served, w_call = 0, w_times = (\<lambda>_ _. 50), w_nanos = (\<lambda>_. 7000000000),
     w_ids = (\<lambda>_ _. ''j1''), w_others = (\<lambda>_ db. db)\<rparr>"

lemma demo_world_facts:
  "others_ok demo_world" "w_db demo_world = demo_served" "db_inv (w_db demo_world)" "quiet (demo_setup jwt) demo_world"
  using demo_served_inv
  by (simp_all add: others_ok_def demo_world_def quiet_def demo_setup_def default_ttl_def duration_from_secs_def
      nanos_per_sec_def i64_max_def demo_served_def demo_access_def demo_groups_def empty_db_def)

lemma demo_setup_facts:
  "signs_all (demo_setup any_jwt)" "resolver_ok (st_resolve (demo_setup jwt))" "resolver_answers (st_resolve (demo_setup jwt))"
  by (simp_all add: signs_all_def demo_setup_def any_jwt_def demo_resolver_ok)

lemma requests_refine_store_witness:
  "db_inv (w_db (fold (serve (demo_setup any_jwt)) [PollDevice ''dc'', StartSession ''cs'', DropResource ''urc-game''] demo_world))"
  using requests_refine_store [OF demo_world_facts(1,3)] by blast

lemma demo_poll:
  "\<exists>res w1. device_token (graph_device (demo_setup any_jwt)) ''dc'' demo_world = (Inr res, w1) \<and>
     tok_status res = ''ok'' \<and> tok_token_type res = ''lore''"
proof -
  have "serves (w_db demo_world) ''u1'' demo_repo" using demo_served_serves by (simp add: demo_world_facts(2))
  from quiet_poll [OF demo_world_facts(4) this demo_setup_facts,
      of "demo_device\<lparr>dr_status := ''approved'', dr_approved_user_id := Some ''u1'',
       dr_requested_repository_id := Some ''r1''\<rparr>" "''dc''"] demo_served_facts(7) show ?thesis
    by (auto simp: demo_world_facts(2) demo_served_def demo_device_def demo_setup_def demo_repo_def)
qed

theorem device_code_delivers_once_witness:
  "\<exists>res w1. device_token (graph_device (demo_setup any_jwt)) ''dc'' demo_world = (Inr res, w1) \<and> tok_status res = ''ok'' \<and>
     fst (device_token (graph_device (demo_setup any_jwt)) '' DC '' (fold (serve (demo_setup any_jwt)) [StartSession ''cs''] w1)) =
       Inr (TokenResult_default\<lparr>tok_status := ''consumed''\<rparr>)"
proof -
  from demo_poll obtain res w1 where
    d: "device_token (graph_device (demo_setup any_jwt)) ''dc'' demo_world = (Inr res, w1)" "tok_status res = ''ok''"
    "tok_token_type res = ''lore''" by blast
  have "to_ascii_uppercase (trim '' DC '') = to_ascii_uppercase (trim ''dc'')" by code_simp
  from device_code_delivers_once [OF demo_world_facts(1,3) d(1) _ this, of "[StartSession ''cs'']"] d
  show ?thesis by (intro exI conjI; simp)
qed


lemma demo_ready:
  "\<exists>res w1. get_auth_session (graph_login (demo_setup any_jwt)) ''code'' ''cs'' demo_world = (Inr res, w1) \<and> at_ready res"
proof -
  from serves_principal [OF demo_served_serves] obtain p where
    p: "principal_by_user_id demo_served ''u1'' = Inr p" "tp_user_id p = ''u1''" "tp_token_subject p \<noteq> []" "tp_token_idp p \<noteq> []"
    by blast
  let ?g = "demo_setup any_jwt"
  let ?s = "auth_session_from_row (demo_session\<lparr>sr_status := ''completed'', sr_user_id := Some ''u1''\<rparr>)"
  have found: "get_auth_session_by_code (\<lambda>x. x) 50 demo_served ''code'' = Inr ?s" by code_simp
  define w3 where "w3 = tick (tick (tick demo_world))"
  define input where "input = \<lparr>an_issuer = ''bridge'', an_audience = [''lore'', ''host''], an_subject = tp_token_subject p,
     an_name = tp_display_name p, an_preferred_username = tp_preferred_username p, an_groups = tp_groups p,
     an_idp = tp_token_idp p, an_ttl = 0, an_now = None, an_jti = []\<rparr>"
  obtain signed where s: "ts_sign_authn (rs256_signer any_jwt demo_signer) input w3 = (Inr signed, tick w3)" "st_jti signed = ''j1''"
    using p by (simp add: rs256_signer_def outside_def sign_authn_def claim_defs any_jwt_def input_def w3_def demo_world_def)
  have q: "quiet ?g (tick w3)" "serves (w_db (tick w3)) ''u1'' demo_repo" "st_jti signed = w_ids (tick w3) 0 0"
    using demo_world_facts demo_served_serves s(2) by (simp_all add: w3_def, simp_all add: demo_world_def)
  from quiet_record [OF this, of "''authn''" "''authn''"] obtain w5 where
    w5: "token_record (graph_tokens ?g) signed ''u1'' ''authn'' ''authn'' (tick w3) = (Inr (), w5)"
      "w_others w5 = (\<lambda>_ db. db)" "flow_same (w_db (tick w3)) (w_db w5)" "schema_ok (w_db w5)" "w_times w5 = (\<lambda>_ _. 50)"
    by (auto simp: w3_def demo_world_def)
  have mint: "mint_authn (graph_tokens ?g) ''u1'' None (tick (tick demo_world)) = (Inr (signed, user_from_token_principal p), w5)"
    using p s(1) w5(1) demo_world_facts(2,4)
    by (simp add: mint_authn_def bind_op_def map_err_op_def return_op_def graph_tokens_def sqlite_accounts_def
        quiet_read [where g = ?g] user_from_token_principal_def input_def w3_def demo_setup_def authn_audience_def)
  have row: "session_row (w_db w5) ''s1'' = Some (demo_session\<lparr>sr_status := ''completed'', sr_user_id := Some ''u1''\<rparr>)"
    using w5(3,4) demo_world_facts(2)
    by (simp add: session_row_iff flow_same_def w3_def demo_served_def) (simp add: demo_session_def)
  then obtain db where "consume_auth_session 50 ''s1'' (w_db w5) = Inr ((), db)"
    using consume_auth_session_eq [OF w5(4) row, of 50] by (simp add: demo_session_def)
  then have "ss_consume_auth_session (sqlite_state (\<lambda>x. x)) ''s1'' w5 = (Inr (), tick w5\<lparr>w_db := db\<rparr>)"
    using w5(2,5) by (simp add: sqlite_state_def db_write_def next_call_def)
  moreover have "w_times demo_world = (\<lambda>_ _. 50)" by (simp add: demo_world_def)
  ultimately show ?thesis
    using mint found demo_world_facts(2,4) demo_served_facts(9)
    by (simp add: get_auth_session_def bind_op_def map_err_op_def return_op_def now_op_def world_clock_def graph_login_def
        sqlite_state_def quiet_read [where g = ?g] demo_setup_def match_client_state_def auth_session_from_row_def
        demo_session_def unwrap_or_default_def)
qed

theorem session_code_ready_once_witness:
  "\<exists>res w1. get_auth_session (graph_login (demo_setup any_jwt)) ''code'' ''cs'' demo_world = (Inr res, w1) \<and> at_ready res \<and>
     \<not> (\<exists>res'. fst (get_auth_session (graph_login (demo_setup any_jwt)) ''code'' ''cs'' w1) = Inr res' \<and> at_ready res')"
proof -
  from demo_ready obtain res w1 where
    d: "get_auth_session (graph_login (demo_setup any_jwt)) ''code'' ''cs'' demo_world = (Inr res, w1)" "at_ready res" by blast
  from session_code_ready_once [OF demo_world_facts(1,3) d, of "''cs''" "[]"] d show ?thesis by auto
qed

definition demo_authz_claims :: LoreClaims where
  "demo_authz_claims = \<lparr>cl_subject = ''user:u1'', cl_issuer = ''bridge'', cl_issued_at = 7, cl_expires_at = 907,
     cl_audience = [''lore''], cl_env = ''prod'', cl_name = ''Bob'', cl_preferred_username = ''bob'',
     cl_resources = [\<lparr>lp_resource_id = ''urc-game'', lp_permission = [''read'', ''write'']\<rparr>], cl_groups = [],
     cl_is_service_account = Some False, cl_idp = ''bridge'', cl_jti = ''j1''\<rparr>"

definition authz_jwt :: Jwt where
  "authz_jwt = demo_jwt\<lparr>
     jw_encode_claims := (\<lambda>c. if c = demo_authz_claims then Inr ''c'' else Inl (Crypto ''claims'')),
     jw_decode := (\<lambda>t. if t = ''h.c.s'' then Inr demo_authz_claims else Inl ''signature'')\<rparr>"

lemma authz_jwt_ok: "jwt_ok authz_jwt"
  by (auto simp: jwt_ok_def authz_jwt_def demo_jwt_def demo_header_def split: if_splits)

definition demo_authn :: VerifiedAuthn where
  "demo_authn = \<lparr>va_subject = ''user:u1'',
     va_principal = \<lparr>tp_user_id = ''u1'', tp_token_subject = ''user:u1'', tp_token_idp = ''bridge'',
       tp_display_name = ''Bob'', tp_preferred_username = ''bob'', tp_groups = []\<rparr>,
     va_user = User_default\<rparr>"

lemma demo_exchange:
  "\<exists>signed w1. exchange_authz (graph_tokens (demo_setup authz_jwt)) demo_authn [''urc-game''] None demo_world = (Inr signed, w1)"
proof -
  let ?g = "demo_setup authz_jwt"
  define w2 where "w2 = tick (tick demo_world)"
  define input where "input = \<lparr>az_issuer = ''bridge'', az_audience = [''lore''], az_subject = ''user:u1'', az_name = ''Bob'',
     az_preferred_username = ''bob'', az_groups = [], az_idp = ''bridge'',
     az_resources = [\<lparr>rp_resource_id = ''urc-game'', rp_permission = [Read, Write]\<rparr>],
     az_ttl = duration_from_secs 900, az_now = None, az_jti = []\<rparr>"
  obtain signed where s: "ts_sign_authz (rs256_signer authz_jwt demo_signer) input w2 = (Inr signed, tick w2)" "st_jti signed = ''j1''"
    by (simp add: rs256_signer_def outside_def sign_authz_def new_authz_claims_def claim_defs authz_jwt_def demo_jwt_defs
        demo_authz_claims_def model_resource_to_claim_resource_def input_def w2_def demo_world_def)
  have "quiet ?g (tick w2)" "serves (w_db (tick w2)) ''u1'' demo_repo" "st_jti signed = w_ids (tick w2) 0 0"
    using demo_world_facts demo_served_serves s(2) by (simp_all add: w2_def, simp_all add: demo_world_def)
  from quiet_record [OF this, of "''authz''" "''authz''"] obtain w4 where
    w4: "token_record (graph_tokens ?g) signed ''u1'' ''authz'' ''authz'' (tick w2) = (Inr (), w4)" by blast
  show ?thesis
    using s(1) w4 serves_lookup(3) [OF demo_served_serves] serves_access [OF demo_served_serves demo_resolver_ok]
      demo_served_facts(5) demo_world_facts(2,4)
    by (simp add: exchange_authz_def bind_op_def map_err_op_def return_op_def graph_tokens_def sqlite_resources_def
        rebac_policy_def quiet_read [where g = ?g] demo_authn_def demo_setup_def input_def w2_def)
qed


end
