(* ===== verification/Rate_Limit.thy ===== *)
theory Rate_Limit
  imports Core_Model
begin

text \<open>
  The rate limiter of the gRPC server (\<open>inbound/src/ratelimit.rs\<close>): a fixed window per peer. An \<open>Instant\<close> is a
  number of nanoseconds of the monotonic clock, and \<open>duration_since\<close> an earlier instant is zero.
  Theorems: the limiter answers each peer as if the peer had a counter of its own, whatever the
  other peers do and whenever expired entries are dropped, and in no interval of the length of the
  window does a peer pass more than twice the limit.
\<close>

section \<open>The limiter\<close>

record Bucket =
  bk_start :: nat
  bk_count :: nat

record Limiter =
  li_limit :: nat
  li_window :: duration
  li_buckets :: "string \<rightharpoonup> Bucket"

definition Limiter_new :: "nat \<Rightarrow> duration \<Rightarrow> Limiter" where
  "Limiter_new limit window = \<lparr>li_limit = limit, li_window = window, li_buckets = Map.empty\<rparr>"

definition prune :: "(string \<rightharpoonup> Bucket) \<Rightarrow> nat \<Rightarrow> duration \<Rightarrow> string \<rightharpoonup> Bucket" where
  "prune buckets now window =
     (\<lambda>k. case buckets k of Some b \<Rightarrow> if now - bk_start b < window then Some b else None | None \<Rightarrow> None)"

definition allow :: "nat \<Rightarrow> string \<Rightarrow> Limiter \<Rightarrow> bool \<times> Limiter" where
  "allow now key lim =
     (if li_limit lim = 0 \<or> li_window lim = 0 then (True, lim)
      else
        case Option.bind (li_buckets lim key) (\<lambda>b. if now - bk_start b < li_window lim then Some b else None) of
          None \<Rightarrow>
            (True, lim\<lparr>li_buckets :=
               prune ((li_buckets lim)(key \<mapsto> \<lparr>bk_start = now, bk_count = 1\<rparr>)) now (li_window lim)\<rparr>)
        | Some bucket \<Rightarrow>
            if bk_count bucket \<ge> li_limit lim then (False, lim)
            else (True, lim\<lparr>li_buckets := (li_buckets lim)(key \<mapsto> bucket\<lparr>bk_count := bk_count bucket + 1\<rparr>)\<rparr>))"

text \<open>A run: the calls with their times and keys, and the answers.\<close>

fun answers :: "(nat \<times> string) list \<Rightarrow> Limiter \<Rightarrow> (nat \<times> string \<times> bool) list" where
  "answers [] lim = []"
| "answers ((now, key) # calls) lim =
     (let (ok, lim) = allow now key lim in (now, key, ok) # answers calls lim)"

section \<open>One peer alone\<close>

text \<open>The counter of a single peer: the start of its window and how many passed in it.\<close>

definition count_one :: "nat \<Rightarrow> duration \<Rightarrow> nat \<Rightarrow> Bucket option \<Rightarrow> bool \<times> Bucket option" where
  "count_one limit window now b =
     (case b of
        Some b \<Rightarrow>
          if now - bk_start b < window
          then if bk_count b \<ge> limit then (False, Some b) else (True, Some (b\<lparr>bk_count := bk_count b + 1\<rparr>))
          else (True, Some \<lparr>bk_start = now, bk_count = 1\<rparr>)
      | None \<Rightarrow> (True, Some \<lparr>bk_start = now, bk_count = 1\<rparr>))"

fun count_run :: "nat \<Rightarrow> duration \<Rightarrow> nat list \<Rightarrow> Bucket option \<Rightarrow> (nat \<times> bool) list" where
  "count_run limit window [] b = []"
| "count_run limit window (now # ts) b =
     (let (ok, b) = count_one limit window now b in (now, ok) # count_run limit window ts b)"

text \<open>A bucket that has expired counts as no bucket, from then on.\<close>

definition same_bucket :: "duration \<Rightarrow> nat \<Rightarrow> Bucket option \<Rightarrow> Bucket option \<Rightarrow> bool" where
  "same_bucket window now a b \<longleftrightarrow> a = b \<or>
     a = None \<and> (case b of Some b \<Rightarrow> window \<le> now - bk_start b | None \<Rightarrow> True)"

lemma same_bucket_later: "same_bucket w now a b \<Longrightarrow> now \<le> now' \<Longrightarrow> same_bucket w now' a b"
  by (auto simp: same_bucket_def split: option.splits)

lemma allow_key:
  assumes "same_bucket (li_window lim) now (li_buckets lim key) b" "li_limit lim \<noteq> 0" "li_window lim \<noteq> 0"
  shows "fst (allow now key lim) = fst (count_one (li_limit lim) (li_window lim) now b) \<and>
    li_buckets (snd (allow now key lim)) key = snd (count_one (li_limit lim) (li_window lim) now b)"
  using assms by (auto simp: allow_def count_one_def same_bucket_def prune_def
    split: option.splits if_splits)

lemma allow_other:
  assumes "same_bucket (li_window lim) now (li_buckets lim k) b" "key \<noteq> k"
  shows "same_bucket (li_window lim) now (li_buckets (snd (allow now key lim)) k) b"
  using assms by (auto simp: allow_def same_bucket_def prune_def split: option.splits)

lemma allow_config [simp]:
  "li_limit (snd (allow now key lim)) = li_limit lim" "li_window (snd (allow now key lim)) = li_window lim"
  by (auto simp: allow_def split: option.splits)

lemma answers_key:
  assumes "sorted (map fst calls)" "\<forall>c \<in> set calls. now \<le> fst c"
    "same_bucket (li_window lim) now (li_buckets lim k) b" "li_limit lim \<noteq> 0" "li_window lim \<noteq> 0"
  shows "[(t, ok). (t, key, ok) \<leftarrow> answers calls lim, key = k] =
    count_run (li_limit lim) (li_window lim) [t. (t, key) \<leftarrow> calls, key = k] b"
  using assms
proof (induction calls arbitrary: lim b now)
  case (Cons c calls)
  obtain t key where c: "c = (t, key)" by (cases c)
  have sb: "same_bucket (li_window lim) t (li_buckets lim k) b"
    using Cons.prems(2,3) c by (auto intro: same_bucket_later)
  have later: "\<forall>c \<in> set calls. t \<le> fst c" using Cons.prems(1) c by auto
  show ?case
  proof (cases "key = k")
    case True
    note ak = allow_key [OF sb Cons.prems(4,5)]
    from Cons.IH [of t "snd (allow t k lim)" "snd (count_one (li_limit lim) (li_window lim) t b)"] ak later Cons.prems
    show ?thesis by (auto simp: c True Let_def same_bucket_def split: prod.splits)
  next
    case False
    from Cons.IH [of t "snd (allow t key lim)" b] allow_other [OF sb False] later Cons.prems
    show ?thesis by (auto simp: c False Let_def split: prod.splits)
  qed
qed simp

text \<open>Peers do not disturb each other: over any sequence of calls with a clock that does not run
  backwards, the answers that one peer gets are those of a fixed-window counter that sees only the
  calls of this peer; dropping expired entries changes no answer.\<close>

lemma limiter_per_peer:
  assumes "sorted (map fst calls)" "0 < limit" "0 < window"
  shows "[(t, ok). (t, key, ok) \<leftarrow> answers calls (Limiter_new limit window), key = k] =
    count_run limit window [t. (t, key) \<leftarrow> calls, key = k] None"
  using answers_key [OF assms(1), of 0 "Limiter_new limit window" k None] assms
  by (simp add: Limiter_new_def same_bucket_def)

section \<open>How many pass\<close>

definition passed :: "nat \<Rightarrow> nat \<Rightarrow> (nat \<times> bool) list \<Rightarrow> nat" where
  "passed a n rs = length (filter (\<lambda>(t, ok). ok \<and> a \<le> t \<and> t < a + n) rs)"

lemma passed_simps [simp]:
  "passed a n [] = 0"
  "passed a n ((t, ok) # rs) = (if ok \<and> a \<le> t \<and> t < a + n then Suc (passed a n rs) else passed a n rs)"
  by (simp_all add: passed_def)

lemma count_run_times: "map fst (count_run l w ts b) = ts"
  by (induction ts arbitrary: b) (auto simp: Let_def split: prod.splits)

lemma passed_late: "\<forall>t \<in> set (map fst rs). a + n \<le> t \<Longrightarrow> passed a n rs = 0"
  by (auto simp: passed_def filter_empty_conv)

text \<open>A bucket that starts inside the interval lets through what it has left: the next one starts after it.\<close>

lemma passed_inside:
  assumes "sorted ts" "\<forall>t \<in> set ts. s \<le> t" "a \<le> s" "0 < c" "c \<le> l"
  shows "passed a w (count_run l w ts (Some \<lparr>bk_start = s, bk_count = c\<rparr>)) \<le> l - c"
  using assms
proof (induction ts arbitrary: c)
  case (Cons t ts)
  show ?case
  proof (cases "t - s < w")
    case True
    with Cons.IH [of c] Cons.IH [of "Suc c"] Cons.prems show ?thesis by (auto simp: count_one_def)
  next
    case False
    have "\<forall>u \<in> set (map fst (count_run l w (t # ts) (Some \<lparr>bk_start = s, bk_count = c\<rparr>))). a + w \<le> u"
      unfolding count_run_times using False Cons.prems by fastforce
    then show ?thesis by (simp only: passed_late le0)
  qed
qed simp

lemma passed_fresh:
  assumes "sorted (t # ts)" "a \<le> t" "0 < l"
  shows "Suc (passed a w (count_run l w ts (Some \<lparr>bk_start = t, bk_count = 1\<rparr>))) \<le> l"
  using passed_inside [of ts t a 1 l w] assms by auto

text \<open>A bucket that started before the interval lets through what it has left, and one more bucket may start.\<close>

lemma passed_before:
  assumes "sorted ts" "\<forall>t \<in> set ts. s \<le> t \<and> a \<le> t" "c \<le> l" "0 < l"
  shows "passed a w (count_run l w ts (Some \<lparr>bk_start = s, bk_count = c\<rparr>)) \<le> (l - c) + l"
  using assms
proof (induction ts arbitrary: c)
  case (Cons t ts)
  show ?case
  proof (cases "t - s < w")
    case True
    with Cons.IH [of c] Cons.IH [of "Suc c"] Cons.prems show ?thesis by (auto simp: count_one_def)
  next
    case False
    with passed_fresh [OF Cons.prems(1), of a l w] Cons.prems show ?thesis by (auto simp: count_one_def)
  qed
qed simp

lemma passed_any:
  assumes "sorted ts" "0 < l"
    and "case b of None \<Rightarrow> True | Some b \<Rightarrow> bk_count b \<le> l \<and> (\<forall>t \<in> set ts. bk_start b \<le> t)"
  shows "passed a w (count_run l w ts b) \<le> 2 * l"
  using assms
proof (induction ts arbitrary: b)
  case (Cons t ts)
  show ?case
  proof (cases "t < a")
    case True
    define b' where "b' = snd (count_one l w t b)"
    have "case b' of None \<Rightarrow> True | Some b \<Rightarrow> bk_count b \<le> l \<and> (\<forall>t \<in> set ts. bk_start b \<le> t)"
      using Cons.prems unfolding b'_def count_one_def by (auto split: option.splits)
    with Cons.IH [of b'] Cons.prems True show ?thesis by (auto simp: b'_def split: prod.splits)
  next
    case False
    show ?thesis
    proof (cases b)
      case None
      with passed_fresh [OF Cons.prems(1), of a l w] False Cons.prems(2) show ?thesis by (auto simp: count_one_def)
    next
      case (Some bk)
      have "\<forall>u \<in> set (t # ts). bk_start bk \<le> u \<and> a \<le> u"
        using Some False Cons.prems(1,3) by auto
      moreover have "bk_count bk \<le> l" using Some Cons.prems(3) by simp
      moreover have "\<lparr>bk_start = bk_start bk, bk_count = bk_count bk\<rparr> = bk" by simp
      ultimately have "passed a w (count_run l w (t # ts) (Some bk)) \<le> (l - bk_count bk) + l"
        using passed_before [OF Cons.prems(1), of "bk_start bk" a "bk_count bk" l w] Cons.prems(2) by metis
      then show ?thesis unfolding Some by linarith
    qed
  qed
qed simp

text \<open>C29: The limit holds: with a clock that does not run backwards, in every interval as long as the
  window at most twice the limit of calls of one peer pass, and in the interval that starts with the
  peer's first call at most the limit.\<close>

theorem limiter_bound:
  assumes "sorted (map fst calls)" "0 < limit" "0 < window"
  shows "passed a window [(t, ok). (t, key, ok) \<leftarrow> answers calls (Limiter_new limit window), key = k] \<le> 2 * limit \<and>
    (\<forall>t ts. [t. (t, key) \<leftarrow> calls, key = k] = t # ts \<longrightarrow>
       passed t window [(t, ok). (t, key, ok) \<leftarrow> answers calls (Limiter_new limit window), key = k] \<le> limit)"
proof -
  let ?ts = "[t. (t, key) \<leftarrow> calls, key = k]"
  have s: "sorted ?ts"
    using assms(1) by (induction calls) (auto simp: sorted_append)
  have eq: "[(t, ok). (t, key, ok) \<leftarrow> answers calls (Limiter_new limit window), key = k] = count_run limit window ?ts None"
    using answers_key [OF assms(1), of 0 "Limiter_new limit window" k None] assms
    by (simp add: Limiter_new_def same_bucket_def)
  have "passed t window (count_run limit window (t # ts) None) \<le> limit" if "?ts = t # ts" for t ts
    using passed_fresh [of t ts t limit window] s that assms(2,3) by (auto simp: count_one_def)
  with passed_any [OF s assms(2), of None a window] show ?thesis unfolding eq by auto
qed

lemma limiter_per_peer_witness:
  "[(t, ok). (t, key, ok) \<leftarrow> answers [(0, ''a''), (1, ''b''), (2, ''a''), (3, ''a''), (9, ''a'')] (Limiter_new 2 5), key = ''a''] =
     [(0, True), (2, True), (3, False), (9, True)]"
  using limiter_per_peer [of "[(0, ''a''), (1, ''b''), (2, ''a''), (3, ''a''), (9, ''a'')]" 2 5 "''a''"]
  by (simp add: count_one_def)

theorem limiter_bound_witness:
  "passed 3 5 [(t, ok). (t, key, ok) \<leftarrow> answers [(0, ''a''), (3, ''a''), (4, ''a''), (5, ''a''), (6, ''a'')] (Limiter_new 2 5), key = ''a''] \<le> 4"
  using limiter_bound [of "[(0, ''a''), (3, ''a''), (4, ''a''), (5, ''a''), (6, ''a'')]" 2 5 3 "''a''"] by simp

end
