(* ===== verification/Grpc_Server.thy ===== *)
theory Grpc_Server
  imports Core_Login Rate_Limit "HOL-Library.Word"
begin

text \<open>
  The gRPC server (\<open>inbound/src/grpcauth.rs\<close>, \<open>grpcrebac.rs\<close>, \<open>status.rs\<close>, \<open>peer.rs\<close> and the layers
  of \<open>ratelimit.rs\<close>), over any services. A handler is an operation that fails with a status. The
  messages are those of \<open>third_party/lore-proto\<close>. Parameters: \<open>to_str\<close> of a header value, and of
  the ipnet crate the type of prefixes, its parser, its constructor and \<open>contains\<close>.
\<close>

section \<open>Status values\<close>

datatype Code = Code_InvalidArgument | Code_NotFound | Code_PermissionDenied | Code_ResourceExhausted |
  Code_Unimplemented | Code_Internal | Code_Unauthenticated

record Status =
  status_code :: Code
  status_message :: message

definition Status_new :: "Code \<Rightarrow> string \<Rightarrow> Status" where
  "Status_new code m = \<lparr>status_code = code, status_message = [Lit m]\<rparr>"

fun core_error_to_status :: "CoreError \<Rightarrow> Status" where
  "core_error_to_status NotFound = Status_new Code_NotFound ''not found''"
| "core_error_to_status AuthSessionNotFound = Status_new Code_NotFound ''not found''"
| "core_error_to_status (InvalidArgument m) = \<lparr>status_code = Code_InvalidArgument, status_message = m\<rparr>"
| "core_error_to_status PermissionDenied = Status_new Code_PermissionDenied ''permission denied''"
| "core_error_to_status Unauthenticated = Status_new Code_Unauthenticated ''unauthenticated''"
| "core_error_to_status Unsupported = Status_new Code_Unimplemented ''unsupported''"
| "core_error_to_status SigningKeyUnavailable = Status_new Code_Internal ''token issue failed''"
| "core_error_to_status TokenIssueFailed = Status_new Code_Internal ''token issue failed''"
| "core_error_to_status (AdminAuditFailed _) = Status_new Code_Internal ''admin audit failed''"
| "core_error_to_status err = \<lparr>status_code = Code_InvalidArgument, status_message = CoreError_display err\<rparr>"

fun auth_session_status :: "CoreError \<Rightarrow> Status" where
  "auth_session_status AuthSessionNotFound = Status_new Code_NotFound ''unknown session''"
| "auth_session_status NotFound = Status_new Code_NotFound ''unknown session''"
| "auth_session_status (InvalidArgument _) = Status_new Code_InvalidArgument ''client_state mismatch''"
| "auth_session_status SigningKeyUnavailable = Status_new Code_Internal ''failed to get auth session''"
| "auth_session_status TokenIssueFailed = Status_new Code_Internal ''failed to get auth session''"
| "auth_session_status other = core_error_to_status other"

fun resource_token_exchange_status :: "CoreError \<Rightarrow> Status" where
  "resource_token_exchange_status (InvalidArgument _) = Status_new Code_InvalidArgument ''invalid token exchange request''"
| "resource_token_exchange_status NotFound = Status_new Code_PermissionDenied ''resource not authorized''"
| "resource_token_exchange_status PermissionDenied = Status_new Code_PermissionDenied ''resource not authorized''"
| "resource_token_exchange_status Unauthenticated = Status_new Code_Unauthenticated ''invalid authn token''"
| "resource_token_exchange_status SigningKeyUnavailable = Status_new Code_Internal ''failed to issue resource token''"
| "resource_token_exchange_status TokenIssueFailed = Status_new Code_Internal ''failed to issue resource token''"
| "resource_token_exchange_status other = core_error_to_status other"

fun permission_lookup_status :: "CoreError \<Rightarrow> Status" where
  "permission_lookup_status Unauthenticated = Status_new Code_Unauthenticated ''invalid authn token''"
| "permission_lookup_status other = core_error_to_status other"

section \<open>Peers\<close>

datatype IpAddr = V4 "32 word" | V6 "128 word"

text \<open>\<open>Ipv6Addr::to_ipv4_mapped\<close>: the addresses ::ffff:0:0/96.\<close>

definition to_ipv4_mapped :: "128 word \<Rightarrow> 32 word option" where
  "to_ipv4_mapped v6 = (if drop_bit 32 v6 = 0xFFFF then Some (ucast v6) else None)"

fun normalize_ip :: "IpAddr \<Rightarrow> IpAddr" where
  "normalize_ip (V4 a) = V4 a"
| "normalize_ip (V6 v6) = (case to_ipv4_mapped v6 of Some a \<Rightarrow> V4 a | None \<Rightarrow> V6 v6)"

text \<open>\<open>Display\<close> of an address: dotted decimals, and hexadecimal segments with the first longest run of
  at least two zero segments written as two colons.\<close>

function radix :: "nat \<Rightarrow> nat \<Rightarrow> string" where
  "radix b n =
     (if n < b \<or> b < 2 then [char_of (if n < 10 then 48 + n else 87 + n)]
      else radix b (n div b) @ [char_of (if n mod b < 10 then 48 + n mod b else 87 + n mod b)])"
  by pat_completeness auto
termination
  by (relation "measure snd") auto

declare radix.simps [simp del]

fun join_with :: "string \<Rightarrow> string list \<Rightarrow> string" where
  "join_with sep [] = []"
| "join_with sep [s] = s"
| "join_with sep (s # ss) = s @ sep @ join_with sep ss"

definition ipv4_to_string :: "32 word \<Rightarrow> string" where
  "ipv4_to_string a = join_with ''.'' (map (\<lambda>i. radix 10 (unat (take_bit 8 (drop_bit i a)))) [24, 16, 8, 0])"

text \<open>The spans (start, length): the longest so far and the current one.\<close>

fun zero_span :: "nat \<Rightarrow> nat list \<Rightarrow> nat \<times> nat \<Rightarrow> nat \<times> nat \<Rightarrow> nat \<times> nat" where
  "zero_span i [] longest current = longest"
| "zero_span i (seg # segs) longest current =
     (if seg = 0
      then let current = (if snd current = 0 then i else fst current, Suc (snd current)) in
        zero_span (Suc i) segs (if snd current > snd longest then current else longest) current
      else zero_span (Suc i) segs longest (0, 0))"

definition ipv6_to_string :: "128 word \<Rightarrow> string" where
  "ipv6_to_string v6 =
     (case to_ipv4_mapped v6 of
        Some a \<Rightarrow> ''::ffff:'' @ ipv4_to_string a
      | None \<Rightarrow>
          let segs = map (\<lambda>i. unat (take_bit 16 (drop_bit i v6))) [112, 96, 80, 64, 48, 32, 16, 0];
              (start, len) = zero_span 0 segs (0, 0) (0, 0);
              hex = (\<lambda>ss. join_with '':'' (map (radix 16) ss))
          in if len > 1 then hex (take start segs) @ ''::'' @ hex (drop (start + len) segs) else hex segs)"

fun ip_to_string :: "IpAddr \<Rightarrow> string" where
  "ip_to_string (V4 a) = ipv4_to_string a"
| "ip_to_string (V6 a) = ipv6_to_string a"

text \<open>The peer of a request is the remote address of its connection, if it has one.\<close>

definition peer_ip_from_request :: "IpAddr option \<Rightarrow> IpAddr option" where
  "peer_ip_from_request remote_addr = map_option normalize_ip remote_addr"

definition peer_key_from_request :: "IpAddr option \<Rightarrow> string" where
  "peer_key_from_request remote_addr =
     (case peer_ip_from_request remote_addr of Some addr \<Rightarrow> ip_to_string addr | None \<Rightarrow> [])"

section \<open>The auth service\<close>

type_synonym metadata = "string \<rightharpoonup> string"

record 's UrcAuthServer =
  us_login :: "'s LoginService"
  us_tokens :: "'s TokenService"
  us_permissions :: "'s PermissionService"

record UserToken =
  ut_user_token :: string
  ut_expires_at :: i64
  ut_user_id :: string
  ut_user_name :: string

record ResourcePermissionMsg =
  rm_resource_id :: string
  rm_permission :: "string list"

datatype target_user_User = Target_UserToken string

definition user_token :: "SignedToken \<Rightarrow> User \<Rightarrow> UserToken" where
  "user_token token user =
     \<lparr>ut_user_token = st_token token, ut_expires_at = st_expires_at token, ut_user_id = bridge_subject user,
      ut_user_name = User_display user\<rparr>"

definition permissions_to_strings :: "Permission list \<Rightarrow> string list" where
  "permissions_to_strings permissions = map Permission_as_str permissions"

definition bearer_from_request :: "(string \<Rightarrow> string option) \<Rightarrow> metadata \<Rightarrow> string option" where
  "bearer_from_request to_str md =
     (case Option.bind (md ''authorization'') to_str of
        None \<Rightarrow> None
      | Some v \<Rightarrow> if trim v = [] then None else Some (trim v))"

definition authn_from_request ::
  "(string \<Rightarrow> string option) \<Rightarrow> 's UrcAuthServer \<Rightarrow> metadata \<Rightarrow> (Status, VerifiedAuthn, 's) op" where
  "authn_from_request to_str srv md =
     (case bearer_from_request to_str md of
        None \<Rightarrow> fail_op (Status_new Code_Unauthenticated ''authorization header required'')
      | Some bearer \<Rightarrow>
          map_err_op (\<lambda>_. Status_new Code_Unauthenticated ''invalid authn token'') (verify_authn (us_tokens srv) bearer))"

definition resolve_subject_user ::
  "(string \<Rightarrow> string option) \<Rightarrow> 's UrcAuthServer \<Rightarrow> metadata \<Rightarrow> target_user_User option option \<Rightarrow> (Status, User, 's) op" where
  "resolve_subject_user to_str srv md target_user =
     (case target_user of
        Some (Some (Target_UserToken token)) \<Rightarrow>
          if token \<noteq> [] then
            map_err_op (\<lambda>_. Status_new Code_InvalidArgument ''invalid target_user token'')
              (bind_op (verify_authn (us_tokens srv) token) (\<lambda>authn. return_op (va_user authn)))
          else bind_op (authn_from_request to_str srv md) (\<lambda>authn. return_op (va_user authn))
      | _ \<Rightarrow> bind_op (authn_from_request to_str srv md) (\<lambda>authn. return_op (va_user authn)))"

datatype grpc_response =
    HealthCheckResponse string
  | StartAuthSessionResponse string string
  | GetAuthSessionResponse "UserToken option"
  | ExchangeUserTokenResponse "UserToken option"
  | CheckUserPermissionResponse "ResourcePermissionMsg list" "ResourcePermissionMsg list"
  | LookupUserPermissionsResponse "ResourcePermissionMsg list" "string option"
  | CreateResourceResponse
  | DeleteResourceResponse

type_synonym 's handler = "(Status, grpc_response, 's) op"

definition grpc_health_check :: "'s handler" where
  "grpc_health_check = return_op (HealthCheckResponse ''ok'')"

definition grpc_start_auth_session :: "'s UrcAuthServer \<Rightarrow> string \<Rightarrow> 's handler" where
  "grpc_start_auth_session srv client_state =
     bind_op (map_err_op (\<lambda>_. Status_new Code_Internal ''failed to start auth session'')
       (start_auth_session (us_login srv) client_state)) (\<lambda>result.
     return_op (StartAuthSessionResponse (sa_session_code result) (sa_login_url result)))"

definition grpc_get_auth_session :: "'s UrcAuthServer \<Rightarrow> string \<Rightarrow> string \<Rightarrow> 's handler" where
  "grpc_get_auth_session srv session_code client_state =
     bind_op (map_err_op auth_session_status (get_auth_session (us_login srv) session_code client_state)) (\<lambda>result.
     if \<not> at_ready result then return_op (GetAuthSessionResponse None)
     else return_op (GetAuthSessionResponse (Some (user_token (at_token result) (at_user result)))))"

definition grpc_unimplemented :: "string \<Rightarrow> 's handler" where
  "grpc_unimplemented name = fail_op (Status_new Code_Unimplemented (''method '' @ name @ '' not implemented''))"

definition exchange_user_token_for_multiresource_token ::
  "(string \<Rightarrow> string option) \<Rightarrow> 's UrcAuthServer \<Rightarrow> metadata \<Rightarrow> string list \<Rightarrow> 's handler" where
  "exchange_user_token_for_multiresource_token to_str srv md resource_id =
     bind_op (authn_from_request to_str srv md) (\<lambda>authn.
     if resource_id = [] then fail_op (Status_new Code_InvalidArgument ''resource_id is required'')
     else
       bind_op (map_err_op resource_token_exchange_status (exchange_authz (us_tokens srv) authn resource_id None)) (\<lambda>token.
       return_op (ExchangeUserTokenResponse (Some (user_token token (va_user authn))))))"

text \<open>The loop over the checked permissions: what is pushed to the allowed and to the denied list.\<close>

fun push_checked :: "CheckedPermission list \<Rightarrow> ResourcePermissionMsg list \<times> ResourcePermissionMsg list \<Rightarrow>
    ResourcePermissionMsg list \<times> ResourcePermissionMsg list" where
  "push_checked [] acc = acc"
| "push_checked (item # items) (allowed, denied) =
     (if cp_allowed item
      then push_checked items (allowed @ [\<lparr>rm_resource_id = cp_resource_id item,
             rm_permission = permissions_to_strings (cp_permission item)\<rparr>], denied)
      else push_checked items (allowed, denied @ [\<lparr>rm_resource_id = cp_resource_id item, rm_permission = []\<rparr>]))"

definition check_user_permission ::
  "(string \<Rightarrow> string option) \<Rightarrow> 's UrcAuthServer \<Rightarrow> metadata \<Rightarrow> string list \<Rightarrow> target_user_User option option \<Rightarrow> 's handler" where
  "check_user_permission to_str srv md resource_ids target_user =
     bind_op (resolve_subject_user to_str srv md target_user) (\<lambda>user.
     bind_op (map_err_op (\<lambda>_. Status_new Code_Internal ''acl evaluation failed'')
       (permission_check (us_permissions srv) (u_id user) resource_ids)) (\<lambda>checked.
     case push_checked checked ([], []) of (allowed, denied) \<Rightarrow> return_op (CheckUserPermissionResponse allowed denied)))"

definition lookup_user_permissions ::
  "(string \<Rightarrow> string option) \<Rightarrow> 's UrcAuthServer \<Rightarrow> metadata \<Rightarrow> string \<Rightarrow> 's handler" where
  "lookup_user_permissions to_str srv md resource_filter =
     bind_op (authn_from_request to_str srv md) (\<lambda>authn.
     bind_op (map_err_op (\<lambda>_. Status_new Code_Internal ''lookup failed'')
       (permission_lookup (us_permissions srv) (u_id (va_user authn)) \<lparr>rf_prefix = resource_filter\<rparr>)) (\<lambda>permissions.
     return_op (LookupUserPermissionsResponse
       (map (\<lambda>p. \<lparr>rm_resource_id = rp_resource_id p, rm_permission = permissions_to_strings (rp_permission p)\<rparr>) permissions)
       None)))"

section \<open>The resource service and its peers\<close>

definition grpc_create_resource :: "'s ResourceStore \<Rightarrow> string \<Rightarrow> string \<Rightarrow> 's handler" where
  "grpc_create_resource resources resource_id resource_name =
     (if resource_id = [] then fail_op (Status_new Code_InvalidArgument ''resource_id is required'')
      else
        bind_op (map_err_op (\<lambda>_. Status_new Code_Internal ''failed to create resource'')
          (create_resource resources resource_id resource_name)) (\<lambda>_.
        return_op CreateResourceResponse))"

definition grpc_delete_resource :: "'s ResourceStore \<Rightarrow> string \<Rightarrow> 's handler" where
  "grpc_delete_resource resources resource_id =
     (if resource_id = [] then fail_op (Status_new Code_InvalidArgument ''resource_id is required'')
      else
        catch_op (delete_resource resources resource_id) (\<lambda>result. case result of
            Inr _ \<Rightarrow> return_op DeleteResourceResponse
          | Inl NotFound \<Rightarrow> return_op DeleteResourceResponse
          | Inl _ \<Rightarrow> fail_op (Status_new Code_Internal ''failed to delete resource'')))"

record 'n IpNets =
  in_parse_addr :: "string \<Rightarrow> string + IpAddr"
  in_parse_net :: "string \<Rightarrow> string + 'n"
  in_new :: "IpAddr \<Rightarrow> nat \<Rightarrow> string + 'n"
  in_contains :: "'n \<Rightarrow> IpAddr \<Rightarrow> bool"

definition parse_allowed_peer_cidr :: "'n IpNets \<Rightarrow> string \<Rightarrow> string + 'n" where
  "parse_allowed_peer_cidr net value =
     (let value = trim value in
      if value = [] then Inl ''CIDR must not be empty''
      else if CHR ''/'' \<in> set value then in_parse_net net value
      else and_then (in_parse_addr net value) (\<lambda>addr.
        in_new net addr (case addr of V4 _ \<Rightarrow> 32 | V6 _ \<Rightarrow> 128)))"

fun parse_cidrs_from :: "'n IpNets \<Rightarrow> nat \<Rightarrow> string list \<Rightarrow> string + 'n list" where
  "parse_cidrs_from net index [] = Inr []"
| "parse_cidrs_from net index (value # values) =
     and_then (map_err (\<lambda>err. ''entry '' @ radix 10 index @ '': '' @ err) (parse_allowed_peer_cidr net value)) (\<lambda>n.
     and_then (parse_cidrs_from net (Suc index) values) (\<lambda>ns. Inr (n # ns)))"

definition parse_allowed_peer_cidrs :: "'n IpNets \<Rightarrow> string list \<Rightarrow> string + 'n list" where
  "parse_allowed_peer_cidrs net values = parse_cidrs_from net 0 values"

text \<open>The default must parse, or the server panics.\<close>

definition default_allowed_peer_cidrs :: "'n IpNets \<Rightarrow> 'n list option" where
  "default_allowed_peer_cidrs net =
     (case parse_allowed_peer_cidrs net [''127.0.0.1/32'', ''::1/128''] of Inr ns \<Rightarrow> Some ns | Inl _ \<Rightarrow> None)"

definition peer_allowed :: "'n IpNets \<Rightarrow> IpAddr option \<Rightarrow> 'n list \<Rightarrow> bool" where
  "peer_allowed net addr prefixes =
     (case addr of None \<Rightarrow> False | Some addr \<Rightarrow> \<exists>prefix \<in> set prefixes. in_contains net prefix addr)"

section \<open>The server\<close>

datatype grpc_call =
    HealthCheck
  | StartAuthSession string
  | GetAuthSession string string
  | RefreshAuthSession
  | VerifyUser
  | ExchangeExternalTokenForUserToken
  | ExchangeAPIKeyForUserToken
  | ExchangeUserTokenForMultiresourceToken metadata "string list"
  | CheckUserPermission metadata "string list" "target_user_User option option"
  | LookupUserPermissions metadata string
  | GetUserInfo
  | GetUserId
  | GetProviderUserId
  | Rebac_CreateResource string string
  | Rebac_DeleteResource string

text \<open>The path of a call is the package, the service and the method of the protocol files.\<close>

fun grpc_path :: "grpc_call \<Rightarrow> string" where
  "grpc_path HealthCheck = ''/epic_urc.UrcAuthApi/HealthCheck''"
| "grpc_path (StartAuthSession _) = ''/epic_urc.UrcAuthApi/StartAuthSession''"
| "grpc_path (GetAuthSession _ _) = ''/epic_urc.UrcAuthApi/GetAuthSession''"
| "grpc_path RefreshAuthSession = ''/epic_urc.UrcAuthApi/RefreshAuthSession''"
| "grpc_path VerifyUser = ''/epic_urc.UrcAuthApi/VerifyUser''"
| "grpc_path ExchangeExternalTokenForUserToken = ''/epic_urc.UrcAuthApi/ExchangeExternalTokenForUserToken''"
| "grpc_path ExchangeAPIKeyForUserToken = ''/epic_urc.UrcAuthApi/ExchangeAPIKeyForUserToken''"
| "grpc_path (ExchangeUserTokenForMultiresourceToken _ _) = ''/epic_urc.UrcAuthApi/ExchangeUserTokenForMultiresourceToken''"
| "grpc_path (CheckUserPermission _ _ _) = ''/epic_urc.UrcAuthApi/CheckUserPermission''"
| "grpc_path (LookupUserPermissions _ _) = ''/epic_urc.UrcAuthApi/LookupUserPermissions''"
| "grpc_path GetUserInfo = ''/epic_urc.UrcAuthApi/GetUserInfo''"
| "grpc_path GetUserId = ''/epic_urc.UrcAuthApi/GetUserId''"
| "grpc_path GetProviderUserId = ''/epic_urc.UrcAuthApi/GetProviderUserId''"
| "grpc_path (Rebac_CreateResource _ _) = ''/ucs.auth.RebacApi/CreateResource''"
| "grpc_path (Rebac_DeleteResource _) = ''/ucs.auth.RebacApi/DeleteResource''"

fun grpc_handle :: "(string \<Rightarrow> string option) \<Rightarrow> 's UrcAuthServer \<Rightarrow> 's ResourceStore \<Rightarrow> grpc_call \<Rightarrow> 's handler" where
  "grpc_handle to_str srv resources HealthCheck = grpc_health_check"
| "grpc_handle to_str srv resources (StartAuthSession cs) = grpc_start_auth_session srv cs"
| "grpc_handle to_str srv resources (GetAuthSession code cs) = grpc_get_auth_session srv code cs"
| "grpc_handle to_str srv resources RefreshAuthSession = grpc_unimplemented ''RefreshAuthSession''"
| "grpc_handle to_str srv resources VerifyUser = grpc_unimplemented ''VerifyUser''"
| "grpc_handle to_str srv resources ExchangeExternalTokenForUserToken = grpc_unimplemented ''ExchangeExternalTokenForUserToken''"
| "grpc_handle to_str srv resources ExchangeAPIKeyForUserToken = grpc_unimplemented ''ExchangeAPIKeyForUserToken''"
| "grpc_handle to_str srv resources (ExchangeUserTokenForMultiresourceToken md rids) =
     exchange_user_token_for_multiresource_token to_str srv md rids"
| "grpc_handle to_str srv resources (CheckUserPermission md rids target) = check_user_permission to_str srv md rids target"
| "grpc_handle to_str srv resources (LookupUserPermissions md f) = lookup_user_permissions to_str srv md f"
| "grpc_handle to_str srv resources GetUserInfo = grpc_unimplemented ''GetUserInfo''"
| "grpc_handle to_str srv resources GetUserId = grpc_unimplemented ''GetUserId''"
| "grpc_handle to_str srv resources GetProviderUserId = grpc_unimplemented ''GetProviderUserId''"
| "grpc_handle to_str srv resources (Rebac_CreateResource rid name) = grpc_create_resource resources rid name"
| "grpc_handle to_str srv resources (Rebac_DeleteResource rid) = grpc_delete_resource resources rid"

text \<open>The layers, the outer one first, as \<open>run\<close> of the server's \<open>main.rs\<close> stacks them.\<close>

definition RebacPeerAllowlist_call ::
  "'n IpNets \<Rightarrow> 'n list \<Rightarrow> string \<Rightarrow> IpAddr option \<Rightarrow> ('s \<Rightarrow> (Status + 'r) \<times> 's) \<Rightarrow> 's \<Rightarrow> (Status + 'r) \<times> 's" where
  "RebacPeerAllowlist_call net prefixes path remote_addr inner s =
     (if starts_with path ''/ucs.auth.RebacApi/'' \<and> \<not> peer_allowed net (peer_ip_from_request remote_addr) prefixes
      then (Inl (Status_new Code_PermissionDenied ''rebac caller is not allowed''), s)
      else inner s)"

definition RateLimit_call ::
  "nat \<Rightarrow> string \<Rightarrow> IpAddr option \<Rightarrow> ('s \<Rightarrow> (Status + 'r) \<times> 's) \<Rightarrow> Limiter \<times> 's \<Rightarrow> (Status + 'r) \<times> Limiter \<times> 's" where
  "RateLimit_call now path remote_addr inner st =
     (case st of (lim, s) \<Rightarrow>
        if path = ''/epic_urc.UrcAuthApi/StartAuthSession'' then
          case allow now (peer_key_from_request remote_addr) lim of
            (False, lim) \<Rightarrow> (Inl (Status_new Code_ResourceExhausted ''rate limit exceeded''), lim, s)
          | (True, lim) \<Rightarrow> (case inner s of (r, s) \<Rightarrow> (r, lim, s))
        else case inner s of (r, s) \<Rightarrow> (r, lim, s))"

definition GRPC_RATE_LIMIT :: nat where
  "GRPC_RATE_LIMIT = 60"

definition GRPC_RATE_LIMIT_WINDOW :: duration where
  "GRPC_RATE_LIMIT_WINDOW = duration_from_secs 60"

record ('n, 's) GrpcServer =
  gs_to_str :: "string \<Rightarrow> string option"
  gs_nets :: "'n IpNets"
  gs_prefixes :: "'n list"
  gs_auth :: "'s UrcAuthServer"
  gs_resources :: "'s ResourceStore"

definition grpc_serve ::
  "('n, 's) GrpcServer \<Rightarrow> nat \<Rightarrow> IpAddr option \<Rightarrow> grpc_call \<Rightarrow> Limiter \<times> 's \<Rightarrow> (Status + grpc_response) \<times> Limiter \<times> 's" where
  "grpc_serve srv now remote_addr call =
     RebacPeerAllowlist_call (gs_nets srv) (gs_prefixes srv) (grpc_path call) remote_addr
       (RateLimit_call now (grpc_path call) remote_addr (grpc_handle (gs_to_str srv) (gs_auth srv) (gs_resources srv) call))"

section \<open>The handlers move with their services\<close>

locale urc_world = preorder_steps R for R :: "'s \<Rightarrow> 's \<Rightarrow> bool" +
  fixes srv :: "'s UrcAuthServer"
  assumes start_session_moves [moves_intros]: "moves R (start_auth_session (us_login srv) cs)"
    and get_session_moves [moves_intros]: "moves R (get_auth_session (us_login srv) c cs)"
    and verify_authn_moves [moves_intros]: "moves R (verify_authn (us_tokens srv) b)"
    and exchange_moves [moves_intros]: "moves R (exchange_authz (us_tokens srv) a rids ttl)"
    and check_moves [moves_intros]: "moves R (permission_check (us_permissions srv) u rids)"
    and lookup_moves [moves_intros]: "moves R (permission_lookup (us_permissions srv) u f)"
begin

lemma authn_from_request_moves [moves_intros]: "moves R (authn_from_request to_str srv md)"
  unfolding authn_from_request_def by (intro moves_intros)

lemma resolve_subject_user_moves [moves_intros]: "moves R (resolve_subject_user to_str srv md target)"
  unfolding resolve_subject_user_def
  by (auto intro!: moves_intros split: option.split target_user_User.split)

lemma urc_handle_moves:
  assumes "\<And>rid name. call \<noteq> Rebac_CreateResource rid name" "\<And>rid. call \<noteq> Rebac_DeleteResource rid"
  shows "moves R (grpc_handle to_str srv resources call)"
  using assms
  by (cases call; simp only: grpc_handle.simps; (simp; fail)?; unfold grpc_health_check_def grpc_start_auth_session_def
      grpc_get_auth_session_def grpc_unimplemented_def exchange_user_token_for_multiresource_token_def
      check_user_permission_def lookup_user_permissions_def; intro moves_intros)

end

locale grpc_world = urc_world R srv for R :: "'s \<Rightarrow> 's \<Rightarrow> bool" and srv +
  fixes resources :: "'s ResourceStore"
  assumes create_moves [moves_intros]: "moves R (create_resource resources rid name)"
    and delete_moves [moves_intros]: "moves R (delete_resource resources rid)"
begin

lemma moves_deleted [moves_intros]:
  assumes "moves R m" "\<And>e. moves R (f e)"
  shows "moves R (case r of Inr _ \<Rightarrow> m | Inl NotFound \<Rightarrow> m | Inl e \<Rightarrow> f e)"
proof (cases r)
  case (Inl e)
  then show ?thesis using assms by (cases e) simp_all
qed (use assms in simp)

lemma grpc_handle_moves: "moves R (grpc_handle to_str srv resources call)"
proof (cases "(\<exists>rid name. call = Rebac_CreateResource rid name) \<or> (\<exists>rid. call = Rebac_DeleteResource rid)")
  case True
  then show ?thesis
    by (elim disjE exE; simp only: grpc_handle.simps; unfold grpc_create_resource_def grpc_delete_resource_def; intro moves_intros)
next
  case False
  then show ?thesis by (intro urc_handle_moves) auto
qed

end

end
