(* ===== verification/Grpc_Flows.thy ===== *)
theory Grpc_Flows
  imports Server_Flows Grpc_Server
begin

text \<open>
  The gRPC server on the service graph of the running server: every call moves the database along
  the steps of the store; a resource token is issued only to the holder of an authentication token
  that is on record for an active user, and only for repositories the user could write to; a
  refused exchange does not tell whether a repository exists; and only the peers of the allowlist
  change repositories.
\<close>

definition graph_grpc :: "(string \<Rightarrow> string option) \<Rightarrow> 'n IpNets \<Rightarrow> 'n list \<Rightarrow> Setup \<Rightarrow> ('n, World) GrpcServer" where
  "graph_grpc to_str nets prefixes g =
     \<lparr>gs_to_str = to_str, gs_nets = nets, gs_prefixes = prefixes,
      gs_auth = \<lparr>us_login = graph_login g, us_tokens = graph_tokens g, us_permissions = graph_permissions g\<rparr>,
      gs_resources = sqlite_resources\<rparr>"

abbreviation graph_urc :: "Setup \<Rightarrow> World UrcAuthServer" where
  "graph_urc g \<equiv> \<lparr>us_login = graph_login g, us_tokens = graph_tokens g, us_permissions = graph_permissions g\<rparr>"

interpretation graph_grpc: grpc_world world_step "graph_urc g" sqlite_resources
  by unfold_locales (simp_all add: service_moves)

lemma grpc_serve_step:
  "grpc_serve (graph_grpc to_str nets prefixes g) now remote call (lim, w) = (r, lim', w') \<Longrightarrow> world_step w w'"
  using graph_grpc.grpc_handle_moves [of to_str g call, unfolded moves_def, THEN spec, of w]
  by (auto simp: grpc_serve_def graph_grpc_def RebacPeerAllowlist_call_def RateLimit_call_def world.refl
      split: if_splits prod.splits bool.splits)

section \<open>Repositories change only through the allowlist\<close>

text \<open>When no other request changes repositories, a world step of the auth service does not.\<close>

definition repos_kept :: "World \<Rightarrow> World \<Rightarrow> bool" where
  "repos_kept w w' \<longleftrightarrow> w_others w' = w_others w \<and>
     ((\<forall>n db. t_repositories (w_others w n db) = t_repositories db) \<longrightarrow> t_repositories (w_db w') = t_repositories (w_db w))"

interpretation repos: preorder_steps repos_kept
  by unfold_locales (auto simp: repos_kept_def)

lemma repos_read [moves_intros]: "moves repos_kept (db_read f)"
  by (simp add: moves_def db_read_def Let_def repos_kept_def next_call_def)

lemma repos_outside [moves_intros]: "moves repos_kept (outside f)"
  by (simp add: moves_def outside_def repos_kept_def Let_def)

lemma repos_clock [moves_intros]: "moves repos_kept (now_op world_clock)"
  by (simp add: moves_def now_op_def world_clock_def repos_kept_def)

lemma repos_write:
  assumes "\<And>t i db a db'. f t i db = Inr (a, db') \<Longrightarrow> t_repositories db' = t_repositories db"
  shows "moves repos_kept (db_write f)"
  using assms by (auto simp: moves_def db_write_def Let_def repos_kept_def next_call_def split: sum.splits)

lemma writes_keep_repos:
  "record_token to_json tok db = Inr (a, db') \<Longrightarrow> t_repositories db' = t_repositories db"
  "create_auth_session sha code now i n cs ttl db = Inr (b, db') \<Longrightarrow> t_repositories db' = t_repositories db"
  "complete_auth_session now i u db = Inr (c, db') \<Longrightarrow> t_repositories db' = t_repositories db"
  "consume_auth_session now i db = Inr (c, db') \<Longrightarrow> t_repositories db' = t_repositories db"
  "create_browser_session now i u ttl db = Inr (d, db') \<Longrightarrow> t_repositories db' = t_repositories db"
  by (auto simp: record_token_def create_auth_session_def complete_auth_session_def consume_auth_session_def
      create_browser_session_def Let_def res_simps split: if_splits)

lemma login_keeps_repos: "resolve_login_conn n1 n2 i rq db = Inr (p, db') \<Longrightarrow> t_repositories db' = t_repositories db"
  by (auto simp: resolve_login_conn_def login_existing_def login_bind_def Let_def res_simps split: if_splits option.splits)

lemma repos_ports [moves_intros]:
  "moves repos_kept (ad_principal_by_user_id sqlite_accounts u)"
  "moves repos_kept (ad_principal_by_authn_token_jti sqlite_accounts j)"
  "moves repos_kept (ad_resolve_login sqlite_accounts rq)"
  "moves repos_kept (rs_get_by_resource_id sqlite_resources rid)"
  "moves repos_kept (rs_get_by_name sqlite_resources n)"
  "moves repos_kept (ap_can_access (rebac_policy resolve) u rid act)"
  "moves repos_kept (ap_list_accessible (rebac_policy resolve) u f)"
  "moves repos_kept (ts_sign_authn (rs256_signer jwt sg) ani)"
  "moves repos_kept (ts_sign_authz (rs256_signer jwt sg) azi)"
  "moves repos_kept (ts_verify (rs256_signer jwt sg) c vo)"
  "moves repos_kept (sqlite_log to_json tok)"
  unfolding sqlite_accounts_def sqlite_resources_def rebac_policy_def rs256_signer_def sqlite_log_def
  by (auto intro!: repos_read repos_outside repos_write intro: writes_keep_repos login_keeps_repos)

lemma repos_state [moves_intros]:
  "moves repos_kept (ss_create_auth_session (sqlite_state sha) cs ttl)"
  "moves repos_kept (ss_get_auth_session_by_code (sqlite_state sha) code)"
  "moves repos_kept (ss_get_auth_session_by_nonce (sqlite_state sha) nonce)"
  "moves repos_kept (ss_complete_auth_session (sqlite_state sha) i u)"
  "moves repos_kept (ss_consume_auth_session (sqlite_state sha) i)"
  "moves repos_kept (ss_create_browser_session (sqlite_state sha) u ttl)"
  unfolding sqlite_state_def
  by (auto intro!: repos_read repos_write intro: writes_keep_repos)

lemma repos_providers [moves_intros]:
  "moves repos_kept (ip_begin_auth (external_provider xp) b)" "moves repos_kept (ip_complete_auth (external_provider xp) c)"
  by (simp_all add: external_provider_def repos_outside)

interpretation repos_tokens: token_world repos_kept "graph_tokens g"
  by unfold_locales (auto simp: graph_tokens_def intro: repos_ports)

interpretation repos_login: login_world repos_kept "graph_login g"
  by unfold_locales (auto simp: graph_login_def graph_tokens_def registry_port_def
      intro: repos_ports repos_state repos_clock repos_providers dest!: graph_idps_external)

interpretation repos_urc: urc_world repos_kept "graph_urc g"
  by unfold_locales
    (simp_all add: repos_login.start_auth_session_moves repos_login.get_auth_session_moves repos_tokens.verify_authn_moves
      repos_tokens.exchange_authz_moves repos.permission_check_moves graph_permissions_def permission_lookup_def repos_ports)

text \<open>A sequence of calls, each with the instant it arrives at and the address it comes from.\<close>

definition grpc_run :: "('n, 's) GrpcServer \<Rightarrow> (nat \<times> IpAddr option \<times> grpc_call) list \<Rightarrow> Limiter \<times> 's \<Rightarrow> Limiter \<times> 's" where
  "grpc_run srv calls st = fold (\<lambda>(now, remote, call) st. snd (grpc_serve srv now remote call st)) calls st"

fun rebac_call :: "grpc_call \<Rightarrow> bool" where
  "rebac_call (Rebac_CreateResource _ _) = True"
| "rebac_call (Rebac_DeleteResource _) = True"
| "rebac_call _ = False"

lemma rebac_path: "starts_with (grpc_path call) ''/ucs.auth.RebacApi/'' \<longleftrightarrow> rebac_call call"
  by (cases call) simp_all

lemma grpc_serve_repos:
  assumes "rebac_call call \<Longrightarrow> \<not> peer_allowed nets (peer_ip_from_request remote) prefixes"
  shows "repos_kept (snd st) (snd (snd (grpc_serve (graph_grpc to_str nets prefixes g) now remote call st)))"
proof (cases "rebac_call call")
  case True
  with assms show ?thesis
    by (simp add: grpc_serve_def graph_grpc_def RebacPeerAllowlist_call_def rebac_path repos.refl)
next
  case False
  then have "moves repos_kept (grpc_handle to_str (graph_urc g) sqlite_resources call)"
    by (intro repos_urc.urc_handle_moves) auto
  then have "repos_kept (snd st) (snd (grpc_handle to_str (graph_urc g) sqlite_resources call (snd st)))"
    by (simp add: moves_def)
  with False show ?thesis
    by (auto simp: grpc_serve_def graph_grpc_def RebacPeerAllowlist_call_def RateLimit_call_def rebac_path repos.refl
        split: prod.splits bool.splits)
qed

text \<open>C16: Only allowed peers change repositories: over any sequence of gRPC calls in which every call of
  the resource service comes from an address outside the allowlist or from no address, and while
  no other writer changes repositories, the table of repositories stays as it is.\<close>

theorem repositories_behind_allowlist:
  assumes "\<forall>n db. t_repositories (w_others w n db) = t_repositories db"
    and "\<forall>(now, remote, call) \<in> set calls. rebac_call call \<longrightarrow> \<not> peer_allowed nets (peer_ip_from_request remote) prefixes"
  shows "t_repositories (w_db (snd (grpc_run (graph_grpc to_str nets prefixes g) calls (lim, w)))) = t_repositories (w_db w)"
proof -
  have "repos_kept (snd st) (snd (grpc_run (graph_grpc to_str nets prefixes g) calls st))" for st :: "Limiter \<times> World"
    using assms(2)
  proof (induction calls arbitrary: st)
    case (Cons c calls)
    obtain now remote call where c: "c = (now, remote, call)" by (cases c)
    let ?st = "snd (grpc_serve (graph_grpc to_str nets prefixes g) now remote call st)"
    have "repos_kept (snd st) (snd ?st)" using Cons.prems c by (intro grpc_serve_repos) auto
    moreover have "repos_kept (snd ?st) (snd (grpc_run (graph_grpc to_str nets prefixes g) calls ?st))"
      using Cons.prems by (intro Cons.IH) auto
    ultimately show ?case by (auto simp: grpc_run_def c intro: repos.trans)
  qed (simp add: grpc_run_def repos.refl)
  from this [of "(lim, w)"] assms(1) show ?thesis by (simp add: repos_kept_def)
qed

section \<open>Resource tokens over gRPC\<close>

text \<open>An authentication token is on record: it was issued to an active user, is not revoked and has not
  expired.\<close>

definition authn_on_record :: "Db \<Rightarrow> i64 \<Rightarrow> string \<Rightarrow> string \<Rightarrow> bool" where
  "authn_on_record db now jti u \<longleftrightarrow> (\<exists>t \<in> set (t_issued_tokens db). \<exists>r \<in> set (t_users db).
     kr_jti t = jti \<and> kr_token_kind t = ''authn'' \<and> kr_revoked_at t = None \<and> now < kr_expires_at t \<and>
     kr_user_id t = Some u \<and> ur_id r = u \<and> ur_status r = ''active'')"

lemma verified_authn:
  assumes "others_ok w" "db_inv (w_db w)" "verify_authn (graph_tokens g) bearer w = (Inr authn, w')"
  obtains claims where "jw_decode (st_jwt g) (compact_of_bearer bearer) = Inr claims"
    "tc_issuer (st_token_cfg g) = [] \<or> cl_issuer claims = tc_issuer (st_token_cfg g)"
    "tc_auth_service_audience (st_token_cfg g) = [] \<or> tc_auth_service_audience (st_token_cfg g) \<in> set (cl_audience claims)"
    "authn_on_record (w_db w') (w_times w' (w_call w') 0) (cl_jti claims) (tp_user_id (va_principal authn))"
    "world_step w w'"
proof -
  have step: "world_step w w'" using assms(3) by (rule world.moves_run [OF graph_tokens.verify_authn_moves])
  with assms(1,2) have ok: "schema_ok (w_db w')" by (blast dest: world_step_inv db_inv_schema)
  from assms(3) obtain t v p w1 where
    1: "signer_verify (st_jwt g) (st_signer g) t (compact_of_bearer bearer)
      \<lparr>vo_issuer = tc_issuer (st_token_cfg g), vo_audience = tc_auth_service_audience (st_token_cfg g)\<rparr> = Inr v"
    "Inr p = principal_by_authn_token_jti (w_times w' (w_call w') 0) (w_db w') (vt_jti v)"
    "tp_user_id (va_principal authn) = tp_user_id p"
    by (auto simp: verify_authn_def Let_def res_simps graph_tokens_def rs256_signer_def outside_def sqlite_accounts_def
        db_read_iff split: if_splits)
  from signer_verify_Inr [OF 1(1)] obtain claims where
    c: "jw_decode (st_jwt g) (compact_of_bearer bearer) = Inr claims" "vt_jti v = cl_jti claims"
    "validate_claims claims \<lparr>vo_issuer = tc_issuer (st_token_cfg g), vo_audience = tc_auth_service_audience (st_token_cfg g)\<rparr>
       (Signer_now (st_signer g) t) = Inr ()" by metis
  moreover from 1(2) have "authn_on_record (w_db w') (w_times w' (w_call w') 0) (cl_jti claims) (tp_user_id p)"
    unfolding c(2) eq_commute [of "Inr p"] principal_by_jti_iff [OF ok] authn_on_record_def
    by (fastforce simp: principal_from_user_def user_from_row_def)
  ultimately show ?thesis using that step 1(3) by (auto simp: validate_claims_Inr)
qed


section \<open>A refused exchange hides repositories\<close>

lemma checked_denied:
  assumes "quiet g w" "db_inv (w_db w)" "plain_repository_ids (w_db w)" "resolver_ok (st_resolve g)"
    "resolver_answers (st_resolve g)" "rid \<in> set rids"
    "\<not> could_write (w_db w) u (urc_prefix @ repository_id_from_resource_id rid)"
  shows "\<exists>e w'. checked_resources (graph_tokens g) u rids w = (Inl e, w') \<and> e \<in> {NotFound, PermissionDenied}"
  using assms(1-3,6,7)
proof (induction rids arbitrary: w)
  case (Cons x xs)
  note ok = db_inv_schema [OF Cons.prems(2)]
  show ?case
  proof (cases "get_by_resource_id (w_db w) x")
    case (Inl e)
    then have "e = NotFound" by (auto simp: get_by_resource_id_def Let_def res_simps)
    with Inl Cons.prems(1) show ?thesis
      by (simp add: bind_op_def graph_tokens_def sqlite_resources_def quiet_read [where g = g])
  next
    case (Inr res)
    then obtain r where r: "r \<in> set (t_repositories (w_db w))" "rr_lore_repository_id r = repository_id_from_resource_id x"
      "rr_status r = ''active''" "res = resource_from_row r"
      by (auto simp: get_by_resource_id_iff [OF ok])
    have rid: "r_resource_id res = urc_prefix @ repository_id_from_resource_id x"
      using plain_resource_id [OF Cons.prems(3) r(1)] r(2,4) by (simp add: resource_from_row_def)
    have "repository_id_from_resource_id (urc_prefix @ repository_id_from_resource_id x) = repository_id_from_resource_id x"
      by (simp add: repository_id_from_resource_id_def)
    then have "active_repository (w_db w) (repository_id_from_resource_id (r_resource_id res))"
      using r(1-3) unfolding rid by (auto simp: active_repository_def list_ex_iff)
    moreover have "grants_ok (w_db w)" using Cons.prems(2) by (simp add: db_inv_def)
    ultimately obtain b where b: "can_access (st_resolve g) (w_db w) u (r_resource_id res) ''write'' = Inr b"
      using can_access_answers [OF _ _ assms(5)] by blast
    note step = Inr b Cons.prems(1)
    show ?thesis
    proof (cases b)
      case True
      with can_access_answer [OF assms(4) b] can_access_missing [of "w_db w" "r_resource_id res" "st_resolve g" u "''write''"] b
      have "could_write (w_db w) u (r_resource_id res)" by (auto simp: could_write_def)
      with Cons.prems(4,5) rid have "rid \<in> set xs" by auto
      with Cons.IH [of "tick (tick w)"] Cons.prems True step show ?thesis
        by (auto simp: bind_op_def graph_tokens_def sqlite_resources_def rebac_policy_def quiet_read [where g = g])
    next
      case False
      with step show ?thesis
        by (auto simp: bind_op_def fail_op_def graph_tokens_def sqlite_resources_def rebac_policy_def quiet_read [where g = g])
    qed
  qed
qed simp

lemma verify_quiet:
  assumes "quiet g w" "verify_authn (graph_tokens g) bearer w = (Inr authn, w1)"
  shows "w1 = tick (tick w)"
  using assms by (auto simp: verify_authn_def Let_def res_simps graph_tokens_def rs256_signer_def outside_def
      sqlite_accounts_def db_read_iff split: if_splits)


section \<open>A concrete gRPC server\<close>

definition demo_authn_row :: issued_tokens_row where
  "demo_authn_row = \<lparr>kr_jti = ''a1'', kr_token_kind = ''authn'', kr_user_id = Some ''u1'', kr_service_account_id = None,
     kr_repository_id = None, kr_lore_resource_id = None, kr_role = ''authn'', kr_kid = ''k1'', kr_audience_json = [],
     kr_issued_at = 1, kr_expires_at = 100, kr_revoked_at = None\<rparr>"

definition demo_grpc_db :: Db where
  "demo_grpc_db = demo_served\<lparr>t_issued_tokens := [demo_authn_row]\<rparr>"

definition demo_grpc_world :: World where
  "demo_grpc_world = demo_world\<lparr>w_db := demo_grpc_db\<rparr>"

definition demo_authn_claims :: LoreClaims where
  "demo_authn_claims = \<lparr>cl_subject = ''user:u1'', cl_issuer = ''bridge'', cl_issued_at = 1, cl_expires_at = 100,
     cl_audience = [''lore'', ''host''], cl_env = ''prod'', cl_name = ''u1'', cl_preferred_username = ''u1'',
     cl_resources = [], cl_groups = [], cl_is_service_account = Some False, cl_idp = ''bridge'', cl_jti = ''a1''\<rparr>"

definition demo_grpc_claims :: LoreClaims where
  "demo_grpc_claims = demo_authz_claims\<lparr>cl_name := ''user:u1'', cl_preferred_username := ''bob@x.org'', cl_groups := [''dev'']\<rparr>"

definition grpc_jwt :: Jwt where
  "grpc_jwt = demo_jwt\<lparr>
     jw_encode_claims := (\<lambda>c. if c = demo_grpc_claims then Inr ''c'' else Inl (Crypto ''claims'')),
     jw_decode_header := (\<lambda>t. Inr \<lparr>dh_alg = ''RS256'', dh_kid = Some ''k1''\<rparr>),
     jw_decode := (\<lambda>t. if t = ''h.c.s'' then Inr demo_grpc_claims else if t = ''h.a.s'' then Inr demo_authn_claims else Inl ''signature'')\<rparr>"

definition demo_nets :: "IpAddr IpNets" where
  "demo_nets = \<lparr>in_parse_addr = (\<lambda>_. Inl ''address''), in_parse_net = (\<lambda>_. Inl ''prefix''), in_new = (\<lambda>a bits. Inr a),
     in_contains = (\<lambda>n a. n = a)\<rparr>"

abbreviation demo_grpc :: "Jwt \<Rightarrow> (IpAddr, World) GrpcServer" where
  "demo_grpc jwt \<equiv> graph_grpc Some demo_nets [V4 1] (demo_setup jwt)"

definition demo_metadata :: metadata where
  "demo_metadata = [''authorization'' \<mapsto> ''Bearer h.a.s'']"

lemma demo_grpc_facts:
  "schema_ok demo_grpc_db" "grants_ok demo_grpc_db" "plain_repository_ids demo_grpc_db"
  "compact_of_bearer ''Bearer h.a.s'' = ''h.a.s''" "bearer_from_request Some demo_metadata = Some ''Bearer h.a.s''"
  "principal_by_authn_token_jti 50 demo_grpc_db ''a1'' = Inr \<lparr>tp_user_id = ''u1'', tp_token_subject = ''user:u1'',
     tp_token_idp = ''bridge'', tp_display_name = ''user:u1'', tp_preferred_username = ''bob@x.org'', tp_groups = [''dev'']\<rparr>"
  "\<not> active_repository demo_grpc_db (repository_id_from_resource_id (urc_prefix @ repository_id_from_resource_id ''urc-none''))"
  by (code_simp | simp add: demo_metadata_def bearer_from_request_def, code_simp)+

lemma demo_grpc_world_facts:
  "others_ok demo_grpc_world" "w_db demo_grpc_world = demo_grpc_db" "db_inv (w_db demo_grpc_world)"
  "quiet (demo_setup jwt) demo_grpc_world"
proof -
  have "db_inv demo_grpc_db"
    using demo_grpc_facts(1,2) demo_groups_edges(1)
    by (simp add: db_inv_def nesting_acyclic_def descendant_edges_def demo_grpc_db_def demo_served_def demo_access_def)
  then show "others_ok demo_grpc_world" "w_db demo_grpc_world = demo_grpc_db" "db_inv (w_db demo_grpc_world)"
    "quiet (demo_setup jwt) demo_grpc_world"
    by (simp_all add: others_ok_def demo_grpc_world_def demo_world_def quiet_def demo_setup_def default_ttl_def duration_from_secs_def
      nanos_per_sec_def i64_max_def demo_grpc_db_def demo_authn_row_def)
qed

lemma demo_grpc_authn:
  "\<exists>authn. authn_from_request Some (graph_urc (demo_setup grpc_jwt)) demo_metadata demo_grpc_world = (Inr authn, tick (tick demo_grpc_world)) \<and>
     va_principal authn = \<lparr>tp_user_id = ''u1'', tp_token_subject = ''user:u1'',
     tp_token_idp = ''bridge'', tp_display_name = ''user:u1'', tp_preferred_username = ''bob@x.org'', tp_groups = [''dev'']\<rparr>"
proof -
  have "w_times demo_grpc_world = (\<lambda>_ _. 50)" "w_nanos demo_grpc_world = (\<lambda>_. 7000000000)"
    by (simp_all add: demo_grpc_world_def demo_world_def)
  then show ?thesis
    using demo_grpc_facts(4-6) demo_grpc_world_facts(2,4)
    by (simp add: authn_from_request_def verify_authn_def Let_def bind_op_def map_err_op_def return_op_def graph_tokens_def
        sqlite_accounts_def rs256_signer_def outside_def quiet_read [where g = "demo_setup grpc_jwt"] demo_setup_def
        signer_verify_def grpc_jwt_def demo_jwt_def demo_signer_def ALG_RS256_def Signer_now_def validate_claims_def
        unix_seconds_def nanos_per_sec_def i64_max_def demo_authn_claims_def)
qed

lemma demo_grpc_granted: "granted demo_grpc_db u rid role \<longleftrightarrow> granted demo_served u rid role"
  by (simp add: granted_def granted_repositories_def grant_reaches_def groups_of_def parent_edges_def memberships_def
      demo_grpc_db_def)

lemma demo_grpc_serves: "serves demo_grpc_db ''u1'' demo_repo"
  using demo_served_serves demo_grpc_world_facts(2,3) demo_grpc_facts(3)
  unfolding serves_def could_write_def demo_grpc_granted
  by (simp add: demo_grpc_db_def active_repository_def)

lemma demo_grpc_exchange:
  assumes "va_principal authn = \<lparr>tp_user_id = ''u1'', tp_token_subject = ''user:u1'', tp_token_idp = ''bridge'',
     tp_display_name = ''user:u1'', tp_preferred_username = ''bob@x.org'', tp_groups = [''dev'']\<rparr>"
  shows "\<exists>signed w'. exchange_authz (graph_tokens (demo_setup grpc_jwt)) authn [''urc-game''] None (tick (tick demo_grpc_world)) = (Inr signed, w')"
proof -
  let ?g = "demo_setup grpc_jwt"
  define w4 where "w4 = tick (tick (tick (tick demo_grpc_world)))"
  define input where "input = \<lparr>az_issuer = ''bridge'', az_audience = [''lore''], az_subject = ''user:u1'', az_name = ''user:u1'',
     az_preferred_username = ''bob@x.org'', az_groups = [''dev''], az_idp = ''bridge'',
     az_resources = [\<lparr>rp_resource_id = ''urc-game'', rp_permission = [Read, Write]\<rparr>],
     az_ttl = duration_from_secs 900, az_now = None, az_jti = []\<rparr>"
  obtain signed where s: "ts_sign_authz (rs256_signer grpc_jwt demo_signer) input w4 = (Inr signed, tick w4)" "st_jti signed = ''j1''"
    by (simp add: rs256_signer_def outside_def sign_authz_def new_authz_claims_def claim_defs grpc_jwt_def demo_jwt_defs
        demo_grpc_claims_def demo_authz_claims_def model_resource_to_claim_resource_def input_def w4_def demo_grpc_world_def demo_world_def)
  have "quiet ?g (tick w4)" "serves (w_db (tick w4)) ''u1'' demo_repo" "st_jti signed = w_ids (tick w4) 0 0"
    using demo_grpc_world_facts demo_grpc_serves s(2) by (simp_all add: w4_def, simp_all add: demo_grpc_world_def demo_world_def)
  from quiet_record [OF this, of "''authz''" "''authz''"] obtain w' where
    w': "token_record (graph_tokens ?g) signed ''u1'' ''authz'' ''authz'' (tick w4) = (Inr (), w')" by blast
  show ?thesis
    using s(1) w' serves_lookup(3) [OF demo_grpc_serves] serves_access [OF demo_grpc_serves demo_resolver_ok]
      demo_served_facts(5) demo_grpc_world_facts(2,4) assms
    by (simp add: exchange_authz_def bind_op_def map_err_op_def return_op_def graph_tokens_def sqlite_resources_def
        rebac_policy_def quiet_read [where g = ?g] demo_setup_def input_def w4_def)
qed



theorem repositories_behind_allowlist_witness:
  "t_repositories (w_db (snd (grpc_run (demo_grpc any_jwt)
     [(0, Some (V4 2), Rebac_DeleteResource ''urc-game''), (1, None, Rebac_CreateResource ''urc-x'' ''x''), (2, Some (V4 2), StartAuthSession ''cs'')]
     (Limiter_new 60 60, demo_world)))) = [demo_repo]"
proof -
  have "\<forall>n db. t_repositories (w_others demo_world n db) = t_repositories db" by (simp add: demo_world_def)
  moreover have "t_repositories (w_db demo_world) = [demo_repo]" by (simp add: demo_world_def demo_served_def demo_access_def)
  ultimately show ?thesis
    by (subst repositories_behind_allowlist) (simp_all add: peer_allowed_def peer_ip_from_request_def demo_nets_def)
qed

end
