(* ===== verification/Http_Base.thy ===== *)
theory Http_Base
  imports Core_Login Core_Device Grpc_Server
begin

text \<open>
  The shared parts of the HTTP server: responses (\<open>httpserver/response.rs\<close>), bodies (\<open>body.rs\<close>),
  browser sessions, cookies and the origin check (\<open>session.rs\<close>) and the middleware
  (\<open>middleware.rs\<close>). A handler is an operation whose early returns are its errors, both of them
  responses. Parameters, in a record: header values, JSON, form and URL parsing, percent encoding.
  Header names are lower case, and a header map is a list of pairs with the first value first.
\<close>

section \<open>Third-party code\<close>

record Url =
  url_scheme :: string
  url_host :: "string option"
  url_port :: "nat option"

datatype json = JStr string | JInt i64

record DeviceStartRequest =
  dsr_remote_url :: string
  dsr_repository :: string

record DeviceTokenRequest =
  dtr_device_code :: string

record HttpLib =
  hl_to_str :: "string \<Rightarrow> string option"
  hl_header_value :: "string \<Rightarrow> string option"
  hl_json :: "(string \<times> json) list \<Rightarrow> string"
  hl_device_start :: "string \<Rightarrow> DeviceStartRequest option"
  hl_device_token :: "string \<Rightarrow> DeviceTokenRequest option"
  hl_form :: "string \<Rightarrow> (string \<rightharpoonup> string) option"
  hl_query :: "string \<Rightarrow> (string \<times> string) list"
  hl_query_pair :: "string \<Rightarrow> string \<Rightarrow> string"
  hl_controls :: "char \<Rightarrow> bool"
  hl_percent_encode :: "(char \<Rightarrow> bool) \<Rightarrow> string \<Rightarrow> string"
  hl_url :: "string \<Rightarrow> Url option"

section \<open>Responses\<close>

type_synonym headers = "(string \<times> string) list"

record Response =
  rp_status :: nat
  rp_headers :: headers
  rp_body :: string

type_synonym ('a, 's) http = "(Response, 'a, 's) op"

text \<open>\<open>HeaderMap\<close>: \<open>get\<close> finds the first value, \<open>insert\<close> replaces all, \<open>append\<close> adds one.\<close>

definition header_get :: "headers \<Rightarrow> string \<Rightarrow> string option" where
  "header_get hs name = map_of hs name"

definition header_insert :: "string \<Rightarrow> string \<Rightarrow> headers \<Rightarrow> headers" where
  "header_insert name v hs = filter (\<lambda>(n, _). n \<noteq> name) hs @ [(name, v)]"

definition header_append :: "string \<Rightarrow> string \<Rightarrow> headers \<Rightarrow> headers" where
  "header_append name v hs = hs @ [(name, v)]"

definition replace_char :: "char \<Rightarrow> string \<Rightarrow> string \<Rightarrow> string" where
  "replace_char c r s = concat (map (\<lambda>x. if x = c then r else [x]) s)"

definition html_escape :: "string \<Rightarrow> string" where
  "html_escape s =
     replace_char (CHR 0x27) ''&#39;'' (replace_char (CHR 0x22) ''&quot;'' (replace_char (CHR ''>'') ''&gt;''
       (replace_char (CHR ''<'') ''&lt;'' (replace_char (CHR ''&'') ''&amp;'' s))))"

definition response_with_headers :: "HttpLib \<Rightarrow> nat \<Rightarrow> string \<Rightarrow> (string \<times> string) list \<Rightarrow> Response" where
  "response_with_headers lib status body headers =
     \<lparr>rp_status = status,
      rp_headers = fold (\<lambda>(name, value) hs. case hl_header_value lib value of
        Some v \<Rightarrow> header_insert name v hs | None \<Rightarrow> hs) headers [],
      rp_body = body\<rparr>"

definition redirect_found :: "HttpLib \<Rightarrow> string \<Rightarrow> Response" where
  "redirect_found lib location = response_with_headers lib 302 [] [(''location'', location)]"

definition html_response :: "HttpLib \<Rightarrow> nat \<Rightarrow> string \<Rightarrow> Response" where
  "html_response lib status body = response_with_headers lib status body [(''content-type'', ''text/html; charset=utf-8'')]"

definition text_response :: "HttpLib \<Rightarrow> nat \<Rightarrow> string \<Rightarrow> Response" where
  "text_response lib status body = response_with_headers lib status body [(''content-type'', ''text/plain; charset=utf-8'')]"

definition json_response :: "HttpLib \<Rightarrow> nat \<Rightarrow> (string \<times> json) list \<Rightarrow> Response" where
  "json_response lib status body =
     response_with_headers lib status (hl_json lib body) [(''content-type'', ''application/json'')]"

definition append_header :: "HttpLib \<Rightarrow> string \<Rightarrow> string \<Rightarrow> Response \<Rightarrow> Response" where
  "append_header lib name value r =
     (case hl_header_value lib value of Some v \<Rightarrow> r\<lparr>rp_headers := header_append name v (rp_headers r)\<rparr> | None \<Rightarrow> r)"

definition string_or :: "string \<Rightarrow> string \<Rightarrow> string" where
  "string_or a b = (if a = [] then b else a)"

section \<open>Bodies\<close>

text \<open>The bytes of a request body, or none when reading it fails.\<close>

type_synonym body = "string option"

definition MAX_JSON_BODY_BYTES :: nat where
  "MAX_JSON_BODY_BYTES = 64 * 1024"

definition limited_body :: "HttpLib \<Rightarrow> body \<Rightarrow> string \<Rightarrow> Response + string" where
  "limited_body lib body too_large_message =
     (case body of
        Some bytes \<Rightarrow> if length bytes \<le> MAX_JSON_BODY_BYTES then Inr bytes else Inl (text_response lib 413 too_large_message)
      | None \<Rightarrow> Inl (text_response lib 413 too_large_message))"

definition decode_json_body :: "HttpLib \<Rightarrow> (string \<Rightarrow> 'a option) \<Rightarrow> body \<Rightarrow> Response + 'a" where
  "decode_json_body lib from_slice body =
     and_then (limited_body lib body ''json body too large'') (\<lambda>bytes.
     ok_or (text_response lib 400 ''invalid json'') (from_slice bytes))"

definition parse_form_body :: "HttpLib \<Rightarrow> body \<Rightarrow> Response + (string \<rightharpoonup> string)" where
  "parse_form_body lib body =
     and_then (limited_body lib body ''form body too large'') (\<lambda>bytes.
     ok_or (text_response lib 400 ''invalid form'') (hl_form lib bytes))"

text \<open>\<open>cloned().unwrap_or_default()\<close>.\<close>

definition field :: "(string \<rightharpoonup> string) \<Rightarrow> string \<Rightarrow> string" where
  "field m name = (case m name of Some v \<Rightarrow> v | None \<Rightarrow> [])"

section \<open>Configuration and state\<close>

record 'n AdminConfig =
  ac_admin_emails :: "string list"
  ac_allowed_peer_cidrs :: "'n list"

definition AdminConfig_enabled :: "'n AdminConfig \<Rightarrow> bool" where
  "AdminConfig_enabled cfg \<longleftrightarrow> ac_admin_emails cfg \<noteq> []"

record 'n HttpConfig =
  hc_public_base_url :: string
  hc_lore_auth_url :: string
  hc_default_remote_url :: string
  hc_session_ttl :: duration
  hc_admin :: "'n AdminConfig"

record 's HttpServices =
  hs_login :: "'s LoginService option"
  hs_tokens :: "'s TokenService"
  hs_resources :: "'s ResourceStore"
  hs_permissions :: "'s PermissionService"
  hs_accounts :: "'s AccountDirectory"
  hs_admin_writes :: "'s AdminWritePortFactory"
  hs_groups :: "'s GroupQuery"
  hs_grants :: "'s GrantQuery"
  hs_state :: "'s StateStore"
  hs_jwks :: "'s TokenSigner"
  hs_device :: "'s DeviceService option"

record ('n, 's) AppState =
  app_lib :: HttpLib
  app_cfg :: "'n HttpConfig"
  app_services :: "'s HttpServices"

definition SESSION_COOKIE_NAME :: string where
  "SESSION_COOKIE_NAME = ''lore_auth_session''"

definition STATE_COOKIE_NAME :: string where
  "STATE_COOKIE_NAME = ''lore_oauth_state''"

definition LOGIN_SESSION_COOKIE_NAME :: string where
  "LOGIN_SESSION_COOKIE_NAME = ''lore_login_session''"

definition LOGIN_STATE_TTL :: duration where
  "LOGIN_STATE_TTL = duration_from_secs (10 * 60)"

definition CSRF_TTL :: duration where
  "CSRF_TTL = duration_from_secs (10 * 60)"

definition RATE_LIMIT :: nat where
  "RATE_LIMIT = 60"

definition RATE_LIMIT_WINDOW :: duration where
  "RATE_LIMIT_WINDOW = duration_from_secs 60"

section \<open>Browser sessions\<close>

text \<open>\<open>str::split\<close> and \<open>split_once\<close> at a character.\<close>

fun split_char :: "char \<Rightarrow> string \<Rightarrow> string list" where
  "split_char c [] = [[]]"
| "split_char c (x # s) =
     (if x = c then [] # split_char c s
      else case split_char c s of p # ps \<Rightarrow> (x # p) # ps | [] \<Rightarrow> [[x]])"

fun split_once :: "char \<Rightarrow> string \<Rightarrow> (string \<times> string) option" where
  "split_once c [] = None"
| "split_once c (x # s) =
     (if x = c then Some ([], s) else map_option (\<lambda>(a, b). (x # a, b)) (split_once c s))"

fun find_cookie :: "string \<Rightarrow> string list \<Rightarrow> string option" where
  "find_cookie name [] = None"
| "find_cookie name (part # parts) =
     (case split_once (CHR ''='') (trim part) of
        None \<Rightarrow> None
      | Some (key, value) \<Rightarrow> if key = name then Some value else find_cookie name parts)"

definition cookie_value :: "HttpLib \<Rightarrow> headers \<Rightarrow> string \<Rightarrow> string option" where
  "cookie_value lib headers name =
     (case Option.bind (header_get headers ''cookie'') (hl_to_str lib) of
        None \<Rightarrow> None
      | Some raw \<Rightarrow> find_cookie name (split_char (CHR '';'') raw))"

record HttpBrowserSession =
  hb_user :: User
  hb_session_id :: string

definition current_browser_session ::
  "HttpLib \<Rightarrow> 's StateStore \<Rightarrow> headers \<Rightarrow> (HttpBrowserSession option, 's) port" where
  "current_browser_session lib state headers =
     (case cookie_value lib headers SESSION_COOKIE_NAME of
        None \<Rightarrow> return_op None
      | Some session_id \<Rightarrow>
          if session_id = [] then return_op None
          else catch_op (ss_user_by_browser_session state session_id) (\<lambda>r. case r of
              Inr user \<Rightarrow> return_op (Some \<lparr>hb_user = user, hb_session_id = session_id\<rparr>)
            | Inl NotFound \<Rightarrow> return_op None
            | Inl err \<Rightarrow> fail_op err))"

definition current_user :: "('n, 's) AppState \<Rightarrow> headers \<Rightarrow> (User option, 's) port" where
  "current_user st headers =
     bind_op (current_browser_session (app_lib st) (hs_state (app_services st)) headers) (\<lambda>session.
     return_op (map_option hb_user session))"

text \<open>The match that most handlers start with: the session, or the answer for a request without one.\<close>

definition require_session :: "('n, 's) AppState \<Rightarrow> headers \<Rightarrow> Response \<Rightarrow> (HttpBrowserSession, 's) http" where
  "require_session st headers no_session =
     catch_op (current_browser_session (app_lib st) (hs_state (app_services st)) headers) (\<lambda>r. case r of
         Inr (Some session) \<Rightarrow> return_op session
       | Inr None \<Rightarrow> fail_op no_session
       | Inl _ \<Rightarrow> fail_op (text_response (app_lib st) 500 ''session unavailable''))"

definition same_origin :: "HttpLib \<Rightarrow> 'n HttpConfig \<Rightarrow> headers \<Rightarrow> bool" where
  "same_origin lib cfg headers =
     (case hl_url lib (hc_public_base_url cfg) of
        None \<Rightarrow> False
      | Some public_url \<Rightarrow>
          let value = (case header_get headers ''origin'' of Some v \<Rightarrow> Some v | None \<Rightarrow> header_get headers ''referer'');
              raw = (case Option.bind value (hl_to_str lib) of Some r \<Rightarrow> r | None \<Rightarrow> [])
          in raw \<noteq> [] \<and>
             (case hl_url lib raw of
                None \<Rightarrow> False
              | Some got \<Rightarrow> url_scheme got = url_scheme public_url \<and> url_host got = url_host public_url \<and>
                  url_port got = url_port public_url))"

definition csrf_token_from_request :: "HttpLib \<Rightarrow> headers \<Rightarrow> body \<Rightarrow> Response + string" where
  "csrf_token_from_request lib headers body =
     (case Option.bind (header_get headers ''x-csrf-token'') (hl_to_str lib) of
        Some token \<Rightarrow>
          if trim token \<noteq> [] then Inr (trim token)
          else and_then (parse_form_body lib body) (\<lambda>form. Inr (field form ''csrf_token''))
      | None \<Rightarrow> and_then (parse_form_body lib body) (\<lambda>form. Inr (field form ''csrf_token'')))"

definition is_secure :: "HttpLib \<Rightarrow> headers \<Rightarrow> bool" where
  "is_secure lib headers =
     (case Option.bind (header_get headers ''x-forwarded-proto'') (hl_to_str lib) of
        Some value \<Rightarrow> eq_ignore_ascii_case value ''https''
      | None \<Rightarrow> False)"

definition i64_to_string :: "i64 \<Rightarrow> string" where
  "i64_to_string n = (if n < 0 then ''-'' @ radix 10 (nat (- n)) else radix 10 (nat n))"

definition session_cookie :: "string \<Rightarrow> i64 \<Rightarrow> bool \<Rightarrow> string" where
  "session_cookie value expires_at secure =
     SESSION_COOKIE_NAME @ ''='' @ value @ ''; Path=/; HttpOnly; SameSite=Lax; Expires='' @ i64_to_string expires_at @
     (if secure then ''; Secure'' else [])"

definition clear_cookie :: "string \<Rightarrow> string" where
  "clear_cookie name = name @ ''=; Path=/; Max-Age=0; HttpOnly; SameSite=Lax''"

text \<open>The check that every form starts with: the CSRF token is consumed, or the request is refused.\<close>

definition consume_csrf_or :: "('n, 's) AppState \<Rightarrow> HttpBrowserSession \<Rightarrow> string \<Rightarrow> (unit, 's) http" where
  "consume_csrf_or st session csrf =
     map_err_op (\<lambda>_. text_response (app_lib st) 403 ''invalid csrf token'')
       (ss_consume_csrf_token (hs_state (app_services st)) (hb_session_id session) csrf)"

section \<open>Middleware\<close>

definition security_headers :: "string \<Rightarrow> ('s \<Rightarrow> Response \<times> 's) \<Rightarrow> 's \<Rightarrow> Response \<times> 's" where
  "security_headers path next s =
     (case next s of (r, s) \<Rightarrow>
        (r\<lparr>rp_headers :=
           header_insert ''content-security-policy''
             (if starts_with path ''/admin''
              then ''default-src 'none'; base-uri 'none'; connect-src 'self'; form-action 'self'; frame-ancestors 'none'; object-src 'none'; script-src 'self'; style-src 'self'' @ [CHR 0x27]
              else ''default-src 'none'; base-uri 'none'; form-action 'self'; frame-ancestors 'none'; object-src 'none'; script-src 'none'' @ [CHR 0x27])
           (header_insert ''referrer-policy'' ''no-referrer''
           (header_insert ''x-content-type-options'' ''nosniff'' (rp_headers r)))\<rparr>, s))"

definition is_rate_limited_http_path :: "string \<Rightarrow> bool" where
  "is_rate_limited_http_path path \<longleftrightarrow>
     path \<in> {''/api/device/start'', ''/api/device/token'', ''/login''} \<or>
     starts_with path ''/auth/'' \<and> strip_suffix ''/start'' path \<noteq> None"

definition http_peer_key :: "IpAddr option \<Rightarrow> string" where
  "http_peer_key remote = (case remote of Some ip \<Rightarrow> ip_to_string ip | None \<Rightarrow> [])"

text \<open>The limiter of this server has its own code, with the pruning written in place.\<close>

definition HttpLimiter_allow :: "nat \<Rightarrow> string \<Rightarrow> Limiter \<Rightarrow> bool \<times> Limiter" where
  "HttpLimiter_allow now key lim =
     (if li_limit lim = 0 \<or> li_window lim = 0 then (True, lim)
      else
        case Option.bind (li_buckets lim key) (\<lambda>b. if now - bk_start b < li_window lim then Some b else None) of
          None \<Rightarrow>
            let buckets = (li_buckets lim)(key \<mapsto> \<lparr>bk_start = now, bk_count = 1\<rparr>) in
            (True, lim\<lparr>li_buckets := (\<lambda>k. Option.bind (buckets k) (\<lambda>b. if now - bk_start b < li_window lim then Some b else None))\<rparr>)
        | Some bucket \<Rightarrow>
            if bk_count bucket \<ge> li_limit lim then (False, lim)
            else (True, lim\<lparr>li_buckets := (li_buckets lim)(key \<mapsto> bucket\<lparr>bk_count := bk_count bucket + 1\<rparr>)\<rparr>))"

lemma HttpLimiter_allow_eq: "HttpLimiter_allow = allow"
proof (intro ext)
  fix now key lim
  have prune: "prune buckets now w = (\<lambda>k. Option.bind (buckets k) (\<lambda>b. if now - bk_start b < w then Some b else None))" for buckets w
    by (auto simp: prune_def fun_eq_iff split: option.splits)
  show "HttpLimiter_allow now key lim = allow now key lim"
    unfolding HttpLimiter_allow_def allow_def Let_def prune ..
qed

definition rate_limit_public ::
  "HttpLib \<Rightarrow> nat \<Rightarrow> string \<Rightarrow> IpAddr option \<Rightarrow> ('s \<Rightarrow> Response \<times> 's) \<Rightarrow> Limiter \<times> 's \<Rightarrow> Response \<times> Limiter \<times> 's" where
  "rate_limit_public lib now path remote next st =
     (case st of (lim, s) \<Rightarrow>
        if is_rate_limited_http_path path then
          case HttpLimiter_allow now (http_peer_key remote) lim of
            (False, lim) \<Rightarrow> (text_response lib 429 ''rate limit exceeded'', lim, s)
          | (True, lim) \<Rightarrow> (case next s of (r, s) \<Rightarrow> (r, lim, s))
        else case next s of (r, s) \<Rightarrow> (r, lim, s))"

section \<open>Escaping\<close>

definition escape_one :: "char \<Rightarrow> string" where
  "escape_one c =
     (if c = CHR ''&'' then ''&amp;'' else if c = CHR ''<'' then ''&lt;'' else if c = CHR ''>'' then ''&gt;''
      else if c = CHR 0x22 then ''&quot;'' else if c = CHR 0x27 then ''&#39;'' else [c])"

lemma replace_char_append: "replace_char c r (s @ t) = replace_char c r s @ replace_char c r t"
  by (simp add: replace_char_def)

lemma html_escape_Cons: "html_escape (c # s) = escape_one c @ html_escape s"
proof -
  have split: "html_escape ([c] @ s) = html_escape [c] @ html_escape s"
    unfolding html_escape_def by (simp only: replace_char_append)
  have "html_escape [c] = escape_one c"
    by (auto simp: html_escape_def escape_one_def replace_char_def)
  with split show ?thesis by simp
qed

lemma html_escape_concat: "html_escape s = concat (map escape_one s)"
  by (induction s) (simp add: html_escape_def replace_char_def, simp add: html_escape_Cons)

lemma escape_one_prefix_free: "escape_one c @ s = escape_one d @ t \<Longrightarrow> c = d \<and> s = t"
  by (simp add: escape_one_def split: if_splits)

lemma escape_one_ne [simp]: "escape_one c \<noteq> []"
  by (simp add: escape_one_def)

lemma html_escape_Nil [simp]: "html_escape [] = []" "html_escape s = [] \<longleftrightarrow> s = []"
  by (auto simp: html_escape_concat)

lemma html_escape_inj: "html_escape s = html_escape t \<Longrightarrow> s = t"
proof (induction s arbitrary: t)
  case (Cons c s)
  then obtain d u where t: "t = d # u" by (cases t) (auto simp: html_escape_Cons)
  with Cons.prems have "c = d \<and> html_escape s = html_escape u"
    by (intro escape_one_prefix_free) (simp add: html_escape_Cons)
  with Cons.IH t show ?case by simp
qed (simp add: eq_commute [of "[]"])

text \<open>C24: Text put on a page stays text: the five replacements together escape each character on its own,
  the result has no angle bracket and no quote of either kind, so that it ends no tag and no
  attribute, and no two different texts look the same on the page.\<close>

theorem html_escape_safe:
  "html_escape s = concat (map escape_one s) \<and>
   set (html_escape s) \<inter> {CHR ''<'', CHR ''>'', CHR 0x22, CHR 0x27} = {} \<and> inj html_escape"
proof (intro conjI)
  show "html_escape s = concat (map escape_one s)" by (rule html_escape_concat)
  show "set (html_escape s) \<inter> {CHR ''<'', CHR ''>'', CHR 0x22, CHR 0x27} = {}"
    by (auto simp: html_escape_concat escape_one_def split: if_splits)
  show "inj html_escape" by (auto intro: injI html_escape_inj)
qed

end
