(* ===== verification/Http_Server.thy ===== *)
theory Http_Server
  imports Http_Base
begin

text \<open>
  The handlers of the HTTP server (\<open>httpserver/login.rs\<close>, \<open>session.rs\<close>, \<open>tokens.rs\<close>, \<open>device.rs\<close>)
  over any services; the random nonce of a login is an argument.
\<close>

section \<open>Pages of a session\<close>

definition bool_to_string :: "bool \<Rightarrow> string" where
  "bool_to_string b = (if b then ''true'' else ''false'')"

definition ExternalIdentity_default :: ExternalIdentity where
  "ExternalIdentity_default = \<lparr>ei_id = [], ei_user_id = [], ei_provider_id = [], ei_issuer = [], ei_subject = [],
     ei_subject_strategy = [], ei_email = [], ei_email_verified = False, ei_display_name = [], ei_picture_url = [],
     ei_hosted_domain = [], ei_status = []\<rparr>"

definition render_whoami :: "HttpLib \<Rightarrow> ExternalIdentity \<Rightarrow> Response" where
  "render_whoami lib i = html_response lib 200
     (''<h1>Identity</h1><dl><dt>issuer</dt><dd>'' @ html_escape (ei_issuer i) @
      ''</dd><dt>subject</dt><dd>'' @ html_escape (ei_subject i) @
      ''</dd><dt>email</dt><dd>'' @ html_escape (ei_email i) @
      ''</dd><dt>email_verified</dt><dd>'' @ bool_to_string (ei_email_verified i) @
      ''</dd><dt>name</dt><dd>'' @ html_escape (ei_display_name i) @
      ''</dd><dt>hosted_domain</dt><dd>'' @ html_escape (ei_hosted_domain i) @
      ''</dd></dl><p>Ask the administrator to invite this verified email. No Lore token was issued.</p>'')"

text \<open>Matching on \<open>current_user\<close>.\<close>

definition match_user ::
  "('n, 's) AppState \<Rightarrow> headers \<Rightarrow> (User \<Rightarrow> Response) \<Rightarrow> Response \<Rightarrow> (Response, 's) http" where
  "match_user st headers some_user no_user =
     catch_op (current_user st headers) (\<lambda>r. case r of
         Inr (Some user) \<Rightarrow> return_op (some_user user)
       | Inr None \<Rightarrow> return_op no_user
       | Inl _ \<Rightarrow> return_op (text_response (app_lib st) 500 ''session unavailable''))"

definition handle_whoami :: "('n, 's) AppState \<Rightarrow> headers \<Rightarrow> (Response, 's) http" where
  "handle_whoami st headers = match_user st headers
     (\<lambda>user. render_whoami (app_lib st) (ExternalIdentity_default\<lparr>ei_issuer := ''bridge'', ei_subject := bridge_subject user,
        ei_email := u_email user, ei_display_name := u_display_name user\<rparr>))
     (text_response (app_lib st) 401 ''not logged in'')"

definition handle_me :: "('n, 's) AppState \<Rightarrow> headers \<Rightarrow> (Response, 's) http" where
  "handle_me st headers = match_user st headers
     (\<lambda>user. json_response (app_lib st) 200 [(''id'', JStr (u_id user)), (''email'', JStr (u_email user)),
        (''subject'', JStr (bridge_subject user)), (''status'', JStr (u_status user))])
     (text_response (app_lib st) 401 ''not logged in'')"

definition handle_session_csrf :: "('n, 's) AppState \<Rightarrow> headers \<Rightarrow> (Response, 's) http" where
  "handle_session_csrf st headers =
     (let lib = app_lib st in
      bind_op (require_session st headers (text_response lib 401 ''not logged in'')) (\<lambda>session.
      bind_op (map_err_op (\<lambda>_. text_response lib 500 ''csrf unavailable'')
        (ss_create_csrf_token (hs_state (app_services st)) (hb_session_id session) CSRF_TTL)) (\<lambda>token.
      return_op (response_with_headers lib 200 (hl_json lib [(''csrf_token'', JStr token)])
        [(''content-type'', ''application/json''), (''cache-control'', ''no-store''), (''pragma'', ''no-cache'')]))))"

definition handle_logout :: "('n, 's) AppState \<Rightarrow> headers \<Rightarrow> body \<Rightarrow> (Response, 's) http" where
  "handle_logout st headers body =
     (let lib = app_lib st;
          done = return_op (response_with_headers lib 204 [] [(''set-cookie'', clear_cookie SESSION_COOKIE_NAME)]) in
      bind_op (map_err_op (\<lambda>_. text_response lib 500 ''session unavailable'')
        (current_browser_session lib (hs_state (app_services st)) headers)) (\<lambda>session.
      case session of
        None \<Rightarrow> done
      | Some session \<Rightarrow>
          if \<not> same_origin lib (app_cfg st) headers then fail_op (text_response lib 403 ''invalid origin'')
          else
            bind_op (read_op (\<lambda>_. csrf_token_from_request lib headers body)) (\<lambda>csrf.
            if csrf = [] then fail_op (text_response lib 403 ''invalid csrf token'')
            else
              bind_op (consume_csrf_or st session csrf) (\<lambda>_.
              catch_op (ss_revoke_browser_session (hs_state (app_services st)) (hb_session_id session)) (\<lambda>r. case r of
                  Inr _ \<Rightarrow> done
                | Inl NotFound \<Rightarrow> done
                | Inl _ \<Rightarrow> fail_op (text_response lib 500 ''session unavailable''))))))"

section \<open>Login\<close>

definition LF :: string where
  "LF = [CHR 0x0A]"

definition handle_healthz :: "HttpLib \<Rightarrow> (Response, 's) http" where
  "handle_healthz lib = return_op (text_response lib 200 (''ok'' @ LF))"

definition handle_index :: "('n, 's) AppState \<Rightarrow> headers \<Rightarrow> (Response, 's) http" where
  "handle_index st headers = match_user st headers
     (\<lambda>user. text_response (app_lib st) 200
        (''lore-auth-bridge'' @ LF @ ''logged in as '' @ string_or (u_email user) (bridge_subject user) @ LF))
     (text_response (app_lib st) 200 (''lore-auth-bridge'' @ LF @ ''GET /login'' @ LF))"

definition handle_jwks :: "('n, 's) AppState \<Rightarrow> (Response, 's) http" where
  "handle_jwks st =
     bind_op (map_err_op (\<lambda>_. text_response (app_lib st) 500 ''jwks unavailable'') (ts_jwks (hs_jwks (app_services st)))) (\<lambda>body.
     return_op (response_with_headers (app_lib st) 200 body [(''content-type'', ''application/json'')]))"

definition path_segment_encode_set :: "HttpLib \<Rightarrow> char \<Rightarrow> bool" where
  "path_segment_encode_set lib c \<longleftrightarrow> hl_controls lib c \<or>
     c \<in> {CHR '' '', CHR 0x22, CHR ''#'', CHR ''%'', CHR ''<'', CHR ''>'', CHR ''?'', CHR 0x60, CHR ''{'', CHR ''}'', CHR ''/''}"

definition encode_path_segment :: "HttpLib \<Rightarrow> string \<Rightarrow> string" where
  "encode_path_segment lib value = hl_percent_encode lib (path_segment_encode_set lib) value"

definition auth_start_path :: "HttpLib \<Rightarrow> string \<Rightarrow> string \<Rightarrow> string" where
  "auth_start_path lib provider_id login_nonce =
     ''/auth/'' @ encode_path_segment lib provider_id @ ''/start'' @
     (if login_nonce \<noteq> [] then ''?'' @ hl_query_pair lib ''login_nonce'' login_nonce else [])"

definition auth_callback_url :: "HttpLib \<Rightarrow> 'n HttpConfig \<Rightarrow> string \<Rightarrow> string" where
  "auth_callback_url lib cfg provider_id =
     trim_end_matches (CHR ''/'') (hc_public_base_url cfg) @ ''/auth/'' @ encode_path_segment lib provider_id @ ''/callback''"

definition provider_picker_html :: "HttpLib \<Rightarrow> IdentityProviderDescriptor list \<Rightarrow> string \<Rightarrow> string" where
  "provider_picker_html lib providers login_nonce =
     ''<h1>Choose identity provider</h1>'' @ LF @ ''<ul>'' @ LF @
     concat (map (\<lambda>p. ''  <li><a href='' @ [CHR 0x22] @ html_escape (auth_start_path lib (ipd_id p) login_nonce) @ [CHR 0x22] @
        ''>'' @ html_escape (string_or (ipd_display_name p) (ipd_id p)) @ ''</a></li>'' @ LF) providers) @ ''</ul>''"

definition login_not_configured :: "HttpLib \<Rightarrow> Response" where
  "login_not_configured lib = text_response lib 503 ''identity provider login not configured''"

definition with_login :: "('n, 's) AppState \<Rightarrow> ('s LoginService \<Rightarrow> (Response, 's) http) \<Rightarrow> (Response, 's) http" where
  "with_login st f =
     (case hs_login (app_services st) of None \<Rightarrow> fail_op (login_not_configured (app_lib st)) | Some login \<Rightarrow> f login)"

text \<open>The end of the two login pages: a provider of the query, the only provider, or a list.\<close>

definition choose_provider :: "HttpLib \<Rightarrow> 's LoginService \<Rightarrow> (string \<rightharpoonup> string) \<Rightarrow> string \<Rightarrow> (Response, 's) http" where
  "choose_provider lib login query nonce =
     (if field query ''provider'' \<noteq> [] then return_op (redirect_found lib (auth_start_path lib (field query ''provider'') nonce))
      else case login_providers login of
        [] \<Rightarrow> return_op (login_not_configured lib)
      | [p] \<Rightarrow> return_op (redirect_found lib (auth_start_path lib (ipd_id p) nonce))
      | providers \<Rightarrow> return_op (html_response lib 200 (provider_picker_html lib providers nonce)))"

definition handle_login :: "('n, 's) AppState \<Rightarrow> (string \<rightharpoonup> string) \<Rightarrow> (Response, 's) http" where
  "handle_login st query = with_login st (\<lambda>login. choose_provider (app_lib st) login query [])"

text \<open>A login session must exist.\<close>

definition check_login_session :: "('n, 's) AppState \<Rightarrow> string \<Rightarrow> (unit, 's) http" where
  "check_login_session st nonce =
     catch_op (ss_get_auth_session_by_nonce (hs_state (app_services st)) nonce) (\<lambda>r. case r of
         Inr _ \<Rightarrow> return_op ()
       | Inl NotFound \<Rightarrow> fail_op (text_response (app_lib st) 404 ''unknown or expired login session'')
       | Inl AuthSessionNotFound \<Rightarrow> fail_op (text_response (app_lib st) 404 ''unknown or expired login session'')
       | Inl _ \<Rightarrow> fail_op (text_response (app_lib st) 500 ''login session unavailable''))"

definition handle_login_session :: "('n, 's) AppState \<Rightarrow> string \<Rightarrow> (string \<rightharpoonup> string) \<Rightarrow> (Response, 's) http" where
  "handle_login_session st nonce query =
     with_login st (\<lambda>login.
     bind_op (check_login_session st nonce) (\<lambda>_. choose_provider (app_lib st) login query nonce))"

fun write_login_provider_error :: "HttpLib \<Rightarrow> CoreError \<Rightarrow> Response" where
  "write_login_provider_error lib Unsupported = login_not_configured lib"
| "write_login_provider_error lib NotFound = text_response lib 404 ''unknown identity provider''"
| "write_login_provider_error lib _ = text_response lib 500 ''login unavailable''"

definition handle_auth_start ::
  "('n, 's) AppState \<Rightarrow> string \<Rightarrow> string \<Rightarrow> (string \<rightharpoonup> string) \<Rightarrow> (Response, 's) http" where
  "handle_auth_start st nonce provider_id query =
     (let lib = app_lib st; state = hs_state (app_services st) in
      with_login st (\<lambda>login.
      if \<not> has_provider login provider_id then fail_op (text_response lib 404 ''unknown identity provider'')
      else
        let login_nonce = field query ''login_nonce'' in
        bind_op (if login_nonce \<noteq> [] then check_login_session st login_nonce else return_op ()) (\<lambda>_.
        bind_op (map_err_op (\<lambda>_. text_response lib 500 ''state failed'') (ss_create_login_state state
            \<lparr>li_provider_id = provider_id, li_nonce = nonce, li_login_url_nonce = login_nonce, li_return_path = [],
             li_private_state = []\<rparr> LOGIN_STATE_TTL)) (\<lambda>(oauth_state, _).
        bind_op (map_err_op (write_login_provider_error lib) (begin_auth login provider_id
            (BeginAuthRequest_default\<lparr>bq_state := oauth_state, bq_nonce := nonce,
               bq_redirect_url := auth_callback_url lib (app_cfg st) provider_id\<rparr>))) (\<lambda>result.
        bind_op (if ba_private_state result \<noteq> []
           then map_err_op (\<lambda>_. text_response lib 500 ''state failed'')
             (ss_set_login_state_private_state state oauth_state (ba_private_state result))
           else return_op ()) (\<lambda>_.
        return_op (redirect_found lib (ba_redirect_url result))))))))"

definition query_params :: "HttpLib \<Rightarrow> string \<Rightarrow> string \<rightharpoonup> string list" where
  "query_params lib raw =
     fold (\<lambda>(key, value) out. out(key \<mapsto> (case out key of Some vs \<Rightarrow> vs @ [value] | None \<Rightarrow> [value])))
       (hl_query lib raw) Map.empty"

definition first_param :: "(string \<rightharpoonup> string list) \<Rightarrow> string \<Rightarrow> string" where
  "first_param params name = (case params name of Some (v # _) \<Rightarrow> v | _ \<Rightarrow> [])"

fun callback_error :: "HttpLib \<Rightarrow> CoreError \<Rightarrow> Response" where
  "callback_error lib Unsupported = login_not_configured lib"
| "callback_error lib NotFound = text_response lib 404 ''unknown identity provider''"
| "callback_error lib PermissionDenied = text_response lib 403 ''login forbidden''"
| "callback_error lib Unauthenticated = text_response lib 401 ''identity provider login failed''"
| "callback_error lib _ = text_response lib 500 ''login unavailable''"

definition consume_state_or :: "('n, 's) AppState \<Rightarrow> string \<Rightarrow> (LoginState, 's) http" where
  "consume_state_or st oauth_state =
     catch_op (ss_consume_login_state (hs_state (app_services st)) oauth_state) (\<lambda>r. case r of
         Inr login_state \<Rightarrow>
           if oauth_state \<noteq> [] then return_op login_state
           else fail_op (text_response (app_lib st) 400 ''invalid oauth state'')
       | Inl _ \<Rightarrow> fail_op (text_response (app_lib st) 400 ''invalid oauth state''))"

text \<open>The callback once its state is consumed.\<close>

definition finish_auth_callback ::
  "('n, 's) AppState \<Rightarrow> 's LoginService \<Rightarrow> string \<Rightarrow> headers \<Rightarrow> (string \<rightharpoonup> string list) \<Rightarrow> string \<Rightarrow> LoginState \<Rightarrow> (Response, 's) http" where
  "finish_auth_callback st login provider_id headers params oauth_state login_state =
     (let lib = app_lib st in
      if ls_provider_id login_state \<noteq> provider_id then fail_op (text_response lib 400 ''invalid oauth state'')
      else
        bind_op (map_err_op (callback_error lib) (complete_auth login provider_id
            \<lparr>cq_code = first_param params ''code'', cq_state = oauth_state, cq_nonce = ls_nonce login_state,
             cq_redirect_url = auth_callback_url lib (app_cfg st) provider_id, cq_params = params,
             cq_private_state = ls_private_state login_state\<rparr> (ls_login_url_nonce login_state))) (\<lambda>result.
        if oc_unknown_user result then return_op (render_whoami lib (oc_identity result))
        else if oc_cli_complete result then
          return_op (response_with_headers lib 200 ''<h1>Login complete</h1><p>You can return to the Lore CLI.</p>''
            [(''content-type'', ''text/html; charset=utf-8''), (''set-cookie'', clear_cookie LOGIN_SESSION_COOKIE_NAME)])
        else
          return_op (append_header lib ''set-cookie'' (clear_cookie STATE_COOKIE_NAME)
            (append_header lib ''set-cookie'' (session_cookie (bs_id (oc_browser_session result))
               (bs_expires_at (oc_browser_session result)) (is_secure lib headers)) (redirect_found lib ''/'')))))"

definition handle_auth_callback :: "('n, 's) AppState \<Rightarrow> string \<Rightarrow> headers \<Rightarrow> string \<Rightarrow> (Response, 's) http" where
  "handle_auth_callback st provider_id headers raw_query =
     with_login st (\<lambda>login.
     let params = query_params (app_lib st) raw_query; oauth_state = first_param params ''state'' in
     bind_op (consume_state_or st oauth_state) (\<lambda>login_state.
     finish_auth_callback st login provider_id headers params oauth_state login_state))"

section \<open>Tokens\<close>

definition Q :: string where
  "Q = [CHR 0x22]"

definition token_page_html :: "User \<Rightarrow> Resource list \<Rightarrow> string \<Rightarrow> string" where
  "token_page_html user repos csrf_token =
     ''<h1>Issue Lore token</h1><p>User: '' @ html_escape (u_email user) @ ''</p><form method='' @ Q @ ''post'' @ Q @
     '' action='' @ Q @ ''/tokens/mint'' @ Q @ ''><input type='' @ Q @ ''hidden'' @ Q @ '' name='' @ Q @ ''csrf_token'' @ Q @
     '' value='' @ Q @ html_escape csrf_token @ Q @ ''><label>Repository<select name='' @ Q @ ''repository'' @ Q @ ''>'' @
     concat (map (\<lambda>repo. ''<option value='' @ Q @ html_escape (r_name repo) @ Q @ ''>'' @ html_escape (r_name repo) @ ''</option>'') repos) @
     ''</select></label><button type='' @ Q @ ''submit'' @ Q @ ''>Issue writer token</button></form>''"

definition token_result_html :: "string \<Rightarrow> string \<Rightarrow> string \<Rightarrow> string \<Rightarrow> string" where
  "token_result_html token auth_url remote_url repo =
     ''<h1>Lore token issued</h1><p>Repository: '' @ html_escape repo @
     ''</p><p>Copy this command:</p><pre>lore auth login --token-type lore --token '' @ html_escape token @ '' --auth-url '' @
     html_escape auth_url @ '' '' @ html_escape remote_url @ ''</pre><p>Token:</p><textarea rows='' @ Q @ ''8'' @ Q @ '' cols='' @ Q @
     ''100'' @ Q @ ''>'' @ html_escape token @ ''</textarea>''"

fun write_token_issue_error :: "HttpLib \<Rightarrow> CoreError \<Rightarrow> Response" where
  "write_token_issue_error lib (InvalidArgument _) = text_response lib 400 ''invalid token request''"
| "write_token_issue_error lib NotFound = text_response lib 403 ''token not authorized''"
| "write_token_issue_error lib PermissionDenied = text_response lib 403 ''token not authorized''"
| "write_token_issue_error lib _ = text_response lib 500 ''token unavailable''"

text \<open>Collecting into a \<open>HashMap\<close>: a later resource replaces an earlier one of the same id.\<close>

definition writable_repos :: "Resource list \<Rightarrow> ResourcePermission list \<Rightarrow> Resource list" where
  "writable_repos resources accessible =
     (let by_resource_id = fold (\<lambda>r m. m(r_resource_id r \<mapsto> r)) resources Map.empty in
      List.map_filter (\<lambda>p. by_resource_id (rp_resource_id p)) (filter (\<lambda>p. Write \<in> set (rp_permission p)) accessible))"

definition handle_token_page :: "('n, 's) AppState \<Rightarrow> headers \<Rightarrow> (Response, 's) http" where
  "handle_token_page st headers =
     (let lib = app_lib st; unavailable = text_response lib 500 ''repositories unavailable'' in
      bind_op (require_session st headers (redirect_found lib ''/login'')) (\<lambda>session.
      bind_op (map_err_op (\<lambda>_. unavailable)
        (permission_lookup (hs_permissions (app_services st)) (u_id (hb_user session)) \<lparr>rf_prefix = []\<rparr>)) (\<lambda>accessible.
      bind_op (map_err_op (\<lambda>_. unavailable) (rs_list (hs_resources (app_services st)))) (\<lambda>resources.
      bind_op (map_err_op (\<lambda>_. text_response lib 500 ''token page unavailable'')
        (ss_create_csrf_token (hs_state (app_services st)) (hb_session_id session) CSRF_TTL)) (\<lambda>csrf.
      return_op (html_response lib 200
        (token_page_html (hb_user session) (writable_repos resources accessible) csrf)))))))"

definition handle_token_mint :: "('n, 's) AppState \<Rightarrow> headers \<Rightarrow> body \<Rightarrow> (Response, 's) http" where
  "handle_token_mint st headers body =
     (let lib = app_lib st; cfg = app_cfg st in
      bind_op (require_session st headers (redirect_found lib ''/login'')) (\<lambda>session.
      if \<not> same_origin lib cfg headers then fail_op (text_response lib 403 ''invalid origin'')
      else
        bind_op (read_op (\<lambda>_. parse_form_body lib body)) (\<lambda>form.
        let csrf = field form ''csrf_token'' in
        if csrf = [] then fail_op (text_response lib 403 ''invalid csrf token'')
        else
          bind_op (consume_csrf_or st session csrf) (\<lambda>_.
          let repo = field form ''repository'' in
          if repo = [] then fail_op (text_response lib 400 ''repository is required'')
          else
            bind_op (map_err_op (write_token_issue_error lib)
              (manual_mint_authz (hs_tokens (app_services st)) (u_id (hb_user session)) repo ''writer'' None)) (\<lambda>token.
            return_op (response_with_headers lib 200
              (token_result_html (st_token token) (hc_lore_auth_url cfg) (hc_default_remote_url cfg) repo)
              [(''content-type'', ''text/html; charset=utf-8''), (''cache-control'', ''no-store''), (''pragma'', ''no-cache''),
               (''referrer-policy'', ''no-referrer'')]))))))"

section \<open>Devices\<close>

fun write_device_error :: "HttpLib \<Rightarrow> CoreError \<Rightarrow> Response" where
  "write_device_error lib DeviceInvalidCode = text_response lib 400 ''invalid device code''"
| "write_device_error lib DeviceExpiredCode = text_response lib 400 ''device code expired''"
| "write_device_error lib DeviceAuthorizationNotPending = text_response lib 400 ''invalid device authorization''"
| "write_device_error lib (InvalidArgument _) = text_response lib 400 ''invalid device authorization''"
| "write_device_error lib NotFound = text_response lib 404 ''device repository not found''"
| "write_device_error lib PermissionDenied = text_response lib 403 ''device authorization denied''"
| "write_device_error lib _ = text_response lib 500 ''device flow unavailable''"

definition with_device :: "('n, 's) AppState \<Rightarrow> ('s DeviceService \<Rightarrow> (Response, 's) http) \<Rightarrow> (Response, 's) http" where
  "with_device st f =
     (case hs_device (app_services st) of
        None \<Rightarrow> fail_op (text_response (app_lib st) 503 ''device flow not configured'')
      | Some device \<Rightarrow> f device)"

definition device_confirm_html :: "string \<Rightarrow> string \<Rightarrow> PreviewResult \<Rightarrow> string" where
  "device_confirm_html user_code csrf_token pv =
     ''<h1>Authorize device</h1><dl><dt>Repository</dt><dd>'' @ html_escape (repo_name (pv_repository pv)) @
     ''</dd><dt>Repository remote</dt><dd>'' @ html_escape (repo_remote_url (pv_repository pv)) @
     ''</dd><dt>Requested remote</dt><dd>'' @ html_escape (pv_requested_remote_url pv) @
     ''</dd></dl><form method='' @ Q @ ''post'' @ Q @ '' action='' @ Q @ ''/device/approve'' @ Q @ ''><input type='' @ Q @ ''hidden'' @ Q @
     '' name='' @ Q @ ''user_code'' @ Q @ '' value='' @ Q @ html_escape user_code @ Q @ ''><input type='' @ Q @ ''hidden'' @ Q @
     '' name='' @ Q @ ''csrf_token'' @ Q @ '' value='' @ Q @ html_escape csrf_token @ Q @ ''><button type='' @ Q @ ''submit'' @ Q @
     ''>Approve</button></form>''"

definition device_form_html :: string where
  "device_form_html =
     ''<h1>Authorize device</h1><form method='' @ Q @ ''get'' @ Q @ '' action='' @ Q @ ''/device'' @ Q @ ''><input name='' @ Q @
     ''user_code'' @ Q @ '' placeholder='' @ Q @ ''AB12-CD34'' @ Q @ ''><button type='' @ Q @ ''submit'' @ Q @ ''>Continue</button></form>''"

definition handle_device_page :: "('n, 's) AppState \<Rightarrow> (string \<rightharpoonup> string) \<Rightarrow> headers \<Rightarrow> (Response, 's) http" where
  "handle_device_page st query headers =
     (let lib = app_lib st in
      with_device st (\<lambda>device.
      let user_code = field query ''user_code'' in
      if user_code = [] then return_op (html_response lib 200 device_form_html)
      else
        bind_op (require_session st headers (redirect_found lib ''/login'')) (\<lambda>session.
        bind_op (map_err_op (write_device_error lib) (preview device user_code)) (\<lambda>pv.
        bind_op (map_err_op (\<lambda>_. text_response lib 500 ''device approval unavailable'')
          (ss_create_csrf_token (hs_state (app_services st)) (hb_session_id session) CSRF_TTL)) (\<lambda>csrf.
        return_op (html_response lib 200 (device_confirm_html user_code csrf pv)))))))"

definition handle_device_approve :: "('n, 's) AppState \<Rightarrow> headers \<Rightarrow> body \<Rightarrow> (Response, 's) http" where
  "handle_device_approve st headers body =
     (let lib = app_lib st in
      with_device st (\<lambda>device.
      bind_op (require_session st headers (redirect_found lib ''/login'')) (\<lambda>session.
      if \<not> same_origin lib (app_cfg st) headers then fail_op (text_response lib 403 ''invalid origin'')
      else
        bind_op (read_op (\<lambda>_. parse_form_body lib body)) (\<lambda>form.
        let user_code = field form ''user_code''; csrf = field form ''csrf_token'' in
        if user_code = [] \<or> csrf = [] then fail_op (text_response lib 403 ''invalid csrf token'')
        else
          bind_op (consume_csrf_or st session csrf) (\<lambda>_.
          bind_op (map_err_op (write_device_error lib) (device_approve device (u_id (hb_user session)) user_code)) (\<lambda>repo.
          return_op (html_response lib 200
            (''<h1>Device approved</h1><p>Repository: '' @ html_escape (repo_name repo) @ ''</p>''))))))))"

definition handle_device_start :: "('n, 's) AppState \<Rightarrow> body \<Rightarrow> (Response, 's) http" where
  "handle_device_start st body =
     (let lib = app_lib st in
      with_device st (\<lambda>device.
      bind_op (read_op (\<lambda>_. decode_json_body lib (hl_device_start lib) body)) (\<lambda>req.
      let remote_url = (if dsr_remote_url req = [] then hc_default_remote_url (app_cfg st) else dsr_remote_url req) in
      bind_op (map_err_op (write_device_error lib) (device_start device remote_url (dsr_repository req))) (\<lambda>result.
      return_op (json_response lib 200 [(''device_code'', JStr (start_device_code result)), (''user_code'', JStr (start_user_code result)),
        (''verification_uri'', JStr (start_verification_uri result)), (''expires_in'', JInt (start_expires_in result)),
        (''interval'', JInt (start_interval result))])))))"

definition handle_device_token :: "('n, 's) AppState \<Rightarrow> body \<Rightarrow> (Response, 's) http" where
  "handle_device_token st body =
     (let lib = app_lib st in
      with_device st (\<lambda>device.
      bind_op (read_op (\<lambda>_. decode_json_body lib (hl_device_token lib) body)) (\<lambda>req.
      bind_op (map_err_op (write_device_error lib) (device_token device (dtr_device_code req))) (\<lambda>result.
      return_op (json_response lib 200 [(''status'', JStr (tok_status result)), (''token_type'', JStr (tok_token_type result)),
        (''access_token'', JStr (tok_access_token result)), (''expires_in'', JInt (tok_expires_in result)),
        (''auth_url'', JStr (tok_auth_url result)), (''remote_url'', JStr (tok_remote_url result))])))))"

section \<open>Answers\<close>

definition respond :: "(Response, 's) http \<Rightarrow> 's \<Rightarrow> Response \<times> 's" where
  "respond m s = (case m s of (Inl r, s) \<Rightarrow> (r, s) | (Inr r, s) \<Rightarrow> (r, s))"

section \<open>Early returns\<close>

text \<open>No early return of an operation has the status 200, so that an answer with it comes from the end.\<close>

definition refuses :: "('a, 's) http \<Rightarrow> bool" where
  "refuses m \<longleftrightarrow> (\<forall>s r s'. m s = (Inl r, s') \<longrightarrow> rp_status r \<noteq> 200)"

named_theorems refuses_intros \<open>early returns refuse\<close>

lemma status_simps [simp]:
  "rp_status (response_with_headers lib n b hs) = n" "rp_body (response_with_headers lib n b hs) = b"
  "rp_status (text_response lib n m) = n" "rp_status (html_response lib n m) = n" "rp_status (redirect_found lib m) = 302"
  by (simp_all add: text_response_def html_response_def redirect_found_def response_with_headers_def)

lemma error_status [simp]:
  "rp_status (write_token_issue_error lib e) \<noteq> 200" "rp_status (write_device_error lib e) \<noteq> 200"
  by (cases e; simp)+

lemma refuses_ops [refuses_intros]:
  "refuses (return_op a)" "rp_status r \<noteq> 200 \<Longrightarrow> refuses (fail_op r)"
  "(\<And>e. rp_status (f e) \<noteq> 200) \<Longrightarrow> refuses (map_err_op f m)"
  by (auto simp: refuses_def res_simps)

lemma refuses_bind [refuses_intros]: "refuses m \<Longrightarrow> (\<And>a. refuses (f a)) \<Longrightarrow> refuses (bind_op m f)"
  unfolding refuses_def bind_op_Inl_iff by blast

lemma refuses_if [refuses_intros]: "refuses m \<Longrightarrow> refuses n \<Longrightarrow> refuses (if b then m else n)"
  by simp

lemma refuses_form [refuses_intros]: "refuses (read_op (\<lambda>_. parse_form_body lib body))"
  by (auto simp: refuses_def res_simps parse_form_body_def limited_body_def split: option.splits if_splits)

lemma refuses_session [refuses_intros]: "rp_status no \<noteq> 200 \<Longrightarrow> refuses (require_session st hs no)"
  by (auto simp: refuses_def require_session_def catch_op_def res_simps split: prod.splits sum.splits option.splits)

lemma refuses_csrf [refuses_intros]: "refuses (consume_csrf_or st session csrf)"
  unfolding consume_csrf_or_def by (intro refuses_intros) simp

lemma mint_refuses: "refuses (handle_token_mint st hs body)"
  unfolding handle_token_mint_def Let_def by (intro refuses_intros) simp_all

lemma approve_refuses: "refuses (handle_device_approve st hs body)"
  unfolding handle_device_approve_def with_device_def Let_def
  by (cases "hs_device (app_services st)") (simp_all add: refuses_ops, intro refuses_intros, simp_all)

lemma respond_200: "refuses m \<Longrightarrow> respond m w = (r, w') \<Longrightarrow> rp_status r = 200 \<Longrightarrow> m w = (Inr r, w')"
  by (auto simp: respond_def refuses_def split: prod.splits sum.splits)

section \<open>The handlers move with their services\<close>

text \<open>The services that any page of the server reads through.\<close>

locale page_world = preorder_steps R for R :: "'s \<Rightarrow> 's \<Rightarrow> bool" +
  fixes st :: "('n, 's) AppState"
  assumes session_moves [moves_intros]: "moves R (ss_user_by_browser_session (hs_state (app_services st)) i)"
    and create_csrf_moves [moves_intros]: "moves R (ss_create_csrf_token (hs_state (app_services st)) i ttl)"
    and consume_csrf_moves [moves_intros]: "moves R (ss_consume_csrf_token (hs_state (app_services st)) i tok)"
    and lookup_moves [moves_intros]: "moves R (permission_lookup (hs_permissions (app_services st)) u f)"
    and list_moves [moves_intros]: "moves R (rs_list (hs_resources (app_services st)))"
begin

lemma moves_found [moves_intros]:
  assumes "\<And>a. moves R (f a)" "moves R n" "\<And>e. moves R (g e)"
  shows "moves R (case r of Inr a \<Rightarrow> f a | Inl NotFound \<Rightarrow> n | Inl e \<Rightarrow> g e)"
proof (cases r)
  case (Inl e)
  then show ?thesis using assms by (cases e) simp_all
qed (use assms in simp)

lemma current_browser_session_moves [moves_intros]:
  "moves R (current_browser_session (app_lib st) (hs_state (app_services st)) hs)"
  unfolding current_browser_session_def by (intro moves_intros)

lemma moves_session [moves_intros]:
  assumes "\<And>a. moves R (f a)" "moves R n" "\<And>e. moves R (g e)"
  shows "moves R (case r of Inr (Some a) \<Rightarrow> f a | Inr None \<Rightarrow> n | Inl e \<Rightarrow> g e)"
  using assms by (auto split: sum.split option.split)

lemma match_user_moves [moves_intros]: "moves R (match_user st hs f n)"
  unfolding match_user_def current_user_def by (intro moves_intros)

lemma require_session_moves [moves_intros]: "moves R (require_session st hs n)"
  unfolding require_session_def by (intro moves_intros)

lemma consume_csrf_or_moves [moves_intros]: "moves R (consume_csrf_or st session csrf)"
  unfolding consume_csrf_or_def by (intro moves_intros)

end

locale http_world = page_world R st for R :: "'s \<Rightarrow> 's \<Rightarrow> bool" and st :: "('n, 's) AppState" +
  assumes revoke_moves [moves_intros]: "moves R (ss_revoke_browser_session (hs_state (app_services st)) i)"
    and nonce_moves [moves_intros]: "moves R (ss_get_auth_session_by_nonce (hs_state (app_services st)) i)"
    and create_state_moves [moves_intros]: "moves R (ss_create_login_state (hs_state (app_services st)) lin ttl)"
    and private_state_moves [moves_intros]: "moves R (ss_set_login_state_private_state (hs_state (app_services st)) i p)"
    and consume_state_moves [moves_intros]: "moves R (ss_consume_login_state (hs_state (app_services st)) i)"
    and jwks_moves [moves_intros]: "moves R (ts_jwks (hs_jwks (app_services st)))"
    and mint_moves [moves_intros]: "moves R (manual_mint_authz (hs_tokens (app_services st)) u n role mttl)"
    and begin_moves [moves_intros]: "hs_login (app_services st) = Some login \<Longrightarrow> moves R (begin_auth login p b)"
    and complete_moves [moves_intros]: "hs_login (app_services st) = Some login \<Longrightarrow> moves R (complete_auth login p c n)"
    and preview_moves [moves_intros]: "hs_device (app_services st) = Some device \<Longrightarrow> moves R (preview device code)"
    and approve_moves [moves_intros]: "hs_device (app_services st) = Some device \<Longrightarrow> moves R (device_approve device u code)"
    and start_moves [moves_intros]: "hs_device (app_services st) = Some device \<Longrightarrow> moves R (device_start device url n)"
    and token_moves [moves_intros]: "hs_device (app_services st) = Some device \<Longrightarrow> moves R (device_token device code)"
begin

lemma check_login_session_moves [moves_intros]: "moves R (check_login_session st nonce)"
proof -
  have "moves R (case r of Inr _ \<Rightarrow> return_op ()
       | Inl NotFound \<Rightarrow> fail_op (text_response (app_lib st) 404 ''unknown or expired login session'')
       | Inl AuthSessionNotFound \<Rightarrow> fail_op (text_response (app_lib st) 404 ''unknown or expired login session'')
       | Inl _ \<Rightarrow> fail_op (text_response (app_lib st) 500 ''login session unavailable''))" for r :: "CoreError + AuthSession"
  proof (cases r)
    case (Inl e)
    then show ?thesis by (cases e) (simp_all add: moves_fail)
  qed (simp add: moves_return)
  then show ?thesis unfolding check_login_session_def by (intro moves_catch nonce_moves)
qed

lemma consume_state_or_moves [moves_intros]: "moves R (consume_state_or st s)"
proof -
  have "moves R (case r of Inr ls \<Rightarrow> if s \<noteq> [] then return_op ls else fail_op e | Inl _ \<Rightarrow> fail_op e)"
    for r :: "CoreError + LoginState" and e :: Response
    by (cases r) (simp_all add: moves_return moves_fail)
  then show ?thesis unfolding consume_state_or_def by (intro moves_catch consume_state_moves)
qed

lemma choose_provider_moves [moves_intros]: "moves R (choose_provider lib login q n)"
  unfolding choose_provider_def by (auto split: list.split simp: moves_return)

lemma with_login_moves: "(\<And>l. hs_login (app_services st) = Some l \<Longrightarrow> moves R (f l)) \<Longrightarrow> moves R (with_login st f)"
  by (simp add: with_login_def moves_fail split: option.split)

lemma with_device_moves: "(\<And>d. hs_device (app_services st) = Some d \<Longrightarrow> moves R (f d)) \<Longrightarrow> moves R (with_device st f)"
  by (simp add: with_device_def moves_fail split: option.split)

lemma finish_auth_callback_moves [moves_intros]:
  "hs_login (app_services st) = Some login \<Longrightarrow> moves R (finish_auth_callback st login p hs params os ls)"
  unfolding finish_auth_callback_def Let_def by (intro moves_intros; assumption)

lemma login_handlers_move [moves_intros]:
  "moves R (handle_login st q)" "moves R (handle_login_session st n q)"
  "moves R (handle_auth_start st n p q)" "moves R (handle_auth_callback st p hs raw)"
  unfolding handle_login_def handle_login_session_def handle_auth_start_def handle_auth_callback_def Let_def
  by (intro with_login_moves moves_intros; assumption)+

lemma device_handlers_move [moves_intros]:
  "moves R (handle_device_page st q hs)" "moves R (handle_device_approve st hs b)"
  "moves R (handle_device_start st b)" "moves R (handle_device_token st b)"
  unfolding handle_device_page_def handle_device_approve_def handle_device_start_def handle_device_token_def Let_def
  by (intro with_device_moves moves_intros; assumption)+

lemma session_handlers_move [moves_intros]:
  "moves R (handle_whoami st hs)" "moves R (handle_me st hs)" "moves R (handle_session_csrf st hs)" "moves R (handle_logout st hs b)"
  "moves R (handle_index st hs)" "moves R (handle_jwks st)" "moves R (handle_token_page st hs)" "moves R (handle_token_mint st hs b)"
  unfolding handle_whoami_def handle_me_def handle_session_csrf_def handle_logout_def handle_index_def handle_jwks_def
    handle_token_page_def handle_token_mint_def Let_def
  by (intro moves_intros)+

end

end
