(* ===== verification/Admin_Base.thy ===== *)
theory Admin_Base
  imports Http_Server
begin

text \<open>
  The shared parts of the admin console: forms and rows (\<open>admin/forms.rs\<close>, \<open>templates.rs\<close>), languages
  (\<open>i18n.rs\<close>), the guard of all its routes and the check of its forms (\<open>guard.rs\<close>) and the helpers of
  \<open>admin/mod.rs\<close> but for its dates. Parameters, in a record: the code that the template engine
  generates, the two dictionaries, the template sources, the assets, the \<open>Form\<close> extractor, Unicode
  lower case and the address ranges. What a page shows is the value its template is given.
\<close>

section \<open>Rows and templates\<close>

record UserRow =
  uw_id :: string
  uw_id_path :: string
  uw_email :: string
  uw_display_name :: string
  uw_status :: string
  uw_last_login :: string

record AccessRow =
  arow_resource_id :: string
  arow_permissions :: string

record GrantRow =
  gw_subject :: string
  gw_subject_type :: string
  gw_subject_id :: string
  gw_role :: string

record RepositoryRow =
  rw_name :: string
  rw_lore_repository_id :: string
  rw_resource_id :: string
  rw_resource_id_path :: string
  rw_status :: string
  rw_grants :: "GrantRow list"

record GroupLinkRow =
  gl_name :: string
  gl_description :: string

record GroupRow =
  pw_name :: string
  pw_description :: string
  pw_members :: "UserRow list"
  pw_members_more :: nat
  pw_nested_groups :: "GroupLinkRow list"
  pw_nested_groups_more :: nat

record GrantEvidenceRow =
  ew_subject :: string
  ew_role :: string
  ew_path :: string

record SimulatorResultView =
  sv_present :: bool
  sv_status :: string
  sv_detail :: message
  sv_user :: string
  sv_resource_id :: string
  sv_action :: string
  sv_repository_note :: message
  sv_evidence :: "GrantEvidenceRow list"

definition SimulatorResultView_default :: SimulatorResultView where
  "SimulatorResultView_default = \<lparr>sv_present = False, sv_status = [], sv_detail = [], sv_user = [], sv_resource_id = [],
     sv_action = [], sv_repository_note = [], sv_evidence = []\<rparr>"

record DashboardTemplate =
  dt_lang :: string
  dt_user_email :: string
  dt_user_display :: string
  dt_flash :: message

record RepositoriesTemplate =
  rt_lang :: string
  rt_query :: string
  rt_rows :: "RepositoryRow list"
  rt_limit :: nat
  rt_csrf_token :: string
  rt_flash :: message

record RepositoriesTableTemplate =
  rtt_lang :: string
  rtt_rows :: "RepositoryRow list"
  rtt_limit :: nat
  rtt_csrf_token :: string

record UsersTemplate =
  ut_lang :: string
  ut_query :: string
  ut_rows :: "UserRow list"
  ut_limit :: nat
  ut_csrf_token :: string
  ut_flash :: message
  ut_current_user_id :: string

record UsersTableTemplate =
  utt_lang :: string
  utt_rows :: "UserRow list"
  utt_limit :: nat
  utt_csrf_token :: string
  utt_current_user_id :: string

record UserAccessTemplate =
  uat_lang :: string
  uat_user :: UserRow
  uat_rows :: "AccessRow list"
  uat_limit :: nat
  uat_flash :: message

record GroupsTemplate =
  gpt_lang :: string
  gpt_query :: string
  gpt_rows :: "GroupRow list"
  gpt_limit :: nat
  gpt_csrf_token :: string
  gpt_flash :: message

record SimulatorTemplate =
  smt_lang :: string
  smt_csrf_token :: string
  smt_input_user :: string
  smt_input_resource :: string
  smt_input_action :: string
  smt_result :: SimulatorResultView
  smt_flash :: message

datatype admin_page =
    DashboardPage DashboardTemplate
  | RepositoriesPage RepositoriesTemplate
  | RepositoriesTablePage RepositoriesTableTemplate
  | UsersPage UsersTemplate
  | UsersTablePage UsersTableTemplate
  | UserAccessPage UserAccessTemplate
  | GroupsPage GroupsTemplate
  | SimulatorPage SimulatorTemplate

record 'n AdminLib =
  al_nets :: "'n IpNets"
  al_render :: "admin_page \<Rightarrow> string option"
  al_en :: "(string \<times> string) list"
  al_ja :: "(string \<times> string) list"
  al_sources :: "string list"
  al_htmx :: string
  al_pico :: string
  al_form :: "headers \<Rightarrow> body \<Rightarrow> Response + (string \<rightharpoonup> string)"
  al_to_lowercase :: "string \<Rightarrow> string"

section \<open>Forms\<close>

record RepositoryAddForm =
  raf_csrf_token :: string
  raf_name :: string
  raf_remote_url :: string
  raf_lore_repository_id :: string

record CsrfForm =
  cf_csrf_token :: string

record GrantForm =
  gf_csrf_token :: string
  gf_repo :: string
  gf_subject_type :: string
  gf_subject_id :: string
  gf_role :: string

record UserAddForm =
  uaf_csrf_token :: string
  uaf_email :: string
  uaf_display_name :: string

record UserInviteForm =
  uif_csrf_token :: string
  uif_provider_id :: string
  uif_issuer :: string
  uif_email :: string
  uif_display_name :: string

record GroupAddForm =
  gaf_csrf_token :: string
  gaf_name :: string
  gaf_description :: string

record GroupMemberForm =
  gmf_csrf_token :: string
  gmf_group :: string
  gmf_user :: string

record GroupNestForm =
  gnf_csrf_token :: string
  gnf_parent_group :: string
  gnf_member_group :: string

record SimulatorForm =
  smf_csrf_token :: string
  smf_user :: string
  smf_resource :: string
  smf_action :: string

text \<open>Every field of a form has a default.\<close>

type_synonym fields = "string \<rightharpoonup> string"

definition repository_add_form :: "fields \<Rightarrow> RepositoryAddForm" where
  "repository_add_form m = \<lparr>raf_csrf_token = field m ''csrf_token'', raf_name = field m ''name'',
     raf_remote_url = field m ''remote_url'', raf_lore_repository_id = field m ''lore_repository_id''\<rparr>"

definition csrf_form :: "fields \<Rightarrow> CsrfForm" where
  "csrf_form m = \<lparr>cf_csrf_token = field m ''csrf_token''\<rparr>"

definition grant_form :: "fields \<Rightarrow> GrantForm" where
  "grant_form m = \<lparr>gf_csrf_token = field m ''csrf_token'', gf_repo = field m ''repo'',
     gf_subject_type = field m ''subject_type'', gf_subject_id = field m ''subject_id'', gf_role = field m ''role''\<rparr>"

definition user_add_form :: "fields \<Rightarrow> UserAddForm" where
  "user_add_form m = \<lparr>uaf_csrf_token = field m ''csrf_token'', uaf_email = field m ''email'',
     uaf_display_name = field m ''display_name''\<rparr>"

definition user_invite_form :: "fields \<Rightarrow> UserInviteForm" where
  "user_invite_form m = \<lparr>uif_csrf_token = field m ''csrf_token'', uif_provider_id = field m ''provider_id'',
     uif_issuer = field m ''issuer'', uif_email = field m ''email'', uif_display_name = field m ''display_name''\<rparr>"

definition group_add_form :: "fields \<Rightarrow> GroupAddForm" where
  "group_add_form m = \<lparr>gaf_csrf_token = field m ''csrf_token'', gaf_name = field m ''name'',
     gaf_description = field m ''description''\<rparr>"

definition group_member_form :: "fields \<Rightarrow> GroupMemberForm" where
  "group_member_form m = \<lparr>gmf_csrf_token = field m ''csrf_token'', gmf_group = field m ''group'', gmf_user = field m ''user''\<rparr>"

definition group_nest_form :: "fields \<Rightarrow> GroupNestForm" where
  "group_nest_form m = \<lparr>gnf_csrf_token = field m ''csrf_token'', gnf_parent_group = field m ''parent_group'',
     gnf_member_group = field m ''member_group''\<rparr>"

definition simulator_form :: "fields \<Rightarrow> SimulatorForm" where
  "simulator_form m = \<lparr>smf_csrf_token = field m ''csrf_token'', smf_user = field m ''user'',
     smf_resource = field m ''resource'', smf_action = field m ''action''\<rparr>"

section \<open>Languages\<close>

definition ADMIN_LANG_COOKIE :: string where
  "ADMIN_LANG_COOKIE = ''admin_lang''"

definition DEFAULT_LANG :: string where
  "DEFAULT_LANG = ''en''"

definition is_supported_lang :: "string \<Rightarrow> bool" where
  "is_supported_lang value \<longleftrightarrow> value \<in> {''en'', ''ja''}"

definition dictionary :: "'n AdminLib \<Rightarrow> string \<Rightarrow> (string \<times> string) list" where
  "dictionary al lang = (if lang = ''ja'' then al_ja al else al_en al)"

definition translate :: "'n AdminLib \<Rightarrow> string \<Rightarrow> string \<Rightarrow> string" where
  "translate al lang key = (case map_of (dictionary al lang) key of Some v \<Rightarrow> v | None \<Rightarrow> key)"

definition resolve_lang :: "HttpLib \<Rightarrow> headers \<Rightarrow> string option \<Rightarrow> string" where
  "resolve_lang lib headers query_lang =
     (let supported = (\<lambda>l. case l of Some v \<Rightarrow> is_supported_lang v | None \<Rightarrow> False) in
      if supported query_lang then the query_lang
      else if supported (cookie_value lib headers ADMIN_LANG_COOKIE) then the (cookie_value lib headers ADMIN_LANG_COOKIE)
      else DEFAULT_LANG)"

definition lang_cookie :: "string \<Rightarrow> bool \<Rightarrow> string" where
  "lang_cookie value secure =
     ADMIN_LANG_COOKIE @ ''='' @ value @ ''; Path=/admin; Max-Age=31536000; HttpOnly; SameSite=Lax'' @
     (if secure then ''; Secure'' else [])"

text \<open>\<open>split_once\<close> at a string.\<close>

fun split_once_str :: "string \<Rightarrow> string \<Rightarrow> (string \<times> string) option" where
  "split_once_str pat [] = (if pat = [] then Some ([], []) else None)"
| "split_once_str pat (c # s) =
     (if starts_with (c # s) pat then Some ([], drop (length pat) (c # s))
      else map_option (\<lambda>(a, b). (c # a, b)) (split_once_str pat s))"

lemma split_once_str_Some: "split_once_str pat s = Some (a, b) \<Longrightarrow> s = a @ pat @ b"
proof (induction s arbitrary: a)
  case (Cons c s)
  show ?case
  proof (cases "starts_with (c # s) pat")
    case True
    with Cons.prems show ?thesis by (auto simp: starts_with_iff)
  next
    case False
    with Cons show ?thesis by auto
  qed
qed (auto split: if_splits)

text \<open>The keys that a template asks for: the texts between \<open>t("\<close> and \<open>")\<close>.\<close>

function source_i18n_keys :: "string \<Rightarrow> string set" where
  "source_i18n_keys rest =
     (case split_once_str (''t('' @ [CHR 0x22]) rest of
        None \<Rightarrow> {}
      | Some (_, tail) \<Rightarrow>
          (case split_once_str (CHR 0x22 # '')'') tail of
             Some (key, after) \<Rightarrow> insert key (source_i18n_keys after)
           | None \<Rightarrow> {}))"
  by auto
termination
  by (relation "measure length") (auto dest!: split_once_str_Some)

declare source_i18n_keys.simps [simp del]

definition template_i18n_keys :: "'n AdminLib \<Rightarrow> string set" where
  "template_i18n_keys al = (\<Union>source \<in> set (al_sources al). source_i18n_keys source)"

text \<open>The assertion at start: true when the server goes on.\<close>

definition assert_i18n_integrity :: "'n AdminLib \<Rightarrow> bool" where
  "assert_i18n_integrity al \<longleftrightarrow>
     fst ` set (al_en al) = fst ` set (al_ja al) \<and> template_i18n_keys al \<noteq> {} \<and>
     template_i18n_keys al \<subseteq> fst ` set (al_en al)"

section \<open>Helpers\<close>

definition ADMIN_LIST_LIMIT :: nat where
  "ADMIN_LIST_LIMIT = 100"

definition ADMIN_GROUP_EDGE_LIMIT :: nat where
  "ADMIN_GROUP_EDGE_LIMIT = 20"

definition ADMIN_CSRF_TTL :: duration where
  "ADMIN_CSRF_TTL = duration_from_secs (10 * 60)"

definition normalized_query :: "string option \<Rightarrow> string" where
  "normalized_query value = trim (case value of Some v \<Rightarrow> v | None \<Rightarrow> [])"

definition matches_search :: "'n AdminLib \<Rightarrow> string \<Rightarrow> string list \<Rightarrow> bool" where
  "matches_search al query values \<longleftrightarrow>
     query = [] \<or> list_ex (\<lambda>value. contains_str (al_to_lowercase al value) (al_to_lowercase al query)) values"

definition not_found :: "HttpLib \<Rightarrow> Response" where
  "not_found lib = text_response lib 404 ''not found''"

definition render_template :: "HttpLib \<Rightarrow> 'n AdminLib \<Rightarrow> admin_page \<Rightarrow> Response" where
  "render_template lib al page =
     (case al_render al page of
        Some html \<Rightarrow> html_response lib 200 html
      | None \<Rightarrow> text_response lib 500 ''admin template unavailable'')"

definition is_hx_target :: "HttpLib \<Rightarrow> headers \<Rightarrow> string \<Rightarrow> bool" where
  "is_hx_target lib headers target \<longleftrightarrow> Option.bind (header_get headers ''hx-target'') (hl_to_str lib) = Some target"

definition bytes_response :: "HttpLib \<Rightarrow> nat \<Rightarrow> string \<Rightarrow> string \<Rightarrow> Response" where
  "bytes_response lib status body content_type = response_with_headers lib status body [(''content-type'', content_type)]"

section \<open>The guard\<close>

definition admin_peer_allowed :: "'n AdminLib \<Rightarrow> 'n list \<Rightarrow> IpAddr option \<Rightarrow> bool" where
  "admin_peer_allowed al cidrs peer \<longleftrightarrow> cidrs = [] \<or>
     (case peer of None \<Rightarrow> False | Some ip \<Rightarrow> list_ex (\<lambda>cidr. in_contains (al_nets al) cidr ip) cidrs)"

definition is_admin_email :: "'n AdminConfig \<Rightarrow> string \<Rightarrow> bool" where
  "is_admin_email cfg email \<longleftrightarrow> list_ex (\<lambda>a. normalize_email a = email) (ac_admin_emails cfg)"

definition require_admin ::
  "'n AdminLib \<Rightarrow> ('n, 's) AppState \<Rightarrow> headers \<Rightarrow> IpAddr option \<Rightarrow> (HttpBrowserSession, 's) http" where
  "require_admin al st headers peer =
     (let lib = app_lib st; cfg = hc_admin (app_cfg st) in
      if \<not> AdminConfig_enabled cfg then fail_op (not_found lib)
      else if \<not> admin_peer_allowed al (ac_allowed_peer_cidrs cfg) peer then fail_op (not_found lib)
      else
        bind_op (catch_op (current_browser_session lib (hs_state (app_services st)) headers) (\<lambda>r. case r of
            Inr (Some session) \<Rightarrow> return_op session
          | Inr None \<Rightarrow> fail_op (not_found lib)
          | Inl e \<Rightarrow> if e = PermissionDenied \<or> e = Unauthenticated then fail_op (not_found lib)
                     else fail_op (text_response lib 500 ''session unavailable''))) (\<lambda>session.
        if u_status (hb_user session) \<noteq> ''active'' then fail_op (not_found lib)
        else
          let email = normalize_email (u_email (hb_user session)) in
          if email = [] \<or> \<not> is_admin_email cfg email then fail_op (not_found lib)
          else return_op session))"

definition guard_middleware ::
  "'n AdminLib \<Rightarrow> ('n, 's) AppState \<Rightarrow> headers \<Rightarrow> IpAddr option \<Rightarrow> (Response, 's) http \<Rightarrow> (Response, 's) http" where
  "guard_middleware al st headers peer next = bind_op (require_admin al st headers peer) (\<lambda>_. next)"

definition create_admin_csrf :: "('n, 's) AppState \<Rightarrow> HttpBrowserSession \<Rightarrow> (string, 's) http" where
  "create_admin_csrf st session =
     map_err_op (\<lambda>_. text_response (app_lib st) 500 ''csrf unavailable'')
       (ss_create_csrf_token (hs_state (app_services st)) (hb_session_id session) ADMIN_CSRF_TTL)"

definition require_admin_csrf :: "('n, 's) AppState \<Rightarrow> HttpBrowserSession \<Rightarrow> string \<Rightarrow> (unit, 's) http" where
  "require_admin_csrf st session csrf_token =
     (if trim csrf_token = [] then fail_op (text_response (app_lib st) 403 ''invalid csrf token'')
      else map_err_op (\<lambda>_. text_response (app_lib st) 403 ''invalid csrf token'')
        (ss_consume_csrf_token (hs_state (app_services st)) (hb_session_id session) csrf_token))"

definition admin_actor :: "HttpBrowserSession \<Rightarrow> string" where
  "admin_actor session =
     (if trim (u_email (hb_user session)) \<noteq> [] then u_email (hb_user session) else u_id (hb_user session))"

end
