(* ===== verification/Civil_Date.thy ===== *)
theory Civil_Date
  imports Grpc_Server
begin

text \<open>
  The dates of the admin console (\<open>format_unix\<close> and \<open>civil_from_days\<close> in \<open>admin/mod.rs\<close>): the
  arithmetic of the code against the calendar, one day after the other.
\<close>

section \<open>The code\<close>

text \<open>Division of \<open>i64\<close> truncates; \<open>div_euclid\<close> and \<open>rem_euclid\<close> by a positive number are \<open>div\<close> and \<open>mod\<close>.\<close>

definition quot :: "i64 \<Rightarrow> i64 \<Rightarrow> i64" where
  "quot a b = (if a \<ge> 0 then a div b else - ((- a) div b))"

definition civil_from_days :: "i64 \<Rightarrow> i64 \<times> i64 \<times> i64" where
  "civil_from_days days =
     (let z = days + 719468;
          era = quot (if z \<ge> 0 then z else z - 146096) 146097;
          doe = z - era * 146097;
          yoe = quot (doe - quot doe 1460 + quot doe 36524 - quot doe 146096) 365;
          year = yoe + era * 400;
          doy = doe - (365 * yoe + quot yoe 4 - quot yoe 100);
          mp = quot (5 * doy + 2) 153;
          day = doy - quot (153 * mp + 2) 5 + 1;
          month = mp + (if mp < 10 then 3 else - 9);
          year = year + (if month \<le> 2 then 1 else 0)
      in (year, month, day))"

definition pad :: "nat \<Rightarrow> i64 \<Rightarrow> string" where
  "pad w n = (let s = radix 10 (nat n) in replicate (w - length s) (CHR ''0'') @ s)"

definition format_unix :: "i64 \<Rightarrow> string" where
  "format_unix value =
     (if value \<le> 0 then ''-''
      else
        let days = value div 86400; seconds = value mod 86400 in
        case civil_from_days days of (year, month, day) \<Rightarrow>
          let hour = quot seconds 3600; minute = quot (seconds mod 3600) 60; second = seconds mod 60 in
          pad 4 year @ ''-'' @ pad 2 month @ ''-'' @ pad 2 day @ '' '' @
          pad 2 hour @ '':'' @ pad 2 minute @ '':'' @ pad 2 second)"

section \<open>The calendar\<close>

definition leap_year :: "int \<Rightarrow> bool" where
  "leap_year y \<longleftrightarrow> 4 dvd y \<and> (\<not> 100 dvd y \<or> 400 dvd y)"

definition month_length :: "int \<Rightarrow> int \<Rightarrow> int" where
  "month_length y m = (if m = 2 then if leap_year y then 29 else 28 else if m \<in> {4, 6, 9, 11} then 30 else 31)"

definition next_day :: "int \<times> int \<times> int \<Rightarrow> int \<times> int \<times> int" where
  "next_day = (\<lambda>(y, m, d).
     if d < month_length y m then (y, m, d + 1) else if m < 12 then (y, m + 1, 1) else (y + 1, 1, 1))"

section \<open>Years from March\<close>

text \<open>The days before the first of March of a year, counted from the first of March of the year 0.\<close>

definition year_start :: "int \<Rightarrow> int" where
  "year_start y = 365 * y + y div 4 - y div 100 + y div 400"

definition year_days :: "int \<Rightarrow> int" where
  "year_days y = (if leap_year (y + 1) then 366 else 365)"

lemma div_Suc:
  assumes "0 < (k :: int)"
  shows "(y + 1) div k = y div k + of_bool (k dvd y + 1)"
proof -
  have y: "y + 1 = k * (y div k) + (y mod k + 1)" by (simp add: mult_div_mod_eq)
  show ?thesis
  proof (cases "y mod k + 1 < k")
    case True
    then have "(y + 1) div k = y div k" using y True assms by (intro int_div_pos_eq [where r = "y mod k + 1"]) (auto simp: pos_mod_sign)
    moreover have "(y + 1) mod k = y mod k + 1" using y True assms by (intro int_mod_pos_eq [where q = "y div k"]) (auto simp: pos_mod_sign)
    ultimately have "(y + 1) div k = y div k" "\<not> k dvd y + 1"
      using pos_mod_sign [OF assms, of y] unfolding dvd_eq_mod_eq_0 by linarith+
    then show ?thesis by simp
  next
    case False
    then have "y mod k + 1 = k" using pos_mod_bound [OF assms, of y] by linarith
    with y have e: "y + 1 = k * (y div k + 1)" by (simp only: distrib_left mult_1_right)
    have "(y + 1) div k = y div k + 1" unfolding e using assms by simp
    moreover have "k dvd y + 1" unfolding e by simp
    ultimately show ?thesis by simp
  qed
qed

lemma leap_sum:
  assumes "c \<longrightarrow> b" "b \<longrightarrow> a"
  shows "(if a \<and> (\<not> b \<or> c) then 366 else 365 :: int) = 365 + of_bool a - of_bool b + of_bool c"
  using assms by (cases a; cases b; cases c) simp_all

lemma year_start_Suc: "year_start (y + 1) = year_start y + year_days y"
proof -
  have "400 dvd y + 1 \<longrightarrow> 100 dvd y + 1" by (rule impI, rule dvd_trans [of 100 400]) simp_all
  moreover have "100 dvd y + 1 \<longrightarrow> 4 dvd y + 1" by (rule impI, rule dvd_trans [of 4 100]) simp_all
  ultimately have "year_days y = 365 + of_bool (4 dvd y + 1) - of_bool (100 dvd y + 1) + of_bool (400 dvd y + 1)"
    unfolding year_days_def leap_year_def by (rule leap_sum)
  moreover have "(y + 1) div 4 = y div 4 + of_bool (4 dvd y + 1)" "(y + 1) div 100 = y div 100 + of_bool (100 dvd y + 1)"
    "(y + 1) div 400 = y div 400 + of_bool (400 dvd y + 1)"
    by (rule div_Suc, simp)+
  moreover have "365 * (n + 1) + (a + a') - (b + b') + (c + c') = 365 * n + a - b + c + (365 + a' - b' + c')"
    for n a a' b b' c c' :: int by simp
  ultimately show ?thesis unfolding year_start_def by presburger
qed

lemma year_days_pos: "365 \<le> year_days y" "year_days y \<le> 366"
  by (simp_all add: year_days_def)

lemma year_start_mono: "x \<le> y \<Longrightarrow> year_start x \<le> year_start y"
proof (induction y rule: int_ge_induct)
  case (step i)
  then show ?case using year_start_Suc [of i] year_days_pos(1) [of i] by simp
qed simp

lemma year_unique:
  assumes "year_start x \<le> z" "z < year_start (x + 1)" "year_start y \<le> z" "z < year_start (y + 1)"
  shows "x = y"
  using year_start_mono [of "x + 1" y] year_start_mono [of "y + 1" x] assms by linarith

lemma year_start_era: "0 \<le> y \<Longrightarrow> y \<le> 400 \<Longrightarrow> year_start (y + 400 * e) = 146097 * e + year_start y"
proof -
  have "(y + 400 * e) div 4 = y div 4 + 100 * e" "(y + 400 * e) div 100 = y div 100 + 4 * e"
    "(y + 400 * e) div 400 = y div 400 + e"
    using div_mult_self2 [of 4 y "100 * e"] div_mult_self2 [of 100 y "4 * e"] div_mult_self2 [of 400 y e]
    by (simp_all add: algebra_simps)
  then show ?thesis by (simp add: year_start_def algebra_simps)
qed

section \<open>The year of a day\<close>

lemma quot_div [simp]: "0 \<le> a \<Longrightarrow> quot a b = a div b"
  by (simp add: quot_def)

lemma era_div: "quot (if z \<ge> 0 then z else z - 146096) 146097 = z div 146097"
  by (simp add: quot_def) linarith

text \<open>The year of an era, by the formula of the code, for the days of an era.\<close>

definition year_of_era :: "int \<Rightarrow> int" where
  "year_of_era d = (d - d div 1460 + d div 36524 - d div 146096) div 365"

lemma year_of_era_bounds:
  assumes "0 \<le> d" "d < 146097"
  shows "0 \<le> year_of_era d \<and> year_of_era d < 400 \<and> year_start (year_of_era d) \<le> d \<and> d < year_start (year_of_era d + 1)"
proof -
  define a b c y where "a = d div 1460" and "b = d div 36524" and "c = d div 146096" and "y = (d - a + b - c) div 365"
  have a: "1460 * a \<le> d" "d < 1460 * a + 1460" and b: "36524 * b \<le> d" "d < 36524 * b + 36524"
    and c: "146096 * c \<le> d" "d < 146096 * c + 146096" and y: "365 * y \<le> d - a + b - c" "d - a + b - c < 365 * y + 365"
    unfolding a_def b_def c_def y_def by linarith+
  have bc: "0 \<le> b" "0 \<le> c" "c \<le> 1" "b - c \<le> 3" "25 * b \<le> a" using assms a b c by linarith+
  define p q p' q' where "p = y div 4" and "q = y div 100" and "p' = (y + 1) div 4" and "q' = (y + 1) div 100"
  have p: "4 * p \<le> y" "y < 4 * p + 4" and q: "100 * q \<le> y" "y < 100 * q + 100"
    and p': "4 * p' \<le> y + 1" "y + 1 < 4 * p' + 4" and q': "100 * q' \<le> y + 1" "y + 1 < 100 * q' + 100"
    unfolding p_def q_def p'_def q'_def by linarith+
  have "0 \<le> y" using assms a y bc c(1) by linarith
  moreover have "y < 400" using y bc assms a by (cases "a \<le> 99") linarith+
  ultimately have 400: "0 \<le> y" "y < 400" "y div 400 = 0" "(y + 1) div 400 = (if y = 399 then 1 else 0)" by auto
  have "p - q \<le> a - b + c"
    using a y p q bc by (cases "b - c \<le> q") linarith+
  then have low: "year_start y \<le> d" using y 400(3) by (simp add: year_start_def p_def [symmetric] q_def [symmetric])
  have up: "d < 365 * (y + 1) + p' - q' + (if y = 399 then 1 else 0)"
  proof (cases "b + 1 \<le> q'")
    case True
    have "25 * q' \<le> p'" using p' q' by linarith
    with True q' b show ?thesis by simp
  next
    case False
    have "a \<le> 100" using a assms by linarith
    then have "a \<le> p'" using a p' y bc by linarith
    moreover have "y = 399 \<and> b = 4" if "c = 1"
      using that c a b y 400(2) assms \<open>a \<le> 100\<close> by auto
    ultimately show ?thesis using False y bc by (cases "c = 1") auto
  qed
  have "year_of_era d = y" by (simp add: year_of_era_def y_def a_def b_def c_def)
  with low up 400 show ?thesis by (simp add: year_start_def p'_def [symmetric] q'_def [symmetric])
qed

section \<open>The day of a year\<close>

definition civil_of :: "int \<Rightarrow> int \<Rightarrow> int \<times> int \<times> int" where
  "civil_of y d =
     (let mp = (5 * d + 2) div 153; m = mp + (if mp < 10 then 3 else - 9) in
      (y + (if m \<le> 2 then 1 else 0), m, d - (153 * mp + 2) div 5 + 1))"

lemma month_index: "153 * k \<le> 5 * d + 2 \<Longrightarrow> 5 * d + 2 < 153 * k + 153 \<Longrightarrow> (5 * d + 2) div 153 = (k :: int)"
  by (intro int_div_pos_eq [where r = "5 * d + 2 - 153 * k"]) auto

lemma civil_of_month:
  "0 \<le> d \<Longrightarrow> d < 31 \<Longrightarrow> civil_of y d = (y, 3, d + 1)"
  "31 \<le> d \<Longrightarrow> d < 61 \<Longrightarrow> civil_of y d = (y, 4, d - 30)"
  "61 \<le> d \<Longrightarrow> d < 92 \<Longrightarrow> civil_of y d = (y, 5, d - 60)"
  "92 \<le> d \<Longrightarrow> d < 122 \<Longrightarrow> civil_of y d = (y, 6, d - 91)"
  "122 \<le> d \<Longrightarrow> d < 153 \<Longrightarrow> civil_of y d = (y, 7, d - 121)"
  "153 \<le> d \<Longrightarrow> d < 184 \<Longrightarrow> civil_of y d = (y, 8, d - 152)"
  "184 \<le> d \<Longrightarrow> d < 214 \<Longrightarrow> civil_of y d = (y, 9, d - 183)"
  "214 \<le> d \<Longrightarrow> d < 245 \<Longrightarrow> civil_of y d = (y, 10, d - 213)"
  "245 \<le> d \<Longrightarrow> d < 275 \<Longrightarrow> civil_of y d = (y, 11, d - 244)"
  "275 \<le> d \<Longrightarrow> d < 306 \<Longrightarrow> civil_of y d = (y, 12, d - 274)"
  "306 \<le> d \<Longrightarrow> d < 337 \<Longrightarrow> civil_of y d = (y + 1, 1, d - 305)"
  "337 \<le> d \<Longrightarrow> d < 366 \<Longrightarrow> civil_of y d = (y + 1, 2, d - 336)"
  by (simp_all add: civil_of_def month_index [of 0] month_index [of 1] month_index [of 2] month_index [of 3] month_index [of 4] month_index [of 5] month_index [of 6] month_index [of 7] month_index [of 8] month_index [of 9] month_index [of 10] month_index [of 11])

lemma civil_of_next:
  assumes "0 \<le> d" "d + 1 < year_days y"
  shows "civil_of y (d + 1) = next_day (civil_of y d)"
proof -
  have leap: "\<not> leap_year (y + 1) \<Longrightarrow> d < 364" using assms by (auto simp: year_days_def split: if_splits)
  have "d < 365" using assms(2) year_days_pos(2) [of y] by linarith
  with assms(1) have "0 \<le> d \<and> d < 30 \<or>
    d = 30 \<or>
    31 \<le> d \<and> d < 60 \<or>
    d = 60 \<or>
    61 \<le> d \<and> d < 91 \<or>
    d = 91 \<or>
    92 \<le> d \<and> d < 121 \<or>
    d = 121 \<or>
    122 \<le> d \<and> d < 152 \<or>
    d = 152 \<or>
    153 \<le> d \<and> d < 183 \<or>
    d = 183 \<or>
    184 \<le> d \<and> d < 213 \<or>
    d = 213 \<or>
    214 \<le> d \<and> d < 244 \<or>
    d = 244 \<or>
    245 \<le> d \<and> d < 274 \<or>
    d = 274 \<or>
    275 \<le> d \<and> d < 305 \<or>
    d = 305 \<or>
    306 \<le> d \<and> d < 336 \<or>
    d = 336 \<or>
    337 \<le> d \<and> d < 365" by presburger
  then show ?thesis
    by (elim disjE conjE) (use leap in \<open>auto simp: civil_of_month next_day_def month_length_def\<close>)
qed

lemma civil_of_last: "next_day (civil_of y (year_days y - 1)) = civil_of (y + 1) 0"
  by (simp add: year_days_def civil_of_month next_day_def month_length_def)

lemma year_exists: "\<exists>y. year_start y \<le> z \<and> z < year_start (y + 1)"
proof -
  define e d where "e = z div 146097" and "d = z mod 146097"
  have z: "z = 146097 * e + d" "0 \<le> d" "d < 146097" by (simp_all add: e_def d_def)
  note n = year_of_era_bounds [OF z(2,3)]
  let ?n = "year_of_era d"
  have "year_start (?n + 400 * e) = 146097 * e + year_start ?n" "year_start (?n + 1 + 400 * e) = 146097 * e + year_start (?n + 1)"
    using year_start_era n by simp_all
  with n z(1) show ?thesis by (intro exI [of _ "?n + 400 * e"]) (simp add: algebra_simps)
qed

lemma civil_from_days_eq:
  assumes "year_start y \<le> days + 719468" "days + 719468 < year_start (y + 1)"
  shows "civil_from_days days = civil_of y (days + 719468 - year_start y)"
proof -
  define z e d where "z = days + 719468" and "e = z div 146097" and "d = z mod 146097"
  have z: "z = 146097 * e + d" "0 \<le> d" "d < 146097" by (simp_all add: e_def d_def)
  define n where "n = year_of_era d"
  note n = year_of_era_bounds [OF z(2,3), folded n_def]
  have start: "year_start (n + 400 * e) = 146097 * e + year_start n" "year_start (n + 400 * e + 1) = 146097 * e + year_start (n + 1)"
    using year_start_era [of n e] year_start_era [of "n + 1" e] n by (simp_all add: algebra_simps)
  have y: "y = n + 400 * e"
    by (rule year_unique [of y z]) (use assms n start z in \<open>simp_all add: z_def\<close>)
  define k where "k = z - year_start y"
  define m where "m = (5 * k + 2) div 153"
  have "year_start n = 365 * n + n div 4 - n div 100" using n by (simp add: year_start_def)
  then have k: "d - (365 * n + n div 4 - n div 100) = k" "0 \<le> k" using y start n z by (simp_all add: k_def)
  have "0 \<le> d - d div 1460 + d div 36524 - d div 146096" using z(2) by linarith
  then have q: "quot (d - quot d 1460 + quot d 36524 - quot d 146096) 365 = n" "quot n 4 = n div 4" "quot n 100 = n div 100"
    "quot (5 * k + 2) 153 = m" "quot (153 * m + 2) 5 = (153 * m + 2) div 5"
    using z(2) n k(2) by (simp_all add: n_def year_of_era_def m_def)
  have "z - e * 146097 = d" using z(1) by simp
  then have "civil_from_days days = civil_of y k"
    unfolding civil_from_days_def civil_of_def Let_def z_def [symmetric] era_div e_def [symmetric] m_def [symmetric]
    by (simp only: q k(1)) (simp only: y add.commute mult.commute)
  then show ?thesis by (simp add: k_def z_def)
qed

text \<open>C23: The dates of the console are those of the calendar: day 0 is the first of January 1970, and
  the date of each following day is the next day of the Gregorian calendar, for all days before and
  after.\<close>

theorem civil_from_days_calendar:
  "civil_from_days 0 = (1970, 1, 1) \<and> civil_from_days (days + 1) = next_day (civil_from_days days)"
proof
  show "civil_from_days 0 = (1970, 1, 1)" by code_simp
  define z where "z = days + 719468"
  obtain y where y: "year_start y \<le> z" "z < year_start (y + 1)"
    using year_exists by blast
  note this_day = civil_from_days_eq [OF y [unfolded z_def]]
  show "civil_from_days (days + 1) = next_day (civil_from_days days)"
  proof (cases "z + 1 < year_start (y + 1)")
    case True
    then have "civil_from_days (days + 1) = civil_of y (z - year_start y + 1)"
      using civil_from_days_eq [of y "days + 1"] y by (simp add: z_def algebra_simps)
    then show ?thesis
      using civil_of_next [of "z - year_start y" y] True y year_start_Suc [of y] this_day by (simp add: z_def)
  next
    case False
    then have z: "z + 1 = year_start (y + 1)" using y by simp
    then have "civil_from_days (days + 1) = civil_of (y + 1) 0"
      using civil_from_days_eq [of "y + 1" "days + 1"] year_start_Suc [of "y + 1"] year_days_pos(1) [of "y + 1"]
      by (simp add: z_def algebra_simps)
    moreover have "days + 719468 - year_start y = year_days y - 1" using z year_start_Suc [of y] by (simp add: z_def)
    ultimately show ?thesis using civil_of_last [of y] this_day by (simp only:)
  qed
qed

end
