(* ===== verification/Admin_Console.thy ===== *)
theory Admin_Console
  imports Admin_Base Civil_Date
begin

text \<open>
  The handlers of the admin console (\<open>admin/dashboard.rs\<close>, \<open>users.rs\<close>, \<open>groups.rs\<close>, \<open>repositories.rs\<close>,
  \<open>simulator.rs\<close>, \<open>static_assets.rs\<close>) and its routes (\<open>admin/mod.rs\<close>), over any services.
\<close>

section \<open>Shared steps\<close>

text \<open>The beginning of every form handler: the guard, the CSRF token and the ports for the actor.\<close>

definition admin_form ::
  "'n AdminLib \<Rightarrow> ('n, 's) AppState \<Rightarrow> headers \<Rightarrow> IpAddr option \<Rightarrow> string \<Rightarrow>
   (HttpBrowserSession \<Rightarrow> 's AdminWritePorts \<Rightarrow> (Response, 's) http) \<Rightarrow> (Response, 's) http" where
  "admin_form al st headers peer csrf_token k =
     bind_op (require_admin al st headers peer) (\<lambda>session.
     bind_op (require_admin_csrf st session csrf_token) (\<lambda>_.
     k session (hs_admin_writes (app_services st) (admin_actor session))))"

definition error_flash :: "'n AdminLib \<Rightarrow> string \<Rightarrow> CoreError \<Rightarrow> message" where
  "error_flash al lang err = Lit (translate al lang ''admin.flash.error'') # Lit '': '' # CoreError_display err"

definition flash_of :: "'n AdminLib \<Rightarrow> string \<Rightarrow> CoreError + 'a \<Rightarrow> message" where
  "flash_of al lang result =
     (case result of
        Inr _ \<Rightarrow> [Lit (translate al lang ''admin.flash.saved'')]
      | Inl err \<Rightarrow> error_flash al lang err)"

section \<open>Dashboard and assets\<close>

definition handle_dashboard ::
  "'n AdminLib \<Rightarrow> ('n, 's) AppState \<Rightarrow> (string \<rightharpoonup> string) \<Rightarrow> headers \<Rightarrow> IpAddr option \<Rightarrow> (Response, 's) http" where
  "handle_dashboard al st query headers peer =
     (let lib = app_lib st in
      bind_op (require_admin al st headers peer) (\<lambda>session.
      let lang = resolve_lang lib headers (query ''lang'');
          response = render_template lib al (DashboardPage
            \<lparr>dt_lang = lang, dt_user_email = u_email (hb_user session), dt_user_display = User_display (hb_user session),
             dt_flash = []\<rparr>) in
      return_op
        (if (case query ''lang'' of Some l \<Rightarrow> is_supported_lang l | None \<Rightarrow> False)
         then append_header lib ''set-cookie'' (lang_cookie lang (is_secure lib headers)) response
         else response)))"

definition handle_htmx :: "'n AdminLib \<Rightarrow> ('n, 's) AppState \<Rightarrow> headers \<Rightarrow> IpAddr option \<Rightarrow> (Response, 's) http" where
  "handle_htmx al st headers peer =
     bind_op (require_admin al st headers peer) (\<lambda>_.
     return_op (bytes_response (app_lib st) 200 (al_htmx al) ''application/javascript; charset=utf-8''))"

definition handle_pico :: "'n AdminLib \<Rightarrow> ('n, 's) AppState \<Rightarrow> headers \<Rightarrow> IpAddr option \<Rightarrow> (Response, 's) http" where
  "handle_pico al st headers peer =
     bind_op (require_admin al st headers peer) (\<lambda>_.
     return_op (bytes_response (app_lib st) 200 (al_pico al) ''text/css; charset=utf-8''))"

section \<open>Users\<close>

definition user_row :: "HttpLib \<Rightarrow> User \<Rightarrow> UserRow" where
  "user_row lib user =
     \<lparr>uw_id = u_id user, uw_id_path = encode_path_segment lib (u_id user), uw_email = u_email user,
      uw_display_name = u_display_name user, uw_status = u_status user, uw_last_login = format_unix (u_last_login_at user)\<rparr>"

definition user_rows :: "('n, 's) AppState \<Rightarrow> string \<Rightarrow> (UserRow list, 's) http" where
  "user_rows st query =
     bind_op (map_err_op (\<lambda>_. text_response (app_lib st) 500 ''users unavailable'')
       (ad_list_users (hs_accounts (app_services st)) \<lparr>ulf_query = query, ulf_limit = ADMIN_LIST_LIMIT\<rparr>)) (\<lambda>users.
     return_op (map (user_row (app_lib st)) users))"

definition access_rows :: "ResourcePermission list \<Rightarrow> AccessRow list" where
  "access_rows access =
     map (\<lambda>p. \<lparr>arow_resource_id = rp_resource_id p,
       arow_permissions = join_with '', '' (map Permission_as_str (rp_permission p))\<rparr>) (take ADMIN_LIST_LIMIT access)"

definition handle_users ::
  "'n AdminLib \<Rightarrow> ('n, 's) AppState \<Rightarrow> (string \<rightharpoonup> string) \<Rightarrow> headers \<Rightarrow> IpAddr option \<Rightarrow> (Response, 's) http" where
  "handle_users al st query headers peer =
     (let lib = app_lib st in
      bind_op (require_admin al st headers peer) (\<lambda>session.
      let lang = resolve_lang lib headers (query ''lang'') in
      bind_op (create_admin_csrf st session) (\<lambda>csrf_token.
      let search = normalized_query (query ''q'') in
      bind_op (user_rows st search) (\<lambda>rows.
      return_op (render_template lib al
        (if is_hx_target lib headers ''users-results''
         then UsersTablePage \<lparr>utt_lang = lang, utt_rows = rows, utt_limit = ADMIN_LIST_LIMIT, utt_csrf_token = csrf_token,
           utt_current_user_id = u_id (hb_user session)\<rparr>
         else UsersPage \<lparr>ut_lang = lang, ut_query = search, ut_rows = rows, ut_limit = ADMIN_LIST_LIMIT,
           ut_csrf_token = csrf_token, ut_flash = [], ut_current_user_id = u_id (hb_user session)\<rparr>))))))"

definition render_users_page ::
  "'n AdminLib \<Rightarrow> ('n, 's) AppState \<Rightarrow> headers \<Rightarrow> HttpBrowserSession \<Rightarrow> string \<Rightarrow> message \<Rightarrow> (Response, 's) http" where
  "render_users_page al st headers session query flash =
     (let lib = app_lib st; lang = resolve_lang lib headers None in
      bind_op (create_admin_csrf st session) (\<lambda>csrf_token.
      bind_op (user_rows st query) (\<lambda>rows.
      return_op (render_template lib al (UsersPage
        \<lparr>ut_lang = lang, ut_query = query, ut_rows = rows, ut_limit = ADMIN_LIST_LIMIT, ut_csrf_token = csrf_token,
         ut_flash = flash, ut_current_user_id = u_id (hb_user session)\<rparr>)))))"

definition handle_user_access ::
  "'n AdminLib \<Rightarrow> ('n, 's) AppState \<Rightarrow> string \<Rightarrow> (string \<rightharpoonup> string) \<Rightarrow> headers \<Rightarrow> IpAddr option \<Rightarrow> (Response, 's) http" where
  "handle_user_access al st i query headers peer =
     (let lib = app_lib st in
      bind_op (require_admin al st headers peer) (\<lambda>_.
      let lang = resolve_lang lib headers (query ''lang'') in
      bind_op (map_err_op (\<lambda>e. if e = NotFound then not_found lib else text_response lib 500 ''users unavailable'')
        (ad_user_by_id (hs_accounts (app_services st)) i)) (\<lambda>user.
      bind_op (map_err_op (\<lambda>_. text_response lib 500 ''access unavailable'')
        (permission_lookup (hs_permissions (app_services st)) (u_id user) \<lparr>rf_prefix = ''urc-''\<rparr>)) (\<lambda>access.
      return_op (render_template lib al (UserAccessPage
        \<lparr>uat_lang = lang, uat_user = user_row lib user, uat_rows = access_rows access, uat_limit = ADMIN_LIST_LIMIT,
         uat_flash = []\<rparr>))))))"

text \<open>The end of the forms on users: the outcome is shown on the page of all users.\<close>

definition user_write ::
  "'n AdminLib \<Rightarrow> ('n, 's) AppState \<Rightarrow> headers \<Rightarrow> HttpBrowserSession \<Rightarrow> ('a, 's) port \<Rightarrow> (Response, 's) http" where
  "user_write al st headers session write =
     catch_op write (\<lambda>result.
     render_users_page al st headers session [] (flash_of al (resolve_lang (app_lib st) headers None) result))"

definition handle_user_add ::
  "'n AdminLib \<Rightarrow> ('n, 's) AppState \<Rightarrow> headers \<Rightarrow> IpAddr option \<Rightarrow> UserAddForm \<Rightarrow> (Response, 's) http" where
  "handle_user_add al st headers peer form =
     admin_form al st headers peer (uaf_csrf_token form) (\<lambda>session writes.
     user_write al st headers session
       (ad_add_user (aw_accounts writes) \<lparr>au_email = uaf_email form, au_display_name = uaf_display_name form\<rparr>))"

definition handle_user_invite ::
  "'n AdminLib \<Rightarrow> ('n, 's) AppState \<Rightarrow> headers \<Rightarrow> IpAddr option \<Rightarrow> UserInviteForm \<Rightarrow> (Response, 's) http" where
  "handle_user_invite al st headers peer form =
     admin_form al st headers peer (uif_csrf_token form) (\<lambda>session writes.
     user_write al st headers session
       (ad_add_invitation (aw_accounts writes)
         \<lparr>ai_provider_id = uif_provider_id form, ai_issuer = uif_issuer form, ai_email = uif_email form,
          ai_display_name = uif_display_name form, ai_binding_policy = ''verified_email_invitation'', ai_expires_at = 0\<rparr>))"

definition usize_max :: nat where
  "usize_max = 2 ^ 64 - 1"

definition validate_admin_disable_target ::
  "('n, 's) AppState \<Rightarrow> HttpBrowserSession \<Rightarrow> User \<Rightarrow> (unit, 's) port" where
  "validate_admin_disable_target st session target =
     (let cfg = hc_admin (app_cfg st) in
      if u_id target = u_id (hb_user session)
      then fail_op (InvalidArgument [Lit ''cannot disable the current admin session user''])
      else if \<not> is_admin_email cfg (normalize_email (u_email target)) then return_op ()
      else
        bind_op (ad_list_users (hs_accounts (app_services st)) \<lparr>ulf_query = [], ulf_limit = usize_max\<rparr>) (\<lambda>users.
        if list_ex (\<lambda>user. u_id user \<noteq> u_id target \<and> u_status user = ''active'' \<and>
             is_admin_email cfg (normalize_email (u_email user))) users
        then return_op ()
        else fail_op (InvalidArgument [Lit ''cannot disable the last active admin user''])))"

definition handle_user_disable ::
  "'n AdminLib \<Rightarrow> ('n, 's) AppState \<Rightarrow> string \<Rightarrow> headers \<Rightarrow> IpAddr option \<Rightarrow> CsrfForm \<Rightarrow> (Response, 's) http" where
  "handle_user_disable al st i headers peer form =
     admin_form al st headers peer (cf_csrf_token form) (\<lambda>session writes.
     user_write al st headers session
       (bind_op (ad_user_by_id (hs_accounts (app_services st)) i) (\<lambda>target.
        bind_op (validate_admin_disable_target st session target) (\<lambda>_.
        ad_disable_user (aw_accounts writes) i))))"

section \<open>Groups\<close>

definition group_row :: "HttpLib \<Rightarrow> Group \<Rightarrow> User list \<Rightarrow> Group list \<Rightarrow> GroupRow" where
  "group_row lib grp members nested =
     \<lparr>pw_name = g_name grp, pw_description = g_description grp,
      pw_members = take ADMIN_GROUP_EDGE_LIMIT (map (user_row lib) members),
      pw_members_more = length members - ADMIN_GROUP_EDGE_LIMIT,
      pw_nested_groups = take ADMIN_GROUP_EDGE_LIMIT
        (map (\<lambda>n. \<lparr>gl_name = g_name n, gl_description = g_description n\<rparr>) nested),
      pw_nested_groups_more = length nested - ADMIN_GROUP_EDGE_LIMIT\<rparr>"

text \<open>The loop of \<open>group_rows\<close>; \<open>n\<close> is the number of rows so far.\<close>

fun group_rows_loop :: "'n AdminLib \<Rightarrow> ('n, 's) AppState \<Rightarrow> string \<Rightarrow> nat \<Rightarrow> Group list \<Rightarrow> (GroupRow list, 's) http" where
  "group_rows_loop al st query n [] = return_op []"
| "group_rows_loop al st query n (grp # groups) =
     (if \<not> matches_search al query [g_name grp, g_description grp] then group_rows_loop al st query n groups
      else
        bind_op (map_err_op (\<lambda>_. text_response (app_lib st) 500 ''group members unavailable'')
          (gq_list_group_members (hs_groups (app_services st)) (g_id grp))) (\<lambda>members.
        bind_op (map_err_op (\<lambda>_. text_response (app_lib st) 500 ''nested groups unavailable'')
          (gq_list_group_groups (hs_groups (app_services st)) (g_id grp))) (\<lambda>nested.
        bind_op (if Suc n \<ge> ADMIN_LIST_LIMIT then return_op [] else group_rows_loop al st query (Suc n) groups) (\<lambda>rows.
        return_op (group_row (app_lib st) grp members nested # rows)))))"

definition group_rows :: "'n AdminLib \<Rightarrow> ('n, 's) AppState \<Rightarrow> string \<Rightarrow> (GroupRow list, 's) http" where
  "group_rows al st query =
     bind_op (map_err_op (\<lambda>_. text_response (app_lib st) 500 ''groups unavailable'')
       (gq_list_groups (hs_groups (app_services st)))) (group_rows_loop al st query 0)"

definition handle_groups ::
  "'n AdminLib \<Rightarrow> ('n, 's) AppState \<Rightarrow> (string \<rightharpoonup> string) \<Rightarrow> headers \<Rightarrow> IpAddr option \<Rightarrow> (Response, 's) http" where
  "handle_groups al st query headers peer =
     (let lib = app_lib st in
      bind_op (require_admin al st headers peer) (\<lambda>session.
      let lang = resolve_lang lib headers (query ''lang'') in
      bind_op (create_admin_csrf st session) (\<lambda>csrf_token.
      let search = normalized_query (query ''q'') in
      bind_op (group_rows al st search) (\<lambda>rows.
      return_op (render_template lib al (GroupsPage
        \<lparr>gpt_lang = lang, gpt_query = search, gpt_rows = rows, gpt_limit = ADMIN_LIST_LIMIT, gpt_csrf_token = csrf_token,
         gpt_flash = []\<rparr>))))))"

definition render_groups_page ::
  "'n AdminLib \<Rightarrow> ('n, 's) AppState \<Rightarrow> headers \<Rightarrow> HttpBrowserSession \<Rightarrow> string \<Rightarrow> message \<Rightarrow> (Response, 's) http" where
  "render_groups_page al st headers session query flash =
     (let lib = app_lib st; lang = resolve_lang lib headers None in
      bind_op (create_admin_csrf st session) (\<lambda>csrf_token.
      bind_op (group_rows al st query) (\<lambda>rows.
      return_op (render_template lib al (GroupsPage
        \<lparr>gpt_lang = lang, gpt_query = query, gpt_rows = rows, gpt_limit = ADMIN_LIST_LIMIT, gpt_csrf_token = csrf_token,
         gpt_flash = flash\<rparr>)))))"

definition group_write ::
  "'n AdminLib \<Rightarrow> ('n, 's) AppState \<Rightarrow> headers \<Rightarrow> HttpBrowserSession \<Rightarrow> ('a, 's) port \<Rightarrow> (Response, 's) http" where
  "group_write al st headers session write =
     catch_op write (\<lambda>result.
     render_groups_page al st headers session [] (flash_of al (resolve_lang (app_lib st) headers None) result))"

definition handle_group_add ::
  "'n AdminLib \<Rightarrow> ('n, 's) AppState \<Rightarrow> headers \<Rightarrow> IpAddr option \<Rightarrow> GroupAddForm \<Rightarrow> (Response, 's) http" where
  "handle_group_add al st headers peer form =
     admin_form al st headers peer (gaf_csrf_token form) (\<lambda>session writes.
     group_write al st headers session (ga_add_group (aw_groups writes) (gaf_name form) (gaf_description form)))"

definition mutate_group_member ::
  "'n AdminLib \<Rightarrow> ('n, 's) AppState \<Rightarrow> headers \<Rightarrow> IpAddr option \<Rightarrow> GroupMemberForm \<Rightarrow> bool \<Rightarrow> (Response, 's) http" where
  "mutate_group_member al st headers peer form add =
     admin_form al st headers peer (gmf_csrf_token form) (\<lambda>session writes.
     group_write al st headers session
       (if add then ga_add_group_member (aw_groups writes) (gmf_group form) (gmf_user form)
        else ga_remove_group_member (aw_groups writes) (gmf_group form) (gmf_user form)))"

definition mutate_group_nest ::
  "'n AdminLib \<Rightarrow> ('n, 's) AppState \<Rightarrow> headers \<Rightarrow> IpAddr option \<Rightarrow> GroupNestForm \<Rightarrow> bool \<Rightarrow> (Response, 's) http" where
  "mutate_group_nest al st headers peer form add =
     admin_form al st headers peer (gnf_csrf_token form) (\<lambda>session writes.
     group_write al st headers session
       (if add then ga_add_group_group (aw_groups writes) (gnf_parent_group form) (gnf_member_group form)
        else ga_remove_group_group (aw_groups writes) (gnf_parent_group form) (gnf_member_group form)))"

section \<open>Repositories and grants\<close>

definition grant_row :: "Grant \<Rightarrow> GrantRow" where
  "grant_row g = \<lparr>gw_subject = gr_subject_type g @ '':'' @ gr_subject_id g, gw_subject_type = gr_subject_type g,
     gw_subject_id = gr_subject_id g, gw_role = gr_role g\<rparr>"

fun repository_rows_loop ::
  "'n AdminLib \<Rightarrow> ('n, 's) AppState \<Rightarrow> string \<Rightarrow> nat \<Rightarrow> Resource list \<Rightarrow> (RepositoryRow list, 's) http" where
  "repository_rows_loop al st query n [] = return_op []"
| "repository_rows_loop al st query n (resource # resources) =
     (if \<not> matches_search al query [r_name resource] then repository_rows_loop al st query n resources
      else
        bind_op (map_err_op (\<lambda>_. text_response (app_lib st) 500 ''grants unavailable'')
          (gt_list_grants (hs_grants (app_services st)) (r_name resource))) (\<lambda>grants.
        bind_op (if Suc n \<ge> ADMIN_LIST_LIMIT then return_op [] else repository_rows_loop al st query (Suc n) resources) (\<lambda>rows.
        return_op (\<lparr>rw_name = r_name resource, rw_lore_repository_id = r_lore_repository_id resource,
          rw_resource_id = r_resource_id resource, rw_resource_id_path = encode_path_segment (app_lib st) (r_resource_id resource),
          rw_status = r_status resource, rw_grants = map grant_row grants\<rparr> # rows))))"

definition repository_rows :: "'n AdminLib \<Rightarrow> ('n, 's) AppState \<Rightarrow> string \<Rightarrow> (RepositoryRow list, 's) http" where
  "repository_rows al st query =
     bind_op (map_err_op (\<lambda>_. text_response (app_lib st) 500 ''repositories unavailable'')
       (rs_list (hs_resources (app_services st)))) (repository_rows_loop al st query 0)"

definition handle_repositories ::
  "'n AdminLib \<Rightarrow> ('n, 's) AppState \<Rightarrow> (string \<rightharpoonup> string) \<Rightarrow> headers \<Rightarrow> IpAddr option \<Rightarrow> (Response, 's) http" where
  "handle_repositories al st query headers peer =
     (let lib = app_lib st in
      bind_op (require_admin al st headers peer) (\<lambda>session.
      let lang = resolve_lang lib headers (query ''lang'') in
      bind_op (create_admin_csrf st session) (\<lambda>csrf_token.
      let search = normalized_query (query ''q'') in
      bind_op (repository_rows al st search) (\<lambda>rows.
      return_op (render_template lib al
        (if is_hx_target lib headers ''repositories-results''
         then RepositoriesTablePage \<lparr>rtt_lang = lang, rtt_rows = rows, rtt_limit = ADMIN_LIST_LIMIT, rtt_csrf_token = csrf_token\<rparr>
         else RepositoriesPage \<lparr>rt_lang = lang, rt_query = search, rt_rows = rows, rt_limit = ADMIN_LIST_LIMIT,
           rt_csrf_token = csrf_token, rt_flash = []\<rparr>))))))"

definition render_repositories_page ::
  "'n AdminLib \<Rightarrow> ('n, 's) AppState \<Rightarrow> headers \<Rightarrow> HttpBrowserSession \<Rightarrow> string \<Rightarrow> message \<Rightarrow> (Response, 's) http" where
  "render_repositories_page al st headers session query flash =
     (let lib = app_lib st; lang = resolve_lang lib headers None in
      bind_op (create_admin_csrf st session) (\<lambda>csrf_token.
      bind_op (repository_rows al st query) (\<lambda>rows.
      return_op (render_template lib al (RepositoriesPage
        \<lparr>rt_lang = lang, rt_query = query, rt_rows = rows, rt_limit = ADMIN_LIST_LIMIT, rt_csrf_token = csrf_token,
         rt_flash = flash\<rparr>)))))"

definition repository_write ::
  "'n AdminLib \<Rightarrow> ('n, 's) AppState \<Rightarrow> headers \<Rightarrow> HttpBrowserSession \<Rightarrow> ('a, 's) port \<Rightarrow> (Response, 's) http" where
  "repository_write al st headers session write =
     catch_op write (\<lambda>result.
     render_repositories_page al st headers session [] (flash_of al (resolve_lang (app_lib st) headers None) result))"

definition handle_repository_add ::
  "'n AdminLib \<Rightarrow> ('n, 's) AppState \<Rightarrow> headers \<Rightarrow> IpAddr option \<Rightarrow> RepositoryAddForm \<Rightarrow> (Response, 's) http" where
  "handle_repository_add al st headers peer form =
     admin_form al st headers peer (raf_csrf_token form) (\<lambda>session writes.
     repository_write al st headers session
       (rs_upsert (aw_resources writes) (Resource_default\<lparr>r_name := raf_name form, r_remote_url := raf_remote_url form,
          r_lore_repository_id := raf_lore_repository_id form\<rparr>)))"

definition handle_repository_disable ::
  "'n AdminLib \<Rightarrow> ('n, 's) AppState \<Rightarrow> string \<Rightarrow> headers \<Rightarrow> IpAddr option \<Rightarrow> CsrfForm \<Rightarrow> (Response, 's) http" where
  "handle_repository_disable al st resource_id headers peer form =
     admin_form al st headers peer (cf_csrf_token form) (\<lambda>session writes.
     repository_write al st headers session (rs_delete (aw_resources writes) resource_id))"

definition mutate_grant ::
  "'n AdminLib \<Rightarrow> ('n, 's) AppState \<Rightarrow> headers \<Rightarrow> IpAddr option \<Rightarrow> GrantForm \<Rightarrow> bool \<Rightarrow> (Response, 's) http" where
  "mutate_grant al st headers peer form add =
     admin_form al st headers peer (gf_csrf_token form) (\<lambda>session writes.
     repository_write al st headers session
       (if add then bind_op (gt_add_grant (aw_grants writes) (gf_subject_type form) (gf_subject_id form) (gf_repo form) (gf_role form))
          (\<lambda>_. return_op ())
        else gt_remove_grant (aw_grants writes) (gf_subject_type form) (gf_subject_id form) (gf_repo form) (gf_role form)))"

section \<open>Simulator\<close>

fun core_error_kind :: "CoreError \<Rightarrow> string" where
  "core_error_kind NotFound = ''NotFound''"
| "core_error_kind AuthSessionNotFound = ''AuthSessionNotFound''"
| "core_error_kind (InvalidArgument _) = ''InvalidArgument''"
| "core_error_kind Unauthenticated = ''Unauthenticated''"
| "core_error_kind PermissionDenied = ''PermissionDenied''"
| "core_error_kind Unsupported = ''Unsupported''"
| "core_error_kind SigningKeyUnavailable = ''SigningKeyUnavailable''"
| "core_error_kind TokenIssueFailed = ''TokenIssueFailed''"
| "core_error_kind DeviceInvalidCode = ''DeviceInvalidCode''"
| "core_error_kind DeviceExpiredCode = ''DeviceExpiredCode''"
| "core_error_kind DeviceAuthorizationNotPending = ''DeviceAuthorizationNotPending''"
| "core_error_kind DeviceIncompleteAuthorization = ''DeviceIncompleteAuthorization''"
| "core_error_kind (AdminAuditFailed _) = ''AdminAuditFailed''"

definition core_error_display :: "CoreError \<Rightarrow> message" where
  "core_error_display err = Lit (core_error_kind err) # Lit '': '' # CoreError_display err"

definition simulator_error :: "'n AdminLib \<Rightarrow> string \<Rightarrow> CoreError \<Rightarrow> string \<Rightarrow> SimulatorResultView" where
  "simulator_error al lang err message_key = SimulatorResultView_default\<lparr>sv_present := True,
     sv_status := translate al lang ''admin.simulator.status_error'',
     sv_detail := Lit (translate al lang message_key) # Lit '': '' # core_error_display err\<rparr>"

definition resolve_simulator_user :: "('n, 's) AppState \<Rightarrow> string \<Rightarrow> (User, 's) port" where
  "resolve_simulator_user st value =
     (let value = trim value in
      if value = [] then fail_op (InvalidArgument [Lit ''user must not be empty''])
      else
        bind_op (try_op (ad_user_by_id (hs_accounts (app_services st)) value)) (\<lambda>found. case found of
          Some user \<Rightarrow> return_op user
        | None \<Rightarrow>
            let normalized = normalize_email value in
            bind_op (ad_list_users (hs_accounts (app_services st)) \<lparr>ulf_query = value, ulf_limit = ADMIN_LIST_LIMIT\<rparr>) (\<lambda>candidates.
            case find (\<lambda>user. u_id user = value \<or> normalize_email (u_email user) = normalized) candidates of
              Some user \<Rightarrow> return_op user
            | None \<Rightarrow> fail_op NotFound)))"

definition resolve_simulator_resource_id :: "('n, 's) AppState \<Rightarrow> string \<Rightarrow> (string, 's) port" where
  "resolve_simulator_resource_id st value =
     (let value = trim value in
      if value = [] then fail_op (InvalidArgument [Lit ''resource must not be empty''])
      else
        bind_op (try_op (rs_get_by_name (hs_resources (app_services st)) value)) (\<lambda>found. case found of
          Some resource \<Rightarrow> return_op (r_resource_id resource)
        | None \<Rightarrow>
            let resource_id = (if starts_with value ''urc-'' then value else ''urc-'' @ value) in
            catch_op (rs_get_by_resource_id (hs_resources (app_services st)) resource_id) (\<lambda>r. case r of
                Inr resource \<Rightarrow> return_op (r_resource_id resource)
              | Inl NotFound \<Rightarrow> return_op resource_id
              | Inl err \<Rightarrow> fail_op err)))"

definition evidence_row :: "GrantEvidence \<Rightarrow> GrantEvidenceRow" where
  "evidence_row g = \<lparr>ew_subject = ge_subject_type g @ '':'' @ ge_subject_name g, ew_role = ge_role g, ew_path = ge_path g\<rparr>"

text \<open>The note and the rows that come with the evidence, and the status and the detail of the decision.\<close>

definition evidence_view :: "'n AdminLib \<Rightarrow> string \<Rightarrow> CoreError + GrantEvidence list \<Rightarrow> message \<times> GrantEvidenceRow list" where
  "evidence_view al lang evidence =
     (case evidence of
        Inr rows \<Rightarrow> ([], map evidence_row rows)
      | Inl err \<Rightarrow>
          (if err = NotFound then [Lit (translate al lang ''admin.simulator.repository_not_found'')]
           else Lit (translate al lang ''admin.simulator.error_evidence'') # Lit '': '' # core_error_display err, []))"

definition decision_view :: "'n AdminLib \<Rightarrow> string \<Rightarrow> CoreError + bool \<Rightarrow> string \<times> message" where
  "decision_view al lang decision =
     (case decision of
        Inr allowed \<Rightarrow> (translate al lang (if allowed then ''admin.simulator.status_allow'' else ''admin.simulator.status_deny''), [])
      | Inl err \<Rightarrow> (translate al lang ''admin.simulator.status_error'',
          Lit (translate al lang ''admin.simulator.error_policy'') # Lit '': '' # core_error_display err))"

definition simulator_result ::
  "'n AdminLib \<Rightarrow> ('n, 's) AppState \<Rightarrow> SimulatorForm \<Rightarrow> string \<Rightarrow> (SimulatorResultView, 's) http" where
  "simulator_result al st form lang =
     (let action = trim (smf_action form) in
      if action = [] then return_op (simulator_error al lang (InvalidArgument [Lit ''action must not be empty''])
        ''admin.simulator.error_invalid_input'')
      else catch_op (resolve_simulator_user st (smf_user form)) (\<lambda>user. case user of
          Inl err \<Rightarrow> return_op (simulator_error al lang err
            (if err = NotFound then ''admin.simulator.error_user_not_found'' else ''admin.simulator.error_user''))
        | Inr user \<Rightarrow> catch_op (resolve_simulator_resource_id st (smf_resource form)) (\<lambda>resource_id. case resource_id of
            Inl err \<Rightarrow> return_op (simulator_error al lang err ''admin.simulator.error_resource'')
          | Inr resource_id \<Rightarrow>
              catch_op (permission_can_access (hs_permissions (app_services st)) (u_id user) resource_id action) (\<lambda>decision.
              catch_op (gt_grants_for_user_on_repository (hs_grants (app_services st)) (u_id user) resource_id) (\<lambda>evidence.
              return_op \<lparr>sv_present = True, sv_status = fst (decision_view al lang decision),
                sv_detail = snd (decision_view al lang decision), sv_user = u_email user, sv_resource_id = resource_id,
                sv_action = action, sv_repository_note = fst (evidence_view al lang evidence),
                sv_evidence = snd (evidence_view al lang evidence)\<rparr>)))))"

definition handle_simulator ::
  "'n AdminLib \<Rightarrow> ('n, 's) AppState \<Rightarrow> (string \<rightharpoonup> string) \<Rightarrow> headers \<Rightarrow> IpAddr option \<Rightarrow> (Response, 's) http" where
  "handle_simulator al st query headers peer =
     (let lib = app_lib st in
      bind_op (require_admin al st headers peer) (\<lambda>session.
      let lang = resolve_lang lib headers (query ''lang'') in
      bind_op (create_admin_csrf st session) (\<lambda>csrf_token.
      return_op (render_template lib al (SimulatorPage
        \<lparr>smt_lang = lang, smt_csrf_token = csrf_token, smt_input_user = [], smt_input_resource = [],
         smt_input_action = ''read'', smt_result = SimulatorResultView_default, smt_flash = []\<rparr>)))))"

definition handle_simulator_check ::
  "'n AdminLib \<Rightarrow> ('n, 's) AppState \<Rightarrow> headers \<Rightarrow> IpAddr option \<Rightarrow> SimulatorForm \<Rightarrow> (Response, 's) http" where
  "handle_simulator_check al st headers peer form =
     (let lib = app_lib st in
      admin_form al st headers peer (smf_csrf_token form) (\<lambda>session _.
      let lang = resolve_lang lib headers None in
      bind_op (create_admin_csrf st session) (\<lambda>csrf_token.
      bind_op (simulator_result al st form lang) (\<lambda>result.
      return_op (render_template lib al (SimulatorPage
        \<lparr>smt_lang = lang, smt_csrf_token = csrf_token, smt_input_user = trim (smf_user form),
         smt_input_resource = trim (smf_resource form), smt_input_action = trim (smf_action form),
         smt_result = result, smt_flash = []\<rparr>))))))"

section \<open>Routes\<close>

datatype admin_route =
    A_dashboard | A_repositories | A_repository_add | A_repository_disable string | A_grant_add | A_grant_remove |
    A_users | A_user_add | A_user_invite | A_user_disable string | A_user_access string |
    A_groups | A_group_add | A_group_member_add | A_group_member_remove | A_group_nest_add | A_group_nest_remove |
    A_simulator | A_simulator_check | A_htmx | A_pico

record admin_request =
  aq_headers :: headers
  aq_query :: "string \<rightharpoonup> string"
  aq_body :: body
  aq_remote :: "IpAddr option"

text \<open>The \<open>Form\<close> extractor runs after the guard and before the handler.\<close>

definition with_form ::
  "'n AdminLib \<Rightarrow> admin_request \<Rightarrow> (fields \<Rightarrow> 'f) \<Rightarrow> (headers \<Rightarrow> IpAddr option \<Rightarrow> 'f \<Rightarrow> (Response, 's) http) \<Rightarrow> (Response, 's) http" where
  "with_form al rq mk handler =
     bind_op (read_op (\<lambda>_. al_form al (aq_headers rq) (aq_body rq))) (\<lambda>m.
     handler (aq_headers rq) (aq_remote rq) (mk m))"

fun admin_handle :: "'n AdminLib \<Rightarrow> ('n, 's) AppState \<Rightarrow> admin_request \<Rightarrow> admin_route \<Rightarrow> (Response, 's) http" where
  "admin_handle al st rq A_dashboard = handle_dashboard al st (aq_query rq) (aq_headers rq) (aq_remote rq)"
| "admin_handle al st rq A_repositories = handle_repositories al st (aq_query rq) (aq_headers rq) (aq_remote rq)"
| "admin_handle al st rq A_repository_add = with_form al rq repository_add_form (handle_repository_add al st)"
| "admin_handle al st rq (A_repository_disable i) = with_form al rq csrf_form (handle_repository_disable al st i)"
| "admin_handle al st rq A_grant_add = with_form al rq grant_form (\<lambda>h p f. mutate_grant al st h p f True)"
| "admin_handle al st rq A_grant_remove = with_form al rq grant_form (\<lambda>h p f. mutate_grant al st h p f False)"
| "admin_handle al st rq A_users = handle_users al st (aq_query rq) (aq_headers rq) (aq_remote rq)"
| "admin_handle al st rq A_user_add = with_form al rq user_add_form (handle_user_add al st)"
| "admin_handle al st rq A_user_invite = with_form al rq user_invite_form (handle_user_invite al st)"
| "admin_handle al st rq (A_user_disable i) = with_form al rq csrf_form (handle_user_disable al st i)"
| "admin_handle al st rq (A_user_access i) = handle_user_access al st i (aq_query rq) (aq_headers rq) (aq_remote rq)"
| "admin_handle al st rq A_groups = handle_groups al st (aq_query rq) (aq_headers rq) (aq_remote rq)"
| "admin_handle al st rq A_group_add = with_form al rq group_add_form (handle_group_add al st)"
| "admin_handle al st rq A_group_member_add = with_form al rq group_member_form (\<lambda>h p f. mutate_group_member al st h p f True)"
| "admin_handle al st rq A_group_member_remove = with_form al rq group_member_form (\<lambda>h p f. mutate_group_member al st h p f False)"
| "admin_handle al st rq A_group_nest_add = with_form al rq group_nest_form (\<lambda>h p f. mutate_group_nest al st h p f True)"
| "admin_handle al st rq A_group_nest_remove = with_form al rq group_nest_form (\<lambda>h p f. mutate_group_nest al st h p f False)"
| "admin_handle al st rq A_simulator = handle_simulator al st (aq_query rq) (aq_headers rq) (aq_remote rq)"
| "admin_handle al st rq A_simulator_check = with_form al rq simulator_form (handle_simulator_check al st)"
| "admin_handle al st rq A_htmx = handle_htmx al st (aq_headers rq) (aq_remote rq)"
| "admin_handle al st rq A_pico = handle_pico al st (aq_headers rq) (aq_remote rq)"

text \<open>The routes exist only when the console is enabled, and the guard is in front of all of them.\<close>

definition admin_routes :: "'n AdminLib \<Rightarrow> ('n, 's) AppState \<Rightarrow> admin_request \<Rightarrow> admin_route \<Rightarrow> (Response, 's) http" where
  "admin_routes al st rq route =
     (if AdminConfig_enabled (hc_admin (app_cfg st))
      then guard_middleware al st (aq_headers rq) (aq_remote rq) (admin_handle al st rq route)
      else fail_op (response_with_headers (app_lib st) 404 [] []))"

end
