(* ===== verification/Http_Router.thy ===== *)
theory Http_Router
  imports Admin_Console
begin

text \<open>
  The router of the HTTP server with its middleware and the admin routes (\<open>build_router\<close> in
  \<open>httpserver/mod.rs\<close>). A request names the route that the router chose for its path.
\<close>

section \<open>The router\<close>

datatype http_route =
    R_jwks | R_healthz | R_index | R_login | R_auth_start string | R_auth_callback string | R_login_session string |
    R_whoami | R_me | R_session_csrf | R_logout | R_token_page | R_token_mint | R_device_page | R_device_approve |
    R_device_start | R_device_token | R_admin admin_route

record http_request =
  hr_path :: string
  hr_route :: http_route
  hr_headers :: headers
  hr_query :: "string \<rightharpoonup> string"
  hr_raw_query :: string
  hr_body :: body
  hr_remote :: "IpAddr option"
  hr_nonce :: string

definition admin_request_of :: "http_request \<Rightarrow> admin_request" where
  "admin_request_of rq = \<lparr>aq_headers = hr_headers rq, aq_query = hr_query rq, aq_body = hr_body rq, aq_remote = hr_remote rq\<rparr>"

fun http_handle :: "'n AdminLib \<Rightarrow> ('n, 's) AppState \<Rightarrow> http_request \<Rightarrow> http_route \<Rightarrow> (Response, 's) http" where
  "http_handle al st rq R_jwks = handle_jwks st"
| "http_handle al st rq R_healthz = handle_healthz (app_lib st)"
| "http_handle al st rq R_index = handle_index st (hr_headers rq)"
| "http_handle al st rq R_login = handle_login st (hr_query rq)"
| "http_handle al st rq (R_auth_start provider_id) = handle_auth_start st (hr_nonce rq) provider_id (hr_query rq)"
| "http_handle al st rq (R_auth_callback provider_id) = handle_auth_callback st provider_id (hr_headers rq) (hr_raw_query rq)"
| "http_handle al st rq (R_login_session nonce) = handle_login_session st nonce (hr_query rq)"
| "http_handle al st rq R_whoami = handle_whoami st (hr_headers rq)"
| "http_handle al st rq R_me = handle_me st (hr_headers rq)"
| "http_handle al st rq R_session_csrf = handle_session_csrf st (hr_headers rq)"
| "http_handle al st rq R_logout = handle_logout st (hr_headers rq) (hr_body rq)"
| "http_handle al st rq R_token_page = handle_token_page st (hr_headers rq)"
| "http_handle al st rq R_token_mint = handle_token_mint st (hr_headers rq) (hr_body rq)"
| "http_handle al st rq R_device_page = handle_device_page st (hr_query rq) (hr_headers rq)"
| "http_handle al st rq R_device_approve = handle_device_approve st (hr_headers rq) (hr_body rq)"
| "http_handle al st rq R_device_start = handle_device_start st (hr_body rq)"
| "http_handle al st rq R_device_token = handle_device_token st (hr_body rq)"
| "http_handle al st rq (R_admin route) = admin_routes al st (admin_request_of rq) route"

text \<open>The middleware of the router, the outer one first.\<close>

definition build_router ::
  "'n AdminLib \<Rightarrow> ('n, 's) AppState \<Rightarrow> nat \<Rightarrow> http_request \<Rightarrow> Limiter \<times> 's \<Rightarrow> Response \<times> Limiter \<times> 's" where
  "build_router al st now rq =
     security_headers (hr_path rq)
       (rate_limit_public (app_lib st) now (hr_path rq) (hr_remote rq) (respond (http_handle al st rq (hr_route rq))))"

section \<open>The console moves with its services\<close>

locale admin_reads = page_world R st for R :: "'s \<Rightarrow> 's \<Rightarrow> bool" and st :: "('n, 's) AppState" +
  assumes user_by_id_moves [moves_intros]: "moves R (ad_user_by_id (hs_accounts (app_services st)) i)"
    and list_users_moves [moves_intros]: "moves R (ad_list_users (hs_accounts (app_services st)) f)"
    and get_by_name_moves [moves_intros]: "moves R (rs_get_by_name (hs_resources (app_services st)) n)"
    and get_by_resource_id_moves [moves_intros]: "moves R (rs_get_by_resource_id (hs_resources (app_services st)) i)"
    and can_access_moves [moves_intros]: "moves R (permission_can_access (hs_permissions (app_services st)) u i a)"
    and list_groups_moves [moves_intros]: "moves R (gq_list_groups (hs_groups (app_services st)))"
    and list_members_moves [moves_intros]: "moves R (gq_list_group_members (hs_groups (app_services st)) i)"
    and list_nested_moves [moves_intros]: "moves R (gq_list_group_groups (hs_groups (app_services st)) i)"
    and list_grants_moves [moves_intros]: "moves R (gt_list_grants (hs_grants (app_services st)) n)"
    and evidence_moves [moves_intros]: "moves R (gt_grants_for_user_on_repository (hs_grants (app_services st)) u i)"
begin

lemma require_admin_moves [moves_intros]: "moves R (require_admin al st hs peer)"
  unfolding require_admin_def Let_def by (intro moves_intros)

lemma create_admin_csrf_moves [moves_intros]: "moves R (create_admin_csrf st session)"
  unfolding create_admin_csrf_def by (intro moves_intros)

lemma require_admin_csrf_moves [moves_intros]: "moves R (require_admin_csrf st session csrf)"
  unfolding require_admin_csrf_def by (intro moves_intros)

lemma group_rows_loop_moves [moves_intros]: "moves R (group_rows_loop al st q n groups)"
proof (induction groups arbitrary: n)
  case (Cons grp groups)
  show ?case unfolding group_rows_loop.simps by (intro moves_intros Cons.IH)
qed (simp add: moves_return)

lemma repository_rows_loop_moves [moves_intros]: "moves R (repository_rows_loop al st q n resources)"
proof (induction resources arbitrary: n)
  case (Cons resource resources)
  show ?case unfolding repository_rows_loop.simps by (intro moves_intros Cons.IH)
qed (simp add: moves_return)

lemma rows_move [moves_intros]:
  "moves R (user_rows st q)" "moves R (group_rows al st q)" "moves R (repository_rows al st q)"
  unfolding user_rows_def group_rows_def repository_rows_def by (intro moves_intros)+

lemma pages_move [moves_intros]:
  "moves R (render_users_page al st hs session q flash)" "moves R (render_groups_page al st hs session q flash)"
  "moves R (render_repositories_page al st hs session q flash)"
  unfolding render_users_page_def render_groups_page_def render_repositories_page_def Let_def by (intro moves_intros)+

lemma validate_moves [moves_intros]: "moves R (validate_admin_disable_target st session target)"
  unfolding validate_admin_disable_target_def Let_def by (intro moves_intros)

lemma resolve_user_moves [moves_intros]: "moves R (resolve_simulator_user st v)"
  unfolding resolve_simulator_user_def Let_def
  by (auto intro!: moves_intros split: option.split)

lemma resolve_resource_moves [moves_intros]: "moves R (resolve_simulator_resource_id st v)"
  unfolding resolve_simulator_resource_id_def Let_def
  by (auto intro!: moves_intros split: option.split)

lemma simulator_result_moves [moves_intros]: "moves R (simulator_result al st form lang)"
  unfolding simulator_result_def Let_def
  by (auto intro!: moves_intros split: sum.split)

lemma admin_pages_move [moves_intros]:
  "moves R (handle_dashboard al st q hs p)" "moves R (handle_htmx al st hs p)" "moves R (handle_pico al st hs p)"
  "moves R (handle_users al st q hs p)" "moves R (handle_user_access al st i q hs p)" "moves R (handle_groups al st q hs p)"
  "moves R (handle_repositories al st q hs p)" "moves R (handle_simulator al st q hs p)"
  unfolding handle_dashboard_def handle_htmx_def handle_pico_def handle_users_def handle_user_access_def handle_groups_def
    handle_repositories_def handle_simulator_def Let_def
  by (intro moves_intros)+

end

locale admin_world = http_world R st + admin_reads R st for R :: "'s \<Rightarrow> 's \<Rightarrow> bool" and st :: "('n, 's) AppState" +
  assumes add_user_moves [moves_intros]: "moves R (ad_add_user (aw_accounts (hs_admin_writes (app_services st) actor)) ui)"
    and add_invitation_moves [moves_intros]: "moves R (ad_add_invitation (aw_accounts (hs_admin_writes (app_services st) actor)) ii)"
    and disable_user_moves [moves_intros]: "moves R (ad_disable_user (aw_accounts (hs_admin_writes (app_services st) actor)) i)"
    and upsert_moves [moves_intros]: "moves R (rs_upsert (aw_resources (hs_admin_writes (app_services st) actor)) r)"
    and delete_moves [moves_intros]: "moves R (rs_delete (aw_resources (hs_admin_writes (app_services st) actor)) i)"
    and add_group_moves [moves_intros]: "moves R (ga_add_group (aw_groups (hs_admin_writes (app_services st) actor)) n d)"
    and add_member_moves [moves_intros]: "moves R (ga_add_group_member (aw_groups (hs_admin_writes (app_services st) actor)) gn u)"
    and remove_member_moves [moves_intros]: "moves R (ga_remove_group_member (aw_groups (hs_admin_writes (app_services st) actor)) gn u)"
    and nest_moves [moves_intros]: "moves R (ga_add_group_group (aw_groups (hs_admin_writes (app_services st) actor)) gp gm)"
    and unnest_moves [moves_intros]: "moves R (ga_remove_group_group (aw_groups (hs_admin_writes (app_services st) actor)) gp gm)"
    and add_grant_moves [moves_intros]: "moves R (gt_add_grant (aw_grants (hs_admin_writes (app_services st) actor)) ty s n role)"
    and remove_grant_moves [moves_intros]: "moves R (gt_remove_grant (aw_grants (hs_admin_writes (app_services st) actor)) ty s n role)"
begin

lemma admin_form_moves [moves_intros]:
  "(\<And>session. moves R (k session (hs_admin_writes (app_services st) (admin_actor session)))) \<Longrightarrow>
     moves R (admin_form al st hs peer csrf k)"
  unfolding admin_form_def by (intro moves_intros)

lemma writes_move [moves_intros]:
  "moves R wr \<Longrightarrow> moves R (user_write al st hs session wr)" "moves R wr \<Longrightarrow> moves R (group_write al st hs session wr)"
  "moves R wr \<Longrightarrow> moves R (repository_write al st hs session wr)"
  unfolding user_write_def group_write_def repository_write_def by (intro moves_intros; assumption)+

lemma admin_forms_move [moves_intros]:
  "moves R (handle_user_add al st hs p f1)" "moves R (handle_user_invite al st hs p f2)" "moves R (handle_user_disable al st i hs p f3)"
  "moves R (handle_group_add al st hs p f4)" "moves R (mutate_group_member al st hs p f5 add)" "moves R (mutate_group_nest al st hs p f6 add)"
  "moves R (handle_repository_add al st hs p f7)" "moves R (handle_repository_disable al st i hs p f3)"
  "moves R (mutate_grant al st hs p f8 add)" "moves R (handle_simulator_check al st hs p f9)"
  unfolding handle_user_add_def handle_user_invite_def handle_user_disable_def handle_group_add_def mutate_group_member_def
    mutate_group_nest_def handle_repository_add_def handle_repository_disable_def mutate_grant_def handle_simulator_check_def Let_def
  by (intro moves_intros)+

lemma with_form_moves [moves_intros]: "(\<And>hs p f. moves R (h hs p f)) \<Longrightarrow> moves R (with_form al rq mk h)"
  unfolding with_form_def by (intro moves_intros)

lemma admin_handle_moves [moves_intros]: "moves R (admin_handle al st rq route)"
  by (cases route) (simp_all add: admin_pages_move admin_forms_move with_form_moves)

lemma admin_routes_moves [moves_intros]: "moves R (admin_routes al st rq route)"
  unfolding admin_routes_def guard_middleware_def by (intro moves_intros)

lemma http_handle_moves: "moves R (http_handle al st rq route)"
  by (cases route)
    (simp_all add: login_handlers_move device_handlers_move session_handlers_move handle_healthz_def moves_return admin_routes_moves)

end

end
