(* ===== verification/Http_Flows.thy ===== *)
theory Http_Flows
  imports Grpc_Flows Http_Router
begin

text \<open>
  The HTTP server on the service graph of the running server: every request moves the database
  along the steps of the store; the forms that mint a token or approve a device act only for a
  live browser session, from the server's own origin, and use up a CSRF token of that session; a
  login state completes one callback; and a session that was logged out is over.
\<close>

definition graph_http :: "HttpLib \<Rightarrow> 'n HttpConfig \<Rightarrow> Setup \<Rightarrow> ('n, World) AppState" where
  "graph_http lib cfg g =
     \<lparr>app_lib = lib, app_cfg = cfg,
      app_services =
        \<lparr>hs_login = Some (graph_login g), hs_tokens = graph_tokens g, hs_resources = sqlite_resources,
         hs_permissions = graph_permissions g, hs_accounts = sqlite_accounts, hs_admin_writes = AuditedStoreFactory,
         hs_groups = sqlite_groups, hs_grants = sqlite_grants, hs_state = sqlite_state (st_sha g),
         hs_jwks = rs256_signer (st_jwt g) (st_signer g), hs_device = Some (graph_device g)\<rparr>\<rparr>"

lemma graph_http_simps [simp]:
  "app_lib (graph_http lib cfg g) = lib" "app_cfg (graph_http lib cfg g) = cfg"
  "hs_login (app_services (graph_http lib cfg g)) = Some (graph_login g)"
  "hs_tokens (app_services (graph_http lib cfg g)) = graph_tokens g"
  "hs_resources (app_services (graph_http lib cfg g)) = sqlite_resources"
  "hs_permissions (app_services (graph_http lib cfg g)) = graph_permissions g"
  "hs_accounts (app_services (graph_http lib cfg g)) = sqlite_accounts"
  "hs_admin_writes (app_services (graph_http lib cfg g)) = AuditedStoreFactory"
  "hs_groups (app_services (graph_http lib cfg g)) = sqlite_groups"
  "hs_grants (app_services (graph_http lib cfg g)) = sqlite_grants"
  "hs_state (app_services (graph_http lib cfg g)) = sqlite_state (st_sha g)"
  "hs_jwks (app_services (graph_http lib cfg g)) = rs256_signer (st_jwt g) (st_signer g)"
  "hs_device (app_services (graph_http lib cfg g)) = Some (graph_device g)"
  by (simp_all add: graph_http_def)

lemma http_state_moves:
  "moves world_step (ss_user_by_browser_session (sqlite_state sha) i)"
  "moves world_step (ss_revoke_browser_session (sqlite_state sha) i)"
  "moves world_step (ss_create_csrf_token (sqlite_state sha) i ttl)"
  "moves world_step (ss_consume_csrf_token (sqlite_state sha) i tok)"
  "moves world_step (ss_create_login_state (sqlite_state sha) lin ttl)"
  "moves world_step (ss_set_login_state_private_state (sqlite_state sha) i p)"
  "moves world_step (ss_consume_login_state (sqlite_state sha) i)"
  by (auto simp: sqlite_state_def intro!: db_read_moves db_write_moves intro: db_step.intros)

lemma http_signer_moves: "moves world_step (ts_jwks (rs256_signer jwt sg))"
  by (simp add: rs256_signer_def outside_moves)

lemma audited_step: "run_audited actor aid anow W db = drop_result r \<Longrightarrow> r = Inr (a, db') \<Longrightarrow> db_step db db'"
  by (rule db_step.audited [where w = W]) (simp add: drop_result_def)

lemma admin_account_moves:
  "moves world_step (ad_user_by_id sqlite_accounts i)" "moves world_step (ad_list_users sqlite_accounts f)"
  "moves world_step (ad_add_user (aw_accounts (AuditedStoreFactory actor)) ui)"
  "moves world_step (ad_add_invitation (aw_accounts (AuditedStoreFactory actor)) ii)"
  "moves world_step (ad_disable_user (aw_accounts (AuditedStoreFactory actor)) i)"
  by (auto simp: sqlite_accounts_def AuditedStoreFactory_def intro!: db_read_moves db_write_moves
      elim!: audited_step [OF run_audited.simps(1)] audited_step [OF run_audited.simps(2)] audited_step [OF run_audited.simps(3)])

lemma admin_group_moves:
  "moves world_step (gq_list_groups sqlite_groups)" "moves world_step (gq_list_group_members sqlite_groups i)"
  "moves world_step (gq_list_group_groups sqlite_groups i)"
  "moves world_step (ga_add_group (aw_groups (AuditedStoreFactory actor)) n d)"
  "moves world_step (ga_add_group_member (aw_groups (AuditedStoreFactory actor)) gn u)"
  "moves world_step (ga_remove_group_member (aw_groups (AuditedStoreFactory actor)) gn u)"
  "moves world_step (ga_add_group_group (aw_groups (AuditedStoreFactory actor)) gp gm)"
  "moves world_step (ga_remove_group_group (aw_groups (AuditedStoreFactory actor)) gp gm)"
  by (auto simp: sqlite_groups_def AuditedStoreFactory_def intro!: db_read_moves db_write_moves
      elim!: audited_step [OF run_audited.simps(5)] audited_step [OF run_audited.simps(6)] audited_step [OF run_audited.simps(7)]
        audited_step [OF run_audited.simps(8)] audited_step [OF run_audited.simps(9)])

lemma admin_resource_moves:
  "moves world_step (rs_upsert (aw_resources (AuditedStoreFactory actor)) r)"
  "moves world_step (rs_delete (aw_resources (AuditedStoreFactory actor)) i)"
  "moves world_step (gt_list_grants sqlite_grants n)" "moves world_step (gt_grants_for_user_on_repository sqlite_grants u i)"
  "moves world_step (gt_add_grant (aw_grants (AuditedStoreFactory actor)) ty s n role)"
  "moves world_step (gt_remove_grant (aw_grants (AuditedStoreFactory actor)) ty s n role)"
  by (auto simp: sqlite_grants_def AuditedStoreFactory_def intro!: db_read_moves db_write_moves
      elim!: audited_step [OF run_audited.simps(10)] audited_step [OF run_audited.simps(11)] audited_step [OF run_audited.simps(12)]
        audited_step [OF run_audited.simps(13)])

lemma http_permission_moves: "moves world_step (permission_can_access (graph_permissions g) u i a)"
  by (simp add: permission_can_access_def graph_permissions_def policy_moves)

interpretation graph_http: admin_world world_step "graph_http lib cfg g"
  by unfold_locales (auto simp: http_state_moves http_signer_moves state_moves service_moves resource_moves
      admin_account_moves admin_group_moves admin_resource_moves http_permission_moves)

lemma respond_step: "moves world_step m \<Longrightarrow> respond m w = (r, w') \<Longrightarrow> world_step w w'"
  using world.moves_run [of m w] by (auto simp: respond_def split: prod.splits sum.splits)

lemma build_router_step:
  "build_router al (graph_http lib cfg g) now rq (lim, w) = (r, lim', w') \<Longrightarrow> world_step w w'"
  using respond_step [OF graph_http.http_handle_moves [of al lib cfg g rq "hr_route rq"], of w]
  by (auto simp: build_router_def security_headers_def rate_limit_public_def world.refl split: if_splits prod.splits bool.splits)

section \<open>Requests of all servers\<close>

datatype 'n inbound =
    Grpc nat "IpAddr option" grpc_call
  | Http nat http_request
  | Service request

record inbound_state =
  ib_grpc :: Limiter
  ib_http :: Limiter
  ib_world :: World

record 'n Inbound =
  in_to_str :: "string \<Rightarrow> string option"
  in_nets :: "'n IpNets"
  in_prefixes :: "'n list"
  in_lib :: HttpLib
  in_admin :: "'n AdminLib"
  in_cfg :: "'n HttpConfig"
  in_setup :: Setup

fun answer :: "'n Inbound \<Rightarrow> 'n inbound \<Rightarrow> inbound_state \<Rightarrow> inbound_state" where
  "answer srv (Grpc now remote call) s =
     (case grpc_serve (graph_grpc (in_to_str srv) (in_nets srv) (in_prefixes srv) (in_setup srv)) now remote call (ib_grpc s, ib_world s) of
        (_, lim, w) \<Rightarrow> s\<lparr>ib_grpc := lim, ib_world := w\<rparr>)"
| "answer srv (Http now rq) s =
     (case build_router (in_admin srv) (graph_http (in_lib srv) (in_cfg srv) (in_setup srv)) now rq (ib_http s, ib_world s) of
        (_, lim, w) \<Rightarrow> s\<lparr>ib_http := lim, ib_world := w\<rparr>)"
| "answer srv (Service rq) s = s\<lparr>ib_world := serve (in_setup srv) rq (ib_world s)\<rparr>"

lemma answer_step: "world_step (ib_world s) (ib_world (answer srv rq s))"
  by (cases rq) (auto split: prod.splits intro: grpc_serve_step build_router_step serve_step)

lemma answers_step: "world_step (ib_world s) (ib_world (fold (answer srv) rqs s))"
proof (induction rqs arbitrary: s)
  case (Cons rq rqs)
  show ?case using world_step_trans [OF answer_step Cons.IH] by simp
qed (simp add: world.refl)


section \<open>Forms\<close>

text \<open>A browser session names a user: it is not revoked, has not expired, and the user is active.\<close>

definition session_names :: "Db \<Rightarrow> i64 \<Rightarrow> string \<Rightarrow> string \<Rightarrow> bool" where
  "session_names db now sid u \<longleftrightarrow> (\<exists>s \<in> set (t_sessions db). \<exists>r \<in> set (t_users db). br_id s = sid \<and>
     br_revoked_at s = None \<and> now < br_expires_at s \<and> br_user_id s = u \<and> ur_id r = u \<and> ur_status r = ''active'')"

text \<open>A form is guarded: it came from the server's origin, the cookie named a live session of the user, and
  later the CSRF token of the form was used up for that session.\<close>

definition form_guarded ::
  "Setup \<Rightarrow> HttpLib \<Rightarrow> 'n HttpConfig \<Rightarrow> headers \<Rightarrow> string \<Rightarrow> World \<Rightarrow> World \<Rightarrow> string \<Rightarrow> bool" where
  "form_guarded g lib cfg headers csrf w w' u \<longleftrightarrow> same_origin lib cfg headers \<and>
     (\<exists>sid db1 t db2 n1 n2 db3. cookie_value lib headers SESSION_COOKIE_NAME = Some sid \<and>
        db_step\<^sup>*\<^sup>* (w_db w) db1 \<and> session_names db1 t sid u \<and> db_step\<^sup>*\<^sup>* db1 db2 \<and>
        consume_csrf_token (st_sha g) n1 n2 sid csrf db2 = Inr ((), db3) \<and> db_step\<^sup>*\<^sup>* db3 (w_db w'))"

lemma current_session_Inr:
  assumes "others_ok w" "db_inv (w_db w)"
    and "current_browser_session lib (sqlite_state sha) headers w = (Inr (Some session), w1)"
  shows "\<exists>t. cookie_value lib headers SESSION_COOKIE_NAME = Some (hb_session_id session) \<and>
    session_names (w_db w1) t (hb_session_id session) (u_id (hb_user session)) \<and> w1 = next_call w"
proof -
  from assms(3) have 1: "cookie_value lib headers SESSION_COOKIE_NAME = Some (hb_session_id session)" "w1 = next_call w"
    "Inr (hb_user session) = user_by_browser_session (w_times w1 (w_call w1) 0) (w_db w1) (hb_session_id session)"
    by (auto simp: current_browser_session_def res_simps sqlite_state_def db_read_iff
        split: option.splits if_splits sum.splits CoreError.splits)
  have "schema_ok (w_db w1)" using assms(1,2) next_call_step 1(2) by (blast dest: world_step_inv db_inv_schema)
  from 1(3) [symmetric, unfolded user_by_browser_session_iff [OF this]]
  have "session_names (w_db w1) (w_times w1 (w_call w1) 0) (hb_session_id session) (u_id (hb_user session))"
    unfolding session_names_def by (fastforce simp: user_from_row_def)
  with 1 show ?thesis by blast
qed

lemma require_session_Inr:
  "require_session (graph_http lib cfg g) headers no w = (Inr session, w1) \<Longrightarrow>
     current_browser_session lib (sqlite_state (st_sha g)) headers w = (Inr (Some session), w1)"
  by (auto simp: require_session_def catch_op_def res_simps split: prod.splits sum.splits option.splits)

lemma guarded:
  assumes "others_ok w" "db_inv (w_db w)" "same_origin lib cfg headers"
    and "require_session (graph_http lib cfg g) headers no w = (Inr session, w1)"
    and "consume_csrf_or (graph_http lib cfg g) session csrf w1 = (Inr (), w2)" "world_step w2 w'"
  shows "form_guarded g lib cfg headers csrf w w' (u_id (hb_user session)) \<and> world_step w w2"
proof -
  from current_session_Inr [OF assms(1,2) require_session_Inr [OF assms(4)]] obtain t where
    1: "cookie_value lib headers SESSION_COOKIE_NAME = Some (hb_session_id session)"
    "session_names (w_db w1) t (hb_session_id session) (u_id (hb_user session))" "w1 = next_call w" by blast
  from assms(5) obtain n1 n2 db3 where
    2: "consume_csrf_token (st_sha g) n1 n2 (hb_session_id session) csrf (w_db (next_call w1)) = Inr ((), db3)"
    "w2 = (next_call w1)\<lparr>w_db := db3\<rparr>"
    by (auto simp: consume_csrf_or_def res_simps sqlite_state_def db_write_Inr)
  have w1: "world_step w w1" using 1(3) next_call_step by simp
  have w2: "world_step w1 w2" using assms(5) by (rule world.moves_run [OF graph_http.consume_csrf_or_moves])
  have "others_ok w1" "others_ok w2" using w1 w2 assms(1) by (auto dest: world_step_steps)
  then have "db_step\<^sup>*\<^sup>* (w_db w) (w_db w1)" "db_step\<^sup>*\<^sup>* (w_db w1) (w_db (next_call w1))" "db_step\<^sup>*\<^sup>* db3 (w_db w')"
    using w1 assms(1,6) 2(2) next_call_step [of w1] by (auto dest: world_step_steps)
  with 1 2(1) assms(3) w1 w2 show ?thesis
    unfolding form_guarded_def by (blast intro: world_step_trans)
qed

lemma form_guarded_once:
  assumes "form_guarded g lib cfg headers csrf w w' u" "db_inv (w_db w)" "db_step\<^sup>*\<^sup>* (w_db w') (w_db w2)"
  shows "\<not> form_guarded g lib' cfg' headers' csrf w2 w3 u'"
proof
  assume "form_guarded g lib' cfg' headers' csrf w2 w3 u'"
  then obtain db4 db5 db6 where 2: "db_step\<^sup>*\<^sup>* (w_db w2) db4" "db_step\<^sup>*\<^sup>* db4 db5" "uses_csrf_token (st_sha g) csrf db5 db6"
    unfolding form_guarded_def uses_csrf_token_def by blast
  from assms(1) obtain db1 db2 db3 where 1: "db_step\<^sup>*\<^sup>* (w_db w) db1" "db_step\<^sup>*\<^sup>* db1 db2"
    "uses_csrf_token (st_sha g) csrf db2 db3" "db_step\<^sup>*\<^sup>* db3 (w_db w')"
    unfolding form_guarded_def uses_csrf_token_def by blast
  have "db_inv db2" using 1(1,2) assms(2) by (blast intro: reachable_inv)
  moreover have "db_step\<^sup>*\<^sup>* db3 db5" using 1(4) assms(3) 2(1,2) by (blast intro: rtranclp_trans)
  ultimately show False using csrf_tokens.used_once [OF _ 1(3)] 2(3) by blast
qed

text \<open>What a mint that answers with a token has done.\<close>

lemma mint_200:
  assumes "respond (handle_token_mint (graph_http lib cfg g) headers body) w = (r, w')" "rp_status r = 200"
  obtains session w1 form w2 signed where
    "require_session (graph_http lib cfg g) headers (redirect_found lib ''/login'') w = (Inr session, w1)"
    "same_origin lib cfg headers" "parse_form_body lib body = Inr form"
    "consume_csrf_or (graph_http lib cfg g) session (field form ''csrf_token'') w1 = (Inr (), w2)"
    "manual_mint_authz (graph_tokens g) (u_id (hb_user session)) (field form ''repository'') ''writer'' None w2 = (Inr signed, w')"
    "rp_body r = token_result_html (st_token signed) (hc_lore_auth_url cfg) (hc_default_remote_url cfg) (field form ''repository'')"
  using respond_200 [OF mint_refuses assms] that
  by (auto simp: handle_token_mint_def Let_def res_simps split: if_splits)

lemma manual_mint_justified:
  assumes "jwt_ok (st_jwt g)" "resolver_ok (st_resolve g)" "others_ok w" "db_inv (w_db w)"
    and "manual_mint_authz (graph_tokens g) u repo role ttl w = (Inr tok, w')"
  shows "\<exists>claims. jw_decode (st_jwt g) (st_token tok) = Inr claims \<and> length (cl_resources claims) = 1 \<and>
    (\<forall>res \<in> set (cl_resources claims). \<exists>db. db_step\<^sup>*\<^sup>* (w_db w) db \<and> db_step\<^sup>*\<^sup>* db (w_db w') \<and>
       could_write db u (lp_resource_id res))"
proof -
  from assms(5) obtain p w1 res w2 w3 authn where
    1: "ad_principal_by_user_id (tk_accounts (graph_tokens g)) u w = (Inr p, w1)"
    "rs_get_by_name (tk_resources (graph_tokens g)) repo w1 = (Inr res, w2)"
    "ap_can_access (tk_authz (graph_tokens g)) (tp_user_id p) (r_resource_id res) ''write'' w2 = (Inr True, w3)"
    "exchange_authz (graph_tokens g) authn [r_resource_id res] ttl w3 = (Inr tok, w')" "va_principal authn = p"
    by (auto simp: manual_mint_authz_def Let_def res_simps split: if_splits)
  have "world_step w w1" "world_step w1 w2" "world_step w2 w3"
    using 1 by (auto intro: world.moves_run [OF graph_tokens.principal_moves] world.moves_run [OF graph_tokens.name_moves]
        world.moves_run [OF graph_tokens.access_moves])
  then have w: "world_step w w1" "world_step w w3" by (blast intro: world_step_trans)+
  with assms(3) have w3: "db_step\<^sup>*\<^sup>* (w_db w) (w_db w3)" "others_ok w3" by (auto dest: world_step_steps)
  have "schema_ok (w_db w1)" using w(1) assms(3,4) by (blast dest: world_step_inv db_inv_schema)
  moreover from 1(1) have "Inr p = principal_by_user_id (w_db w1) u"
    by (auto simp: graph_tokens_def sqlite_accounts_def db_read_iff)
  ultimately have "tp_user_id p = u"
    using principal_by_user_id_iff [of "w_db w1" u p] by (auto simp: principal_from_user_def user_from_row_def)
  with exchange_justified [OF assms(1,2) w3(2) 1(4)] 1(5) show ?thesis
    using rtranclp_trans [OF w3(1)] by fastforce
qed


lemma approve_200:
  assumes "respond (handle_device_approve (graph_http lib cfg g) headers body) w = (r, w')" "rp_status r = 200"
  obtains session w1 form w2 repo where
    "require_session (graph_http lib cfg g) headers (redirect_found lib ''/login'') w = (Inr session, w1)"
    "same_origin lib cfg headers" "parse_form_body lib body = Inr form"
    "consume_csrf_or (graph_http lib cfg g) session (field form ''csrf_token'') w1 = (Inr (), w2)"
    "device_approve (graph_device g) (u_id (hb_user session)) (field form ''user_code'') w2 = (Inr repo, w')"
  using respond_200 [OF approve_refuses assms] that
  by (auto simp: handle_device_approve_def with_device_def Let_def res_simps split: if_splits)

lemma approve_writes:
  assumes "approve_device_authorization now i u db = Inr ((), db')"
  shows "\<exists>row \<in> set (t_device_authorizations db'). dr_id row = i \<and> dr_status row = ''approved'' \<and> dr_approved_user_id row = Some u"
  using assms by (fastforce simp: approve_device_authorization_def res_simps require_affected_Inr elim!: update_hits intro: rev_bexI)

lemma device_approve_done:
  assumes "resolver_ok (st_resolve g)" "others_ok w" "db_inv (w_db w)"
    and "device_approve (graph_device g) u code w = (Inr repo, w')"
  shows "\<exists>row row' db1 db2 rid. db_step\<^sup>*\<^sup>* (w_db w) db1 \<and> db_step\<^sup>*\<^sup>* db1 db2 \<and> db_step\<^sup>*\<^sup>* db2 (w_db w') \<and>
    row \<in> set (t_device_authorizations db1) \<and> dr_user_code_hash row = hash_code (st_sha g) code \<and> dr_status row = ''pending'' \<and>
    could_write db2 u rid \<and> row' \<in> set (t_device_authorizations (w_db w')) \<and> dr_id row' = dr_id row \<and>
    dr_status row' = ''approved'' \<and> dr_approved_user_id row' = Some u"
proof -
  let ?svc = "graph_device g"
  from assms(4) obtain d w1 w2 res w3 w4 p w5 where
    1: "service_device_by_user_code ?svc code w = (Inr d, w1)" "ensure_pending ?svc d w1 = (Inr (), w2)"
    "repository_for_device ?svc d w2 = (Inr res, w3)"
    "ap_can_access (dv_authz ?svc) u (r_resource_id res) ''write'' w3 = (Inr True, w4)"
    "ad_principal_by_user_id (dv_accounts ?svc) u w4 = (Inr p, w5)" "ds_approve (dv_devices ?svc) (da_id d) (tp_user_id p) w5 = (Inr (), w')"
    by (auto simp: device_approve_def res_simps split: if_splits)
  have ws: "world_step w w1" "world_step w1 w2" "world_step w2 w3" "world_step w3 w4" "world_step w4 w5" "world_step w5 w'"
    using 1 by (auto intro: world.moves_run [OF graph_device.lookup_moves(1)] world.moves_run [OF graph_device.ensure_pending_moves]
        world.moves_run [OF graph_device.repository_moves] world.moves_run [OF graph_device.device_access_moves]
        world.moves_run [OF graph_device.device_principal_moves] world.moves_run [OF graph_device.approve_moves])
  then have steps: "world_step w1 w4" "world_step w4 w'" "world_step w w5" by (blast intro: world_step_trans)+
  have db: "db_step\<^sup>*\<^sup>* (w_db w) (w_db w1)" "db_step\<^sup>*\<^sup>* (w_db w1) (w_db w4)" "db_step\<^sup>*\<^sup>* (w_db w4) (w_db w')"
    using ws(1) steps assms(2) by (meson world_step_steps)+
  from 1(1) have "device_by_user_code (st_sha g) (w_db w1) code = Inr d"
    by (auto simp: service_device_by_user_code_def res_simps graph_device_def sqlite_devices_def db_read_iff)
  then obtain row where row: "row \<in> set (t_device_authorizations (w_db w1))" "dr_user_code_hash row = hash_code (st_sha g) code"
    "d = device_to_core (device_from_row row)"
    by (auto simp: device_by_user_code_def device_by_user_code_hash_def res_simps dest!: find_SomeD)
  have "da_status d = ''pending''" using 1(2) by (auto simp: ensure_pending_def res_simps split: if_splits)
  moreover have "could_write (w_db w4) u (r_resource_id res)"
    using write_check_passed [OF assms(1)] 1(4) by (simp add: graph_device_def graph_tokens_def)
  moreover have "schema_ok (w_db w5)" using steps(3) assms(2,3) by (blast dest: world_step_inv db_inv_schema)
  moreover from 1(5) have "Inr p = principal_by_user_id (w_db w5) u" by (auto simp: graph_device_def sqlite_accounts_def db_read_iff)
  ultimately have "tp_user_id p = u" "da_status d = ''pending''" "could_write (w_db w4) u (r_resource_id res)"
    using principal_by_user_id_iff [of "w_db w5" u p] by (auto simp: principal_from_user_def user_from_row_def)
  moreover from 1(6) obtain now dbv where "approve_device_authorization now (da_id d) (tp_user_id p) dbv = Inr ((), w_db w')"
    by (auto simp: graph_device_def sqlite_devices_def db_write_Inr)
  note approve_writes [OF this]
  ultimately show ?thesis using db row by (fastforce simp: device_to_core_def device_from_row_def)
qed

text \<open>Devices are approved only from the form of a signed-in user: when the approval form answers that a
  device is approved, the request came from the server's own origin with a live session of an active
  user and used up a CSRF token of that session; the user code named a pending device, the user
  could write to a repository, and the device is now approved for that user.\<close>

lemma approve_form_guarded:
  assumes "resolver_ok (st_resolve g)" "others_ok w" "db_inv (w_db w)"
    and "respond (handle_device_approve (graph_http lib cfg g) headers body) w = (r, w')" "rp_status r = 200"
  shows "\<exists>form u row row' db1 db2 rid. parse_form_body lib body = Inr form \<and>
    form_guarded g lib cfg headers (field form ''csrf_token'') w w' u \<and>
    db_step\<^sup>*\<^sup>* (w_db w) db1 \<and> db_step\<^sup>*\<^sup>* db1 db2 \<and> db_step\<^sup>*\<^sup>* db2 (w_db w') \<and>
    row \<in> set (t_device_authorizations db1) \<and> dr_user_code_hash row = hash_code (st_sha g) (field form ''user_code'') \<and>
    dr_status row = ''pending'' \<and> could_write db2 u rid \<and>
    row' \<in> set (t_device_authorizations (w_db w')) \<and> dr_id row' = dr_id row \<and> dr_status row' = ''approved'' \<and>
    dr_approved_user_id row' = Some u"
proof -
  from approve_200 [OF assms(4,5)] obtain session w1 form w2 repo where
    1: "require_session (graph_http lib cfg g) headers (redirect_found lib ''/login'') w = (Inr session, w1)"
    "same_origin lib cfg headers" "parse_form_body lib body = Inr form"
    "consume_csrf_or (graph_http lib cfg g) session (field form ''csrf_token'') w1 = (Inr (), w2)"
    "device_approve (graph_device g) (u_id (hb_user session)) (field form ''user_code'') w2 = (Inr repo, w')" .
  have "world_step w2 w'" using 1(5) by (rule world.moves_run [OF graph_device.device_approve_moves])
  from guarded [OF assms(2,3) 1(2,1,4) this] have
    2: "form_guarded g lib cfg headers (field form ''csrf_token'') w w' (u_id (hb_user session))" "world_step w w2" by auto
  then have w2: "db_step\<^sup>*\<^sup>* (w_db w) (w_db w2)" "others_ok w2" "db_inv (w_db w2)"
    using assms(2,3) by (auto dest: world_step_steps world_step_inv)
  from device_approve_done [OF assms(1) w2(2,3) 1(5)] 1(3) 2(1) show ?thesis
    using rtranclp_trans [OF w2(1)] by blast
qed

lemma mint_guarded:
  assumes "others_ok w" "db_inv (w_db w)" "parse_form_body lib body = Inr form"
    and "respond (handle_token_mint (graph_http lib cfg g) headers body) w = (r, w')" "rp_status r = 200"
  shows "\<exists>u. form_guarded g lib cfg headers (field form ''csrf_token'') w w' u"
proof -
  from mint_200 [OF assms(4,5)] assms(3) obtain session w1 w2 tok where
    1: "require_session (graph_http lib cfg g) headers (redirect_found lib ''/login'') w = (Inr session, w1)"
    "same_origin lib cfg headers" "consume_csrf_or (graph_http lib cfg g) session (field form ''csrf_token'') w1 = (Inr (), w2)"
    "manual_mint_authz (graph_tokens g) (u_id (hb_user session)) (field form ''repository'') ''writer'' None w2 = (Inr tok, w')"
    by (metis sum.inject(2))
  from guarded [OF assms(1,2) 1(2,1,3) world.moves_run [OF graph_tokens.manual_mint_authz_moves 1(4)]] show ?thesis by blast
qed

lemma approve_guarded:
  assumes "others_ok w" "db_inv (w_db w)" "parse_form_body lib body = Inr form"
    and "respond (handle_device_approve (graph_http lib cfg g) headers body) w = (r, w')" "rp_status r = 200"
  shows "\<exists>u. form_guarded g lib cfg headers (field form ''csrf_token'') w w' u"
proof -
  from approve_200 [OF assms(4,5)] assms(3) obtain session w1 w2 repo where
    1: "require_session (graph_http lib cfg g) headers (redirect_found lib ''/login'') w = (Inr session, w1)"
    "same_origin lib cfg headers" "consume_csrf_or (graph_http lib cfg g) session (field form ''csrf_token'') w1 = (Inr (), w2)"
    "device_approve (graph_device g) (u_id (hb_user session)) (field form ''user_code'') w2 = (Inr repo, w')"
    by (metis sum.inject(2))
  from guarded [OF assms(1,2) 1(2,1,3) world.moves_run [OF graph_device.device_approve_moves 1(4)]] show ?thesis by blast
qed

text \<open>C10: A form cannot be replayed: after a form has minted a token or approved a device, no form with the
  same CSRF token, with whatever cookies and after whatever requests to both servers, mints a
  token or approves a device again.\<close>

theorem form_replay_refused:
  assumes "others_ok w" "db_inv (w_db w)" "form_handler \<in> {handle_token_mint, handle_device_approve}"
    "replay_handler \<in> {handle_token_mint, handle_device_approve}"
    and "respond (form_handler (graph_http lib cfg (in_setup srv)) headers body) w = (r, ib_world s)" "rp_status r = 200"
    and "parse_form_body lib body = Inr form" "parse_form_body lib body' = Inr form'"
    and "field form' ''csrf_token'' = field form ''csrf_token''"
  shows "rp_status (fst (respond (replay_handler (graph_http lib cfg (in_setup srv)) headers' body') (ib_world (fold (answer srv) rqs s)))) \<noteq> 200"
proof
  let ?st = "graph_http lib cfg (in_setup srv)" and ?w2 = "ib_world (fold (answer srv) rqs s)"
  assume 200: "rp_status (fst (respond (replay_handler ?st headers' body') ?w2)) = 200"
  obtain r2 w3 where r2: "respond (replay_handler ?st headers' body') ?w2 = (r2, w3)" "rp_status r2 = 200"
    using 200 by (cases "respond (replay_handler ?st headers' body') ?w2") auto
  from assms(3) mint_guarded [OF assms(1,2,7)] approve_guarded [OF assms(1,2,7)] assms(5,6) obtain u where
    g: "form_guarded (in_setup srv) lib cfg headers (field form ''csrf_token'') w (ib_world s) u" by blast
  have "moves world_step (form_handler ?st headers body)"
    using assms(3) by (auto simp: graph_http.session_handlers_move graph_http.device_handlers_move)
  from respond_step [OF this assms(5)] have "world_step w (ib_world s)" .
  then have s: "others_ok (ib_world s)" "db_inv (w_db (ib_world s))"
    using assms(1,2) by (auto dest: world_step_steps world_step_inv)
  then have w2: "others_ok ?w2" "db_inv (w_db ?w2)" "db_step\<^sup>*\<^sup>* (w_db (ib_world s)) (w_db ?w2)"
    using answers_step [of s srv rqs] by (auto dest: world_step_steps world_step_inv)
  from assms(4) mint_guarded [OF w2(1,2) assms(8)] approve_guarded [OF w2(1,2) assms(8)] r2 assms(9) obtain u' where
    "form_guarded (in_setup srv) lib cfg headers' (field form ''csrf_token'') ?w2 w3 u'" by fastforce
  with form_guarded_once [OF g assms(2) w2(3)] show False by blast
qed

section \<open>Login states\<close>

lemma consume_state_spends:
  assumes "others_ok w" "db_inv (w_db w)" "consume_state_or (graph_http lib cfg g) state w = (Inr ls, w1)"
  shows "login_state_spent (hash_secret (st_sha g) state) (w_db w1) \<and> world_step w w1"
proof -
  have step: "world_step w w1" using assms(3) by (rule world.moves_run [OF graph_http.consume_state_or_moves])
  from assms(3) obtain n1 n2 n3 db where c: "consume_login_state (st_sha g) n1 n2 n3 state (w_db (next_call w)) = Inr (ls, db)"
    and w1: "w1 = (next_call w)\<lparr>w_db := db\<rparr>"
    by (auto simp: consume_state_or_def catch_op_def res_simps sqlite_state_def db_write_def Let_def split: prod.splits sum.splits if_splits)
  have "db_inv (w_db (next_call w))" using next_call_step assms(1,2) by (rule world_step_inv)
  moreover have "uses_login_state (st_sha g) state (w_db (next_call w)) db" using c by (auto simp: uses_login_state_def)
  ultimately show ?thesis using login_states.use_spends step by (simp add: w1)
qed

lemma consume_state_refused:
  assumes "others_ok w" "db_inv (w_db w)" "login_state_spent (hash_secret (st_sha g) state) (w_db w)"
  shows "\<exists>w1. consume_state_or (graph_http lib cfg g) state w = (Inl (text_response lib 400 ''invalid oauth state''), w1)"
proof (cases "fst (consume_state_or (graph_http lib cfg g) state w)")
  case (Inr ls)
  then obtain w1 where c: "consume_state_or (graph_http lib cfg g) state w = (Inr ls, w1)" by (metis prod.collapse)
  then obtain n1 n2 n3 db where u: "consume_login_state (st_sha g) n1 n2 n3 state (w_db (next_call w)) = Inr (ls, db)"
    by (auto simp: consume_state_or_def catch_op_def res_simps sqlite_state_def db_write_def Let_def split: prod.splits sum.splits if_splits)
  have "db_step\<^sup>*\<^sup>* (w_db w) (w_db (next_call w))" using next_call_step assms(1) by (blast dest: world_step_steps)
  then have "login_state_spent (hash_secret (st_sha g) state) (w_db (next_call w))" "db_inv (w_db (next_call w))"
    using assms(2,3) by (auto intro: login_states.spent_forever reachable_inv)
  with u login_states.spent_blocks show ?thesis by (fastforce simp: uses_login_state_def)
qed (auto simp: consume_state_or_def catch_op_def fail_op_def return_op_def split: prod.splits sum.splits if_splits)

lemma callback_cases:
  assumes "respond (handle_auth_callback (graph_http lib cfg g) provider headers query) w = (r, w')"
  obtains (refused) "r = text_response lib 400 ''invalid oauth state''"
  | (consumed) ls w1 where "consume_state_or (graph_http lib cfg g) (first_param (query_params lib query) ''state'') w = (Inr ls, w1)"
      "world_step w1 w'"
proof (cases "consume_state_or (graph_http lib cfg g) (first_param (query_params lib query) ''state'') w")
  case (Pair c w1)
  show ?thesis
  proof (cases c)
    case (Inl e)
    then have "e = text_response lib 400 ''invalid oauth state''"
      using Pair by (auto simp: consume_state_or_def catch_op_def res_simps split: prod.splits sum.splits if_splits)
    with Pair Inl assms refused show ?thesis
      by (auto simp: handle_auth_callback_def with_login_def respond_def bind_op_def Let_def)
  next
    case (Inr ls)
    let ?rest = "finish_auth_callback (graph_http lib cfg g) (graph_login g) provider headers (query_params lib query)
      (first_param (query_params lib query) ''state'') ls"
    from Pair Inr assms have "respond ?rest w1 = (r, w')"
      by (simp add: handle_auth_callback_def with_login_def respond_def bind_op_def Let_def)
    then have "world_step w1 w'" by (rule respond_step [rotated]) (simp add: graph_http.finish_auth_callback_moves)
    with Pair Inr consumed show ?thesis by blast
  qed
qed

text \<open>C11: A login state completes one callback: unless a callback was refused for its state, every later
  callback with the same state, at whatever provider and after whatever requests to both servers,
  is refused with the status 400 before the identity provider is asked.\<close>

theorem callback_state_once:
  assumes "others_ok w" "db_inv (w_db w)"
    and "respond (handle_auth_callback (graph_http lib cfg (in_setup srv)) provider headers query) w = (r, ib_world s)"
    and "r \<noteq> text_response lib 400 ''invalid oauth state''"
    and "first_param (query_params lib query') ''state'' = first_param (query_params lib query) ''state''"
  shows "fst (respond (handle_auth_callback (graph_http lib cfg (in_setup srv)) provider' headers' query') (ib_world (fold (answer srv) rqs s))) =
    text_response lib 400 ''invalid oauth state''"
  using assms(3)
proof (cases rule: callback_cases)
  case (consumed ls w1)
  let ?g = "in_setup srv" and ?state = "first_param (query_params lib query) ''state''" and ?w2 = "ib_world (fold (answer srv) rqs s)"
  from consume_state_spends [OF assms(1,2) consumed(1)]
  have 1: "login_state_spent (hash_secret (st_sha ?g) ?state) (w_db w1)" "world_step w w1" by auto
  then have w1: "others_ok w1" "db_inv (w_db w1)" using assms(1,2) by (auto dest: world_step_steps world_step_inv)
  have "world_step w1 ?w2" using consumed(2) answers_step by (rule world_step_trans)
  then have "db_step\<^sup>*\<^sup>* (w_db w1) (w_db ?w2)" "others_ok ?w2" "db_inv (w_db ?w2)"
    using w1 by (auto dest: world_step_steps world_step_inv)
  with 1(1) have "\<exists>w3. consume_state_or (graph_http lib cfg ?g) ?state ?w2 = (Inl (text_response lib 400 ''invalid oauth state''), w3)"
    by (intro consume_state_refused) (auto intro: login_states.spent_forever)
  with assms(5) show ?thesis
    by (auto simp: handle_auth_callback_def with_login_def respond_def bind_op_def Let_def)
qed (use assms(4) in simp)

section \<open>Logging out\<close>

lemma revoked_session_unknown:
  assumes "db_inv db" "session_revoked sid db"
  shows "user_by_browser_session t db sid = Inl NotFound"
proof -
  from assms(2) obtain x where x: "x \<in> set (t_sessions db)" "br_id x = sid" "br_revoked_at x \<noteq> None"
    by (auto simp: session_revoked_def)
  have "user_by_browser_session t db sid \<noteq> Inr u" for u
    unfolding user_by_browser_session_iff [OF db_inv_schema [OF assms(1)]]
    using sessions_id.same_row [OF db_inv_schema [OF assms(1)] _ x(1)] x by fastforce
  then show ?thesis
    by (cases "user_by_browser_session t db sid") (auto simp: user_by_browser_session_def res_simps)
qed

text \<open>A call that revokes a session which exists leaves it revoked, by this call or by another request.\<close>

lemma revoke_call_revokes:
  assumes "others_ok w" "db_inv (w_db w)" "x \<in> set (t_sessions (w_db w))" "br_id x = sid"
    and "ss_revoke_browser_session (sqlite_state sha) sid w = (c, w')" "c = Inr () \<or> c = Inl NotFound"
  shows "session_revoked sid (w_db w')"
proof -
  let ?w1 = "next_call w"
  have inv: "db_inv (w_db ?w1)" using next_call_step assms(1,2) by (rule world_step_inv)
  have "db_step\<^sup>*\<^sup>* (w_db w) (w_db ?w1)" using next_call_step assms(1) by (blast dest: world_step_steps)
  from steps_sessions [OF this assms(3)] assms(4) obtain y where y: "y \<in> set (t_sessions (w_db ?w1))" "br_id y = sid" by auto
  show ?thesis
  proof (cases "revoke_browser_session (w_times ?w1 (w_call ?w1) 0) sid (w_db ?w1)")
    case (Inl e)
    with assms(5,6) have "e = NotFound" "w_db w' = w_db ?w1" by (auto simp: sqlite_state_def db_write_def Let_def)
    then have "br_revoked_at y \<noteq> None"
      using Inl y by (auto simp: revoke_browser_session_def res_simps require_affected_def filter_empty_conv
          update_rows_plain split: if_splits)
    with y show ?thesis by (auto simp: session_revoked_def \<open>w_db w' = w_db ?w1\<close>)
  next
    case (Inr p)
    with assms(5) have "revokes_session sid (w_db ?w1) (w_db w')"
      by (cases p) (auto simp: revokes_session_def sqlite_state_def db_write_def Let_def)
    with inv show ?thesis by (rule browser_sessions.use_spends)
  qed
qed

lemma revoke_answer:
  assumes "(case c of Inr _ \<Rightarrow> return_op a | Inl NotFound \<Rightarrow> return_op a | Inl _ \<Rightarrow> fail_op b) w = (x, w')"
    and "x = Inl b \<Longrightarrow> False"
  shows "(c = Inr () \<or> c = Inl NotFound) \<and> w' = w"
proof (cases c)
  case (Inl e)
  then show ?thesis using assms by (cases e) (auto simp: return_op_def fail_op_def)
qed (use assms in \<open>auto simp: return_op_def\<close>)

lemma csrf_from_request_status: "csrf_token_from_request lib headers body = Inl r \<Longrightarrow> rp_status r \<noteq> 204"
  by (auto simp: csrf_token_from_request_def parse_form_body_def limited_body_def res_simps split: option.splits if_splits)

lemma logout_204:
  assumes "respond (handle_logout (graph_http lib cfg g) headers body) w = (r, w')" "rp_status r = 204"
    and "current_browser_session lib (sqlite_state (st_sha g)) headers w = (Inr (Some session), w1)"
  shows "\<exists>csrf w2 c. consume_csrf_or (graph_http lib cfg g) session csrf w1 = (Inr (), w2) \<and>
    ss_revoke_browser_session (sqlite_state (st_sha g)) (hb_session_id session) w2 = (c, w') \<and> (c = Inr () \<or> c = Inl NotFound)"
proof -
  let ?st = "graph_http lib cfg g"
  from assms have o: "same_origin lib cfg headers"
    by (auto simp: handle_logout_def Let_def respond_def bind_op_def map_err_op_def fail_op_def split: if_splits)
  from assms o csrf_from_request_status [of lib headers body] obtain csrf where
    1: "csrf_token_from_request lib headers body = Inr csrf" "csrf \<noteq> []"
    by (auto simp: handle_logout_def Let_def respond_def bind_op_def map_err_op_def fail_op_def read_op_def split: if_splits sum.splits)
  obtain c2 w2 where c2: "consume_csrf_or ?st session csrf w1 = (c2, w2)" by (cases "consume_csrf_or ?st session csrf w1")
  with assms o 1 have "c2 = Inr ()"
    by (cases c2) (auto simp: handle_logout_def Let_def respond_def bind_op_def map_err_op_def fail_op_def read_op_def consume_csrf_or_def map_err_def
        split: prod.splits sum.splits)
  obtain c w3 where c: "ss_revoke_browser_session (sqlite_state (st_sha g)) (hb_session_id session) w2 = (c, w3)"
    by (cases "ss_revoke_browser_session (sqlite_state (st_sha g)) (hb_session_id session) w2")
  let ?finish = "case c of Inr _ \<Rightarrow> return_op (response_with_headers lib 204 [] [(''set-cookie'', clear_cookie SESSION_COOKIE_NAME)])
    | Inl NotFound \<Rightarrow> return_op (response_with_headers lib 204 [] [(''set-cookie'', clear_cookie SESSION_COOKIE_NAME)])
    | Inl _ \<Rightarrow> fail_op (text_response lib 500 ''session unavailable'')"
  from assms o 1 c2 \<open>c2 = Inr ()\<close> c have "respond ?finish w3 = (r, w')"
    by (simp add: handle_logout_def Let_def respond_def bind_op_def map_err_op_def read_op_def catch_op_def)
  then obtain x where "?finish w3 = (x, w')" "x = Inl r \<or> x = Inr r" by (auto simp: respond_def split: prod.splits sum.splits)
  then have "(c = Inr () \<or> c = Inl NotFound) \<and> w' = w3" using assms(2) by (intro revoke_answer) auto
  with c2 \<open>c2 = Inr ()\<close> c show ?thesis by blast
qed

lemma logout_revokes:
  assumes "others_ok w" "db_inv (w_db w)"
    and "current_browser_session lib (sqlite_state (st_sha g)) headers w = (Inr (Some session), w1)"
    and "respond (handle_logout (graph_http lib cfg g) headers body) w = (r, w')" "rp_status r = 204"
  shows "session_revoked (hb_session_id session) (w_db w')"
proof -
  from current_session_Inr [OF assms(1-3)] obtain t where
    1: "session_names (w_db w1) t (hb_session_id session) (u_id (hb_user session))" "w1 = next_call w" by blast
  then obtain x where x: "x \<in> set (t_sessions (w_db w1))" "br_id x = hb_session_id session" by (auto simp: session_names_def)
  have w1: "world_step w w1" using 1(2) next_call_step by simp
  from assms(3-5) obtain csrf w2 c where
    2: "consume_csrf_or (graph_http lib cfg g) session csrf w1 = (Inr (), w2)"
    "ss_revoke_browser_session (sqlite_state (st_sha g)) (hb_session_id session) w2 = (c, w')" "c = Inr () \<or> c = Inl NotFound"
    using logout_204 [OF assms(4,5,3)] by blast
  have w2: "world_step w1 w2" using 2(1) by (rule world.moves_run [OF graph_http.consume_csrf_or_moves])
  have "others_ok w1" "db_inv (w_db w1)" using w1 assms(1,2) by (auto dest: world_step_steps world_step_inv)
  then have "others_ok w2" "db_inv (w_db w2)" "db_step\<^sup>*\<^sup>* (w_db w1) (w_db w2)"
    using w2 by (auto dest: world_step_steps world_step_inv)
  moreover from steps_sessions [OF this(3) x(1)] x(2) obtain y where
    "y \<in> set (t_sessions (w_db w2))" "br_id y = hb_session_id session" by auto
  ultimately show ?thesis using revoke_call_revokes 2(2,3) by blast
qed

text \<open>C12: Logging out ends the session: when a request with a live session is answered that it is logged
  out, then after whatever requests to both servers and at any clock reading no request with
  the cookie of that session has a session.\<close>

theorem logout_ends_session:
  assumes "others_ok w" "db_inv (w_db w)"
    and "current_browser_session lib (sqlite_state (st_sha (in_setup srv))) headers w = (Inr (Some session), w1)"
    and "respond (handle_logout (graph_http lib cfg (in_setup srv)) headers body) w = (r, ib_world s)" "rp_status r = 204"
    and "cookie_value lib headers' SESSION_COOKIE_NAME = Some (hb_session_id session)"
  shows "fst (current_browser_session lib (sqlite_state (st_sha (in_setup srv))) headers' (ib_world (fold (answer srv) rqs s))) = Inr None"
proof -
  let ?w2 = "ib_world (fold (answer srv) rqs s)"
  have "moves world_step (handle_logout (graph_http lib cfg (in_setup srv)) headers body)"
    by (simp add: graph_http.session_handlers_move)
  from respond_step [OF this assms(4)] have "world_step w (ib_world s)" .
  then have s: "others_ok (ib_world s)" "db_inv (w_db (ib_world s))"
    using assms(1,2) by (auto dest: world_step_steps world_step_inv)
  have "world_step (ib_world s) (next_call ?w2)" using answers_step next_call_step by (rule world_step_trans)
  then have "db_step\<^sup>*\<^sup>* (w_db (ib_world s)) (w_db (next_call ?w2))" "db_inv (w_db (next_call ?w2))"
    using s by (auto dest: world_step_steps world_step_inv)
  moreover have "session_revoked (hb_session_id session) (w_db (ib_world s))" by (rule logout_revokes [OF assms(1-5)])
  ultimately have "user_by_browser_session t (w_db (next_call ?w2)) (hb_session_id session) = Inl NotFound" for t
    by (blast intro: revoked_session_unknown browser_sessions.spent_forever)
  then show ?thesis
    using assms(6) by (simp add: current_browser_session_def catch_op_def return_op_def sqlite_state_def db_read_def Let_def)
qed

end
