(* ===== verification/Admin_Flows.thy ===== *)
theory Admin_Flows
  imports Http_Flows
begin

text \<open>
  The admin console on the service graph: it answers nobody but an administrator, whatever it changes
  is in the audit log under the name of the administrator who sent the form, and as long as requests
  are handled one after the other an administrator remains.
\<close>

section \<open>The guard\<close>

text \<open>An administrator: an active user, signed in with a live session, with one of the configured addresses.\<close>

definition admin_of :: "Db \<Rightarrow> 'n AdminConfig \<Rightarrow> string \<Rightarrow> bool" where
  "admin_of db cfg u \<longleftrightarrow> (\<exists>r \<in> set (t_users db). ur_id r = u \<and> ur_status r = ''active'' \<and>
     normalize_email (u_email (user_from_row r)) \<noteq> [] \<and> is_admin_email cfg (normalize_email (u_email (user_from_row r))))"

definition admin_request_ok :: "'n AdminLib \<Rightarrow> HttpLib \<Rightarrow> 'n HttpConfig \<Rightarrow> admin_request \<Rightarrow> Db \<Rightarrow> i64 \<Rightarrow> string \<Rightarrow> bool" where
  "admin_request_ok al lib cfg rq db t u \<longleftrightarrow> AdminConfig_enabled (hc_admin cfg) \<and>
     admin_peer_allowed al (ac_allowed_peer_cidrs (hc_admin cfg)) (aq_remote rq) \<and>
     (\<exists>sid. cookie_value lib (aq_headers rq) SESSION_COOKIE_NAME = Some sid \<and> session_names db t sid u) \<and>
     admin_of db (hc_admin cfg) u"

definition refusals :: "HttpLib \<Rightarrow> Response set" where
  "refusals lib = {not_found lib, response_with_headers lib 404 [] [], text_response lib 500 ''session unavailable''}"

lemma current_session_world:
  "current_browser_session lib (sqlite_state sha) headers w = (x, w1) \<Longrightarrow> w1 = w \<or> w1 = next_call w"
  by (auto simp: current_browser_session_def catch_op_def return_op_def fail_op_def sqlite_state_def db_read_def Let_def
      split: option.splits if_splits sum.splits CoreError.splits)

lemma require_admin_Inl:
  assumes "require_admin al (graph_http lib cfg g) headers peer w = (Inl r, w1)"
  shows "r \<in> refusals lib \<and> (w1 = w \<or> w1 = next_call w)"
  using assms current_session_world [of lib "st_sha g" headers w]
  by (auto simp: require_admin_def Let_def fail_op_def return_op_def bind_op_def catch_op_def refusals_def
      split: if_splits prod.splits sum.splits option.splits)

lemma require_admin_Inr:
  assumes "require_admin al (graph_http lib cfg g) headers peer w = (Inr session, w1)"
  shows "AdminConfig_enabled (hc_admin cfg) \<and> admin_peer_allowed al (ac_allowed_peer_cidrs (hc_admin cfg)) peer \<and>
    current_browser_session lib (sqlite_state (st_sha g)) headers w = (Inr (Some session), w1) \<and>
    normalize_email (u_email (hb_user session)) \<noteq> [] \<and> is_admin_email (hc_admin cfg) (normalize_email (u_email (hb_user session)))"
  using assms
  by (auto simp: require_admin_def Let_def fail_op_def return_op_def bind_op_def catch_op_def
      split: if_splits prod.splits sum.splits option.splits)

lemma require_admin_session:
  assumes "others_ok w" "db_inv (w_db w)" "require_admin al (graph_http lib cfg g) headers peer w = (Inr session, w1)"
  shows "\<exists>t. w1 = next_call w \<and> cookie_value lib headers SESSION_COOKIE_NAME = Some (hb_session_id session) \<and>
    session_names (w_db w1) t (hb_session_id session) (u_id (hb_user session)) \<and>
    admin_of (w_db w1) (hc_admin cfg) (u_id (hb_user session)) \<and>
    (\<exists>r \<in> set (t_users (w_db w1)). hb_user session = user_from_row r \<and> ur_status r = ''active'')"
proof -
  note a = require_admin_Inr [OF assms(3)]
  with current_session_Inr [OF assms(1,2)] obtain t where
    1: "cookie_value lib headers SESSION_COOKIE_NAME = Some (hb_session_id session)"
    "session_names (w_db w1) t (hb_session_id session) (u_id (hb_user session))" "w1 = next_call w" by blast
  from a 1(1,3) have "Inr (hb_user session) = user_by_browser_session (w_times w1 (w_call w1) 0) (w_db w1) (hb_session_id session)"
    by (cases session) (auto simp: current_browser_session_def res_simps sqlite_state_def db_read_iff
        split: option.splits if_splits sum.splits CoreError.splits)
  moreover have "schema_ok (w_db w1)" using assms(1,2) next_call_step 1(3) by (blast dest: world_step_inv db_inv_schema)
  ultimately obtain r where "r \<in> set (t_users (w_db w1))" "hb_user session = user_from_row r" "ur_status r = ''active''"
    using user_by_browser_session_iff [of "w_db w1"] by metis
  with 1 a show ?thesis unfolding admin_of_def by (fastforce simp: user_from_row_def)
qed


section \<open>What the console writes\<close>

text \<open>Only CSRF tokens change, when nobody else writes.\<close>

definition csrf_only :: "World \<Rightarrow> World \<Rightarrow> bool" where
  "csrf_only w w' \<longleftrightarrow> w_others w' = w_others w \<and>
     (w_others w = (\<lambda>_ db. db) \<longrightarrow> (\<exists>tokens. w_db w' = w_db w\<lparr>t_csrf_tokens := tokens\<rparr>))"

lemma same_tokens: "\<exists>tokens. db = db\<lparr>t_csrf_tokens := tokens\<rparr>"
proof
  show "db = db\<lparr>t_csrf_tokens := t_csrf_tokens db\<rparr>" by (cases db) simp
qed

lemma csrf_only_refl: "csrf_only w w"
  unfolding csrf_only_def using same_tokens by blast

interpretation csrf_steps: preorder_steps csrf_only
  by unfold_locales (auto simp: csrf_only_refl, auto simp: csrf_only_def)

lemma read_csrf_only: "moves csrf_only (db_read f)"
  using same_tokens by (fastforce simp: moves_def db_read_def Let_def csrf_only_def next_call_def)

lemma csrf_write_csrf_only:
  assumes "\<And>t i db a db'. f t i db = Inr (a, db') \<Longrightarrow> \<exists>tokens. db' = db\<lparr>t_csrf_tokens := tokens\<rparr>"
  shows "moves csrf_only (db_write f)"
  unfolding moves_def db_write_def Let_def
  using same_tokens by (auto simp: csrf_only_def next_call_def split: sum.splits dest!: assms)

lemma csrf_writes:
  "create_csrf_token sha tok now s ttl db = Inr (x, db') \<Longrightarrow> \<exists>tokens. db' = db\<lparr>t_csrf_tokens := tokens\<rparr>"
  "consume_csrf_token sha n1 n2 s tok db = Inr (y, db') \<Longrightarrow> \<exists>tokens. db' = db\<lparr>t_csrf_tokens := tokens\<rparr>"
  by (auto simp: create_csrf_token_def consume_csrf_token_def Let_def res_simps split: if_splits)

lemma csrf_only_ports:
  "moves csrf_only (ss_user_by_browser_session (sqlite_state sha) i)"
  "moves csrf_only (ss_create_csrf_token (sqlite_state sha) i ttl)"
  "moves csrf_only (ss_consume_csrf_token (sqlite_state sha) i tok)"
  "moves csrf_only (permission_lookup (graph_permissions g) u f)" "moves csrf_only (permission_can_access (graph_permissions g) u i a)"
  "moves csrf_only (rs_list sqlite_resources)" "moves csrf_only (rs_get_by_name sqlite_resources n)"
  "moves csrf_only (rs_get_by_resource_id sqlite_resources i)"
  "moves csrf_only (ad_user_by_id sqlite_accounts i)" "moves csrf_only (ad_list_users sqlite_accounts uf)"
  "moves csrf_only (gq_list_groups sqlite_groups)" "moves csrf_only (gq_list_group_members sqlite_groups i)"
  "moves csrf_only (gq_list_group_groups sqlite_groups i)"
  "moves csrf_only (gt_list_grants sqlite_grants n)" "moves csrf_only (gt_grants_for_user_on_repository sqlite_grants u i)"
  by (auto simp: sqlite_state_def sqlite_resources_def sqlite_accounts_def sqlite_groups_def sqlite_grants_def
      permission_lookup_def permission_can_access_def graph_permissions_def rebac_policy_def
      intro!: read_csrf_only csrf_write_csrf_only elim!: csrf_writes)

interpretation graph_reads: admin_reads csrf_only "graph_http lib cfg g"
  by unfold_locales (auto simp: csrf_only_ports)

section \<open>One audited change\<close>

text \<open>A write leaves a user alone when it does not disable that user.\<close>

fun spares :: "string \<Rightarrow> admin_write \<Rightarrow> Db \<Rightarrow> bool" where
  "spares u (DisableUser now x) db = (\<exists>i. resolve_user_id_conn db x = Inr i \<and> i \<noteq> u)"
| "spares u _ db = True"

text \<open>One administrative write that spares \<open>u\<close>, together with one row of the audit log, next to changes of
  CSRF tokens.\<close>

definition one_write :: "string \<Rightarrow> string \<Rightarrow> Db \<Rightarrow> Db \<Rightarrow> bool" where
  "one_write actor u db db' \<longleftrightarrow> (\<exists>W c tx e c'. run_plain W (db\<lparr>t_csrf_tokens := c\<rparr>) = Inr tx \<and> spares u W db \<and>
     aa_actor e = actor \<and> db' = tx\<lparr>t_admin_audit := t_admin_audit db @ [e], t_csrf_tokens := c'\<rparr>)"

definition audited_change :: "string \<Rightarrow> string \<Rightarrow> World \<Rightarrow> World \<Rightarrow> bool" where
  "audited_change actor u w w' \<longleftrightarrow> csrf_only w w' \<or>
     w_others w' = w_others w \<and> (w_others w = (\<lambda>_ db. db) \<longrightarrow> one_write actor u (w_db w) (w_db w'))"

lemma spares_tokens [simp]: "spares u W (db\<lparr>t_csrf_tokens := c\<rparr>) = spares u W db"
  by (cases W) (simp_all add: resolve_user_id_conn_def cong: option.case_cong)

lemma one_write_tokens: "one_write actor u (db\<lparr>t_csrf_tokens := c\<rparr>) db' = one_write actor u db db'"
  by (simp add: one_write_def)

lemma one_write_then: "one_write actor u db db' \<Longrightarrow> one_write actor u db (db'\<lparr>t_csrf_tokens := c\<rparr>)"
  by (fastforce simp: one_write_def)

lemma csrf_only_change: "csrf_only w w' \<Longrightarrow> audited_change actor u w w'"
  by (simp add: audited_change_def)

lemma change_after:
  assumes "csrf_only w1 w2" "audited_change actor u w2 w3"
  shows "audited_change actor u w1 w3"
proof (cases "csrf_only w2 w3")
  case True
  with assms(1) show ?thesis by (blast intro: csrf_only_change csrf_steps.trans)
next
  case False
  with assms show ?thesis unfolding audited_change_def csrf_only_def by (auto simp: one_write_tokens)
qed

lemma change_before:
  assumes "audited_change actor u w1 w2" "csrf_only w2 w3"
  shows "audited_change actor u w1 w3"
proof (cases "csrf_only w1 w2")
  case True
  with assms(2) show ?thesis by (blast intro: csrf_only_change csrf_steps.trans)
next
  case False
  with assms show ?thesis unfolding audited_change_def csrf_only_def by (auto simp: one_write_then)
qed

lemma change_bind:
  assumes "moves csrf_only m" "\<And>a. moves (audited_change actor u) (f a)"
  shows "moves (audited_change actor u) (bind_op m f)"
  unfolding moves_def
proof
  fix w
  obtain r w1 where m: "m w = (r, w1)" by (cases "m w")
  with assms(1) have c: "csrf_only w w1" by (rule csrf_steps.moves_run)
  show "audited_change actor u w (snd (bind_op m f w))"
  proof (cases r)
    case (Inl e)
    with m c show ?thesis by (simp add: bind_op_def csrf_only_change)
  next
    case (Inr a)
    with m c assms(2) [of a] show ?thesis by (simp add: bind_op_def moves_def change_after)
  qed
qed

lemma change_catch:
  assumes "moves (audited_change actor u) m" "\<And>r. moves csrf_only (f r)"
  shows "moves (audited_change actor u) (catch_op m f)"
  unfolding moves_def
proof
  fix w
  obtain r w1 where m: "m w = (r, w1)" by (cases "m w")
  with assms(1) have "audited_change actor u w w1" unfolding moves_def by (metis snd_conv)
  with m assms(2) [of r] show "audited_change actor u w (snd (catch_op m f w))"
    by (auto simp: catch_op_def moves_def intro: change_before)
qed

lemma write_change:
  assumes "\<And>t i db' a. f t i (w_db (next_call w)) = Inr (a, db') \<Longrightarrow>
      \<exists>aid anow W. run_audited actor aid anow W (w_db (next_call w)) = Inr db' \<and> spares u W (w_db (next_call w))"
  shows "audited_change actor u w (snd (db_write f w))"
proof -
  let ?w1 = "next_call w"
  have 1: "csrf_only w ?w1" using read_csrf_only by (rule csrf_steps.moves_run) (simp add: db_read_def Let_def)
  have "audited_change actor u ?w1 (snd (db_write f w))"
  proof (cases "f (w_times ?w1 (w_call ?w1)) (w_ids ?w1 (w_call ?w1)) (w_db ?w1)")
    case (Inl e)
    then show ?thesis by (simp add: db_write_def Let_def csrf_only_change csrf_only_refl)
  next
    case (Inr p)
    obtain a db' where p: "p = (a, db')" by (cases p)
    with Inr assms obtain aid anow W where
      W: "run_audited actor aid anow W (w_db ?w1) = Inr db'" "spares u W (w_db ?w1)" by blast
    note audit = run_written_with_audit [of actor aid anow W, unfolded written_with_audit_def, rule_format, of "w_db ?w1"]
    show ?thesis
    proof (cases "db' = w_db ?w1")
      case True
      with Inr p show ?thesis by (simp add: db_write_def Let_def csrf_only_change csrf_only_refl)
    next
      case False
      with audit W(1) obtain tx e where tx: "run_plain W (w_db ?w1) = Inr tx" "aa_actor e = actor"
        "db' = tx\<lparr>t_admin_audit := t_admin_audit (w_db ?w1) @ [e]\<rparr>"
        by (auto split: sum.splits if_splits)
      from same_tokens [of db'] same_tokens [of "w_db ?w1"] obtain c c' where "db' = db'\<lparr>t_csrf_tokens := c'\<rparr>"
        and c: "w_db ?w1 = w_db ?w1\<lparr>t_csrf_tokens := c\<rparr>" by blast
      with tx(3) have "db' = tx\<lparr>t_admin_audit := t_admin_audit (w_db ?w1) @ [e], t_csrf_tokens := c'\<rparr>" by simp
      moreover have "run_plain W (w_db ?w1\<lparr>t_csrf_tokens := c\<rparr>) = Inr tx" using tx(1) c by simp
      ultimately have "one_write actor u (w_db ?w1) db'" using tx(2) W(2) unfolding one_write_def by blast
      with Inr p show ?thesis unfolding audited_change_def by (simp add: db_write_def Let_def)
    qed
  qed
  with 1 show ?thesis by (rule change_after)
qed

lemma audited_port:
  assumes "\<And>t i db a db'. f t i db = Inr (a, db') \<Longrightarrow> \<exists>aid anow W. run_audited actor aid anow W db = Inr db' \<and> spares u W db"
  shows "moves (audited_change actor u) (db_write f)"
  unfolding moves_def by (intro allI write_change assms)

lemma audited_run:
  "run_audited actor aid anow W db = drop_result r \<Longrightarrow> r = Inr (a, db') \<Longrightarrow> spares u W db \<Longrightarrow>
     \<exists>aid anow W. run_audited actor aid anow W db = Inr db' \<and> spares u W db"
  by (rule exI [of _ aid], rule exI [of _ anow], rule exI [of _ W]) (simp add: drop_result_def)

lemmas audited_runs =
  audited_run [OF run_audited.simps(1)] audited_run [OF run_audited.simps(2)]
  audited_run [OF run_audited.simps(5)] audited_run [OF run_audited.simps(6)] audited_run [OF run_audited.simps(7)]
  audited_run [OF run_audited.simps(8)] audited_run [OF run_audited.simps(9)] audited_run [OF run_audited.simps(10)]
  audited_run [OF run_audited.simps(11)] audited_run [OF run_audited.simps(12)] audited_run [OF run_audited.simps(13)]

lemma audited_ports:
  "moves (audited_change actor u) (ad_add_user (aw_accounts (AuditedStoreFactory actor)) ui)"
  "moves (audited_change actor u) (ad_add_invitation (aw_accounts (AuditedStoreFactory actor)) ii)"
  "moves (audited_change actor u) (rs_upsert (aw_resources (AuditedStoreFactory actor)) r)"
  "moves (audited_change actor u) (rs_delete (aw_resources (AuditedStoreFactory actor)) i)"
  "moves (audited_change actor u) (ga_add_group (aw_groups (AuditedStoreFactory actor)) n d)"
  "moves (audited_change actor u) (ga_add_group_member (aw_groups (AuditedStoreFactory actor)) gn x)"
  "moves (audited_change actor u) (ga_remove_group_member (aw_groups (AuditedStoreFactory actor)) gn x)"
  "moves (audited_change actor u) (ga_add_group_group (aw_groups (AuditedStoreFactory actor)) gp gm)"
  "moves (audited_change actor u) (ga_remove_group_group (aw_groups (AuditedStoreFactory actor)) gp gm)"
  "moves (audited_change actor u) (gt_add_grant (aw_grants (AuditedStoreFactory actor)) ty s n role)"
  "moves (audited_change actor u) (gt_remove_grant (aw_grants (AuditedStoreFactory actor)) ty s n role)"
  unfolding AuditedStoreFactory_def
  by (simp_all, (rule audited_port, erule audited_runs, simp)+)

text \<open>Disabling: the user was looked up and found to be another one than the user of the session.\<close>

lemma validate_other: "validate_admin_disable_target st session target w = (Inr (), w') \<Longrightarrow> u_id target \<noteq> u_id (hb_user session)"
  by (auto simp: validate_admin_disable_target_def Let_def fail_op_def split: if_splits)

lemma db_write_others: "w_others (snd (db_write f w)) = w_others w"
  by (simp add: db_write_def Let_def next_call_def split: sum.split prod.split)

lemma disable_spares:
  "moves (audited_change actor (u_id (hb_user session)))
     (bind_op (ad_user_by_id sqlite_accounts i) (\<lambda>target.
      bind_op (validate_admin_disable_target (graph_http lib cfg g) session target) (\<lambda>_.
      ad_disable_user (aw_accounts (AuditedStoreFactory actor)) i)))"
  unfolding moves_def
proof
  fix w
  let ?u = "u_id (hb_user session)" and ?st = "graph_http lib cfg g" and ?disable = "ad_disable_user (aw_accounts (AuditedStoreFactory actor)) i"
  let ?h = "bind_op (ad_user_by_id sqlite_accounts i) (\<lambda>target.
      bind_op (validate_admin_disable_target ?st session target) (\<lambda>_. ?disable))"
  obtain r1 w1 where 1: "ad_user_by_id sqlite_accounts i w = (r1, w1)" by (cases "ad_user_by_id sqlite_accounts i w")
  have c1: "csrf_only w w1" using csrf_only_ports(9) 1 by (rule csrf_steps.moves_run)
  show "audited_change actor ?u w (snd (?h w))"
  proof (cases r1)
    case (Inl e)
    with 1 c1 show ?thesis by (simp add: bind_op_def csrf_only_change)
  next
    case (Inr target)
    obtain r2 w2 where 2: "validate_admin_disable_target ?st session target w1 = (r2, w2)"
      by (cases "validate_admin_disable_target ?st session target w1")
    have c2: "csrf_only w1 w2" using graph_reads.validate_moves 2 by (rule csrf_steps.moves_run)
    show ?thesis
    proof (cases r2)
      case (Inl e)
      with 1 Inr 2 csrf_steps.trans [OF c1 c2] show ?thesis by (simp add: bind_op_def csrf_only_change)
    next
      case r2: (Inr x)
      have other: "u_id target \<noteq> ?u" using 2 r2 by (auto dest: validate_other)
      have c12: "csrf_only w w2" using c1 c2 by (rule csrf_steps.trans)
      have "audited_change actor ?u w2 (snd (?disable w2))"
      proof (cases "w_others w2 = (\<lambda>_ db. db)")
        case True
        then have idle: "w_others w = (\<lambda>_ db. db)" using c12 by (simp add: csrf_only_def)
        then have users: "t_users (w_db w1) = t_users (w_db (next_call w2))"
          using c1 c2 True by (auto simp: csrf_only_def next_call_def)
        from 1 Inr have "user_by_id_conn (w_db w1) i = Inr target" by (auto simp: sqlite_accounts_def db_read_iff)
        then have "resolve_user_id_conn (w_db (next_call w2)) i = Inr i" "u_id target = i"
          using users by (auto simp: user_by_id_conn_def resolve_user_id_conn_def user_from_row_def find_None_iff res_simps
              dest!: find_SomeD split: option.splits)
        with other show ?thesis
          unfolding AuditedStoreFactory_def by (simp, intro write_change) (erule audited_run [OF run_audited.simps(3)], simp)
      next
        case False
        then show ?thesis by (simp add: audited_change_def AuditedStoreFactory_def db_write_others)
      qed
      with 1 Inr 2 r2 change_after [OF c12] show ?thesis by (simp add: bind_op_def)
    qed
  qed
qed

text \<open>What a form handler does once the guard and the CSRF token were checked.\<close>

definition form_handler :: "'n AdminLib \<Rightarrow> ('n, World) AppState \<Rightarrow> string \<Rightarrow> headers \<Rightarrow> IpAddr option \<Rightarrow> (Response, World) http \<Rightarrow> bool" where
  "form_handler al st csrf headers peer h \<longleftrightarrow> (\<exists>k. h = admin_form al st headers peer csrf k \<and>
     (\<forall>session. moves (audited_change (admin_actor session) (u_id (hb_user session))) (k session (AuditedStoreFactory (admin_actor session)))))"

lemma write_pages:
  "moves (audited_change actor u) write \<Longrightarrow> moves (audited_change actor u) (user_write al (graph_http lib cfg g) hs session write)"
  "moves (audited_change actor u) write \<Longrightarrow> moves (audited_change actor u) (group_write al (graph_http lib cfg g) hs session write)"
  "moves (audited_change actor u) write \<Longrightarrow> moves (audited_change actor u) (repository_write al (graph_http lib cfg g) hs session write)"
  unfolding user_write_def group_write_def repository_write_def by (rule change_catch, assumption, rule graph_reads.pages_move)+

lemma change_done: "moves (audited_change actor u) m \<Longrightarrow> moves (audited_change actor u) (bind_op m (\<lambda>_. return_op ()))"
  unfolding moves_def bind_op_def return_op_def by (auto split: prod.splits sum.splits) (metis snd_conv)+

lemma form_handlers:
  "form_handler al (graph_http lib cfg g) (uaf_csrf_token f1) hs p (handle_user_add al (graph_http lib cfg g) hs p f1)"
  "form_handler al (graph_http lib cfg g) (uif_csrf_token f2) hs p (handle_user_invite al (graph_http lib cfg g) hs p f2)"
  "form_handler al (graph_http lib cfg g) (cf_csrf_token f3) hs p (handle_user_disable al (graph_http lib cfg g) i hs p f3)"
  "form_handler al (graph_http lib cfg g) (gaf_csrf_token f4) hs p (handle_group_add al (graph_http lib cfg g) hs p f4)"
  "form_handler al (graph_http lib cfg g) (gmf_csrf_token f5) hs p (mutate_group_member al (graph_http lib cfg g) hs p f5 add)"
  "form_handler al (graph_http lib cfg g) (gnf_csrf_token f6) hs p (mutate_group_nest al (graph_http lib cfg g) hs p f6 add)"
  "form_handler al (graph_http lib cfg g) (raf_csrf_token f7) hs p (handle_repository_add al (graph_http lib cfg g) hs p f7)"
  "form_handler al (graph_http lib cfg g) (cf_csrf_token f3) hs p (handle_repository_disable al (graph_http lib cfg g) i hs p f3)"
  "form_handler al (graph_http lib cfg g) (gf_csrf_token f8) hs p (mutate_grant al (graph_http lib cfg g) hs p f8 add)"
  unfolding form_handler_def handle_user_add_def handle_user_invite_def handle_user_disable_def handle_group_add_def
    mutate_group_member_def mutate_group_nest_def handle_repository_add_def handle_repository_disable_def mutate_grant_def
  by (rule exI, rule conjI, rule refl, simp add: write_pages audited_ports change_done disable_spares)+

section \<open>Every route\<close>

lemma form_tokens [simp]:
  "uaf_csrf_token (user_add_form m) = field m ''csrf_token''" "uif_csrf_token (user_invite_form m) = field m ''csrf_token''"
  "cf_csrf_token (csrf_form m) = field m ''csrf_token''" "gaf_csrf_token (group_add_form m) = field m ''csrf_token''"
  "gmf_csrf_token (group_member_form m) = field m ''csrf_token''" "gnf_csrf_token (group_nest_form m) = field m ''csrf_token''"
  "raf_csrf_token (repository_add_form m) = field m ''csrf_token''" "gf_csrf_token (grant_form m) = field m ''csrf_token''"
  by (simp_all add: user_add_form_def user_invite_form_def csrf_form_def group_add_form_def group_member_form_def group_nest_form_def
      repository_add_form_def grant_form_def)

lemma simulator_check_reads: "moves csrf_only (handle_simulator_check al (graph_http lib cfg g) hs p f)"
  unfolding handle_simulator_check_def admin_form_def Let_def
  by (intro csrf_steps.moves_bind csrf_steps.moves_return graph_reads.require_admin_moves graph_reads.require_admin_csrf_moves
      graph_reads.create_admin_csrf_moves graph_reads.simulator_result_moves)

definition form_route :: "'n AdminLib \<Rightarrow> ('n, World) AppState \<Rightarrow> admin_request \<Rightarrow> (Response, World) http \<Rightarrow> bool" where
  "form_route al st rq h \<longleftrightarrow> (\<exists>k. h = bind_op (read_op (\<lambda>_. al_form al (aq_headers rq) (aq_body rq))) k \<and>
     (\<forall>m. form_handler al st (field m ''csrf_token'') (aq_headers rq) (aq_remote rq) (k m)))"

lemma with_form_route:
  "(\<And>m. form_handler al st (field m ''csrf_token'') (aq_headers rq) (aq_remote rq) (h (aq_headers rq) (aq_remote rq) (mk m))) \<Longrightarrow>
     form_route al st rq (with_form al rq mk h)"
  unfolding form_route_def with_form_def by blast

lemmas form_handlers_of =
  form_handlers(1) [where ?f1.0 = "user_add_form m" for m] form_handlers(2) [where ?f2.0 = "user_invite_form m" for m]
  form_handlers(3) [where ?f3.0 = "csrf_form m" for m] form_handlers(4) [where ?f4.0 = "group_add_form m" for m]
  form_handlers(5) [where ?f5.0 = "group_member_form m" for m] form_handlers(6) [where ?f6.0 = "group_nest_form m" for m]
  form_handlers(7) [where ?f7.0 = "repository_add_form m" for m] form_handlers(8) [where ?f3.0 = "csrf_form m" for m]
  form_handlers(9) [where ?f8.0 = "grant_form m" for m]

lemma admin_handle_cases:
  "moves csrf_only (admin_handle al (graph_http lib cfg g) rq route) \<or>
   form_route al (graph_http lib cfg g) rq (admin_handle al (graph_http lib cfg g) rq route)"
proof (cases route)
  case A_simulator_check
  then show ?thesis
    by (intro disjI1) (simp add: with_form_def csrf_steps.moves_bind csrf_steps.moves_read simulator_check_reads)
qed (simp_all add: graph_reads.admin_pages_move with_form_route form_handlers_of [simplified])

lemma form_handler_run:
  assumes "form_handler al (graph_http lib cfg g) csrf hs p h" "h w = (x, w')"
  shows "csrf_only w w' \<or> (\<exists>session w1 w2. require_admin al (graph_http lib cfg g) hs p w = (Inr session, w1) \<and>
    require_admin_csrf (graph_http lib cfg g) session csrf w1 = (Inr (), w2) \<and> csrf_only w w2 \<and>
    audited_change (admin_actor session) (u_id (hb_user session)) w2 w')"
proof -
  let ?st = "graph_http lib cfg g"
  from assms(1) obtain k where k: "h = admin_form al ?st hs p csrf k"
    "\<And>session. moves (audited_change (admin_actor session) (u_id (hb_user session))) (k session (AuditedStoreFactory (admin_actor session)))"
    unfolding form_handler_def by blast
  obtain r1 w1 where 1: "require_admin al ?st hs p w = (r1, w1)" by (cases "require_admin al ?st hs p w")
  have c1: "csrf_only w w1" using graph_reads.require_admin_moves 1 by (rule csrf_steps.moves_run)
  show ?thesis
  proof (cases r1)
    case (Inl e)
    with 1 c1 k(1) assms(2) show ?thesis by (auto simp: admin_form_def bind_op_def)
  next
    case (Inr session)
    obtain r2 w2 where 2: "require_admin_csrf ?st session csrf w1 = (r2, w2)" by (cases "require_admin_csrf ?st session csrf w1")
    have "csrf_only w1 w2" using graph_reads.require_admin_csrf_moves 2 by (rule csrf_steps.moves_run)
    with c1 have c2: "csrf_only w w2" by (rule csrf_steps.trans)
    show ?thesis
    proof (cases r2)
      case (Inl e)
      with 1 2 c2 k(1) Inr assms(2) show ?thesis by (auto simp: admin_form_def bind_op_def)
    next
      case r2: (Inr y)
      from k(1) 1 2 Inr r2 assms(2) have "k session (AuditedStoreFactory (admin_actor session)) w2 = (x, w')"
        by (simp add: admin_form_def bind_op_def)
      with k(2) [of session] have "audited_change (admin_actor session) (u_id (hb_user session)) w2 w'"
        unfolding moves_def by (metis snd_conv)
      with 1 2 Inr r2 c2 show ?thesis by auto
    qed
  qed
qed

text \<open>An administrator sent a form with a CSRF token of the session.\<close>

definition admin_form_ok ::
  "'n AdminLib \<Rightarrow> HttpLib \<Rightarrow> 'n HttpConfig \<Rightarrow> (string \<Rightarrow> string) \<Rightarrow> admin_request \<Rightarrow> Db \<Rightarrow> string \<Rightarrow> string \<Rightarrow> bool" where
  "admin_form_ok al lib cfg sha rq db u actor \<longleftrightarrow>
     (\<exists>m t sid n1 n2 db1. al_form al (aq_headers rq) (aq_body rq) = Inr m \<and> admin_request_ok al lib cfg rq db t u \<and>
        cookie_value lib (aq_headers rq) SESSION_COOKIE_NAME = Some sid \<and>
        consume_csrf_token sha n1 n2 sid (field m ''csrf_token'') db = Inr ((), db1)) \<and>
     (\<exists>row \<in> set (t_users db). ur_id row = u \<and> actor = u_email (user_from_row row))"

lemma admin_actor_email:
  assumes "normalize_email (u_email (hb_user session)) \<noteq> []"
  shows "admin_actor session = u_email (hb_user session)"
  using assms by (auto simp: admin_actor_def normalize_email_def)

lemma form_was_ok:
  assumes "w_others w = (\<lambda>_ db. db)" "db_inv (w_db w)"
    and "require_admin al (graph_http lib cfg g) (aq_headers rq) (aq_remote rq) w = (Inr session, w1)"
    and "require_admin_csrf (graph_http lib cfg g) session (field m ''csrf_token'') w1 = (Inr (), w2)"
    and "al_form al (aq_headers rq) (aq_body rq) = Inr m"
  shows "admin_form_ok al lib cfg (st_sha g) rq (w_db w) (u_id (hb_user session)) (admin_actor session)"
proof -
  have ok: "others_ok w" using assms(1) by (simp add: others_ok_def)
  note a = require_admin_Inr [OF assms(3)]
  from require_admin_session [OF ok assms(2,3)] obtain t r where
    1: "w1 = next_call w" "cookie_value lib (aq_headers rq) SESSION_COOKIE_NAME = Some (hb_session_id session)"
    "session_names (w_db w1) t (hb_session_id session) (u_id (hb_user session))"
    "admin_of (w_db w1) (hc_admin cfg) (u_id (hb_user session))"
    "r \<in> set (t_users (w_db w1))" "hb_user session = user_from_row r" by blast
  have db: "w_db w1 = w_db w" "w_db (next_call w1) = w_db w" using 1(1) assms(1) by (simp_all add: next_call_def)
  from assms(4) obtain n1 n2 db1 where "consume_csrf_token (st_sha g) n1 n2 (hb_session_id session) (field m ''csrf_token'') (w_db w) = Inr ((), db1)"
  proof -
    from assms(4) have "ss_consume_csrf_token (sqlite_state (st_sha g)) (hb_session_id session) (field m ''csrf_token'') w1 = (Inr (), w2)"
      by (auto simp: require_admin_csrf_def res_simps split: if_splits)
    with db(2) that show thesis by (auto simp: sqlite_state_def db_write_Inr)
  qed
  moreover have "admin_request_ok al lib cfg rq (w_db w) t (u_id (hb_user session))"
    using a 1(2-4) db(1) unfolding admin_request_ok_def by auto
  moreover have "admin_actor session = u_email (user_from_row r)" "ur_id r = u_id (hb_user session)"
    using admin_actor_email a 1(6) by (auto simp: user_from_row_def)
  ultimately show ?thesis
    using 1(2,5) assms(5) db(1) unfolding admin_form_ok_def by metis
qed

lemma admin_handle_audited:
  assumes "w_others w = (\<lambda>_ db. db)" "db_inv (w_db w)" "admin_handle al (graph_http lib cfg g) rq route w = (x, w')"
  shows "csrf_only w w' \<or> (\<exists>u actor. admin_form_ok al lib cfg (st_sha g) rq (w_db w) u actor \<and> one_write actor u (w_db w) (w_db w'))"
  using admin_handle_cases
proof
  assume "moves csrf_only (admin_handle al (graph_http lib cfg g) rq route)"
  then show ?thesis using assms(3) by (blast dest: csrf_steps.moves_run)
next
  assume "form_route al (graph_http lib cfg g) rq (admin_handle al (graph_http lib cfg g) rq route)"
  then obtain k where k: "admin_handle al (graph_http lib cfg g) rq route = bind_op (read_op (\<lambda>_. al_form al (aq_headers rq) (aq_body rq))) k"
    "\<And>m. form_handler al (graph_http lib cfg g) (field m ''csrf_token'') (aq_headers rq) (aq_remote rq) (k m)"
    unfolding form_route_def by blast
  show ?thesis
  proof (cases "al_form al (aq_headers rq) (aq_body rq)")
    case (Inl e)
    with assms(3) k(1) have "w' = w" by (simp add: bind_op_def read_op_def)
    then show ?thesis using csrf_only_refl by simp
  next
    case (Inr m)
    with assms(3) k(1) have "k m w = (x, w')" by (simp add: bind_op_def read_op_def)
    from form_handler_run [OF k(2) this] show ?thesis
    proof (elim disjE exE conjE)
      fix session w1 w2
      assume a: "require_admin al (graph_http lib cfg g) (aq_headers rq) (aq_remote rq) w = (Inr session, w1)"
        "require_admin_csrf (graph_http lib cfg g) session (field m ''csrf_token'') w1 = (Inr (), w2)" "csrf_only w w2"
        and ch: "audited_change (admin_actor session) (u_id (hb_user session)) w2 w'"
      show ?thesis
        using form_was_ok [OF assms(1,2) a(1,2) Inr] change_after [OF a(3) ch] assms(1)
        unfolding audited_change_def by blast
    qed blast
  qed
qed

lemma admin_request_audited:
  assumes "w_others w = (\<lambda>_ db. db)" "db_inv (w_db w)"
    and "respond (admin_routes al (graph_http lib cfg g) rq route) w = (r, w')"
  shows "(\<exists>tokens. w_db w' = w_db w\<lparr>t_csrf_tokens := tokens\<rparr>) \<or>
    (\<exists>u actor. admin_form_ok al lib cfg (st_sha g) rq (w_db w) u actor \<and> one_write actor u (w_db w) (w_db w'))"
proof -
  let ?st = "graph_http lib cfg g"
  have only: ?thesis if "csrf_only w w'" using that assms(1) by (simp add: csrf_only_def)
  obtain x where run: "admin_routes al ?st rq route w = (x, w')" using assms(3) by (auto simp: respond_def split: prod.splits sum.splits)
  obtain r0 w0 where guard: "require_admin al ?st (aq_headers rq) (aq_remote rq) w = (r0, w0)"
    by (cases "require_admin al ?st (aq_headers rq) (aq_remote rq) w")
  have c0: "csrf_only w w0" using graph_reads.require_admin_moves guard by (rule csrf_steps.moves_run)
  show ?thesis
  proof (cases "AdminConfig_enabled (hc_admin cfg) \<and> \<not> (\<exists>e. r0 = Inl e)")
    case False
    then have "w' = w \<or> w' = w0" using run guard
      by (auto simp: admin_routes_def guard_middleware_def bind_op_def fail_op_def split: if_splits)
    then have "csrf_only w w'" using c0 csrf_only_refl by auto
    then show ?thesis by (rule only)
  next
    case True
    then obtain s0 where s0: "r0 = Inr s0" by (cases r0) auto
    with True run guard have h: "admin_handle al ?st rq route w0 = (x, w')"
      by (simp add: admin_routes_def guard_middleware_def bind_op_def)
    have "others_ok w" using assms(1) by (simp add: others_ok_def)
    from require_admin_session [OF this assms(2) guard [unfolded s0]] have "w0 = next_call w" by blast
    then have w0: "w_others w0 = (\<lambda>_ db. db)" "w_db w0 = w_db w" using assms(1) by (simp_all add: next_call_def)
    from admin_handle_audited [OF w0(1) _ h] show ?thesis
      using assms(2) w0(2) csrf_steps.trans [OF c0] only by auto
  qed
qed

text \<open>C7: Administration through the console is audited: when requests are handled one at a time, a request to
  any route of the console changes nothing but CSRF tokens, or it is a form that an administrator
  sent with a CSRF token of the session, and it makes one administrative write together with
  one new row of the audit log under the address of that administrator, and does not disable the
  administrator.\<close>

theorem admin_changes_audited:
  assumes "w_others w = (\<lambda>_ db. db)" "db_inv (w_db w)"
    and "respond (admin_routes al (graph_http lib cfg g) rq route) w = (r, w')"
  shows "(\<exists>tokens. w_db w' = w_db w\<lparr>t_csrf_tokens := tokens\<rparr>) \<or>
    (\<exists>u actor. admin_form_ok al lib cfg (st_sha g) rq (w_db w) u actor \<and> one_write actor u (w_db w) (w_db w'))"
  using assms by (rule admin_request_audited)

section \<open>An administrator remains\<close>

lemma admin_of_users: "set (t_users db) \<subseteq> set (t_users db') \<Longrightarrow> admin_of db cfg u \<Longrightarrow> admin_of db' cfg u"
  unfolding admin_of_def by blast

lemma users_grow:
  assumes "run_plain W db = Inr tx" "\<And>now x. W \<noteq> DisableUser now x" "\<And>now x. W \<noteq> EnableUser now x"
  shows "set (t_users db) \<subseteq> set (t_users tx)"
proof (cases W)
  case (UpsertResource now i res)
  with assms(1) obtain x where "upsert_resource_conn now i res db = Inr (x, tx)" by (auto simp: drop_result_def res_simps)
  then show ?thesis using upsert_frame by fastforce
qed (use assms in \<open>auto simp: drop_result_def res_simps Let_def delete_rows_def insert_row_Inr add_user_conn_def add_invitation_db_def
    add_group_def add_group_member_def remove_group_member_def add_group_group_def remove_group_group_def
    delete_resource_conn_def add_grant_conn_def remove_grant_conn_def add_signing_key_meta_conn_def split: if_splits\<close>)

lemma status_keeps_admin:
  assumes "set_user_status_conn status now db x = Inr (y, tx)" "admin_of db cfg u"
    and "status = ''active'' \<or> (\<exists>i. resolve_user_id_conn db x = Inr i \<and> i \<noteq> u)"
  shows "admin_of tx cfg u"
proof -
  from assms(1) obtain i n rows where
    1: "resolve_user_id_conn db x = Inr i" "update_rows [] no_fk (\<lambda>r. ur_id r = i \<and> ur_status r \<noteq> ''deleted'')
        (\<lambda>r. r\<lparr>ur_status := status, ur_updated_at := now\<rparr>) (t_users db) = Inr (n, rows)" "tx = db\<lparr>t_users := rows\<rparr>"
    by (auto simp: set_user_status_conn_def res_simps)
  from assms(2) obtain r where r: "r \<in> set (t_users db)" "ur_id r = u" "ur_status r = ''active''"
    "normalize_email (u_email (user_from_row r)) \<noteq> []" "is_admin_email cfg (normalize_email (u_email (user_from_row r)))"
    unfolding admin_of_def by blast
  let ?r = "if ur_id r = i \<and> ur_status r \<noteq> ''deleted'' then r\<lparr>ur_status := status, ur_updated_at := now\<rparr> else r"
  have "?r \<in> set rows" using 1(2) r(1) by (auto simp: update_rows_Inr)
  moreover have "ur_id ?r = u" "ur_status ?r = ''active''" "u_email (user_from_row ?r) = u_email (user_from_row r)"
    using r assms(3) 1(1) by (auto simp: user_from_row_def)
  ultimately show ?thesis using r(4,5) 1(3) unfolding admin_of_def by (intro bexI [of _ ?r]) simp_all
qed

lemma run_keeps_admin:
  assumes "run_plain W db = Inr tx" "spares u W db" "admin_of db cfg u"
  shows "admin_of tx cfg u"
proof (cases W)
  case (DisableUser now x)
  with assms show ?thesis by (auto simp: drop_result_def res_simps disable_user_conn_def intro: status_keeps_admin)
next
  case (EnableUser now x)
  with assms show ?thesis by (auto simp: drop_result_def res_simps enable_user_conn_def intro: status_keeps_admin)
qed (use assms users_grow [OF assms(1)] in \<open>auto intro: admin_of_users\<close>)

lemma admin_of_tokens [simp]:
  "admin_of (db\<lparr>t_csrf_tokens := c\<rparr>) cfg u = admin_of db cfg u" "admin_of (db\<lparr>t_admin_audit := a\<rparr>) cfg u = admin_of db cfg u"
  by (simp_all add: admin_of_def)

lemma one_write_keeps_admin:
  assumes "one_write actor u db db'" "admin_of db cfg u"
  shows "admin_of db' cfg u"
proof -
  from assms(1) obtain W c tx e c' where 1: "run_plain W (db\<lparr>t_csrf_tokens := c\<rparr>) = Inr tx" "spares u W db"
    "db' = tx\<lparr>t_admin_audit := t_admin_audit db @ [e], t_csrf_tokens := c'\<rparr>" unfolding one_write_def by blast
  from run_keeps_admin [OF 1(1)] 1(2,3) assms(2) show ?thesis by simp
qed

text \<open>C8: The console never locks everybody out: when requests are handled one at a time, then after any
  sequence of requests to it there still is an administrator who can use it, if there was one
  before.\<close>

theorem admin_remains:
  assumes "w_others w = (\<lambda>_ db. db)" "db_inv (w_db w)" "admin_of (w_db w) (hc_admin cfg) u"
  shows "\<exists>v. admin_of (w_db (fold (\<lambda>(rq, route) w. snd (respond (admin_routes al (graph_http lib cfg g) rq route) w)) rqs w))
    (hc_admin cfg) v"
  using assms
proof (induction rqs arbitrary: w u)
  case (Cons r rqs)
  obtain rq route where r: "r = (rq, route)" by (cases r)
  define w' where "w' = snd (respond (admin_routes al (graph_http lib cfg g) rq route) w)"
  obtain x where x: "respond (admin_routes al (graph_http lib cfg g) rq route) w = (x, w')" unfolding w'_def by (metis prod.collapse)
  have "others_ok w" using Cons.prems(1) by (simp add: others_ok_def)
  moreover have "world_step w w'" using respond_step [OF graph_http.admin_routes_moves x] .
  ultimately have "db_inv (w_db w')" using Cons.prems(2) by (blast intro: world_step_inv)
  moreover have "w_others w' = (\<lambda>_ db. db)" using \<open>world_step w w'\<close> Cons.prems(1) by (simp add: world_step_def)
  moreover have "\<exists>v. admin_of (w_db w') (hc_admin cfg) v"
    using admin_request_audited [OF Cons.prems(1,2) x]
  proof
    assume "\<exists>tokens. w_db w' = w_db w\<lparr>t_csrf_tokens := tokens\<rparr>"
    with Cons.prems(3) show ?thesis by auto
  next
    assume "\<exists>u actor. admin_form_ok al lib cfg (st_sha g) rq (w_db w) u actor \<and> one_write actor u (w_db w) (w_db w')"
    then show ?thesis by (auto simp: admin_form_ok_def admin_request_ok_def dest: one_write_keeps_admin)
  qed
  ultimately show ?case using Cons.IH r by (auto simp: w'_def [symmetric])
qed auto

end
