(* ===== verification/Http_Examples.thy ===== *)
theory Http_Examples
  imports Http_Flows
begin

text \<open>
  Concrete requests to the HTTP server: a signed-in user mints a token, approves a device, logs out,
  and comes back from an identity provider. The theorems on the handlers are applied to them.
\<close>

definition demo_lib :: HttpLib where
  "demo_lib = \<lparr>hl_to_str = Some, hl_header_value = Some, hl_json = (\<lambda>_. ''{}''), hl_device_start = (\<lambda>_. None),
     hl_device_token = (\<lambda>_. None),
     hl_form = (\<lambda>_. Some [''csrf_token'' \<mapsto> ''tok'', ''repository'' \<mapsto> ''game'', ''user_code'' \<mapsto> ''uc'']),
     hl_query = (\<lambda>_. [(''state'', ''ls''), (''code'', ''c'')]), hl_query_pair = (\<lambda>k v. k @ ''='' @ v), hl_controls = (\<lambda>_. False),
     hl_percent_encode = (\<lambda>_ s. s), hl_url = (\<lambda>s. Some \<lparr>url_scheme = ''https'', url_host = Some s, url_port = None\<rparr>)\<rparr>"

definition demo_cfg :: "IpAddr HttpConfig" where
  "demo_cfg = \<lparr>hc_public_base_url = ''bridge'', hc_lore_auth_url = ''a'', hc_default_remote_url = ''r'', hc_session_ttl = 0,
     hc_admin = \<lparr>ac_admin_emails = [''bob@x.org''], ac_allowed_peer_cidrs = []\<rparr>\<rparr>"

definition demo_headers :: headers where
  "demo_headers = [(''cookie'', ''lore_auth_session=s1''), (''origin'', ''bridge'')]"

definition demo_http_db :: Db where
  "demo_http_db = demo_served\<lparr>
     t_sessions := [\<lparr>br_id = ''s1'', br_user_id = ''u1'', br_created_at = 1, br_expires_at = 100, br_revoked_at = None\<rparr>],
     t_csrf_tokens := [\<lparr>cr_token_hash = ''tok'', cr_session_id = ''s1'', cr_created_at = 1, cr_expires_at = 100, cr_consumed_at = None\<rparr>],
     t_login_transactions := [\<lparr>lt_id = ''l1'', lt_state_hash = ''ls'', lt_provider_id = ''p'', lt_nonce = None, lt_login_url_nonce = None,
       lt_return_path = None, lt_private_state = None, lt_created_at = 1, lt_expires_at = 100, lt_consumed_at = None\<rparr>],
     t_device_authorizations := [demo_device\<lparr>dr_requested_repository_id := Some ''r1''\<rparr>]\<rparr>"

definition demo_http_world :: World where
  "demo_http_world = demo_world\<lparr>w_db := demo_http_db\<rparr>"

abbreviation demo_http :: "(IpAddr, World) AppState" where
  "demo_http \<equiv> graph_http demo_lib demo_cfg (demo_setup grpc_jwt)"

definition demo_csrf_used :: Db where
  "demo_csrf_used = demo_http_db\<lparr>t_csrf_tokens := [\<lparr>cr_token_hash = ''tok'', cr_session_id = ''s1'', cr_created_at = 1,
     cr_expires_at = 100, cr_consumed_at = Some 50\<rparr>]\<rparr>"

definition demo_signed_in :: HttpBrowserSession where
  "demo_signed_in = \<lparr>hb_user = user_from_row (demo_user ''u1'' ''bob@x.org''), hb_session_id = ''s1''\<rparr>"

definition demo_principal :: TokenPrincipal where
  "demo_principal = \<lparr>tp_user_id = ''u1'', tp_token_subject = ''user:u1'', tp_token_idp = ''bridge'',
     tp_display_name = ''user:u1'', tp_preferred_username = ''bob@x.org'', tp_groups = [''dev'']\<rparr>"

lemma demo_http_facts:
  "schema_ok demo_http_db" "grants_ok demo_http_db" "plain_repository_ids demo_http_db"
  "user_by_browser_session 50 demo_http_db ''s1'' = Inr (hb_user demo_signed_in)"
  "consume_csrf_token (\<lambda>x. x) 50 50 ''s1'' ''tok'' demo_http_db = Inr ((), demo_csrf_used)"
  "principal_by_user_id demo_csrf_used ''u1'' = Inr demo_principal"
  "same_origin demo_lib demo_cfg demo_headers" "cookie_value demo_lib demo_headers SESSION_COOKIE_NAME = Some ''s1''"
  "schema_ok demo_csrf_used" "grants_ok demo_csrf_used" "plain_repository_ids demo_csrf_used"
  by code_simp+

lemma demo_http_inv: "db_inv demo_http_db" "db_inv demo_csrf_used"
  using demo_http_facts(1,2,9,10) demo_groups_edges(1)
  by (simp_all add: db_inv_def nesting_acyclic_def descendant_edges_def demo_http_db_def demo_csrf_used_def demo_served_def demo_access_def)

lemma demo_http_world_facts:
  "others_ok demo_http_world" "w_db demo_http_world = demo_http_db" "w_others demo_http_world = (\<lambda>_ db. db)"
  "w_times demo_http_world = (\<lambda>_ _. 50)" "w_nanos demo_http_world = (\<lambda>_. 7000000000)" "w_ids demo_http_world = (\<lambda>_ _. ''j1'')"
  by (simp_all add: others_ok_def demo_http_world_def demo_world_def)

lemma idle_next: "w_others w = (\<lambda>_ db. db) \<Longrightarrow> next_call w = tick w"
  by (simp add: next_call_def)

lemma demo_require_session:
  "require_session demo_http demo_headers no demo_http_world = (Inr demo_signed_in, tick demo_http_world)"
  using demo_http_facts(4,8) demo_http_world_facts idle_next [of demo_http_world]
  by (simp add: require_session_def current_browser_session_def catch_op_def return_op_def sqlite_state_def db_read_def Let_def
      demo_signed_in_def)

definition demo_form_world :: World where
  "demo_form_world = (tick (tick demo_http_world))\<lparr>w_db := demo_csrf_used\<rparr>"

lemma demo_consume_csrf: "consume_csrf_or demo_http demo_signed_in ''tok'' (tick demo_http_world) = (Inr (), demo_form_world)"
  using demo_http_facts(5) demo_http_world_facts idle_next [of "tick demo_http_world"]
  by (simp add: consume_csrf_or_def map_err_op_def sqlite_state_def db_write_def Let_def demo_setup_def demo_signed_in_def
      demo_form_world_def)

lemma demo_form: "parse_form_body demo_lib (Some []) =
    Inr [''csrf_token'' \<mapsto> ''tok'', ''repository'' \<mapsto> ''game'', ''user_code'' \<mapsto> ''uc'']"
  by (simp add: parse_form_body_def limited_body_def demo_lib_def)

lemma demo_form_world_facts:
  "quiet (demo_setup jwt) demo_form_world" "w_db demo_form_world = demo_csrf_used" "w_times demo_form_world = (\<lambda>_ _. 50)"
  "w_nanos demo_form_world = (\<lambda>_. 7000000000)" "w_ids demo_form_world = (\<lambda>_ _. ''j1'')" "w_others demo_form_world = (\<lambda>_ db. db)"
  using demo_http_world_facts
  by (simp_all add: demo_form_world_def quiet_def demo_setup_def default_ttl_def duration_from_secs_def nanos_per_sec_def i64_max_def
      demo_csrf_used_def demo_http_db_def demo_served_def demo_access_def demo_groups_def empty_db_def)

lemma demo_form_granted: "granted demo_csrf_used u rid role \<longleftrightarrow> granted demo_served u rid role"
  by (simp add: granted_def granted_repositories_def grant_reaches_def groups_of_def parent_edges_def memberships_def
      demo_csrf_used_def demo_http_db_def)

lemma demo_form_serves: "serves demo_csrf_used ''u1'' demo_repo"
  using demo_served_serves demo_http_inv(2) demo_http_facts(11)
  unfolding serves_def could_write_def demo_form_granted
  by (simp add: demo_csrf_used_def demo_http_db_def active_repository_def)

section \<open>A token is minted\<close>

lemma demo_mint:
  "\<exists>tok w'. manual_mint_authz (graph_tokens (demo_setup grpc_jwt)) ''u1'' ''game'' ''writer'' None demo_form_world = (Inr tok, w')"
proof -
  let ?g = "demo_setup grpc_jwt"
  define w5 where "w5 = tick (tick (tick (tick (tick demo_form_world))))"
  define input where "input = \<lparr>az_issuer = ''bridge'', az_audience = [''lore''], az_subject = ''user:u1'', az_name = ''user:u1'',
     az_preferred_username = ''bob@x.org'', az_groups = [''dev''], az_idp = ''bridge'',
     az_resources = [\<lparr>rp_resource_id = ''urc-game'', rp_permission = [Read, Write]\<rparr>],
     az_ttl = duration_from_secs 900, az_now = None, az_jti = []\<rparr>"
  obtain tok where s: "ts_sign_authz (rs256_signer grpc_jwt demo_signer) input w5 = (Inr tok, tick w5)" "st_jti tok = ''j1''"
    using demo_form_world_facts
    by (simp add: rs256_signer_def outside_def sign_authz_def new_authz_claims_def claim_defs grpc_jwt_def demo_jwt_defs
        demo_grpc_claims_def demo_authz_claims_def model_resource_to_claim_resource_def input_def w5_def)
  have "quiet ?g (tick w5)" "serves (w_db (tick w5)) ''u1'' demo_repo" "st_jti tok = w_ids (tick w5) 0 0"
    using demo_form_world_facts demo_form_serves s(2) by (simp_all add: w5_def)
  from quiet_record [OF this, of "''authz''" "''authz''"] obtain w' where
    w': "token_record (graph_tokens ?g) tok ''u1'' ''authz'' ''authz'' (tick w5) = (Inr (), w')" by blast
  have "rr_name demo_repo = ''game''" by (simp add: demo_repo_def)
  with s(1) w' show ?thesis
    using serves_lookup(2,3) [OF demo_form_serves] serves_access [OF demo_form_serves demo_resolver_ok]
      demo_served_facts(5) demo_form_world_facts(1,2) demo_http_facts(6)
    by (simp add: manual_mint_authz_def exchange_authz_def bind_op_def map_err_op_def return_op_def graph_tokens_def sqlite_resources_def
        sqlite_accounts_def rebac_policy_def quiet_read [where g = ?g] demo_setup_def input_def w5_def demo_principal_def)
qed

lemma demo_mint_answer:
  "\<exists>r w'. respond (handle_token_mint demo_http demo_headers (Some [])) demo_http_world = (r, w') \<and> rp_status r = 200"
proof -
  from demo_mint obtain tok w' where
    "manual_mint_authz (graph_tokens (demo_setup grpc_jwt)) ''u1'' ''game'' ''writer'' None demo_form_world = (Inr tok, w')" by blast
  then show ?thesis
    using demo_http_facts(7) demo_consume_csrf
    by (simp add: respond_def handle_token_mint_def Let_def bind_op_def map_err_op_def return_op_def read_op_def demo_require_session
        demo_form field_def demo_signed_in_def user_from_row_def demo_user_def)
qed

section \<open>A device is approved\<close>

definition demo_pending :: device_authorizations_row where
  "demo_pending = demo_device\<lparr>dr_requested_repository_id := Some ''r1''\<rparr>"

lemma demo_device_facts:
  "device_by_user_code (\<lambda>x. x) demo_csrf_used ''uc'' = Inr (device_to_core (device_from_row demo_pending))"
  "is_ok (approve_device_authorization 50 ''d1'' ''u1'' demo_csrf_used)"
  "da_status (device_to_core (device_from_row demo_pending)) = ''pending''" "da_id (device_to_core (device_from_row demo_pending)) = ''d1''"
  "da_requested_repository_id (device_to_core (device_from_row demo_pending)) = ''r1''"
  "da_expires_at (device_to_core (device_from_row demo_pending)) = 100"
  by code_simp+

lemma demo_approve_answer:
  "\<exists>r w'. respond (handle_device_approve demo_http demo_headers (Some [])) demo_http_world = (r, w') \<and> rp_status r = 200"
proof -
  let ?g = "demo_setup grpc_jwt"
  from is_ok_obtain [OF demo_device_facts(2)] obtain db where
    db: "approve_device_authorization 50 ''d1'' ''u1'' demo_csrf_used = Inr ((), db)" by force
  have "rr_id demo_repo = ''r1''" by (simp add: demo_repo_def)
  then have "\<exists>repo w'. device_approve (graph_device ?g) ''u1'' ''uc'' demo_form_world = (Inr repo, w')"
    using db serves_lookup(1) [OF demo_form_serves] serves_access [OF demo_form_serves demo_resolver_ok]
      demo_served_facts(5) demo_form_world_facts(1-3,6) demo_http_facts(6) demo_device_facts
    by (simp add: device_approve_def service_device_by_user_code_def ensure_pending_def repository_for_device_def now_op_def world_clock_def
        bind_op_def map_err_op_def return_op_def graph_device_def graph_tokens_def sqlite_resources_def sqlite_devices_def
        sqlite_accounts_def rebac_policy_def quiet_read [where g = ?g] demo_setup_def demo_principal_def db_write_def Let_def idle_next)
  then obtain repo w' where "device_approve (graph_device ?g) ''u1'' ''uc'' demo_form_world = (Inr repo, w')" by blast
  then show ?thesis
    using demo_http_facts(7) demo_consume_csrf
    by (simp add: respond_def handle_device_approve_def with_device_def Let_def bind_op_def map_err_op_def return_op_def read_op_def
        demo_require_session demo_form field_def demo_signed_in_def user_from_row_def demo_user_def)
qed

section \<open>A user logs out\<close>

lemma demo_logout_facts:
  "is_ok (revoke_browser_session 50 ''s1'' demo_csrf_used)" "csrf_token_from_request demo_lib demo_headers (Some []) = Inr ''tok''"
  by code_simp+

lemma demo_current_session:
  "current_browser_session demo_lib (sqlite_state (\<lambda>x. x)) demo_headers demo_http_world = (Inr (Some demo_signed_in), tick demo_http_world)"
  using demo_http_facts(4,8) demo_http_world_facts idle_next [of demo_http_world]
  by (simp add: current_browser_session_def catch_op_def return_op_def sqlite_state_def db_read_def Let_def demo_signed_in_def)

lemma demo_logout_answer:
  "\<exists>r w'. respond (handle_logout demo_http demo_headers (Some [])) demo_http_world = (r, w') \<and> rp_status r = 204"
proof -
  from is_ok_obtain [OF demo_logout_facts(1)] obtain db where
    db: "revoke_browser_session 50 ''s1'' demo_csrf_used = Inr ((), db)" by force
  have "st_sha (demo_setup grpc_jwt) = (\<lambda>x. x)" by (simp add: demo_setup_def)
  then show ?thesis
    using db demo_http_facts(7) demo_consume_csrf demo_current_session demo_logout_facts(2) demo_form_world_facts(2,3,6)
    by (simp add: respond_def handle_logout_def Let_def bind_op_def map_err_op_def return_op_def read_op_def catch_op_def
        sqlite_state_def [of "\<lambda>x. x"] db_write_def idle_next demo_signed_in_def)
qed

section \<open>A login comes back\<close>

definition demo_login_state :: LoginState where
  "demo_login_state = \<lparr>ls_id = ''l1'', ls_provider_id = ''p'', ls_nonce = [], ls_login_url_nonce = [], ls_return_path = [],
     ls_private_state = [], ls_expires_at = 100\<rparr>"

lemma demo_callback_facts:
  "map_err (\<lambda>_. ()) (map_sum id fst (consume_login_state (\<lambda>x. x) 50 50 50 ''ls'' demo_http_db)) = Inr demo_login_state"
  "first_param (query_params demo_lib query) ''state'' = ''ls''"
  by code_simp (simp add: first_param_def query_params_def demo_lib_def)

lemma demo_callback_answer:
  "\<exists>r w'. respond (handle_auth_callback demo_http ''p'' demo_headers []) demo_http_world = (r, w') \<and>
    r \<noteq> text_response demo_lib 400 ''invalid oauth state''"
proof -
  from demo_callback_facts(1) obtain db where
    db: "consume_login_state (\<lambda>x. x) 50 50 50 ''ls'' demo_http_db = Inr (demo_login_state, db)"
    by (cases "consume_login_state (\<lambda>x. x) 50 50 50 ''ls'' demo_http_db") auto
  have idp: "identity_provider (graph_login (demo_setup grpc_jwt)) ''p'' = Inl NotFound"
    by (simp add: identity_provider_def graph_login_def graph_idps_def build_identity_providers_def effective_provider_id_def
        registry_port_def registry_get_def Registry_new_def demo_setup_def)
  have "rp_status (fst (respond (handle_auth_callback demo_http ''p'' demo_headers []) demo_http_world)) = 404"
    using db demo_callback_facts(2) demo_http_world_facts idp
    by (simp add: respond_def handle_auth_callback_def finish_auth_callback_def consume_state_or_def complete_auth_def with_login_def
        Let_def bind_op_def map_err_op_def return_op_def read_op_def catch_op_def sqlite_state_def db_write_def idle_next
        demo_login_state_def demo_setup_def)
  then show ?thesis
    by (cases "respond (handle_auth_callback demo_http ''p'' demo_headers []) demo_http_world") (auto simp: text_response_def)
qed

section \<open>The theorems at these requests\<close>

definition demo_admin :: "IpAddr AdminLib" where
  "demo_admin = \<lparr>al_nets = demo_nets, al_render = (\<lambda>_. Some ''page''), al_en = [], al_ja = [], al_sources = [], al_htmx = [],
     al_pico = [], al_form = (\<lambda>_ _. Inr [''csrf_token'' \<mapsto> ''tok'', ''name'' \<mapsto> ''ops'']), al_to_lowercase = to_ascii_lowercase\<rparr>"

definition demo_srv :: "IpAddr Inbound" where
  "demo_srv = \<lparr>in_to_str = Some, in_nets = demo_nets, in_prefixes = [], in_lib = demo_lib, in_admin = demo_admin, in_cfg = demo_cfg,
     in_setup = demo_setup grpc_jwt\<rparr>"

abbreviation demo_start :: "World \<Rightarrow> inbound_state" where
  "demo_start w \<equiv> \<lparr>ib_grpc = Limiter_new 60 60, ib_http = Limiter_new 60 60, ib_world = w\<rparr>"

definition demo_health :: http_request where
  "demo_health = \<lparr>hr_path = ''/healthz'', hr_route = R_healthz, hr_headers = [], hr_query = Map.empty, hr_raw_query = [],
     hr_body = None, hr_remote = None, hr_nonce = []\<rparr>"

definition demo_between :: "IpAddr inbound list" where
  "demo_between = [Http 0 demo_health, Grpc 1 None (ExchangeUserTokenForMultiresourceToken demo_metadata [''urc-game''])]"


lemma demo_setup_jwt: "jwt_ok (st_jwt (demo_setup grpc_jwt))"
  by (auto simp: jwt_ok_def demo_setup_def grpc_jwt_def demo_jwt_def demo_header_def split: if_splits)


lemma approve_form_guarded_witness:
  "\<exists>r w' row. respond (handle_device_approve demo_http demo_headers (Some [])) demo_http_world = (r, w') \<and> rp_status r = 200 \<and>
     row \<in> set (t_device_authorizations (w_db w')) \<and> dr_status row = ''approved''"
proof -
  from demo_approve_answer obtain r w' where
    r: "respond (handle_device_approve demo_http demo_headers (Some [])) demo_http_world = (r, w')" "rp_status r = 200" by blast
  have "db_inv (w_db demo_http_world)" using demo_http_world_facts(2) demo_http_inv(1) by simp
  from approve_form_guarded [OF demo_setup_facts(2) demo_http_world_facts(1) this r] r show ?thesis by blast
qed

theorem form_replay_refused_witness:
  "\<exists>r w'. respond (handle_token_mint demo_http demo_headers (Some [])) demo_http_world = (r, w') \<and> rp_status r = 200 \<and>
     rp_status (fst (respond (handle_device_approve demo_http demo_headers (Some []))
       (ib_world (fold (answer demo_srv) demo_between (demo_start w'))))) \<noteq> 200"
proof -
  from demo_mint_answer obtain r w' where
    r: "respond (handle_token_mint demo_http demo_headers (Some [])) demo_http_world = (r, w')" "rp_status r = 200" by blast
  have "db_inv (w_db demo_http_world)" "in_setup demo_srv = demo_setup grpc_jwt"
    using demo_http_world_facts(2) demo_http_inv(1) by (simp_all add: demo_srv_def)
  with form_replay_refused [of demo_http_world handle_token_mint handle_device_approve demo_lib demo_cfg demo_srv demo_headers
      "Some []" r "demo_start w'"] r demo_http_world_facts(1) demo_form show ?thesis by fastforce
qed

theorem callback_state_once_witness:
  "\<exists>r w'. respond (handle_auth_callback demo_http ''p'' demo_headers []) demo_http_world = (r, w') \<and>
     fst (respond (handle_auth_callback demo_http ''q'' [] [])
       (ib_world (fold (answer demo_srv) demo_between (demo_start w')))) =
     text_response demo_lib 400 ''invalid oauth state''"
proof -
  from demo_callback_answer obtain r w' where
    r: "respond (handle_auth_callback demo_http ''p'' demo_headers []) demo_http_world = (r, w')"
    "r \<noteq> text_response demo_lib 400 ''invalid oauth state''" by blast
  have "db_inv (w_db demo_http_world)" "in_setup demo_srv = demo_setup grpc_jwt"
    using demo_http_world_facts(2) demo_http_inv(1) by (simp_all add: demo_srv_def)
  with callback_state_once [of demo_http_world demo_lib demo_cfg demo_srv "''p''" demo_headers "[]" r "demo_start w'" "[]"]
    r demo_http_world_facts(1) show ?thesis by auto
qed

theorem logout_ends_session_witness:
  "\<exists>r w'. respond (handle_logout demo_http demo_headers (Some [])) demo_http_world = (r, w') \<and> rp_status r = 204 \<and>
     fst (current_browser_session demo_lib (sqlite_state (\<lambda>x. x)) demo_headers
       (ib_world (fold (answer demo_srv) demo_between (demo_start w')))) = Inr None"
proof -
  from demo_logout_answer obtain r w' where
    r: "respond (handle_logout demo_http demo_headers (Some [])) demo_http_world = (r, w')" "rp_status r = 204" by blast
  have "db_inv (w_db demo_http_world)" "in_setup demo_srv = demo_setup grpc_jwt" "st_sha (demo_setup grpc_jwt) = (\<lambda>x. x)"
    "hb_session_id demo_signed_in = ''s1''"
    using demo_http_world_facts(2) demo_http_inv(1) by (simp_all add: demo_srv_def demo_setup_def demo_signed_in_def)
  with logout_ends_session [of demo_http_world demo_lib demo_srv demo_headers demo_signed_in "tick demo_http_world" demo_cfg
      "Some []" r "demo_start w'" demo_headers] r demo_http_world_facts(1) demo_current_session demo_http_facts(8)
  show ?thesis by auto
qed

end
