(* ===== verification/Admin_Examples.thy ===== *)
theory Admin_Examples
  imports Admin_Flows Http_Examples
begin

text \<open>
  Concrete requests to the admin console: one without a session, and the forms of an administrator.
\<close>

definition demo_probe :: admin_request where
  "demo_probe = \<lparr>aq_headers = [], aq_query = Map.empty, aq_body = None, aq_remote = None\<rparr>"

definition demo_admin_form :: admin_request where
  "demo_admin_form = \<lparr>aq_headers = demo_headers, aq_query = Map.empty, aq_body = Some [], aq_remote = None\<rparr>"

lemma demo_http_db_inv: "db_inv (w_db demo_http_world)"
  using demo_http_world_facts(2) demo_http_inv(1) by simp


theorem admin_changes_audited_witness:
  "(\<exists>tokens. w_db (snd (respond (admin_routes demo_admin demo_http demo_admin_form A_group_add) demo_http_world)) =
      demo_http_db\<lparr>t_csrf_tokens := tokens\<rparr>) \<or>
   (\<exists>u actor. admin_form_ok demo_admin demo_lib demo_cfg (\<lambda>x. x) demo_admin_form demo_http_db u actor \<and>
      one_write actor u demo_http_db (w_db (snd (respond (admin_routes demo_admin demo_http demo_admin_form A_group_add) demo_http_world))))"
  using admin_changes_audited [OF demo_http_world_facts(3) demo_http_db_inv prod.collapse [symmetric],
      of demo_admin demo_lib demo_cfg "demo_setup grpc_jwt" demo_admin_form A_group_add]
  by (simp add: demo_http_world_facts(2) demo_setup_def)

lemma demo_admin_of: "admin_of demo_http_db (hc_admin demo_cfg) ''u1''"
  unfolding admin_of_def by code_simp

theorem admin_remains_witness:
  "\<exists>v. admin_of (w_db (fold (\<lambda>(rq, route) w. snd (respond (admin_routes demo_admin demo_http rq route) w))
     [(demo_admin_form, A_user_disable ''u2''), (demo_admin_form, A_user_disable ''u1'')] demo_http_world)) (hc_admin demo_cfg) v"
  by (rule admin_remains [OF demo_http_world_facts(3) demo_http_db_inv]) (use demo_admin_of demo_http_world_facts(2) in simp)

end
