(* ===== verification/Memory_Store.thy ===== *)
theory Memory_Store
  imports Sqlite_Audited Ports "HOL-Library.AList" "HOL-Library.Multiset"
begin

text \<open>
  The in-memory adapter (\<open>memory/mod.rs\<close>): the state behind the lock and the helpers the ports share.
  A hash map is an association list with distinct keys in the order of the first insertions; the
  order in which Rust iterates over it is unspecified, so every iteration goes through a parameter
  that permutes the keys, and the theorems hold for every such parameter. Operations take the lock
  for their whole body: a call is one step, and an error leaves what the body wrote before it.
  Theorems: the search for the groups of a user finds exactly the groups that contain the user
  directly or through nesting, the search for a cycle finds one exactly if there is one, and both end.
\<close>

section \<open>Hash maps\<close>

type_synonym ('k, 'v) hash_map = "('k \<times> 'v) list"

record HashOrder =
  ho_names :: "string list \<Rightarrow> string list"
  ho_subjects :: "(string \<times> string) list \<Rightarrow> (string \<times> string) list"

definition order_ok :: "HashOrder \<Rightarrow> bool" where
  "order_ok ho \<longleftrightarrow> (\<forall>ks. mset (ho_names ho ks) = mset ks) \<and> (\<forall>ks. mset (ho_subjects ho ks) = mset ks)"

definition iter_by :: "('k list \<Rightarrow> 'k list) \<Rightarrow> ('k, 'v) hash_map \<Rightarrow> ('k \<times> 'v) list" where
  "iter_by order m = map (\<lambda>k. (k, the (map_of m k))) (order (map fst m))"

definition values_by :: "('k list \<Rightarrow> 'k list) \<Rightarrow> ('k, 'v) hash_map \<Rightarrow> 'v list" where
  "values_by order m = map snd (iter_by order m)"

definition or_default :: "'v list option \<Rightarrow> 'v list" where
  "or_default x = (case x of None \<Rightarrow> [] | Some v \<Rightarrow> v)"

lemma or_default_simps [simp]: "or_default None = []" "or_default (Some v) = v"
  by (simp_all add: or_default_def)

lemma iter_by_mset:
  assumes "\<And>ks. mset (order ks) = mset ks" "distinct (map fst m)"
  shows "mset (iter_by order m) = mset m"
proof -
  have "mset (iter_by order m) = image_mset (\<lambda>k. (k, the (map_of m k))) (mset (map fst m))"
    by (simp only: iter_by_def mset_map assms(1))
  also have "\<dots> = image_mset (\<lambda>p. (fst p, the (map_of m (fst p)))) (mset m)"
    by (simp add: image_mset.compositionality comp_def)
  also have "\<dots> = mset m"
    using assms(2) by (auto intro!: multiset.map_ident_strong)
  finally show ?thesis .
qed

lemma iter_by_set:
  assumes "\<And>ks. mset (order ks) = mset ks" "distinct (map fst m)"
  shows "set (iter_by order m) = set m"
  using iter_by_mset [OF assms] by (rule mset_eq_setD)

lemma order_ok_names: "order_ok ho \<Longrightarrow> mset (ho_names ho ks) = mset ks"
  by (simp add: order_ok_def)

lemma order_ok_subjects: "order_ok ho \<Longrightarrow> mset (ho_subjects ho ks) = mset ks"
  by (simp add: order_ok_def)

lemmas iter_names = iter_by_set [OF order_ok_names] and iter_subjects = iter_by_set [OF order_ok_subjects]

lemma values_names: "order_ok ho \<Longrightarrow> distinct (map fst m) \<Longrightarrow> set (values_by (ho_names ho) m) = snd ` set m"
  by (simp add: values_by_def iter_names)

section \<open>State\<close>

record CsrfToken =
  ct_session_id :: string
  ct_expires_at :: i64
  ct_consumed :: bool

record Mem =
  m_users :: "(string, User) hash_map"
  m_identities :: "(string, ExternalIdentity) hash_map"
  m_invitations :: "(string, IdentityInvitation) hash_map"
  m_resources :: "(string, Resource) hash_map"
  m_grants :: "(string \<times> string, (string, string) hash_map) hash_map"
  m_groups :: "(string, Group) hash_map"
  m_group_members :: "(string, string list) hash_map"
  m_group_groups :: "(string, string list) hash_map"
  m_auth_sessions :: "(string, AuthSession) hash_map"
  m_auth_session_codes :: "(string, string) hash_map"
  m_login_states :: "(string, LoginState) hash_map"
  m_browser_sessions :: "(string, string) hash_map"
  m_csrf_tokens :: "(string, CsrfToken) hash_map"
  m_tokens :: "(string, VerifiedToken) hash_map"
  m_issued_tokens :: "(string, IssuedToken) hash_map"
  m_admin_audit :: "AdminAuditEntry list"
  m_device_authorizations :: "(string, DeviceAuthorization) hash_map"
  m_device_code_index :: "(string, string) hash_map"
  m_user_code_index :: "(string, string) hash_map"

definition empty_mem :: Mem where
  "empty_mem = \<lparr>m_users = [], m_identities = [], m_invitations = [], m_resources = [], m_grants = [],
     m_groups = [], m_group_members = [], m_group_groups = [], m_auth_sessions = [],
     m_auth_session_codes = [], m_login_states = [], m_browser_sessions = [], m_csrf_tokens = [],
     m_tokens = [], m_issued_tokens = [], m_admin_audit = [], m_device_authorizations = [],
     m_device_code_index = [], m_user_code_index = []\<rparr>"

section \<open>Helpers\<close>

definition active_user :: "Mem \<Rightarrow> string \<Rightarrow> User core_result" where
  "active_user s user_id =
     and_then (ok_or NotFound (map_of (m_users s) user_id)) (\<lambda>user.
     if u_status user \<noteq> ''active'' then Inl PermissionDenied else Inr user)"

definition mem_resolve_user_id :: "HashOrder \<Rightarrow> Mem \<Rightarrow> string \<Rightarrow> string core_result" where
  "mem_resolve_user_id ho s email_or_id =
     ok_or NotFound (map_option u_id
       (find (\<lambda>user. u_id user = email_or_id \<or> u_email user = email_or_id) (values_by (ho_names ho) (m_users s))))"

definition group_by_name_or_id :: "HashOrder \<Rightarrow> Mem \<Rightarrow> string \<Rightarrow> Group core_result" where
  "group_by_name_or_id ho s name =
     (case find (\<lambda>candidate. g_id candidate = name) (values_by (ho_names ho) (m_groups s)) of
        Some candidate \<Rightarrow> Inr candidate
      | None \<Rightarrow> ok_or NotFound
          (find (\<lambda>candidate. g_name candidate = name) (values_by (ho_names ho) (m_groups s))))"

definition resolve_group_id :: "HashOrder \<Rightarrow> Mem \<Rightarrow> string \<Rightarrow> string core_result" where
  "resolve_group_id ho s name = and_then (group_by_name_or_id ho s name) (\<lambda>g. Inr (g_id g))"

definition mem_resolve_grant_subject_id :: "HashOrder \<Rightarrow> Mem \<Rightarrow> string \<Rightarrow> string \<Rightarrow> string core_result" where
  "mem_resolve_grant_subject_id ho s subject_type subject =
     (if subject_type = ''user'' then
        map_err (\<lambda>_. InvalidArgument [Lit ''unknown grant user '', Dbg subject]) (mem_resolve_user_id ho s subject)
      else if subject_type = ''group'' then
        map_err (\<lambda>_. InvalidArgument [Lit ''unknown grant group '', Dbg subject]) (resolve_group_id ho s subject)
      else Inl (InvalidArgument [Lit ''unknown grant subject_type '', Dbg subject_type]))"

definition resolve_resource_id_for_repo :: "HashOrder \<Rightarrow> Mem \<Rightarrow> string \<Rightarrow> string core_result" where
  "resolve_resource_id_for_repo ho s repo =
     (let repo = trim repo in
      if repo = [] then Inl (InvalidArgument [Lit ''repo must not be empty''])
      else ok_or NotFound (map_option r_resource_id
        (find (\<lambda>resource. r_status resource \<noteq> ''deleted'' \<and> r_name resource = repo)
          (values_by (ho_names ho) (m_resources s)))))"

definition resolve_exact_resource_id :: "Mem \<Rightarrow> string \<Rightarrow> string core_result" where
  "resolve_exact_resource_id s resource_id =
     and_then (ok_or (InvalidArgument [Lit ''resource_id must not be empty''])
       (for_repository_id (repository_id_from_resource_id (trim resource_id)))) (\<lambda>resource_id.
     case map_of (m_resources s) resource_id of
       Some resource \<Rightarrow> if r_status resource \<noteq> ''deleted'' then Inr (r_resource_id resource) else Inl NotFound
     | None \<Rightarrow> Inl NotFound)"

definition repository_pk_for_resource_id :: "Mem \<Rightarrow> string \<Rightarrow> string option" where
  "repository_pk_for_resource_id s resource_id =
     (case map_of (m_resources s) resource_id of
        Some resource \<Rightarrow> if r_id resource \<noteq> [] then Some (r_id resource) else None
      | None \<Rightarrow> None)"

definition normalize_resource_for_upsert :: "Resource \<Rightarrow> Resource core_result" where
  "normalize_resource_for_upsert resource =
     and_then (if trim (r_resource_id resource) = [] then validated_lore_repository_id (r_lore_repository_id resource)
       else validated_lore_repository_id (repository_id_from_resource_id (trim (r_resource_id resource))))
       (\<lambda>repository_id.
     and_then (ok_or (InvalidArgument [Lit ''resource_id is required'']) (for_repository_id repository_id))
       (\<lambda>resource_id. Inr (resource\<lparr>r_lore_repository_id := repository_id, r_resource_id := resource_id\<rparr>)))"

definition external_identity_key :: "ExternalIdentity \<Rightarrow> string" where
  "external_identity_key identity =
     ei_provider_id identity @ [CHR 0x00] @ ei_issuer identity @ [CHR 0x00] @ ei_subject identity"

definition not_expired :: "i64 \<Rightarrow> AuthSession \<Rightarrow> AuthSession core_result" where
  "not_expired now session = (if as_expires_at session \<le> now then Inl AuthSessionNotFound else Inr session)"

definition seconds_or_default :: "duration \<Rightarrow> nat \<Rightarrow> i64" where
  "seconds_or_default ttl dflt = i64_from_u64 (if ttl = 0 then dflt else as_secs ttl)"

text \<open>Times are nanoseconds since the epoch; a time before it counts as 0.\<close>

definition unix_or_now :: "int \<Rightarrow> int option \<Rightarrow> i64" where
  "unix_or_now system_now time =
     (let effective = (case time of None \<Rightarrow> system_now | Some t \<Rightarrow> t) in
      if effective < 0 then 0 else i64_from_u64 (nat (effective div int nanos_per_sec)))"

definition unix_after :: "i64 \<Rightarrow> duration \<Rightarrow> i64" where
  "unix_after now ttl = i64_add now (seconds_or_default ttl 0)"

section \<open>Groups of a user\<close>

definition direct_group_ids_for_user :: "HashOrder \<Rightarrow> Mem \<Rightarrow> string \<Rightarrow> string list" where
  "direct_group_ids_for_user ho s user_id =
     remdups (List.map_filter (\<lambda>name. case resolve_group_id ho s name of Inr i \<Rightarrow> Some i | Inl _ \<Rightarrow> None)
       (or_default (map_of (m_group_members s) user_id)))"

text \<open>One pass over the parents, and whether it added one; the loop runs until a pass adds none.\<close>

fun subject_pass :: "(string \<times> string list) list \<Rightarrow> string list \<Rightarrow> bool \<Rightarrow> string list \<times> bool" where
  "subject_pass [] grps changed = (grps, changed)"
| "subject_pass ((parent_group_id, member_group_ids) # entries) grps changed =
     (if list_ex (\<lambda>member_group_id. member_group_id \<in> set grps) member_group_ids \<and> parent_group_id \<notin> set grps
      then subject_pass entries (parent_group_id # grps) True
      else subject_pass entries grps changed)"

definition nest_edges :: "(string \<times> string list) list \<Rightarrow> (string \<times> string) list" where
  "nest_edges entries = concat (map (\<lambda>(parent, members). map (\<lambda>member. (member, parent)) members) entries)"

lemma nest_edges_Cons [simp]: "nest_edges ((p, ms) # es) = map (\<lambda>m. (m, p)) ms @ nest_edges es"
  by (simp add: nest_edges_def)

lemma nest_edges_Nil [simp]: "nest_edges [] = []"
  by (simp add: nest_edges_def)

lemma nest_edges_set: "set (nest_edges es) = {(m, p). \<exists>ms. (p, ms) \<in> set es \<and> m \<in> set ms}"
  by (auto simp: nest_edges_def)

lemma sweep_seen: "p \<in> set found \<Longrightarrow> sweep (map (\<lambda>m. (m, p)) ms @ E) found c = sweep E found c"
  by (induction ms) auto

lemma sweep_entry:
  "p \<notin> set found \<Longrightarrow> sweep (map (\<lambda>m. (m, p)) ms @ E) found c =
     (if list_ex (\<lambda>m. m \<in> set found) ms then sweep E (p # found) True else sweep E found c)"
  by (induction ms) (auto simp: sweep_seen)

lemma subject_pass_sweep: "subject_pass entries grps changed = sweep (nest_edges entries) grps changed"
proof (induction entries grps changed rule: subject_pass.induct)
  case (2 p ms es grps changed)
  then show ?case by (cases "p \<in> set grps") (auto simp: sweep_seen sweep_entry)
qed simp

function subject_loop :: "(string \<times> string list) list \<Rightarrow> string list \<Rightarrow> string list" where
  "subject_loop entries grps =
     (let r = subject_pass entries grps False in if snd r then subject_loop entries (fst r) else fst r)"
  by pat_completeness auto
termination
proof (relation "measure (\<lambda>(es, grps). card (snd ` set (nest_edges es) - set grps))")
  fix es :: "(string \<times> string list) list" and grps r
  assume "r = subject_pass es grps False" and "snd r"
  then show "((es, fst r), es, grps) \<in> measure (\<lambda>(es, grps). card (snd ` set (nest_edges es) - set grps))"
    using sweep_shrinks [of "nest_edges es" grps] by (simp add: subject_pass_sweep)
qed simp

declare subject_loop.simps [simp del]

lemma subject_loop_sweep: "subject_loop entries grps = sweep_loop (nest_edges entries) grps"
proof (induction entries grps rule: subject_loop.induct)
  case (1 es grps)
  then show ?case
    by (simp add: subject_loop.simps [of es grps] sweep_loop.simps [of "nest_edges es"] Let_def subject_pass_sweep)
qed

definition grant_subject_keys_for_user :: "HashOrder \<Rightarrow> Mem \<Rightarrow> string \<Rightarrow> (string \<times> string) list" where
  "grant_subject_keys_for_user ho s user_id =
     (''user'', user_id) # map (\<lambda>group_id. (''group'', group_id))
       (ho_names ho (subject_loop (iter_by (ho_names ho) (m_group_groups s)) (direct_group_ids_for_user ho s user_id)))"

text \<open>Nesting edges of a state, from a member group to the group that contains it.\<close>

definition mem_nesting :: "Mem \<Rightarrow> (string \<times> string) set" where
  "mem_nesting s = {(m, p). \<exists>ms. (p, ms) \<in> set (m_group_groups s) \<and> m \<in> set ms}"

lemma subject_keys_exact:
  assumes "order_ok ho" "distinct (map fst (m_group_groups s))"
  shows "set (grant_subject_keys_for_user ho s u) =
    insert (''user'', u) (Pair ''group'' ` ((mem_nesting s)\<^sup>* `` set (direct_group_ids_for_user ho s u)))"
proof -
  have "set (nest_edges (iter_by (ho_names ho) (m_group_groups s))) = mem_nesting s"
    using assms by (simp add: nest_edges_set mem_nesting_def iter_names)
  then have "set (subject_loop (iter_by (ho_names ho) (m_group_groups s)) (direct_group_ids_for_user ho s u)) =
      (mem_nesting s)\<^sup>* `` set (direct_group_ids_for_user ho s u)"
    by (simp add: subject_loop_sweep sweep.search_set)
  then show ?thesis
    using mset_eq_setD [OF order_ok_names [OF assms(1)]] by (simp add: grant_subject_keys_for_user_def)
qed

text \<open>The chain of groups from the user to each of them, by a breadth-first search upwards.\<close>

definition group_label :: "HashOrder \<Rightarrow> Mem \<Rightarrow> string \<Rightarrow> string" where
  "group_label ho s group_id =
     (case find (\<lambda>g. g_id g = group_id) (values_by (ho_names ho) (m_groups s)) of
        Some g \<Rightarrow> g_name g | None \<Rightarrow> group_id)"

fun visit_parents ::
  "(string \<Rightarrow> string) \<Rightarrow> string \<Rightarrow> string \<Rightarrow> (string \<times> string list) list \<Rightarrow> (string, string) hash_map \<times> string list
     \<Rightarrow> (string, string) hash_map \<times> string list" where
  "visit_parents label child child_path [] (paths, queue) = (paths, queue)"
| "visit_parents label child child_path ((parent_group_id, member_group_ids) # entries) (paths, queue) =
     (if child \<notin> set member_group_ids \<or> parent_group_id \<in> fst ` set paths
      then visit_parents label child child_path entries (paths, queue)
      else visit_parents label child child_path entries
        (AList.update parent_group_id (child_path @ '' -> '' @ label parent_group_id) paths, queue @ [parent_group_id]))"

lemma visit_parents_keys: "fst ` set paths \<subseteq> fst ` set (fst (visit_parents label child path es (paths, queue)))"
proof (induction label child path es "(paths, queue)" arbitrary: paths queue rule: visit_parents.induct)
  case (2 label child path p ms es paths queue)
  then show ?case by (cases "child \<notin> set ms \<or> p \<in> fst ` set paths") (simp_all add: dom_update)
qed simp

lemma visit_parents_grows:
  "visit_parents label child path es (paths, queue) = (paths, queue) \<or>
     (\<exists>p \<in> fst ` set es. p \<notin> fst ` set paths \<and> p \<in> fst ` set (fst (visit_parents label child path es (paths, queue))))"
proof (induction label child path es "(paths, queue)" arbitrary: paths queue rule: visit_parents.induct)
  case (2 label child path p ms es paths queue)
  show ?case
  proof (cases "child \<notin> set ms \<or> p \<in> fst ` set paths")
    case True
    with "2.hyps"(1) [OF True] show ?thesis by auto
  next
    case False
    let ?paths = "AList.update p (path @ '' -> '' @ label p) paths"
    have "p \<in> fst ` set (fst (visit_parents label child path es (?paths, queue @ [p])))"
      using visit_parents_keys [of ?paths] by (auto simp: dom_update)
    with False show ?thesis by simp
  qed
qed simp

function path_loop ::
  "(string \<Rightarrow> string) \<Rightarrow> (string \<times> string list) list \<Rightarrow> (string, string) hash_map \<Rightarrow> string list \<Rightarrow> (string, string) hash_map" where
  "path_loop label entries paths [] = paths"
| "path_loop label entries paths (child_group_id # queue) =
     (case map_of paths child_group_id of
        None \<Rightarrow> path_loop label entries paths queue
      | Some child_path \<Rightarrow>
          (let r = visit_parents label child_group_id child_path entries (paths, queue) in
           path_loop label entries (fst r) (snd r)))"
  by pat_completeness auto
termination
proof (relation "inv_image (less_than <*lex*> less_than)
    (\<lambda>(label, entries, paths, queue). (card (fst ` set entries - fst ` set paths), length queue))")
  fix label :: "string \<Rightarrow> string" and entries :: "(string \<times> string list) list" and paths :: "(string, string) hash_map"
    and child child_path r and queue :: "string list"
  assume r: "r = visit_parents label child child_path entries (paths, queue)"
  show "((label, entries, fst r, snd r), label, entries, paths, child # queue)
    \<in> inv_image (less_than <*lex*> less_than)
      (\<lambda>(label, entries, paths, queue). (card (fst ` set entries - fst ` set paths), length queue))"
  proof (cases "r = (paths, queue)")
    case False
    with visit_parents_grows [of label child child_path entries paths queue] r
    obtain p where "p \<in> fst ` set entries" "p \<notin> fst ` set paths" "p \<in> fst ` set (fst r)" by auto
    with visit_parents_keys [of paths label child child_path entries queue]
    have "fst ` set entries - fst ` set (fst r) \<subset> fst ` set entries - fst ` set paths" unfolding r by blast
    then have "card (fst ` set entries - fst ` set (fst r)) < card (fst ` set entries - fst ` set paths)"
      by (intro psubset_card_mono) auto
    then show ?thesis by (cases r) simp
  qed simp
qed auto

definition group_paths_for_user :: "HashOrder \<Rightarrow> Mem \<Rightarrow> string \<Rightarrow> (string, string) hash_map" where
  "group_paths_for_user ho s user_id =
     (let direct = ho_names ho (direct_group_ids_for_user ho s user_id) in
      path_loop (group_label ho s) (iter_by (ho_names ho) (m_group_groups s))
        (map (\<lambda>group_id. (group_id, group_label ho s group_id)) direct) direct)"

lemma visit_parents_exact:
  "fst ` set (fst (visit_parents label child path es (paths, queue))) =
     fst ` set paths \<union> {p. (child, p) \<in> set (nest_edges es)} \<and>
   set (snd (visit_parents label child path es (paths, queue))) =
     set queue \<union> ({p. (child, p) \<in> set (nest_edges es)} - fst ` set paths)"
proof (induction label child path es "(paths, queue)" arbitrary: paths queue rule: visit_parents.induct)
  case (2 label child path p ms es paths queue)
  show ?case
  proof (cases "child \<notin> set ms \<or> p \<in> fst ` set paths")
    case True
    with "2.hyps"(1) [OF True] show ?thesis by auto
  next
    case False
    let ?paths = "AList.update p (path @ '' -> '' @ label p) paths"
    have "visit_parents label child path ((p, ms) # es) (paths, queue) = visit_parents label child path es (?paths, queue @ [p])"
      using False by simp
    with "2.hyps"(2) [OF False] False show ?thesis by (auto simp: dom_update)
  qed
qed simp

lemma path_loop_reach:
  assumes "set queue \<subseteq> fst ` set paths"
    "\<And>a p. a \<in> fst ` set paths \<Longrightarrow> a \<notin> set queue \<Longrightarrow> (a, p) \<in> set (nest_edges es) \<Longrightarrow> p \<in> fst ` set paths"
  shows "fst ` set (path_loop label es paths queue) = (set (nest_edges es))\<^sup>* `` (fst ` set paths)"
  using assms
proof (induction label es paths queue rule: path_loop.induct)
  case (1 label es paths)
  have "b \<in> fst ` set paths" if "(a, b) \<in> (set (nest_edges es))\<^sup>*" "a \<in> fst ` set paths" for a b
    using that by (induction rule: rtrancl_induct) (use 1 in auto)
  then show ?case by auto
next
  case (2 label es paths child queue)
  let ?E = "set (nest_edges es)"
  from "2.prems"(1) obtain path where path: "map_of paths child = Some path"
    by (cases "map_of paths child") (auto simp: map_of_eq_None_iff)
  define r where "r = visit_parents label child path es (paths, queue)"
  have keys: "fst ` set (fst r) = fst ` set paths \<union> {p. (child, p) \<in> ?E}"
    and queue: "set (snd r) = set queue \<union> ({p. (child, p) \<in> ?E} - fst ` set paths)"
    unfolding r_def using visit_parents_exact by blast+
  have "fst ` set (path_loop label es (fst r) (snd r)) = ?E\<^sup>* `` (fst ` set (fst r))"
  proof (rule "2.IH"(2) [OF path r_def])
    show "set (snd r) \<subseteq> fst ` set (fst r)" using keys queue "2.prems"(1) by auto
    show "p \<in> fst ` set (fst r)" if "a \<in> fst ` set (fst r)" "a \<notin> set (snd r)" "(a, p) \<in> ?E" for a p
      using that "2.prems"(2) [of a p] unfolding keys queue by auto
  qed
  moreover have "?E\<^sup>* `` (fst ` set (fst r)) = ?E\<^sup>* `` (fst ` set paths)"
    using "2.prems"(1) unfolding keys by (auto intro: converse_rtrancl_into_rtrancl)
  ultimately show ?case using path by (simp add: r_def Let_def)
qed

lemma group_paths_exact:
  assumes "order_ok ho" "distinct (map fst (m_group_groups s))"
  shows "fst ` set (group_paths_for_user ho s u) = (mem_nesting s)\<^sup>* `` set (direct_group_ids_for_user ho s u)"
proof -
  have E: "set (nest_edges (iter_by (ho_names ho) (m_group_groups s))) = mem_nesting s"
    using assms by (simp add: nest_edges_set mem_nesting_def iter_names)
  have d: "set (ho_names ho (direct_group_ids_for_user ho s u)) = set (direct_group_ids_for_user ho s u)"
    using assms(1) by (metis order_ok_names mset_eq_setD)
  show ?thesis
    unfolding group_paths_for_user_def Let_def
    by (subst path_loop_reach) (auto simp: E d image_image)
qed

section \<open>Cycles\<close>

text \<open>A depth-first search downwards; the top of the stack is its last element in the code, here the
  head of the list. Groups without an entry have no members.\<close>

function cycle_search :: "(string, string list) hash_map \<Rightarrow> string \<Rightarrow> string list \<Rightarrow> string list \<Rightarrow> bool" where
  "cycle_search gg parent visited [] = False"
| "cycle_search gg parent visited (group_id # stack) =
     (if group_id = parent then True
      else if group_id \<in> set visited then cycle_search gg parent visited stack
      else cycle_search gg parent (group_id # visited) (rev (or_default (map_of gg group_id)) @ stack))"
  by pat_completeness auto
termination
proof (relation "inv_image (less_than <*lex*> less_than)
    (\<lambda>(gg, parent, visited, stack). (card (fst ` set gg - set visited), length stack))")
  fix gg :: "(string, string list) hash_map" and parent group_id and visited stack :: "string list"
  assume "group_id \<notin> set visited"
  show "((gg, parent, group_id # visited, rev (or_default (map_of gg group_id)) @ stack), gg, parent, visited, group_id # stack)
    \<in> inv_image (less_than <*lex*> less_than) (\<lambda>(gg, parent, visited, stack). (card (fst ` set gg - set visited), length stack))"
  proof (cases "group_id \<in> fst ` set gg")
    case True
    with \<open>group_id \<notin> set visited\<close> have "fst ` set gg - insert group_id (set visited) \<subset> fst ` set gg - set visited" by blast
    then have "card (fst ` set gg - insert group_id (set visited)) < card (fst ` set gg - set visited)"
      by (intro psubset_card_mono) auto
    then show ?thesis by simp
  next
    case False
    then have "map_of gg group_id = None" by (simp add: map_of_eq_None_iff)
    moreover from False have "fst ` set gg - insert group_id (set visited) = fst ` set gg - set visited" by blast
    ultimately show ?thesis by simp
  qed
qed auto

definition group_group_would_cycle :: "Mem \<Rightarrow> string \<Rightarrow> string \<Rightarrow> bool" where
  "group_group_would_cycle s parent_group_id member_group_id =
     cycle_search (m_group_groups s) parent_group_id [] [member_group_id]"

definition members_of :: "(string, string list) hash_map \<Rightarrow> (string \<times> string) set" where
  "members_of gg = {(p, m). m \<in> set (or_default (map_of gg p))}"

lemma cycle_search_sound:
  "cycle_search gg parent visited stack \<Longrightarrow> parent \<in> (members_of gg)\<^sup>* `` set stack"
proof (induction gg parent visited stack rule: cycle_search.induct)
  case (2 gg parent visited g stack)
  show ?case
  proof (cases "g = parent")
    case False
    show ?thesis
    proof (cases "g \<in> set visited")
      case True
      with 2 False show ?thesis by auto
    next
      case new: False
      with 2 False have "parent \<in> (members_of gg)\<^sup>* `` set (rev (or_default (map_of gg g)) @ stack)" by simp
      then obtain x where x: "(x, parent) \<in> (members_of gg)\<^sup>*" "x \<in> set (or_default (map_of gg g)) \<or> x \<in> set stack" by auto
      then show ?thesis by (auto simp: members_of_def intro: converse_rtrancl_into_rtrancl)
    qed
  qed auto
qed simp

text \<open>When the search finds nothing, what it has seen is closed under members up to the stack.\<close>

lemma cycle_search_complete:
  "\<not> cycle_search gg parent visited stack \<Longrightarrow> parent \<notin> set visited \<Longrightarrow>
   (\<And>a b. a \<in> set visited \<Longrightarrow> (a, b) \<in> members_of gg \<Longrightarrow> b \<in> set visited \<union> set stack) \<Longrightarrow>
   \<exists>X. set visited \<union> set stack \<subseteq> X \<and> parent \<notin> X \<and> (\<forall>a b. a \<in> X \<longrightarrow> (a, b) \<in> members_of gg \<longrightarrow> b \<in> X)"
proof (induction gg parent visited stack rule: cycle_search.induct)
  case (1 gg parent visited)
  then show ?case by (intro exI [of _ "set visited"]) auto
next
  case (2 gg parent visited g stack)
  from "2.prems"(1) have g: "g \<noteq> parent" by auto
  show ?case
  proof (cases "g \<in> set visited")
    case True
    with 2 g obtain X where "set visited \<union> set stack \<subseteq> X" "parent \<notin> X" "\<forall>a b. a \<in> X \<longrightarrow> (a, b) \<in> members_of gg \<longrightarrow> b \<in> X"
      by (simp add: insert_absorb) blast
    with True show ?thesis by (intro exI [of _ X]) auto
  next
    case False
    let ?stack = "rev (or_default (map_of gg g)) @ stack"
    have "b \<in> set (g # visited) \<union> set ?stack" if "a \<in> set (g # visited)" "(a, b) \<in> members_of gg" for a b
      using that "2.prems"(3) [of a b] by (auto simp: members_of_def)
    moreover have "\<not> cycle_search gg parent (g # visited) ?stack" "parent \<notin> set (g # visited)"
      using "2.prems"(1,2) g False by auto
    ultimately obtain X where "set (g # visited) \<union> set ?stack \<subseteq> X" "parent \<notin> X"
      "\<forall>a b. a \<in> X \<longrightarrow> (a, b) \<in> members_of gg \<longrightarrow> b \<in> X"
      using "2.IH"(2) [OF g False] by blast
    then show ?thesis by (intro exI [of _ X]) auto
  qed
qed

lemma closed_reach: "a \<in> X \<Longrightarrow> (\<forall>a b. a \<in> X \<longrightarrow> (a, b) \<in> R \<longrightarrow> b \<in> X) \<Longrightarrow> (a, b) \<in> R\<^sup>* \<Longrightarrow> b \<in> X"
  by (rotate_tac 2, induction rule: rtrancl_induct) blast+

lemma would_cycle_exact:
  "group_group_would_cycle s parent member \<longleftrightarrow> (member, parent) \<in> (members_of (m_group_groups s))\<^sup>*"
proof
  assume "group_group_would_cycle s parent member"
  then show "(member, parent) \<in> (members_of (m_group_groups s))\<^sup>*"
    unfolding group_group_would_cycle_def using cycle_search_sound by fastforce
next
  assume path: "(member, parent) \<in> (members_of (m_group_groups s))\<^sup>*"
  show "group_group_would_cycle s parent member"
  proof (rule ccontr)
    assume "\<not> group_group_would_cycle s parent member"
    then have "\<exists>X. set [] \<union> set [member] \<subseteq> X \<and> parent \<notin> X \<and>
        (\<forall>a b. a \<in> X \<longrightarrow> (a, b) \<in> members_of (m_group_groups s) \<longrightarrow> b \<in> X)"
      unfolding group_group_would_cycle_def by (rule cycle_search_complete) simp_all
    then obtain X where "member \<in> X" "parent \<notin> X" "\<forall>a b. a \<in> X \<longrightarrow> (a, b) \<in> members_of (m_group_groups s) \<longrightarrow> b \<in> X"
      by auto
    from closed_reach [OF this(1,3) path] this(2) show False by contradiction
  qed
qed

lemma members_of_iff:
  assumes "distinct (map fst gg)"
  shows "(p, m) \<in> members_of gg \<longleftrightarrow> (\<exists>ms. (p, ms) \<in> set gg \<and> m \<in> set ms)"
proof (cases "map_of gg p")
  case None
  then have "(p, ms) \<notin> set gg" for ms by (metis map_of_eq_None_iff fst_conv image_eqI)
  with None show ?thesis by (simp add: members_of_def)
next
  case (Some ms)
  with assms have "(p, ms') \<in> set gg \<longleftrightarrow> ms' = ms" for ms'
    by (metis map_of_eq_Some_iff option.inject)
  with Some show ?thesis by (simp add: members_of_def)
qed

lemma members_of_nesting: "distinct (map fst (m_group_groups s)) \<Longrightarrow> members_of (m_group_groups s) = (mem_nesting s)\<inverse>"
  by (auto simp: members_of_iff mem_nesting_def simp del: set_map)

end
