(* ===== verification/Memory_Ops.thy ===== *)
theory Memory_Ops
  imports Memory_Store Rs256
begin

text \<open>
  The ports of the in-memory adapter (\<open>memory/accounts.rs\<close>, \<open>groups.rs\<close>, \<open>grants.rs\<close>, \<open>resources.rs\<close>,
  \<open>state.rs\<close>, \<open>devices.rs\<close> and \<open>tokens.rs\<close>), one definition per operation. Clock readings, fresh
  ids and random codes are arguments in the order in which the operation draws them. The theorems
  are in Memory\_System and Memory\_Double.
\<close>

section \<open>Test fixtures\<close>

definition add_test_user :: "string \<Rightarrow> User \<Rightarrow> (User, Mem) port" where
  "add_test_user fresh user s =
     (let user = (if u_id user = [] then user\<lparr>u_id := fresh\<rparr> else user);
          user = (if u_status user = [] then user\<lparr>u_status := ''active''\<rparr> else user) in
      (Inr user, s\<lparr>m_users := AList.update (u_id user) user (m_users s)\<rparr>))"

definition disable_test_user :: "string \<Rightarrow> (unit, Mem) port" where
  "disable_test_user user_id s =
     (Inr (), s\<lparr>m_users := AList.map_entry user_id (\<lambda>user. user\<lparr>u_status := ''disabled''\<rparr>) (m_users s)\<rparr>)"

definition add_test_resource :: "string \<Rightarrow> Resource \<Rightarrow> (Resource, Mem) port" where
  "add_test_resource fresh resource s =
     (let resource = (if r_id resource = [] then resource\<lparr>r_id := fresh\<rparr> else resource);
          resource = (if r_resource_id resource = []
            then resource\<lparr>r_resource_id := unwrap_or_default (for_repository_id (r_lore_repository_id resource))\<rparr>
            else resource);
          resource = (if r_lore_repository_id resource = []
            then resource\<lparr>r_lore_repository_id := repository_id_from_resource_id (r_resource_id resource)\<rparr>
            else resource);
          resource = (if r_status resource = [] then resource\<lparr>r_status := ''active''\<rparr> else resource) in
      (Inr resource, s\<lparr>m_resources := AList.update (r_resource_id resource) resource (m_resources s)\<rparr>))"

definition add_test_external_identity :: "string \<Rightarrow> ExternalIdentity \<Rightarrow> (ExternalIdentity, Mem) port" where
  "add_test_external_identity fresh identity s =
     (let identity = (if ei_id identity = [] then identity\<lparr>ei_id := fresh\<rparr> else identity);
          identity = (if ei_subject_strategy identity = [] then identity\<lparr>ei_subject_strategy := ''oidc_sub''\<rparr> else identity);
          identity = (if ei_status identity = [] then identity\<lparr>ei_status := ''active''\<rparr> else identity) in
      (Inr identity, s\<lparr>m_identities := AList.update (external_identity_key identity) identity (m_identities s)\<rparr>))"

text \<open>\<open>entry(subject).or_default().insert(resource, role)\<close>.\<close>

definition put_grant :: "string \<times> string \<Rightarrow> string \<Rightarrow> string \<Rightarrow> Mem \<Rightarrow> Mem" where
  "put_grant subject resource_id role s =
     s\<lparr>m_grants := AList.update subject
        (AList.update resource_id role (or_default (map_of (m_grants s) subject))) (m_grants s)\<rparr>"

definition grant_role :: "string \<Rightarrow> string \<Rightarrow> string \<Rightarrow> (unit, Mem) port" where
  "grant_role user_id resource_id role s = (Inr (), put_grant (''user'', user_id) resource_id role s)"

definition test_grant :: "string \<Rightarrow> string \<Rightarrow> (unit, Mem) port" where
  "test_grant user_id resource_id = grant_role user_id resource_id ''writer''"

section \<open>Accounts\<close>

definition user_principal :: "Mem \<Rightarrow> User \<Rightarrow> string \<Rightarrow> string \<Rightarrow> TokenPrincipal" where
  "user_principal s user token_idp user_id =
     principal_from_user user token_idp (or_default (map_of (m_group_members s) user_id))"

definition matching_invitation :: "i64 \<Rightarrow> ExternalIdentity \<Rightarrow> IdentityInvitation \<Rightarrow> bool" where
  "matching_invitation now identity invitation \<longleftrightarrow>
     ii_provider_id invitation = ei_provider_id identity \<and> ii_issuer invitation = ei_issuer identity \<and>
     ii_status invitation = ''pending'' \<and> (ii_expires_at invitation = 0 \<or> ii_expires_at invitation > now) \<and>
     trim (ii_binding_policy invitation) = ''verified_email_invitation'' \<and>
     eq_ignore_ascii_case (trim (ii_email invitation)) (trim (ei_email identity))"

text \<open>The binding of an invitation: the identity is stored before the user is looked up, and stays when
  the invitation names a user that does not exist.\<close>

definition bind_invitation ::
  "string \<Rightarrow> ExternalIdentity \<Rightarrow> string \<Rightarrow> IdentityInvitation \<Rightarrow> (TokenPrincipal \<times> LoginBindingResult, Mem) port" where
  "bind_invitation fresh identity invitation_id invitation s =
     (let user_id = ii_user_id invitation;
          external = identity\<lparr>ei_id := fresh, ei_user_id := user_id,
            ei_subject_strategy := (if ei_subject_strategy identity = [] then ''oidc_sub'' else ei_subject_strategy identity),
            ei_status := ''active''\<rparr>;
          s = s\<lparr>m_identities := AList.update (external_identity_key identity) external (m_identities s)\<rparr> in
      if map_of (m_users s) user_id = None then (Inl NotFound, s)
      else
        let s = s\<lparr>m_users := AList.map_entry user_id (\<lambda>user. user\<lparr>u_email := ei_email identity,
                u_display_name := ei_display_name identity, u_status := ''active''\<rparr>) (m_users s),
              m_invitations := AList.map_entry invitation_id (\<lambda>i. i\<lparr>ii_status := ''accepted'',
                ii_accepted_identity_id := fresh\<rparr>) (m_invitations s)\<rparr> in
        case active_user s user_id of
          Inl e \<Rightarrow> (Inl e, s)
        | Inr user \<Rightarrow> (Inr (user_principal s user (ei_provider_id identity) user_id,
            \<lparr>lb_status = ''bound_invitation'', lb_external_identity_id = fresh, lb_invitation_id = invitation_id\<rparr>), s))"

definition mem_resolve_login ::
  "HashOrder \<Rightarrow> i64 \<Rightarrow> string \<Rightarrow> LoginResolutionRequest \<Rightarrow> (TokenPrincipal \<times> LoginBindingResult, Mem) port" where
  "mem_resolve_login ho now fresh req s =
     (let identity = lr_identity req; key = external_identity_key identity in
      case (case map_of (m_identities s) key of
              Some existing \<Rightarrow> if ei_status existing = ''active'' then Some existing else None
            | None \<Rightarrow> None) of
        Some existing \<Rightarrow>
          (case active_user s (ei_user_id existing) of
             Inl e \<Rightarrow> (Inl e, s)
           | Inr user \<Rightarrow> (Inr (user_principal s user (ei_provider_id identity) (ei_user_id existing),
               \<lparr>lb_status = ''existing'', lb_external_identity_id = ei_id existing, lb_invitation_id = []\<rparr>), s))
      | None \<Rightarrow>
          if ei_email_verified identity \<and> trim (ei_email identity) \<noteq> [] \<and>
             allows_verified_email_invitation_binding (lr_policy req) \<and>
             email_domain_allowed (ei_email identity) (ltp_allowed_email_domains (lr_policy req))
          then
            case find (\<lambda>(_, invitation). matching_invitation now identity invitation)
                (iter_by (ho_names ho) (m_invitations s)) of
              Some (invitation_id, _) \<Rightarrow>
                (case map_of (m_invitations s) invitation_id of
                   None \<Rightarrow> (Inl NotFound, s)
                 | Some invitation \<Rightarrow> bind_invitation fresh identity invitation_id invitation s)
            | None \<Rightarrow> (Inl NotFound, s)
          else (Inl NotFound, s))"

definition mem_principal_by_user_id :: "string \<Rightarrow> (TokenPrincipal, Mem) port" where
  "mem_principal_by_user_id user_id =
     read_op (\<lambda>s. and_then (active_user s user_id) (\<lambda>user. Inr (user_principal s user ''bridge'' user_id)))"

definition mem_principal_by_authn_token_jti :: "i64 \<Rightarrow> string \<Rightarrow> (TokenPrincipal, Mem) port" where
  "mem_principal_by_authn_token_jti now jti =
     read_op (\<lambda>s.
       case map_of (m_issued_tokens s) jti of
         Some issued \<Rightarrow>
           if it_kind issued = ''authn'' \<and> it_expires_at issued > now \<and> it_user_id issued \<noteq> [] then
             (case map_of (m_users s) (it_user_id issued) of
                Some user \<Rightarrow>
                  if u_status user = ''active'' then Inr (user_principal s user ''bridge'' (it_user_id issued))
                  else Inl NotFound
              | None \<Rightarrow> Inl NotFound)
           else Inl NotFound
       | None \<Rightarrow> Inl NotFound)"

definition new_user :: "string \<Rightarrow> string \<Rightarrow> string \<Rightarrow> string \<Rightarrow> User" where
  "new_user fresh email display_name status =
     \<lparr>u_id = fresh, u_email = email, u_display_name = display_name, u_status = status, u_last_login_at = 0\<rparr>"

definition mem_add_user :: "string \<Rightarrow> AddUserInput \<Rightarrow> (User, Mem) port" where
  "mem_add_user fresh input s =
     (case validated_account_email (au_email input) of
        Inl e \<Rightarrow> (Inl e, s)
      | Inr email \<Rightarrow>
          let user = new_user fresh email (au_display_name input) ''active'' in
          (Inr user, s\<lparr>m_users := AList.update (u_id user) user (m_users s)\<rparr>))"

definition new_invitation :: "string \<Rightarrow> User \<Rightarrow> string \<Rightarrow> AddInvitationInput \<Rightarrow> IdentityInvitation" where
  "new_invitation fresh user email input =
     \<lparr>ii_id = fresh, ii_user_id = u_id user, ii_provider_id = ai_provider_id input, ii_issuer = ai_issuer input,
      ii_email = email,
      ii_binding_policy = (if trim (ai_binding_policy input) = [] then ''verified_email_invitation'' else ai_binding_policy input),
      ii_status = ''pending'', ii_accepted_identity_id = [], ii_expires_at = ai_expires_at input, ii_accepted_at = 0\<rparr>"

definition mem_add_invitation ::
  "string \<Rightarrow> string \<Rightarrow> AddInvitationInput \<Rightarrow> (User \<times> IdentityInvitation, Mem) port" where
  "mem_add_invitation fresh_user fresh_invitation input s =
     (if trim (ai_provider_id input) = [] \<or> trim (ai_issuer input) = []
      then (Inl (InvalidArgument [Lit ''provider_id, issuer, and email are required'']), s)
      else case validated_account_email (ai_email input) of
        Inl e \<Rightarrow> (Inl e, s)
      | Inr email \<Rightarrow>
          let user = new_user fresh_user email (ai_display_name input) ''pending'';
              invitation = new_invitation fresh_invitation user email input in
          (Inr (user, invitation),
           s\<lparr>m_users := AList.update (u_id user) user (m_users s),
             m_invitations := AList.update (ii_id invitation) invitation (m_invitations s)\<rparr>))"

definition mem_disable_user :: "HashOrder \<Rightarrow> string \<Rightarrow> (unit, Mem) port" where
  "mem_disable_user ho user_id_or_email s =
     (case mem_resolve_user_id ho s user_id_or_email of
        Inl e \<Rightarrow> (Inl e, s)
      | Inr user_id \<Rightarrow>
          (case map_of (m_users s) user_id of
             None \<Rightarrow> (Inl NotFound, s)
           | Some _ \<Rightarrow> (Inr (), s\<lparr>m_users := AList.map_entry user_id (\<lambda>user. user\<lparr>u_status := ''disabled''\<rparr>) (m_users s)\<rparr>)))"

definition mem_enable_user :: "HashOrder \<Rightarrow> string \<Rightarrow> (unit, Mem) port" where
  "mem_enable_user ho user_id_or_email s =
     (case mem_resolve_user_id ho s user_id_or_email of
        Inl e \<Rightarrow> (Inl e, s)
      | Inr user_id \<Rightarrow>
          (case map_of (m_users s) user_id of
             None \<Rightarrow> (Inl NotFound, s)
           | Some user \<Rightarrow>
               if u_status user \<noteq> ''deleted''
               then (Inr (), s\<lparr>m_users := AList.map_entry user_id (\<lambda>user. user\<lparr>u_status := ''active''\<rparr>) (m_users s)\<rparr>)
               else (Inl NotFound, s)))"

definition mem_user_by_id :: "string \<Rightarrow> (User, Mem) port" where
  "mem_user_by_id user_id = read_op (\<lambda>s. case map_of (m_users s) user_id of
       Some user \<Rightarrow> if u_status user \<noteq> ''deleted'' then Inr user else Inl NotFound
     | None \<Rightarrow> Inl NotFound)"

definition user_order :: "User \<Rightarrow> string \<times> string" where
  "user_order user = (normalize_email (u_email user), u_id user)"

definition mem_list_users :: "HashOrder \<Rightarrow> UserListFilter \<Rightarrow> (User list, Mem) port" where
  "mem_list_users ho filt = read_op (\<lambda>s.
     let query = to_ascii_lowercase (trim (ulf_query filt)); limit = effective_limit (ulf_limit filt);
         out = filter (\<lambda>user. query = [] \<or> contains_str (normalize_email (u_email user)) query \<or>
             contains_str (to_ascii_lowercase (u_display_name user)) query)
           (filter (\<lambda>user. u_status user \<noteq> ''deleted'') (values_by (ho_names ho) (m_users s))) in
     Inr (take limit (sort_key user_order out)))"

section \<open>Groups\<close>

definition mem_add_group :: "string \<Rightarrow> string \<Rightarrow> string \<Rightarrow> (Group, Mem) port" where
  "mem_add_group fresh name description s =
     (if trim name = [] then (Inl (InvalidArgument [Lit ''group name must not be empty'']), s)
      else
        let g = \<lparr>g_id = fresh, g_name = trim name, g_description = description\<rparr> in
        (Inr g, s\<lparr>m_groups := AList.update (g_name g) g (m_groups s)\<rparr>))"

definition push_entry :: "string \<Rightarrow> 'v \<Rightarrow> (string, 'v list) hash_map \<Rightarrow> (string, 'v list) hash_map" where
  "push_entry k v m = AList.update k (or_default (map_of m k) @ [v]) m"

definition mem_add_group_member :: "HashOrder \<Rightarrow> string \<Rightarrow> string \<Rightarrow> (unit, Mem) port" where
  "mem_add_group_member ho name user_email_or_id s =
     (case mem_resolve_user_id ho s user_email_or_id of
        Inl e \<Rightarrow> (Inl e, s)
      | Inr user_id \<Rightarrow> (Inr (), s\<lparr>m_group_members := push_entry user_id name (m_group_members s)\<rparr>))"

definition mem_remove_group_member :: "HashOrder \<Rightarrow> string \<Rightarrow> string \<Rightarrow> (unit, Mem) port" where
  "mem_remove_group_member ho name user_email_or_id s =
     (case mem_resolve_user_id ho s user_email_or_id of
        Inl e \<Rightarrow> (Inl e, s)
      | Inr user_id \<Rightarrow>
          (Inr (), s\<lparr>m_group_members := AList.map_entry user_id (filter (\<lambda>n. n \<noteq> name)) (m_group_members s)\<rparr>))"

definition mem_add_group_group :: "HashOrder \<Rightarrow> string \<Rightarrow> string \<Rightarrow> (unit, Mem) port" where
  "mem_add_group_group ho parent_group member_group s =
     (case resolve_group_id ho s parent_group of
        Inl e \<Rightarrow> (Inl e, s)
      | Inr parent_group_id \<Rightarrow>
          (case resolve_group_id ho s member_group of
             Inl e \<Rightarrow> (Inl e, s)
           | Inr member_group_id \<Rightarrow>
               if parent_group_id = member_group_id
               then (Inl (InvalidArgument [Lit ''group cannot contain itself'']), s)
               else if member_group_id \<in> set (or_default (map_of (m_group_groups s) parent_group_id)) then (Inr (), s)
               else if group_group_would_cycle s parent_group_id member_group_id
               then (Inl (InvalidArgument [Lit ''group nesting would create a cycle'']), s)
               else (Inr (), s\<lparr>m_group_groups := push_entry parent_group_id member_group_id (m_group_groups s)\<rparr>)))"

definition mem_remove_group_group :: "HashOrder \<Rightarrow> string \<Rightarrow> string \<Rightarrow> (unit, Mem) port" where
  "mem_remove_group_group ho parent_group member_group s =
     (case resolve_group_id ho s parent_group of
        Inl e \<Rightarrow> (Inl e, s)
      | Inr parent_group_id \<Rightarrow>
          (case resolve_group_id ho s member_group of
             Inl e \<Rightarrow> (Inl e, s)
           | Inr member_group_id \<Rightarrow>
               (case map_of (m_group_groups s) parent_group_id of
                  None \<Rightarrow> (Inl NotFound, s)
                | Some members \<Rightarrow>
                    if member_group_id \<in> set members
                    then (Inr (), s\<lparr>m_group_groups := AList.map_entry parent_group_id (remove1 member_group_id) (m_group_groups s)\<rparr>)
                    else (Inl NotFound, s))))"

definition mem_list_groups :: "HashOrder \<Rightarrow> (Group list, Mem) port" where
  "mem_list_groups ho = read_op (\<lambda>s. Inr (sort_key g_name (values_by (ho_names ho) (m_groups s))))"

definition mem_list_group_members :: "HashOrder \<Rightarrow> string \<Rightarrow> (User list, Mem) port" where
  "mem_list_group_members ho name = read_op (\<lambda>s.
     and_then (group_by_name_or_id ho s name) (\<lambda>g.
     let entries = filter (\<lambda>(_, names). list_ex (\<lambda>member. member = g_id g \<or> member = g_name g) names)
           (iter_by (ho_names ho) (m_group_members s));
         out = List.map_filter (\<lambda>(user_id, _). case map_of (m_users s) user_id of
             Some user \<Rightarrow> if u_status user \<noteq> ''deleted'' then Some user else None
           | None \<Rightarrow> None) entries in
     Inr (sort_key user_order out)))"

definition mem_list_group_groups :: "HashOrder \<Rightarrow> string \<Rightarrow> (Group list, Mem) port" where
  "mem_list_group_groups ho name = read_op (\<lambda>s.
     and_then (group_by_name_or_id ho s name) (\<lambda>g.
     Inr (sort_key g_name (List.map_filter
       (\<lambda>group_id. find (\<lambda>g. g_id g = group_id) (values_by (ho_names ho) (m_groups s)))
       (or_default (map_of (m_group_groups s) (g_id g)))))))"

section \<open>Grants\<close>

definition mem_can_access :: "HashOrder \<Rightarrow> string \<Rightarrow> string \<Rightarrow> string \<Rightarrow> (bool, Mem) port" where
  "mem_can_access ho user_id resource_id action = read_op (\<lambda>s.
     Inr (list_ex (\<lambda>role. role_allows role action)
       (List.map_filter (\<lambda>resources. map_of resources resource_id)
         (List.map_filter (map_of (m_grants s)) (grant_subject_keys_for_user ho s user_id)))))"

text \<open>The sets of permissions collected for each resource; the sets are lists without duplicates.\<close>

fun collect_permissions ::
  "string \<Rightarrow> (string \<times> string) list \<Rightarrow> (string, Permission list) hash_map \<Rightarrow> (string, Permission list) hash_map core_result" where
  "collect_permissions prefix [] resources = Inr resources"
| "collect_permissions prefix ((resource_id, role) # rest) resources =
     (if prefix \<noteq> [] \<and> \<not> starts_with resource_id prefix then collect_permissions prefix rest resources
      else case role_permissions role of
        None \<Rightarrow> Inl (InvalidArgument [Lit ''unknown role '', Dbg role])
      | Some permission \<Rightarrow> collect_permissions prefix rest
          (AList.update resource_id (fold List.insert permission (or_default (map_of resources resource_id))) resources))"

definition mem_list_accessible :: "HashOrder \<Rightarrow> string \<Rightarrow> ResourceFilter \<Rightarrow> (ResourcePermission list, Mem) port" where
  "mem_list_accessible ho user_id filt = read_op (\<lambda>s.
     and_then (collect_permissions (rf_prefix filt)
       (concat (map (\<lambda>subject. iter_by (ho_names ho) (or_default (map_of (m_grants s) subject)))
         (grant_subject_keys_for_user ho s user_id))) []) (\<lambda>resources.
     Inr (sort_key rp_resource_id (map (\<lambda>(resource_id, permissions).
       \<lparr>rp_resource_id = resource_id, rp_permission = sort_key Permission_as_str permissions\<rparr>)
       (iter_by (ho_names ho) resources)))))"

definition mem_add_grant ::
  "HashOrder \<Rightarrow> string \<Rightarrow> string \<Rightarrow> string \<Rightarrow> string \<Rightarrow> string \<Rightarrow> (Grant, Mem) port" where
  "mem_add_grant ho fresh subject_type subject_id repo role s =
     (if \<not> is_known_role role then (Inl (InvalidArgument [Lit ''unknown grant role '', Dbg role]), s)
      else case mem_resolve_grant_subject_id ho s subject_type subject_id of
        Inl e \<Rightarrow> (Inl e, s)
      | Inr subject_id \<Rightarrow>
          (case resolve_resource_id_for_repo ho s repo of
             Inl e \<Rightarrow> (Inl e, s)
           | Inr resource_id \<Rightarrow>
               (Inr \<lparr>gr_id = fresh, gr_subject_type = subject_type, gr_subject_id = subject_id,
                  gr_repository_id = repo, gr_role = role\<rparr>,
                put_grant (subject_type, subject_id) resource_id role s)))"

definition drop_grant :: "string \<times> string \<Rightarrow> string \<Rightarrow> Mem \<Rightarrow> Mem" where
  "drop_grant subject resource_id s =
     s\<lparr>m_grants := AList.map_entry subject (AList.delete resource_id) (m_grants s)\<rparr>"

definition mem_remove_grant ::
  "HashOrder \<Rightarrow> string \<Rightarrow> string \<Rightarrow> string \<Rightarrow> string \<Rightarrow> (unit, Mem) port" where
  "mem_remove_grant ho subject_type subject_id repo role s =
     (case mem_resolve_grant_subject_id ho s subject_type subject_id of
        Inl e \<Rightarrow> (Inl e, s)
      | Inr subject_id \<Rightarrow>
          (case resolve_resource_id_for_repo ho s repo of
             Inl e \<Rightarrow> (Inl e, s)
           | Inr resource_id \<Rightarrow> (Inr (), drop_grant (subject_type, subject_id) resource_id s)))"

definition grant_order :: "Grant \<Rightarrow> string \<times> string \<times> string \<times> string" where
  "grant_order g = (gr_repository_id g, gr_subject_type g, gr_subject_id g, gr_role g)"

definition mem_list_grants :: "HashOrder \<Rightarrow> string \<Rightarrow> (Grant list, Mem) port" where
  "mem_list_grants ho repo = read_op (\<lambda>s.
     and_then (if trim repo = [] then Inr None
       else and_then (resolve_resource_id_for_repo ho s repo) (\<lambda>i. Inr (Some i))) (\<lambda>resource_filter.
     Inr (sort_key grant_order (concat (map (\<lambda>((subject_type, subject_id), resources).
       List.map_filter (\<lambda>(resource_id, role).
         if resource_filter \<noteq> None \<and> resource_filter \<noteq> Some resource_id then None
         else Some \<lparr>gr_id = [], gr_subject_type = subject_type, gr_subject_id = subject_id,
           gr_repository_id = (case repository_pk_for_resource_id s resource_id of
             Some pk \<Rightarrow> pk | None \<Rightarrow> repository_id_from_resource_id resource_id), gr_role = role\<rparr>)
         (iter_by (ho_names ho) resources)) (iter_by (ho_subjects ho) (m_grants s)))))))"

definition evidence_order :: "GrantEvidence \<Rightarrow> string \<times> string \<times> string \<times> string" where
  "evidence_order e = (ge_path e, ge_subject_type e, ge_subject_id e, ge_role e)"

definition user_grant_evidence :: "Mem \<Rightarrow> string \<Rightarrow> string \<Rightarrow> string \<Rightarrow> GrantEvidence list" where
  "user_grant_evidence s user_id user_label resource_id =
     (case Option.bind (map_of (m_grants s) (''user'', user_id)) (\<lambda>resources. map_of resources resource_id) of
        Some role \<Rightarrow> [\<lparr>ge_subject_type = ''user'', ge_subject_id = user_id, ge_subject_name = user_label,
          ge_role = role, ge_path = ''user:'' @ user_label @ '' -> grant''\<rparr>]
      | None \<Rightarrow> [])"

definition group_grant_evidence ::
  "HashOrder \<Rightarrow> Mem \<Rightarrow> string \<Rightarrow> string \<Rightarrow> string \<times> string \<Rightarrow> GrantEvidence option" where
  "group_grant_evidence ho s user_label resource_id = (\<lambda>(group_id, group_path).
     case Option.bind (map_of (m_grants s) (''group'', group_id)) (\<lambda>resources. map_of resources resource_id) of
       Some role \<Rightarrow> Some \<lparr>ge_subject_type = ''group'', ge_subject_id = group_id,
         ge_subject_name = group_label ho s group_id, ge_role = role,
         ge_path = ''user:'' @ user_label @ '' -> '' @ group_path @ '' -> grant''\<rparr>
     | None \<Rightarrow> None)"

definition mem_grants_for_user_on_repository :: "HashOrder \<Rightarrow> string \<Rightarrow> string \<Rightarrow> (GrantEvidence list, Mem) port" where
  "mem_grants_for_user_on_repository ho user_id resource_id = read_op (\<lambda>s.
     and_then (resolve_exact_resource_id s resource_id) (\<lambda>resource_id.
     case map_of (m_users s) user_id of
       None \<Rightarrow> Inl NotFound
     | Some user \<Rightarrow>
         if u_status user = ''deleted'' then Inl NotFound
         else
           let user_label = (if trim (u_email user) = [] then u_id user else u_email user) in
           Inr (sort_key evidence_order (user_grant_evidence s user_id user_label resource_id @
             List.map_filter (group_grant_evidence ho s user_label resource_id)
               (iter_by (ho_names ho) (group_paths_for_user ho s user_id))))))"

section \<open>Resources\<close>

definition mem_upsert :: "string \<Rightarrow> Resource \<Rightarrow> (unit, Mem) port" where
  "mem_upsert fresh resource =
     bind_op (read_op (\<lambda>_. normalize_resource_for_upsert resource)) (\<lambda>resource.
     bind_op (add_test_resource fresh resource) (\<lambda>_. return_op ()))"

definition mem_delete :: "string \<Rightarrow> (unit, Mem) port" where
  "mem_delete resource_id s =
     (case map_of (m_resources s) resource_id of
        None \<Rightarrow> (Inl NotFound, s)
      | Some _ \<Rightarrow> (Inr (), s\<lparr>m_resources := AList.delete resource_id (m_resources s)\<rparr>))"

definition mem_get_by_id :: "HashOrder \<Rightarrow> string \<Rightarrow> (Resource, Mem) port" where
  "mem_get_by_id ho i = read_op (\<lambda>s.
     ok_or NotFound (find (\<lambda>r. r_id r = i) (values_by (ho_names ho) (m_resources s))))"

definition mem_get_by_resource_id :: "string \<Rightarrow> (Resource, Mem) port" where
  "mem_get_by_resource_id resource_id = read_op (\<lambda>s. ok_or NotFound (map_of (m_resources s) resource_id))"

definition mem_get_by_name :: "HashOrder \<Rightarrow> string \<Rightarrow> (Resource, Mem) port" where
  "mem_get_by_name ho name = read_op (\<lambda>s.
     ok_or NotFound (find (\<lambda>r. r_name r = name) (values_by (ho_names ho) (m_resources s))))"

definition mem_list :: "HashOrder \<Rightarrow> (Resource list, Mem) port" where
  "mem_list ho = read_op (\<lambda>s. Inr (sort_key r_resource_id
     (filter (\<lambda>r. r_status r \<noteq> ''deleted'') (values_by (ho_names ho) (m_resources s)))))"

end
