(* ===== verification/Memory_State.thy ===== *)
theory Memory_State
  imports Memory_Ops
begin

text \<open>
  Sessions, login states, CSRF tokens, device authorizations and tokens of the in-memory adapter
  (\<open>memory/state.rs\<close>, \<open>memory/devices.rs\<close>, \<open>memory/tokens.rs\<close>), one definition per operation.
\<close>

section \<open>Auth sessions\<close>

definition mem_create_auth_session ::
  "(string \<Rightarrow> string) \<Rightarrow> string \<Rightarrow> string \<Rightarrow> string \<Rightarrow> i64 \<Rightarrow> string \<Rightarrow> duration \<Rightarrow> (string \<times> AuthSession, Mem) port" where
  "mem_create_auth_session sha code new_id nonce now client_state ttl s =
     (let session = \<lparr>as_id = new_id, as_client_state_hash = hash_secret sha client_state, as_status = ''pending'',
            as_user_id = [], as_login_url_nonce = nonce, as_expires_at = unix_after now ttl\<rparr> in
      (Inr (code, session),
       s\<lparr>m_auth_session_codes := AList.update (hash_secret sha code) (as_id session) (m_auth_session_codes s),
         m_auth_sessions := AList.update (as_id session) session (m_auth_sessions s)\<rparr>))"

definition mem_get_auth_session_by_code :: "(string \<Rightarrow> string) \<Rightarrow> i64 \<Rightarrow> string \<Rightarrow> (AuthSession, Mem) port" where
  "mem_get_auth_session_by_code sha now code = read_op (\<lambda>s.
     and_then (ok_or AuthSessionNotFound (map_of (m_auth_session_codes s) (hash_secret sha code))) (\<lambda>i.
     and_then (ok_or AuthSessionNotFound (map_of (m_auth_sessions s) i)) (not_expired now)))"

definition mem_get_auth_session_by_nonce :: "HashOrder \<Rightarrow> i64 \<Rightarrow> string \<Rightarrow> (AuthSession, Mem) port" where
  "mem_get_auth_session_by_nonce ho now nonce = read_op (\<lambda>s.
     and_then (ok_or AuthSessionNotFound (find (\<lambda>session. as_login_url_nonce session = nonce)
       (values_by (ho_names ho) (m_auth_sessions s)))) (not_expired now))"

definition mem_complete_auth_session :: "i64 \<Rightarrow> string \<Rightarrow> string \<Rightarrow> (unit, Mem) port" where
  "mem_complete_auth_session now i user_id s =
     (case map_of (m_auth_sessions s) i of
        None \<Rightarrow> (Inl AuthSessionNotFound, s)
      | Some session \<Rightarrow>
          if as_status session \<noteq> ''pending'' \<or> as_expires_at session \<le> now then (Inl AuthSessionNotFound, s)
          else (Inr (), s\<lparr>m_auth_sessions := AList.map_entry i
            (\<lambda>session. session\<lparr>as_status := ''completed'', as_user_id := user_id\<rparr>) (m_auth_sessions s)\<rparr>))"

definition mem_consume_auth_session :: "i64 \<Rightarrow> string \<Rightarrow> (unit, Mem) port" where
  "mem_consume_auth_session now i s =
     (case map_of (m_auth_sessions s) i of
        None \<Rightarrow> (Inl AuthSessionNotFound, s)
      | Some session \<Rightarrow>
          if as_status session \<noteq> ''completed'' \<or> as_expires_at session \<le> now then (Inl AuthSessionNotFound, s)
          else (Inr (), s\<lparr>m_auth_sessions := AList.map_entry i
            (\<lambda>session. session\<lparr>as_status := ''consumed''\<rparr>) (m_auth_sessions s)\<rparr>))"

definition mem_match_client_state :: "(string \<Rightarrow> string) \<Rightarrow> AuthSession \<Rightarrow> string \<Rightarrow> bool" where
  "mem_match_client_state sha session client_state \<longleftrightarrow> as_client_state_hash session = hash_secret sha client_state"

section \<open>Login states\<close>

definition mem_create_login_state ::
  "(string \<Rightarrow> string) \<Rightarrow> string \<Rightarrow> string \<Rightarrow> i64 \<Rightarrow> LoginStateInput \<Rightarrow> duration \<Rightarrow> (string \<times> LoginState, Mem) port" where
  "mem_create_login_state sha state_value new_id now input ttl s =
     (let login_state = \<lparr>ls_id = new_id, ls_provider_id = li_provider_id input, ls_nonce = li_nonce input,
            ls_login_url_nonce = li_login_url_nonce input, ls_return_path = li_return_path input,
            ls_private_state = li_private_state input, ls_expires_at = unix_after now ttl\<rparr> in
      (Inr (state_value, login_state),
       s\<lparr>m_login_states := AList.update (hash_secret sha state_value) login_state (m_login_states s)\<rparr>))"

definition mem_set_login_state_private_state ::
  "(string \<Rightarrow> string) \<Rightarrow> i64 \<Rightarrow> string \<Rightarrow> string \<Rightarrow> (unit, Mem) port" where
  "mem_set_login_state_private_state sha now state_value private_state s =
     (case map_of (m_login_states s) (hash_secret sha state_value) of
        None \<Rightarrow> (Inl NotFound, s)
      | Some login_state \<Rightarrow>
          if ls_expires_at login_state \<le> now then (Inl NotFound, s)
          else (Inr (), s\<lparr>m_login_states := AList.map_entry (hash_secret sha state_value)
            (\<lambda>login_state. login_state\<lparr>ls_private_state := private_state\<rparr>) (m_login_states s)\<rparr>))"

text \<open>The state is removed even if it turns out to have expired.\<close>

definition mem_consume_login_state :: "(string \<Rightarrow> string) \<Rightarrow> i64 \<Rightarrow> string \<Rightarrow> (LoginState, Mem) port" where
  "mem_consume_login_state sha now state_value s =
     (let removed = map_of (m_login_states s) (hash_secret sha state_value);
          s = s\<lparr>m_login_states := AList.delete (hash_secret sha state_value) (m_login_states s)\<rparr> in
      case removed of
        Some login_state \<Rightarrow> if ls_expires_at login_state > now then (Inr login_state, s) else (Inl NotFound, s)
      | None \<Rightarrow> (Inl NotFound, s))"

section \<open>Browser sessions and CSRF tokens\<close>

text \<open>The expiry of a browser session is returned but not stored: here sessions end only by revocation.\<close>

definition mem_create_browser_session :: "string \<Rightarrow> i64 \<Rightarrow> string \<Rightarrow> duration \<Rightarrow> (BrowserSession, Mem) port" where
  "mem_create_browser_session new_id now user_id ttl s =
     (let session = \<lparr>bs_id = new_id, bs_user_id = user_id, bs_expires_at = unix_after now ttl\<rparr> in
      (Inr session, s\<lparr>m_browser_sessions := AList.update (bs_id session) (bs_user_id session) (m_browser_sessions s)\<rparr>))"

definition mem_user_by_browser_session :: "string \<Rightarrow> (User, Mem) port" where
  "mem_user_by_browser_session session_id = read_op (\<lambda>s.
     and_then (ok_or NotFound (map_of (m_browser_sessions s) session_id)) (\<lambda>user_id.
     case map_of (m_users s) user_id of
       Some user \<Rightarrow> if u_status user = ''active'' then Inr user else Inl NotFound
     | None \<Rightarrow> Inl NotFound))"

definition mem_revoke_browser_session :: "string \<Rightarrow> (unit, Mem) port" where
  "mem_revoke_browser_session session_id s =
     (Inr (), s\<lparr>m_browser_sessions := AList.delete session_id (m_browser_sessions s)\<rparr>)"

definition mem_create_csrf_token :: "(string \<Rightarrow> string) \<Rightarrow> string \<Rightarrow> i64 \<Rightarrow> string \<Rightarrow> duration \<Rightarrow> (string, Mem) port" where
  "mem_create_csrf_token sha token now session_id ttl s =
     (Inr token, s\<lparr>m_csrf_tokens := AList.update (hash_secret sha token)
        \<lparr>ct_session_id = session_id, ct_expires_at = unix_after now ttl, ct_consumed = False\<rparr> (m_csrf_tokens s)\<rparr>)"

definition mem_consume_csrf_token :: "(string \<Rightarrow> string) \<Rightarrow> i64 \<Rightarrow> string \<Rightarrow> string \<Rightarrow> (unit, Mem) port" where
  "mem_consume_csrf_token sha now session_id token s =
     (case map_of (m_csrf_tokens s) (hash_secret sha token) of
        None \<Rightarrow> (Inl NotFound, s)
      | Some csrf \<Rightarrow>
          if ct_session_id csrf \<noteq> session_id \<or> ct_consumed csrf \<or> ct_expires_at csrf \<le> now then (Inl NotFound, s)
          else (Inr (), s\<lparr>m_csrf_tokens := AList.map_entry (hash_secret sha token)
            (\<lambda>csrf. csrf\<lparr>ct_consumed := True\<rparr>) (m_csrf_tokens s)\<rparr>))"

section \<open>Device authorizations\<close>

definition mem_create_device_authorization ::
  "(string \<Rightarrow> string) \<Rightarrow> string \<Rightarrow> i64 \<Rightarrow> i64 \<Rightarrow> CreateDeviceAuthorizationInput \<Rightarrow> (DeviceAuthorization, Mem) port" where
  "mem_create_device_authorization sha new_id now1 now2 input s =
     (if trim (cd_device_code input) = [] \<or> trim (cd_user_code input) = [] \<or> trim (cd_requested_repository_id input) = []
      then (Inl (InvalidArgument [Lit ''device_code, user_code, and requested_repository_id are required'']), s)
      else
        let device = \<lparr>da_id = new_id, da_requested_remote_url = cd_requested_remote_url input,
              da_requested_repository_id = cd_requested_repository_id input, da_approved_user_id = [],
              da_status = ''pending'', da_created_at = now1, da_expires_at = unix_after now2 (cd_ttl input),
              da_approved_at = 0, da_consumed_at = 0\<rparr> in
        (Inr device,
         s\<lparr>m_device_code_index := AList.update (hash_code sha (cd_device_code input)) (da_id device) (m_device_code_index s),
           m_user_code_index := AList.update (hash_code sha (cd_user_code input)) (da_id device) (m_user_code_index s),
           m_device_authorizations := AList.update (da_id device) device (m_device_authorizations s)\<rparr>))"

definition mem_device_by_user_code :: "(string \<Rightarrow> string) \<Rightarrow> string \<Rightarrow> (DeviceAuthorization, Mem) port" where
  "mem_device_by_user_code sha user_code = read_op (\<lambda>s.
     and_then (ok_or NotFound (map_of (m_user_code_index s) (hash_code sha user_code))) (\<lambda>i.
     ok_or NotFound (map_of (m_device_authorizations s) i)))"

definition mem_device_by_device_code :: "(string \<Rightarrow> string) \<Rightarrow> string \<Rightarrow> (DeviceAuthorization, Mem) port" where
  "mem_device_by_device_code sha device_code = read_op (\<lambda>s.
     and_then (ok_or NotFound (map_of (m_device_code_index s) (hash_code sha device_code))) (\<lambda>i.
     ok_or NotFound (map_of (m_device_authorizations s) i)))"

definition mem_approve_device_authorization :: "i64 \<Rightarrow> i64 \<Rightarrow> string \<Rightarrow> string \<Rightarrow> (unit, Mem) port" where
  "mem_approve_device_authorization now1 now2 i user_id s =
     (case map_of (m_device_authorizations s) i of
        None \<Rightarrow> (Inl NotFound, s)
      | Some device \<Rightarrow>
          if da_status device \<noteq> ''pending'' \<or> da_expires_at device \<le> now1 then (Inl NotFound, s)
          else (Inr (), s\<lparr>m_device_authorizations := AList.map_entry i (\<lambda>device. device\<lparr>da_status := ''approved'',
            da_approved_user_id := user_id, da_approved_at := now2\<rparr>) (m_device_authorizations s)\<rparr>))"

definition mem_consume_device_authorization :: "i64 \<Rightarrow> string \<Rightarrow> (unit, Mem) port" where
  "mem_consume_device_authorization now i s =
     (case map_of (m_device_authorizations s) i of
        None \<Rightarrow> (Inl NotFound, s)
      | Some device \<Rightarrow>
          if da_status device \<noteq> ''approved'' then (Inl NotFound, s)
          else (Inr (), s\<lparr>m_device_authorizations := AList.map_entry i (\<lambda>device. device\<lparr>da_status := ''consumed'',
            da_consumed_at := now\<rparr>) (m_device_authorizations s)\<rparr>))"

definition mem_expire_device_authorization :: "string \<Rightarrow> (unit, Mem) port" where
  "mem_expire_device_authorization i s =
     (Inr (), s\<lparr>m_device_authorizations := AList.map_entry i (\<lambda>device.
        if da_status device = ''pending'' then device\<lparr>da_status := ''expired''\<rparr> else device) (m_device_authorizations s)\<rparr>)"

section \<open>Tokens\<close>

definition mem_sign_authn :: "string \<Rightarrow> string \<Rightarrow> int \<Rightarrow> AuthnTokenInput \<Rightarrow> (SignedToken, Mem) port" where
  "mem_sign_authn fresh_jti fresh system_now input s =
     (let jti = ensure_jti fresh_jti (an_jti input); issued_at = unix_or_now system_now (an_now input);
          expires_at = i64_add issued_at (seconds_or_default (an_ttl input) (60 * 60));
          token = ''authn:'' @ an_subject input @ '':'' @ fresh in
      (Inr \<lparr>st_token = token, st_jti = jti, st_kid = ''memory'', st_lore_resource_id = [], st_issued_at = issued_at,
         st_expires_at = expires_at, st_permissions = [], st_audience = an_audience input\<rparr>,
       s\<lparr>m_tokens := AList.update token \<lparr>vt_subject = an_subject input, vt_jti = jti, vt_idp = an_idp input,
         vt_expires_at = expires_at, vt_audience = an_audience input, vt_raw_claims = []\<rparr> (m_tokens s)\<rparr>))"

definition mem_sign_authz :: "string \<Rightarrow> string \<Rightarrow> int \<Rightarrow> AuthzTokenInput \<Rightarrow> (SignedToken, Mem) port" where
  "mem_sign_authz fresh_jti fresh system_now input =
     (let issued_at = unix_or_now system_now (az_now input) in
      return_op \<lparr>st_token = ''authz:'' @ az_subject input @ '':'' @ fresh, st_jti = ensure_jti fresh_jti (az_jti input),
        st_kid = ''memory'',
        st_lore_resource_id = (case az_resources input of [] \<Rightarrow> [] | r # _ \<Rightarrow> rp_resource_id r),
        st_issued_at = issued_at, st_expires_at = i64_add issued_at (seconds_or_default (az_ttl input) (15 * 60)),
        st_permissions = (case az_resources input of [] \<Rightarrow> [] | r # _ \<Rightarrow> rp_permission r),
        st_audience = az_audience input\<rparr>)"

definition mem_verify :: "string \<Rightarrow> VerifyOptions \<Rightarrow> (VerifiedToken, Mem) port" where
  "mem_verify compact opts = read_op (\<lambda>s.
     let token = (case strip_prefix ''Bearer '' compact of Some t \<Rightarrow> t | None \<Rightarrow> compact) in
     ok_or Unauthenticated (map_of (m_tokens s) token))"

definition mem_jwks :: "(string, Mem) port" where
  "mem_jwks = return_op ([CHR 0x7B, CHR 0x22] @ ''keys'' @ [CHR 0x22] @ '':[]'' @ [CHR 0x7D])"

definition mem_record_token :: "IssuedToken \<Rightarrow> (unit, Mem) port" where
  "mem_record_token token s = (Inr (), s\<lparr>m_issued_tokens := AList.update (it_jti token) token (m_issued_tokens s)\<rparr>)"

definition mem_record_audit :: "AdminAuditEntry \<Rightarrow> (unit, Mem) port" where
  "mem_record_audit entry s = (Inr (), s\<lparr>m_admin_audit := m_admin_audit s @ [entry]\<rparr>)"

definition mem_generate_active_key :: "string \<Rightarrow> string \<Rightarrow> nat \<Rightarrow> (SigningKeyMeta, Mem) port" where
  "mem_generate_active_key kid alg bits = fail_op Unsupported"

definition mem_list_keys :: "(SigningKeyMeta list, Mem) port" where
  "mem_list_keys = return_op []"

end
