(* ===== verification/Memory_Audited.thy ===== *)
theory Memory_Audited
  imports Memory_State
begin

text \<open>
  The audited in-memory store (\<open>memory/audited.rs\<close>): every administrative write repeats the body of
  the store's operation under one lock and then appends its audit record. Reads and logins pass to
  the store. Theorem: apart from the deletion of a repository, an audited write is the write of the
  store followed by at most one audit record of the actor, and only a nesting that exists already is
  not recorded. Deletions differ: the store forgets the repository, the audited store marks it.
\<close>

definition push_audit :: "AdminAuditEntry \<Rightarrow> Mem \<Rightarrow> Mem" where
  "push_audit e s = s\<lparr>m_admin_audit := m_admin_audit s @ [e]\<rparr>"

section \<open>Groups\<close>

definition mem_audited_add_group ::
  "string \<Rightarrow> string \<Rightarrow> string \<Rightarrow> string \<Rightarrow> string \<Rightarrow> i64 \<Rightarrow> (Group, Mem) port" where
  "mem_audited_add_group actor fresh name description audit_id now s =
     (if trim name = [] then (Inl (InvalidArgument [Lit ''group name must not be empty'']), s)
      else
        let g = \<lparr>g_id = fresh, g_name = trim name, g_description = description\<rparr>;
            s = s\<lparr>m_groups := AList.update (g_name g) g (m_groups s)\<rparr> in
        (Inr g, push_audit (admin_audit_entry audit_id now actor ''group.add'' ''group'' (g_id g) (''name='' @ g_name g)) s))"

definition mem_audited_add_group_member ::
  "HashOrder \<Rightarrow> string \<Rightarrow> string \<Rightarrow> string \<Rightarrow> string \<Rightarrow> i64 \<Rightarrow> (unit, Mem) port" where
  "mem_audited_add_group_member ho actor name user_email_or_id audit_id now s =
     (case mem_resolve_user_id ho s user_email_or_id of
        Inl e \<Rightarrow> (Inl e, s)
      | Inr user_id \<Rightarrow>
          let s = s\<lparr>m_group_members := push_entry user_id name (m_group_members s)\<rparr> in
          (Inr (), push_audit (admin_audit_entry audit_id now actor ''group.member.add'' ''group'' name
             (''user='' @ user_email_or_id)) s))"

definition mem_audited_remove_group_member ::
  "HashOrder \<Rightarrow> string \<Rightarrow> string \<Rightarrow> string \<Rightarrow> string \<Rightarrow> i64 \<Rightarrow> (unit, Mem) port" where
  "mem_audited_remove_group_member ho actor name user_email_or_id audit_id now s =
     (case mem_resolve_user_id ho s user_email_or_id of
        Inl e \<Rightarrow> (Inl e, s)
      | Inr user_id \<Rightarrow>
          let s = s\<lparr>m_group_members := AList.map_entry user_id (filter (\<lambda>n. n \<noteq> name)) (m_group_members s)\<rparr> in
          (Inr (), push_audit (admin_audit_entry audit_id now actor ''group.member.remove'' ''group'' name
             (''user='' @ user_email_or_id)) s))"

definition mem_audited_add_group_group ::
  "HashOrder \<Rightarrow> string \<Rightarrow> string \<Rightarrow> string \<Rightarrow> string \<Rightarrow> i64 \<Rightarrow> (unit, Mem) port" where
  "mem_audited_add_group_group ho actor parent_group member_group audit_id now s =
     (case resolve_group_id ho s parent_group of
        Inl e \<Rightarrow> (Inl e, s)
      | Inr parent_group_id \<Rightarrow>
          (case resolve_group_id ho s member_group of
             Inl e \<Rightarrow> (Inl e, s)
           | Inr member_group_id \<Rightarrow>
               if parent_group_id = member_group_id
               then (Inl (InvalidArgument [Lit ''group cannot contain itself'']), s)
               else if member_group_id \<in> set (or_default (map_of (m_group_groups s) parent_group_id)) then (Inr (), s)
               else if group_group_would_cycle s parent_group_id member_group_id
               then (Inl (InvalidArgument [Lit ''group nesting would create a cycle'']), s)
               else
                 let s = s\<lparr>m_group_groups := push_entry parent_group_id member_group_id (m_group_groups s)\<rparr> in
                 (Inr (), push_audit (admin_audit_entry audit_id now actor ''group.nest.add'' ''group'' parent_group
                    (''member_group='' @ member_group)) s)))"

definition mem_audited_remove_group_group ::
  "HashOrder \<Rightarrow> string \<Rightarrow> string \<Rightarrow> string \<Rightarrow> string \<Rightarrow> i64 \<Rightarrow> (unit, Mem) port" where
  "mem_audited_remove_group_group ho actor parent_group member_group audit_id now s =
     (case resolve_group_id ho s parent_group of
        Inl e \<Rightarrow> (Inl e, s)
      | Inr parent_group_id \<Rightarrow>
          (case resolve_group_id ho s member_group of
             Inl e \<Rightarrow> (Inl e, s)
           | Inr member_group_id \<Rightarrow>
               (case map_of (m_group_groups s) parent_group_id of
                  None \<Rightarrow> (Inl NotFound, s)
                | Some members \<Rightarrow>
                    if member_group_id \<in> set members
                    then
                      let s = s\<lparr>m_group_groups := AList.map_entry parent_group_id (remove1 member_group_id) (m_group_groups s)\<rparr> in
                      (Inr (), push_audit (admin_audit_entry audit_id now actor ''group.nest.remove'' ''group'' parent_group
                         (''member_group='' @ member_group)) s)
                    else (Inl NotFound, s))))"

section \<open>Grants\<close>

definition mem_audited_add_grant ::
  "HashOrder \<Rightarrow> string \<Rightarrow> string \<Rightarrow> string \<Rightarrow> string \<Rightarrow> string \<Rightarrow> string \<Rightarrow> string \<Rightarrow> i64 \<Rightarrow> (Grant, Mem) port" where
  "mem_audited_add_grant ho actor fresh subject_type subject_id repo role audit_id now s =
     (if \<not> is_known_role role then (Inl (InvalidArgument [Lit ''unknown grant role '', Dbg role]), s)
      else case mem_resolve_grant_subject_id ho s subject_type subject_id of
        Inl e \<Rightarrow> (Inl e, s)
      | Inr subject_id \<Rightarrow>
          (case resolve_resource_id_for_repo ho s repo of
             Inl e \<Rightarrow> (Inl e, s)
           | Inr resource_id \<Rightarrow>
               let grant = \<lparr>gr_id = fresh, gr_subject_type = subject_type, gr_subject_id = subject_id,
                     gr_repository_id = repo, gr_role = role\<rparr>;
                   s = put_grant (subject_type, subject_id) resource_id role s in
               (Inr grant, push_audit (admin_audit_entry audit_id now actor ''grant.add'' ''grant'' (gr_id grant)
                  (grant_detail subject_type subject_id repo role)) s)))"

definition mem_audited_remove_grant ::
  "HashOrder \<Rightarrow> string \<Rightarrow> string \<Rightarrow> string \<Rightarrow> string \<Rightarrow> string \<Rightarrow> string \<Rightarrow> i64 \<Rightarrow> (unit, Mem) port" where
  "mem_audited_remove_grant ho actor subject_type subject_id repo role audit_id now s =
     (case mem_resolve_grant_subject_id ho s subject_type subject_id of
        Inl e \<Rightarrow> (Inl e, s)
      | Inr subject_id \<Rightarrow>
          (case resolve_resource_id_for_repo ho s repo of
             Inl e \<Rightarrow> (Inl e, s)
           | Inr resource_id \<Rightarrow>
               let s = drop_grant (subject_type, subject_id) resource_id s in
               (Inr (), push_audit (admin_audit_entry audit_id now actor ''grant.remove'' ''grant''
                  (subject_type @ '':'' @ subject_id @ '':'' @ repo @ '':'' @ role)
                  (grant_detail subject_type subject_id repo role)) s)))"

section \<open>Accounts\<close>

definition mem_audited_add_user :: "string \<Rightarrow> string \<Rightarrow> AddUserInput \<Rightarrow> string \<Rightarrow> i64 \<Rightarrow> (User, Mem) port" where
  "mem_audited_add_user actor fresh input audit_id now s =
     (case validated_account_email (au_email input) of
        Inl e \<Rightarrow> (Inl e, s)
      | Inr email \<Rightarrow>
          let user = new_user fresh email (au_display_name input) ''active'';
              s = s\<lparr>m_users := AList.update (u_id user) user (m_users s)\<rparr> in
          (Inr user, push_audit (admin_audit_entry audit_id now actor ''user.add'' ''user'' (u_id user)
             (''email='' @ u_email user)) s))"

definition mem_audited_add_invitation ::
  "string \<Rightarrow> string \<Rightarrow> string \<Rightarrow> AddInvitationInput \<Rightarrow> string \<Rightarrow> i64 \<Rightarrow> (User \<times> IdentityInvitation, Mem) port" where
  "mem_audited_add_invitation actor fresh_user fresh_invitation input audit_id now s =
     (if trim (ai_provider_id input) = [] \<or> trim (ai_issuer input) = []
      then (Inl (InvalidArgument [Lit ''provider_id, issuer, and email are required'']), s)
      else case validated_account_email (ai_email input) of
        Inl e \<Rightarrow> (Inl e, s)
      | Inr email \<Rightarrow>
          let user = new_user fresh_user email (ai_display_name input) ''pending'';
              invitation = new_invitation fresh_invitation user email input;
              s = s\<lparr>m_users := AList.update (u_id user) user (m_users s),
                m_invitations := AList.update (ii_id invitation) invitation (m_invitations s)\<rparr> in
          (Inr (user, invitation), push_audit (admin_audit_entry audit_id now actor ''user.invite'' ''user'' (u_id user)
             (''email='' @ u_email user @ '' invitation_id='' @ ii_id invitation)) s))"

definition mem_audited_disable_user :: "HashOrder \<Rightarrow> string \<Rightarrow> string \<Rightarrow> string \<Rightarrow> i64 \<Rightarrow> (unit, Mem) port" where
  "mem_audited_disable_user ho actor user_id_or_email audit_id now s =
     (case mem_resolve_user_id ho s user_id_or_email of
        Inl e \<Rightarrow> (Inl e, s)
      | Inr user_id \<Rightarrow>
          (case map_of (m_users s) user_id of
             None \<Rightarrow> (Inl NotFound, s)
           | Some user \<Rightarrow>
               let s = s\<lparr>m_users := AList.map_entry user_id (\<lambda>user. user\<lparr>u_status := ''disabled''\<rparr>) (m_users s)\<rparr> in
               (Inr (), push_audit (admin_audit_entry audit_id now actor ''user.disable'' ''user'' user_id
                  (''email='' @ u_email user)) s)))"

definition mem_audited_enable_user :: "HashOrder \<Rightarrow> string \<Rightarrow> string \<Rightarrow> string \<Rightarrow> i64 \<Rightarrow> (unit, Mem) port" where
  "mem_audited_enable_user ho actor user_id_or_email audit_id now s =
     (case mem_resolve_user_id ho s user_id_or_email of
        Inl e \<Rightarrow> (Inl e, s)
      | Inr user_id \<Rightarrow>
          (case map_of (m_users s) user_id of
             None \<Rightarrow> (Inl NotFound, s)
           | Some user \<Rightarrow>
               if u_status user = ''deleted'' then (Inl NotFound, s)
               else
                 let s = s\<lparr>m_users := AList.map_entry user_id (\<lambda>user. user\<lparr>u_status := ''active''\<rparr>) (m_users s)\<rparr> in
                 (Inr (), push_audit (admin_audit_entry audit_id now actor ''user.enable'' ''user'' user_id
                    (''email='' @ u_email user)) s)))"

section \<open>Repositories\<close>

definition mem_audited_upsert :: "string \<Rightarrow> string \<Rightarrow> Resource \<Rightarrow> string \<Rightarrow> i64 \<Rightarrow> (unit, Mem) port" where
  "mem_audited_upsert actor fresh resource audit_id now s =
     (case normalize_resource_for_upsert resource of
        Inl e \<Rightarrow> (Inl e, s)
      | Inr resource \<Rightarrow>
          let resource = (if r_id resource = [] then resource\<lparr>r_id := fresh\<rparr> else resource);
              resource = (if r_status resource = [] then resource\<lparr>r_status := ''active''\<rparr> else resource);
              s = s\<lparr>m_resources := AList.update (r_resource_id resource) resource (m_resources s)\<rparr> in
          (Inr (), push_audit (admin_audit_entry audit_id now actor ''repository.add'' ''repository'' (r_resource_id resource)
             (''name='' @ r_name resource @ '' lore_repository_id='' @ r_lore_repository_id resource)) s))"

definition mem_audited_delete :: "string \<Rightarrow> string \<Rightarrow> string \<Rightarrow> i64 \<Rightarrow> (unit, Mem) port" where
  "mem_audited_delete actor resource_id audit_id now s =
     (case for_repository_id resource_id of
        None \<Rightarrow> (Inl (InvalidArgument [Lit ''resource_id must not be empty'']), s)
      | Some i \<Rightarrow>
          (case map_of (m_resources s) i of
             None \<Rightarrow> (Inl NotFound, s)
           | Some _ \<Rightarrow>
               let s = s\<lparr>m_resources := AList.map_entry i (\<lambda>r. r\<lparr>r_status := ''deleted''\<rparr>) (m_resources s)\<rparr> in
               (Inr (), push_audit (admin_audit_entry audit_id now actor ''repository.disable'' ''repository'' i []) s)))"

section \<open>All administrative writes\<close>

definition ignore_result :: "('a, Mem) port \<Rightarrow> (unit, Mem) port" where
  "ignore_result m = bind_op m (\<lambda>_. return_op ())"

fun run_mem :: "HashOrder \<Rightarrow> admin_write \<Rightarrow> (unit, Mem) port" where
  "run_mem ho (AddUser now i input) = ignore_result (mem_add_user i input)"
| "run_mem ho (AddInvitation now i j input) = ignore_result (mem_add_invitation i j input)"
| "run_mem ho (DisableUser now x) = mem_disable_user ho x"
| "run_mem ho (EnableUser now x) = mem_enable_user ho x"
| "run_mem ho (AddGroup now i n d) = ignore_result (mem_add_group i n d)"
| "run_mem ho (AddGroupMember now g u) = mem_add_group_member ho g u"
| "run_mem ho (RemoveGroupMember g u) = mem_remove_group_member ho g u"
| "run_mem ho (AddGroupGroup now p m) = mem_add_group_group ho p m"
| "run_mem ho (RemoveGroupGroup p m) = mem_remove_group_group ho p m"
| "run_mem ho (UpsertResource now i res) = mem_upsert i res"
| "run_mem ho (DeleteResource now rid) = mem_delete rid"
| "run_mem ho (AddGrant now i ty sub repo role) = ignore_result (mem_add_grant ho i ty sub repo role)"
| "run_mem ho (RemoveGrant ty sub repo role) = mem_remove_grant ho ty sub repo role"
| "run_mem ho (AddSigningKey now key bits) = fail_op Unsupported"

fun run_mem_audited :: "HashOrder \<Rightarrow> string \<Rightarrow> string \<Rightarrow> i64 \<Rightarrow> admin_write \<Rightarrow> (unit, Mem) port" where
  "run_mem_audited ho actor aid anow (AddUser now i input) = ignore_result (mem_audited_add_user actor i input aid anow)"
| "run_mem_audited ho actor aid anow (AddInvitation now i j input) =
     ignore_result (mem_audited_add_invitation actor i j input aid anow)"
| "run_mem_audited ho actor aid anow (DisableUser now x) = mem_audited_disable_user ho actor x aid anow"
| "run_mem_audited ho actor aid anow (EnableUser now x) = mem_audited_enable_user ho actor x aid anow"
| "run_mem_audited ho actor aid anow (AddGroup now i n d) = ignore_result (mem_audited_add_group actor i n d aid anow)"
| "run_mem_audited ho actor aid anow (AddGroupMember now g u) = mem_audited_add_group_member ho actor g u aid anow"
| "run_mem_audited ho actor aid anow (RemoveGroupMember g u) = mem_audited_remove_group_member ho actor g u aid anow"
| "run_mem_audited ho actor aid anow (AddGroupGroup now p m) = mem_audited_add_group_group ho actor p m aid anow"
| "run_mem_audited ho actor aid anow (RemoveGroupGroup p m) = mem_audited_remove_group_group ho actor p m aid anow"
| "run_mem_audited ho actor aid anow (UpsertResource now i res) = mem_audited_upsert actor i res aid anow"
| "run_mem_audited ho actor aid anow (DeleteResource now rid) = mem_audited_delete actor rid aid anow"
| "run_mem_audited ho actor aid anow (AddGrant now i ty sub repo role) =
     ignore_result (mem_audited_add_grant ho actor i ty sub repo role aid anow)"
| "run_mem_audited ho actor aid anow (RemoveGrant ty sub repo role) =
     mem_audited_remove_grant ho actor ty sub repo role aid anow"
| "run_mem_audited ho actor aid anow (AddSigningKey now key bits) = fail_op Unsupported"

lemma normalized_resource:
  "normalize_resource_for_upsert res = Inr r \<Longrightarrow> r_resource_id r \<noteq> [] \<and> r_lore_repository_id r \<noteq> []"
  by (auto simp: normalize_resource_for_upsert_def validated_lore_repository_id_def normalize_valid_lore_repository_id_def
      for_repository_id_def urc_prefix_def res_simps Let_def split: if_splits)

text \<open>A write fails without a trace, or it succeeds and the audited write adds one record.\<close>

definition one_audit :: "string \<Rightarrow> string \<Rightarrow> i64 \<Rightarrow> (unit, Mem) port \<Rightarrow> (unit, Mem) port \<Rightarrow> Mem \<Rightarrow> bool" where
  "one_audit actor aid anow plain audited s \<longleftrightarrow>
     (\<exists>e. plain s = (Inl e, s) \<and> audited s = (Inl e, s)) \<or>
     (\<exists>t act oty oid d. plain s = (Inr (), t) \<and> m_admin_audit t = m_admin_audit s \<and>
        audited s = (Inr (), push_audit (admin_audit_entry aid anow actor act oty oid d) t))"

lemma one_auditI:
  "plain s = (Inl e, s) \<Longrightarrow> audited s = (Inl e, s) \<Longrightarrow> one_audit actor aid anow plain audited s"
  "plain s = (Inr (), t) \<Longrightarrow> m_admin_audit t = m_admin_audit s \<Longrightarrow>
     audited s = (Inr (), push_audit (admin_audit_entry aid anow actor act oty oid d) t) \<Longrightarrow>
     one_audit actor aid anow plain audited s"
  by (auto simp: one_audit_def)

lemmas run_once = ignore_result_def bind_op_def return_op_def Let_def

lemma account_one_audit:
  "one_audit actor aid anow (ignore_result (mem_add_user i input)) (ignore_result (mem_audited_add_user actor i input aid anow)) s"
  "one_audit actor aid anow (ignore_result (mem_add_invitation i j inp))
     (ignore_result (mem_audited_add_invitation actor i j inp aid anow)) s"
  "one_audit actor aid anow (mem_disable_user ho x) (mem_audited_disable_user ho actor x aid anow) s"
  "one_audit actor aid anow (mem_enable_user ho x) (mem_audited_enable_user ho actor x aid anow) s"
proof -
  show "one_audit actor aid anow (ignore_result (mem_add_user i input)) (ignore_result (mem_audited_add_user actor i input aid anow)) s"
    by (cases "validated_account_email (au_email input)")
      (rule one_auditI; simp add: run_once mem_add_user_def mem_audited_add_user_def)+
  show "one_audit actor aid anow (ignore_result (mem_add_invitation i j inp))
     (ignore_result (mem_audited_add_invitation actor i j inp aid anow)) s"
  proof (cases "trim (ai_provider_id inp) = [] \<or> trim (ai_issuer inp) = []")
    case True
    then show ?thesis by (intro one_auditI(1)) (simp_all add: run_once mem_add_invitation_def mem_audited_add_invitation_def)
  next
    case False
    then show ?thesis
      by (cases "validated_account_email (ai_email inp)")
        (rule one_auditI; simp add: run_once mem_add_invitation_def mem_audited_add_invitation_def)+
  qed
  show "one_audit actor aid anow (mem_disable_user ho x) (mem_audited_disable_user ho actor x aid anow) s"
  proof (cases "mem_resolve_user_id ho s x")
    case (Inr u)
    then show ?thesis
      by (cases "map_of (m_users s) u") (rule one_auditI; simp add: Let_def mem_disable_user_def mem_audited_disable_user_def)+
  qed (rule one_auditI(1); simp add: mem_disable_user_def mem_audited_disable_user_def)
  show "one_audit actor aid anow (mem_enable_user ho x) (mem_audited_enable_user ho actor x aid anow) s"
  proof (cases "mem_resolve_user_id ho s x")
    case (Inr u)
    show ?thesis
    proof (cases "map_of (m_users s) u")
      case (Some user)
      with Inr show ?thesis
        by (cases "u_status user = ''deleted''")
          (rule one_auditI; simp add: Let_def mem_enable_user_def mem_audited_enable_user_def)+
    qed (rule one_auditI(1); simp add: Inr mem_enable_user_def mem_audited_enable_user_def)
  qed (rule one_auditI(1); simp add: mem_enable_user_def mem_audited_enable_user_def)
qed

lemma group_one_audit:
  "one_audit actor aid anow (ignore_result (mem_add_group i n d)) (ignore_result (mem_audited_add_group actor i n d aid anow)) s"
  "one_audit actor aid anow (mem_add_group_member ho g u) (mem_audited_add_group_member ho actor g u aid anow) s"
  "one_audit actor aid anow (mem_remove_group_member ho g u) (mem_audited_remove_group_member ho actor g u aid anow) s"
  "one_audit actor aid anow (mem_remove_group_group ho p m) (mem_audited_remove_group_group ho actor p m aid anow) s"
proof -
  show "one_audit actor aid anow (ignore_result (mem_add_group i n d)) (ignore_result (mem_audited_add_group actor i n d aid anow)) s"
    by (cases "trim n = []") (rule one_auditI; simp add: run_once mem_add_group_def mem_audited_add_group_def)+
  show "one_audit actor aid anow (mem_add_group_member ho g u) (mem_audited_add_group_member ho actor g u aid anow) s"
    by (cases "mem_resolve_user_id ho s u")
      (rule one_auditI; simp add: Let_def mem_add_group_member_def mem_audited_add_group_member_def)+
  show "one_audit actor aid anow (mem_remove_group_member ho g u) (mem_audited_remove_group_member ho actor g u aid anow) s"
    by (cases "mem_resolve_user_id ho s u")
      (rule one_auditI; simp add: Let_def mem_remove_group_member_def mem_audited_remove_group_member_def)+
  note defs = mem_remove_group_group_def mem_audited_remove_group_group_def
  show "one_audit actor aid anow (mem_remove_group_group ho p m) (mem_audited_remove_group_group ho actor p m aid anow) s"
  proof (cases "resolve_group_id ho s p"; cases "resolve_group_id ho s m")
    fix pid mi assume *: "resolve_group_id ho s p = Inr pid" "resolve_group_id ho s m = Inr mi"
    show ?thesis
    proof (cases "map_of (m_group_groups s) pid")
      case (Some ms)
      with * show ?thesis by (cases "mi \<in> set ms") (rule one_auditI; simp add: Let_def defs)+
    qed (rule one_auditI(1); simp add: * defs)
  qed (rule one_auditI(1); simp add: defs)+
qed

lemma grant_one_audit:
  "one_audit actor aid anow (ignore_result (mem_add_grant ho i ty sub repo role))
     (ignore_result (mem_audited_add_grant ho actor i ty sub repo role aid anow)) s"
  "one_audit actor aid anow (mem_remove_grant ho ty sub repo role) (mem_audited_remove_grant ho actor ty sub repo role aid anow) s"
proof -
  note defs = run_once mem_add_grant_def mem_audited_add_grant_def put_grant_def mem_remove_grant_def
    mem_audited_remove_grant_def drop_grant_def
  show "one_audit actor aid anow (ignore_result (mem_add_grant ho i ty sub repo role))
     (ignore_result (mem_audited_add_grant ho actor i ty sub repo role aid anow)) s"
  proof (cases "is_known_role role")
    case True
    then show ?thesis
      by (cases "mem_resolve_grant_subject_id ho s ty sub"; cases "resolve_resource_id_for_repo ho s repo")
        (rule one_auditI; simp add: defs)+
  qed (rule one_auditI(1); simp add: defs)
  show "one_audit actor aid anow (mem_remove_grant ho ty sub repo role) (mem_audited_remove_grant ho actor ty sub repo role aid anow) s"
    by (cases "mem_resolve_grant_subject_id ho s ty sub"; cases "resolve_resource_id_for_repo ho s repo")
      (rule one_auditI; simp add: defs)+
qed

lemma upsert_one_audit: "one_audit actor aid anow (mem_upsert i res) (mem_audited_upsert actor i res aid anow) s"
proof (cases "normalize_resource_for_upsert res")
  case (Inl e)
  then show ?thesis
    by (intro one_auditI(1)) (simp_all add: mem_upsert_def mem_audited_upsert_def bind_op_def read_op_def)
next
  case (Inr r)
  from normalized_resource [OF Inr] have ne: "r_resource_id r \<noteq> []" "r_lore_repository_id r \<noteq> []" by auto
  show ?thesis
    by (rule one_auditI(2); simp add: Inr ne mem_upsert_def mem_audited_upsert_def read_op_def run_once add_test_resource_def)
qed

lemma audited_write_cases:
  assumes "\<And>now rid. W \<noteq> DeleteResource now rid"
  shows "one_audit actor aid anow (run_mem ho W) (run_mem_audited ho actor aid anow W) s \<or>
    (\<exists>now p m. W = AddGroupGroup now p m) \<and> run_mem ho W s = (Inr (), s) \<and> run_mem_audited ho actor aid anow W s = (Inr (), s)"
proof (cases W)
  case (AddGroupGroup now p m)
  note defs = mem_add_group_group_def mem_audited_add_group_group_def
  show ?thesis
  proof (cases "resolve_group_id ho s p"; cases "resolve_group_id ho s m")
    fix pid mi assume *: "resolve_group_id ho s p = Inr pid" "resolve_group_id ho s m = Inr mi"
    show ?thesis
    proof (cases "pid = mi \<or> mi \<notin> set (or_default (map_of (m_group_groups s) pid)) \<and> group_group_would_cycle s pid mi")
      case True
      then show ?thesis unfolding AddGroupGroup
        by (intro disjI1, cases "pid = mi") (rule one_auditI(1); simp add: * defs)+
    next
      case False
      then show ?thesis
      proof (cases "mi \<in> set (or_default (map_of (m_group_groups s) pid))")
        case new: False
        with False show ?thesis unfolding AddGroupGroup
          by (intro disjI1) (rule one_auditI(2); simp add: * defs Let_def)
      qed (simp add: AddGroupGroup * defs)
    qed
  qed (rule disjI1, rule one_auditI(1); simp add: AddGroupGroup defs)+
next
  case (DeleteResource now rid)
  with assms show ?thesis by blast
next
  case (AddSigningKey now key bits)
  then show ?thesis by (intro disjI1 one_auditI(1)) (simp_all add: fail_op_def)
qed (simp_all add: account_one_audit group_one_audit grant_one_audit upsert_one_audit)

text \<open>Administration of the in-memory store is audited: apart from deletions, an audited write gives
  the result and the state of the write of the store, and appends one audit record with the name of
  the actor exactly when the write succeeds, unless it is a nesting that exists already.\<close>

lemma memory_writes_audited:
  assumes "\<And>now rid. W \<noteq> DeleteResource now rid"
  shows "one_audit actor aid anow (run_mem ho W) (run_mem_audited ho actor aid anow W) s \<or>
    (\<exists>now p m. W = AddGroupGroup now p m) \<and> run_mem ho W s = (Inr (), s) \<and> run_mem_audited ho actor aid anow W s = (Inr (), s)"
  using assms by (rule audited_write_cases)

end
