(* ===== verification/Memory_System.thy ===== *)
theory Memory_System
  imports Memory_Audited Sqlite_System
begin

text \<open>
  The in-memory adapter as a whole: each call takes the lock for its whole body, so an interleaving
  of requests is a sequence of steps, one per call. Theorems: in every reachable state each map is
  keyed by the identifier of its values and group nesting is acyclic; auth sessions, CSRF tokens and
  device authorizations are used at most once; access is decided exactly by the grants that reach a
  user, whatever order the hash maps iterate in.
\<close>

section \<open>The invariant\<close>

definition keyed :: "('v \<Rightarrow> 'k) \<Rightarrow> ('k, 'v) hash_map \<Rightarrow> bool" where
  "keyed key m \<longleftrightarrow> distinct (map fst m) \<and> (\<forall>(k, v) \<in> set m. key v = k)"

lemma keyed_Nil [simp]: "keyed key []"
  by (simp add: keyed_def)

lemma update_subset: "set (AList.update k v m) \<subseteq> insert (k, v) (set m)"
  by (induction m) auto

lemma keyed_update: "keyed key m \<Longrightarrow> key v = k \<Longrightarrow> keyed key (AList.update k v m)"
  using update_subset [of k v m] by (fastforce simp: keyed_def distinct_update)

lemma keyed_map_entry: "keyed key m \<Longrightarrow> (\<And>v. key (f v) = key v) \<Longrightarrow> keyed key (AList.map_entry k f m)"
  unfolding keyed_def by (induction m) (auto simp: dom_map_entry)

lemma keyed_delete: "keyed key m \<Longrightarrow> keyed key (AList.delete k m)"
  unfolding keyed_def by (auto simp: AList.delete_eq distinct_map_filter)

lemma keyed_distinct: "keyed key m \<Longrightarrow> distinct (map fst m)"
  by (simp add: keyed_def)

lemma keyed_get: "keyed key m \<Longrightarrow> map_of m k = Some v \<Longrightarrow> key v = k"
  by (auto simp: keyed_def dest: map_of_SomeD)

definition mem_inv :: "Mem \<Rightarrow> bool" where
  "mem_inv s \<longleftrightarrow>
     keyed u_id (m_users s) \<and> keyed external_identity_key (m_identities s) \<and> keyed ii_id (m_invitations s) \<and>
     keyed r_resource_id (m_resources s) \<and> keyed g_name (m_groups s) \<and> keyed as_id (m_auth_sessions s) \<and>
     keyed da_id (m_device_authorizations s) \<and> keyed it_jti (m_issued_tokens s) \<and>
     distinct (map fst (m_grants s)) \<and> (\<forall>(k, rs) \<in> set (m_grants s). distinct (map fst rs)) \<and>
     distinct (map fst (m_group_members s)) \<and> distinct (map fst (m_group_groups s)) \<and>
     acyclic (members_of (m_group_groups s))"

lemma put_entry_distinct:
  "distinct (map fst m) \<Longrightarrow> (\<forall>(k, rs) \<in> set m. distinct (map fst rs)) \<Longrightarrow> distinct (map fst rs) \<Longrightarrow>
     (\<forall>(k, rs) \<in> set (AList.update k rs m). distinct (map fst rs))"
  by (induction m) auto

lemma map_entry_distinct:
  "(\<forall>(k, rs) \<in> set m. distinct (map fst rs)) \<Longrightarrow> (\<And>rs. distinct (map fst rs) \<Longrightarrow> distinct (map fst (f rs))) \<Longrightarrow>
     (\<forall>(k, rs) \<in> set (AList.map_entry k f m). distinct (map fst rs))"
  by (induction m) auto

lemma inner_distinct:
  "(\<forall>(k, rs) \<in> set m. distinct (map fst rs)) \<Longrightarrow> distinct (map fst (or_default (map_of m k)))"
  by (cases "map_of m k") (auto dest: map_of_SomeD)

lemma put_grant_inv: "mem_inv s \<Longrightarrow> mem_inv (put_grant subject r role s)"
proof -
  assume s: "mem_inv s"
  then have *: "distinct (map fst (m_grants s))" "\<forall>(k, rs) \<in> set (m_grants s). distinct (map fst rs)"
    by (simp_all add: mem_inv_def)
  have "distinct (map fst (AList.update r role (or_default (map_of (m_grants s) subject))))"
    by (intro distinct_update inner_distinct *)
  from put_entry_distinct [OF * this] distinct_update [OF *(1)] s show ?thesis
    by (simp add: mem_inv_def put_grant_def)
qed

lemma drop_grant_inv: "mem_inv s \<Longrightarrow> mem_inv (drop_grant subject r s)"
proof -
  assume s: "mem_inv s"
  then have "\<forall>(k, rs) \<in> set (AList.map_entry subject (AList.delete r) (m_grants s)). distinct (map fst rs)"
    by (intro map_entry_distinct) (auto simp: mem_inv_def intro: distinct_delete)
  with s show ?thesis by (simp add: mem_inv_def drop_grant_def distinct_map_entry)
qed

subsection \<open>Nesting\<close>

lemma members_of_push: "members_of (push_entry p m gg) = insert (p, m) (members_of gg)"
  by (auto simp: members_of_def push_entry_def update_conv split: if_splits)

lemma members_of_remove: "members_of (AList.map_entry p (remove1 m) gg) \<subseteq> members_of gg"
proof
  fix e assume "e \<in> members_of (AList.map_entry p (remove1 m) gg)"
  then show "e \<in> members_of gg"
    by (cases e; cases "map_of gg p") (auto simp: members_of_def map_of_map_entry dest: subsetD [OF set_remove1_subset] split: if_splits)
qed

lemma nest_inv:
  assumes "mem_inv s"
  shows "mem_inv (snd (mem_add_group_group ho p m s))"
proof -
  have "acyclic (insert (pid, mid) (members_of (m_group_groups s)))" if "\<not> group_group_would_cycle s pid mid" for pid mid
    using that assms by (simp add: would_cycle_exact mem_inv_def acyclic_insert)
  with assms show ?thesis
    by (auto simp: mem_add_group_group_def mem_inv_def members_of_push distinct_update push_entry_def [symmetric]
        split: sum.splits) (simp_all add: push_entry_def distinct_update)
qed

lemma unnest_inv:
  assumes "mem_inv s"
  shows "mem_inv (snd (mem_remove_group_group ho p m s))"
  using assms acyclic_subset [OF _ members_of_remove]
  by (auto simp: mem_remove_group_group_def mem_inv_def distinct_map_entry split: sum.splits option.splits)

subsection \<open>Accounts and resources\<close>

lemma mem_inv_users: "mem_inv s \<Longrightarrow> keyed u_id m \<Longrightarrow> mem_inv (s\<lparr>m_users := m\<rparr>)"
  by (simp add: mem_inv_def)

lemma mem_inv_resources: "mem_inv s \<Longrightarrow> keyed r_resource_id m \<Longrightarrow> mem_inv (s\<lparr>m_resources := m\<rparr>)"
  by (simp add: mem_inv_def)

lemma mem_inv_audit [simp]: "mem_inv (push_audit e s) \<longleftrightarrow> mem_inv s"
  by (simp add: mem_inv_def push_audit_def)

lemmas keyed_intros = keyed_update keyed_map_entry keyed_delete

lemma add_user_inv:
  assumes "mem_inv s"
  shows "mem_inv (snd (mem_add_user i input s))" "mem_inv (snd (mem_add_invitation i j inp s))"
    "mem_inv (snd (mem_disable_user ho x s))" "mem_inv (snd (mem_enable_user ho x s))" "mem_inv (snd (add_test_user i u s))"
    "mem_inv (snd (disable_test_user x s))"
  using assms
  by (auto simp: mem_add_user_def mem_add_invitation_def mem_disable_user_def mem_enable_user_def add_test_user_def
      disable_test_user_def new_user_def new_invitation_def Let_def mem_inv_def
      split: sum.splits option.splits intro!: keyed_intros)

lemma add_resource_inv:
  assumes "mem_inv s"
  shows "mem_inv (snd (add_test_resource i r s))" "mem_inv (snd (mem_upsert i r s))" "mem_inv (snd (mem_delete x s))"
    "mem_inv (snd (mem_audited_delete actor x aid anow s))"
proof -
  show add: "mem_inv (snd (add_test_resource i r s))" for r
    using assms by (auto simp: add_test_resource_def Let_def mem_inv_def intro!: keyed_intros)
  show "mem_inv (snd (mem_upsert i r s))"
    using assms add by (auto simp: mem_upsert_def bind_op_def read_op_def return_op_def split: prod.splits sum.splits)
      (metis snd_conv)+
  show "mem_inv (snd (mem_delete x s))" "mem_inv (snd (mem_audited_delete actor x aid anow s))"
    using assms by (auto simp: mem_delete_def mem_audited_delete_def Let_def mem_inv_def push_audit_def split: option.splits intro!: keyed_intros)
qed

lemma ignore_snd [simp]: "snd (ignore_result m s) = snd (m s)"
  by (simp add: ignore_result_def bind_op_def return_op_def split: prod.splits sum.splits)

lemma group_inv:
  assumes "mem_inv s"
  shows "mem_inv (snd (mem_add_group i n d s))" "mem_inv (snd (mem_add_group_member ho n u s))"
    "mem_inv (snd (mem_remove_group_member ho n u s))"
  using assms
  by (auto simp: mem_add_group_def mem_add_group_member_def mem_remove_group_member_def Let_def mem_inv_def push_entry_def
      distinct_update distinct_map_entry split: sum.splits intro!: keyed_intros)

lemma grant_inv:
  assumes "mem_inv s"
  shows "mem_inv (snd (mem_add_grant ho i ty sub repo role s))" "mem_inv (snd (mem_remove_grant ho ty sub repo role s))"
    "mem_inv (snd (grant_role u r role s))"
  using assms
  by (auto simp: mem_add_grant_def mem_remove_grant_def grant_role_def put_grant_inv drop_grant_inv split: sum.splits)

lemma run_mem_inv: "mem_inv s \<Longrightarrow> mem_inv (snd (run_mem ho W s))"
  by (cases W) (simp_all add: add_user_inv group_inv nest_inv unnest_inv add_resource_inv grant_inv fail_op_def)

lemma run_mem_audited_inv: "mem_inv s \<Longrightarrow> mem_inv (snd (run_mem_audited ho actor aid anow W s))"
proof (cases "\<exists>now rid. W = DeleteResource now rid")
  case False
  assume s: "mem_inv s"
  from False audited_write_cases [of W actor aid anow ho s] run_mem_inv [OF s, of ho W] s show ?thesis
    by (auto simp: one_audit_def)
qed (auto simp: add_resource_inv)

section \<open>Steps\<close>

text \<open>Identifiers of new sessions and devices, and new CSRF tokens, are random and have not been drawn before.\<close>

inductive mem_step :: "HashOrder \<Rightarrow> (string \<Rightarrow> string) \<Rightarrow> Mem \<Rightarrow> Mem \<Rightarrow> bool" for ho sha where
  admin: "mem_step ho sha s (snd (run_mem ho W s))"
| audited: "mem_step ho sha s (snd (run_mem_audited ho actor aid anow W s))"
| fixture_user: "mem_step ho sha s (snd (add_test_user i u s))"
| fixture_disable: "mem_step ho sha s (snd (disable_test_user x s))"
| fixture_resource: "mem_step ho sha s (snd (add_test_resource i r s))"
| fixture_identity: "mem_step ho sha s (snd (add_test_external_identity i e s))"
| fixture_grant: "mem_step ho sha s (snd (grant_role x rid role s))"
| login: "mem_step ho sha s (snd (mem_resolve_login ho now i req s))"
| new_session: "i \<notin> fst ` set (m_auth_sessions s) \<Longrightarrow>
    mem_step ho sha s (snd (mem_create_auth_session sha c i n now cs ttl s))"
| complete: "mem_step ho sha s (snd (mem_complete_auth_session now i x s))"
| consume: "mem_step ho sha s (snd (mem_consume_auth_session now i s))"
| new_login_state: "mem_step ho sha s (snd (mem_create_login_state sha st i now inp ttl s))"
| set_private: "mem_step ho sha s (snd (mem_set_login_state_private_state sha now st p s))"
| consume_state: "mem_step ho sha s (snd (mem_consume_login_state sha now st s))"
| new_browser_session: "mem_step ho sha s (snd (mem_create_browser_session i now x ttl s))"
| revoke_session: "mem_step ho sha s (snd (mem_revoke_browser_session i s))"
| new_csrf: "hash_secret sha t \<notin> fst ` set (m_csrf_tokens s) \<Longrightarrow>
    mem_step ho sha s (snd (mem_create_csrf_token sha t now b ttl s))"
| consume_csrf: "mem_step ho sha s (snd (mem_consume_csrf_token sha now b t s))"
| new_device: "i \<notin> fst ` set (m_device_authorizations s) \<Longrightarrow>
    mem_step ho sha s (snd (mem_create_device_authorization sha i n1 n2 dinp s))"
| approve: "mem_step ho sha s (snd (mem_approve_device_authorization n1 n2 i x s))"
| consume_device: "mem_step ho sha s (snd (mem_consume_device_authorization now i s))"
| expire_device: "mem_step ho sha s (snd (mem_expire_device_authorization i s))"
| sign: "mem_step ho sha s (snd (mem_sign_authn j i nanos ain s))"
| log_token: "mem_step ho sha s (snd (mem_record_token tk s))"
| log_audit: "mem_step ho sha s (snd (mem_record_audit e s))"

lemma login_inv: "mem_inv s \<Longrightarrow> mem_inv (snd (mem_resolve_login ho now i req s))"
proof -
  assume s: "mem_inv s"
  have bind: "mem_inv (snd (bind_invitation i identity iid invitation s))" for identity iid invitation
    using s by (auto simp: bind_invitation_def mem_inv_def external_identity_key_def Let_def split: sum.splits intro!: keyed_intros)
  show ?thesis
    using s bind by (auto simp: mem_resolve_login_def Let_def split: option.splits sum.splits)
qed

lemma flow_inv:
  assumes "mem_inv s"
  shows "mem_inv (snd (mem_create_auth_session sha c i n now cs ttl s))" "mem_inv (snd (mem_complete_auth_session now i x s))"
    "mem_inv (snd (mem_consume_auth_session now i s))" "mem_inv (snd (mem_create_login_state sha st i now inp ttl s))"
    "mem_inv (snd (mem_set_login_state_private_state sha now st p s))" "mem_inv (snd (mem_consume_login_state sha now st s))"
    "mem_inv (snd (mem_create_browser_session i now x ttl s))" "mem_inv (snd (mem_revoke_browser_session i s))"
    "mem_inv (snd (mem_create_csrf_token sha t now b ttl s))" "mem_inv (snd (mem_consume_csrf_token sha now b t s))"
    "mem_inv (snd (mem_sign_authn j i nanos ain s))" "mem_inv (snd (mem_record_token tk s))" "mem_inv (snd (mem_record_audit e s))"
    "mem_inv (snd (add_test_external_identity i ei s))"
  using assms
  by (auto simp: mem_inv_def mem_create_auth_session_def mem_complete_auth_session_def mem_consume_auth_session_def
      mem_create_login_state_def mem_set_login_state_private_state_def mem_consume_login_state_def
      mem_create_browser_session_def mem_revoke_browser_session_def mem_create_csrf_token_def mem_consume_csrf_token_def
      mem_sign_authn_def mem_record_token_def mem_record_audit_def add_test_external_identity_def external_identity_key_def Let_def
      split: option.splits intro!: keyed_intros)

lemma device_inv:
  assumes "mem_inv s"
  shows "mem_inv (snd (mem_create_device_authorization sha i n1 n2 dinp s))"
    "mem_inv (snd (mem_approve_device_authorization n1 n2 i x s))" "mem_inv (snd (mem_consume_device_authorization n1 i s))"
    "mem_inv (snd (mem_expire_device_authorization i s))"
  using assms
  by (auto simp: mem_inv_def mem_create_device_authorization_def mem_approve_device_authorization_def
      mem_consume_device_authorization_def mem_expire_device_authorization_def Let_def split: option.splits intro!: keyed_intros)

lemma mem_step_inv: "mem_step ho sha s s' \<Longrightarrow> mem_inv s \<Longrightarrow> mem_inv s'"
  by (induction rule: mem_step.induct)
    (simp_all add: run_mem_inv run_mem_audited_inv add_user_inv add_resource_inv grant_inv login_inv flow_inv device_inv)

lemma empty_mem_inv: "mem_inv empty_mem"
  by (simp add: mem_inv_def empty_mem_def members_of_def)

text \<open>C32: Every state of the in-memory store that its calls can reach has users, identities, invitations,
  repositories, groups, sessions, devices and issued tokens stored under their own identifiers, one
  grant per subject and repository, and acyclic group nesting, whatever order the maps iterate in.\<close>

theorem memory_invariant:
  assumes "(mem_step ho sha)\<^sup>*\<^sup>* empty_mem s"
  shows "mem_inv s \<and> acyclic (mem_nesting s)"
proof -
  from assms empty_mem_inv have inv: "mem_inv s"
    by (induction rule: rtranclp_induct) (auto intro: mem_step_inv)
  then have "acyclic ((members_of (m_group_groups s))\<inverse>)" by (simp add: mem_inv_def)
  with inv show ?thesis using members_of_nesting [of s] by (simp add: mem_inv_def)
qed

section \<open>Credentials that are used once\<close>

definition mem_session_spent :: "string \<Rightarrow> Mem \<Rightarrow> bool" where
  "mem_session_spent i s \<longleftrightarrow> (\<exists>x. map_of (m_auth_sessions s) i = Some x \<and> as_status x = ''consumed'')"

definition mem_csrf_spent :: "string \<Rightarrow> Mem \<Rightarrow> bool" where
  "mem_csrf_spent h s \<longleftrightarrow> (\<exists>x. map_of (m_csrf_tokens s) h = Some x \<and> ct_consumed x)"

definition mem_device_spent :: "string \<Rightarrow> Mem \<Rightarrow> bool" where
  "mem_device_spent i s \<longleftrightarrow> (\<exists>x. map_of (m_device_authorizations s) i = Some x \<and> da_status x = ''consumed'')"

text \<open>Most calls do not touch these maps.\<close>

definition mem_flow :: "Mem \<Rightarrow> (string, AuthSession) hash_map \<times> (string, CsrfToken) hash_map \<times> (string, DeviceAuthorization) hash_map" where
  "mem_flow s = (m_auth_sessions s, m_csrf_tokens s, m_device_authorizations s)"

lemma put_drop_flow [simp]: "mem_flow (put_grant k r role s) = mem_flow s" "mem_flow (drop_grant k r s) = mem_flow s"
  by (simp_all add: mem_flow_def put_grant_def drop_grant_def)

lemma push_audit_flow [simp]: "mem_flow (push_audit e s) = mem_flow s"
  by (simp add: mem_flow_def push_audit_def)

lemma account_flow:
  "mem_flow (snd (mem_add_user i input s)) = mem_flow s" "mem_flow (snd (mem_add_invitation i j inp s)) = mem_flow s"
  "mem_flow (snd (mem_disable_user ho x s)) = mem_flow s" "mem_flow (snd (mem_enable_user ho x s)) = mem_flow s"
  "mem_flow (snd (add_test_user i u s)) = mem_flow s" "mem_flow (snd (disable_test_user x s)) = mem_flow s"
  "mem_flow (snd (add_test_external_identity i ei s)) = mem_flow s"
  by (simp_all add: mem_flow_def mem_add_user_def mem_add_invitation_def mem_disable_user_def mem_enable_user_def
      add_test_user_def disable_test_user_def add_test_external_identity_def Let_def split: sum.splits option.splits)

lemma resource_flow:
  "mem_flow (snd (add_test_resource i r s)) = mem_flow s" "mem_flow (snd (mem_upsert i r s)) = mem_flow s"
  "mem_flow (snd (mem_delete x s)) = mem_flow s" "mem_flow (snd (mem_audited_delete actor x aid anow s)) = mem_flow s"
  by (simp_all add: mem_flow_def add_test_resource_def mem_upsert_def bind_op_def read_op_def return_op_def mem_delete_def
      mem_audited_delete_def push_audit_def Let_def split: sum.splits option.splits)

lemma group_flow:
  "mem_flow (snd (mem_add_group i n d s)) = mem_flow s" "mem_flow (snd (mem_add_group_member ho n u s)) = mem_flow s"
  "mem_flow (snd (mem_remove_group_member ho n u s)) = mem_flow s" "mem_flow (snd (mem_add_group_group ho p m s)) = mem_flow s"
  "mem_flow (snd (mem_remove_group_group ho p m s)) = mem_flow s"
  by (simp_all add: mem_flow_def mem_add_group_def mem_add_group_member_def mem_remove_group_member_def
      mem_add_group_group_def mem_remove_group_group_def Let_def split: sum.splits option.splits)

lemma grant_flow:
  "mem_flow (snd (mem_add_grant ho i ty sub repo role s)) = mem_flow s" "mem_flow (snd (mem_remove_grant ho ty sub repo role s)) = mem_flow s"
  "mem_flow (snd (grant_role u r role s)) = mem_flow s"
  by (simp_all add: mem_add_grant_def mem_remove_grant_def grant_role_def split: sum.splits)

lemma run_mem_flow: "mem_flow (snd (run_mem ho W s)) = mem_flow s"
  by (cases W) (simp_all add: account_flow resource_flow group_flow grant_flow fail_op_def)

lemma run_mem_audited_flow: "mem_flow (snd (run_mem_audited ho actor aid anow W s)) = mem_flow s"
proof (cases "\<exists>now rid. W = DeleteResource now rid")
  case False
  with audited_write_cases [of W actor aid anow ho s] run_mem_flow [of ho W s] show ?thesis
    by (auto simp: one_audit_def)
qed (auto simp: resource_flow)

lemma mem_login_flow: "mem_flow (snd (mem_resolve_login ho now i req s)) = mem_flow s"
  by (auto simp: mem_flow_def mem_resolve_login_def bind_invitation_def Let_def split: option.splits sum.splits)

lemma state_flow:
  "mem_flow (snd (mem_create_login_state sha st i now linp ttl s)) = mem_flow s"
  "mem_flow (snd (mem_set_login_state_private_state sha now st p s)) = mem_flow s"
  "mem_flow (snd (mem_consume_login_state sha now st s)) = mem_flow s"
  "mem_flow (snd (mem_create_browser_session i now x ttl s)) = mem_flow s" "mem_flow (snd (mem_revoke_browser_session i s)) = mem_flow s"
  "mem_flow (snd (mem_sign_authn j i nanos ain s)) = mem_flow s" "mem_flow (snd (mem_record_token tk s)) = mem_flow s"
  "mem_flow (snd (mem_record_audit e s)) = mem_flow s"
  by (auto simp: mem_flow_def mem_create_login_state_def mem_set_login_state_private_state_def mem_consume_login_state_def
      mem_create_browser_session_def mem_revoke_browser_session_def mem_sign_authn_def mem_record_token_def mem_record_audit_def
      Let_def split: option.splits)

lemmas untouched = account_flow resource_flow group_flow grant_flow run_mem_flow run_mem_audited_flow mem_login_flow state_flow

definition mem_keeps :: "Mem \<Rightarrow> Mem \<Rightarrow> bool" where
  "mem_keeps s s' \<longleftrightarrow> (\<forall>i. mem_session_spent i s \<longrightarrow> mem_session_spent i s') \<and>
     (\<forall>h. mem_csrf_spent h s \<longrightarrow> mem_csrf_spent h s') \<and> (\<forall>i. mem_device_spent i s \<longrightarrow> mem_device_spent i s')"

lemma mem_flow_keeps: "mem_flow s' = mem_flow s \<Longrightarrow> mem_keeps s s'"
  by (simp add: mem_keeps_def mem_flow_def mem_session_spent_def mem_csrf_spent_def mem_device_spent_def)

lemmas keeps_defs = mem_keeps_def mem_session_spent_def mem_csrf_spent_def mem_device_spent_def

lemma fresh_neq: "map_of m i = Some x \<Longrightarrow> j \<notin> fst ` set m \<Longrightarrow> i \<noteq> j"
  by (metis map_of_eq_None_iff option.distinct(1))

lemma session_keeps:
  "i \<notin> fst ` set (m_auth_sessions s) \<Longrightarrow> mem_keeps s (snd (mem_create_auth_session sha c i n now cs ttl s))"
  "mem_keeps s (snd (mem_complete_auth_session now i x s))" "mem_keeps s (snd (mem_consume_auth_session now i s))"
  by (auto simp: keeps_defs mem_create_auth_session_def mem_complete_auth_session_def mem_consume_auth_session_def
      Let_def update_conv map_of_map_entry split: option.splits dest: fresh_neq)

lemma csrf_keeps:
  "hash_secret sha t \<notin> fst ` set (m_csrf_tokens s) \<Longrightarrow> mem_keeps s (snd (mem_create_csrf_token sha t now b ttl s))"
  "mem_keeps s (snd (mem_consume_csrf_token sha now b t s))"
  by (auto simp: keeps_defs mem_create_csrf_token_def mem_consume_csrf_token_def
      Let_def update_conv map_of_map_entry split: option.splits dest: fresh_neq)

lemma mem_device_keeps:
  "i \<notin> fst ` set (m_device_authorizations s) \<Longrightarrow> mem_keeps s (snd (mem_create_device_authorization sha i n1 n2 dinp s))"
  "mem_keeps s (snd (mem_approve_device_authorization n1 n2 i x s))" "mem_keeps s (snd (mem_consume_device_authorization now i s))"
  "mem_keeps s (snd (mem_expire_device_authorization i s))"
  by (auto simp: keeps_defs mem_create_device_authorization_def mem_approve_device_authorization_def
      mem_consume_device_authorization_def mem_expire_device_authorization_def
      Let_def update_conv map_of_map_entry split: option.splits dest: fresh_neq)

lemma mem_step_keeps: "mem_step ho sha s s' \<Longrightarrow> mem_keeps s s'"
  by (induction rule: mem_step.induct) (simp_all add: mem_flow_keeps untouched session_keeps csrf_keeps mem_device_keeps)

definition mem_uses_session :: "string \<Rightarrow> Mem \<Rightarrow> Mem \<Rightarrow> bool" where
  "mem_uses_session i s s' \<longleftrightarrow> (\<exists>now. mem_consume_auth_session now i s = (Inr (), s'))"

definition mem_uses_csrf :: "(string \<Rightarrow> string) \<Rightarrow> string \<Rightarrow> Mem \<Rightarrow> Mem \<Rightarrow> bool" where
  "mem_uses_csrf sha t s s' \<longleftrightarrow> (\<exists>now b. mem_consume_csrf_token sha now b t s = (Inr (), s'))"

definition mem_uses_device :: "string \<Rightarrow> Mem \<Rightarrow> Mem \<Rightarrow> bool" where
  "mem_uses_device i s s' \<longleftrightarrow> (\<exists>now. mem_consume_device_authorization now i s = (Inr (), s'))"

lemma step_of: "m s = (r, s') \<Longrightarrow> mem_step ho sha s (snd (m s)) \<Longrightarrow> mem_step ho sha s s'"
  by simp

interpretation mem_sessions: one_shot mem_inv "mem_step ho sha" "mem_uses_session i" "mem_session_spent i"
proof unfold_locales
  fix s s' assume "mem_uses_session i s s'"
  then obtain now where use: "mem_consume_auth_session now i s = (Inr (), s')" unfolding mem_uses_session_def by blast
  then show "mem_step ho sha s s'" by (rule step_of) (rule mem_step.consume)
  from use show "mem_session_spent i s'"
    by (auto simp: mem_consume_auth_session_def mem_session_spent_def map_of_map_entry split: option.splits if_splits)
next
  fix s s' assume "mem_session_spent i s"
  then show "\<not> mem_uses_session i s s'"
    by (auto simp: mem_uses_session_def mem_session_spent_def mem_consume_auth_session_def)
qed (auto dest: mem_step_keeps mem_step_inv simp: mem_keeps_def)

interpretation mem_csrf_tokens: one_shot mem_inv "mem_step ho sha" "mem_uses_csrf sha t" "mem_csrf_spent (hash_secret sha t)"
proof unfold_locales
  fix s s' assume "mem_uses_csrf sha t s s'"
  then obtain now b where use: "mem_consume_csrf_token sha now b t s = (Inr (), s')" unfolding mem_uses_csrf_def by blast
  then show "mem_step ho sha s s'" by (rule step_of) (rule mem_step.consume_csrf)
  from use show "mem_csrf_spent (hash_secret sha t) s'"
    by (auto simp: mem_consume_csrf_token_def mem_csrf_spent_def map_of_map_entry split: option.splits if_splits)
next
  fix s s' assume "mem_csrf_spent (hash_secret sha t) s"
  then show "\<not> mem_uses_csrf sha t s s'"
    by (auto simp: mem_uses_csrf_def mem_csrf_spent_def mem_consume_csrf_token_def)
qed (auto dest: mem_step_keeps mem_step_inv simp: mem_keeps_def)

interpretation mem_devices: one_shot mem_inv "mem_step ho sha" "mem_uses_device i" "mem_device_spent i"
proof unfold_locales
  fix s s' assume "mem_uses_device i s s'"
  then obtain now where use: "mem_consume_device_authorization now i s = (Inr (), s')" unfolding mem_uses_device_def by blast
  then show "mem_step ho sha s s'" by (rule step_of) (rule mem_step.consume_device)
  from use show "mem_device_spent i s'"
    by (auto simp: mem_consume_device_authorization_def mem_device_spent_def map_of_map_entry split: option.splits if_splits)
next
  fix s s' assume "mem_device_spent i s"
  then show "\<not> mem_uses_device i s s'"
    by (auto simp: mem_uses_device_def mem_device_spent_def mem_consume_device_authorization_def)
qed (auto dest: mem_step_keeps mem_step_inv simp: mem_keeps_def)

text \<open>What was consumed in the in-memory store cannot be consumed again, however calls interleave.\<close>

lemma memory_consumed_once:
  assumes "mem_inv s" "(mem_step ho sha)\<^sup>*\<^sup>* s1 s2"
  shows "mem_consume_auth_session n i s = (Inr (), s1) \<Longrightarrow> \<not> (\<exists>m s3. mem_consume_auth_session m i s2 = (Inr (), s3))"
    "mem_consume_csrf_token sha n b t s = (Inr (), s1) \<Longrightarrow> \<not> (\<exists>m b' s3. mem_consume_csrf_token sha m b' t s2 = (Inr (), s3))"
    "mem_consume_device_authorization n i s = (Inr (), s1) \<Longrightarrow> \<not> (\<exists>m s3. mem_consume_device_authorization m i s2 = (Inr (), s3))"
  using mem_sessions.used_once [OF assms(1) _ assms(2)] mem_csrf_tokens.used_once [OF assms(1) _ assms(2)]
    mem_devices.used_once [OF assms(1) _ assms(2)]
  unfolding mem_uses_session_def mem_uses_csrf_def mem_uses_device_def by blast+

section \<open>Access\<close>

text \<open>A role reaches a user on a resource: it is granted to the user or to one of the groups that contain
  it directly or through nesting.\<close>

definition mem_reaches :: "HashOrder \<Rightarrow> Mem \<Rightarrow> string \<Rightarrow> string \<Rightarrow> string \<Rightarrow> bool" where
  "mem_reaches ho s user_id resource_id role \<longleftrightarrow>
     (\<exists>ty i rs. ((ty, i), rs) \<in> set (m_grants s) \<and> (resource_id, role) \<in> set rs \<and>
        (ty = ''user'' \<and> i = user_id \<or>
         ty = ''group'' \<and> i \<in> (mem_nesting s)\<^sup>* `` set (direct_group_ids_for_user ho s user_id)))"

lemma map_filter_elems: "set (List.map_filter f xs) = {y. \<exists>x \<in> set xs. f x = Some y}"
  by (auto simp: List.map_filter_def) force

text \<open>The in-memory policy decides exactly by the grants that reach the user: it always answers, and
  says yes if and only if some role granted to the user or to a group around it allows the action.\<close>

lemma memory_access_exact:
  assumes "order_ok ho" "mem_inv s"
  shows "mem_can_access ho user_id resource_id action s =
    (Inr (\<exists>role. mem_reaches ho s user_id resource_id role \<and> role_allows role action), s)"
proof -
  from assms(2) have d: "distinct (map fst (m_grants s))" "distinct (map fst (m_group_groups s))"
    and rs: "\<And>k rs. (k, rs) \<in> set (m_grants s) \<Longrightarrow> distinct (map fst rs)"
    by (auto simp: mem_inv_def)
  have get: "map_of (m_grants s) k = Some r \<longleftrightarrow> (k, r) \<in> set (m_grants s)" for k r
    using d(1) by (simp add: map_of_eq_Some_iff)
  have role: "(k, r) \<in> set (m_grants s) \<Longrightarrow> map_of r resource_id = Some x \<longleftrightarrow> (resource_id, x) \<in> set r" for k r x
    using rs by (simp add: map_of_eq_Some_iff)
  define grps where "grps = (mem_nesting s)\<^sup>* `` set (direct_group_ids_for_user ho s user_id)"
  have keys: "set (grant_subject_keys_for_user ho s user_id) = insert (''user'', user_id) (Pair ''group'' ` grps)"
    unfolding grps_def by (rule subject_keys_exact [OF assms(1) d(2)])
  have reaches: "mem_reaches ho s user_id resource_id x \<longleftrightarrow>
      (\<exists>k \<in> insert (''user'', user_id) (Pair ''group'' ` grps). \<exists>rs. (k, rs) \<in> set (m_grants s) \<and> (resource_id, x) \<in> set rs)" for x
    unfolding mem_reaches_def grps_def [symmetric] by fastforce
  have "x \<in> set (List.map_filter (\<lambda>resources. map_of resources resource_id)
      (List.map_filter (map_of (m_grants s)) (grant_subject_keys_for_user ho s user_id))) \<longleftrightarrow>
    mem_reaches ho s user_id resource_id x" for x
    unfolding reaches map_filter_elems keys mem_Collect_eq get using role by blast
  then show ?thesis by (auto simp: mem_can_access_def read_op_def list_ex_iff)
qed

end
