(* ===== verification/Memory_Double.thy ===== *)
theory Memory_Double
  imports Memory_System
begin

text \<open>
  The in-memory store stands in for the SQLite store: a simulation between the two for the sessions
  of the command-line client and for device authorizations. The state of the one is related to the
  tables of the other, each call keeps the relation and gives the same answer, and so a sequence of
  calls cannot tell the two apart, as long as new identifiers and codes are new, named users exist,
  and repository ids come without surrounding white space (SQLite trims them, the memory does not).
\<close>

section \<open>Calls\<close>

datatype flow_call =
    NewSession string string string i64 string duration
  | SessionByCode i64 string
  | CompleteSession i64 string string
  | ConsumeSession i64 string
  | NewDevice string i64 CreateDeviceAuthorizationInput
  | DeviceByUserCode string
  | DeviceByDeviceCode string
  | ApproveDevice i64 string string
  | ConsumeDevice i64 string
  | ExpireDevice string

datatype flow_reply = Done | Started string AuthSession | Session AuthSession | Device DeviceAuthorization

definition reply :: "('a \<Rightarrow> flow_reply) \<Rightarrow> ('a, 's) port \<Rightarrow> (flow_reply, 's) port" where
  "reply f m = bind_op m (\<lambda>a. return_op (f a))"

fun sql_call :: "(string \<Rightarrow> string) \<Rightarrow> flow_call \<Rightarrow> (flow_reply, Db) port" where
  "sql_call sha (NewSession c i n now cs ttl) = reply (\<lambda>(c, x). Started c x) (commit_op (create_auth_session sha c now i n cs ttl))"
| "sql_call sha (SessionByCode now c) = reply Session (read_op (\<lambda>db. get_auth_session_by_code sha now db c))"
| "sql_call sha (CompleteSession now i u) = reply (\<lambda>_. Done) (commit_op (complete_auth_session now i u))"
| "sql_call sha (ConsumeSession now i) = reply (\<lambda>_. Done) (commit_op (consume_auth_session now i))"
| "sql_call sha (NewDevice i now input) = reply Device (commit_op (create_device_authorization sha now i input))"
| "sql_call sha (DeviceByUserCode c) = reply Device (read_op (\<lambda>db. device_by_user_code sha db c))"
| "sql_call sha (DeviceByDeviceCode c) = reply Device (read_op (\<lambda>db. device_by_device_code sha db c))"
| "sql_call sha (ApproveDevice now i u) = reply (\<lambda>_. Done) (commit_op (approve_device_authorization now i u))"
| "sql_call sha (ConsumeDevice now i) = reply (\<lambda>_. Done) (commit_op (consume_device_authorization now i))"
| "sql_call sha (ExpireDevice i) = reply (\<lambda>_. Done) (commit_op (expire_device_authorization i))"

fun mem_call :: "(string \<Rightarrow> string) \<Rightarrow> flow_call \<Rightarrow> (flow_reply, Mem) port" where
  "mem_call sha (NewSession c i n now cs ttl) = reply (\<lambda>(c, x). Started c x) (mem_create_auth_session sha c i n now cs ttl)"
| "mem_call sha (SessionByCode now c) = reply Session (mem_get_auth_session_by_code sha now c)"
| "mem_call sha (CompleteSession now i u) = reply (\<lambda>_. Done) (mem_complete_auth_session now i u)"
| "mem_call sha (ConsumeSession now i) = reply (\<lambda>_. Done) (mem_consume_auth_session now i)"
| "mem_call sha (NewDevice i now input) = reply Device (mem_create_device_authorization sha i now now input)"
| "mem_call sha (DeviceByUserCode c) = reply Device (mem_device_by_user_code sha c)"
| "mem_call sha (DeviceByDeviceCode c) = reply Device (mem_device_by_device_code sha c)"
| "mem_call sha (ApproveDevice now i u) = reply (\<lambda>_. Done) (mem_approve_device_authorization now now i u)"
| "mem_call sha (ConsumeDevice now i) = reply (\<lambda>_. Done) (mem_consume_device_authorization now i)"
| "mem_call sha (ExpireDevice i) = reply (\<lambda>_. Done) (mem_expire_device_authorization i)"

fun replies :: "('c \<Rightarrow> ('a, 's) port) \<Rightarrow> 'c list \<Rightarrow> 's \<Rightarrow> (CoreError + 'a) list" where
  "replies run [] s = []"
| "replies run (c # cs) s = fst (run c s) # replies run cs (snd (run c s))"

section \<open>The relation\<close>

definition session_by_hash :: "Db \<Rightarrow> string \<Rightarrow> auth_sessions_row option" where
  "session_by_hash db h = find (\<lambda>r. sr_session_code_hash r = h) (t_auth_sessions db)"

definition device_by_hash :: "Db \<Rightarrow> string \<Rightarrow> device_authorizations_row option" where
  "device_by_hash db h = find (\<lambda>r. dr_device_code_hash r = h) (t_device_authorizations db)"

definition device_by_user_hash :: "Db \<Rightarrow> string \<Rightarrow> device_authorizations_row option" where
  "device_by_user_hash db h = find (\<lambda>r. dr_user_code_hash r = h) (t_device_authorizations db)"

definition device_of :: "device_authorizations_row \<Rightarrow> DeviceAuthorization" where
  "device_of r = device_to_core (device_from_row r)"

definition doubles :: "Db \<Rightarrow> Mem \<Rightarrow> bool" where
  "doubles db m \<longleftrightarrow>
     (\<forall>i. map_of (m_auth_sessions m) i = map_option auth_session_from_row (session_row db i)) \<and>
     (\<forall>h. map_of (m_auth_session_codes m) h = map_option sr_id (session_by_hash db h)) \<and>
     (\<forall>i. map_of (m_device_authorizations m) i = map_option device_of (device_row db i)) \<and>
     (\<forall>h. map_of (m_device_code_index m) h = map_option dr_id (device_by_hash db h)) \<and>
     (\<forall>h. map_of (m_user_code_index m) h = map_option dr_id (device_by_user_hash db h))"

text \<open>What both stores are asked for alike: identifiers and codes are new, users exist, ids are trimmed.\<close>

fun call_ok :: "(string \<Rightarrow> string) \<Rightarrow> flow_call \<Rightarrow> Db \<Rightarrow> bool" where
  "call_ok sha (NewSession c i n now cs ttl) db \<longleftrightarrow> session_row db i = None \<and> session_by_hash db (hash_secret sha c) = None"
| "call_ok sha (NewDevice i now input) db \<longleftrightarrow>
     device_row db i = None \<and> device_by_hash db (hash_code sha (cd_device_code input)) = None \<and>
     device_by_user_hash db (hash_code sha (cd_user_code input)) = None \<and>
     trim (cd_device_code input) \<noteq> [] \<and> trim (cd_user_code input) \<noteq> [] \<and>
     cd_requested_repository_id input \<noteq> [] \<and> trim (cd_requested_repository_id input) = cd_requested_repository_id input \<and>
     repository_exists db (cd_requested_repository_id input)"
| "call_ok sha (CompleteSession now i u) db \<longleftrightarrow> user_exists db u"
| "call_ok sha (ApproveDevice now i u) db \<longleftrightarrow> user_exists db u"
| "call_ok sha _ db \<longleftrightarrow> True"

fun calls_ok :: "(string \<Rightarrow> string) \<Rightarrow> flow_call list \<Rightarrow> Db \<Rightarrow> bool" where
  "calls_ok sha [] db \<longleftrightarrow> True"
| "calls_ok sha (c # cs) db \<longleftrightarrow> call_ok sha c db \<and> calls_ok sha cs (snd (sql_call sha c db))"

section \<open>Each call keeps the relation and gives the same answer\<close>

definition agrees :: "(string \<Rightarrow> string) \<Rightarrow> flow_call \<Rightarrow> Db \<Rightarrow> Mem \<Rightarrow> bool" where
  "agrees sha c db m \<longleftrightarrow> fst (mem_call sha c m) = fst (sql_call sha c db) \<and> doubles (snd (sql_call sha c db)) (snd (mem_call sha c m))"

lemma agreesI:
  "sql_call sha c db = (r, db') \<Longrightarrow> mem_call sha c m = (r, m') \<Longrightarrow> doubles db' m' \<Longrightarrow> agrees sha c db m"
  by (simp add: agrees_def)

lemmas run_call = reply_def bind_op_def return_op_def commit_op_def read_op_def

lemma doublesD:
  assumes "doubles db m"
  shows "map_of (m_auth_sessions m) i = map_option auth_session_from_row (session_row db i)"
    "map_of (m_auth_session_codes m) h = map_option sr_id (session_by_hash db h)"
    "map_of (m_device_authorizations m) i = map_option device_of (device_row db i)"
    "map_of (m_device_code_index m) h = map_option dr_id (device_by_hash db h)"
    "map_of (m_user_code_index m) h = map_option dr_id (device_by_user_hash db h)"
  using assms by (simp_all add: doubles_def)

lemma find_snoc: "find P (xs @ [x]) = (case find P xs of Some y \<Rightarrow> Some y | None \<Rightarrow> if P x then Some x else None)"
  by (induction xs) auto

subsection \<open>Sessions\<close>

lemma session_update:
  assumes "schema_ok db" "doubles db m" "session_row db i = Some r" "P r" "\<And>x. P x \<Longrightarrow> sr_id x = i"
    and "\<And>x. sr_id (f x) = sr_id x" "\<And>x. sr_session_code_hash (f x) = sr_session_code_hash x"
    and "auth_session_from_row (f r) = F (auth_session_from_row r)"
  shows "doubles (db\<lparr>t_auth_sessions := map (\<lambda>x. if P x then f x else x) (t_auth_sessions db)\<rparr>)
    (m\<lparr>m_auth_sessions := AList.map_entry i F (m_auth_sessions m)\<rparr>)" (is "doubles ?db ?m")
proof -
  have row: "session_row ?db j = map_option (\<lambda>x. if P x then f x else x) (session_row db j)" for j
    unfolding session_row_def by (auto intro!: find_update_key simp: assms(6))
  have hash: "session_by_hash ?db h = map_option (\<lambda>x. if P x then f x else x) (session_by_hash db h)" for h
    unfolding session_by_hash_def by (auto intro!: find_update_key simp: assms(7))
  have other: "\<not> P x" if "session_row db j = Some x" "j \<noteq> i" for j x
    using that assms(1,5) by (auto simp: session_row_iff)
  have "map_of (m_auth_sessions ?m) j = map_option auth_session_from_row (session_row ?db j)" for j
  proof (cases "j = i")
    case True
    then show ?thesis using assms(3,4,8) by (simp add: row map_of_map_entry doublesD [OF assms(2)])
  next
    case False
    then show ?thesis using other [of j]
      by (cases "session_row db j") (simp_all add: row map_of_map_entry doublesD [OF assms(2)] assms(3))
  qed
  moreover have "map_of (m_auth_session_codes ?m) h = map_option sr_id (session_by_hash ?db h)" for h
    by (cases "session_by_hash db h") (simp_all add: hash doublesD [OF assms(2)] assms(6))
  ultimately show ?thesis
    using assms(2) by (simp add: doubles_def device_row_def device_by_hash_def device_by_user_hash_def)
qed

lemma session_missing:
  assumes "session_row db i = None"
  shows "complete_auth_session now i u db = Inl AuthSessionNotFound" "consume_auth_session now i db = Inl AuthSessionNotFound"
proof -
  from assms have "filter (\<lambda>r. sr_id r = i \<and> Q r) (t_auth_sessions db) = []" for Q
    by (auto simp: session_row_def find_None_iff filter_empty_conv)
  then show "complete_auth_session now i u db = Inl AuthSessionNotFound" "consume_auth_session now i db = Inl AuthSessionNotFound"
    by (simp_all add: complete_auth_session_def consume_auth_session_def update_rows_def require_affected_def)
qed

lemma complete_agrees:
  assumes "schema_ok db" "doubles db m" "user_exists db u"
  shows "agrees sha (CompleteSession now i u) db m"
proof (cases "session_row db i")
  case None
  then show ?thesis
    by (intro agreesI [OF _ _ assms(2)]) (simp_all add: run_call session_missing mem_complete_auth_session_def doublesD [OF assms(2)])
next
  case (Some r)
  then have r: "sr_id r = i" using assms(1) by (simp add: session_row_iff)
  let ?P = "\<lambda>x. sr_id x = i \<and> sr_status x = ''pending'' \<and> sr_expires_at x > now"
  let ?f = "\<lambda>x. x\<lparr>sr_status := ''completed'', sr_user_id := Some u, sr_completed_at := Some now\<rparr>"
  have row: "as_status (auth_session_from_row r) = sr_status r" "as_expires_at (auth_session_from_row r) = sr_expires_at r"
    by (simp_all add: auth_session_from_row_def)
  show ?thesis
  proof (cases "?P r")
    case True
    have "doubles (db\<lparr>t_auth_sessions := map (\<lambda>x. if ?P x then ?f x else x) (t_auth_sessions db)\<rparr>)
      (m\<lparr>m_auth_sessions := AList.map_entry i (\<lambda>x. x\<lparr>as_status := ''completed'', as_user_id := u\<rparr>) (m_auth_sessions m)\<rparr>)"
      by (rule session_update [OF assms(1,2) Some]) (use True in \<open>auto simp: auth_session_from_row_def unwrap_or_default_def\<close>)
    with True Some show ?thesis
      by (intro agreesI) (simp_all add: run_call complete_auth_session_eq [OF assms(1) Some] assms(3)
          mem_complete_auth_session_def doublesD [OF assms(2)] row)
  next
    case False
    with r Some show ?thesis
      by (intro agreesI [OF _ _ assms(2)]) (auto simp: run_call complete_auth_session_eq [OF assms(1) Some]
          mem_complete_auth_session_def doublesD [OF assms(2)] row)
  qed
qed

lemma consume_agrees:
  assumes "schema_ok db" "doubles db m"
  shows "agrees sha (ConsumeSession now i) db m"
proof (cases "session_row db i")
  case None
  then show ?thesis
    by (intro agreesI [OF _ _ assms(2)]) (simp_all add: run_call session_missing mem_consume_auth_session_def doublesD [OF assms(2)])
next
  case (Some r)
  then have r: "sr_id r = i" using assms(1) by (simp add: session_row_iff)
  let ?P = "\<lambda>x. sr_id x = i \<and> sr_status x = ''completed'' \<and> sr_expires_at x > now"
  let ?f = "\<lambda>x. x\<lparr>sr_status := ''consumed'', sr_consumed_at := Some now\<rparr>"
  have row: "as_status (auth_session_from_row r) = sr_status r" "as_expires_at (auth_session_from_row r) = sr_expires_at r"
    by (simp_all add: auth_session_from_row_def)
  show ?thesis
  proof (cases "?P r")
    case True
    have "doubles (db\<lparr>t_auth_sessions := map (\<lambda>x. if ?P x then ?f x else x) (t_auth_sessions db)\<rparr>)
      (m\<lparr>m_auth_sessions := AList.map_entry i (\<lambda>x. x\<lparr>as_status := ''consumed''\<rparr>) (m_auth_sessions m)\<rparr>)"
      by (rule session_update [OF assms(1,2) Some]) (use True in \<open>auto simp: auth_session_from_row_def\<close>)
    with True Some show ?thesis
      by (intro agreesI) (simp_all add: run_call consume_auth_session_eq [OF assms(1) Some]
          mem_consume_auth_session_def doublesD [OF assms(2)] row)
  next
    case False
    with r Some show ?thesis
      by (intro agreesI [OF _ _ assms(2)]) (auto simp: run_call consume_auth_session_eq [OF assms(1) Some]
          mem_consume_auth_session_def doublesD [OF assms(2)] row)
  qed
qed

lemma unix_after_ttl: "unix_after now ttl = i64_add now (ttl_seconds ttl)"
  by (simp add: unix_after_def seconds_or_default_def ttl_seconds_def as_secs_def)

lemma by_code_agrees:
  assumes "schema_ok db" "doubles db m"
  shows "agrees sha (SessionByCode now c) db m"
proof (cases "session_by_hash db (hash_secret sha c)")
  case None
  then show ?thesis
    by (intro agreesI [OF _ _ assms(2)]) (simp_all add: run_call get_auth_session_by_code_def auth_session_by_clause_def
        mem_get_auth_session_by_code_def doublesD [OF assms(2)] session_by_hash_def)
next
  case (Some r)
  then have "r \<in> set (t_auth_sessions db)" by (auto simp: session_by_hash_def dest: find_SomeD)
  then have "session_row db (sr_id r) = Some r" using assms(1) by (simp add: session_row_iff)
  with Some assms(2) show ?thesis unfolding agrees_def
    by (simp add: run_call get_auth_session_by_code_def auth_session_by_clause_def
        mem_get_auth_session_by_code_def doublesD [OF assms(2)] session_by_hash_def not_expired_def)
qed

lemma new_session_agrees:
  assumes "schema_ok db" "doubles db m" "call_ok sha (NewSession c i n now cs ttl) db"
  shows "agrees sha (NewSession c i n now cs ttl) db m"
proof -
  define row where "row = \<lparr>sr_id = i, sr_session_code_hash = hash_secret sha c, sr_client_state_hash = hash_secret sha cs,
    sr_status = ''pending'', sr_user_id = None, sr_login_url_nonce = n, sr_created_at = now,
    sr_expires_at = i64_add now (ttl_seconds ttl), sr_completed_at = None, sr_consumed_at = None\<rparr>"
  define db' where "db' = db\<lparr>t_auth_sessions := t_auth_sessions db @ [row]\<rparr>"
  have new: "i \<notin> sr_id ` set (t_auth_sessions db)" "hash_secret sha c \<notin> sr_session_code_hash ` set (t_auth_sessions db)"
    using assms(3) by (auto simp: session_row_def session_by_hash_def find_None_iff)
  then have ins: "insert_row auth_sessions_ixs (auth_sessions_fk db) row (t_auth_sessions db) = Inr (t_auth_sessions db @ [row])"
    by (simp add: insert_row_Inr auth_sessions_ixs_def key_conflict_def auth_sessions_fk_def ref_ok_def row_def image_image)
      (auto simp: image_iff)
  then have sql: "create_auth_session sha c now i n cs ttl db = Inr ((c, auth_session_from_row row), db')"
    by (simp add: create_auth_session_def Let_def db'_def row_def auth_session_from_row_def unwrap_or_default_def)
  have "session_row db' j = (if j = i then Some row else session_row db j)" for j
    using assms(3) by (auto simp: db'_def session_row_def find_snoc row_def split: option.splits)
  moreover have "session_by_hash db' h = (if h = hash_secret sha c then Some row else session_by_hash db h)" for h
    using assms(3) by (auto simp: db'_def session_by_hash_def find_snoc row_def split: option.splits)
  ultimately have "doubles db' (snd (mem_create_auth_session sha c i n now cs ttl m))"
    using assms(2) by (auto simp: doubles_def mem_create_auth_session_def Let_def update_conv unix_after_ttl db'_def row_def
        auth_session_from_row_def unwrap_or_default_def device_row_def device_by_hash_def device_by_user_hash_def)
  then show ?thesis
    by (intro agreesI) (simp_all add: run_call sql mem_create_auth_session_def Let_def unix_after_ttl row_def
        auth_session_from_row_def unwrap_or_default_def)
qed

subsection \<open>Devices\<close>

lemma device_of_simps [simp]:
  "da_status (device_of r) = dr_status r" "da_expires_at (device_of r) = dr_expires_at r"
  by (simp_all add: device_of_def device_to_core_def device_from_row_def)

lemma device_update:
  assumes "schema_ok db" "doubles db m" "\<And>x. P x \<Longrightarrow> dr_id x = i"
    and "\<And>x. dr_id (f x) = dr_id x" "\<And>x. dr_device_code_hash (f x) = dr_device_code_hash x"
    "\<And>x. dr_user_code_hash (f x) = dr_user_code_hash x"
    and "\<And>r. device_row db i = Some r \<Longrightarrow> device_of (if P r then f r else r) = F (device_of r)"
  shows "doubles (db\<lparr>t_device_authorizations := map (\<lambda>x. if P x then f x else x) (t_device_authorizations db)\<rparr>)
    (m\<lparr>m_device_authorizations := AList.map_entry i F (m_device_authorizations m)\<rparr>)" (is "doubles ?db ?m")
proof -
  let ?u = "\<lambda>x. if P x then f x else x"
  have row: "device_row ?db j = map_option ?u (device_row db j)" for j
    unfolding device_row_def by (auto intro!: find_update_key simp: assms(4))
  have hash: "device_by_hash ?db h = map_option ?u (device_by_hash db h)" for h
    unfolding device_by_hash_def by (auto intro!: find_update_key simp: assms(5))
  have user_hash: "device_by_user_hash ?db h = map_option ?u (device_by_user_hash db h)" for h
    unfolding device_by_user_hash_def by (auto intro!: find_update_key simp: assms(6))
  have other: "\<not> P x" if "device_row db j = Some x" "j \<noteq> i" for j x
    using that assms(1,3) by (auto simp: device_row_iff)
  have "map_of (m_device_authorizations ?m) j = map_option device_of (device_row ?db j)" for j
  proof (cases "j = i")
    case True
    then show ?thesis using assms(7)
      by (cases "device_row db i") (simp_all add: row map_of_map_entry doublesD [OF assms(2)])
  next
    case False
    then show ?thesis using other [of j]
      by (cases "device_row db j"; cases "device_row db i") (simp_all add: row map_of_map_entry doublesD [OF assms(2)])
  qed
  moreover have "map_of (m_device_code_index ?m) h = map_option dr_id (device_by_hash ?db h)"
    "map_of (m_user_code_index ?m) h = map_option dr_id (device_by_user_hash ?db h)" for h
    by (cases "device_by_hash db h"; simp add: hash doublesD [OF assms(2)] assms(4))
      (cases "device_by_user_hash db h"; simp add: user_hash doublesD [OF assms(2)] assms(4))
  ultimately show ?thesis
    using assms(2) by (simp add: doubles_def session_row_def session_by_hash_def)
qed

lemma device_missing:
  assumes "device_row db i = None"
  shows "approve_device_authorization now i u db = Inl NotFound" "consume_device_authorization now i db = Inl NotFound"
proof -
  from assms have "filter (\<lambda>r. dr_id r = i \<and> Q r) (t_device_authorizations db) = []" for Q
    by (auto simp: device_row_def find_None_iff filter_empty_conv)
  then show "approve_device_authorization now i u db = Inl NotFound" "consume_device_authorization now i db = Inl NotFound"
    by (simp_all add: approve_device_authorization_def consume_device_authorization_def update_rows_def require_affected_def)
qed

lemmas device_of_defs = device_of_def device_to_core_def device_from_row_def unwrap_or_default_def unwrap_or_zero_def

lemma approve_agrees:
  assumes "schema_ok db" "doubles db m" "user_exists db u"
  shows "agrees sha (ApproveDevice now i u) db m"
proof (cases "device_row db i")
  case None
  then show ?thesis
    by (intro agreesI [OF _ _ assms(2)]) (simp_all add: run_call device_missing mem_approve_device_authorization_def doublesD [OF assms(2)])
next
  case (Some r)
  then have r: "dr_id r = i" using assms(1) by (simp add: device_row_iff)
  let ?P = "\<lambda>x. dr_id x = i \<and> dr_status x = ''pending'' \<and> dr_expires_at x > now"
  let ?f = "\<lambda>x. x\<lparr>dr_status := ''approved'', dr_approved_user_id := Some u, dr_approved_at := Some now\<rparr>"
  show ?thesis
  proof (cases "?P r")
    case True
    have "doubles (db\<lparr>t_device_authorizations := map (\<lambda>x. if ?P x then ?f x else x) (t_device_authorizations db)\<rparr>)
      (m\<lparr>m_device_authorizations := AList.map_entry i (\<lambda>x. x\<lparr>da_status := ''approved'', da_approved_user_id := u, da_approved_at := now\<rparr>)
        (m_device_authorizations m)\<rparr>)"
      by (rule device_update [OF assms(1,2)]) (use Some True in \<open>auto simp: device_of_defs\<close>)
    with True Some show ?thesis
      by (intro agreesI) (simp_all add: run_call approve_eq [OF assms(1) Some] assms(3)
          mem_approve_device_authorization_def doublesD [OF assms(2)])
  next
    case False
    with r Some show ?thesis
      by (intro agreesI [OF _ _ assms(2)]) (auto simp: run_call approve_eq [OF assms(1) Some]
          mem_approve_device_authorization_def doublesD [OF assms(2)])
  qed
qed

lemma consume_device_agrees:
  assumes "schema_ok db" "doubles db m"
  shows "agrees sha (ConsumeDevice now i) db m"
proof (cases "device_row db i")
  case None
  then show ?thesis
    by (intro agreesI [OF _ _ assms(2)]) (simp_all add: run_call device_missing mem_consume_device_authorization_def doublesD [OF assms(2)])
next
  case (Some r)
  then have r: "dr_id r = i" using assms(1) by (simp add: device_row_iff)
  let ?P = "\<lambda>x. dr_id x = i \<and> dr_status x = ''approved''"
  let ?f = "\<lambda>x. x\<lparr>dr_status := ''consumed'', dr_consumed_at := Some now\<rparr>"
  show ?thesis
  proof (cases "?P r")
    case True
    have "doubles (db\<lparr>t_device_authorizations := map (\<lambda>x. if ?P x then ?f x else x) (t_device_authorizations db)\<rparr>)
      (m\<lparr>m_device_authorizations := AList.map_entry i (\<lambda>x. x\<lparr>da_status := ''consumed'', da_consumed_at := now\<rparr>)
        (m_device_authorizations m)\<rparr>)"
      by (rule device_update [OF assms(1,2)]) (use Some True in \<open>auto simp: device_of_defs\<close>)
    with True Some show ?thesis
      by (intro agreesI) (simp_all add: run_call consume_eq [OF assms(1) Some]
          mem_consume_device_authorization_def doublesD [OF assms(2)])
  next
    case False
    with r Some show ?thesis
      by (intro agreesI [OF _ _ assms(2)]) (auto simp: run_call consume_eq [OF assms(1) Some]
          mem_consume_device_authorization_def doublesD [OF assms(2)])
  qed
qed

lemma expire_agrees:
  assumes "schema_ok db" "doubles db m"
  shows "agrees sha (ExpireDevice i) db m"
proof -
  have "doubles (db\<lparr>t_device_authorizations := map (\<lambda>x. if dr_id x = i \<and> dr_status x = ''pending''
      then x\<lparr>dr_status := ''expired''\<rparr> else x) (t_device_authorizations db)\<rparr>) (snd (mem_expire_device_authorization i m))"
    unfolding mem_expire_device_authorization_def snd_conv
    by (rule device_update [OF assms]) (auto simp: device_of_defs device_row_iff [OF assms(1)])
  then show ?thesis
    by (intro agreesI) (simp_all add: run_call expire_eq mem_expire_device_authorization_def)
qed

lemma device_lookup_agrees:
  assumes "schema_ok db" "doubles db m"
  shows "agrees sha (DeviceByUserCode c) db m" "agrees sha (DeviceByDeviceCode c) db m"
proof -
  have row: "device_row db (dr_id r) = Some r" if "find Q (t_device_authorizations db) = Some r" for Q r
    using that find_SomeD [of Q "t_device_authorizations db" r] assms(1) by (simp add: device_row_iff)
  show "agrees sha (DeviceByUserCode c) db m" unfolding agrees_def
    by (cases "device_by_user_hash db (hash_code sha c)")
      (simp_all add: assms(2) run_call device_by_user_code_def device_by_user_code_hash_def mem_device_by_user_code_def
        doublesD [OF assms(2)] device_by_user_hash_def device_of_def row)
  show "agrees sha (DeviceByDeviceCode c) db m" unfolding agrees_def
    by (cases "device_by_hash db (hash_code sha c)")
      (simp_all add: assms(2) run_call device_by_device_code_def device_by_device_code_hash_def mem_device_by_device_code_def
        doublesD [OF assms(2)] device_by_hash_def device_of_def row)
qed

lemma new_device_agrees:
  assumes "schema_ok db" "doubles db m" "call_ok sha (NewDevice i now input) db"
  shows "agrees sha (NewDevice i now input) db m"
proof -
  define row where "row = \<lparr>dr_id = i, dr_device_code_hash = hash_code sha (cd_device_code input),
    dr_user_code_hash = hash_code sha (cd_user_code input), dr_requested_remote_url = cd_requested_remote_url input,
    dr_requested_repository_id = Some (cd_requested_repository_id input), dr_approved_user_id = None, dr_status = ''pending'',
    dr_created_at = now, dr_expires_at = i64_add now (ttl_seconds (cd_ttl input)), dr_approved_at = None, dr_consumed_at = None\<rparr>"
  define db' where "db' = db\<lparr>t_device_authorizations := t_device_authorizations db @ [row]\<rparr>"
  from assms(3) have ok: "device_row db i = None" "device_by_hash db (hash_code sha (cd_device_code input)) = None"
    "device_by_user_hash db (hash_code sha (cd_user_code input)) = None"
    and repo: "none_if_empty (cd_requested_repository_id input) = Some (cd_requested_repository_id input)"
    by (simp_all add: none_if_empty_def)
  have "insert_row device_authorizations_ixs (device_authorizations_fk db) row (t_device_authorizations db) =
      Inr (t_device_authorizations db @ [row])"
    using ok assms(3) by (auto simp: insert_row_Inr device_authorizations_ixs_def key_conflict_def device_authorizations_fk_def
        ref_ok_def row_def device_row_def device_by_hash_def device_by_user_hash_def find_None_iff)
  then have sql: "create_device_authorization sha now i input db = Inr (device_of row, db')"
    by (simp add: create_device_authorization_def Store_create_device_authorization_def Let_def db'_def row_def repo
        device_of_defs)
  have "device_row db' j = (if j = i then Some row else device_row db j)" for j
    using ok(1) by (auto simp: db'_def device_row_def find_snoc row_def split: option.splits)
  moreover have "device_by_hash db' h = (if h = hash_code sha (cd_device_code input) then Some row else device_by_hash db h)" for h
    using ok(2) by (auto simp: db'_def device_by_hash_def find_snoc row_def split: option.splits)
  moreover have "device_by_user_hash db' h = (if h = hash_code sha (cd_user_code input) then Some row else device_by_user_hash db h)" for h
    using ok(3) by (auto simp: db'_def device_by_user_hash_def find_snoc row_def split: option.splits)
  ultimately have "doubles db' (snd (mem_create_device_authorization sha i now now input m))"
    using assms(2,3) by (auto simp: doubles_def mem_create_device_authorization_def Let_def update_conv unix_after_ttl row_def
        device_of_defs) (simp_all add: db'_def session_row_def session_by_hash_def)
  with assms(3) show ?thesis
    by (intro agreesI) (simp_all add: run_call sql mem_create_device_authorization_def Let_def unix_after_ttl row_def device_of_defs)
qed

section \<open>Sequences of calls\<close>

lemma call_agrees: "schema_ok db \<Longrightarrow> doubles db m \<Longrightarrow> call_ok sha c db \<Longrightarrow> agrees sha c db m"
  by (cases c) (simp_all add: new_session_agrees by_code_agrees complete_agrees consume_agrees new_device_agrees
      device_lookup_agrees approve_agrees consume_device_agrees expire_agrees del: call_ok.simps(1,2))

lemma sql_call_schema: "schema_ok db \<Longrightarrow> schema_ok (snd (sql_call sha c db))"
  by (cases c) (auto simp: run_call split: sum.splits intro: create_auth_session_schema complete_auth_session_schema
      consume_auth_session_schema create_device_authorization_schema approve_device_authorization_schema
      consume_device_authorization_schema expire_device_authorization_schema)


section \<open>Concrete runs\<close>

definition demo_double :: Db where
  "demo_double = demo_groups\<lparr>t_repositories := [demo_repo]\<rparr>"

definition demo_flow :: "flow_call list" where
  "demo_flow = [NewSession ''code'' ''s1'' ''nonce'' 100 ''client'' (duration_from_secs 60),
     SessionByCode 110 ''code'', ConsumeSession 120 ''s1'', CompleteSession 120 ''s1'' ''u1'', SessionByCode 130 '' code '',
     ConsumeSession 140 ''s1'', ConsumeSession 141 ''s1'', SessionByCode 160 ''code'',
     NewDevice ''d1'' 200 \<lparr>cd_device_code = ''dev'', cd_user_code = ''abcd'', cd_requested_remote_url = ''lore://x'',
       cd_requested_repository_id = ''r1'', cd_ttl = duration_from_secs 60\<rparr>,
     DeviceByUserCode ''ABCD'', ConsumeDevice 210 ''d1'', ApproveDevice 220 ''d1'' ''u2'', ExpireDevice ''d1'',
     DeviceByDeviceCode ''dev'', ConsumeDevice 230 ''d1'', ConsumeDevice 231 ''d1'', ApproveDevice 240 ''d2'' ''u1'']"

lemma demo_double_schema: "schema_ok demo_double"
  by code_simp

lemma demo_doubles: "doubles demo_double empty_mem"
  by (simp add: doubles_def demo_double_def demo_groups_def empty_mem_def empty_db_def session_row_def session_by_hash_def
      device_row_def device_by_hash_def device_by_user_hash_def)

lemma sql_call_keeps:
  "t_users (snd (sql_call sha c db)) = t_users db" "t_repositories (snd (sql_call sha c db)) = t_repositories db"
  by (cases c; auto simp: run_call create_auth_session_def complete_auth_session_def consume_auth_session_def
      create_device_authorization_def Store_create_device_authorization_def approve_device_authorization_def
      consume_device_authorization_def expire_device_authorization_def Let_def res_simps split: sum.splits)+

lemma session_call_keeps:
  "t_device_authorizations (snd (sql_call sha (NewSession c i n now cs ttl) db)) = t_device_authorizations db"
  "t_device_authorizations (snd (sql_call sha (SessionByCode now c) db)) = t_device_authorizations db"
  "t_device_authorizations (snd (sql_call sha (CompleteSession now i u) db)) = t_device_authorizations db"
  "t_device_authorizations (snd (sql_call sha (ConsumeSession now i) db)) = t_device_authorizations db"
  by (auto simp: run_call create_auth_session_def complete_auth_session_def consume_auth_session_def Let_def res_simps
      split: sum.splits)

lemma demo_double_tables:
  "ur_id ` set (t_users demo_double) = {''u1'', ''u2''}" "rr_id ` set (t_repositories demo_double) = {''r1''}"
  "t_device_authorizations demo_double = []" "t_auth_sessions demo_double = []"
  by (simp_all add: demo_double_def demo_groups_def demo_user_def demo_repo_def empty_db_def insert_commute)

lemma demo_trims: "trim ''dev'' = ''dev''" "trim ''abcd'' = ''abcd''" "trim ''r1'' = ''r1''"
  by code_simp+

lemma demo_flow_ok: "calls_ok (\<lambda>x. x) demo_flow demo_double"
  by (simp add: demo_flow_def user_exists_def repository_exists_def session_row_def session_by_hash_def device_row_def
      device_by_hash_def device_by_user_hash_def sql_call_keeps session_call_keeps demo_double_tables demo_trims del: sql_call.simps)


end
