(* ===== verification/Memory_Examples.thy ===== *)
theory Memory_Examples
  imports Memory_Double
begin

text \<open>
  Results of the in-memory store that do not depend on the iteration order of its hash maps, and
  concrete runs that apply the theorems about it.
\<close>

section \<open>Iteration order\<close>

lemma values_by_mset:
  "(\<And>ks. mset (order ks) = mset ks) \<Longrightarrow> distinct (map fst m) \<Longrightarrow> mset (values_by order m) = mset (map snd m)"
  by (simp add: values_by_def iter_by_mset)

lemma keyed_inj: "keyed key m \<Longrightarrow> inj_on key (snd ` set m)"
proof (rule inj_onI)
  fix x y assume k: "keyed key m" and "x \<in> snd ` set m" "y \<in> snd ` set m" "key x = key y"
  then obtain a b where "(a, x) \<in> set m" "(b, y) \<in> set m" by auto
  moreover from this k have "key x = a" "key y = b" unfolding keyed_def by blast+
  ultimately show "x = y" using k \<open>key x = key y\<close> by (metis keyed_distinct eq_key_imp_eq_value)
qed

lemma sorted_alike:
  assumes "mset xs = mset ys" "inj_on f (set xs)"
  shows "sort_key f xs = sort_key f ys"
  using assms by (intro sort_key_inj_key_eq) simp_all

lemma filter_mset_alike: "mset xs = mset ys \<Longrightarrow> mset (filter P xs) = mset (filter P ys)"
  by (metis mset_filter)

text \<open>The order of hash maps does not show: the lists of users and of repositories are the same for every
  order.\<close>

lemma memory_lists_deterministic:
  assumes "order_ok ho" "order_ok ho'" "mem_inv s"
  shows "mem_list_users ho filt s = mem_list_users ho' filt s" "mem_list ho s = mem_list ho' s"
proof -
  have d: "distinct (map fst (m_users s))" "distinct (map fst (m_resources s))"
    using assms(3) by (auto simp: mem_inv_def dest: keyed_distinct)
  note mset = values_by_mset [OF order_ok_names]
  have users: "mset (values_by (ho_names ho) (m_users s)) = mset (values_by (ho_names ho') (m_users s))"
    and resources: "mset (values_by (ho_names ho) (m_resources s)) = mset (values_by (ho_names ho') (m_resources s))"
    by (simp_all add: mset [OF assms(1)] mset [OF assms(2)] d)
  have "inj_on user_order (snd ` set (m_users s))"
    using keyed_inj [of u_id "m_users s"] assms(3) by (auto simp: inj_on_def user_order_def mem_inv_def)
  then have u: "inj_on user_order (set (values_by (ho_names ho) (m_users s)))"
    by (simp add: values_names [OF assms(1) d(1)])
  have "inj_on r_resource_id (snd ` set (m_resources s))" using assms(3) by (intro keyed_inj) (simp add: mem_inv_def)
  then have r: "inj_on r_resource_id (set (values_by (ho_names ho) (m_resources s)))"
    by (simp add: values_names [OF assms(1) d(2)])
  show "mem_list_users ho filt s = mem_list_users ho' filt s"
    unfolding mem_list_users_def read_op_def Let_def
    by (simp only: sorted_alike [OF filter_mset_alike [OF filter_mset_alike [OF users]] inj_on_subset [OF u]] filter_is_subset subset_trans [OF filter_is_subset filter_is_subset])
  show "mem_list ho s = mem_list ho' s"
    unfolding mem_list_def read_op_def
    by (simp only: sorted_alike [OF filter_mset_alike [OF resources] inj_on_subset [OF r filter_is_subset]])
qed

section \<open>Concrete runs\<close>

definition demo_order :: HashOrder where
  "demo_order = \<lparr>ho_names = rev, ho_subjects = rev\<rparr>"

definition demo_writes :: "admin_write list" where
  "demo_writes = [AddUser 1 ''u1'' \<lparr>au_email = ''bob@x.org'', au_display_name = ''Bob''\<rparr>,
     AddGroup 1 ''g1'' ''dev'' [], AddGroup 1 ''g2'' ''staff'' [], AddGroupMember 1 ''dev'' ''u1'', AddGroupGroup 1 ''staff'' ''dev'',
     AddGroupGroup 1 ''dev'' ''staff'',
     UpsertResource 1 ''r1'' \<lparr>r_id = [], r_name = ''game'', r_remote_url = ''lore://x'', r_lore_repository_id = ''game'',
       r_resource_id = [], r_status = []\<rparr>,
     AddGrant 1 ''t1'' ''group'' ''staff'' ''game'' ''writer'']"

definition demo_mem :: Mem where
  "demo_mem = fold (\<lambda>W s. snd (run_mem demo_order W s)) demo_writes empty_mem"

lemma demo_order_ok: "order_ok demo_order"
  by (simp add: order_ok_def demo_order_def)

lemma writes_reach: "(mem_step ho sha)\<^sup>*\<^sup>* s (fold (\<lambda>W s. snd (run_mem ho W s)) Ws s)"
  by (induction Ws arbitrary: s) (auto intro: converse_rtranclp_into_rtranclp mem_step.admin)

lemma demo_mem_reached: "(mem_step demo_order (\<lambda>x. x))\<^sup>*\<^sup>* empty_mem demo_mem"
  unfolding demo_mem_def by (rule writes_reach)

theorem memory_invariant_witness:
  "(mem_step demo_order (\<lambda>x. x))\<^sup>*\<^sup>* empty_mem demo_mem \<and> mem_inv demo_mem \<and> acyclic (mem_nesting demo_mem)"
  using memory_invariant [OF demo_mem_reached] demo_mem_reached by blast

lemma demo_mem_inv: "mem_inv demo_mem"
proof -
  have "mem_inv (fold (\<lambda>W s. snd (run_mem demo_order W s)) Ws s)" if "mem_inv s" for Ws s
    using that by (induction Ws arbitrary: s) (simp_all add: run_mem_inv)
  then show ?thesis unfolding demo_mem_def using empty_mem_inv .
qed

lemma demo_access: "mem_can_access demo_order ''u1'' ''urc-game'' ''write'' demo_mem = (Inr True, demo_mem)"
  by code_simp

lemma memory_access_exact_witness:
  "order_ok demo_order \<and> mem_inv demo_mem \<and>
   (\<exists>role. mem_reaches demo_order demo_mem ''u1'' ''urc-game'' role \<and> role_allows role ''write'')"
  using memory_access_exact [OF demo_order_ok demo_mem_inv, of "''u1''" "''urc-game''" "''write''"] demo_access
    demo_order_ok demo_mem_inv by simp

lemma memory_writes_audited_witness:
  "one_audit ''root'' ''a1'' 5 (run_mem demo_order (AddGroup 1 ''g3'' ''ops'' []))
     (run_mem_audited demo_order ''root'' ''a1'' 5 (AddGroup 1 ''g3'' ''ops'' [])) demo_mem"
  using memory_writes_audited [of "AddGroup 1 ''g3'' ''ops'' []" "''root''" "''a1''" 5 demo_order demo_mem] by simp

end
