(* ===== verification/Server_Config.thy ===== *)
theory Server_Config
  imports Grpc_Server
begin

text \<open>
  The configuration file (\<open>adapters/src/config.rs\<close>): its sections, the defaults and the validation,
  check by check in the order of the code. YAML, reading files and the parsers of URLs and addresses
  are third-party code; a \<open>BTreeMap\<close> is its list of entries in the order of the keys. Theorem: a
  file is loaded exactly if it can be read and parsed and, after the defaults, satisfies the rules the
  rest of the server relies on.
\<close>

section \<open>Sections\<close>

datatype ConfigError = ReadError string string | ParseError string string | Validate message

record ServerConfig =
  sv_listen :: string
  sv_grpc_listen :: string
  sv_grpc_tls_cert_file :: string
  sv_grpc_tls_key_file :: string
  sv_public_base_url :: string

record SubjectConfig =
  sj_strategy :: string
  sj_required_tid :: string

record HostedDomainTrust =
  hd_allowed :: "string list"

record TrustConfig =
  tr_email_binding :: string
  tr_allowed_email_domains :: "string list"
  tr_hosted_domain :: HostedDomainTrust
  tr_personal_accounts :: string

record IdentityProviderConfig =
  ic_provider_type :: string
  ic_profile :: string
  ic_display_name :: string
  ic_issuer :: string
  ic_client_id :: string
  ic_client_secret_file :: string
  ic_redirect_url :: string
  ic_scopes :: "string list"
  ic_pkce :: string
  ic_subject :: SubjectConfig
  ic_claims :: "(string \<times> string) list"
  ic_trust :: TrustConfig

record IdentityProvidersConfig =
  ips_default :: "string option"
  ips_providers :: "(string \<times> IdentityProviderConfig) list"

record DatabaseConfig =
  db_path :: string

record AuthzConfig =
  authz_backend :: string

record JwtConfig =
  jc_issuer :: string
  jc_audience :: "string list"
  jc_ttl_seconds :: i64
  jc_signing_key_dir :: string
  jc_active_kid :: string

record LoreConfig =
  lo_default_remote_url :: string
  lo_auth_url :: string

record AdminSection =
  as_admin_emails :: "string list"

record SecurityConfig =
  se_device_code_ttl_seconds :: i64
  se_device_poll_interval_seconds :: i64
  se_session_ttl_seconds :: i64
  se_auth_session_ttl_seconds :: i64
  se_rebac_allowed_peer_cidrs :: "string list"
  se_admin_allowed_peer_cidrs :: "string list"

record Config =
  cf_server :: ServerConfig
  cf_identity_providers :: IdentityProvidersConfig
  cf_authz :: AuthzConfig
  cf_database :: DatabaseConfig
  cf_jwt :: JwtConfig
  cf_lore :: LoreConfig
  cf_security :: SecurityConfig
  cf_admin :: AdminSection

section \<open>Third-party code\<close>

text \<open>A parsed URL: \<open>cu_host_str\<close> is the host as the URL writes it, \<open>cu_host\<close> the parsed host, an
  address with its printed form.\<close>

datatype UrlHost = Host_Domain string | Host_Ipv4 string | Host_Ipv6 string

record ConfigUrl =
  cu_scheme :: string
  cu_host_str :: "string option"
  cu_host :: "UrlHost option"
  cu_path :: string

record 'n ConfigLib =
  cl_read_file :: "string \<Rightarrow> string + string"
  cl_yaml :: "string \<Rightarrow> string + Config"
  cl_url :: "string \<Rightarrow> ConfigUrl option"
  cl_nets :: "'n IpNets"

section \<open>URLs and addresses\<close>

definition validation :: "message \<Rightarrow> ConfigError" where
  "validation m = Validate m"

definition parse_url :: "'n ConfigLib \<Rightarrow> message \<Rightarrow> string \<Rightarrow> string list \<Rightarrow> ConfigError + ConfigUrl" where
  "parse_url lib fld value allowed_schemes =
     (case cl_url lib value of
        None \<Rightarrow> Inl (validation (fld @ [Lit '' must be an absolute URL'']))
      | Some parsed \<Rightarrow>
          if cu_host_str parsed = None then Inl (validation (fld @ [Lit '' must be an absolute URL'']))
          else if list_ex (\<lambda>scheme. cu_scheme parsed = scheme) allowed_schemes then Inr parsed
          else Inl (validation (fld @ [Lit '' scheme must be one of '', Lit (join_with '', '' allowed_schemes)])))"

definition validate_url :: "'n ConfigLib \<Rightarrow> message \<Rightarrow> string \<Rightarrow> string list \<Rightarrow> ConfigError + unit" where
  "validate_url lib fld value allowed_schemes = and_then (parse_url lib fld value allowed_schemes) (\<lambda>_. Inr ())"

definition url_host_without_ipv6_brackets :: "ConfigUrl \<Rightarrow> string option" where
  "url_host_without_ipv6_brackets url =
     (case cu_host url of
        None \<Rightarrow> None
      | Some (Host_Domain host) \<Rightarrow> Some host
      | Some (Host_Ipv4 host) \<Rightarrow> Some host
      | Some (Host_Ipv6 host) \<Rightarrow> Some host)"

definition public_host :: "'n ConfigLib \<Rightarrow> string \<Rightarrow> ConfigError + string" where
  "public_host lib value =
     and_then (parse_url lib [Lit ''server.public_base_url''] value [''http'', ''https'']) (\<lambda>parsed.
     ok_or (validation [Lit ''server.public_base_url must include a host'']) (url_host_without_ipv6_brackets parsed))"

definition read_secret_file :: "'n ConfigLib \<Rightarrow> string \<Rightarrow> ConfigError + string" where
  "read_secret_file lib path =
     (if path = [] then Inr []
      else and_then (map_err (ReadError path) (cl_read_file lib path)) (\<lambda>raw. Inr (trim raw)))"

definition split_once_scheme :: "string \<Rightarrow> string option" where
  "split_once_scheme value =
     (case find (\<lambda>n. starts_with (drop n value) ''://'') [0..<length value] of
        Some n \<Rightarrow> Some (drop (n + 3) value) | None \<Rightarrow> None)"

definition strip_scheme :: "string \<Rightarrow> string" where
  "strip_scheme value = (case split_once_scheme value of Some rest \<Rightarrow> rest | None \<Rightarrow> value)"

definition validate_cidr_or_ip :: "'n ConfigLib \<Rightarrow> string \<Rightarrow> string \<Rightarrow> string + unit" where
  "validate_cidr_or_ip lib fld value =
     (let value = trim value in
      if value = [] then Inl (fld @ '' must not be empty'')
      else if CHR ''/'' \<in> set value then
        map_err (\<lambda>_. fld @ '' must be a valid CIDR or IP address'') (and_then (in_parse_net (cl_nets lib) value) (\<lambda>_. Inr ()))
      else
        map_err (\<lambda>_. fld @ '' must be a valid CIDR or IP address'') (and_then (in_parse_addr (cl_nets lib) value) (\<lambda>_. Inr ())))"

section \<open>Defaults\<close>

definition default_provider_fields :: "IdentityProviderConfig \<Rightarrow> IdentityProviderConfig" where
  "default_provider_fields p =
     p\<lparr>ic_scopes := (if ic_scopes p = [] then [''openid'', ''email'', ''profile''] else ic_scopes p),
       ic_subject := (if sj_strategy (ic_subject p) = [] then (ic_subject p)\<lparr>sj_strategy := ''oidc_sub''\<rparr> else ic_subject p),
       ic_trust := (if tr_email_binding (ic_trust p) = [] then (ic_trust p)\<lparr>tr_email_binding := ''disabled''\<rparr> else ic_trust p)\<rparr>"

definition default_server :: "ServerConfig \<Rightarrow> ServerConfig" where
  "default_server v =
     v\<lparr>sv_listen := (if sv_listen v = [] then ''127.0.0.1:8080'' else sv_listen v),
       sv_grpc_listen := (if sv_grpc_listen v = [] then ''127.0.0.1:8081'' else sv_grpc_listen v)\<rparr>"

definition default_security :: "SecurityConfig \<Rightarrow> SecurityConfig" where
  "default_security v =
     (let v = v\<lparr>se_device_code_ttl_seconds := (if se_device_code_ttl_seconds v = 0 then 600 else se_device_code_ttl_seconds v)\<rparr>;
          v = v\<lparr>se_device_poll_interval_seconds :=
            (if se_device_poll_interval_seconds v = 0 then 3 else se_device_poll_interval_seconds v)\<rparr>;
          v = v\<lparr>se_session_ttl_seconds := (if se_session_ttl_seconds v = 0 then 3600 else se_session_ttl_seconds v)\<rparr> in
      v\<lparr>se_auth_session_ttl_seconds :=
        (if se_auth_session_ttl_seconds v = 0 then se_session_ttl_seconds v else se_auth_session_ttl_seconds v)\<rparr>)"

definition apply_defaults :: "Config \<Rightarrow> Config" where
  "apply_defaults cfg =
     cfg\<lparr>cf_server := default_server (cf_server cfg),
       cf_jwt := (cf_jwt cfg)\<lparr>jc_ttl_seconds := (if jc_ttl_seconds (cf_jwt cfg) = 0 then 3600 else jc_ttl_seconds (cf_jwt cfg))\<rparr>,
       cf_authz := \<lparr>authz_backend = (if authz_backend (cf_authz cfg) = [] then ''rebac'' else authz_backend (cf_authz cfg))\<rparr>,
       cf_security := default_security (cf_security cfg),
       cf_lore := (if lo_auth_url (cf_lore cfg) = [] \<and> sv_public_base_url (cf_server cfg) \<noteq> []
         then (cf_lore cfg)\<lparr>lo_auth_url := ''ucs-auth://'' @ strip_scheme (sv_public_base_url (cf_server cfg))\<rparr>
         else cf_lore cfg),
       cf_admin := \<lparr>as_admin_emails = map normalize_email (as_admin_emails (cf_admin cfg))\<rparr>,
       cf_identity_providers := (cf_identity_providers cfg)\<lparr>ips_providers :=
         map (\<lambda>(i, p). (i, default_provider_fields p)) (ips_providers (cf_identity_providers cfg))\<rparr>\<rparr>"

section \<open>Validation\<close>

text \<open>One check: an early return with the error if the condition holds.\<close>

definition reject_if :: "bool \<Rightarrow> message \<Rightarrow> ConfigError + unit" where
  "reject_if bad m = (if bad then Inl (validation m) else Inr ())"

text \<open>Checks in sequence: the first error is returned.\<close>

fun checks :: "('e + unit) list \<Rightarrow> 'e + unit" where
  "checks [] = Inr ()"
| "checks (c # cs) = and_then c (\<lambda>_. checks cs)"

definition provider_id_byte :: "char \<Rightarrow> bool" where
  "provider_id_byte c \<longleftrightarrow> CHR ''a'' \<le> c \<and> c \<le> CHR ''z'' \<or> CHR ''0'' \<le> c \<and> c \<le> CHR ''9''"

text \<open>The pattern \<open>^[a-z0-9][a-z0-9_-]{0,62}$\<close>.\<close>

fun PROVIDER_ID_PATTERN :: "string \<Rightarrow> bool" where
  "PROVIDER_ID_PATTERN [] \<longleftrightarrow> False"
| "PROVIDER_ID_PATTERN (c # cs) \<longleftrightarrow>
     provider_id_byte c \<and> length cs \<le> 62 \<and> list_all (\<lambda>d. provider_id_byte d \<or> d = CHR ''_'' \<or> d = CHR ''-'') cs"

definition subject_strategy_check :: "message \<Rightarrow> SubjectConfig \<Rightarrow> ConfigError + unit" where
  "subject_strategy_check prefix subject =
     (let strategy = sj_strategy subject in
      if strategy = ''oidc_sub'' then Inr ()
      else if strategy = ''entra_oid_tid'' then
        reject_if (trim (sj_required_tid subject) = []) (prefix @ [Lit ''.subject.required_tid is required for entra_oid_tid''])
      else if strategy \<in> {''email'', ''upn'', ''preferred_username''} then
        Inl (validation (prefix @ [Lit ''.subject.strategy '', Dbg strategy, Lit '' is not a stable identity key'']))
      else Inl (validation (prefix @ [Lit ''.subject.strategy '', Dbg strategy, Lit '' is unknown''])))"

definition redirect_check :: "'n ConfigLib \<Rightarrow> message \<Rightarrow> string \<Rightarrow> string \<Rightarrow> ConfigError + unit" where
  "redirect_check lib prefix i redirect_url =
     and_then (parse_url lib [Lit ''identity_providers.providers.'', Lit i, Lit ''.redirect_url''] redirect_url [''http'', ''https''])
       (\<lambda>redirect.
     let expected_path = ''/auth/'' @ i @ ''/callback'' in
     reject_if (cu_path redirect \<noteq> expected_path) (prefix @ [Lit ''.redirect_url path must be '', Dbg expected_path]))"

definition validate_identity_provider :: "'n ConfigLib \<Rightarrow> string \<Rightarrow> IdentityProviderConfig \<Rightarrow> ConfigError + unit" where
  "validate_identity_provider lib i provider =
     (let prefix = [Lit ''identity_providers.providers['', Dbg i, Lit '']''] in
      checks
       [reject_if (\<not> PROVIDER_ID_PATTERN i) (prefix @ [Lit '' has an unsafe provider id'']),
        reject_if (ic_provider_type provider = []) (prefix @ [Lit ''.type is required'']),
        reject_if (ic_provider_type provider \<noteq> ''oidc'') (prefix @ [Lit ''.type '', Dbg (ic_provider_type provider), Lit '' is unknown'']),
        reject_if (ic_profile provider \<notin> {[], ''google'', ''keycloak'', ''entra''})
          (prefix @ [Lit ''.profile '', Dbg (ic_profile provider), Lit '' is unknown'']),
        reject_if (ic_issuer provider = []) (prefix @ [Lit ''.issuer is required'']),
        validate_url lib [Lit ''identity_providers.providers.'', Lit i, Lit ''.issuer''] (ic_issuer provider) [''http'', ''https''],
        reject_if (ic_client_id provider = []) (prefix @ [Lit ''.client_id is required'']),
        reject_if (ic_client_secret_file provider = []) (prefix @ [Lit ''.client_secret_file is required'']),
        reject_if (ic_redirect_url provider = []) (prefix @ [Lit ''.redirect_url is required'']),
        redirect_check lib prefix i (ic_redirect_url provider),
        reject_if (\<not> list_ex (\<lambda>scope. scope = ''openid'') (ic_scopes provider)) (prefix @ [Lit ''.scopes must include openid'']),
        subject_strategy_check prefix (ic_subject provider),
        reject_if (tr_email_binding (ic_trust provider) \<notin> {''disabled'', ''verified_email_invitation''})
          (prefix @ [Lit ''.trust.email_binding '', Dbg (tr_email_binding (ic_trust provider)), Lit '' is unknown'']),
        reject_if (trim (tr_personal_accounts (ic_trust provider)) \<notin> {[], ''allow'', ''deny''})
          (prefix @ [Lit ''.trust.personal_accounts '', Dbg (trim (tr_personal_accounts (ic_trust provider))), Lit '' is unknown'']),
        reject_if (trim (tr_personal_accounts (ic_trust provider)) \<noteq> [] \<and> ic_profile provider \<noteq> ''google'')
          (prefix @ [Lit ''.trust.personal_accounts is only valid for google profile'']),
        reject_if (ic_pkce provider \<notin> {[], ''required''}) (prefix @ [Lit ''.pkce '', Dbg (ic_pkce provider), Lit '' is unknown''])])"

definition validate_identity_providers :: "'n ConfigLib \<Rightarrow> IdentityProvidersConfig \<Rightarrow> ConfigError + unit" where
  "validate_identity_providers lib ips =
     (if ips_providers ips = [] then
        reject_if (case ips_default ips of Some d \<Rightarrow> trim d \<noteq> [] | None \<Rightarrow> False)
          [Lit ''identity_providers.default must reference a configured provider'']
      else
        case ips_default ips of
          None \<Rightarrow> Inl (validation [Lit ''identity_providers.default is required when identity providers are configured''])
        | Some d \<Rightarrow>
            if trim d = []
            then Inl (validation [Lit ''identity_providers.default is required when identity providers are configured''])
            else if map_of (ips_providers ips) d = None
            then Inl (validation [Lit ''identity_providers.default '', Dbg d, Lit '' is not configured''])
            else checks (map (\<lambda>(i, p). validate_identity_provider lib i p) (ips_providers ips)))"

text \<open>Loops over a list with its indices.\<close>

fun each_indexed :: "(nat \<Rightarrow> 'a \<Rightarrow> 'e + unit) \<Rightarrow> nat \<Rightarrow> 'a list \<Rightarrow> 'e + unit" where
  "each_indexed f n [] = Inr ()"
| "each_indexed f n (x # xs) = and_then (f n x) (\<lambda>_. each_indexed f (Suc n) xs)"

definition indexed :: "string \<Rightarrow> nat \<Rightarrow> string \<Rightarrow> message" where
  "indexed name n rest = [Lit name, Lit ''['', Lit (radix 10 n), Lit '']'', Lit rest]"

definition validate_cidrs :: "'n ConfigLib \<Rightarrow> string \<Rightarrow> string list \<Rightarrow> ConfigError + unit" where
  "validate_cidrs lib fld = each_indexed (\<lambda>n cidr.
     map_err (\<lambda>err. validation (indexed fld n '': '' @ [Lit err])) (validate_cidr_or_ip lib fld cidr)) 0"

fun validate_admin_emails :: "nat \<Rightarrow> string list \<Rightarrow> string list \<Rightarrow> ConfigError + unit" where
  "validate_admin_emails n earlier [] = Inr ()"
| "validate_admin_emails n earlier (email # emails) =
     (if trim email = [] then Inl (validation (indexed ''admin.admin_emails'' n '' must not be empty''))
      else if CHR ''@'' \<notin> set email then Inl (validation (indexed ''admin.admin_emails'' n '' must contain @''))
      else if email \<in> set earlier
      then Inl (validation (indexed ''admin.admin_emails'' n '' duplicates an earlier admin email''))
      else validate_admin_emails (Suc n) (email # earlier) emails)"

definition remote_check :: "'n ConfigLib \<Rightarrow> Config \<Rightarrow> ConfigError + unit" where
  "remote_check lib cfg =
     (if lo_default_remote_url (cf_lore cfg) = [] then Inr ()
      else
        and_then (parse_url lib [Lit ''lore.default_remote_url''] (lo_default_remote_url (cf_lore cfg)) [''lore'']) (\<lambda>remote.
        and_then (ok_or (validation [Lit ''lore.default_remote_url must include a host'']) (url_host_without_ipv6_brackets remote)) (\<lambda>host.
        reject_if (\<not> list_ex (\<lambda>audience. eq_ignore_ascii_case audience host) (jc_audience (cf_jwt cfg)))
          [Lit ''jwt.audience must include lore.default_remote_url host '', Dbg host])))"

definition Config_validate :: "'n ConfigLib \<Rightarrow> Config \<Rightarrow> ConfigError + unit" where
  "Config_validate lib cfg =
     (let sv = cf_server cfg; jwt = cf_jwt cfg; sec = cf_security cfg; backend = authz_backend (cf_authz cfg) in
      checks
       [reject_if (db_path (cf_database cfg) = []) [Lit ''database.path is required''],
        reject_if (backend = ''sql'')
          [Lit ''authz.backend sql backend has been removed; remove authz.backend or set it to rebac''],
        reject_if (backend \<noteq> ''rebac'') [Lit ''authz.backend '', Dbg backend, Lit '' must be rebac''],
        reject_if (sv_public_base_url sv = []) [Lit ''server.public_base_url is required''],
        validate_url lib [Lit ''server.public_base_url''] (sv_public_base_url sv) [''http'', ''https''],
        reject_if (sv_grpc_tls_cert_file sv = [] \<and> sv_grpc_tls_key_file sv \<noteq> [])
          [Lit ''server.grpc_tls_cert_file is required when server.grpc_tls_key_file is set''],
        reject_if (sv_grpc_tls_cert_file sv \<noteq> [] \<and> sv_grpc_tls_key_file sv = [])
          [Lit ''server.grpc_tls_key_file is required when server.grpc_tls_cert_file is set''],
        reject_if (jc_issuer jwt = []) [Lit ''jwt.issuer is required''],
        validate_url lib [Lit ''jwt.issuer''] (jc_issuer jwt) [''http'', ''https''],
        reject_if (jc_audience jwt = []) [Lit ''jwt.audience must not be empty''],
        each_indexed (\<lambda>n audience. reject_if (trim audience = []) (indexed ''jwt.audience'' n '' must not be empty'')) 0 (jc_audience jwt),
        reject_if (jc_ttl_seconds jwt \<le> 0) [Lit ''jwt.ttl_seconds must be positive''],
        reject_if (jc_signing_key_dir jwt = []) [Lit ''jwt.signing_key_dir is required''],
        remote_check lib cfg,
        (if lo_auth_url (cf_lore cfg) \<noteq> [] then validate_url lib [Lit ''lore.auth_url''] (lo_auth_url (cf_lore cfg)) [''https'', ''ucs-auth'']
         else Inr ()),
        reject_if (se_device_code_ttl_seconds sec \<le> 0) [Lit ''security.device_code_ttl_seconds must be positive''],
        reject_if (se_device_poll_interval_seconds sec \<le> 0) [Lit ''security.device_poll_interval_seconds must be positive''],
        reject_if (se_session_ttl_seconds sec \<le> 0) [Lit ''security.session_ttl_seconds must be positive''],
        reject_if (se_auth_session_ttl_seconds sec \<le> 0) [Lit ''security.auth_session_ttl_seconds must be positive''],
        validate_cidrs lib ''security.rebac_allowed_peer_cidrs'' (se_rebac_allowed_peer_cidrs sec),
        validate_cidrs lib ''security.admin_allowed_peer_cidrs'' (se_admin_allowed_peer_cidrs sec),
        validate_admin_emails 0 [] (as_admin_emails (cf_admin cfg)),
        validate_identity_providers lib (cf_identity_providers cfg)])"

definition load_config :: "'n ConfigLib \<Rightarrow> string \<Rightarrow> ConfigError + Config" where
  "load_config lib path =
     and_then (map_err (ReadError path) (cl_read_file lib path)) (\<lambda>raw.
     and_then (map_err (ParseError path) (cl_yaml lib raw)) (\<lambda>cfg.
     let cfg = apply_defaults cfg in
     and_then (Config_validate lib cfg) (\<lambda>_. Inr cfg)))"

section \<open>The rules\<close>

definition url_ok :: "'n ConfigLib \<Rightarrow> string list \<Rightarrow> string \<Rightarrow> bool" where
  "url_ok lib schemes v \<longleftrightarrow>
     (case cl_url lib v of Some u \<Rightarrow> cu_host_str u \<noteq> None \<and> cu_scheme u \<in> set schemes | None \<Rightarrow> False)"

definition cidr_ok :: "'n ConfigLib \<Rightarrow> string \<Rightarrow> bool" where
  "cidr_ok lib v \<longleftrightarrow> trim v \<noteq> [] \<and>
     (if CHR ''/'' \<in> set (trim v) then \<not> isl (in_parse_net (cl_nets lib) (trim v)) else \<not> isl (in_parse_addr (cl_nets lib) (trim v)))"

definition subject_ok :: "SubjectConfig \<Rightarrow> bool" where
  "subject_ok s \<longleftrightarrow> sj_strategy s = ''oidc_sub'' \<or> sj_strategy s = ''entra_oid_tid'' \<and> trim (sj_required_tid s) \<noteq> []"

text \<open>A provider logs in over OpenID Connect with a stable subject, comes back to its own callback route,
  and looks at personal accounts only for Google.\<close>

definition provider_ok :: "'n ConfigLib \<Rightarrow> string \<Rightarrow> IdentityProviderConfig \<Rightarrow> bool" where
  "provider_ok lib i p \<longleftrightarrow>
     PROVIDER_ID_PATTERN i \<and> ic_provider_type p = ''oidc'' \<and> ic_profile p \<in> {[], ''google'', ''keycloak'', ''entra''} \<and>
     ic_issuer p \<noteq> [] \<and> url_ok lib [''http'', ''https''] (ic_issuer p) \<and>
     ic_client_id p \<noteq> [] \<and> ic_client_secret_file p \<noteq> [] \<and>
     ic_redirect_url p \<noteq> [] \<and> url_ok lib [''http'', ''https''] (ic_redirect_url p) \<and>
     map_option cu_path (cl_url lib (ic_redirect_url p)) = Some (''/auth/'' @ i @ ''/callback'') \<and>
     ''openid'' \<in> set (ic_scopes p) \<and> subject_ok (ic_subject p) \<and>
     tr_email_binding (ic_trust p) \<in> {''disabled'', ''verified_email_invitation''} \<and>
     trim (tr_personal_accounts (ic_trust p)) \<in> {[], ''allow'', ''deny''} \<and>
     (trim (tr_personal_accounts (ic_trust p)) = [] \<or> ic_profile p = ''google'') \<and> ic_pkce p \<in> {[], ''required''}"

definition providers_ok :: "'n ConfigLib \<Rightarrow> IdentityProvidersConfig \<Rightarrow> bool" where
  "providers_ok lib ips \<longleftrightarrow>
     (case ips_default ips of
        Some d \<Rightarrow> if trim d = [] then ips_providers ips = [] else d \<in> fst ` set (ips_providers ips)
      | None \<Rightarrow> ips_providers ips = []) \<and>
     (\<forall>(i, p) \<in> set (ips_providers ips). provider_ok lib i p)"

definition remote_ok :: "'n ConfigLib \<Rightarrow> string \<Rightarrow> string list \<Rightarrow> bool" where
  "remote_ok lib v audience \<longleftrightarrow> v = [] \<or> url_ok lib [''lore''] v \<and>
     (case Option.bind (cl_url lib v) url_host_without_ipv6_brackets of
        Some host \<Rightarrow> \<exists>a \<in> set audience. eq_ignore_ascii_case a host | None \<Rightarrow> False)"

definition emails_ok :: "string list \<Rightarrow> bool" where
  "emails_ok es \<longleftrightarrow> distinct es \<and> (\<forall>e \<in> set es. trim e \<noteq> [] \<and> CHR ''@'' \<in> set e)"

definition config_ok :: "'n ConfigLib \<Rightarrow> Config \<Rightarrow> bool" where
  "config_ok lib cfg \<longleftrightarrow>
     (let sv = cf_server cfg; jwt = cf_jwt cfg; sec = cf_security cfg; lore = cf_lore cfg in
      db_path (cf_database cfg) \<noteq> [] \<and> authz_backend (cf_authz cfg) = ''rebac'' \<and>
      sv_public_base_url sv \<noteq> [] \<and> url_ok lib [''http'', ''https''] (sv_public_base_url sv) \<and>
      (sv_grpc_tls_cert_file sv = [] \<longleftrightarrow> sv_grpc_tls_key_file sv = []) \<and>
      jc_issuer jwt \<noteq> [] \<and> url_ok lib [''http'', ''https''] (jc_issuer jwt) \<and>
      jc_audience jwt \<noteq> [] \<and> (\<forall>a \<in> set (jc_audience jwt). trim a \<noteq> []) \<and>
      0 < jc_ttl_seconds jwt \<and> jc_signing_key_dir jwt \<noteq> [] \<and>
      remote_ok lib (lo_default_remote_url lore) (jc_audience jwt) \<and>
      (lo_auth_url lore = [] \<or> url_ok lib [''https'', ''ucs-auth''] (lo_auth_url lore)) \<and>
      0 < se_device_code_ttl_seconds sec \<and> 0 < se_device_poll_interval_seconds sec \<and>
      0 < se_session_ttl_seconds sec \<and> 0 < se_auth_session_ttl_seconds sec \<and>
      (\<forall>c \<in> set (se_rebac_allowed_peer_cidrs sec). cidr_ok lib c) \<and>
      (\<forall>c \<in> set (se_admin_allowed_peer_cidrs sec). cidr_ok lib c) \<and>
      emails_ok (as_admin_emails (cf_admin cfg)) \<and> providers_ok lib (cf_identity_providers cfg))"

named_theorems config_simps

lemma reject_if_ok [config_simps]: "reject_if bad m = Inr u \<longleftrightarrow> \<not> bad"
  by (simp add: reject_if_def)

lemma checks_ok: "checks cs = Inr () \<longleftrightarrow> (\<forall>c \<in> set cs. c = Inr ())"
  by (induction cs) (simp_all add: config_simps res_simps)

lemma each_indexed_ok:
  assumes "\<And>n x. f n x = Inr () \<longleftrightarrow> P x"
  shows "each_indexed f n xs = Inr () \<longleftrightarrow> (\<forall>x \<in> set xs. P x)"
  by (induction xs arbitrary: n) (simp_all add: config_simps res_simps assms)

lemma parse_url_ok [config_simps]:
  "parse_url lib fld v schemes = Inr u \<longleftrightarrow> cl_url lib v = Some u \<and> url_ok lib schemes v"
  by (auto simp: parse_url_def url_ok_def list_ex_iff split: option.splits)

lemma url_ok_Some: "url_ok lib schemes v \<Longrightarrow> \<exists>u. cl_url lib v = Some u"
  by (simp add: url_ok_def split: option.splits)

lemma validate_url_ok [config_simps]: "validate_url lib fld v schemes = Inr () \<longleftrightarrow> url_ok lib schemes v"
  by (auto simp: validate_url_def config_simps res_simps dest: url_ok_Some)

lemma cidr_or_ip_ok [config_simps]: "validate_cidr_or_ip lib fld v = Inr () \<longleftrightarrow> cidr_ok lib v"
  by (auto simp: validate_cidr_or_ip_def cidr_ok_def Let_def isl_def res_simps) (metis sum.exhaust)+

lemma cidrs_ok [config_simps]: "validate_cidrs lib fld cs = Inr () \<longleftrightarrow> (\<forall>c \<in> set cs. cidr_ok lib c)"
  unfolding validate_cidrs_def by (rule each_indexed_ok) (simp add: config_simps res_simps)

lemma admin_emails_from:
  "validate_admin_emails n earlier es = Inr () \<longleftrightarrow> emails_ok es \<and> set es \<inter> set earlier = {}"
  by (induction es arbitrary: n earlier) (auto simp: emails_ok_def)

lemma admin_emails_ok [config_simps]: "validate_admin_emails n [] es = Inr () \<longleftrightarrow> emails_ok es"
  by (simp add: admin_emails_from)

lemma subject_check_ok [config_simps]: "subject_strategy_check prefix s = Inr () \<longleftrightarrow> subject_ok s"
  by (auto simp: subject_strategy_check_def subject_ok_def Let_def config_simps res_simps)

lemma redirect_check_ok [config_simps]:
  "redirect_check lib prefix i v = Inr () \<longleftrightarrow>
     url_ok lib [''http'', ''https''] v \<and> map_option cu_path (cl_url lib v) = Some (''/auth/'' @ i @ ''/callback'')"
  by (auto simp: redirect_check_def Let_def config_simps res_simps)

lemma identity_provider_ok [config_simps]: "validate_identity_provider lib i p = Inr () \<longleftrightarrow> provider_ok lib i p"
  unfolding validate_identity_provider_def Let_def checks_ok provider_ok_def
  by (simp add: config_simps res_simps list_ex_iff) (intro iffI; elim conjE; simp)

lemma identity_providers_ok [config_simps]: "validate_identity_providers lib ips = Inr () \<longleftrightarrow> providers_ok lib ips"
proof -
  have each: "checks (map (\<lambda>(i, p). validate_identity_provider lib i p) ps) = Inr () \<longleftrightarrow> (\<forall>(i, p) \<in> set ps. provider_ok lib i p)" for ps
    by (auto simp: checks_ok config_simps res_simps)
  have none: "map_of ps d = None \<longleftrightarrow> d \<notin> fst ` set ps" for ps :: "(string \<times> IdentityProviderConfig) list" and d
    by (simp add: map_of_eq_None_iff)
  show ?thesis
    by (auto simp: validate_identity_providers_def providers_ok_def each none config_simps res_simps split: option.splits)
qed

lemma remote_check_ok [config_simps]:
  "remote_check lib cfg = Inr () \<longleftrightarrow> remote_ok lib (lo_default_remote_url (cf_lore cfg)) (jc_audience (cf_jwt cfg))"
  by (cases "cl_url lib (lo_default_remote_url (cf_lore cfg))")
    (auto simp: remote_check_def remote_ok_def list_ex_iff config_simps res_simps dest: url_ok_Some split: option.splits)

lemma validate_exact: "Config_validate lib cfg = Inr () \<longleftrightarrow> config_ok lib cfg"
proof -
  have audience: "each_indexed (\<lambda>n a. reject_if (trim a = []) (indexed fld n rest)) 0 as = Inr () \<longleftrightarrow> (\<forall>a \<in> set as. trim a \<noteq> [])" for fld rest as
    by (rule each_indexed_ok) (simp add: config_simps res_simps)
  show ?thesis
    unfolding Config_validate_def config_ok_def Let_def checks_ok
    by (simp add: config_simps res_simps audience not_le)
      (intro conjI impI iffI; elim conjE; (assumption | simp | blast))
qed

text \<open>C35: The configuration is loaded exactly if the file can be read and parsed and what the defaults
  complete satisfies the rules: required settings are there, URLs are absolute with an allowed
  scheme, lifetimes are positive, a default remote is in the token audience, gRPC has both TLS files or
  none, addresses and administrators are well formed, and the identity providers, one of them the
  default, come back to their own callback with a stable subject.\<close>

theorem config_loads_exactly:
  "load_config lib path = Inr cfg \<longleftrightarrow>
     (\<exists>raw yaml. cl_read_file lib path = Inr raw \<and> cl_yaml lib raw = Inr yaml \<and> cfg = apply_defaults yaml \<and> config_ok lib cfg)"
proof -
  have "load_config lib path = Inr cfg \<longleftrightarrow>
      (\<exists>raw yaml. cl_read_file lib path = Inr raw \<and> cl_yaml lib raw = Inr yaml \<and>
         Config_validate lib (apply_defaults yaml) = Inr () \<and> apply_defaults yaml = cfg)"
    unfolding load_config_def Let_def by (simp add: res_simps)
  also have "\<dots> \<longleftrightarrow>
      (\<exists>raw yaml. cl_read_file lib path = Inr raw \<and> cl_yaml lib raw = Inr yaml \<and> cfg = apply_defaults yaml \<and> config_ok lib cfg)"
    unfolding validate_exact by blast
  finally show ?thesis .
qed

lemma loaded_config:
  assumes "load_config lib path = Inr cfg"
  obtains raw yaml where "cl_yaml lib raw = Inr yaml" "cfg = apply_defaults yaml" "config_ok lib cfg"
proof -
  from assms obtain raw yaml where *: "cl_yaml lib raw = Inr yaml" "Config_validate lib (apply_defaults yaml) = Inr ()" "cfg = apply_defaults yaml"
    by (auto simp: load_config_def Let_def res_simps)
  then show thesis using that validate_exact by blast
qed

section \<open>Defaults are complete\<close>

lemma defaults_simps [simp]:
  "default_server (default_server v) = default_server v" "sv_public_base_url (default_server v) = sv_public_base_url v"
  "default_security (default_security sec) = default_security sec"
  "default_provider_fields (default_provider_fields p) = default_provider_fields p"
  by (simp_all add: default_server_def default_security_def default_provider_fields_def Let_def)

text \<open>Completing a configuration twice changes nothing more, so what was loaded names every setting.\<close>

lemma apply_defaults_idem: "apply_defaults (apply_defaults cfg) = apply_defaults cfg"
  by (simp add: apply_defaults_def case_prod_unfold o_def)

lemma loaded_admin_emails:
  assumes "load_config lib path = Inr cfg" "e \<in> set (as_admin_emails (cf_admin cfg))"
  shows "normalize_email e = e \<and> e \<noteq> [] \<and> CHR ''@'' \<in> set e"
proof -
  from loaded_config [OF assms(1)] obtain yaml where yaml: "cfg = apply_defaults yaml" "config_ok lib cfg" by blast
  have "normalize_email e = e" using assms(2) yaml(1) by (auto simp: apply_defaults_def)
  with assms(2) yaml(2) show ?thesis by (auto simp: config_ok_def Let_def emails_ok_def)
qed

section \<open>Addresses\<close>

text \<open>A single address is a prefix of full length, which the address library accepts.\<close>

definition nets_ok :: "'n IpNets \<Rightarrow> bool" where
  "nets_ok nets \<longleftrightarrow> (\<forall>a. \<not> isl (in_new nets a (case a of V4 _ \<Rightarrow> 32 | V6 _ \<Rightarrow> 128)))"

lemma cidr_parses:
  assumes "cidr_ok lib v" "nets_ok (cl_nets lib)"
  shows "\<exists>n. parse_allowed_peer_cidr (cl_nets lib) v = Inr n"
proof (cases "CHR ''/'' \<in> set (trim v)")
  case True
  with assms(1) show ?thesis
    by (cases "in_parse_net (cl_nets lib) (trim v)") (simp_all add: cidr_ok_def parse_allowed_peer_cidr_def Let_def)
next
  case False
  with assms(1) obtain a where a: "in_parse_addr (cl_nets lib) (trim v) = Inr a"
    by (cases "in_parse_addr (cl_nets lib) (trim v)") (auto simp: cidr_ok_def)
  from assms(2) obtain n where "in_new (cl_nets lib) a (case a of V4 _ \<Rightarrow> 32 | V6 _ \<Rightarrow> 128) = Inr n"
    unfolding nets_ok_def by (metis isl_def sum.exhaust)
  with False assms(1) a show ?thesis by (auto simp: cidr_ok_def parse_allowed_peer_cidr_def Let_def)
qed

lemma cidrs_parse_from:
  assumes "\<forall>c \<in> set cs. cidr_ok lib c" "nets_ok (cl_nets lib)"
  shows "\<exists>ns. parse_cidrs_from (cl_nets lib) k cs = Inr ns"
  using assms(1)
proof (induction cs arbitrary: k)
  case (Cons c cs)
  from Cons.prems cidr_parses [OF _ assms(2)] obtain n where "parse_allowed_peer_cidr (cl_nets lib) c = Inr n" by auto
  with Cons show ?case by (force simp: res_simps)
qed simp

lemma cidrs_parse:
  "\<forall>c \<in> set cs. cidr_ok lib c \<Longrightarrow> nets_ok (cl_nets lib) \<Longrightarrow> \<exists>ns. parse_allowed_peer_cidrs (cl_nets lib) cs = Inr ns"
  unfolding parse_allowed_peer_cidrs_def by (rule cidrs_parse_from)

end
