(* ===== verification/Oidc.thy ===== *)
theory Oidc
  imports Server_Config Http_Server Providers Rs256
begin

text \<open>
  The OpenID Connect identity provider (\<open>adapters/src/oidc.rs\<close>). The OpenID Connect crate, JSON, base64
  and the Unicode lower case are third-party code: the crate builds the authorization URL, exchanges
  a code at the provider and verifies the ID token. Theorems: what an accepted login shows about the
  verified token, and that the PKCE verifier of a login is the one of its challenge.
\<close>

section \<open>Third-party code\<close>

datatype Value =
    Value_Null
  | Value_Bool bool
  | Value_Number string
  | Value_String string
  | Value_Array "Value list"
  | Value_Object "(string \<times> Value) list"

text \<open>A URL with its decoded query, and the requests of the crate with what was put into them.\<close>

record OidcUrl =
  ou_base :: string
  ou_query :: "(string \<times> string) list option"

record 'm CoreClient =
  cc_metadata :: 'm
  cc_client_id :: string
  cc_client_secret :: string
  cc_redirect_url :: string

record 'm AuthRequest =
  ar_client :: "'m CoreClient"
  ar_state :: string
  ar_nonce :: string
  ar_scopes :: "string list"
  ar_extra :: "(string \<times> string) list"
  ar_challenge :: "string option"

record 'm TokenRequest =
  tq_client :: "'m CoreClient"
  tq_code :: string
  tq_verifier :: "string option"

text \<open>The claims the crate verified: signature, issuer, audience and times; the check of the nonce is
  passed in by the caller.\<close>

record VerifiedClaims =
  vc_issuer :: string
  vc_subject :: string
  vc_nonce :: "string option"

record PrivateState =
  ps_code_verifier :: "string option"

definition PrivateState_default :: PrivateState where
  "PrivateState_default = \<lparr>ps_code_verifier = None\<rparr>"

text \<open>Answers of the provider may differ from call to call.\<close>

record 'm OidcLib =
  ol_http_client :: "string + unit"
  ol_issuer_url :: "string \<Rightarrow> string + string"
  ol_discover :: "string \<Rightarrow> string + 'm"
  ol_metadata_issuer :: "'m \<Rightarrow> string"
  ol_redirect_url :: "string \<Rightarrow> string + string"
  ol_authorize_url :: "'m AuthRequest \<Rightarrow> OidcUrl"
  ol_url_string :: "OidcUrl \<Rightarrow> string"
  ol_challenge :: "string \<Rightarrow> string"
  ol_exchange_code :: "'m CoreClient \<Rightarrow> string \<Rightarrow> string + unit"
  ol_request :: "nat \<Rightarrow> 'm TokenRequest \<Rightarrow> string + string option"
  ol_verify :: "nat \<Rightarrow> 'm CoreClient \<Rightarrow> string \<Rightarrow> string + VerifiedClaims"
  ol_base64 :: "string \<Rightarrow> string + string"
  ol_json :: "string \<Rightarrow> string + Value"
  ol_state_json :: "PrivateState \<Rightarrow> string + string"
  ol_state_from_json :: "string \<Rightarrow> string + PrivateState"
  ol_to_lowercase :: "string \<Rightarrow> string"

section \<open>Configuration\<close>

definition DEFAULT_SCOPES :: "string list" where
  "DEFAULT_SCOPES = [''openid'', ''email'', ''profile'']"

record OidcConfig =
  oc_provider_id :: string
  oc_profile :: string
  oc_display_name :: string
  oc_issuer :: string
  oc_client_id :: string
  oc_client_secret :: string
  oc_redirect_url :: string
  oc_scopes :: "string list"
  oc_claim_mapping :: "(string \<times> string) list"
  oc_subject_strategy :: string
  oc_required_tenant_id :: string
  oc_email_binding :: string
  oc_pkce :: string
  oc_allowed_email_domains :: "string list"
  oc_allowed_hosted_domains :: "string list"
  oc_personal_accounts :: string

definition from_provider_config :: "string \<Rightarrow> IdentityProviderConfig \<Rightarrow> string \<Rightarrow> OidcConfig" where
  "from_provider_config provider_id provider client_secret =
     \<lparr>oc_provider_id = provider_id, oc_profile = ic_profile provider, oc_display_name = ic_display_name provider,
      oc_issuer = ic_issuer provider, oc_client_id = ic_client_id provider, oc_client_secret = client_secret,
      oc_redirect_url = ic_redirect_url provider, oc_scopes = ic_scopes provider, oc_claim_mapping = ic_claims provider,
      oc_subject_strategy = sj_strategy (ic_subject provider), oc_required_tenant_id = sj_required_tid (ic_subject provider),
      oc_email_binding = tr_email_binding (ic_trust provider), oc_pkce = ic_pkce provider,
      oc_allowed_email_domains = tr_allowed_email_domains (ic_trust provider),
      oc_allowed_hosted_domains = hd_allowed (tr_hosted_domain (ic_trust provider)),
      oc_personal_accounts = tr_personal_accounts (ic_trust provider)\<rparr>"

definition normalized_config :: "OidcConfig \<Rightarrow> OidcConfig core_result" where
  "normalized_config config =
     (let config = config\<lparr>oc_provider_id := trim (oc_provider_id config)\<rparr> in
      if oc_provider_id config = [] then Inl (InvalidArgument [Lit ''oidc: provider id is required'']) else
      let config = config\<lparr>oc_issuer := trim (oc_issuer config)\<rparr> in
      if oc_issuer config = [] then Inl (InvalidArgument [Lit ''oidc: issuer is required'']) else
      let config = config\<lparr>oc_client_id := trim (oc_client_id config)\<rparr> in
      if oc_client_id config = [] then Inl (InvalidArgument [Lit ''oidc: client id is required'']) else
      let config = config\<lparr>oc_profile := trim (oc_profile config), oc_personal_accounts := trim (oc_personal_accounts config)\<rparr> in
      if oc_personal_accounts config \<notin> {[], ''allow'', ''deny''} then
        Inl (InvalidArgument [Lit ''oidc: personal_accounts '', Dbg (oc_personal_accounts config), Lit '' is unknown''])
      else if oc_personal_accounts config \<noteq> [] \<and> oc_profile config \<noteq> ''google'' then
        Inl (InvalidArgument [Lit ''oidc: personal_accounts is only valid for google profile''])
      else Inr config)"

text \<open>Collecting pairs into a \<open>BTreeMap\<close>: a later pair replaces an earlier one with the same key.\<close>

definition copy_claim_mapping :: "(string \<times> string) list \<Rightarrow> (string \<times> string) list" where
  "copy_claim_mapping mapping = fold (\<lambda>(key, value) m. btree_insert (trim key) (trim value) m) mapping []"

fun normalize_domains :: "(string \<Rightarrow> string) \<Rightarrow> string list \<Rightarrow> string list \<Rightarrow> string list" where
  "normalize_domains lower earlier [] = []"
| "normalize_domains lower earlier (value # values) =
     (let value = lower (trim value) in
      if value = [] \<or> value \<in> set earlier then normalize_domains lower earlier values
      else value # normalize_domains lower (value # earlier) values)"

definition normalize_domain_list :: "(string \<Rightarrow> string) \<Rightarrow> string list \<Rightarrow> string list" where
  "normalize_domain_list lower values = normalize_domains lower [] values"

definition display_name_or_default :: "string \<Rightarrow> string \<Rightarrow> string" where
  "display_name_or_default display_name provider_id =
     (let display_name = trim display_name in if display_name = [] then provider_id else display_name)"

definition default_string :: "string \<Rightarrow> string \<Rightarrow> string" where
  "default_string value fallback = (let value = trim value in if value = [] then fallback else value)"

section \<open>The provider\<close>

record 'm OidcProvider =
  op_id :: string
  op_profile :: string
  op_display_name :: string
  op_issuer :: string
  op_client_id :: string
  op_client_secret :: string
  op_redirect_url :: string
  op_scopes :: "string list"
  op_metadata :: 'm
  op_claim_mapping :: "(string \<times> string) list"
  op_subject_strategy :: string
  op_required_tenant_id :: string
  op_email_binding :: string
  op_pkce :: string
  op_allowed_email_domains :: "string list"
  op_allowed_hosted_domains :: "string list"
  op_personal_accounts :: string

definition from_metadata :: "'m OidcLib \<Rightarrow> OidcConfig \<Rightarrow> 'm \<Rightarrow> 'm OidcProvider core_result" where
  "from_metadata lib config metadata =
     and_then (normalized_config config) (\<lambda>config.
     Inr \<lparr>op_id = oc_provider_id config, op_profile = oc_profile config,
          op_display_name = display_name_or_default (oc_display_name config) (oc_provider_id config),
          op_issuer = ol_metadata_issuer lib metadata, op_client_id = oc_client_id config,
          op_client_secret = oc_client_secret config, op_redirect_url = oc_redirect_url config,
          op_scopes = (if oc_scopes config = [] then DEFAULT_SCOPES else oc_scopes config),
          op_metadata = metadata, op_claim_mapping = copy_claim_mapping (oc_claim_mapping config),
          op_subject_strategy = default_string (oc_subject_strategy config) ''oidc_sub'',
          op_required_tenant_id = trim (oc_required_tenant_id config),
          op_email_binding = default_string (oc_email_binding config) ''disabled'',
          op_pkce = trim (oc_pkce config),
          op_allowed_email_domains = normalize_domain_list (ol_to_lowercase lib) (oc_allowed_email_domains config),
          op_allowed_hosted_domains = normalize_domain_list (ol_to_lowercase lib) (oc_allowed_hosted_domains config),
          op_personal_accounts = trim (oc_personal_accounts config)\<rparr>)"

definition oidc_discover :: "'m OidcLib \<Rightarrow> OidcConfig \<Rightarrow> 'm OidcProvider core_result" where
  "oidc_discover lib config =
     and_then (normalized_config config) (\<lambda>config.
     and_then (map_err (\<lambda>err. InvalidArgument [Lit ''oidc: build http client: '', Lit err]) (ol_http_client lib)) (\<lambda>_.
     and_then (map_err (\<lambda>err. InvalidArgument [Lit ''oidc: issuer is not a valid URL: '', Lit err])
       (ol_issuer_url lib (oc_issuer config))) (\<lambda>issuer_url.
     and_then (map_err (\<lambda>err. InvalidArgument [Lit ''oidc: discover provider '', Dbg (oc_issuer config), Lit '': '', Lit err])
       (ol_discover lib issuer_url)) (\<lambda>metadata.
     from_metadata lib config metadata))))"

definition oidc_redirect_url :: "'m OidcLib \<Rightarrow> 'm OidcProvider \<Rightarrow> string core_result" where
  "oidc_redirect_url lib p =
     map_err (\<lambda>err. InvalidArgument [Lit ''oidc: redirect URL is invalid: '', Lit err]) (ol_redirect_url lib (op_redirect_url p))"

definition oidc_client :: "'m OidcLib \<Rightarrow> 'm OidcProvider \<Rightarrow> 'm CoreClient core_result" where
  "oidc_client lib p =
     and_then (oidc_redirect_url lib p) (\<lambda>redirect_url.
     Inr \<lparr>cc_metadata = op_metadata p, cc_client_id = op_client_id p, cc_client_secret = op_client_secret p,
          cc_redirect_url = redirect_url\<rparr>)"

definition oidc_claim :: "'m OidcProvider \<Rightarrow> string \<Rightarrow> string \<Rightarrow> string" where
  "oidc_claim p canonical fallback =
     (case map_of (op_claim_mapping p) canonical of
        Some name \<Rightarrow> if trim name \<noteq> [] then name else fallback
      | None \<Rightarrow> fallback)"

definition string_claim :: "(string \<times> Value) list \<Rightarrow> string \<Rightarrow> string" where
  "string_claim claims name = (case map_of claims name of Some (Value_String v) \<Rightarrow> v | _ \<Rightarrow> [])"

definition bool_claim :: "(string \<times> Value) list \<Rightarrow> string \<Rightarrow> bool" where
  "bool_claim claims name =
     (case map_of claims name of
        Some (Value_Bool v) \<Rightarrow> v
      | Some (Value_String v) \<Rightarrow> eq_ignore_ascii_case (trim v) ''true''
      | _ \<Rightarrow> False)"

definition oidc_subject :: "'m OidcProvider \<Rightarrow> (string \<times> Value) list \<Rightarrow> string \<Rightarrow> string core_result" where
  "oidc_subject p claims subject =
     (let strategy = op_subject_strategy p in
      if strategy \<in> {[], ''oidc_sub''} then Inr subject
      else if strategy = ''entra_oid_tid'' then
        let tid = string_claim claims ''tid'' in
        if op_required_tenant_id p \<noteq> [] \<and> tid \<noteq> op_required_tenant_id p then Inl PermissionDenied
        else
          let oid = string_claim claims ''oid'' in
          if tid = [] \<or> oid = [] then Inl (InvalidArgument [Lit ''oidc: entra_oid_tid requires tid and oid claims''])
          else Inr (tid @ '':'' @ oid)
      else Inl (InvalidArgument [Lit ''oidc: unsupported subject strategy '', Dbg strategy]))"

definition validate_hosted_domain :: "'m OidcLib \<Rightarrow> 'm OidcProvider \<Rightarrow> ExternalIdentity \<Rightarrow> unit core_result" where
  "validate_hosted_domain lib p identity =
     (let hosted_domain = ol_to_lowercase lib (trim (ei_hosted_domain identity)) in
      if op_allowed_hosted_domains p \<noteq> [] then
        (if hosted_domain \<notin> set (op_allowed_hosted_domains p) then Inl PermissionDenied else Inr ())
      else if hosted_domain = [] \<and> op_personal_accounts p = ''deny'' then Inl PermissionDenied
      else Inr ())"

definition validate_trust :: "'m OidcLib \<Rightarrow> 'm OidcProvider \<Rightarrow> ExternalIdentity \<Rightarrow> unit core_result" where
  "validate_trust lib p identity = (if op_profile p = ''google'' then validate_hosted_domain lib p identity else Inr ())"

definition token_exchange_verifier :: "'m OidcLib \<Rightarrow> 'm OidcProvider \<Rightarrow> string \<Rightarrow> string option core_result" where
  "token_exchange_verifier lib p raw_private_state =
     (let missing = (if op_pkce p = ''required'' then Inl (InvalidArgument [Lit ''oidc: pkce code_verifier missing'']) else Inr None) in
      if raw_private_state = [] then missing
      else
        and_then (map_err (\<lambda>err. InvalidArgument [Lit ''oidc: decode private state: '', Lit err])
          (ol_state_from_json lib raw_private_state)) (\<lambda>private_state.
        let verifier = (case ps_code_verifier private_state of Some v \<Rightarrow> v | None \<Rightarrow> []) in
        if verifier = [] then missing else Inr (Some verifier)))"

definition oidc_descriptor :: "'m OidcProvider \<Rightarrow> IdentityProviderDescriptor" where
  "oidc_descriptor p =
     \<lparr>ipd_id = op_id p, ipd_provider_type = ''oidc'', ipd_display_name = op_display_name p, ipd_issuer = op_issuer p,
      ipd_trust_policy = \<lparr>ltp_email_binding = op_email_binding p, ltp_allowed_email_domains = op_allowed_email_domains p\<rparr>\<rparr>"

section \<open>Logins\<close>

text \<open>The query is read, cleared and written again from the pairs that are kept.\<close>

definition query_pairs :: "OidcUrl \<Rightarrow> (string \<times> string) list" where
  "query_pairs url = (case ou_query url of Some pairs \<Rightarrow> pairs | None \<Rightarrow> [])"

definition remove_query_param :: "OidcUrl \<Rightarrow> string \<Rightarrow> OidcUrl" where
  "remove_query_param url key =
     (let pairs = filter (\<lambda>(name, _). name \<noteq> key) (query_pairs url);
          url = url\<lparr>ou_query := None\<rparr>;
          url = url\<lparr>ou_query := Some []\<rparr> in
      fold (\<lambda>pair url. url\<lparr>ou_query := Some (query_pairs url @ [pair])\<rparr>) pairs url)"

text \<open>The request as it is handed to the crate: \<open>verifier\<close> is the random verifier if PKCE is required.\<close>

definition auth_request :: "'m OidcLib \<Rightarrow> 'm OidcProvider \<Rightarrow> 'm CoreClient \<Rightarrow> string \<Rightarrow> BeginAuthRequest \<Rightarrow> 'm AuthRequest" where
  "auth_request lib p client verifier req =
     \<lparr>ar_client = client, ar_state = bq_state req, ar_nonce = bq_nonce req,
      ar_scopes = filter (\<lambda>scope. scope \<noteq> ''openid'') (op_scopes p),
      ar_extra = (if bq_login_hint req \<noteq> [] then [(''login_hint'', bq_login_hint req)] else []),
      ar_challenge = (if op_pkce p = ''required'' then Some (ol_challenge lib verifier) else None)\<rparr>"

definition oidc_begin_auth :: "'m OidcLib \<Rightarrow> 'm OidcProvider \<Rightarrow> string \<Rightarrow> BeginAuthRequest \<Rightarrow> BeginAuthResult core_result" where
  "oidc_begin_auth lib p fresh req =
     and_then (oidc_client lib p) (\<lambda>client.
     let private_state = (if op_pkce p = ''required'' then PrivateState_default\<lparr>ps_code_verifier := Some fresh\<rparr> else PrivateState_default);
         redirect_url = ol_authorize_url lib (auth_request lib p client fresh req);
         redirect_url = (if bq_nonce req = [] then remove_query_param redirect_url ''nonce'' else redirect_url) in
     and_then
       (if ps_code_verifier private_state \<noteq> None
        then map_err (\<lambda>err. InvalidArgument [Lit ''oidc: encode private state: '', Lit err]) (ol_state_json lib private_state)
        else Inr []) (\<lambda>raw_private_state.
     Inr \<lparr>ba_redirect_url = ol_url_string lib redirect_url, ba_private_state = raw_private_state\<rparr>))"

definition nonce_check :: "string \<Rightarrow> string option \<Rightarrow> string + unit" where
  "nonce_check expected_nonce actual_nonce =
     (if expected_nonce = [] then Inr ()
      else case actual_nonce of
        Some actual \<Rightarrow> if actual = expected_nonce then Inr () else Inl ''oidc: id token nonce mismatch''
      | None \<Rightarrow> Inl ''oidc: id token nonce mismatch'')"

text \<open>\<open>IdToken::claims\<close> of the crate: its own checks and the one of the caller.\<close>

definition id_token_claims ::
  "'m OidcLib \<Rightarrow> nat \<Rightarrow> 'm CoreClient \<Rightarrow> string \<Rightarrow> (string option \<Rightarrow> string + unit) \<Rightarrow> string + VerifiedClaims" where
  "id_token_claims lib call client id_token nonce_verifier =
     and_then (ol_verify lib call client id_token) (\<lambda>claims.
     and_then (nonce_verifier (vc_nonce claims)) (\<lambda>_. Inr claims))"

definition jwt_claims :: "'m OidcLib \<Rightarrow> string \<Rightarrow> (string \<times> Value) list core_result" where
  "jwt_claims lib raw_id_token =
     (case split_dots raw_id_token of
        _ # payload # _ \<Rightarrow>
          and_then (map_err (\<lambda>err. InvalidArgument [Lit ''oidc: decode id token: '', Lit err]) (ol_base64 lib payload)) (\<lambda>raw.
          and_then (map_err (\<lambda>err. InvalidArgument [Lit ''oidc: decode id token claims: '', Lit err]) (ol_json lib raw)) (\<lambda>value.
          case value of
            Value_Object claims \<Rightarrow> Inr claims
          | _ \<Rightarrow> Inl (InvalidArgument [Lit ''oidc: id token claims must be object''])))
      | _ \<Rightarrow> Inl (InvalidArgument [Lit ''oidc: malformed id token'']))"

definition oidc_identity :: "'m OidcProvider \<Rightarrow> (string \<times> Value) list \<Rightarrow> string \<Rightarrow> string \<Rightarrow> ExternalIdentity" where
  "oidc_identity p claims issuer subject =
     ExternalIdentity_default\<lparr>ei_provider_id := op_id p, ei_issuer := issuer, ei_subject := subject,
       ei_subject_strategy := op_subject_strategy p,
       ei_email := string_claim claims (oidc_claim p ''email'' ''email''),
       ei_email_verified := bool_claim claims (oidc_claim p ''email_verified'' ''email_verified''),
       ei_display_name := string_claim claims (oidc_claim p ''name'' ''name''),
       ei_picture_url := string_claim claims (oidc_claim p ''picture'' ''picture''),
       ei_hosted_domain := string_claim claims (oidc_claim p ''hosted_domain'' ''hd'')\<rparr>"

definition oidc_complete_auth :: "'m OidcLib \<Rightarrow> 'm OidcProvider \<Rightarrow> nat \<Rightarrow> CompleteAuthRequest \<Rightarrow> ExternalIdentity core_result" where
  "oidc_complete_auth lib p call req =
     and_then (oidc_client lib p) (\<lambda>client.
     and_then (map_err (\<lambda>err. InvalidArgument [Lit ''oidc: exchange code: '', Lit err]) (ol_exchange_code lib client (cq_code req))) (\<lambda>_.
     and_then (token_exchange_verifier lib p (cq_private_state req)) (\<lambda>verifier.
     and_then (map_err (\<lambda>_. Unauthenticated)
       (ol_request lib call \<lparr>tq_client = client, tq_code = cq_code req, tq_verifier = verifier\<rparr>)) (\<lambda>token_response.
     and_then (ok_or Unauthenticated token_response) (\<lambda>raw_id_token.
     and_then (map_err (\<lambda>_. Unauthenticated) (id_token_claims lib call client raw_id_token (nonce_check (cq_nonce req)))) (\<lambda>verified_claims.
     and_then (jwt_claims lib raw_id_token) (\<lambda>raw_claims.
     and_then (oidc_subject p raw_claims (vc_subject verified_claims)) (\<lambda>subject.
     let identity = oidc_identity p raw_claims (vc_issuer verified_claims) subject in
     and_then (validate_trust lib p identity) (\<lambda>_.
     Inr identity)))))))))"

section \<open>What an accepted login shows\<close>

text \<open>The subject of an identity: the verified subject of the token, or tenant and object of an Entra
  account in the required tenant.\<close>

definition subject_rule :: "'m OidcProvider \<Rightarrow> (string \<times> Value) list \<Rightarrow> string \<Rightarrow> string \<Rightarrow> bool" where
  "subject_rule p claims verified subject \<longleftrightarrow>
     op_subject_strategy p \<in> {[], ''oidc_sub''} \<and> subject = verified \<or>
     op_subject_strategy p = ''entra_oid_tid'' \<and> string_claim claims ''tid'' \<noteq> [] \<and> string_claim claims ''oid'' \<noteq> [] \<and>
       (op_required_tenant_id p = [] \<or> string_claim claims ''tid'' = op_required_tenant_id p) \<and>
       subject = string_claim claims ''tid'' @ '':'' @ string_claim claims ''oid''"

definition domain_trusted :: "'m OidcLib \<Rightarrow> 'm OidcProvider \<Rightarrow> string \<Rightarrow> bool" where
  "domain_trusted lib p domain \<longleftrightarrow>
     op_profile p \<noteq> ''google'' \<or>
     (if op_allowed_hosted_domains p \<noteq> [] then ol_to_lowercase lib (trim domain) \<in> set (op_allowed_hosted_domains p)
      else op_personal_accounts p = ''deny'' \<longrightarrow> ol_to_lowercase lib (trim domain) \<noteq> [])"

lemma subject_ok_iff: "oidc_subject p claims verified = Inr subject \<longleftrightarrow> subject_rule p claims verified subject"
  by (auto simp: oidc_subject_def subject_rule_def Let_def)

lemma trust_ok_iff: "validate_trust lib p identity = Inr () \<longleftrightarrow> domain_trusted lib p (ei_hosted_domain identity)"
  by (auto simp: validate_trust_def validate_hosted_domain_def domain_trusted_def Let_def)

lemma nonce_ok_iff: "nonce_check expected actual = Inr () \<longleftrightarrow> expected = [] \<or> actual = Some expected"
  by (auto simp: nonce_check_def split: option.splits)

lemma verifier_required:
  "token_exchange_verifier lib p raw = Inr v \<Longrightarrow> op_pkce p = ''required'' \<Longrightarrow> \<exists>x. v = Some x \<and> x \<noteq> []"
  by (auto simp: token_exchange_verifier_def Let_def res_simps split: if_splits option.splits)

text \<open>C33: A login at an OpenID Connect provider is accepted exactly if the provider answers the exchange
  of the code with an ID token that the client accepts, that carries the nonce of this login if there
  is one, whose claims give a subject by the configured strategy (for Entra one of the required
  tenant) and, for Google, a hosted domain that is trusted; the identity then names this provider, the
  verified issuer and that subject.\<close>

theorem oidc_login_exact:
  "oidc_complete_auth lib p call req = Inr identity \<longleftrightarrow>
     (\<exists>client verifier token verified claims subject.
        oidc_client lib p = Inr client \<and> ol_exchange_code lib client (cq_code req) = Inr () \<and>
        token_exchange_verifier lib p (cq_private_state req) = Inr verifier \<and>
        ol_request lib call \<lparr>tq_client = client, tq_code = cq_code req, tq_verifier = verifier\<rparr> = Inr (Some token) \<and>
        ol_verify lib call client token = Inr verified \<and>
        (cq_nonce req = [] \<or> vc_nonce verified = Some (cq_nonce req)) \<and>
        jwt_claims lib token = Inr claims \<and> subject_rule p claims (vc_subject verified) subject \<and>
        domain_trusted lib p (ei_hosted_domain identity) \<and>
        identity = oidc_identity p claims (vc_issuer verified) subject)"
  unfolding oidc_complete_auth_def id_token_claims_def Let_def
  by (simp add: res_simps subject_ok_iff trust_ok_iff nonce_ok_iff) blast

section \<open>PKCE\<close>

text \<open>JSON gives back the private state it was given, and never the empty string.\<close>

definition state_json_ok :: "'m OidcLib \<Rightarrow> bool" where
  "state_json_ok lib \<longleftrightarrow>
     (\<forall>s raw. ol_state_json lib s = Inr raw \<longrightarrow> raw \<noteq> [] \<and> ol_state_from_json lib raw = Inr s)"

lemma begin_private_state:
  assumes "oidc_begin_auth lib p fresh req = Inr result"
  shows "if op_pkce p = ''required'' then ol_state_json lib \<lparr>ps_code_verifier = Some fresh\<rparr> = Inr (ba_private_state result)
    else ba_private_state result = []"
  using assms by (auto simp: oidc_begin_auth_def PrivateState_default_def Let_def res_simps split: if_splits)


section \<open>The authorization request\<close>

lemma append_pairs:
  "fold (\<lambda>pair url. url\<lparr>ou_query := Some (query_pairs url @ [pair])\<rparr>) pairs url =
     (if pairs = [] then url else url\<lparr>ou_query := Some (query_pairs url @ pairs)\<rparr>)"
  by (induction pairs arbitrary: url) (simp_all add: query_pairs_def)

text \<open>Removing a parameter keeps every other pair of the query in its order.\<close>

lemma remove_query_param_exact:
  "remove_query_param url key = url\<lparr>ou_query := Some (filter (\<lambda>(name, _). name \<noteq> key) (query_pairs url))\<rparr>"
  unfolding remove_query_param_def Let_def append_pairs by (simp add: query_pairs_def)

lemma remove_query_param_gone: "key \<notin> fst ` set (query_pairs (remove_query_param url key))"
  by (auto simp: remove_query_param_exact query_pairs_def)

text \<open>The scope \<open>openid\<close>, which the crate adds itself, is not sent twice.\<close>

lemma openid_once: "''openid'' \<notin> set (ar_scopes (auth_request lib p client fresh req))"
  by (simp add: auth_request_def)

section \<open>Claims and domains\<close>

lemma copy_claim_sorted:
  "sorted (map fst m) \<Longrightarrow> distinct (map fst m) \<Longrightarrow>
    sorted (map fst (fold (\<lambda>(key, value) m. btree_insert (trim key) (trim value) m) kvs m)) \<and>
    distinct (map fst (fold (\<lambda>(key, value) m. btree_insert (trim key) (trim value) m) kvs m))"
  by (induction kvs arbitrary: m) (auto simp: btree_insert_sorted)

lemma normalize_domains_set:
  "set (normalize_domains lower earlier vs) = (lower \<circ> trim) ` set vs - insert [] (set earlier)"
  by (induction vs arbitrary: earlier) (auto simp: Let_def)

lemma normalize_domains_distinct: "distinct (normalize_domains lower earlier vs)"
  by (induction vs arbitrary: earlier) (auto simp: Let_def normalize_domains_set)

lemma normalize_domain_list_exact:
  "set (normalize_domain_list lower vs) = (lower \<circ> trim) ` set vs - {[]}" "distinct (normalize_domain_list lower vs)"
  by (simp_all add: normalize_domain_list_def normalize_domains_set normalize_domains_distinct)

text \<open>In one tenant, two Entra accounts have different subjects.\<close>

lemma entra_subject_injective:
  assumes "op_subject_strategy p = ''entra_oid_tid''" "op_required_tenant_id p \<noteq> []"
    and "subject_rule p claims v s" "subject_rule p claims' v' s"
  shows "string_claim claims ''oid'' = string_claim claims' ''oid''"
  using assms by (auto simp: subject_rule_def)

section \<open>Configured providers\<close>

lemma normalized_config_ok:
  assumes "normalized_config c = Inr d"
  shows "d = c\<lparr>oc_provider_id := trim (oc_provider_id c), oc_issuer := trim (oc_issuer c), oc_client_id := trim (oc_client_id c),
      oc_profile := trim (oc_profile c), oc_personal_accounts := trim (oc_personal_accounts c)\<rparr>"
    and "trim (oc_provider_id c) \<noteq> []"
  using assms by (simp_all add: normalized_config_def Let_def split: if_splits)

lemma discover_descriptor:
  assumes "oidc_discover lib config = Inr p"
  shows "op_id p = trim (oc_provider_id config)" "op_id p \<noteq> []"
    and "op_subject_strategy p = default_string (oc_subject_strategy config) ''oidc_sub''"
    and "op_required_tenant_id p = trim (oc_required_tenant_id config)" "op_pkce p = trim (oc_pkce config)"
    and "op_profile p = trim (oc_profile config)"
proof -
  from assms obtain d m where d: "normalized_config config = Inr d" and m: "from_metadata lib d m = Inr p"
    by (auto simp: oidc_discover_def res_simps)
  from m obtain e where e: "normalized_config d = Inr e" by (auto simp: from_metadata_def res_simps)
  note simps = normalized_config_ok(1) [OF d] normalized_config_ok(1) [OF e]
  from m e show "op_id p = trim (oc_provider_id config)" "op_subject_strategy p = default_string (oc_subject_strategy config) ''oidc_sub''"
    "op_required_tenant_id p = trim (oc_required_tenant_id config)" "op_pkce p = trim (oc_pkce config)"
    "op_profile p = trim (oc_profile config)"
    by (auto simp: from_metadata_def simps)
  with normalized_config_ok(2) [OF d] show "op_id p \<noteq> []" by simp
qed

text \<open>Where the configuration was accepted, a tenant is required of every Entra account, so the subject is
  a stable key in every provider.\<close>

lemma configured_subject:
  assumes "provider_ok lib i c" "oidc_discover olib (from_provider_config i c secret) = Inr p"
  shows "op_subject_strategy p = ''oidc_sub'' \<or> op_subject_strategy p = ''entra_oid_tid'' \<and> op_required_tenant_id p \<noteq> []"
proof -
  from assms(1) have "subject_ok (ic_subject c)" by (simp add: provider_ok_def)
  moreover have "trim ''oidc_sub'' = ''oidc_sub''" "trim ''entra_oid_tid'' = ''entra_oid_tid''" by code_simp+
  ultimately show ?thesis
    using discover_descriptor(3,4) [OF assms(2)] by (auto simp: subject_ok_def from_provider_config_def default_string_def)
qed

end
