(* ===== verification/Server_Startup.thy ===== *)
theory Server_Startup
  imports Oidc Http_Flows
begin

text \<open>
  Starting the server (\<open>server/src/main.rs\<close>): from the configuration file to the services of the other
  theories. Errors are chains of messages, outermost first. Theorems: a loaded configuration cannot
  make the rest of the start fail and determines the settings of the services, and the signing key of
  a started server is the one whose public part is on record.
\<close>

section \<open>Environment\<close>

datatype startup_error = Failed "message list" | Panicked message

definition with_context :: "message \<Rightarrow> startup_error + 'a \<Rightarrow> startup_error + 'a" where
  "with_context m r = map_err (\<lambda>e. case e of Failed ms \<Rightarrow> Failed (m # ms) | Panicked p \<Rightarrow> Panicked p) r"

definition anyhow :: "message \<Rightarrow> startup_error" where
  "anyhow m = Failed [m]"

fun ConfigError_display :: "ConfigError \<Rightarrow> message" where
  "ConfigError_display (ReadError path err) = [Lit ''config: read '', Lit path, Lit '': '', Lit err]"
| "ConfigError_display (ParseError path err) = [Lit ''config: parse '', Lit path, Lit '': '', Lit err]"
| "ConfigError_display (Validate m) = Lit ''config: '' # m"

text \<open>What a start meets: the third-party code, the files, the database that opens, the clock readings
  of the migrations, whether the providers answer in time, and the random verifiers of a provider.\<close>

record ('n, 'm, 'k) Environment =
  en_config :: "'n ConfigLib"
  en_oidc :: "'m OidcLib"
  en_rsa :: "'k RsaTools"
  en_fs :: KeyFs
  en_key_files :: "string \<rightharpoonup> string"
  en_jwt :: "'k \<Rightarrow> Jwt"
  en_json :: "string \<Rightarrow> string + Value"
  en_open :: "string \<Rightarrow> string + Db"
  en_sql_error :: "rusqlite_error \<Rightarrow> string"
  en_clock :: "nat \<Rightarrow> i64"
  en_in_time :: bool
  en_verifier :: "string \<Rightarrow> nat \<Rightarrow> string"
  en_authz_model :: "string + unit"
  en_resolve :: resolver
  en_sha :: "string \<Rightarrow> string"
  en_to_json :: "string list \<Rightarrow> string"
  en_socket_addr :: "string \<Rightarrow> string + string"
  en_bind :: "string \<Rightarrow> string + unit"
  en_read_bytes :: "string \<Rightarrow> string + string"
  en_tls :: "string \<Rightarrow> string \<Rightarrow> string + unit"

section \<open>Settings\<close>

text \<open>\<open>u64::try_from\<close> refuses negative values.\<close>

definition duration_secs :: "i64 \<Rightarrow> string \<Rightarrow> startup_error + duration" where
  "duration_secs value fld =
     (if value < 0 then with_context [Lit fld, Lit '' must be positive''] (Inl (anyhow [Lit ''out of range integral type conversion attempted'']))
      else Inr (duration_from_secs (nat value)))"

definition admin_config :: "('n, 'm, 'k) Environment \<Rightarrow> Config \<Rightarrow> startup_error + 'n AdminConfig" where
  "admin_config env cfg =
     and_then (map_err (\<lambda>err. anyhow [Lit ''startup: parse security.admin_allowed_peer_cidrs: '', Lit err])
       (parse_allowed_peer_cidrs (cl_nets (en_config env)) (se_admin_allowed_peer_cidrs (cf_security cfg)))) (\<lambda>allowed_peer_cidrs.
     Inr \<lparr>ac_admin_emails = as_admin_emails (cf_admin cfg), ac_allowed_peer_cidrs = allowed_peer_cidrs\<rparr>)"

definition rebac_allowed_peer_cidrs :: "('n, 'm, 'k) Environment \<Rightarrow> Config \<Rightarrow> startup_error + 'n list" where
  "rebac_allowed_peer_cidrs env cfg =
     (if se_rebac_allowed_peer_cidrs (cf_security cfg) = [] then
        ok_or (Panicked [Lit ''default ReBAC peer CIDRs must parse'']) (default_allowed_peer_cidrs (cl_nets (en_config env)))
      else
        map_err (\<lambda>err. anyhow [Lit ''startup: parse security.rebac_allowed_peer_cidrs: '', Lit err])
          (parse_allowed_peer_cidrs (cl_nets (en_config env)) (se_rebac_allowed_peer_cidrs (cf_security cfg))))"

definition parse_addr :: "('n, 'm, 'k) Environment \<Rightarrow> string \<Rightarrow> string \<Rightarrow> startup_error + string" where
  "parse_addr env fld value =
     with_context [Lit fld, Lit '' must be a socket address, got '', Dbg value] (map_err (\<lambda>err. anyhow [Lit err]) (en_socket_addr env value))"

section \<open>Identity providers\<close>

definition oidc_provider :: "('n, 'm, 'k) Environment \<Rightarrow> 'm OidcProvider \<Rightarrow> ExternalProvider" where
  "oidc_provider env p =
     \<lparr>xp_descriptor = oidc_descriptor p,
      xp_begin_auth = (\<lambda>call. oidc_begin_auth (en_oidc env) p (en_verifier env (op_id p) call)),
      xp_complete_auth = oidc_complete_auth (en_oidc env) p\<rparr>"

definition read_client_secret :: "('n, 'm, 'k) Environment \<Rightarrow> string \<Rightarrow> IdentityProviderConfig \<Rightarrow> startup_error + string" where
  "read_client_secret env i provider_cfg =
     and_then (with_context [Lit ''startup: read identity_providers.providers['', Dbg i, Lit ''].client_secret_file'']
       (map_err (\<lambda>err. anyhow (ConfigError_display err)) (read_secret_file (en_config env) (ic_client_secret_file provider_cfg)))) (\<lambda>secret.
     if secret = [] then
       Inl (anyhow [Lit ''startup: identity provider '', Dbg i, Lit '' client_secret_file '', Dbg (ic_client_secret_file provider_cfg), Lit '' is empty''])
     else Inr secret)"

definition discover_provider :: "('n, 'm, 'k) Environment \<Rightarrow> string \<Rightarrow> IdentityProviderConfig \<Rightarrow> startup_error + ExternalProvider" where
  "discover_provider env i provider_cfg =
     (if ic_provider_type provider_cfg = ''oidc'' then
        and_then (read_client_secret env i provider_cfg) (\<lambda>secret.
        and_then (with_context [Lit ''startup: initialize identity provider '', Dbg i]
          (map_err (\<lambda>err. anyhow (CoreError_display err)) (oidc_discover (en_oidc env) (from_provider_config i provider_cfg secret)))) (\<lambda>p.
        Inr (oidc_provider env p)))
      else Inl (anyhow [Lit ''startup: unknown identity provider type '', Dbg (ic_provider_type provider_cfg), Lit '' for '', Dbg i]))"

text \<open>The loop over the configured providers; it gives back the providers in the order they were
  registered, and the registry.\<close>

fun register_providers ::
  "('n, 'm, 'k) Environment \<Rightarrow> (string \<times> IdentityProviderConfig) list \<Rightarrow> World Registry \<Rightarrow>
     startup_error + (ExternalProvider list \<times> World Registry)" where
  "register_providers env [] reg = Inr ([], reg)"
| "register_providers env ((i, provider_cfg) # rest) reg =
     and_then (discover_provider env i provider_cfg) (\<lambda>xp.
     and_then (with_context [Lit ''startup: register identity provider '', Dbg i]
       (map_err (\<lambda>err. anyhow (CoreError_display err)) (register (external_provider xp) reg))) (\<lambda>reg.
     and_then (register_providers env rest reg) (\<lambda>(xps, reg).
     Inr (xp # xps, reg))))"

definition default_provider_id :: "Config \<Rightarrow> string" where
  "default_provider_id cfg = (case ips_default (cf_identity_providers cfg) of Some d \<Rightarrow> d | None \<Rightarrow> [])"

definition configured_providers ::
  "('n, 'm, 'k) Environment \<Rightarrow> Config \<Rightarrow> startup_error + (ExternalProvider list \<times> World Registry)" where
  "configured_providers env cfg =
     (let registry = Registry_new (default_provider_id cfg); providers = ips_providers (cf_identity_providers cfg) in
      if providers = [] then Inr ([], registry)
      else if \<not> en_in_time env then
        with_context [Lit ''startup: initialize identity providers timed out''] (Inl (anyhow [Lit ''deadline has elapsed'']))
      else register_providers env providers registry)"

section \<open>The signing key\<close>

definition signing_key_error :: "CoreError \<Rightarrow> startup_error" where
  "signing_key_error err = anyhow [Lit ''signing key unavailable'']"

text \<open>\<open>Value::get\<close> and \<open>Value::as_array\<close>; an object is its entries in the order of the keys.\<close>

definition first_key :: "Value \<Rightarrow> Value option" where
  "first_key v =
     (case v of
        Value_Object entries \<Rightarrow> (case map_of entries ''keys'' of Some (Value_Array (k # _)) \<Rightarrow> Some k | _ \<Rightarrow> None)
      | _ \<Rightarrow> None)"

definition preflight_signer :: "('n, 'm, 'k) Environment \<Rightarrow> Jwt \<Rightarrow> Signer \<Rightarrow> SigningKeyMeta \<Rightarrow> startup_error + unit" where
  "preflight_signer env jwt signer meta =
     and_then (with_context [Lit ''startup: signing key preflight jwks''] (map_err signing_key_error (signer_jwks jwt signer))) (\<lambda>jwks.
     and_then (with_context [Lit ''startup: signing key preflight parse jwks''] (map_err (\<lambda>err. anyhow [Lit err]) (en_json env jwks))) (\<lambda>parsed.
     case first_key parsed of
       None \<Rightarrow> Inl (anyhow [Lit ''startup: signing key preflight produced empty jwks''])
     | Some actual \<Rightarrow>
         if trim (sk_public_jwk_json meta) = [] then Inr ()
         else
           and_then (with_context [Lit ''startup: signing key preflight parse stored public jwk'']
             (map_err (\<lambda>err. anyhow [Lit err]) (en_json env (sk_public_jwk_json meta)))) (\<lambda>expected.
           if actual \<noteq> expected then
             Inl (anyhow [Lit ''startup: active kid '', Dbg (sk_kid meta), Lit '' public jwk does not match private key''])
           else Inr ())))"

definition load_signer :: "('n, 'm, 'k) Environment \<Rightarrow> Config \<Rightarrow> Db \<Rightarrow> startup_error + (Signer \<times> 'k)" where
  "load_signer env cfg db =
     and_then (with_context [Lit ''startup: load active signing key metadata'']
       (map_err signing_key_error (active_signing_key_conn db (jc_active_kid (cf_jwt cfg))))) (\<lambda>meta.
     and_then (with_context [Lit ''startup: load active signing key '', Dbg (sk_kid meta), Lit '' material '', Dbg (sk_private_key_path meta)]
       (map_err (\<lambda>_. anyhow (CoreError_display SigningKeyUnavailable))
         (load_pem (en_rsa env) (en_fs env) (sk_kid meta) (sk_private_key_path meta) \<lparr>ks_files = en_key_files env, ks_db = db\<rparr>))) (\<lambda>(key, material).
     let signer = \<lparr>sg_key = key, sg_verification_time = None\<rparr> in
     and_then (preflight_signer env (en_jwt env material) signer meta) (\<lambda>_.
     Inr (signer, material))))"

section \<open>The service graph\<close>

definition open_database :: "('n, 'm, 'k) Environment \<Rightarrow> Config \<Rightarrow> startup_error + Db" where
  "open_database env cfg =
     (let path = db_path (cf_database cfg) in
      and_then (with_context [Lit ''startup: open database '', Dbg path] (map_err (\<lambda>err. anyhow [Lit err]) (en_open env path))) (\<lambda>db.
      and_then (with_context [Lit ''startup: migrate database '', Dbg path]
        (map_err (\<lambda>err. anyhow [Lit (en_sql_error env err)]) (migrate (en_clock env 0) (en_clock env 1) (en_clock env 2) db))) (\<lambda>(_, db).
      Inr db)))"

definition token_config :: "('n, 'm, 'k) Environment \<Rightarrow> Config \<Rightarrow> startup_error + TokenConfig" where
  "token_config env cfg =
     and_then (with_context [Lit ''startup: public base url host'']
       (map_err (\<lambda>err. anyhow (ConfigError_display err)) (public_host (en_config env) (sv_public_base_url (cf_server cfg))))) (\<lambda>auth_service_audience.
     and_then (duration_secs (jc_ttl_seconds (cf_jwt cfg)) ''jwt.ttl_seconds'') (\<lambda>authn_ttl.
     Inr \<lparr>tc_issuer = jc_issuer (cf_jwt cfg), tc_audience = jc_audience (cf_jwt cfg), tc_auth_service_audience = auth_service_audience,
          tc_authn_ttl = authn_ttl, tc_authz_ttl = duration_from_secs (15 * 60)\<rparr>))"

definition login_config :: "Config \<Rightarrow> startup_error + LoginConfig" where
  "login_config cfg =
     and_then (duration_secs (se_session_ttl_seconds (cf_security cfg)) ''security.session_ttl_seconds'') (\<lambda>session_ttl.
     and_then (duration_secs (se_auth_session_ttl_seconds (cf_security cfg)) ''security.auth_session_ttl_seconds'') (\<lambda>auth_session_ttl.
     Inr \<lparr>lc_public_base_url = sv_public_base_url (cf_server cfg), lc_session_ttl = session_ttl, lc_auth_session_ttl = auth_session_ttl\<rparr>))"

definition device_config :: "Config \<Rightarrow> startup_error + DeviceConfig" where
  "device_config cfg =
     and_then (duration_secs (se_device_code_ttl_seconds (cf_security cfg)) ''security.device_code_ttl_seconds'') (\<lambda>device_code_ttl.
     and_then (duration_secs (se_device_poll_interval_seconds (cf_security cfg)) ''security.device_poll_interval_seconds'') (\<lambda>poll_interval.
     Inr \<lparr>dc_public_base_url = sv_public_base_url (cf_server cfg), dc_auth_url = lo_auth_url (cf_lore cfg),
          dc_device_code_ttl = device_code_ttl, dc_poll_interval = poll_interval\<rparr>))"

definition http_config :: "('n, 'm, 'k) Environment \<Rightarrow> Config \<Rightarrow> startup_error + 'n HttpConfig" where
  "http_config env cfg =
     and_then (duration_secs (se_session_ttl_seconds (cf_security cfg)) ''security.session_ttl_seconds'') (\<lambda>session_ttl.
     and_then (admin_config env cfg) (\<lambda>admin.
     Inr \<lparr>hc_public_base_url = sv_public_base_url (cf_server cfg), hc_lore_auth_url = lo_auth_url (cf_lore cfg),
          hc_default_remote_url = lo_default_remote_url (cf_lore cfg), hc_session_ttl = session_ttl, hc_admin = admin\<rparr>))"

record 'n ServiceGraph =
  gr_setup :: Setup
  gr_http_config :: "'n HttpConfig"
  gr_db :: Db

definition build_graph :: "('n, 'm, 'k) Environment \<Rightarrow> Config \<Rightarrow> startup_error + 'n ServiceGraph" where
  "build_graph env cfg =
     and_then (open_database env cfg) (\<lambda>db.
     and_then (configured_providers env cfg) (\<lambda>(providers, _).
     and_then (load_signer env cfg db) (\<lambda>(signer, material).
     and_then (map_err (\<lambda>err. anyhow [Lit ''startup: initialize rebac authz: '', Lit err]) (en_authz_model env)) (\<lambda>_.
     and_then (token_config env cfg) (\<lambda>token_cfg.
     and_then (login_config cfg) (\<lambda>login_cfg.
     and_then (device_config cfg) (\<lambda>device_cfg.
     and_then (http_config env cfg) (\<lambda>http_cfg.
     Inr \<lparr>gr_setup = \<lparr>st_resolve = en_resolve env, st_jwt = en_jwt env material, st_signer = signer, st_sha = en_sha env,
             st_to_json = en_to_json env, st_providers = providers, st_default_provider = default_provider_id cfg,
             st_token_cfg = token_cfg, st_login_cfg = login_cfg, st_device_cfg = device_cfg\<rparr>,
          gr_http_config = http_cfg, gr_db = db\<rparr>))))))))"

text \<open>The start up to the moment both servers serve.\<close>

definition grpc_tls :: "('n, 'm, 'k) Environment \<Rightarrow> Config \<Rightarrow> startup_error + unit" where
  "grpc_tls env cfg =
     (let cert_file = sv_grpc_tls_cert_file (cf_server cfg); key_file = sv_grpc_tls_key_file (cf_server cfg) in
      if cert_file \<noteq> [] \<or> key_file \<noteq> [] then
        and_then (with_context [Lit ''read gRPC TLS cert '', Dbg cert_file] (map_err (\<lambda>err. anyhow [Lit err]) (en_read_bytes env cert_file))) (\<lambda>cert.
        and_then (with_context [Lit ''read gRPC TLS key '', Dbg key_file] (map_err (\<lambda>err. anyhow [Lit err]) (en_read_bytes env key_file))) (\<lambda>key.
        with_context [Lit ''configure gRPC TLS''] (map_err (\<lambda>err. anyhow [Lit err]) (en_tls env cert key))))
      else Inr ())"

definition server_run :: "('n, 'm, 'k) Environment \<Rightarrow> string \<Rightarrow> startup_error + ('n ServiceGraph \<times> 'n list)" where
  "server_run env config_path =
     and_then (with_context [Lit ''load config '', Dbg config_path]
       (map_err (\<lambda>err. anyhow (ConfigError_display err)) (load_config (en_config env) config_path))) (\<lambda>cfg.
     and_then (build_graph env cfg) (\<lambda>graph.
     and_then (parse_addr env ''server.listen'' (sv_listen (cf_server cfg))) (\<lambda>http_addr.
     and_then (parse_addr env ''server.grpc_listen'' (sv_grpc_listen (cf_server cfg))) (\<lambda>grpc_addr.
     and_then (with_context [Lit ''bind HTTP listener '', Lit http_addr] (map_err (\<lambda>err. anyhow [Lit err]) (en_bind env http_addr))) (\<lambda>_.
     and_then (rebac_allowed_peer_cidrs env cfg) (\<lambda>cidrs.
     and_then (grpc_tls env cfg) (\<lambda>_.
     Inr (graph, cidrs))))))))"

section \<open>Providers of a loaded configuration\<close>

lemma with_context_ok [res_simps]: "with_context m r = Inr y \<longleftrightarrow> r = Inr y"
  by (simp add: with_context_def res_simps)

text \<open>A \<open>BTreeMap\<close> has every key once.\<close>

definition yaml_ok :: "'n ConfigLib \<Rightarrow> bool" where
  "yaml_ok lib \<longleftrightarrow>
     (\<forall>raw cfg. cl_yaml lib raw = Inr cfg \<longrightarrow> distinct (map fst (ips_providers (cf_identity_providers cfg))))"

lemma provider_id_trim: "PROVIDER_ID_PATTERN i \<Longrightarrow> trim i = i \<and> i \<noteq> []"
  by (cases i) (auto simp: list_all_iff provider_id_byte_def repository_id_byte_def intro!: trim_repository_id)

lemma discovered_id:
  assumes "provider_ok lib i c" "discover_provider env i c = Inr xp"
  shows "ipd_id (xp_descriptor xp) = i" "i \<noteq> []"
proof -
  from assms(1) have i: "trim i = i" "i \<noteq> []" using provider_id_trim by (auto simp: provider_ok_def)
  from assms obtain secret p where "oidc_discover (en_oidc env) (from_provider_config i c secret) = Inr p" "xp = oidc_provider env p"
    by (auto simp: discover_provider_def provider_ok_def res_simps)
  with discover_descriptor(1) [of "en_oidc env" "from_provider_config i c secret" p] i
  show "ipd_id (xp_descriptor xp) = i" "i \<noteq> []" by (simp_all add: oidc_provider_def oidc_descriptor_def from_provider_config_def)
qed

lemma register_new:
  assumes "registry_ok reg" "ipd_id (ip_descriptor p) \<noteq> []" "registry_get reg (ipd_id (ip_descriptor p)) = None"
  obtains reg' where "register p reg = Inr reg'" "registry_ok reg'" "rg_default_id reg' = rg_default_id reg"
    "registry_get reg' = (registry_get reg)(ipd_id (ip_descriptor p) \<mapsto> p)"
  using register_type [OF assms(1), of "[]" p] assms(2,3) by (cases "register p reg") auto

lemma register_providers_ok:
  assumes "\<forall>(i, c) \<in> set ps. provider_ok lib i c" "distinct (map fst ps)" "registry_ok reg" "\<forall>i \<in> fst ` set ps. registry_get reg i = None"
    and "\<forall>(i, c) \<in> set ps. \<exists>xp. discover_provider env i c = Inr xp"
  shows "\<exists>xps reg'. register_providers env ps reg = Inr (xps, reg') \<and> register_all xps reg = Inr reg' \<and> registry_ok reg' \<and>
    rg_default_id reg' = rg_default_id reg \<and> dom (registry_get reg') = dom (registry_get reg) \<union> fst ` set ps"
  using assms
proof (induction ps arbitrary: reg)
  case (Cons ic ps)
  obtain i c where ic: "ic = (i, c)" by (cases ic)
  from Cons.prems(5) ic obtain xp where xp: "discover_provider env i c = Inr xp" by auto
  from Cons.prems(1) ic discovered_id [OF _ xp] have i: "ipd_id (ip_descriptor (external_provider xp)) = i" "i \<noteq> []"
    by (auto simp: external_provider_def)
  from Cons.prems(4) ic have "registry_get reg i = None" by simp
  with register_new [OF Cons.prems(3), of "external_provider xp"] i obtain reg1 where
    reg1: "register (external_provider xp) reg = Inr reg1" "registry_ok reg1" "rg_default_id reg1 = rg_default_id reg"
      "registry_get reg1 = (registry_get reg)(i \<mapsto> external_provider xp)" by metis
  from Cons.prems(2,4) ic reg1(4) have "\<forall>j \<in> fst ` set ps. registry_get reg1 j = None" by auto
  with Cons.prems ic reg1(2) obtain xps reg' where
    "register_providers env ps reg1 = Inr (xps, reg')" "register_all xps reg1 = Inr reg'" "registry_ok reg'"
      "rg_default_id reg' = rg_default_id reg1" "dom (registry_get reg') = dom (registry_get reg1) \<union> fst ` set ps"
    using Cons.IH [of reg1] by auto
  with ic xp reg1 show ?case by (auto simp: res_simps)
qed simp

lemma register_providers_discovered:
  "register_providers env ps reg = Inr r \<Longrightarrow> \<forall>(i, c) \<in> set ps. \<exists>xp. discover_provider env i c = Inr xp"
proof (induction ps arbitrary: reg r)
  case (Cons ic ps)
  then show ?case by (cases ic) (fastforce simp: res_simps)
qed simp

lemma loaded_providers:
  assumes "yaml_ok lib" "load_config lib path = Inr cfg"
  shows "distinct (map fst (ips_providers (cf_identity_providers cfg)))"
    and "\<forall>(i, c) \<in> set (ips_providers (cf_identity_providers cfg)). provider_ok lib i c"
    and "ips_providers (cf_identity_providers cfg) \<noteq> [] \<Longrightarrow>
      default_provider_id cfg \<in> fst ` set (ips_providers (cf_identity_providers cfg))"
proof -
  from loaded_config [OF assms(2)] obtain raw yaml where
    yaml: "cl_yaml lib raw = Inr yaml" "cfg = apply_defaults yaml" "config_ok lib cfg" .
  with assms(1) show "distinct (map fst (ips_providers (cf_identity_providers cfg)))"
    by (auto simp: yaml_ok_def apply_defaults_def o_def case_prod_unfold)
  from yaml(3) have ok: "providers_ok lib (cf_identity_providers cfg)" by (simp add: config_ok_def Let_def)
  then show "\<forall>(i, c) \<in> set (ips_providers (cf_identity_providers cfg)). provider_ok lib i c"
    by (auto simp: providers_ok_def)
  assume "ips_providers (cf_identity_providers cfg) \<noteq> []"
  with ok show "default_provider_id cfg \<in> fst ` set (ips_providers (cf_identity_providers cfg))"
    by (auto simp: providers_ok_def default_provider_id_def split: option.splits if_splits)
qed

lemma Registry_new_ok: "registry_ok (Registry_new d)" "registry_get (Registry_new d) i = None" "rg_default_id (Registry_new d) = d"
  by (simp_all add: registry_ok_def Registry_new_def registry_get_def)

lemma configured_registry:
  assumes "yaml_ok (en_config env)" "load_config (en_config env) path = Inr cfg" "en_in_time env"
    and "\<forall>(i, c) \<in> set (ips_providers (cf_identity_providers cfg)). \<exists>xp. discover_provider env i c = Inr xp"
  shows "\<exists>xps reg. configured_providers env cfg = Inr (xps, reg) \<and> register_all xps (Registry_new (default_provider_id cfg)) = Inr reg \<and>
    registry_ok reg \<and> rg_default_id reg = default_provider_id cfg \<and>
    dom (registry_get reg) = fst ` set (ips_providers (cf_identity_providers cfg))"
proof -
  note loaded = loaded_providers [OF assms(1,2)]
  have "dom (registry_get (Registry_new d)) = {}" for d by (auto simp: Registry_new_ok)
  with register_providers_ok [OF loaded(2,1) _ _ assms(4), of "Registry_new (default_provider_id cfg)"] assms(3) show ?thesis
    unfolding configured_providers_def Let_def by (auto simp: Registry_new_ok)
qed

lemma configured_discovered:
  assumes "configured_providers env cfg = Inr r" "ips_providers (cf_identity_providers cfg) \<noteq> []"
  shows "en_in_time env" "\<forall>(i, c) \<in> set (ips_providers (cf_identity_providers cfg)). \<exists>xp. discover_provider env i c = Inr xp"
  using assms register_providers_discovered [of env "ips_providers (cf_identity_providers cfg)"]
  by (auto simp: configured_providers_def Let_def with_context_def split: if_splits)

text \<open>C37: A started server has a well-formed registry of its identity providers: a sorted map that holds
  exactly the configured providers under their configured ids, and the default provider is one of
  them if any provider is configured.\<close>

theorem started_registry:
  assumes "yaml_ok (en_config env)" "load_config (en_config env) path = Inr cfg" "build_graph env cfg = Inr graph"
  shows "\<exists>reg. build_identity_providers (gr_setup graph) = Inr reg \<and> registry_ok reg \<and>
    dom (registry_get reg) = fst ` set (ips_providers (cf_identity_providers cfg)) \<and>
    (ips_providers (cf_identity_providers cfg) = [] \<or> registry_get reg (rg_default_id reg) \<noteq> None)"
proof -
  from assms(3) obtain xps reg where conf: "configured_providers env cfg = Inr (xps, reg)"
    and graph: "st_providers (gr_setup graph) = xps" "st_default_provider (gr_setup graph) = default_provider_id cfg"
    by (auto simp: build_graph_def res_simps)
  show ?thesis
  proof (cases "ips_providers (cf_identity_providers cfg) = []")
    case True
    with conf graph show ?thesis
      by (auto simp: configured_providers_def build_identity_providers_def Registry_new_ok)
  next
    case False
    obtain xps' reg' where "configured_providers env cfg = Inr (xps', reg')"
      and reg': "register_all xps' (Registry_new (default_provider_id cfg)) = Inr reg'" "registry_ok reg'"
      "rg_default_id reg' = default_provider_id cfg" "dom (registry_get reg') = fst ` set (ips_providers (cf_identity_providers cfg))"
      using configured_registry [OF assms(1,2) configured_discovered [OF conf False]] by blast
    with conf have "xps' = xps" "reg' = reg" by simp_all
    note reg = reg' [unfolded this]
    from loaded_providers(3) [OF assms(1,2) False] have "default_provider_id cfg \<in> dom (registry_get reg)" by (simp only: reg(4))
    then have "registry_get reg (rg_default_id reg) \<noteq> None" by (auto simp: reg(3))
    with reg show ?thesis using graph by (simp add: build_identity_providers_def)
  qed
qed

section \<open>A loaded configuration starts\<close>

text \<open>The URL library: a URL that shows a host has one.\<close>

definition url_hosts_ok :: "'n ConfigLib \<Rightarrow> bool" where
  "url_hosts_ok lib \<longleftrightarrow> (\<forall>v u. cl_url lib v = Some u \<longrightarrow> cu_host_str u \<noteq> None \<longrightarrow> cu_host u \<noteq> None)"

lemma duration_secs_pos: "0 < v \<Longrightarrow> duration_secs v fld = Inr (duration_from_secs (nat v)) \<and> 0 < duration_from_secs (nat v)"
  by (simp add: duration_secs_def duration_from_secs_def nanos_per_sec_def)

lemma public_host_ok:
  assumes "url_hosts_ok lib" "url_ok lib [''http'', ''https''] v"
  shows "\<exists>h. public_host lib v = Inr h"
proof -
  from assms(2) obtain u where u: "cl_url lib v = Some u" "cu_host_str u \<noteq> None" by (auto simp: url_ok_def split: option.splits)
  with assms(1) obtain h where "cu_host u = Some h" by (auto simp: url_hosts_ok_def)
  then have "\<exists>host. url_host_without_ipv6_brackets u = Some host"
    by (cases h) (simp_all add: url_host_without_ipv6_brackets_def)
  with u assms(2) show ?thesis by (auto simp: public_host_def config_simps res_simps)
qed

lemma loaded_settings:
  assumes "load_config (en_config env) path = Inr cfg" "nets_ok (cl_nets (en_config env))" "url_hosts_ok (en_config env)"
  shows "\<exists>c. token_config env cfg = Inr c \<and> 0 < tc_authn_ttl c" "\<exists>c. login_config cfg = Inr c \<and> 0 < lc_session_ttl c \<and> 0 < lc_auth_session_ttl c"
    and "\<exists>c. device_config cfg = Inr c \<and> 0 < dc_device_code_ttl c \<and> 0 < dc_poll_interval c"
    and "\<exists>c. http_config env cfg = Inr c \<and> 0 < hc_session_ttl c \<and> ac_admin_emails (hc_admin c) = as_admin_emails (cf_admin cfg)"
    and "se_rebac_allowed_peer_cidrs (cf_security cfg) \<noteq> [] \<Longrightarrow> \<exists>ns. rebac_allowed_peer_cidrs env cfg = Inr ns"
proof -
  from loaded_config [OF assms(1)] have ok: "config_ok (en_config env) cfg" by blast
  then have ttl: "0 < jc_ttl_seconds (cf_jwt cfg)" "0 < se_session_ttl_seconds (cf_security cfg)"
    "0 < se_auth_session_ttl_seconds (cf_security cfg)" "0 < se_device_code_ttl_seconds (cf_security cfg)"
    "0 < se_device_poll_interval_seconds (cf_security cfg)"
    and url: "url_ok (en_config env) [''http'', ''https''] (sv_public_base_url (cf_server cfg))"
    and nets: "\<forall>c \<in> set (se_rebac_allowed_peer_cidrs (cf_security cfg)). cidr_ok (en_config env) c"
      "\<forall>c \<in> set (se_admin_allowed_peer_cidrs (cf_security cfg)). cidr_ok (en_config env) c"
    by (simp_all add: config_ok_def Let_def)
  note secs = ttl [THEN duration_secs_pos]
  from public_host_ok [OF assms(3) url] show "\<exists>c. token_config env cfg = Inr c \<and> 0 < tc_authn_ttl c"
    using secs(1) by (auto simp: token_config_def res_simps)
  show "\<exists>c. login_config cfg = Inr c \<and> 0 < lc_session_ttl c \<and> 0 < lc_auth_session_ttl c"
    using secs(2,3) by (simp add: login_config_def)
  show "\<exists>c. device_config cfg = Inr c \<and> 0 < dc_device_code_ttl c \<and> 0 < dc_poll_interval c"
    using secs(4,5) by (simp add: device_config_def)
  from cidrs_parse [OF nets(2) assms(2)]
  show "\<exists>c. http_config env cfg = Inr c \<and> 0 < hc_session_ttl c \<and> ac_admin_emails (hc_admin c) = as_admin_emails (cf_admin cfg)"
    using secs(2) by (auto simp: http_config_def admin_config_def res_simps)
  assume "se_rebac_allowed_peer_cidrs (cf_security cfg) \<noteq> []"
  with cidrs_parse [OF nets(1) assms(2)] show "\<exists>ns. rebac_allowed_peer_cidrs env cfg = Inr ns"
    by (auto simp: rebac_allowed_peer_cidrs_def res_simps)
qed

text \<open>C36: A loaded configuration starts: if the database opens, every configured provider is discovered in
  time and the signing key loads, then the services are built, whatever the configuration says; every
  lifetime they use is positive, the console has the configured administrators, and nothing after the
  loading of the configuration can reject a setting.\<close>

theorem loaded_config_starts:
  assumes "load_config (en_config env) path = Inr cfg"
    and "yaml_ok (en_config env)" "nets_ok (cl_nets (en_config env))" "url_hosts_ok (en_config env)"
    and "open_database env cfg = Inr db" "load_signer env cfg db = Inr (signer, material)" "en_authz_model env = Inr ()"
    and "en_in_time env" "\<forall>(i, c) \<in> set (ips_providers (cf_identity_providers cfg)). \<exists>xp. discover_provider env i c = Inr xp"
  shows "\<exists>graph. build_graph env cfg = Inr graph \<and> gr_db graph = db \<and> st_signer (gr_setup graph) = signer \<and>
    0 < tc_authn_ttl (st_token_cfg (gr_setup graph)) \<and> 0 < lc_session_ttl (st_login_cfg (gr_setup graph)) \<and>
    0 < lc_auth_session_ttl (st_login_cfg (gr_setup graph)) \<and> 0 < dc_device_code_ttl (st_device_cfg (gr_setup graph)) \<and>
    0 < dc_poll_interval (st_device_cfg (gr_setup graph)) \<and> 0 < hc_session_ttl (gr_http_config graph) \<and>
    ac_admin_emails (hc_admin (gr_http_config graph)) = as_admin_emails (cf_admin cfg)"
proof -
  obtain xps reg where "configured_providers env cfg = Inr (xps, reg)"
    using configured_registry [OF assms(2,1,8,9)] by blast
  moreover obtain c1 c2 c3 c4 where "token_config env cfg = Inr c1" "0 < tc_authn_ttl c1"
    "login_config cfg = Inr c2" "0 < lc_session_ttl c2" "0 < lc_auth_session_ttl c2"
    "device_config cfg = Inr c3" "0 < dc_device_code_ttl c3" "0 < dc_poll_interval c3"
    "http_config env cfg = Inr c4" "0 < hc_session_ttl c4" "ac_admin_emails (hc_admin c4) = as_admin_emails (cf_admin cfg)"
    using loaded_settings(1-4) [OF assms(1,3,4)] by blast
  ultimately show ?thesis using assms(5-7) by (simp add: build_graph_def)
qed

section \<open>The key that signs\<close>

lemma active_key_row:
  assumes "active_signing_key_conn db kid = Inr meta"
  obtains row where "row \<in> set (t_signing_keys db)" "kk_status row = ''active''" "kid = [] \<or> kk_kid row = kid" "meta = signing_key_from_row row"
  using assms by (cases "kid = []") (auto simp: active_signing_key_conn_def res_simps dest!: first_row_newest)

lemma load_pem_kid: "load_pem rsa fs kid path st = Inr (key, material) \<Longrightarrow> key_kid key = kid"
  by (auto simp: load_pem_def SigningKey_from_private_def res_simps split: if_splits)

text \<open>C38: A server signs only with a key on record: the key it loads is that of an active row, the
  configured one if one is configured, and if the row has a public key then the first key the server
  publishes is exactly that key, so that what it signs can be verified with the key on record.\<close>

theorem startup_key_on_record:
  assumes "load_signer env cfg db = Inr (signer, material)"
  shows "\<exists>row \<in> set (t_signing_keys db). kk_status row = ''active'' \<and>
    (jc_active_kid (cf_jwt cfg) = [] \<or> kk_kid row = jc_active_kid (cf_jwt cfg)) \<and> key_kid (sg_key signer) = kk_kid row \<and>
    load_pem (en_rsa env) (en_fs env) (kk_kid row) (kk_private_key_path row) \<lparr>ks_files = en_key_files env, ks_db = db\<rparr> = Inr (sg_key signer, material) \<and>
    (\<exists>jwks parsed k. signer_jwks (en_jwt env material) signer = Inr jwks \<and> en_json env jwks = Inr parsed \<and> first_key parsed = Some k \<and>
       (trim (kk_public_jwk_json row) = [] \<or> en_json env (kk_public_jwk_json row) = Inr k))"
proof -
  from assms obtain meta where meta: "active_signing_key_conn db (jc_active_kid (cf_jwt cfg)) = Inr meta"
    "load_pem (en_rsa env) (en_fs env) (sk_kid meta) (sk_private_key_path meta) \<lparr>ks_files = en_key_files env, ks_db = db\<rparr> = Inr (sg_key signer, material)"
    "preflight_signer env (en_jwt env material) signer meta = Inr ()"
    by (auto simp: load_signer_def Let_def res_simps)
  from active_key_row [OF meta(1)] obtain row where row: "row \<in> set (t_signing_keys db)" "kk_status row = ''active''"
    "jc_active_kid (cf_jwt cfg) = [] \<or> kk_kid row = jc_active_kid (cf_jwt cfg)" "meta = signing_key_from_row row" .
  have "\<exists>jwks parsed k. signer_jwks (en_jwt env material) signer = Inr jwks \<and> en_json env jwks = Inr parsed \<and> first_key parsed = Some k \<and>
      (trim (sk_public_jwk_json meta) = [] \<or> en_json env (sk_public_jwk_json meta) = Inr k)"
    using meta(3) by (auto simp: preflight_signer_def res_simps split: option.splits if_splits)
  with row meta(2) load_pem_kid [OF meta(2)] show ?thesis by (auto simp: signing_key_from_row_def)
qed

end
