(* ===== verification/Authctl.thy ===== *)
theory Authctl
  imports Server_Startup Admin_Console
begin

text \<open>
  The command line administration (\<open>authctl/src/main.rs\<close> and \<open>authctl/src/commands\<close>): its commands over
  the database, the files and the terminal. The parsing of the command line is third-party code; a
  command is what it yields. Generating a key runs as one step of the database. Theorems: every
  command makes at most one change, with an audit record of the operator unless it mints a token; the
  lifetimes it accepts.
\<close>

section \<open>Commands\<close>

record SigningKeyGenerate =
  skg_kid :: string
  skg_alg :: string
  skg_bits :: nat

datatype SigningKeyCommand = SigningKey_Generate SigningKeyGenerate | SigningKey_List

record UserAdd =
  ua_email :: string
  ua_name :: string

record UserInvite =
  uv_idp :: "string option"
  uv_provider :: string
  uv_issuer :: string
  uv_email :: string
  uv_name :: string

datatype UserCommand = User_Invite UserInvite | User_Add UserAdd | User_List | User_Disable string | User_Enable string

record GroupAdd =
  gd_name :: string
  gd_description :: string

record GroupMember =
  gm_group :: string
  gm_user :: string

record GroupNest =
  gn_parent_group :: string
  gn_member_group :: string

datatype GroupMemberCommand = Member_Add GroupMember | Member_Remove GroupMember

datatype GroupNestCommand = Nest_Add GroupNest | Nest_Remove GroupNest

datatype GroupCommand = Group_Add GroupAdd | Group_List | Group_Member GroupMemberCommand | Group_Nest GroupNestCommand

record RepoAdd =
  ra_name :: string
  ra_remote :: string
  ra_lore_repository_id :: string

datatype RepoCommand = Repo_Add RepoAdd | Repo_List

record GrantChange =
  gc_subject :: string
  gc_repo :: string
  gc_role :: string

datatype GrantCommand = Grant_Add GrantChange | Grant_Remove GrantChange | Grant_List "string option"

record CheckArgs =
  ck_user :: string
  ck_repo :: string
  ck_action :: string

record TokenMint =
  tm_user :: string
  tm_repo :: string
  tm_role :: string
  tm_ttl :: "duration option"
  tm_out :: "string option"
  tm_print_login_command :: bool

record TokenMintAuthn =
  ta_user :: string
  ta_ttl :: "duration option"
  ta_out :: "string option"
  ta_print_login_command :: bool

datatype TokenCommand = Token_Mint TokenMint | Token_MintAuthn TokenMintAuthn

datatype Command =
    Command_InitDb
  | Command_SigningKey SigningKeyCommand
  | Command_User UserCommand
  | Command_Group GroupCommand
  | Command_Repo RepoCommand
  | Command_Grant GrantCommand
  | Command_Check CheckArgs
  | Command_Token TokenCommand

record Cli =
  cli_config :: string
  cli_db :: "string option"
  cli_command :: Command

section \<open>Values of arguments\<close>

definition u64_max :: nat where
  "u64_max = 2 ^ 64 - 1"

text \<open>\<open>u64::from_str\<close>: the digit is looked at before the overflow.\<close>

fun parse_digits :: "nat \<Rightarrow> string \<Rightarrow> string + nat" where
  "parse_digits acc [] = Inr acc"
| "parse_digits acc (c # s) =
     (if \<not> (CHR ''0'' \<le> c \<and> c \<le> CHR ''9'') then Inl ''invalid digit found in string''
      else
        let acc = acc * 10 + (of_char c - 48) in
        if acc > u64_max then Inl ''number too large to fit in target type'' else parse_digits acc s)"

definition parse_u64 :: "string \<Rightarrow> string + nat" where
  "parse_u64 s =
     (if s = [] then Inl ''cannot parse integer from empty string''
      else if s = ''+'' \<or> s = ''-'' then Inl ''invalid digit found in string''
      else parse_digits 0 (if hd s = CHR ''+'' then tl s else s))"

definition saturating_mul :: "nat \<Rightarrow> nat \<Rightarrow> nat" where
  "saturating_mul a b = min (a * b) u64_max"

definition parse_duration :: "string \<Rightarrow> message + duration" where
  "parse_duration value =
     (let value = trim value in
      if value = [] then Inl [Lit ''duration must not be empty'']
      else
        let (digits, multiplier) =
          (case strip_suffix ''h'' value of
             Some raw \<Rightarrow> (raw, 60 * 60)
           | None \<Rightarrow> (case strip_suffix ''m'' value of
               Some raw \<Rightarrow> (raw, 60)
             | None \<Rightarrow> (case strip_suffix ''s'' value of
                 Some raw \<Rightarrow> (raw, 1)
               | None \<Rightarrow> (value, 1)))) in
        and_then (map_err (\<lambda>err. [Lit ''invalid duration '', Dbg value, Lit '': '', Lit err]) (parse_u64 digits)) (\<lambda>amount.
        Inr (duration_from_secs (saturating_mul amount multiplier))))"

definition subject_parts :: "string \<Rightarrow> startup_error + (string \<times> string)" where
  "subject_parts value =
     (case split_once (CHR '':'') value of
        None \<Rightarrow> Inl (anyhow [Lit ''want type:id''])
      | Some (subject_type, i) \<Rightarrow>
          if subject_type = [] \<or> i = [] then Inl (anyhow [Lit ''want type:id'']) else Inr (subject_type, i))"

definition resolve_grant_subject :: "string \<Rightarrow> startup_error + (string \<times> string)" where
  "resolve_grant_subject value =
     and_then (subject_parts value) (\<lambda>(subject_type, i).
     if subject_type \<in> {''user'', ''group''} then Inr (subject_type, i)
     else Inl (anyhow [Lit ''unknown subject type '', Dbg subject_type]))"

definition resolve_user_idp :: "Config \<Rightarrow> string option \<Rightarrow> string \<Rightarrow> string \<Rightarrow> startup_error + (string \<times> string)" where
  "resolve_user_idp cfg idp provider issuer =
     (let idp = trim (case idp of Some v \<Rightarrow> v | None \<Rightarrow> []); providers = ips_providers (cf_identity_providers cfg) in
      if idp = [] then
        (if providers \<noteq> [] then Inl (anyhow [Lit ''--idp is required when identity providers are configured''])
         else Inr (provider, issuer))
      else case map_of providers idp of
        None \<Rightarrow> Inl (anyhow [Lit ''--idp '', Dbg idp, Lit '' is not configured''])
      | Some provider_cfg \<Rightarrow>
          if trim (ic_issuer provider_cfg) = [] then Inl (anyhow [Lit ''--idp '', Dbg idp, Lit '' has no issuer configured''])
          else Inr (idp, ic_issuer provider_cfg))"

text \<open>The variables \<open>USER\<close> and \<open>USERNAME\<close> of the environment.\<close>

definition authctl_actor :: "string option \<Rightarrow> string option \<Rightarrow> string" where
  "authctl_actor user_var username_var =
     (let user = (case user_var of Some v \<Rightarrow> Some v | None \<Rightarrow> username_var) in
      ''authctl:'' @ (case map_option trim user of Some v \<Rightarrow> if v \<noteq> [] then v else ''unknown'' | None \<Rightarrow> ''unknown''))"

definition ctl_value :: "string \<Rightarrow> string" where
  "ctl_value v = (if v = [] then ''-'' else v)"

section \<open>The terminal and the files\<close>

datatype line = Out string | Err string

text \<open>Files have contents and permissions. The operating system answers the calls on a file of a token
  with an error or none; a failed write leaves what was written so far.\<close>

record SecretFs =
  sf_create_dir :: "string option"
  sf_open :: "string option"
  sf_write :: "(string \<times> string) option"
  sf_newline :: "string option"

record CtlState =
  ct_world :: World
  ct_files :: "string \<rightharpoonup> string \<times> nat"
  ct_output :: "line list"

type_synonym 'a ctl = "(startup_error, 'a, CtlState) op"

definition core_error :: "CoreError \<Rightarrow> startup_error" where
  "core_error err = anyhow (CoreError_display err)"

definition on_world :: "('a, World) port \<Rightarrow> 'a ctl" where
  "on_world m st = (case m (ct_world st) of (r, w) \<Rightarrow> (map_err core_error r, st\<lparr>ct_world := w\<rparr>))"

definition context_op :: "message \<Rightarrow> 'a ctl \<Rightarrow> 'a ctl" where
  "context_op m f st = (case f st of (r, st) \<Rightarrow> (with_context m r, st))"

definition lift_result :: "startup_error + 'a \<Rightarrow> 'a ctl" where
  "lift_result r st = (r, st)"

definition print_line :: "line \<Rightarrow> unit ctl" where
  "print_line l st = (Inr (), st\<lparr>ct_output := ct_output st @ [l]\<rparr>)"

definition print_lines :: "line list \<Rightarrow> unit ctl" where
  "print_lines ls st = (Inr (), st\<lparr>ct_output := ct_output st @ ls\<rparr>)"

definition tabs :: "string list \<Rightarrow> string" where
  "tabs = join_with [CHR 0x09]"

definition path_parent :: "string \<Rightarrow> string option" where
  "path_parent p =
     (let q = trim_end_matches (CHR ''/'') p; d = rev (dropWhile (\<lambda>c. c \<noteq> CHR ''/'') (rev q)) in
      if q = [] then None else Some (if trim_end_matches (CHR ''/'') d = [] then take 1 d else trim_end_matches (CHR ''/'') d))"

text \<open>A file that exists is truncated and keeps its permissions; a new one is for its owner only.\<close>

definition opened_file :: "(string \<times> nat) option \<Rightarrow> string \<Rightarrow> string \<times> nat" where
  "opened_file f contents = (contents, case f of Some (_, mode) \<Rightarrow> mode | None \<Rightarrow> 6 * 8 * 8)"

definition write_secret_file :: "SecretFs \<Rightarrow> string \<Rightarrow> string \<Rightarrow> unit ctl" where
  "write_secret_file fs path value st =
     (let failed = (\<lambda>m err. Inl (Failed [m, [Lit err]]));
          put = (\<lambda>contents. st\<lparr>ct_files := (ct_files st)(path \<mapsto> opened_file (ct_files st path) contents)\<rparr>);
          writing = [Lit ''write token '', Dbg path];
          parent = (case path_parent path of Some dir \<Rightarrow> dir | None \<Rightarrow> []) in
      case (if parent = [] then None else sf_create_dir fs) of
        Some err \<Rightarrow> (failed [Lit ''create directory '', Dbg parent] err, st)
      | None \<Rightarrow> (case sf_open fs of
          Some err \<Rightarrow> (failed writing err, st)
        | None \<Rightarrow> (case sf_write fs of
            Some (err, part) \<Rightarrow> (failed writing err, put part)
          | None \<Rightarrow> (case sf_newline fs of
              Some err \<Rightarrow> (failed writing err, put value)
            | None \<Rightarrow> (Inr (), put (value @ [CHR 0x0A]))))))"

definition emit_token :: "SecretFs \<Rightarrow> string \<Rightarrow> string \<Rightarrow> string option \<Rightarrow> bool \<Rightarrow> Config \<Rightarrow> unit ctl" where
  "emit_token fs label token out print_login_command cfg =
     (case out of
        Some path \<Rightarrow>
          bind_op (write_secret_file fs path token) (\<lambda>_.
          print_line (Out (label @ '': '' @ path)))
      | None \<Rightarrow>
          bind_op (print_line (Err ''warning: token output is sensitive; do not paste it into logs'')) (\<lambda>_.
          bind_op (print_line (Out token)) (\<lambda>_.
          if print_login_command then
            print_line (Err (''lore auth login --token-type lore --token '' @ token @ '' --auth-url '' @ lo_auth_url (cf_lore cfg) @
              '' '' @ lo_default_remote_url (cf_lore cfg)))
          else return_op ())))"

section \<open>The environment of a command\<close>

record ('n, 'm, 'k) CtlEnv =
  ce_env :: "('n, 'm, 'k) Environment"
  ce_secret_fs :: SecretFs
  ce_user_var :: "string option"
  ce_username_var :: "string option"

text \<open>The database is that of the world; opening it may fail.\<close>

definition migrate_world :: "('n, 'm, 'k) Environment \<Rightarrow> unit ctl" where
  "migrate_world env st =
     (let w = next_call (ct_world st); t = w_times w (w_call w) in
      case migrate (t 0) (t 1) (t 2) (w_db w) of
        Inl err \<Rightarrow> (Inl (anyhow [Lit (en_sql_error env err)]), st\<lparr>ct_world := w\<rparr>)
      | Inr (_, db) \<Rightarrow> (Inr (), st\<lparr>ct_world := w\<lparr>w_db := db\<rparr>\<rparr>))"

definition open_env :: "('n, 'm, 'k) Environment \<Rightarrow> string \<Rightarrow> string option \<Rightarrow> (Config \<times> string) ctl" where
  "open_env env config_path db_override =
     bind_op (lift_result (with_context [Lit ''load config '', Dbg config_path]
       (map_err (\<lambda>err. anyhow (ConfigError_display err)) (load_config (en_config env) config_path)))) (\<lambda>cfg.
     let path = (case db_override of Some db \<Rightarrow> db | None \<Rightarrow> db_path (cf_database cfg));
         cfg = (case db_override of Some db \<Rightarrow> cfg\<lparr>cf_database := \<lparr>db_path = db\<rparr>\<rparr> | None \<Rightarrow> cfg) in
     bind_op (lift_result (with_context [Lit ''open database '', Dbg path]
       (map_err (\<lambda>err. anyhow [Lit err]) (map_sum id (\<lambda>_. ()) (en_open env path))))) (\<lambda>_.
     bind_op (context_op [Lit ''migrate database '', Dbg path] (migrate_world env)) (\<lambda>_.
     return_op (cfg, path))))"

definition build_authorization_policy :: "('n, 'm, 'k) Environment \<Rightarrow> startup_error + World AuthorizationPolicy" where
  "build_authorization_policy env =
     and_then (map_err (\<lambda>err. anyhow [Lit ''initialize rebac authz: '', Lit err]) (en_authz_model env)) (\<lambda>_.
     Inr (rebac_policy (en_resolve env)))"

definition key_state :: "CtlState \<Rightarrow> KeyState" where
  "key_state st = \<lparr>ks_files = (\<lambda>p. map_option fst (ct_files st p)), ks_db = w_db (ct_world st)\<rparr>"

definition load_key :: "('n, 'm, 'k) Environment \<Rightarrow> SigningKeyMeta \<Rightarrow> (SigningKey \<times> 'k) ctl" where
  "load_key env meta st =
     (map_err (\<lambda>_. anyhow [Lit ''signing key unavailable''])
        (load_pem (en_rsa env) (en_fs env) (sk_kid meta) (sk_private_key_path meta) (key_state st)), st)"

definition ctl_token_config :: "('n, 'm, 'k) Environment \<Rightarrow> Config \<Rightarrow> startup_error + TokenConfig" where
  "ctl_token_config env cfg =
     and_then (with_context [Lit ''public base url host'']
       (map_err (\<lambda>err. anyhow (ConfigError_display err)) (public_host (en_config env) (sv_public_base_url (cf_server cfg))))) (\<lambda>auth_service_audience.
     and_then (duration_secs (jc_ttl_seconds (cf_jwt cfg)) ''jwt.ttl_seconds'') (\<lambda>authn_ttl.
     Inr \<lparr>tc_issuer = jc_issuer (cf_jwt cfg), tc_audience = jc_audience (cf_jwt cfg), tc_auth_service_audience = auth_service_audience,
          tc_authn_ttl = authn_ttl, tc_authz_ttl = duration_from_secs (15 * 60)\<rparr>))"

definition build_token_service :: "('n, 'm, 'k) Environment \<Rightarrow> Config \<Rightarrow> World TokenService ctl" where
  "build_token_service env cfg =
     bind_op (context_op [Lit ''load active signing key metadata'']
       (on_world (db_read (\<lambda>t db. active_signing_key_conn db (jc_active_kid (cf_jwt cfg)))))) (\<lambda>meta.
     bind_op (load_key env meta) (\<lambda>(key, material).
     bind_op (lift_result (build_authorization_policy env)) (\<lambda>authz.
     bind_op (lift_result (ctl_token_config env cfg)) (\<lambda>token_cfg.
     return_op \<lparr>tk_cfg = token_cfg, tk_accounts = sqlite_accounts, tk_resources = sqlite_resources, tk_authz = authz,
       tk_signer = rs256_signer (en_jwt env material) \<lparr>sg_key = key, sg_verification_time = None\<rparr>,
       tk_log = Some (sqlite_log (en_to_json env))\<rparr>))))"

definition ctl_resolve_user :: "string \<Rightarrow> User ctl" where
  "ctl_resolve_user user = context_op [Lit ''resolve user '', Dbg user] (on_world (db_read (\<lambda>t db. resolve_user db user)))"

section \<open>Running a command\<close>

fun run_signing_key :: "('n, 'm, 'k) Environment \<Rightarrow> string \<Rightarrow> Config \<Rightarrow> SigningKeyCommand \<Rightarrow> unit ctl" where
  "run_signing_key env actor cfg (SigningKey_Generate args) st =
     (let w = next_call (ct_world st); t = w_times w (w_call w); i = w_ids w (w_call w); st = st\<lparr>ct_world := w\<rparr>;
          add_meta = (\<lambda>meta bits. audited_add_signing_key_meta actor (t 0) meta (radix 10 bits) (i 0) (t 1)) in
      case generate_active_key_file (en_rsa env) (en_fs env) add_meta (jc_signing_key_dir (cf_jwt cfg)) (skg_kid args) (skg_alg args) (skg_bits args)
          (key_state st) of
        (r, ks) \<Rightarrow>
          let st = st\<lparr>ct_files := (\<lambda>p. map_option (opened_file (ct_files st p)) (ks_files ks p)), ct_world := w\<lparr>w_db := ks_db ks\<rparr>\<rparr> in
          case r of
            Inl err \<Rightarrow> (Inl (core_error err), st)
          | Inr key \<Rightarrow> print_lines [Out (''kid: '' @ sk_kid key), Out (''private_key: '' @ sk_private_key_path key), Out (''status: '' @ sk_status key)] st)"
| "run_signing_key env actor cfg SigningKey_List st =
     bind_op (on_world (db_read (\<lambda>t db. list_signing_keys_conn db))) (\<lambda>keys.
     print_lines (map (\<lambda>key. Out (tabs [sk_kid key, sk_alg key, sk_status key, sk_private_key_path key])) keys)) st"

fun run_user :: "string \<Rightarrow> Config \<Rightarrow> UserCommand \<Rightarrow> unit ctl" where
  "run_user actor cfg (User_Invite args) =
     bind_op (lift_result (resolve_user_idp cfg (uv_idp args) (uv_provider args) (uv_issuer args))) (\<lambda>(provider_id, issuer).
     bind_op (on_world (ad_add_invitation (aw_accounts (AuditedStoreFactory actor))
       \<lparr>ai_provider_id = provider_id, ai_issuer = issuer, ai_email = uv_email args, ai_display_name = uv_name args,
        ai_binding_policy = ''verified_email_invitation'', ai_expires_at = 0\<rparr>)) (\<lambda>(user, _).
     print_line (Out (tabs [u_id user, ctl_value (u_email user), u_status user]))))"
| "run_user actor cfg (User_Add args) =
     bind_op (on_world (ad_add_user (aw_accounts (AuditedStoreFactory actor)) \<lparr>au_email = ua_email args, au_display_name = ua_name args\<rparr>)) (\<lambda>user.
     print_line (Out (tabs [u_id user, ctl_value (u_email user), u_status user])))"
| "run_user actor cfg User_List =
     bind_op (on_world (ad_list_users sqlite_accounts \<lparr>ulf_query = [], ulf_limit = usize_max\<rparr>)) (\<lambda>users.
     print_lines (map (\<lambda>user. Out (tabs [u_id user, ctl_value (u_email user),
       if u_status user = ''pending'' then [] else bridge_subject user, u_status user])) users))"
| "run_user actor cfg (User_Disable user) =
     bind_op (on_world (ad_disable_user (aw_accounts (AuditedStoreFactory actor)) user)) (\<lambda>_. print_line (Out ''disabled''))"
| "run_user actor cfg (User_Enable user) =
     bind_op (on_world (ad_enable_user (aw_accounts (AuditedStoreFactory actor)) user)) (\<lambda>_. print_line (Out ''enabled''))"

fun run_group :: "string \<Rightarrow> GroupCommand \<Rightarrow> unit ctl" where
  "run_group actor (Group_Add args) =
     bind_op (on_world (ga_add_group (aw_groups (AuditedStoreFactory actor)) (gd_name args) (gd_description args))) (\<lambda>grp.
     print_line (Out (tabs [g_id grp, g_name grp])))"
| "run_group actor Group_List =
     bind_op (on_world (gq_list_groups sqlite_groups)) (\<lambda>groups.
     print_lines (map (\<lambda>grp. Out (tabs [g_id grp, g_name grp])) groups))"
| "run_group actor (Group_Member (Member_Add args)) =
     bind_op (on_world (ga_add_group_member (aw_groups (AuditedStoreFactory actor)) (gm_group args) (gm_user args))) (\<lambda>_. print_line (Out ''ok''))"
| "run_group actor (Group_Member (Member_Remove args)) =
     bind_op (on_world (ga_remove_group_member (aw_groups (AuditedStoreFactory actor)) (gm_group args) (gm_user args))) (\<lambda>_. print_line (Out ''ok''))"
| "run_group actor (Group_Nest (Nest_Add args)) =
     bind_op (on_world (ga_add_group_group (aw_groups (AuditedStoreFactory actor)) (gn_parent_group args) (gn_member_group args))) (\<lambda>_. print_line (Out ''ok''))"
| "run_group actor (Group_Nest (Nest_Remove args)) =
     bind_op (on_world (ga_remove_group_group (aw_groups (AuditedStoreFactory actor)) (gn_parent_group args) (gn_member_group args))) (\<lambda>_. print_line (Out ''ok''))"

fun run_repo :: "string \<Rightarrow> RepoCommand \<Rightarrow> unit ctl" where
  "run_repo actor (Repo_Add args) =
     bind_op (on_world (rs_upsert (aw_resources (AuditedStoreFactory actor)) (Resource_default\<lparr>r_name := ra_name args,
       r_remote_url := ra_remote args, r_lore_repository_id := ra_lore_repository_id args\<rparr>))) (\<lambda>_.
     bind_op (lift_result (ok_or (anyhow [Lit ''lore_repository_id must not be empty'']) (for_repository_id (ra_lore_repository_id args)))) (\<lambda>resource_id.
     bind_op (on_world (rs_get_by_resource_id sqlite_resources resource_id)) (\<lambda>repo.
     print_line (Out (tabs [r_id repo, r_name repo, r_lore_repository_id repo])))))"
| "run_repo actor Repo_List =
     bind_op (on_world (rs_list sqlite_resources)) (\<lambda>repos.
     print_lines (map (\<lambda>repo. Out (tabs [r_id repo, r_name repo, r_lore_repository_id repo, r_remote_url repo])) repos))"

fun run_grant :: "string \<Rightarrow> GrantCommand \<Rightarrow> unit ctl" where
  "run_grant actor (Grant_Add args) =
     bind_op (lift_result (resolve_grant_subject (gc_subject args))) (\<lambda>(subject_type, subject_id).
     bind_op (on_world (gt_add_grant (aw_grants (AuditedStoreFactory actor)) subject_type subject_id (gc_repo args) (gc_role args))) (\<lambda>grant.
     print_line (Out (tabs [gr_id grant, gr_subject_type grant @ '':'' @ gr_subject_id grant, gr_role grant]))))"
| "run_grant actor (Grant_Remove args) =
     bind_op (lift_result (resolve_grant_subject (gc_subject args))) (\<lambda>(subject_type, subject_id).
     bind_op (on_world (gt_remove_grant (aw_grants (AuditedStoreFactory actor)) subject_type subject_id (gc_repo args) (gc_role args))) (\<lambda>_.
     print_line (Out ''removed'')))"
| "run_grant actor (Grant_List repo) =
     bind_op (on_world (gt_list_grants sqlite_grants (case repo of Some r \<Rightarrow> r | None \<Rightarrow> []))) (\<lambda>grants.
     print_lines (map (\<lambda>grant. Out (tabs [gr_id grant, gr_subject_type grant @ '':'' @ gr_subject_id grant, gr_repository_id grant, gr_role grant])) grants))"

definition run_check :: "('n, 'm, 'k) Environment \<Rightarrow> CheckArgs \<Rightarrow> unit ctl" where
  "run_check env args =
     bind_op (ctl_resolve_user (ck_user args)) (\<lambda>user.
     bind_op (context_op [Lit ''resolve repo '', Dbg (ck_repo args)] (on_world (rs_get_by_name sqlite_resources (ck_repo args)))) (\<lambda>repo.
     bind_op (lift_result (build_authorization_policy env)) (\<lambda>authz.
     bind_op (on_world (ap_can_access authz (u_id user) (r_resource_id repo) (ck_action args))) (\<lambda>allowed.
     print_line (Out (if allowed then ''allow'' else ''deny''))))))"

fun run_token :: "('n, 'm, 'k) CtlEnv \<Rightarrow> Config \<Rightarrow> TokenCommand \<Rightarrow> unit ctl" where
  "run_token ce cfg (Token_Mint args) =
     bind_op (build_token_service (ce_env ce) cfg) (\<lambda>tokens.
     bind_op (ctl_resolve_user (tm_user args)) (\<lambda>user.
     bind_op (on_world (manual_mint_authz tokens (u_id user) (tm_repo args) (tm_role args) (tm_ttl args))) (\<lambda>signed.
     emit_token (ce_secret_fs ce) ''token'' (st_token signed) (tm_out args) (tm_print_login_command args) cfg)))"
| "run_token ce cfg (Token_MintAuthn args) =
     bind_op (build_token_service (ce_env ce) cfg) (\<lambda>tokens.
     bind_op (ctl_resolve_user (ta_user args)) (\<lambda>user.
     bind_op (on_world (mint_authn tokens (u_id user) (ta_ttl args))) (\<lambda>(signed, _).
     emit_token (ce_secret_fs ce) ''authn token'' (st_token signed) (ta_out args) (ta_print_login_command args) cfg)))"

fun run_command :: "('n, 'm, 'k) CtlEnv \<Rightarrow> Config \<Rightarrow> string \<Rightarrow> Command \<Rightarrow> unit ctl" where
  "run_command ce cfg path Command_InitDb = print_line (Out (''database initialized: '' @ path))"
| "run_command ce cfg path (Command_SigningKey c) =
     run_signing_key (ce_env ce) (authctl_actor (ce_user_var ce) (ce_username_var ce)) cfg c"
| "run_command ce cfg path (Command_User c) = run_user (authctl_actor (ce_user_var ce) (ce_username_var ce)) cfg c"
| "run_command ce cfg path (Command_Group c) = run_group (authctl_actor (ce_user_var ce) (ce_username_var ce)) c"
| "run_command ce cfg path (Command_Repo c) = run_repo (authctl_actor (ce_user_var ce) (ce_username_var ce)) c"
| "run_command ce cfg path (Command_Grant c) = run_grant (authctl_actor (ce_user_var ce) (ce_username_var ce)) c"
| "run_command ce cfg path (Command_Check args) = run_check (ce_env ce) args"
| "run_command ce cfg path (Command_Token c) = run_token ce cfg c"

text \<open>Every command opens the database first.\<close>

definition ctl_run :: "('n, 'm, 'k) CtlEnv \<Rightarrow> Cli \<Rightarrow> unit ctl" where
  "ctl_run ce cli =
     bind_op (open_env (ce_env ce) (cli_config cli) (cli_db cli)) (\<lambda>(cfg, path).
     run_command ce cfg path (cli_command cli))"

end
