(* ===== verification/Authctl_Flows.thy ===== *)
theory Authctl_Flows
  imports Authctl
begin

text \<open>
  What the commands of the administrator do to the database: they move it along the steps of the store
  whatever the servers do meanwhile, and a command that runs alone migrates and then makes at most one
  audited change, or only records tokens.
\<close>

section \<open>Commands over steps of the world\<close>

text \<open>Printing and files do not matter to the world.\<close>

definition ctl_step :: "(World \<Rightarrow> World \<Rightarrow> bool) \<Rightarrow> CtlState \<Rightarrow> CtlState \<Rightarrow> bool" where
  "ctl_step R st st' \<longleftrightarrow> R (ct_world st) (ct_world st')"

lemma on_world_step: "moves R m \<Longrightarrow> moves (ctl_step R) (on_world m)"
  by (auto simp: moves_def on_world_def ctl_step_def split: prod.splits) (metis snd_conv)

lemma context_step: "moves (ctl_step R) m \<Longrightarrow> moves (ctl_step R) (context_op c m)"
  by (auto simp: moves_def context_op_def split: prod.splits) (metis snd_conv)

text \<open>The service that a token command builds.\<close>

definition ctl_service :: "('n, 'm, 'k) Environment \<Rightarrow> TokenConfig \<Rightarrow> Jwt \<Rightarrow> Signer \<Rightarrow> World TokenService" where
  "ctl_service env cfg jwt signer =
     \<lparr>tk_cfg = cfg, tk_accounts = sqlite_accounts, tk_resources = sqlite_resources, tk_authz = rebac_policy (en_resolve env),
      tk_signer = rs256_signer jwt signer, tk_log = Some (sqlite_log (en_to_json env))\<rparr>"

lemma service_built:
  "build_token_service env cfg st = (Inr tokens, st') \<Longrightarrow> \<exists>c jwt signer. tokens = ctl_service env c jwt signer"
  by (auto simp: build_token_service_def res_simps load_key_def lift_result_def build_authorization_policy_def ctl_service_def)

lemma policy_built: "build_authorization_policy env = Inr authz \<Longrightarrow> authz = rebac_policy (en_resolve env)"
  by (simp add: build_authorization_policy_def res_simps)

locale ctl_steps = preorder_steps R for R :: "World \<Rightarrow> World \<Rightarrow> bool" +
  assumes next_call: "R w (next_call w)"
begin

lemma reads: "moves R (db_read f)"
  by (simp add: moves_def db_read_def Let_def next_call)

lemma quiet_steps:
  "moves (ctl_step R) (lift_result r)" "moves (ctl_step R) (print_line l)" "moves (ctl_step R) (print_lines ls)"
  "moves (ctl_step R) (load_key env meta)"
  by (simp_all add: moves_def ctl_step_def refl lift_result_def print_line_def print_lines_def load_key_def)

lemma write_secret_step: "moves (ctl_step R) (write_secret_file fs path token)"
  by (simp add: moves_def ctl_step_def refl write_secret_file_def Let_def split: option.split prod.split)

lemma read_step: "moves (ctl_step R) (on_world (db_read f))"
  by (rule on_world_step [OF reads])

end

sublocale ctl_steps \<subseteq> ctl: preorder_steps "ctl_step R"
  by unfold_locales (auto simp: ctl_step_def refl intro: trans)

context ctl_steps
begin

lemmas ctl_intros = ctl.moves_bind ctl.moves_prod ctl.moves_if ctl.moves_option ctl.moves_return context_step quiet_steps
  write_secret_step read_step

lemma bind_run:
  assumes "moves (ctl_step R) m" "\<And>a s t. m s = (Inr a, t) \<Longrightarrow> moves (ctl_step R) (f a)"
  shows "moves (ctl_step R) (bind_op m f)"
  unfolding moves_def
proof
  fix s
  obtain r t where m: "m s = (r, t)" by (cases "m s")
  with assms(1) have st: "ctl_step R s t" by (rule ctl.moves_run)
  show "ctl_step R s (snd (bind_op m f s))"
  proof (cases r)
    case (Inr a)
    with m assms(2) have "ctl_step R t (snd (f a t))" by (simp add: moves_def)
    with st m Inr show ?thesis by (auto simp: bind_op_def intro: ctl.trans)
  qed (use st m in \<open>simp add: bind_op_def\<close>)
qed

lemma emit_step: "moves (ctl_step R) (emit_token fs label token out p cfg)"
  unfolding emit_token_def by (intro ctl_intros)

lemma resolve_step: "moves (ctl_step R) (ctl_resolve_user u)"
  unfolding ctl_resolve_user_def by (intro ctl_intros)

lemma service_step: "moves (ctl_step R) (build_token_service env cfg)"
  unfolding build_token_service_def by (intro ctl_intros)

lemma check_step: "moves (ctl_step R) (run_check env args)"
proof -
  have "moves (ctl_step R) (on_world (ap_can_access (rebac_policy (en_resolve env)) u r a))" for u r a
    by (simp add: rebac_policy_def read_step)
  then have "moves (ctl_step R) (bind_op (lift_result (build_authorization_policy env)) (\<lambda>authz.
      bind_op (on_world (ap_can_access authz u r a)) (\<lambda>allowed. print_line (Out (if allowed then ''allow'' else ''deny'')))))" for u r a
    by (intro bind_run ctl_intros) (auto simp: lift_result_def dest: policy_built)
  then show ?thesis
    unfolding run_check_def
    by (intro ctl.moves_bind [OF resolve_step] ctl.moves_bind [OF context_step]) (simp_all add: sqlite_resources_def read_step)
qed

end

locale ctl_token_steps = ctl_steps +
  assumes outside_call: "R w (w\<lparr>w_call := Suc (w_call w)\<rparr>)" and logs: "moves R (sqlite_log to_json tok)"
begin

lemma signs: "moves R (outside g)"
  by (simp add: moves_def outside_def Let_def outside_call)

lemma ctl_service_world: "token_world R (ctl_service env c jwt signer)"
  by unfold_locales (auto simp: ctl_service_def sqlite_accounts_def sqlite_resources_def rebac_policy_def rs256_signer_def reads signs logs)

lemma token_step: "moves (ctl_step R) (run_token ce cfg c)"
proof -
  note mint = token_world.manual_mint_authz_moves [OF ctl_service_world] token_world.mint_authn_moves [OF ctl_service_world]
  have built: "moves (ctl_step R) (bind_op (build_token_service (ce_env ce) cfg) f)"
    if "\<And>c jwt signer. moves (ctl_step R) (f (ctl_service (ce_env ce) c jwt signer))" for f :: "World TokenService \<Rightarrow> unit ctl"
    using that by (intro bind_run service_step) (auto dest!: service_built)
  show ?thesis
    by (cases c; simp; rule built; intro ctl.moves_bind [OF resolve_step] ctl.moves_bind [OF on_world_step] mint ctl.moves_prod emit_step)
qed

end

section \<open>Along the steps of the store\<close>

interpretation store: ctl_token_steps world_step
  by unfold_locales (rule next_call_step, simp add: world_step_def, rule log_moves)

lemma migrate_step: "moves (ctl_step world_step) (migrate_world env)"
proof -
  have "world_step w (next_call w\<lparr>w_db := db\<rparr>)" if "migrate a b c (w_db (next_call w)) = Inr ((), db)" for w a b c db
    using that by (intro world_step_db next_call_step r_into_rtranclp db_step.migrating)
  then show ?thesis
    by (auto simp: moves_def migrate_world_def ctl_step_def Let_def next_call_step split: sum.splits)
qed

lemma open_env_step: "moves (ctl_step world_step) (open_env env config_path db)"
  unfolding open_env_def Let_def by (intro store.ctl_intros migrate_step)

text \<open>A key generation writes the database once at most.\<close>

lemma pem_keeps_db: "write_private_pem_inner rsa fs key path ex st = (r, st') \<Longrightarrow> ks_db st' = ks_db st"
  by (auto simp: write_private_pem_inner_def Let_def split: sum.splits option.splits if_splits prod.splits)

lemma generate_db:
  assumes "generate_active_key_file rsa fs add_meta dir kid alg bits st = (r, st')"
  shows "ks_db st' = ks_db st \<or> (\<exists>meta m. add_meta meta bits (ks_db st) = Inr (m, ks_db st'))"
proof -
  have db: "ks_db st1 = ks_db st" if "map_err_op g (write_private_pem_exclusive rsa fs key path) st = (r1, st1)" for g key path r1 st1
    using that pem_keeps_db [of rsa fs key path True st] by (auto simp: map_err_op_def write_private_pem_exclusive_def split: prod.splits)
  from assms show ?thesis
    unfolding generate_active_key_file_def Let_def
    by (auto dest!: db split: if_splits sum.splits CoreError.splits prod.splits)
qed

text \<open>Every command moves the database along the steps of the store.\<close>

lemma enable_step: "moves world_step (ad_enable_user (aw_accounts (AuditedStoreFactory actor)) x)"
  by (auto simp: AuditedStoreFactory_def intro!: db_write_moves elim!: audited_step [OF run_audited.simps(4)])

lemmas store_steps = store.ctl.moves_bind store.ctl.moves_prod store.quiet_steps on_world_step admin_account_moves admin_group_moves
  admin_resource_moves resource_moves enable_step

lemma list_steps:
  "moves (ctl_step world_step) (run_user actor cfg uc)" "moves (ctl_step world_step) (run_group actor gc)"
  "moves (ctl_step world_step) (run_repo actor rc)" "moves (ctl_step world_step) (run_grant actor tc)"
proof -
  show "moves (ctl_step world_step) (run_user actor cfg uc)"
    by (cases uc; simp del: split_paired_All; intro store_steps)
  show "moves (ctl_step world_step) (run_group actor gc)"
    by (cases "(actor, gc)" rule: run_group.cases; simp; intro store_steps)
  show "moves (ctl_step world_step) (run_repo actor rc)"
    by (cases rc; simp; intro store_steps)
  show "moves (ctl_step world_step) (run_grant actor tc)"
    by (cases tc; simp del: split_paired_All; intro store_steps)
qed

lemma audited_by: "run_audited actor aid anow W db = drop_result r \<Longrightarrow> r = Inr (a, db') \<Longrightarrow>
    \<exists>W aid anow. run_audited actor aid anow W db = Inr db'"
  by (rule exI [of _ W], rule exI [of _ aid], rule exI [of _ anow]) (simp add: drop_result_def)

lemma generate_run:
  obtains db where "ct_world (snd (run_signing_key env actor cfg (SigningKey_Generate args) st)) = next_call (ct_world st)\<lparr>w_db := db\<rparr>"
    and "db = w_db (next_call (ct_world st)) \<or> (\<exists>W aid anow. run_audited actor aid anow W (w_db (next_call (ct_world st))) = Inr db)"
proof -
  let ?w = "next_call (ct_world st)"
  let ?st = "st\<lparr>ct_world := ?w\<rparr>" and ?t = "w_times ?w (w_call ?w)" and ?i = "w_ids ?w (w_call ?w)"
  let ?add = "\<lambda>meta bits. audited_add_signing_key_meta actor (?t 0) meta (radix 10 bits) (?i 0) (?t 1)"
  obtain r ks where g: "generate_active_key_file (en_rsa env) (en_fs env) ?add (jc_signing_key_dir (cf_jwt cfg)) (skg_kid args)
      (skg_alg args) (skg_bits args) (key_state ?st) = (r, ks)" by (cases "generate_active_key_file (en_rsa env) (en_fs env) ?add
      (jc_signing_key_dir (cf_jwt cfg)) (skg_kid args) (skg_alg args) (skg_bits args) (key_state ?st)")
  have "ct_world (snd (run_signing_key env actor cfg (SigningKey_Generate args) st)) = ?w\<lparr>w_db := ks_db ks\<rparr>"
    using g by (cases r) (simp_all add: Let_def print_lines_def)
  moreover have "ks_db ks = w_db ?w \<or> (\<exists>W aid anow. run_audited actor aid anow W (w_db ?w) = Inr (ks_db ks))"
    using generate_db [OF g] audited_by [OF run_audited.simps(14)] by (auto simp: key_state_def)
  ultimately show thesis by (rule that)
qed

lemma signing_key_step: "ctl_step world_step st (snd (run_signing_key env actor cfg c st))"
proof (cases c)
  case (SigningKey_Generate args)
  obtain db where db: "ct_world (snd (run_signing_key env actor cfg (SigningKey_Generate args) st)) = next_call (ct_world st)\<lparr>w_db := db\<rparr>"
    "db = w_db (next_call (ct_world st)) \<or> (\<exists>W aid anow. run_audited actor aid anow W (w_db (next_call (ct_world st))) = Inr db)"
    by (rule generate_run)
  from db(2) have "db_step\<^sup>*\<^sup>* (w_db (next_call (ct_world st))) db" by (auto intro: db_step.audited)
  then show ?thesis unfolding ctl_step_def SigningKey_Generate db(1) by (intro world_step_db next_call_step)
next
  case SigningKey_List
  have "moves (ctl_step world_step) (bind_op (on_world (db_read f)) (\<lambda>a. print_lines (ls a)))"
    for ls and f :: "(nat \<Rightarrow> i64) \<Rightarrow> Db \<Rightarrow> SigningKeyMeta list core_result"
    by (rule store.ctl.moves_bind [OF store.read_step store.quiet_steps(3)])
  with SigningKey_List show ?thesis unfolding SigningKey_List run_signing_key.simps moves_def by blast
qed

lemma command_step: "ctl_step world_step st (snd (run_command ce cfg path c st))"
proof (cases c)
  case Command_InitDb
  then show ?thesis using store.quiet_steps(2) by (simp add: moves_def)
next
  case (Command_SigningKey k)
  then show ?thesis by (simp add: signing_key_step del: run_signing_key.simps)
qed (use list_steps store.check_step [of "ce_env ce"] store.token_step [of ce] in \<open>simp_all add: moves_def\<close>)


section \<open>A command that runs alone\<close>

definition alone :: "World \<Rightarrow> bool" where
  "alone w \<longleftrightarrow> w_others w = (\<lambda>_ db. db)"

definition db_same :: "World \<Rightarrow> World \<Rightarrow> bool" where
  "db_same w w' \<longleftrightarrow> w_others w' = w_others w \<and> (alone w \<longrightarrow> w_db w' = w_db w)"

definition tokens_grow :: "World \<Rightarrow> World \<Rightarrow> bool" where
  "tokens_grow w w' \<longleftrightarrow> w_others w' = w_others w \<and>
     (alone w \<longrightarrow> (\<exists>rows. w_db w' = w_db w\<lparr>t_issued_tokens := t_issued_tokens (w_db w) @ rows\<rparr>))"

interpretation same: ctl_steps db_same
  by unfold_locales (auto simp: db_same_def alone_def next_call_def)

lemma record_token_grows:
  "record_token to_json tok db = Inr (u, db') \<Longrightarrow> \<exists>rows. db' = db\<lparr>t_issued_tokens := t_issued_tokens db @ rows\<rparr>"
  by (auto simp: record_token_def res_simps insert_row_Inr)

lemma tokens_grow_refl: "\<exists>rows. db = db\<lparr>t_issued_tokens := t_issued_tokens db @ rows\<rparr>" for db :: Db
  by (rule exI [of _ "[]"]) simp

lemma log_grows: "moves tokens_grow (sqlite_log to_json tok)"
  unfolding moves_def
proof
  fix w
  let ?w = "next_call w"
  show "tokens_grow w (snd (sqlite_log to_json tok w))"
  proof (cases "record_token to_json tok (w_db ?w)")
    case (Inl e)
    then show ?thesis using tokens_grow_refl [of "w_db w"]
      by (simp add: sqlite_log_def db_write_def Let_def tokens_grow_def alone_def next_call_def)
  next
    case (Inr p)
    obtain u db' where p: "p = (u, db')" by (cases p)
    from record_token_grows [OF Inr [unfolded p]] Inr p show ?thesis
      by (auto simp: sqlite_log_def db_write_def Let_def tokens_grow_def alone_def next_call_def)
  qed
qed

interpretation grow: ctl_token_steps tokens_grow
proof unfold_locales
  fix w w' w'' :: World
  show "tokens_grow w w" "tokens_grow w (next_call w)" "tokens_grow w (w\<lparr>w_call := Suc (w_call w)\<rparr>)"
    using tokens_grow_refl [of "w_db w"] by (simp_all add: tokens_grow_def alone_def next_call_def)
  show "tokens_grow w w' \<Longrightarrow> tokens_grow w' w'' \<Longrightarrow> tokens_grow w w''"
    by (auto simp: tokens_grow_def alone_def)
qed (rule log_grows)

text \<open>One change of the operator: none, an audited write, or tokens that are recorded.\<close>

definition operator_change :: "string \<Rightarrow> Db \<Rightarrow> Db \<Rightarrow> bool" where
  "operator_change actor db db' \<longleftrightarrow> db' = db \<or> (\<exists>W aid anow. run_audited actor aid anow W db = Inr db') \<or>
     (\<exists>rows. db' = db\<lparr>t_issued_tokens := t_issued_tokens db @ rows\<rparr>)"

definition ctl_changes :: "string \<Rightarrow> CtlState \<Rightarrow> CtlState \<Rightarrow> bool" where
  "ctl_changes actor st st' \<longleftrightarrow> w_others (ct_world st') = w_others (ct_world st) \<and>
     (alone (ct_world st) \<longrightarrow> operator_change actor (w_db (ct_world st)) (w_db (ct_world st')))"

lemma same_changes: "ctl_step db_same st st' \<Longrightarrow> ctl_changes actor st st'"
  by (simp add: ctl_step_def db_same_def ctl_changes_def operator_change_def)

lemma same_then_changes: "ctl_step db_same s t \<Longrightarrow> ctl_changes actor t u \<Longrightarrow> ctl_changes actor s u"
  by (auto simp: ctl_step_def db_same_def ctl_changes_def alone_def)

lemma changes_then_same: "ctl_changes actor s t \<Longrightarrow> ctl_step db_same t u \<Longrightarrow> ctl_changes actor s u"
  by (auto simp: ctl_step_def db_same_def ctl_changes_def alone_def)

lemma reads_change: "moves (ctl_step db_same) m \<Longrightarrow> moves (ctl_changes actor) m"
  by (simp add: moves_def same_changes)

lemma change_later:
  assumes "moves (ctl_step db_same) m" "\<And>a. moves (ctl_changes actor) (f a)"
  shows "moves (ctl_changes actor) (bind_op m f)"
  unfolding moves_def
proof
  fix s
  obtain r t where m: "m s = (r, t)" by (cases "m s")
  with assms(1) have "ctl_step db_same s t" by (rule same.ctl.moves_run)
  with m assms(2) show "ctl_changes actor s (snd (bind_op m f s))"
    by (cases r) (auto simp: bind_op_def moves_def intro: same_changes same_then_changes)
qed

lemma change_first:
  assumes "moves (ctl_changes actor) m" "\<And>a. moves (ctl_step db_same) (f a)"
  shows "moves (ctl_changes actor) (bind_op m f)"
  unfolding moves_def
proof
  fix s
  obtain r t where m: "m s = (r, t)" by (cases "m s")
  with assms(1) have "ctl_changes actor s t" unfolding moves_def by (metis snd_conv)
  with m assms(2) show "ctl_changes actor s (snd (bind_op m f s))"
    by (cases r) (auto simp: bind_op_def moves_def intro: changes_then_same)
qed

lemma change_prod: "(\<And>x y. moves (ctl_changes actor) (f x y)) \<Longrightarrow> moves (ctl_changes actor) (case p of (x, y) \<Rightarrow> f x y)"
  by (cases p) simp

lemma audited_changes:
  assumes "\<And>t i db a db'. f t i db = Inr (a, db') \<Longrightarrow> \<exists>W aid anow. run_audited actor aid anow W db = Inr db'"
  shows "moves (ctl_changes actor) (on_world (db_write f))"
  unfolding moves_def
proof
  fix st :: CtlState
  let ?w = "next_call (ct_world st)"
  have w: "w_others ?w = w_others (ct_world st)" "alone (ct_world st) \<Longrightarrow> w_db ?w = w_db (ct_world st)"
    by (simp_all add: next_call_def alone_def)
  show "ctl_changes actor st (snd (on_world (db_write f) st))"
  proof (cases "f (w_times ?w (w_call ?w)) (w_ids ?w (w_call ?w)) (w_db ?w)")
    case (Inl e)
    with w show ?thesis by (simp add: on_world_def db_write_def Let_def ctl_changes_def operator_change_def)
  next
    case (Inr p)
    obtain a db' where p: "p = (a, db')" by (cases p)
    with Inr assms have "operator_change actor (w_db ?w) db'" unfolding operator_change_def by blast
    with Inr p w show ?thesis by (auto simp: on_world_def db_write_def Let_def ctl_changes_def)
  qed
qed

lemma store_changes:
  "moves (ctl_changes actor) (on_world (ad_add_user (aw_accounts (AuditedStoreFactory actor)) ui))"
  "moves (ctl_changes actor) (on_world (ad_add_invitation (aw_accounts (AuditedStoreFactory actor)) ii))"
  "moves (ctl_changes actor) (on_world (ad_disable_user (aw_accounts (AuditedStoreFactory actor)) x))"
  "moves (ctl_changes actor) (on_world (ad_enable_user (aw_accounts (AuditedStoreFactory actor)) x))"
  "moves (ctl_changes actor) (on_world (rs_upsert (aw_resources (AuditedStoreFactory actor)) r))"
  "moves (ctl_changes actor) (on_world (ga_add_group (aw_groups (AuditedStoreFactory actor)) n d))"
  "moves (ctl_changes actor) (on_world (ga_add_group_member (aw_groups (AuditedStoreFactory actor)) gn x))"
  "moves (ctl_changes actor) (on_world (ga_remove_group_member (aw_groups (AuditedStoreFactory actor)) gn x))"
  "moves (ctl_changes actor) (on_world (ga_add_group_group (aw_groups (AuditedStoreFactory actor)) gp gm))"
  "moves (ctl_changes actor) (on_world (ga_remove_group_group (aw_groups (AuditedStoreFactory actor)) gp gm))"
  "moves (ctl_changes actor) (on_world (gt_add_grant (aw_grants (AuditedStoreFactory actor)) ty s n role))"
  "moves (ctl_changes actor) (on_world (gt_remove_grant (aw_grants (AuditedStoreFactory actor)) ty s n role))"
  unfolding AuditedStoreFactory_def
  by (simp_all, (rule audited_changes, erule audited_by [OF run_audited.simps(1)] audited_by [OF run_audited.simps(2)]
    audited_by [OF run_audited.simps(3)] audited_by [OF run_audited.simps(4)] audited_by [OF run_audited.simps(5)]
    audited_by [OF run_audited.simps(6)] audited_by [OF run_audited.simps(7)] audited_by [OF run_audited.simps(8)]
    audited_by [OF run_audited.simps(9)] audited_by [OF run_audited.simps(10)] audited_by [OF run_audited.simps(12)]
    audited_by [OF run_audited.simps(13)])+)

lemma grow_changes: "ctl_step tokens_grow st st' \<Longrightarrow> ctl_changes actor st st'"
  by (auto simp: ctl_step_def tokens_grow_def ctl_changes_def operator_change_def)

lemma generate_changes: "ctl_changes actor st (snd (run_signing_key env actor cfg (SigningKey_Generate args) st))"
proof -
  obtain db where db: "ct_world (snd (run_signing_key env actor cfg (SigningKey_Generate args) st)) = next_call (ct_world st)\<lparr>w_db := db\<rparr>"
    "db = w_db (next_call (ct_world st)) \<or> (\<exists>W aid anow. run_audited actor aid anow W (w_db (next_call (ct_world st))) = Inr db)"
    by (rule generate_run)
  from db(2) have "operator_change actor (w_db (next_call (ct_world st))) db" unfolding operator_change_def by blast
  then show ?thesis unfolding ctl_changes_def db(1) by (auto simp: alone_def next_call_def)
qed

lemma user_changes: "moves (ctl_changes actor) (run_user actor cfg c)"
proof (cases c)
  case User_List
  then show ?thesis by (auto simp: sqlite_accounts_def intro!: reads_change same.ctl_intros)
qed (auto simp del: split_paired_All intro!: change_later [OF same.quiet_steps(1)] change_prod change_first store_changes same.ctl_intros)

lemma group_changes: "moves (ctl_changes actor) (run_group actor c)"
proof (cases "(actor, c)" rule: run_group.cases)
  case (2 a)
  then show ?thesis by (auto simp: sqlite_groups_def intro!: reads_change same.ctl_intros)
qed (auto intro!: change_first store_changes same.ctl_intros)

lemma repo_changes: "moves (ctl_changes actor) (run_repo actor c)"
proof (cases c)
  case Repo_List
  then show ?thesis by (auto simp: sqlite_resources_def intro!: reads_change same.ctl_intros)
qed (auto simp: sqlite_resources_def intro!: change_first store_changes same.ctl_intros)

lemma grant_changes: "moves (ctl_changes actor) (run_grant actor c)"
proof (cases c)
  case (Grant_List r)
  then show ?thesis by (auto simp: sqlite_grants_def intro!: reads_change same.ctl_intros)
qed (auto simp del: split_paired_All intro!: change_later [OF same.quiet_steps(1)] change_prod change_first store_changes same.ctl_intros)

lemma command_changes:
  "ctl_changes (authctl_actor (ce_user_var ce) (ce_username_var ce)) st (snd (run_command ce cfg path c st))"
proof (cases c)
  case Command_InitDb
  then show ?thesis using same.quiet_steps(2) by (simp add: moves_def same_changes)
next
  case (Command_SigningKey k)
  have "moves (ctl_changes actor) (bind_op (on_world (db_read f)) (\<lambda>a. print_lines (ls a)))"
    for actor ls and f :: "(nat \<Rightarrow> i64) \<Rightarrow> Db \<Rightarrow> SigningKeyMeta list core_result"
    by (rule reads_change [OF same.ctl.moves_bind [OF same.read_step same.quiet_steps(3)]])
  then have "ctl_changes actor st (snd (run_signing_key env actor cfg SigningKey_List st))" for actor and env :: "('a, 'b, 'c) Environment"
    unfolding run_signing_key.simps moves_def by blast
  with Command_SigningKey show ?thesis by (cases k) (simp_all add: generate_changes del: run_signing_key.simps)
next
  case (Command_Check args)
  then show ?thesis using same.check_step [of "ce_env ce" args] by (simp add: moves_def same_changes)
next
  case (Command_Token t)
  then show ?thesis using grow.token_step [of ce cfg t] by (simp add: moves_def grow_changes)
qed (use user_changes group_changes repo_changes grant_changes in \<open>simp_all add: moves_def\<close>)

section \<open>What a run of the command line does\<close>

lemma migrate_run:
  assumes "migrate_world env st = (r, st')" "alone (ct_world st)"
  shows "w_others (ct_world st') = w_others (ct_world st) \<and>
    (case r of Inl _ \<Rightarrow> w_db (ct_world st') = w_db (ct_world st)
     | Inr _ \<Rightarrow> \<exists>n1 n2 n3. migrate n1 n2 n3 (w_db (ct_world st)) = Inr ((), w_db (ct_world st')))"
  using assms by (auto simp: migrate_world_def Let_def next_call_def alone_def split: sum.splits) blast

lemma open_env_run:
  assumes "open_env env config_path db st = (r, st')" "alone (ct_world st)"
  shows "w_others (ct_world st') = w_others (ct_world st) \<and>
    (case r of Inl _ \<Rightarrow> w_db (ct_world st') = w_db (ct_world st)
     | Inr _ \<Rightarrow> \<exists>n1 n2 n3. migrate n1 n2 n3 (w_db (ct_world st)) = Inr ((), w_db (ct_world st')))"
proof -
  obtain r1 st1 where m: "migrate_world env st = (r1, st1)" by (cases "migrate_world env st")
  from assms(1) m have "st' = st \<and> (\<exists>e. r = Inl e) \<or> st' = st1 \<and> (\<forall>x. r = Inr x \<longrightarrow> (\<exists>y. r1 = Inr y)) \<and> (\<forall>e. r = Inl e \<longrightarrow> (\<exists>e. r1 = Inl e))"
    by (cases r1) (auto simp: open_env_def bind_op_def lift_result_def context_op_def return_op_def with_context_def Let_def split: sum.splits)
  with migrate_run [OF m assms(2)] show ?thesis by (auto split: sum.splits)
qed

text \<open>C39: Administration by command line is audited: a command that runs while nobody else writes migrates
  the database and then changes nothing, or makes exactly one administrative write together with one
  audit record of the operator named by the environment, or appends issued tokens; if opening or
  migrating fails the database stays as it was.\<close>

theorem authctl_changes_audited:
  assumes "alone (ct_world st)" "ctl_run ce cli st = (r, st')"
  shows "w_db (ct_world st') = w_db (ct_world st) \<or>
    (\<exists>n1 n2 n3 db. migrate n1 n2 n3 (w_db (ct_world st)) = Inr ((), db) \<and>
       (w_db (ct_world st') = db \<or>
        (\<exists>W aid anow. run_audited (authctl_actor (ce_user_var ce) (ce_username_var ce)) aid anow W db = Inr (w_db (ct_world st'))) \<or>
        (\<exists>rows. w_db (ct_world st') = db\<lparr>t_issued_tokens := t_issued_tokens db @ rows\<rparr>)))"
proof -
  obtain r1 st1 where o: "open_env (ce_env ce) (cli_config cli) (cli_db cli) st = (r1, st1)"
    by (cases "open_env (ce_env ce) (cli_config cli) (cli_db cli) st")
  note o' = open_env_run [OF o assms(1)]
  show ?thesis
  proof (cases r1)
    case (Inl e)
    with o o' assms(2) show ?thesis by (auto simp: ctl_run_def bind_op_def)
  next
    case (Inr x)
    obtain cfg path where x: "x = (cfg, path)" by (cases x)
    from o' Inr obtain n1 n2 n3 where m: "migrate n1 n2 n3 (w_db (ct_world st)) = Inr ((), w_db (ct_world st1))"
      and "alone (ct_world st1)" using assms(1) by (auto simp: alone_def)
    moreover from assms(2) o Inr x have "st' = snd (run_command ce cfg path (cli_command cli) st1)"
      by (simp add: ctl_run_def bind_op_def)
    ultimately have "operator_change (authctl_actor (ce_user_var ce) (ce_username_var ce)) (w_db (ct_world st1)) (w_db (ct_world st'))"
      using command_changes [of ce st1 cfg path "cli_command cli"] by (simp add: ctl_changes_def)
    with m show ?thesis unfolding operator_change_def by blast
  qed
qed

section \<open>Values of arguments\<close>

lemma parse_digits_append: "parse_digits acc (xs @ ys) = and_then (parse_digits acc xs) (\<lambda>a. parse_digits a ys)"
  by (induction xs arbitrary: acc) (simp_all add: Let_def)

lemma digit_char:
  assumes "d < (10 :: nat)"
  shows "CHR ''0'' \<le> char_of (48 + d)" "char_of (48 + d) \<le> CHR ''9''" "of_char (char_of (48 + d) :: char) = 48 + d"
  using assms by (auto simp: less_eq_char_def of_char_of)

lemma parse_digits_radix: "n \<le> u64_max \<Longrightarrow> parse_digits 0 (radix 10 n) = Inr n"
proof (induction n rule: less_induct)
  case (less n)
  show ?case
  proof (cases "n < 10")
    case True
    with digit_char [OF True] less.prems show ?thesis by (subst radix.simps) (simp add: Let_def)
  next
    case False
    have d: "n mod 10 < 10" by simp
    from False less have "parse_digits 0 (radix 10 (n div 10)) = Inr (n div 10)" by (intro less.IH) auto
    moreover have "n div 10 * 10 + n mod 10 = n" by simp
    ultimately show ?thesis using False digit_char [OF d] less.prems by (subst radix.simps) (simp add: parse_digits_append Let_def)
  qed
qed

lemma radix_digits: "list_all (\<lambda>c. CHR ''0'' \<le> c \<and> c \<le> CHR ''9'') (radix 10 n) \<and> radix 10 n \<noteq> []"
proof (induction n rule: less_induct)
  case (less n)
  show ?case
  proof (cases "n < 10")
    case True
    with digit_char [OF True] show ?thesis by (subst (1 2) radix.simps) simp
  next
    case False
    have d: "n mod 10 < 10" by simp
    from False less have "list_all (\<lambda>c. CHR ''0'' \<le> c \<and> c \<le> CHR ''9'') (radix 10 (n div 10))" by auto
    with False digit_char [OF d] show ?thesis by (subst (1 2) radix.simps) simp
  qed
qed

lemma parse_u64_radix: "n \<le> u64_max \<Longrightarrow> parse_u64 (radix 10 n) = Inr n"
proof -
  assume n: "n \<le> u64_max"
  obtain c s where cs: "radix 10 n = c # s" using radix_digits [of n] by (cases "radix 10 n") auto
  with radix_digits [of n] have "c \<noteq> CHR ''+''" "c \<noteq> CHR ''-''" by auto
  with cs parse_digits_radix [OF n] show ?thesis by (simp add: parse_u64_def)
qed

lemma strip_unit:
  assumes "s = radix 10 n"
  shows "c \<in> {CHR ''h'', CHR ''m'', CHR ''s''} \<Longrightarrow> strip_suffix [c] s = None"
    and "c \<noteq> d \<Longrightarrow> strip_suffix [c] (s @ [d]) = None"
proof -
  show "strip_suffix [c] s = None" if "c \<in> {CHR ''h'', CHR ''m'', CHR ''s''}"
  proof (cases "strip_suffix [c] s")
    case (Some r)
    with assms radix_digits [of n] have "CHR ''0'' \<le> c" "c \<le> CHR ''9''" by (auto simp: strip_suffix_Some_iff)
    with that show ?thesis by (auto simp: less_eq_char_def)
  qed
  show "c \<noteq> d \<Longrightarrow> strip_suffix [c] (s @ [d]) = None"
    by (cases "strip_suffix [c] (s @ [d])") (auto simp: strip_suffix_Some_iff)
qed

lemma digits_trim:
  assumes "suffix \<in> {[], ''h'', ''m'', ''s''}"
  shows "trim (radix 10 n @ suffix) = radix 10 n @ suffix"
proof (rule trim_repository_id)
  have "list_all repository_id_byte (radix 10 n)" using radix_digits [of n] by (auto simp: list_all_iff repository_id_byte_def)
  with assms show "list_all repository_id_byte (radix 10 n @ suffix)" by (auto simp: repository_id_byte_def)
qed

text \<open>A lifetime argument is read exactly: a number of seconds, minutes or hours gives that duration,
  and where the seconds do not fit into 64 bits, the largest one; no accepted argument gives a longer
  one.\<close>

lemma duration_argument_exact:
  "(\<forall>n \<le> u64_max. parse_duration (radix 10 n @ ''h'') = Inr (duration_from_secs (min (n * 3600) u64_max)) \<and>
      parse_duration (radix 10 n @ ''m'') = Inr (duration_from_secs (min (n * 60) u64_max)) \<and>
      parse_duration (radix 10 n @ ''s'') = Inr (duration_from_secs n) \<and> parse_duration (radix 10 n) = Inr (duration_from_secs n)) \<and>
   (\<forall>v d. parse_duration v = Inr d \<longrightarrow> d \<le> duration_from_secs u64_max)"
proof (intro conjI allI impI)
  fix n assume n: "n \<le> u64_max"
  note trims = digits_trim [of "''h''" n] digits_trim [of "''m''" n] digits_trim [of "''s''" n] digits_trim [of "[]" n]
  note simps = parse_duration_def Let_def strip_unit [OF refl] parse_u64_radix [OF n] saturating_mul_def
  show "parse_duration (radix 10 n @ ''h'') = Inr (duration_from_secs (min (n * 3600) u64_max))" using trims(1) by (simp add: simps)
  show "parse_duration (radix 10 n @ ''m'') = Inr (duration_from_secs (min (n * 60) u64_max))" using trims(2) by (simp add: simps)
  show "parse_duration (radix 10 n @ ''s'') = Inr (duration_from_secs n)" using trims(3) n by (simp add: simps)
  show "parse_duration (radix 10 n) = Inr (duration_from_secs n)" using trims(4) n radix_digits [of n] by (simp add: simps)
next
  fix v d assume "parse_duration v = Inr d"
  then show "d \<le> duration_from_secs u64_max"
    by (auto simp: parse_duration_def Let_def res_simps saturating_mul_def duration_from_secs_def split: if_splits option.splits)
qed

lemma duration_argument_exact_witness: "parse_duration ''90m'' = Inr (duration_from_secs 5400)"
proof -
  have r: "radix 10 90 = ''90''" by code_simp
  have u: "90 \<le> u64_max" "min (90 * 60) u64_max = 5400" by (simp_all add: u64_max_def)
  from duration_argument_exact u(1) have "parse_duration (radix 10 90 @ ''m'') = Inr (duration_from_secs (min (90 * 60) u64_max))" by blast
  then show ?thesis unfolding r u(2) by simp
qed

text \<open>The subject of a grant is written as its type and id.\<close>

lemma grant_subject_roundtrip:
  "resolve_grant_subject v = Inr (ty, i) \<longleftrightarrow> ty \<in> {''user'', ''group''} \<and> i \<noteq> [] \<and> v = ty @ '':'' @ i"
proof -
  have split: "split_once c s = Some (a, b) \<longleftrightarrow> s = a @ c # b \<and> c \<notin> set a" for c s a b
  proof (induction s arbitrary: a)
    case (Cons x s)
    then show ?case by (cases a) (auto simp: eq_commute [of c])
  qed simp
  have parts: "subject_parts v = Inr (ty, i) \<longleftrightarrow> ty \<noteq> [] \<and> i \<noteq> [] \<and> split_once (CHR '':'') v = Some (ty, i)"
    by (auto simp: subject_parts_def split: option.splits)
  have "resolve_grant_subject v = Inr (ty, i) \<longleftrightarrow> subject_parts v = Inr (ty, i) \<and> ty \<in> {''user'', ''group''}"
    by (cases "subject_parts v") (auto simp: resolve_grant_subject_def split: if_splits)
  then show ?thesis unfolding parts split by auto
qed

text \<open>A token file: what a successful write leaves, with the permissions of an existing file.\<close>

lemma secret_file_written:
  "write_secret_file fs path v st = (Inr (), st') \<Longrightarrow>
     ct_files st' path = Some (v @ [CHR 0x0A], case ct_files st path of Some (_, mode) \<Rightarrow> mode | None \<Rightarrow> 384)"
  by (auto simp: write_secret_file_def Let_def opened_file_def split: option.splits if_splits prod.splits)

lemma readable_file_stays_readable:
  "ct_files st path = Some (old, 420) \<Longrightarrow> write_secret_file fs path v st = (Inr (), st') \<Longrightarrow> ct_files st' path = Some (v @ [CHR 0x0A], 420)"
  using secret_file_written by fastforce

end
