(* ===== verification/Startup_Examples.thy ===== *)
theory Startup_Examples
  imports Authctl_Flows
begin

text \<open>
  A concrete start: one configured provider with PKCE, one administrator, a database with two active
  signing keys. The theorems on the configuration, the provider, the start and the command line hold of it.
\<close>

definition demo_url :: "string \<Rightarrow> ConfigUrl option" where
  "demo_url v = Some \<lparr>cu_scheme = (if starts_with v ''https://'' then ''https'' else ''ucs-auth''), cu_host_str = Some ''auth.x.org'',
     cu_host = Some (Host_Domain ''auth.x.org''),
     cu_path = (if v = ''https://auth.x.org/auth/corp/callback'' then ''/auth/corp/callback'' else ''/'')\<rparr>"

definition demo_idp_config :: IdentityProviderConfig where
  "demo_idp_config =
     \<lparr>ic_provider_type = ''oidc'', ic_profile = ''google'', ic_display_name = [], ic_issuer = ''https://idp.x.org'',
      ic_client_id = ''bridge'', ic_client_secret_file = ''/secret'', ic_redirect_url = ''https://auth.x.org/auth/corp/callback'',
      ic_scopes = [], ic_pkce = ''required'', ic_subject = \<lparr>sj_strategy = [], sj_required_tid = []\<rparr>, ic_claims = [],
      ic_trust = \<lparr>tr_email_binding = [], tr_allowed_email_domains = [], tr_hosted_domain = \<lparr>hd_allowed = [''x.org'']\<rparr>,
        tr_personal_accounts = ''deny''\<rparr>\<rparr>"

definition demo_yaml :: Config where
  "demo_yaml =
     \<lparr>cf_server = \<lparr>sv_listen = [], sv_grpc_listen = [], sv_grpc_tls_cert_file = [], sv_grpc_tls_key_file = [],
        sv_public_base_url = ''https://auth.x.org''\<rparr>,
      cf_identity_providers = \<lparr>ips_default = Some ''corp'', ips_providers = [(''corp'', demo_idp_config)]\<rparr>,
      cf_authz = \<lparr>authz_backend = []\<rparr>, cf_database = \<lparr>db_path = ''/db''\<rparr>,
      cf_jwt = \<lparr>jc_issuer = ''https://auth.x.org'', jc_audience = [''lore''], jc_ttl_seconds = 0, jc_signing_key_dir = ''/keys'',
        jc_active_kid = []\<rparr>,
      cf_lore = \<lparr>lo_default_remote_url = [], lo_auth_url = []\<rparr>,
      cf_security = \<lparr>se_device_code_ttl_seconds = 0, se_device_poll_interval_seconds = 0, se_session_ttl_seconds = 0,
        se_auth_session_ttl_seconds = 60, se_rebac_allowed_peer_cidrs = [''10.0.0.0/8''], se_admin_allowed_peer_cidrs = []\<rparr>,
      cf_admin = \<lparr>as_admin_emails = ['' Ann@x.org'']\<rparr>\<rparr>"

definition demo_config_lib :: "unit ConfigLib" where
  "demo_config_lib =
     \<lparr>cl_read_file = (\<lambda>path. Inr ''s3cret ''), cl_yaml = (\<lambda>raw. Inr demo_yaml), cl_url = demo_url,
      cl_nets = \<lparr>in_parse_addr = (\<lambda>s. Inl ''address''), in_parse_net = (\<lambda>s. Inr ()), in_new = (\<lambda>a n. Inr ()), in_contains = (\<lambda>n a. True)\<rparr>\<rparr>"

fun demo_state_from_json :: "string \<Rightarrow> string + PrivateState" where
  "demo_state_from_json [] = Inl ''empty''"
| "demo_state_from_json (c # v) = Inr \<lparr>ps_code_verifier = (if c = CHR ''n'' then None else Some v)\<rparr>"

text \<open>A provider that answers every code with a token for the subject \<open>s1\<close> and the nonce \<open>n1\<close>.\<close>

definition demo_oidc_lib :: "unit OidcLib" where
  "demo_oidc_lib =
     \<lparr>ol_http_client = Inr (), ol_issuer_url = Inr, ol_discover = (\<lambda>u. Inr ()), ol_metadata_issuer = (\<lambda>_. ''https://idp.x.org''),
      ol_redirect_url = Inr, ol_authorize_url = (\<lambda>r. \<lparr>ou_base = ''https://idp.x.org/auth'', ou_query = Some [(''state'', ar_state r)]\<rparr>),
      ol_url_string = ou_base, ol_challenge = rev, ol_exchange_code = (\<lambda>client code. Inr ()),
      ol_request = (\<lambda>call r. Inr (Some ''h.c.s'')),
      ol_verify = (\<lambda>call client t. Inr \<lparr>vc_issuer = ''https://idp.x.org'', vc_subject = ''s1'', vc_nonce = Some ''n1''\<rparr>),
      ol_base64 = Inr, ol_json = (\<lambda>raw. Inr (Value_Object [(''hd'', Value_String ''x.org'')])),
      ol_state_json = (\<lambda>p. Inr (case ps_code_verifier p of None \<Rightarrow> ''n'' | Some v \<Rightarrow> CHR ''v'' # v)),
      ol_state_from_json = demo_state_from_json, ol_to_lowercase = to_ascii_lowercase\<rparr>"

definition demo_environment :: "(unit, unit, nat) Environment" where
  "demo_environment =
     \<lparr>en_config = demo_config_lib, en_oidc = demo_oidc_lib, en_rsa = demo_rsa, en_fs = demo_fs, en_key_files = (\<lambda>_. Some ''pem''),
      en_jwt = (\<lambda>k. demo_jwt), en_json = (\<lambda>raw. if raw = ''{}'' then Inr (Value_Object [(''keys'', Value_Array [Value_String ''k''])]) else Inr (Value_String ''k'')),
      en_open = (\<lambda>path. Inr demo_keys), en_sql_error = (\<lambda>_. ''sql''), en_clock = int, en_in_time = True, en_verifier = (\<lambda>i n. ''secret''),
      en_authz_model = Inr (), en_resolve = demo_resolver, en_sha = (\<lambda>x. x), en_to_json = concat, en_socket_addr = Inr,
      en_bind = (\<lambda>_. Inr ()), en_read_bytes = (\<lambda>_. Inr []), en_tls = (\<lambda>_ _. Inr ())\<rparr>"

definition demo_config :: Config where
  "demo_config = apply_defaults demo_yaml"

definition demo_oidc :: "unit OidcProvider" where
  "demo_oidc = (case oidc_discover demo_oidc_lib (from_provider_config ''corp'' (default_provider_fields demo_idp_config) ''s3cret'') of Inr p \<Rightarrow> p)"

lemma demo_config_trims:
  "trim ''lore'' = ''lore''" "trim ''corp'' = ''corp''" "trim ''deny'' = ''deny''" "trim ''10.0.0.0/8'' = ''10.0.0.0/8''"
  "trim ''ann@x.org'' = ''ann@x.org''" "normalize_email '' Ann@x.org'' = ''ann@x.org''"
  "strip_scheme ''https://auth.x.org'' = ''auth.x.org''"
  by code_simp+

lemma demo_config_fields:
  "ips_providers (cf_identity_providers demo_config) = [(''corp'', default_provider_fields demo_idp_config)]"
  "ips_default (cf_identity_providers demo_config) = Some ''corp''"
  "cf_admin demo_config = \<lparr>as_admin_emails = [''ann@x.org'']\<rparr>" "cf_jwt demo_config = (cf_jwt demo_yaml)\<lparr>jc_ttl_seconds := 3600\<rparr>"
  "cf_lore demo_config = \<lparr>lo_default_remote_url = [], lo_auth_url = ''ucs-auth://auth.x.org''\<rparr>"
  "sv_public_base_url (cf_server demo_config) = ''https://auth.x.org''"
  "sv_grpc_tls_cert_file (cf_server demo_config) = []" "sv_grpc_tls_key_file (cf_server demo_config) = []"
  "cf_authz demo_config = \<lparr>authz_backend = ''rebac''\<rparr>" "cf_database demo_config = \<lparr>db_path = ''/db''\<rparr>"
  "cf_security demo_config = \<lparr>se_device_code_ttl_seconds = 600, se_device_poll_interval_seconds = 3, se_session_ttl_seconds = 3600,
     se_auth_session_ttl_seconds = 60, se_rebac_allowed_peer_cidrs = [''10.0.0.0/8''], se_admin_allowed_peer_cidrs = []\<rparr>"
  by (simp_all add: demo_config_def apply_defaults_def demo_yaml_def default_security_def default_server_def demo_config_trims)

lemma demo_url_ok:
  "url_ok demo_config_lib [''http'', ''https''] ''https://auth.x.org''" "url_ok demo_config_lib [''http'', ''https''] ''https://idp.x.org''"
  "url_ok demo_config_lib [''http'', ''https''] ''https://auth.x.org/auth/corp/callback''"
  "url_ok demo_config_lib [''https'', ''ucs-auth''] ''ucs-auth://auth.x.org''"
  by code_simp+

lemma demo_provider_ok: "provider_ok demo_config_lib ''corp'' (default_provider_fields demo_idp_config)"
  by (simp add: provider_ok_def default_provider_fields_def demo_idp_config_def demo_url_ok demo_config_trims subject_ok_def provider_id_byte_def)
    (simp add: demo_config_lib_def demo_url_def)

lemma demo_config_ok: "config_ok demo_config_lib demo_config"
  by (simp add: config_ok_def demo_config_fields demo_url_ok demo_config_trims demo_yaml_def providers_ok_def demo_provider_ok
      emails_ok_def remote_ok_def cidr_ok_def) (simp add: demo_config_lib_def)

lemma demo_config_loads: "load_config demo_config_lib ''/config'' = Inr demo_config"
proof -
  have "Config_validate demo_config_lib (apply_defaults demo_yaml) = Inr ()"
    using demo_config_ok validate_exact [of demo_config_lib demo_config] by (simp add: demo_config_def)
  then show ?thesis by (simp add: load_config_def demo_config_def) (simp add: demo_config_lib_def)
qed

lemma demo_laws: "yaml_ok demo_config_lib" "nets_ok (cl_nets demo_config_lib)" "url_hosts_ok demo_config_lib"
  by (simp_all add: yaml_ok_def nets_ok_def url_hosts_ok_def demo_config_lib_def demo_yaml_def demo_url_def)

lemma demo_environment_simps [simp]:
  "en_config demo_environment = demo_config_lib" "en_oidc demo_environment = demo_oidc_lib" "en_in_time demo_environment"
  "en_authz_model demo_environment = Inr ()"
  by (simp_all add: demo_environment_def)

lemma en_open_demo: "en_open demo_environment path = Inr demo_keys"
  by (simp add: demo_environment_def)

lemma demo_discovered: "oidc_discover demo_oidc_lib (from_provider_config ''corp'' (default_provider_fields demo_idp_config) ''s3cret'') = Inr demo_oidc"
  by code_simp

lemma demo_provider_fields:
  "ic_provider_type (default_provider_fields demo_idp_config) = ''oidc''"
  "ic_client_secret_file (default_provider_fields demo_idp_config) = ''/secret''"
  by (simp_all add: default_provider_fields_def demo_idp_config_def)

lemma demo_discover_provider:
  "discover_provider demo_environment ''corp'' (default_provider_fields demo_idp_config) = Inr (oidc_provider demo_environment demo_oidc)"
proof -
  have "read_secret_file demo_config_lib ''/secret'' = Inr ''s3cret''" by code_simp
  then show ?thesis
    by (simp add: discover_provider_def read_client_secret_def with_context_def demo_discovered demo_provider_fields)
qed

definition demo_started_db :: Db where
  "demo_started_db = demo_keys\<lparr>t_schema_migrations := [\<lparr>zr_version = BASELINE_VERSION, zr_applied_at = 0\<rparr>,
     \<lparr>zr_version = GROUP_GROUPS_VERSION, zr_applied_at = 1\<rparr>, \<lparr>zr_version = ADMIN_AUDIT_VERSION, zr_applied_at = 2\<rparr>]\<rparr>"

definition demo_k2 :: Signer where
  "demo_k2 = \<lparr>sg_key = \<lparr>key_kid = ''k2'', key_alg = ''RS256''\<rparr>, sg_verification_time = None\<rparr>"

lemma demo_migrated: "migrate 0 1 2 demo_keys = Inr ((), demo_started_db)"
  by code_simp

lemma demo_opened: "open_database demo_environment demo_config = Inr demo_started_db"
  using demo_migrated by (simp add: open_database_def with_context_def demo_environment_def)

lemma demo_active_key: "active_signing_key_conn demo_started_db [] = Inr (signing_key_from_row (demo_key ''k2'' ''active'' 3))"
  by code_simp

lemma demo_signer_loads: "load_signer demo_environment demo_config demo_started_db = Inr (demo_k2, 3)"
proof -
  have "jc_active_kid (cf_jwt demo_config) = []" by (simp add: demo_config_fields demo_yaml_def)
  moreover have "trim ''k2-jwk'' \<noteq> []" by code_simp
  ultimately show ?thesis
    by (simp add: load_signer_def demo_active_key with_context_def signing_key_from_row_def demo_key_def load_pem_def
        parse_rsa_private_key_def SigningKey_from_private_def demo_rsa_def demo_environment_def preflight_signer_def signer_jwks_def
        demo_jwt_def first_key_def demo_k2_def ALG_RS256_def)
qed

lemma demo_all_discovered:
  "\<forall>(i, c) \<in> set (ips_providers (cf_identity_providers demo_config)). \<exists>xp. discover_provider demo_environment i c = Inr xp"
  by (simp add: demo_config_fields demo_discover_provider)

section \<open>The theorems on this start\<close>

theorem loaded_config_starts_witness:
  "\<exists>graph. load_config demo_config_lib ''/config'' = Inr demo_config \<and> build_graph demo_environment demo_config = Inr graph \<and>
     ac_admin_emails (hc_admin (gr_http_config graph)) = [''ann@x.org'']"
  using loaded_config_starts [of demo_environment "''/config''" demo_config demo_started_db demo_k2 3]
    demo_config_loads demo_laws demo_opened demo_signer_loads demo_all_discovered by (auto simp: demo_config_fields)

lemma demo_graph: "\<exists>graph. build_graph demo_environment demo_config = Inr graph"
proof -
  obtain xps reg where "configured_providers demo_environment demo_config = Inr (xps, reg)"
    using configured_registry [of demo_environment "''/config''" demo_config] demo_laws(1) demo_config_loads demo_all_discovered by auto
  then show ?thesis
    using loaded_settings(1-4) [of demo_environment "''/config''" demo_config] demo_laws demo_config_loads demo_opened demo_signer_loads
    by (auto simp: build_graph_def)
qed

theorem started_registry_witness:
  "\<exists>graph reg. build_graph demo_environment demo_config = Inr graph \<and> build_identity_providers (gr_setup graph) = Inr reg \<and>
     dom (registry_get reg) = {''corp''} \<and> registry_get reg (rg_default_id reg) \<noteq> None"
proof -
  from demo_graph obtain graph where "build_graph demo_environment demo_config = Inr graph" by blast
  with started_registry [of demo_environment "''/config''" demo_config graph] demo_laws(1) demo_config_loads show ?thesis
    by (auto simp: demo_config_fields)
qed

theorem startup_key_on_record_witness:
  "load_signer demo_environment demo_config demo_started_db = Inr (demo_k2, 3) \<and>
   (\<exists>row \<in> set (t_signing_keys demo_started_db). kk_status row = ''active'' \<and> kk_kid row = ''k2'')"
proof -
  have "key_kid (sg_key demo_k2) = ''k2''" by (simp add: demo_k2_def)
  with startup_key_on_record [OF demo_signer_loads] demo_signer_loads show ?thesis by force
qed

lemma demo_state_json: "state_json_ok demo_oidc_lib"
  by (auto simp: state_json_ok_def demo_oidc_lib_def split: option.splits)

definition demo_begin :: BeginAuthRequest where
  "demo_begin = BeginAuthRequest_default\<lparr>bq_state := ''st'', bq_nonce := ''n1''\<rparr>"

lemma demo_begins:
  "oidc_begin_auth demo_oidc_lib demo_oidc ''secret'' demo_begin =
     Inr \<lparr>ba_redirect_url = ''https://idp.x.org/auth'', ba_private_state = ''vsecret''\<rparr>"
  "\<exists>client. oidc_client demo_oidc_lib demo_oidc = Inr client" "op_pkce demo_oidc = ''required''"
proof -
  show "op_pkce demo_oidc = ''required''" by code_simp
  show "\<exists>client. oidc_client demo_oidc_lib demo_oidc = Inr client"
    by (simp add: oidc_client_def oidc_redirect_url_def demo_oidc_lib_def)
  show "oidc_begin_auth demo_oidc_lib demo_oidc ''secret'' demo_begin =
      Inr \<lparr>ba_redirect_url = ''https://idp.x.org/auth'', ba_private_state = ''vsecret''\<rparr>" by code_simp
qed


text \<open>The login of this provider: accepted with its nonce, refused with another one.\<close>

definition demo_callback :: "string \<Rightarrow> CompleteAuthRequest" where
  "demo_callback nonce = CompleteAuthRequest_default\<lparr>cq_code := ''code'', cq_nonce := nonce, cq_private_state := ''vsecret''\<rparr>"

lemma demo_oidc_login:
  "\<exists>identity. oidc_complete_auth demo_oidc_lib demo_oidc 0 (demo_callback ''n1'') = Inr identity \<and> ei_subject identity = ''s1'' \<and> ei_provider_id identity = ''corp''"
  "oidc_complete_auth demo_oidc_lib demo_oidc 0 (demo_callback ''n2'') = Inl Unauthenticated"
proof -
  have "map_sum (\<lambda>e. ()) (\<lambda>i. (ei_subject i, ei_provider_id i)) (oidc_complete_auth demo_oidc_lib demo_oidc 0 (demo_callback ''n1'')) = Inr (''s1'', ''corp'')"
    by code_simp
  then show "\<exists>identity. oidc_complete_auth demo_oidc_lib demo_oidc 0 (demo_callback ''n1'') = Inr identity \<and> ei_subject identity = ''s1'' \<and> ei_provider_id identity = ''corp''"
    by (cases "oidc_complete_auth demo_oidc_lib demo_oidc 0 (demo_callback ''n1'')") auto
  show "oidc_complete_auth demo_oidc_lib demo_oidc 0 (demo_callback ''n2'') = Inl Unauthenticated" by code_simp
qed

section \<open>A command\<close>

definition demo_ctl :: "(unit, unit, nat) CtlEnv" where
  "demo_ctl = \<lparr>ce_env = demo_environment, ce_secret_fs = \<lparr>sf_create_dir = None, sf_open = None, sf_write = None, sf_newline = None\<rparr>,
     ce_user_var = Some ''root'', ce_username_var = None\<rparr>"

definition demo_ctl_state :: CtlState where
  "demo_ctl_state = \<lparr>ct_world = demo_world, ct_files = Map.empty, ct_output = []\<rparr>"

definition demo_cli :: Cli where
  "demo_cli = \<lparr>cli_config = ''/config'', cli_db = None, cli_command = Command_User (User_Add \<lparr>ua_email = ''zoe@x.org'', ua_name = []\<rparr>)\<rparr>"

lemma demo_alone: "alone (ct_world demo_ctl_state)" "others_ok (ct_world demo_ctl_state)" "db_inv (w_db (ct_world demo_ctl_state))"
  using demo_world_facts by (simp_all add: alone_def demo_ctl_state_def demo_world_def)

definition demo_migrated_db :: Db where
  "demo_migrated_db = demo_served\<lparr>t_schema_migrations := [\<lparr>zr_version = BASELINE_VERSION, zr_applied_at = 50\<rparr>,
     \<lparr>zr_version = GROUP_GROUPS_VERSION, zr_applied_at = 50\<rparr>, \<lparr>zr_version = ADMIN_AUDIT_VERSION, zr_applied_at = 50\<rparr>]\<rparr>"

lemma demo_ctl_writes:
  "migrate 50 50 50 demo_served = Inr ((), demo_migrated_db)"
  "is_ok (audited_add_user ''authctl:root'' 50 ''j1'' \<lparr>au_email = ''zoe@x.org'', au_display_name = []\<rparr> ''j1'' 50 demo_migrated_db)"
  "authctl_actor (Some ''root'') None = ''authctl:root''"
  by code_simp+

lemma demo_ctl_runs: "\<exists>st'. ctl_run demo_ctl demo_cli demo_ctl_state = (Inr (), st')"
proof -
  from demo_ctl_writes(2) obtain user db where
    add: "audited_add_user ''authctl:root'' 50 ''j1'' \<lparr>au_email = ''zoe@x.org'', au_display_name = []\<rparr> ''j1'' 50 demo_migrated_db = Inr (user, db)"
    by (auto simp: is_ok_def split: sum.splits)
  show ?thesis
    using demo_ctl_writes(1) add
    by (simp add: ctl_run_def demo_cli_def open_env_def bind_op_def lift_result_def with_context_def context_op_def demo_config_loads
        demo_ctl_def demo_ctl_state_def migrate_world_def demo_world_def next_call_def return_op_def demo_ctl_writes(3) on_world_def
        AuditedStoreFactory_def db_write_def print_line_def en_open_demo Let_def)
qed

theorem authctl_changes_audited_witness:
  "\<exists>st'. ctl_run demo_ctl demo_cli demo_ctl_state = (Inr (), st') \<and>
     (w_db (ct_world st') = w_db (ct_world demo_ctl_state) \<or>
      (\<exists>n1 n2 n3 db. migrate n1 n2 n3 (w_db (ct_world demo_ctl_state)) = Inr ((), db) \<and>
         (w_db (ct_world st') = db \<or> (\<exists>W aid anow. run_audited ''authctl:root'' aid anow W db = Inr (w_db (ct_world st'))) \<or>
          (\<exists>rows. w_db (ct_world st') = db\<lparr>t_issued_tokens := t_issued_tokens db @ rows\<rparr>))))"
proof -
  obtain st' where run: "ctl_run demo_ctl demo_cli demo_ctl_state = (Inr (), st')" using demo_ctl_runs by blast
  have "authctl_actor (ce_user_var demo_ctl) (ce_username_var demo_ctl) = ''authctl:root''"
    using demo_ctl_writes(3) by (simp add: demo_ctl_def)
  with authctl_changes_audited [OF demo_alone(1) run] run show ?thesis by metis
qed


end
