(* ===== verification/Spec2Isabelle.thy ===== *)
theory Spec2Isabelle
  imports Admin_Examples Memory_Examples Startup_Examples
begin

text \<open>
  A verification of the Lore auth bridge.

  The bridge signs users in at external identity providers and issues tokens for Lore repositories.
  Its parts are the domain model and the services (\<open>src/crates/lore-auth-core\<close>), the adapters that
  implement the services' ports (\<open>src/crates/lore-auth-adapters\<close>: the SQLite store, the
  relationship-based authorization policy, the RS256 signer, identity providers), the inbound HTTP
  and gRPC servers (\<open>lore-auth-inbound\<close>), the server binary that wires them and a command line tool.

  \<^bold>\<open>Theories.\<close>
  \<^item> Prelude: results and the \<open>?\<close> operator, operations on a store, the string functions of the
    standard library, durations and \<open>i64\<close> timestamps at their width.
  \<^item> Reachability: the contract of a graph search as a locale, interpreted by the recursive common
    table expressions of the store and by the loop of the policy.
  \<^item> Core\_Model: \<open>model.rs\<close> and \<open>lib.rs\<close>, the errors, records, roles, identifiers and validation.
  \<^item> Sqlite\_Store: the tables of \<open>migrations.rs\<close> as lists of rows with their unique indexes and
    foreign keys, the statements the adapter uses, and the schema invariant.
  \<^item> Sqlite\_Accounts, Sqlite\_Groups, Sqlite\_Resources, Sqlite\_Grants, Sqlite\_State,
    Sqlite\_Devices, Sqlite\_Tokens, Sqlite\_Audited: one theory per file of \<open>sqlite/\<close>, one definition
    per operation, with the keys that unique indexes promise as a locale and the contract of an
    audited write as another.
  \<^item> Sqlite\_System: every write of the adapter as a step relation, the invariant of all reachable
    databases, and the locale of credentials that are used once.
  \<^item> Rebac\_Authz: \<open>authz.rs\<close> and \<open>permissions.rs\<close>, the tuple readers, the snapshot of a check and
    the policy, against a declarative meaning of the relations.
  \<^item> Ports, Core\_Tokens, Core\_Device, Core\_Login: the ports as records of operations over a world,
    and the services of \<open>service/\<close> over them; a locale per service states what it needs of its ports.
  \<^item> Rs256: \<open>rs256.rs\<close>, claims, signing, verification, key generation and loading.
  \<^item> Providers: \<open>idpregistry.rs\<close>, \<open>staticidp.rs\<close> and \<open>device.rs\<close> of the adapters.
  \<^item> Sqlite\_Ports: the world of the running server and the service graph of the server's \<open>main.rs\<close>;
    the locales of the services are interpreted on it.
  \<^item> Rate\_Limit: \<open>inbound/src/ratelimit.rs\<close>, the limiter of the gRPC server.
  \<^item> Server\_Flows: the theorems about the services as a whole.
  \<^item> Grpc\_Server, Grpc\_Flows: \<open>status.rs\<close>, \<open>peer.rs\<close>, \<open>grpcauth.rs\<close> and \<open>grpcrebac.rs\<close>, every method,
    the allowlist and rate limit layers as the server stacks them, and the theorems about calls.
  \<^item> Http\_Base, Http\_Server, Http\_Router, Http\_Flows: \<open>httpserver/\<close>, its responses, cookies, forms,
    middleware, handlers and router; the locale \<open>page_world\<close> and its extensions state what handlers
    need of the services, and are interpreted on the service graph; Http\_Examples has the witnesses.
  \<^item> Admin\_Base, Civil\_Date, Admin\_Console, Admin\_Flows: \<open>admin/\<close>, the guard, forms, pages and the
    dates it prints; Admin\_Examples has the witnesses.
  \<^item> Memory\_Store, Memory\_Ops, Memory\_State, Memory\_Audited: \<open>memory/\<close>, the in-memory store that the
    tests use in place of SQLite, plain and audited; the order in which a hash map iterates is an
    argument. Memory\_System has its invariant and interprets the locale of credentials that are used
    once, Memory\_Double compares its answers with those of SQLite, Memory\_Examples has the witnesses.
  \<^item> Server\_Config, Oidc: \<open>config.rs\<close> and \<open>oidc.rs\<close> of the adapters, the configuration file and the OpenID
    Connect provider.
  \<^item> Server\_Startup: the start of the server in \<open>main.rs\<close>, which builds the service graph of
    Sqlite\_Ports from the configuration.
  \<^item> Authctl, Authctl\_Flows: the command line tool and its commands; the locale \<open>ctl_steps\<close> states what a
    command needs of the steps of the world, and is interpreted three times. Startup\_Examples has the
    witnesses of the configuration, the provider, the start and the commands.

  \<^bold>\<open>State and effects.\<close> A conn-level operation takes the clock readings, fresh ids and random
  secrets it draws as arguments, in the order it draws them, and returns an error or a result with
  the database after it; a transaction that fails leaves the database as it was. A service operation
  runs over a world and returns its result with the world after it, so that what was committed
  before an error stays. In Sqlite\_Ports the world holds the database, the values that calls draw,
  and a function that applies the writes of other requests before every call; the theorems hold for
  every such function that moves the database along the steps of the store, which is every
  interleaving, because the store serialises its calls on one connection.

  \<^bold>\<open>What is shown.\<close> Logins succeed only for active users and verified invitations; credentials that
  may be used once are used once; nesting stays acyclic and the database keeps its constraints under
  every interleaving; administrative writes commit with their audit record or not at all; the policy
  and the list of accessible resources agree exactly with the grants that reach a user; unknown roles
  fail closed; the search for groups ends; tokens verify exactly until they expire; key generation
  is all or nothing and generated keys load; an authorization token is justified by grants that held
  while it was issued; a device or session code delivers one token, and an approved device gets it;
  both servers refine the store under every order of requests; forms act only for a live session
  with a fresh CSRF token from the own origin and cannot be replayed; a login state completes one
  callback; logging out ends a session; the console is hidden from everybody but administrators,
  audits what it changes and never disables its last administrator when requests come one at a time;
  the in-memory store keeps its invariant, decides access exactly by the grants and answers calls on
  sessions and devices as SQLite does; a login at an OpenID Connect provider is accepted exactly for a
  verified token with its nonce, subject and trusted domain, and proves the PKCE verifier of its start;
  a configuration is loaded exactly if it satisfies the rules, and then nothing in it can make the
  start fail; a started server has exactly the configured providers and signs with a key on record;
  commands of the administrator refine the store and leave an audit record of the operator.

  \<^bold>\<open>Bounds.\<close> Recursion is structural or has a termination proof; the only bound on a loop is the
  number of passes of the group search, proved to be enough. Timestamps are \<open>i64\<close> with wrap-around
  written out; lifetimes are nanoseconds; tokens count seconds.

  \<^bold>\<open>Parameters.\<close> SHA-256, JSON, base64, RSA, the JWT crate, URL parsing, the relation resolver of the
  authz crate, the OpenID Connect crate, YAML, address parsing, identity providers, the argument parser
  and the operating system are parameters; what a theorem needs of them is a named hypothesis
  (\<open>jwt_ok\<close>, \<open>resolver_ok\<close>, \<open>resolver_answers\<close>, \<open>signs_all\<close>, \<open>fs_ok\<close>, \<open>order_ok\<close>, \<open>state_json_ok\<close>, \<open>yaml_ok\<close>,
  \<open>nets_ok\<close>, \<open>url_hosts_ok\<close>), which the examples instantiate.

  \<^bold>\<open>Not modelled.\<close> The text of the console's templates and the claim probe, a diagnostic client of a
  running server; opening the database file, listeners, signals, logging and shutdown are I/O; the
  protobuf code is generated; tests, examples and benchmarks are not part of the program. The command
  line generates a key in one step of the database, without writes of others in between.
\<close>

end
